(* ===== verification/Prelude.thy ===== *)
theory Prelude
  imports Main "HOL-Library.Char_ord" "HOL-Library.List_Lexorder" "HOL-Library.Sublist"
    "HOL-Library.Word"
begin

text \<open>
  Shared vocabulary of the development: the collections of rewrite and introduction rules the
  component theories extend, C++ exceptions as values of a sum type, nullable pointers, the
  \<^verbatim>\<open><cctype>\<close> classifications of the "C" locale on bytes, and generic list lemmas.
\<close>

section \<open>Rule collections\<close>

named_theorems json_simps \<open>lookups in JSON objects after updates\<close>
named_theorems run_simps \<open>running the effectful operations\<close>
named_theorems emits_intros \<open>which downstream calls an operation can make\<close>
named_theorems replies_intros \<open>how many HTTP responses an operation sends\<close>

section \<open>Exceptions and pointers\<close>

text \<open>
  The code distinguishes two families of exceptions: \<^verbatim>\<open>Poco::Exception\<close> (caught by
  \<^verbatim>\<open>RESTAPIHandler::handleRequest\<close>) and the other standard exceptions.  A computation that can
  throw returns a value of the sum type, with the exception on the left.
\<close>

datatype cpp_exn = PocoException | StdException

type_synonym 'a exn = "cpp_exn + 'a"

fun is_thrown :: "'a exn \<Rightarrow> bool" where
  "is_thrown (Inl _) = True"
| "is_thrown (Inr _) = False"

text \<open>A \<^verbatim>\<open>Poco::SharedPtr\<close> that may be null.\<close>

type_synonym 'a ptr = "'a option"

section \<open>Bytes and characters\<close>

type_synonym byte = "8 word"
type_synonym uint32 = "32 word"
type_synonym uint64 = "64 word"

abbreviation chr_code :: "char \<Rightarrow> nat" where
  "chr_code c \<equiv> of_char c"

definition is_digit :: "char \<Rightarrow> bool" where
  "is_digit c \<longleftrightarrow> 48 \<le> chr_code c \<and> chr_code c \<le> 57"

definition is_upper :: "char \<Rightarrow> bool" where
  "is_upper c \<longleftrightarrow> 65 \<le> chr_code c \<and> chr_code c \<le> 90"

definition is_lower :: "char \<Rightarrow> bool" where
  "is_lower c \<longleftrightarrow> 97 \<le> chr_code c \<and> chr_code c \<le> 122"

definition is_xdigit :: "char \<Rightarrow> bool" where
  "is_xdigit c \<longleftrightarrow> is_digit c \<or> (65 \<le> chr_code c \<and> chr_code c \<le> 70)
     \<or> (97 \<le> chr_code c \<and> chr_code c \<le> 102)"

definition is_lower_xdigit :: "char \<Rightarrow> bool" where
  "is_lower_xdigit c \<longleftrightarrow> is_digit c \<or> (97 \<le> chr_code c \<and> chr_code c \<le> 102)"

definition is_space :: "char \<Rightarrow> bool" where
  "is_space c \<longleftrightarrow> chr_code c = 32 \<or> (9 \<le> chr_code c \<and> chr_code c \<le> 13)"

definition is_alnum :: "char \<Rightarrow> bool" where
  "is_alnum c \<longleftrightarrow> is_digit c \<or> is_upper c \<or> is_lower c"

definition to_lower :: "char \<Rightarrow> char" where
  "to_lower c = (if is_upper c then char_of (chr_code c + 32) else c)"

definition to_upper :: "char \<Rightarrow> char" where
  "to_upper c = (if is_lower c then char_of (chr_code c - 32) else c)"

lemmas ctype_defs = is_digit_def is_upper_def is_lower_def is_xdigit_def is_lower_xdigit_def
  is_space_def is_alnum_def to_lower_def to_upper_def

lemma chr_code_bound: "chr_code c < 256"
  by simp

lemma chr_code_char_of [simp]: "n < 256 \<Longrightarrow> chr_code (char_of n) = n"
  by simp

lemma to_lower_idem [simp]: "to_lower (to_lower c) = to_lower c"
  by (auto simp: ctype_defs)

lemma to_lower_digit [simp]: "is_digit c \<Longrightarrow> to_lower c = c"
  by (auto simp: ctype_defs)

lemma to_lower_xdigit: "is_xdigit c \<Longrightarrow> is_lower_xdigit (to_lower c)"
  by (auto simp: ctype_defs)

lemma lower_xdigit_xdigit: "is_lower_xdigit c \<Longrightarrow> is_xdigit c"
  by (auto simp: ctype_defs)

lemma to_lower_lower_xdigit [simp]: "is_lower_xdigit c \<Longrightarrow> to_lower c = c"
  by (auto simp: ctype_defs)

lemma lower_xdigit_not_sep: "is_lower_xdigit c \<Longrightarrow> c \<noteq> CHR '':'' \<and> c \<noteq> CHR ''-''"
  by (auto simp: ctype_defs)

section \<open>Lists\<close>

lemma map_id_on: "(\<And>x. x \<in> set xs \<Longrightarrow> f x = x) \<Longrightarrow> map f xs = xs"
  by (simp add: map_idI)

lemma filter_id_on: "(\<And>x. x \<in> set xs \<Longrightarrow> P x) \<Longrightarrow> filter P xs = xs"
  by simp

lemma length12E:
  assumes "length xs = 12"
  obtains a b c d e f g h i j k l where "xs = [a, b, c, d, e, f, g, h, i, j, k, l]"
  using assms by (auto simp: length_Suc_conv eval_nat_numeral)

end
