(* ===== verification/Json.thy ===== *)
theory Json
  imports Prelude
begin

text \<open>
  JSON documents as the code handles them.  \<^verbatim>\<open>Poco::Dynamic::Var\<close> values produced by
  \<^verbatim>\<open>Poco::JSON::Parser\<close> are the datatype \<open>json\<close>; a \<^verbatim>\<open>Poco::JSON::Object\<close> is the finite map of
  its members kept in key order (the container the code iterates with \<^verbatim>\<open>getNames\<close>), and a
  \<^verbatim>\<open>Poco::JSON::Array\<close> is the list of its elements.  A floating-point number is never computed
  with and is kept as its literal.
\<close>

section \<open>Documents\<close>

datatype json =
    JNull
  | JBool bool
  | JInt int
  | JDouble string
  | JString string
  | JArray "json list"
  | JObject "(string \<times> json) list"

type_synonym jobj = "(string \<times> json) list"

fun isString :: "json \<Rightarrow> bool" where
  "isString (JString _) = True"
| "isString _ = False"

fun isBool :: "json \<Rightarrow> bool" where
  "isBool (JBool _) = True"
| "isBool _ = False"

fun asArray :: "json \<Rightarrow> json list ptr" where
  "asArray (JArray xs) = Some xs"
| "asArray _ = None"

fun asObject :: "json \<Rightarrow> jobj ptr" where
  "asObject (JObject o') = Some o'"
| "asObject _ = None"

section \<open>Objects\<close>

definition has :: "jobj \<Rightarrow> string \<Rightarrow> bool" where
  "has ob k \<longleftrightarrow> map_of ob k \<noteq> None"

text \<open>\<^verbatim>\<open>Object::get\<close> returns an empty \<^verbatim>\<open>Var\<close> for an absent key.\<close>

definition getVar :: "jobj \<Rightarrow> string \<Rightarrow> json" where
  "getVar ob k = (case map_of ob k of None \<Rightarrow> JNull | Some v \<Rightarrow> v)"

definition isNull :: "jobj \<Rightarrow> string \<Rightarrow> bool" where
  "isNull ob k \<longleftrightarrow> getVar ob k = JNull"

definition getArray :: "jobj \<Rightarrow> string \<Rightarrow> json list ptr" where
  "getArray ob k = asArray (getVar ob k)"

definition getObject :: "jobj \<Rightarrow> string \<Rightarrow> jobj ptr" where
  "getObject ob k = asObject (getVar ob k)"

definition isArray :: "jobj \<Rightarrow> string \<Rightarrow> bool" where
  "isArray ob k \<longleftrightarrow> getArray ob k \<noteq> None"

definition isObject :: "jobj \<Rightarrow> string \<Rightarrow> bool" where
  "isObject ob k \<longleftrightarrow> getObject ob k \<noteq> None"

text \<open>
  The code's test for a string member, \<^verbatim>\<open>has(k) && !isNull(k) && get(k).isString()\<close>, followed by
  \<^verbatim>\<open>getValue<std::string>(k)\<close>; likewise for a Boolean (\<^verbatim>\<open>get(k).type() == typeid(bool)\<close>).
\<close>

definition getString :: "jobj \<Rightarrow> string \<Rightarrow> string option" where
  "getString ob k = (case getVar ob k of JString s \<Rightarrow> Some s | _ \<Rightarrow> None)"

definition getBool :: "jobj \<Rightarrow> string \<Rightarrow> bool option" where
  "getBool ob k = (case getVar ob k of JBool b \<Rightarrow> Some b | _ \<Rightarrow> None)"

definition getNames :: "jobj \<Rightarrow> string list" where
  "getNames ob = map fst ob"

fun set_key :: "string \<Rightarrow> json \<Rightarrow> jobj \<Rightarrow> jobj" where
  "set_key k v [] = [(k, v)]"
| "set_key k v (m # ms) =
     (if fst m = k then (k, v) # ms
      else if k < fst m then (k, v) # m # ms
      else m # set_key k v ms)"

definition remove_key :: "string \<Rightarrow> jobj \<Rightarrow> jobj" where
  "remove_key k ob = filter (\<lambda>m. fst m \<noteq> k) ob"

text \<open>A change of the elements of an array member, in place.\<close>

definition update_array :: "string \<Rightarrow> (json \<Rightarrow> json) \<Rightarrow> jobj \<Rightarrow> jobj" where
  "update_array k f ob = (case getArray ob k of None \<Rightarrow> ob | Some xs \<Rightarrow> set_key k (JArray (map f xs)) ob)"

text \<open>The members are distinct and in key order, at every level.\<close>

definition wf_obj :: "jobj \<Rightarrow> bool" where
  "wf_obj ob \<longleftrightarrow> sorted_wrt (<) (map fst ob)"

section \<open>The keyed-store contract\<close>

text \<open>
  What the clients of \<^verbatim>\<open>Poco::JSON::Object\<close> rely on: a lookup after a \<^verbatim>\<open>set\<close> or \<^verbatim>\<open>remove\<close>, and the
  well-formedness both preserve.
\<close>

locale keyed_store =
  fixes look :: "'s \<Rightarrow> 'k \<Rightarrow> 'v option"
    and put :: "'k \<Rightarrow> 'v \<Rightarrow> 's \<Rightarrow> 's"
    and del :: "'k \<Rightarrow> 's \<Rightarrow> 's"
    and keys :: "'s \<Rightarrow> 'k set"
    and ok :: "'s \<Rightarrow> bool"
  assumes look_put: "look (put k v s) k' = (if k' = k then Some v else look s k')"
    and look_del: "look (del k s) k' = (if k' = k then None else look s k')"
    and keys_look: "k \<in> keys s \<longleftrightarrow> look s k \<noteq> None"
    and ok_put: "ok s \<Longrightarrow> ok (put k v s)"
    and ok_del: "ok s \<Longrightarrow> ok (del k s)"
begin

lemma keys_put: "keys (put k v s) = insert k (keys s)"
  by (auto simp: keys_look look_put split: if_splits)

lemma keys_del: "keys (del k s) = keys s - {k}"
  by (auto simp: keys_look look_del split: if_splits)

lemma put_put_look: "look (put k v (put k w s)) = look (put k v s)"
  by (rule ext) (simp add: look_put)

lemma put_frame: "k' \<noteq> k \<Longrightarrow> look (put k v s) k' = look s k'"
  by (simp add: look_put)

lemma del_frame: "k' \<noteq> k \<Longrightarrow> look (del k s) k' = look s k'"
  by (simp add: look_del)

text \<open>A store built by a list of updates from an empty one holds exactly the written keys.\<close>

lemma keys_puts: "keys (fold (\<lambda>(k, v). put k v) kvs s) = fst ` set kvs \<union> keys s"
  by (induction kvs arbitrary: s) (auto simp: keys_put)

end

lemma map_of_set_key: "map_of (set_key k v ob) k' = (if k' = k then Some v else map_of ob k')"
  by (induction ob) (auto split: if_splits)

lemma map_of_remove_key: "map_of (remove_key k ob) k' = (if k' = k then None else map_of ob k')"
  by (induction ob) (auto simp: remove_key_def)

lemma fst_set_set_key: "set (map fst (set_key k v ob)) = insert k (set (map fst ob))"
  by (induction ob) auto

lemma wf_obj_set_key: "wf_obj ob \<Longrightarrow> wf_obj (set_key k v ob)"
  unfolding wf_obj_def
proof (induction ob)
  case Nil
  then show ?case by simp
next
  case (Cons m ms)
  then have "sorted_wrt (<) (map fst (set_key k v ms))" by simp
  with Cons.prems show ?case
    using fst_set_set_key [of k v ms] by (auto intro: order.strict_trans)
qed

lemma wf_obj_remove_key: "wf_obj ob \<Longrightarrow> wf_obj (remove_key k ob)"
  unfolding wf_obj_def remove_key_def by (induction ob) auto

interpretation obj: keyed_store map_of set_key remove_key "\<lambda>ob. set (getNames ob)" wf_obj
proof unfold_locales
  show "map_of (set_key k v s) k' = (if k' = k then Some v else map_of s k')" for k v s k'
    by (rule map_of_set_key)
  show "map_of (remove_key k s) k' = (if k' = k then None else map_of s k')" for k s k'
    by (rule map_of_remove_key)
  show "k \<in> set (getNames s) \<longleftrightarrow> map_of s k \<noteq> None" for k and s :: jobj
    by (auto simp: getNames_def map_of_eq_None_iff)
  show "wf_obj (set_key k v s)" if "wf_obj s" for k v s
    using that by (rule wf_obj_set_key)
  show "wf_obj (remove_key k s)" if "wf_obj s" for k s
    using that by (rule wf_obj_remove_key)
qed

lemma has_set_key [json_simps]: "has (set_key k v ob) k' \<longleftrightarrow> k' = k \<or> has ob k'"
  by (simp add: has_def obj.look_put)

lemma has_remove_key [json_simps]: "has (remove_key k ob) k' \<longleftrightarrow> k' \<noteq> k \<and> has ob k'"
  by (simp add: has_def obj.look_del)

lemma getVar_set_key [json_simps]:
  "getVar (set_key k v ob) k' = (if k' = k then v else getVar ob k')"
  by (simp add: getVar_def obj.look_put)

lemma getVar_remove_key [json_simps]:
  "getVar (remove_key k ob) k' = (if k' = k then JNull else getVar ob k')"
  by (simp add: getVar_def obj.look_del)

lemma has_getNames: "has ob k \<longleftrightarrow> k \<in> set (getNames ob)"
  using obj.keys_look by (simp add: has_def)

lemma getObject_has: "getObject ob k = Some x \<Longrightarrow> has ob k"
  by (auto simp: getObject_def getVar_def has_def split: option.splits)

lemma getArray_has: "getArray ob k = Some x \<Longrightarrow> has ob k"
  by (auto simp: getArray_def getVar_def has_def split: option.splits)

lemma asObject_Some [simp]: "asObject j = Some x \<longleftrightarrow> j = JObject x"
  by (cases j) auto

lemma asArray_Some [simp]: "asArray j = Some x \<longleftrightarrow> j = JArray x"
  by (cases j) auto

lemma isString_iff: "isString j \<longleftrightarrow> (\<exists>s. j = JString s)"
  by (cases j) auto

lemma getString_iff: "getString ob k = Some s \<longleftrightarrow> has ob k \<and> \<not> isNull ob k \<and> getVar ob k = JString s"
  by (auto simp: getString_def has_def isNull_def getVar_def split: json.splits option.splits)

lemma getBool_iff: "getBool ob k = Some b \<longleftrightarrow> has ob k \<and> \<not> isNull ob k \<and> getVar ob k = JBool b"
  by (auto simp: getBool_def has_def isNull_def getVar_def split: json.splits option.splits)

lemma getArray_set_key [json_simps]:
  "getArray (set_key k v ob) k' = (if k' = k then asArray v else getArray ob k')"
  "getArray (remove_key k ob) k' = (if k' = k then None else getArray ob k')"
  "getObject (set_key k v ob) k' = (if k' = k then asObject v else getObject ob k')"
  "getObject (remove_key k ob) k' = (if k' = k then None else getObject ob k')"
  by (simp_all add: getArray_def getObject_def json_simps)

lemma getVar_update_array [json_simps]:
  "k' \<noteq> k \<Longrightarrow> getVar (update_array k f ob) k' = getVar ob k'"
  "k' \<noteq> k \<Longrightarrow> has (update_array k f ob) k' = has ob k'"
  by (auto simp: update_array_def json_simps split: option.splits)

end
