(* ===== verification/Platform.thy ===== *)
theory Platform
  imports Json
begin

text \<open>
  The third-party code the service calls and this repository does not contain: Poco's string
  functions, \<^verbatim>\<open>Poco::Dynamic::Var\<close> conversions, the JSON stringifier, the date parser and formatter,
  and the time-zone library behind \<^verbatim>\<open>date::locate_zone\<close>.  They are the fields of the record
  \<open>platform\<close>, an argument of every definition that calls them.  What a property needs of them is
  one of the named hypotheses below, each a documented behaviour.  \<open>ref_platform\<close> is a concrete
  platform that satisfies them; the witnesses run on it.
\<close>

section \<open>The parameters\<close>

text \<open>
  A time zone: the local time of a UTC instant, and the UTC instant of a local time with
  \<^verbatim>\<open>choose::earliest\<close>; both in seconds since the epoch.
\<close>

record tzone =
  tz_to_local :: "int \<Rightarrow> int"
  tz_to_sys :: "int \<Rightarrow> int"

text \<open>
  A \<^verbatim>\<open>Poco::DateTime\<close> is its number of microseconds since the epoch.
  \<^item> \<open>po_toLower\<close>, \<open>po_toUpper\<close>, \<open>po_trim\<close>: \<^verbatim>\<open>Poco::toLower\<close>, \<^verbatim>\<open>toUpper\<close>, \<^verbatim>\<open>trimInPlace\<close>
  \<^item> \<open>po_replace s from to\<close>: \<^verbatim>\<open>Poco::replaceInPlace\<close>; \<open>po_icompare\<close>: \<^verbatim>\<open>Poco::icompare\<close>
  \<^item> \<open>po_tokens s seps\<close>: \<^verbatim>\<open>Poco::StringTokenizer\<close> without options
  \<^item> \<open>po_toString\<close>, \<open>po_toInt\<close>, \<open>po_toInt64\<close>, \<open>po_toUInt64\<close>: \<^verbatim>\<open>Var::convert<T>\<close>
  \<^item> \<open>po_stringify\<close>, \<open>po_condense\<close>: \<^verbatim>\<open>Poco::JSON::Stringifier\<close>
  \<^item> \<open>po_format_hhmm h m\<close>: \<^verbatim>\<open>Poco::format("%02d:%02d", h, m)\<close>
  \<^item> \<open>po_parse fmt s\<close>: \<^verbatim>\<open>DateTimeParser::tryParse\<close>; \<open>po_format dt fmt\<close>: \<^verbatim>\<open>DateTimeFormatter::format\<close>
  \<^item> \<open>po_dayOfWeek\<close>, \<open>po_ymd\<close>: the calendar fields of a \<^verbatim>\<open>DateTime\<close>
  \<^item> \<open>po_plusSeconds dt s\<close>: \<^verbatim>\<open>dt + Poco::Timespan(s, 0)\<close>
  \<^item> \<open>po_locate_zone\<close>: \<^verbatim>\<open>date::locate_zone\<close>, which throws for an unknown name
  \<^item> \<open>po_format_local\<close>: \<^verbatim>\<open>date::format("%Y-%m-%d %H:%M:%S", localSec)\<close>
  \<^item> \<open>po_nlohmann\<close>: what \<^verbatim>\<open>nlohmann::json::parse\<close> reads from the text the stringifier writes;
    \<open>po_reparse\<close>: what \<^verbatim>\<open>Poco::JSON::Parser\<close> reads from a \<^verbatim>\<open>dump()\<close>; \<open>None\<close> when they throw
  \<^item> \<open>po_nl_parse\<close>: \<^verbatim>\<open>nlohmann::json::parse\<close> of a text; \<open>po_trunc\<close>: a floating-point literal cast to an integer
\<close>

record platform =
  po_toLower :: "string \<Rightarrow> string"
  po_toUpper :: "string \<Rightarrow> string"
  po_trim :: "string \<Rightarrow> string"
  po_replace :: "string \<Rightarrow> string \<Rightarrow> string \<Rightarrow> string"
  po_icompare :: "string \<Rightarrow> string \<Rightarrow> int"
  po_tokens :: "string \<Rightarrow> string \<Rightarrow> string list"
  po_toString :: "json \<Rightarrow> string exn"
  po_toInt :: "json \<Rightarrow> int exn"
  po_toInt64 :: "json \<Rightarrow> int exn"
  po_toUInt64 :: "json \<Rightarrow> int exn"
  po_stringify :: "json \<Rightarrow> string"
  po_condense :: "json \<Rightarrow> string"
  po_format_hhmm :: "int \<Rightarrow> int \<Rightarrow> string"
  po_parse :: "string \<Rightarrow> string \<Rightarrow> int option"
  po_format :: "int \<Rightarrow> string \<Rightarrow> string"
  po_dayOfWeek :: "int \<Rightarrow> int"
  po_ymd :: "int \<Rightarrow> int \<times> int \<times> int"
  po_plusSeconds :: "int \<Rightarrow> int \<Rightarrow> int"
  po_locate_zone :: "string \<Rightarrow> tzone option"
  po_format_local :: "int \<Rightarrow> string"
  po_nlohmann :: "json \<Rightarrow> json option"
  po_reparse :: "json \<Rightarrow> json option"
  po_nl_parse :: "string \<Rightarrow> json option"
  po_trunc :: "string \<Rightarrow> int"

section \<open>Documented behaviour\<close>

definition trim_ws :: "string \<Rightarrow> string" where
  "trim_ws s = rev (dropWhile is_space (rev (dropWhile is_space s)))"

definition dig :: "int \<Rightarrow> char" where
  "dig n = char_of (nat (48 + n))"

definition two_digits :: "int \<Rightarrow> string" where
  "two_digits n = [dig (n div 10), dig (n mod 10)]"

definition int32 :: "int \<Rightarrow> bool" where
  "int32 i \<longleftrightarrow> - (2 ^ 31) \<le> i \<and> i < 2 ^ 31"

definition int64 :: "int \<Rightarrow> bool" where
  "int64 i \<longleftrightarrow> - (2 ^ 63) \<le> i \<and> i < 2 ^ 63"

text \<open>\<^verbatim>\<open>toLower\<close> and \<^verbatim>\<open>toUpper\<close> map every byte with the ASCII case tables.\<close>

definition lower_doc :: "platform \<Rightarrow> bool" where
  "lower_doc P \<longleftrightarrow> (\<forall>s. po_toLower P s = map to_lower s)"

definition upper_doc :: "platform \<Rightarrow> bool" where
  "upper_doc P \<longleftrightarrow> (\<forall>s. po_toUpper P s = map to_upper s)"

text \<open>\<^verbatim>\<open>trimInPlace\<close> removes leading and trailing white space.\<close>

definition trim_doc :: "platform \<Rightarrow> bool" where
  "trim_doc P \<longleftrightarrow> (\<forall>s. po_trim P s = trim_ws s)"

text \<open>\<^verbatim>\<open>replaceInPlace\<close> of a one-character pattern by the empty string drops every occurrence.\<close>

definition replace_doc :: "platform \<Rightarrow> bool" where
  "replace_doc P \<longleftrightarrow> (\<forall>s c. po_replace P s [c] [] = filter (\<lambda>x. x \<noteq> c) s)"

text \<open>\<^verbatim>\<open>%02d\<close> prints a number of at most two digits with a leading zero.\<close>

definition hhmm_doc :: "platform \<Rightarrow> bool" where
  "hhmm_doc P \<longleftrightarrow> (\<forall>h m. 0 \<le> h \<and> h < 100 \<and> 0 \<le> m \<and> m < 100 \<longrightarrow>
     po_format_hhmm P h m = two_digits h @ '':'' @ two_digits m)"

text \<open>
  A conversion of a \<^verbatim>\<open>Var\<close> to the type it already holds returns the value; a Boolean prints as
  \<^verbatim>\<open>true\<close> or \<^verbatim>\<open>false\<close>.
\<close>

definition conv_doc :: "platform \<Rightarrow> bool" where
  "conv_doc P \<longleftrightarrow> (\<forall>s. po_toString P (JString s) = Inr s) \<and>
     (\<forall>i. int32 i \<longrightarrow> po_toInt P (JInt i) = Inr i) \<and>
     (\<forall>i. int64 i \<longrightarrow> po_toInt64 P (JInt i) = Inr i) \<and>
     (\<forall>i. 0 \<le> i \<and> i < 2 ^ 64 \<longrightarrow> po_toUInt64 P (JInt i) = Inr i) \<and>
     (\<forall>b. po_toString P (JBool b) = Inr (if b then ''true'' else ''false''))"

text \<open>\<^verbatim>\<open>icompare\<close> is 0 exactly for strings that differ in case only.\<close>

definition icompare_doc :: "platform \<Rightarrow> bool" where
  "icompare_doc P \<longleftrightarrow> (\<forall>s t. po_icompare P s t = 0 \<longleftrightarrow> map to_lower s = map to_lower t)"

text \<open>
  UTF-8 of RFC 3629: \<open>utf8_from n lo hi s\<close> has \<open>n\<close> bytes of a character still to come, the first of them
  between \<open>lo\<close> and \<open>hi\<close>.
\<close>

fun utf8_from :: "nat \<Rightarrow> nat \<Rightarrow> nat \<Rightarrow> string \<Rightarrow> bool" where
  "utf8_from n lo hi [] = (n = 0)"
| "utf8_from (Suc n) lo hi (c # s) = (lo \<le> chr_code c \<and> chr_code c \<le> hi \<and> utf8_from n 0x80 0xBF s)"
| "utf8_from 0 lo hi (c # s) = (let b = chr_code c in
     if b < 0x80 then utf8_from 0 0x80 0xBF s
     else if 0xC2 \<le> b \<and> b \<le> 0xDF then utf8_from 1 0x80 0xBF s
     else if b = 0xE0 then utf8_from 2 0xA0 0xBF s
     else if b = 0xED then utf8_from 2 0x80 0x9F s
     else if 0xE1 \<le> b \<and> b \<le> 0xEF then utf8_from 2 0x80 0xBF s
     else if b = 0xF0 then utf8_from 3 0x90 0xBF s
     else if 0xF1 \<le> b \<and> b \<le> 0xF3 then utf8_from 3 0x80 0xBF s
     else b = 0xF4 \<and> utf8_from 3 0x80 0x8F s)"

definition valid_utf8 :: "string \<Rightarrow> bool" where
  "valid_utf8 s \<longleftrightarrow> utf8_from 0 0x80 0xBF s"

text \<open>
  Both JSON libraries keep the members of an object in key order, their integers have 64 bits and their
  strings are UTF-8.  So a document with its members in that order, no floating-point number, integers
  that fit a signed or an unsigned 64-bit type, and strings and keys in UTF-8 passes through text and
  either parser unchanged.
\<close>

fun wf_json :: "json \<Rightarrow> bool" where
  "wf_json (JArray xs) = list_all wf_json xs"
| "wf_json (JObject ms) = (wf_obj ms \<and> list_all (\<lambda>m. valid_utf8 (fst m) \<and> wf_json (snd m)) ms)"
| "wf_json (JDouble _) = False"
| "wf_json (JInt i) = (- (2 ^ 63) \<le> i \<and> i < 2 ^ 64)"
| "wf_json (JString s) = valid_utf8 s"
| "wf_json _ = True"

definition reparse_doc :: "platform \<Rightarrow> bool" where
  "reparse_doc P \<longleftrightarrow> (\<forall>j. wf_json j \<longrightarrow> po_nlohmann P j = Some j \<and> po_reparse P j = Some j)"

text \<open>
  A \<^verbatim>\<open>StringTokenizer\<close> with one separator gives back the pieces a text was joined from, when none of
  them holds the separator and the last one is not empty.
\<close>

fun join_with :: "char \<Rightarrow> string list \<Rightarrow> string" where
  "join_with sep [] = []"
| "join_with sep [p] = p"
| "join_with sep (p # q # ps) = p @ sep # join_with sep (q # ps)"

definition tokens_doc :: "platform \<Rightarrow> bool" where
  "tokens_doc P \<longleftrightarrow> (\<forall>sep ps. ps \<noteq> [] \<and> last ps \<noteq> [] \<and> (\<forall>p \<in> set ps. sep \<notin> set p) \<longrightarrow>
     po_tokens P (join_with sep ps) [sep] = ps)"

text \<open>Adding less than \<open>2 ^ 32\<close> seconds to a date does not leave the range of \<^verbatim>\<open>Poco::Timestamp\<close>.\<close>

definition plus_doc :: "platform \<Rightarrow> bool" where
  "plus_doc P \<longleftrightarrow> (\<forall>us s. 0 \<le> s \<and> s < 2 ^ 32 \<longrightarrow> po_plusSeconds P us s = us + s * 1000000)"

text \<open>The zone \<open>z\<close> is at a fixed whole-minute offset of less than a day from UTC.\<close>

definition fixed_offset :: "tzone \<Rightarrow> int \<Rightarrow> bool" where
  "fixed_offset z m \<longleftrightarrow> (\<forall>t. tz_to_local z t = t + 60 * m) \<and> (\<forall>l. tz_to_sys z l = l - 60 * m)
     \<and> - 1440 < m \<and> m < 1440"

lemma lower_docD [simp]: "lower_doc P \<Longrightarrow> po_toLower P s = map to_lower s"
  by (simp add: lower_doc_def)

lemma upper_docD [simp]: "upper_doc P \<Longrightarrow> po_toUpper P s = map to_upper s"
  by (simp add: upper_doc_def)

lemma trim_docD [simp]: "trim_doc P \<Longrightarrow> po_trim P s = trim_ws s"
  by (simp add: trim_doc_def)

lemma replace_docD [simp]: "replace_doc P \<Longrightarrow> po_replace P s [c] [] = filter (\<lambda>x. x \<noteq> c) s"
  by (simp add: replace_doc_def)

lemma hhmm_docD:
  "hhmm_doc P \<Longrightarrow> 0 \<le> h \<Longrightarrow> h < 100 \<Longrightarrow> 0 \<le> m \<Longrightarrow> m < 100 \<Longrightarrow>
   po_format_hhmm P h m = two_digits h @ '':'' @ two_digits m"
  by (simp add: hhmm_doc_def)

lemma conv_docD:
  "conv_doc P \<Longrightarrow> po_toString P (JString s) = Inr s"
  "conv_doc P \<Longrightarrow> int32 i \<Longrightarrow> po_toInt P (JInt i) = Inr i"
  "conv_doc P \<Longrightarrow> int64 i \<Longrightarrow> po_toInt64 P (JInt i) = Inr i"
  "conv_doc P \<Longrightarrow> 0 \<le> i \<Longrightarrow> i < 2 ^ 64 \<Longrightarrow> po_toUInt64 P (JInt i) = Inr i"
  "conv_doc P \<Longrightarrow> po_toString P (JBool b) = Inr (if b then ''true'' else ''false'')"
  by (simp_all add: conv_doc_def)

lemma icompare_docD [simp]:
  "icompare_doc P \<Longrightarrow> po_icompare P s t = 0 \<longleftrightarrow> map to_lower s = map to_lower t"
  by (simp add: icompare_doc_def)

lemma chr_code_dig: "0 \<le> n \<Longrightarrow> n < 10 \<Longrightarrow> chr_code (dig n) = nat (48 + n)"
  by (simp add: dig_def)

lemma is_digit_dig [simp]: "0 \<le> n \<Longrightarrow> n < 10 \<Longrightarrow> is_digit (dig n)"
  by (auto simp: is_digit_def chr_code_dig)

lemma trim_ws_subset: "set (trim_ws s) \<subseteq> set s"
  by (auto simp: trim_ws_def dest!: set_dropWhileD)

section \<open>A concrete platform\<close>

text \<open>Proleptic Gregorian date of a day number since 1970-01-01.\<close>

definition civil_of_days :: "int \<Rightarrow> int \<times> int \<times> int" where
  "civil_of_days n = (let z = n + 719468; era = z div 146097; doe = z mod 146097;
      yoe = (doe - doe div 1460 + doe div 36524 - doe div 146096) div 365;
      doy = doe - (365 * yoe + yoe div 4 - yoe div 100); mp = (5 * doy + 2) div 153;
      d = doy - (153 * mp + 2) div 5 + 1; m = (if mp < 10 then mp + 3 else mp - 9)
    in (yoe + era * 400 + (if m \<le> 2 then 1 else 0), m, d))"

definition days_of_civil :: "int \<Rightarrow> int \<Rightarrow> int \<Rightarrow> int" where
  "days_of_civil y m d = (let y' = (if m \<le> 2 then y - 1 else y); era = y' div 400;
      yoe = y' mod 400; doy = (153 * (if m > 2 then m - 3 else m + 9) + 2) div 5 + d - 1;
      doe = yoe * 365 + yoe div 4 - yoe div 100 + doy
    in era * 146097 + doe - 719468)"

definition show_date :: "int \<Rightarrow> string" where
  "show_date t = (case civil_of_days (t div 86400) of (y, m, d) \<Rightarrow>
     two_digits (y div 100) @ two_digits (y mod 100) @ ''-'' @ two_digits m @ ''-'' @ two_digits d)"

definition show_time :: "int \<Rightarrow> string" where
  "show_time t = (let s = t mod 86400 in
     two_digits (s div 3600) @ '':'' @ two_digits (s div 60 mod 60) @ '':'' @ two_digits (s mod 60))"

definition digs :: "string \<Rightarrow> int option" where
  "digs s = (if s \<noteq> [] \<and> list_all is_digit s
     then Some (fold (\<lambda>c n. 10 * n + (int (chr_code c) - 48)) s 0) else None)"

definition read_date :: "string \<Rightarrow> int option" where
  "read_date s = (case (digs (take 4 s), digs (take 2 (drop 5 s)), digs (drop 8 s)) of
     (Some y, Some m, Some d) \<Rightarrow> (if length s = 10 \<and> s ! 4 = CHR ''-'' \<and> s ! 7 = CHR ''-''
         \<and> 1 \<le> m \<and> m \<le> 12 \<and> 1 \<le> d \<and> d \<le> 31 then Some (days_of_civil y m d * 86400) else None)
   | _ \<Rightarrow> None)"

definition read_time :: "string \<Rightarrow> int option" where
  "read_time s = (case (digs (take 2 s), digs (take 2 (drop 3 s)), digs (drop 6 s)) of
     (Some h, Some m, Some c) \<Rightarrow> (if length s = 8 \<and> s ! 2 = CHR '':'' \<and> s ! 5 = CHR '':''
         \<and> h < 24 \<and> m < 60 \<and> c < 60 then Some (h * 3600 + m * 60 + c) else None)
   | _ \<Rightarrow> None)"

definition ref_parse :: "string \<Rightarrow> string \<Rightarrow> int option" where
  "ref_parse fmt s = map_option (\<lambda>x. x * 1000000)
     (if fmt = ''%Y-%m-%d'' then read_date s
      else if fmt = ''%H:%M:%S'' then read_time s
      else (case (read_date (take 10 s), read_time (drop 11 s)) of
          (Some a, Some b) \<Rightarrow> Some (a + b) | _ \<Rightarrow> None))"

definition ref_format :: "int \<Rightarrow> string \<Rightarrow> string" where
  "ref_format us fmt = (let t = us div 1000000 in
     if fmt = ''%Y-%m-%d'' then show_date t
     else if fmt = ''%H:%M:%S'' then show_time t else show_date t @ '' '' @ show_time t)"

fun ref_toString :: "json \<Rightarrow> string exn" where
  "ref_toString (JString s) = Inr s"
| "ref_toString (JBool b) = Inr (if b then ''true'' else ''false'')"
| "ref_toString JNull = Inl PocoException"
| "ref_toString _ = Inr ''''"

fun ref_toInteger :: "(int \<Rightarrow> bool) \<Rightarrow> json \<Rightarrow> int exn" where
  "ref_toInteger rng (JInt i) = (if rng i then Inr i else Inl PocoException)"
| "ref_toInteger rng _ = Inl PocoException"

fun ref_stringify :: "json \<Rightarrow> string" where
  "ref_stringify JNull = ''null''"
| "ref_stringify (JBool b) = (if b then ''true'' else ''false'')"
| "ref_stringify (JInt i) = (if i < 0 then ''-'' else '''') @ replicate (nat \<bar>i\<bar>) (CHR ''1'')"
| "ref_stringify (JDouble d) = d"
| "ref_stringify (JString s) = ''\"'' @ s @ ''\"''"
| "ref_stringify (JArray xs) = ''['' @ concat (map (\<lambda>x. ref_stringify x @ '','') xs) @ '']''"
| "ref_stringify (JObject ms) =
     ''{'' @ concat (map (\<lambda>m. fst m @ '':'' @ ref_stringify (snd m) @ '','') ms) @ ''}''"

fun ref_tokens :: "string \<Rightarrow> string \<Rightarrow> string list" where
  "ref_tokens [] seps = []"
| "ref_tokens (c # cs) seps = (if c \<in> set seps then [] # (if cs = [] then [[]] else ref_tokens cs seps)
     else (case ref_tokens cs seps of [] \<Rightarrow> [[c]]
        | t # ts \<Rightarrow> (c # t) # ts))"

definition utc_zone :: tzone where
  "utc_zone = \<lparr>tz_to_local = (\<lambda>t. t), tz_to_sys = (\<lambda>l. l)\<rparr>"

definition ist_zone :: tzone where
  "ist_zone = \<lparr>tz_to_local = (\<lambda>t. t + 60 * 330), tz_to_sys = (\<lambda>l. l - 60 * 330)\<rparr>"

definition ref_platform :: platform where
  "ref_platform = \<lparr>
     po_toLower = map to_lower, po_toUpper = map to_upper, po_trim = trim_ws,
     po_replace = (\<lambda>s from to. if length from = 1 then concat (map (\<lambda>x. if x = hd from then to else [x]) s)
        else s),
     po_icompare = (\<lambda>s t. if map to_lower s = map to_lower t then 0
        else if map to_lower s < map to_lower t then -1 else 1),
     po_tokens = ref_tokens,
     po_toString = ref_toString, po_toInt = ref_toInteger int32, po_toInt64 = ref_toInteger int64,
     po_toUInt64 = ref_toInteger (\<lambda>i. 0 \<le> i \<and> i < 2 ^ 64),
     po_stringify = ref_stringify, po_condense = ref_stringify,
     po_format_hhmm = (\<lambda>h m. two_digits h @ '':'' @ two_digits m),
     po_parse = ref_parse, po_format = ref_format,
     po_dayOfWeek = (\<lambda>us. (us div 86400000000 + 4) mod 7),
     po_ymd = (\<lambda>us. civil_of_days (us div 86400000000)),
     po_plusSeconds = (\<lambda>us s. us + s * 1000000),
     po_locate_zone = (\<lambda>n. if n = ''UTC'' then Some utc_zone
        else if n = ''Asia/Kolkata'' then Some ist_zone else None),
     po_format_local = (\<lambda>t. show_date t @ '' '' @ show_time t),
     po_nlohmann = Some, po_reparse = Some, po_nl_parse = (\<lambda>_. None), po_trunc = (\<lambda>_. 0)\<rparr>"

lemma concat_map_drop: "concat (map (\<lambda>x. if x = c then [] else [x]) s) = filter (\<lambda>x. x \<noteq> c) s"
  by (induction s) auto

lemma ref_tokens_piece: "sep \<notin> set p \<Longrightarrow> p \<noteq> [] \<Longrightarrow> ref_tokens p [sep] = [p]"
  by (induction p rule: induct_list012) auto

lemma ref_tokens_append:
  "sep \<notin> set p \<Longrightarrow> rest \<noteq> [] \<Longrightarrow> ref_tokens (p @ sep # rest) [sep] = p # ref_tokens rest [sep]"
  by (induction p) auto

lemma ref_tokens_join:
  "ps \<noteq> [] \<Longrightarrow> last ps \<noteq> [] \<Longrightarrow> \<forall>p \<in> set ps. sep \<notin> set p \<Longrightarrow> ref_tokens (join_with sep ps) [sep] = ps"
proof (induction sep ps rule: join_with.induct)
  case (3 sep p q ps)
  have "join_with sep (q # ps) \<noteq> []" using 3(3) by (cases ps) auto
  then show ?case using 3 by (simp add: ref_tokens_append)
qed (auto simp: ref_tokens_piece)

lemma ref_platform_docs:
  "lower_doc ref_platform" "upper_doc ref_platform" "trim_doc ref_platform"
  "replace_doc ref_platform" "hhmm_doc ref_platform" "conv_doc ref_platform"
  "icompare_doc ref_platform" "reparse_doc ref_platform" "plus_doc ref_platform"
  "tokens_doc ref_platform"
  by (simp_all add: ref_tokens_join tokens_doc_def plus_doc_def reparse_doc_def icompare_doc_def lower_doc_def upper_doc_def trim_doc_def replace_doc_def hhmm_doc_def
      conv_doc_def ref_platform_def concat_map_drop)

lemma fixed_offset_ist: "fixed_offset ist_zone 330"
  by (simp add: fixed_offset_def ist_zone_def)

end
