(* ===== verification/Errors.thy ===== *)
theory Errors
  imports Prelude
begin

text \<open>
  The error messages of \<^verbatim>\<open>src/framework/ow_constants.h\<close> that the modelled handlers send, with their
  numbers and texts, and the \<^verbatim>\<open>fmt::format\<close> of a message.
\<close>

record msg =
  err_num :: nat
  err_txt :: string

text \<open>Decimal notation, as \<^verbatim>\<open>fmt\<close> prints an unsigned number.\<close>

fun show_nat :: "nat \<Rightarrow> string" where
  "show_nat n = (if n < 10 then [char_of (48 + n)] else show_nat (n div 10) @ [char_of (48 + n mod 10)])"

declare show_nat.simps [simp del]

text \<open>\<^verbatim>\<open>fmt::format("{}: {}", E.err_num, E.err_txt)\<close>, with \<^verbatim>\<open>" ({})"\<close> appended for a non-empty extra text.\<close>

definition format_msg :: "msg \<Rightarrow> string \<Rightarrow> string" where
  "format_msg E extra = show_nat (err_num E) @ '': '' @ err_txt E @
     (if extra = [] then [] else '' ('' @ extra @ '')'')"

definition Errors_Error404 :: msg where
  "Errors_Error404 = \<lparr>err_num = 404, err_txt =
     ''Resource does not exist.''\<rparr>"

definition Errors_ACCESS_DENIED :: msg where
  "Errors_ACCESS_DENIED = \<lparr>err_num = 7, err_txt =
     ''Access denied.''\<rparr>"

definition Errors_INVALID_TOKEN :: msg where
  "Errors_INVALID_TOKEN = \<lparr>err_num = 8, err_txt =
     ''Invalid token.''\<rparr>"

definition Errors_EXPIRED_TOKEN :: msg where
  "Errors_EXPIRED_TOKEN = \<lparr>err_num = 9, err_txt =
     ''Expired token.''\<rparr>"

definition Errors_RATE_LIMIT_EXCEEDED :: msg where
  "Errors_RATE_LIMIT_EXCEEDED = \<lparr>err_num = 10, err_txt =
     ''Rate limit exceeded.''\<rparr>"

definition Errors_SECURITY_SERVICE_UNREACHABLE :: msg where
  "Errors_SECURITY_SERVICE_UNREACHABLE = \<lparr>err_num = 13, err_txt =
     ''Security service is unreachable, try again later.''\<rparr>"

definition Errors_MissingUUID :: msg where
  "Errors_MissingUUID = \<lparr>err_num = 1000, err_txt =
     ''Missing UUID.''\<rparr>"

definition Errors_MissingSerialNumber :: msg where
  "Errors_MissingSerialNumber = \<lparr>err_num = 1001, err_txt =
     ''Missing Serial Number.''\<rparr>"

definition Errors_InternalError :: msg where
  "Errors_InternalError = \<lparr>err_num = 1002, err_txt =
     ''Internal error. Please try later.''\<rparr>"

definition Errors_InvalidJSONDocument :: msg where
  "Errors_InvalidJSONDocument = \<lparr>err_num = 1003, err_txt =
     ''Invalid JSON document.''\<rparr>"

definition Errors_UnsupportedHTTPMethod :: msg where
  "Errors_UnsupportedHTTPMethod = \<lparr>err_num = 1004, err_txt =
     ''Unsupported HTTP Method''\<rparr>"

definition Errors_ConfigBlockInvalid :: msg where
  "Errors_ConfigBlockInvalid = \<lparr>err_num = 1008, err_txt =
     ''Configuration block type invalid.''\<rparr>"

definition Errors_UnknownId :: msg where
  "Errors_UnknownId = \<lparr>err_num = 1009, err_txt =
     ''Unknown UUID.''\<rparr>"

definition Errors_ConfigurationMustExist :: msg where
  "Errors_ConfigurationMustExist = \<lparr>err_num = 1017, err_txt =
     ''Configuration must exist.''\<rparr>"

definition Errors_MissingOrInvalidParameters :: msg where
  "Errors_MissingOrInvalidParameters = \<lparr>err_num = 1018, err_txt =
     ''Invalid or missing parameters.''\<rparr>"

definition Errors_InvalidMacAddress :: msg where
  "Errors_InvalidMacAddress = \<lparr>err_num = 1019, err_txt =
     ''Invalid MAC address.''\<rparr>"

definition Errors_InvalidSerialNumber :: msg where
  "Errors_InvalidSerialNumber = \<lparr>err_num = 1020, err_txt =
     ''Invalid Serial Number''\<rparr>"

definition Errors_VenueMustExist :: msg where
  "Errors_VenueMustExist = \<lparr>err_num = 1023, err_txt =
     ''Venue does not exist.''\<rparr>"

definition Errors_InvalidEmailAddress :: msg where
  "Errors_InvalidEmailAddress = \<lparr>err_num = 1040, err_txt =
     ''Invalid email address.''\<rparr>"

definition Errors_SerialNumberAlreadyProvisioned :: msg where
  "Errors_SerialNumberAlreadyProvisioned = \<lparr>err_num = 1059, err_txt =
     ''This device has already been provisioned to a subscriber.''\<rparr>"

definition Errors_OperatorIdMustExist :: msg where
  "Errors_OperatorIdMustExist = \<lparr>err_num = 1066, err_txt =
     ''Missing or bad Operator ID''\<rparr>"

definition Errors_InvalidSubscriberId :: msg where
  "Errors_InvalidSubscriberId = \<lparr>err_num = 1073, err_txt =
     ''Invalid subscriber ID.''\<rparr>"

definition Errors_InvalidRegistrationOperatorName :: msg where
  "Errors_InvalidRegistrationOperatorName = \<lparr>err_num = 1082, err_txt =
     ''Invalid registration operator name.''\<rparr>"

definition Errors_SubNoDeviceActivated :: msg where
  "Errors_SubNoDeviceActivated = \<lparr>err_num = 1100, err_txt =
     ''No devices activated yet.''\<rparr>"

definition Errors_SSIDInvalidPassword :: msg where
  "Errors_SSIDInvalidPassword = \<lparr>err_num = 1103, err_txt =
     ''Invalid password length. Must be between 8 and 32 characters without spaces.''\<rparr>"

definition Errors_SSIDInvalidName :: msg where
  "Errors_SSIDInvalidName = \<lparr>err_num = 1193, err_txt =
     ''Invalid SSID. Allowed characters: 1 to 32 chars (letters, digits, dot, underscore, hyphen, space.)''\<rparr>"

definition Errors_AddDeviceFailed :: msg where
  "Errors_AddDeviceFailed = \<lparr>err_num = 1194, err_txt =
     ''Failed to add new device.''\<rparr>"

definition Errors_ApplyConfigFailed :: msg where
  "Errors_ApplyConfigFailed = \<lparr>err_num = 1195, err_txt =
     ''Failed to apply configuration to device.''\<rparr>"

definition Errors_DurationCrossesMidnight :: msg where
  "Errors_DurationCrossesMidnight = \<lparr>err_num = 1201, err_txt =
     ''Duration crosses midnight. Duration-based client blocking is limited to the current block day.''\<rparr>"

definition Errors_DurationNotAllowedForAllow :: msg where
  "Errors_DurationNotAllowedForAllow = \<lparr>err_num = 1202, err_txt =
     ''Duration is not allowed when access is set to 'allow'.''\<rparr>"

definition Errors_InvalidDuration :: msg where
  "Errors_InvalidDuration = \<lparr>err_num = 1203, err_txt =
     ''Duration must be a positive integer greater than or equal to 1.''\<rparr>"

definition Errors_InvalidAccess :: msg where
  "Errors_InvalidAccess = \<lparr>err_num = 1204, err_txt =
     ''Access must be 'allow' or 'deny'.''\<rparr>"

definition Errors_TimezoneRequired :: msg where
  "Errors_TimezoneRequired = \<lparr>err_num = 1205, err_txt =
     ''Subscriber timezone is required. Set the venue timezone before continuing.''\<rparr>"

definition Errors_SubscriberLocationAlreadyConfigured :: msg where
  "Errors_SubscriberLocationAlreadyConfigured = \<lparr>err_num = 1206, err_txt =
     ''A location is already configured for this subscriber venue.''\<rparr>"

definition Errors_NotImplemented :: msg where
  "Errors_NotImplemented = \<lparr>err_num = 1062, err_txt =
     ''Function not implemented.''\<rparr>"

definition Errors_InvalidCommand :: msg where
  "Errors_InvalidCommand = \<lparr>err_num = 1031, err_txt =
     ''Invalid command.''\<rparr>"

end
