(* ===== verification/Net.thy ===== *)
theory Net
  imports Platform Errors "HOL-Library.State_Monad"
begin

text \<open>
  The effects of the service: calls to the other microservices
  (\<^verbatim>\<open>src/framework/OpenAPIRequests.cpp\<close>), readings of the clock and the HTTP responses a handler sends
  (\<^verbatim>\<open>src/framework/RESTAPI_Handler.h\<close>).  They act on the record \<open>world\<close>, threaded with the state monad.
  The network and the clock are fields of the world, so a property quantifies over every behaviour
  of the other services.  \<open>emits\<close> and \<open>answers\<close> say which calls and which responses an operation can
  produce; their introduction rules follow the structure of the code.
\<close>

section \<open>The world\<close>

text \<open>An entry of the registry of running services.\<close>

record MicroServiceMeta =
  ms_Id :: uint64
  ms_Type :: string
  ms_PrivateEndPoint :: string
  ms_PublicEndPoint :: string
  ms_AccessKey :: string
  ms_Version :: string
  ms_LastUpdate :: uint64

text \<open>A request as it is put on the wire.\<close>

record api_call =
  c_verb :: string
  c_type :: string
  c_base :: string
  c_path :: string
  c_query :: "(string \<times> string) list"
  c_body :: "jobj option"
  c_headers :: "(string \<times> string) list"
  c_timeout :: nat

text \<open>
  What comes back: the status, the text of the body, and that text as \<^verbatim>\<open>Poco::JSON::Parser\<close> reads it
  (\<open>None\<close> when it throws).
\<close>

record reply =
  rp_status :: int
  rp_text :: string
  rp_json :: "json option"

text \<open>A response sent to the client of the portal; the body is the document it serialises.\<close>

record response =
  rs_status :: int
  rs_body :: "json option"

text \<open>
  \<open>w_net\<close> is the network: the answer to a call given the calls before it, \<open>None\<close> when the session
  throws a \<^verbatim>\<open>Poco::Exception\<close> (unreachable, time-out, bad URI).  \<open>w_clock n\<close> is the \<open>n\<close>-th reading of the
  clock, in microseconds since the epoch.  \<open>w_undefined\<close> says that the process has done something the
  language or a library leaves undefined, such as a failed assertion: nothing of the request follows.
\<close>

record world =
  w_services :: "MicroServiceMeta list"
  w_public :: string
  w_net :: "api_call list \<Rightarrow> api_call \<Rightarrow> reply option"
  w_clock :: "nat \<Rightarrow> int"
  w_ticks :: nat
  w_calls :: "api_call list"
  w_out :: "response list"
  w_undefined :: bool

type_synonym 'a io = "(world, 'a) state"

abbreviation ret :: "'a \<Rightarrow> 'a io" where
  "ret \<equiv> State_Monad.return"

abbreviation HTTP_OK :: int where "HTTP_OK \<equiv> 200"
abbreviation HTTP_BAD_REQUEST :: int where "HTTP_BAD_REQUEST \<equiv> 400"
abbreviation HTTP_FORBIDDEN :: int where "HTTP_FORBIDDEN \<equiv> 403"
abbreviation HTTP_NOT_FOUND :: int where "HTTP_NOT_FOUND \<equiv> 404"
abbreviation HTTP_INTERNAL_SERVER_ERROR :: int where "HTTP_INTERNAL_SERVER_ERROR \<equiv> 500"
abbreviation HTTP_GATEWAY_TIMEOUT :: int where "HTTP_GATEWAY_TIMEOUT \<equiv> 504"

section \<open>Clock\<close>

text \<open>A fresh \<^verbatim>\<open>Poco::DateTime\<close> or \<^verbatim>\<open>system_clock::now()\<close>.\<close>

definition read_clock :: "int io" where
  "read_clock = State (\<lambda>w. (w_clock w (w_ticks w), w\<lparr>w_ticks := Suc (w_ticks w)\<rparr>))"

text \<open>The end of a request in undefined behaviour.\<close>

definition undefined_behaviour :: "unit io" where
  "undefined_behaviour = State (\<lambda>w. ((), w\<lparr>w_undefined := True\<rparr>))"

text \<open>\<^verbatim>\<open>Utils::Now()\<close>: seconds since the epoch.\<close>

definition Now :: "uint64 io" where
  "Now = do { us \<leftarrow> read_clock; ret (word_of_int (us div 1000000)) }"

section \<open>Calls to other services\<close>

definition uSERVICE_SECURITY :: string where "uSERVICE_SECURITY = ''owsec''"
definition uSERVICE_GATEWAY :: string where "uSERVICE_GATEWAY = ''owgw''"
definition uSERVICE_FIRMWARE :: string where "uSERVICE_FIRMWARE = ''owfms''"
definition uSERVICE_PROVISIONING :: string where "uSERVICE_PROVISIONING = ''owprov''"
definition uSERVICE_NETWORK_TOPOLOGY :: string where "uSERVICE_NETWORK_TOPOLOGY = ''nwtopology''"
definition uSERVICE_MANGO_PARENTAL_CONTROL :: string where
  "uSERVICE_MANGO_PARENTAL_CONTROL = ''mango-parental-control''"

lemmas service_names = uSERVICE_SECURITY_def uSERVICE_GATEWAY_def uSERVICE_FIRMWARE_def
  uSERVICE_PROVISIONING_def uSERVICE_NETWORK_TOPOLOGY_def uSERVICE_MANGO_PARENTAL_CONTROL_def

definition GetServices :: "platform \<Rightarrow> string \<Rightarrow> MicroServiceMeta list \<Rightarrow> MicroServiceMeta list" where
  "GetServices P Type services = filter (\<lambda>s. ms_Type s = po_toLower P Type) services"

text \<open>A request to a service: its type, the path, the query, the body and the time-out.\<close>

definition auth_headers :: "MicroServiceMeta \<Rightarrow> string \<Rightarrow> string \<Rightarrow> (string \<times> string) list" where
  "auth_headers svc public token =
     (if token = [] then [(''X-API-KEY'', ms_AccessKey svc), (''X-INTERNAL-NAME'', public)]
      else [(''Authorization'', ''Bearer '' @ token)])"

text \<open>
  The part the four methods share.  The loop over the services returns in its first iteration; with
  no service, or when the session throws, the request is never answered.
\<close>

definition transmit ::
  "platform \<Rightarrow> string \<Rightarrow> string \<Rightarrow> string \<Rightarrow> (string \<times> string) list \<Rightarrow> jobj option \<Rightarrow> nat \<Rightarrow> string \<Rightarrow>
   reply option io" where
  "transmit P verb Type path query body timeout token = State (\<lambda>w.
     (case GetServices P Type (w_services w) of
        [] \<Rightarrow> (None, w)
      | svc # _ \<Rightarrow>
          let c = \<lparr>c_verb = verb, c_type = Type, c_base = ms_PrivateEndPoint svc, c_path = path,
                   c_query = query, c_body = body,
                   c_headers = auth_headers svc (w_public w) token, c_timeout = timeout\<rparr>
          in (w_net w (w_calls w) c, w\<lparr>w_calls := w_calls w @ [c]\<rparr>)))"

text \<open>\<^verbatim>\<open>extract<Poco::JSON::Object::Ptr>\<close> of the parsed body.\<close>

definition reply_object :: "reply \<Rightarrow> jobj option" where
  "reply_object r = (case rp_json r of Some (JObject ob) \<Rightarrow> Some ob | _ \<Rightarrow> None)"

text \<open>
  \<^verbatim>\<open>OpenAPIRequestGet::Do\<close>: a body that is not an object leaves the caller's pointer as it was.
\<close>

definition OpenAPIRequestGet ::
  "platform \<Rightarrow> string \<Rightarrow> string \<Rightarrow> (string \<times> string) list \<Rightarrow> nat \<Rightarrow> string \<Rightarrow> jobj ptr \<Rightarrow>
   (int \<times> jobj ptr) io" where
  "OpenAPIRequestGet P Type path query timeout token resp = do {
     r \<leftarrow> transmit P ''GET'' Type path query None timeout token;
     ret (case r of None \<Rightarrow> (HTTP_GATEWAY_TIMEOUT, resp)
        | Some rp \<Rightarrow> (rp_status rp, case reply_object rp of None \<Rightarrow> resp | Some ob \<Rightarrow> Some ob))
   }"

text \<open>The variant that accepts an array or an object.\<close>

definition OpenAPIRequestGetArray ::
  "platform \<Rightarrow> string \<Rightarrow> string \<Rightarrow> (string \<times> string) list \<Rightarrow> nat \<Rightarrow> string \<Rightarrow> json list ptr \<Rightarrow> jobj ptr \<Rightarrow>
   (int \<times> json list ptr \<times> jobj ptr) io" where
  "OpenAPIRequestGetArray P Type path query timeout token arr resp = do {
     r \<leftarrow> transmit P ''GET'' Type path query None timeout token;
     ret (case r of None \<Rightarrow> (HTTP_GATEWAY_TIMEOUT, arr, resp)
        | Some rp \<Rightarrow> (rp_status rp,
            (case rp_json rp of Some (JArray xs) \<Rightarrow> (Some xs, resp)
               | Some (JObject ob) \<Rightarrow> (arr, Some ob) | _ \<Rightarrow> (arr, resp))))
   }"

text \<open>
  \<^verbatim>\<open>OpenAPIRequestPut::Do\<close> and \<^verbatim>\<open>OpenAPIRequestPost::Do\<close> parse the body outside any inner handler, so
  a body that is not an object ends in the outer \<^verbatim>\<open>catch\<close> and the status is lost.
\<close>

definition body_or_timeout :: "reply option \<Rightarrow> jobj ptr \<Rightarrow> int \<times> jobj ptr" where
  "body_or_timeout r resp = (case r of None \<Rightarrow> (HTTP_GATEWAY_TIMEOUT, resp)
     | Some rp \<Rightarrow> (case reply_object rp of None \<Rightarrow> (HTTP_GATEWAY_TIMEOUT, resp)
         | Some ob \<Rightarrow> (rp_status rp, Some ob)))"

definition OpenAPIRequestPut ::
  "platform \<Rightarrow> string \<Rightarrow> string \<Rightarrow> (string \<times> string) list \<Rightarrow> jobj \<Rightarrow> nat \<Rightarrow> string \<Rightarrow> jobj ptr \<Rightarrow>
   (int \<times> jobj ptr) io" where
  "OpenAPIRequestPut P Type path query body timeout token resp = do {
     r \<leftarrow> transmit P ''PUT'' Type path query (Some body) timeout token;
     ret (body_or_timeout r resp)
   }"

definition OpenAPIRequestPost ::
  "platform \<Rightarrow> string \<Rightarrow> string \<Rightarrow> (string \<times> string) list \<Rightarrow> jobj \<Rightarrow> nat \<Rightarrow> string \<Rightarrow> jobj ptr \<Rightarrow>
   (int \<times> jobj ptr) io" where
  "OpenAPIRequestPost P Type path query body timeout token resp = do {
     r \<leftarrow> transmit P ''POST'' Type path query (Some body) timeout token;
     ret (body_or_timeout r resp)
   }"

text \<open>\<^verbatim>\<open>OpenAPIRequestDelete::Do\<close> also returns the raw text of the body.\<close>

definition OpenAPIRequestDelete ::
  "platform \<Rightarrow> string \<Rightarrow> string \<Rightarrow> (string \<times> string) list \<Rightarrow> nat \<Rightarrow> string \<Rightarrow> jobj ptr \<Rightarrow> string \<Rightarrow>
   (int \<times> jobj ptr \<times> string) io" where
  "OpenAPIRequestDelete P Type path query timeout token resp raw = do {
     r \<leftarrow> transmit P ''DELETE'' Type path query None timeout token;
     ret (case r of None \<Rightarrow> (HTTP_GATEWAY_TIMEOUT, resp, raw)
        | Some rp \<Rightarrow> (rp_status rp, (case reply_object rp of None \<Rightarrow> resp | Some ob \<Rightarrow> Some ob), rp_text rp))
   }"

lemmas request_defs = OpenAPIRequestGet_def OpenAPIRequestGetArray_def OpenAPIRequestPut_def
  OpenAPIRequestPost_def OpenAPIRequestDelete_def

section \<open>Responses of a handler\<close>

text \<open>The roles of a user.\<close>

datatype USER_ROLE = UNKNOWN | ROOT | ADMIN | SUBSCRIBER | CSR | SYSTEM | INSTALLER | NOC | ACCOUNTING | PARTNER

text \<open>
  A request being handled: its method, the path bindings, the query parameters, the parsed JSON body
  and the identity \<^verbatim>\<open>IsAuthorized\<close> stored in \<^verbatim>\<open>UserInfo_\<close>.
\<close>

record handler =
  h_method :: string
  h_bindings :: "(string \<times> string) list"
  h_params :: "(string \<times> string) list"
  h_body :: "jobj ptr"
  h_id :: string
  h_owner :: string
  h_email :: string
  h_token :: string
  h_role :: USER_ROLE

definition send :: "int \<Rightarrow> json option \<Rightarrow> unit io" where
  "send status body = State (\<lambda>w. ((), w\<lparr>w_out := w_out w @ [\<lparr>rs_status = status, rs_body = body\<rparr>]\<rparr>))"

definition error_object :: "int \<Rightarrow> string \<Rightarrow> string \<Rightarrow> jobj" where
  "error_object code meth descr = set_key ''ErrorDescription'' (JString descr)
     (set_key ''ErrorDetails'' (JString meth) (set_key ''ErrorCode'' (JInt code) []))"

definition BadRequest :: "handler \<Rightarrow> msg \<Rightarrow> string \<Rightarrow> unit io" where
  "BadRequest H E extra =
     send HTTP_BAD_REQUEST (Some (JObject (error_object 400 (h_method H) (format_msg E extra))))"

definition InternalError :: "handler \<Rightarrow> msg \<Rightarrow> unit io" where
  "InternalError H E =
     send HTTP_INTERNAL_SERVER_ERROR (Some (JObject (error_object 500 (h_method H) (format_msg E []))))"

definition UnAuthorized :: "handler \<Rightarrow> msg \<Rightarrow> unit io" where
  "UnAuthorized H E = send HTTP_FORBIDDEN
     (Some (JObject (error_object (int (err_num E)) (h_method H) (format_msg E []))))"

definition NotFound :: "handler \<Rightarrow> unit io" where
  "NotFound H = send HTTP_NOT_FOUND
     (Some (JObject (error_object 404 (h_method H) (format_msg Errors_Error404 []))))"

definition ForwardErrorResponse :: "int \<Rightarrow> jobj ptr \<Rightarrow> unit io" where
  "ForwardErrorResponse status resp =
     send status (Some (JObject (case resp of None \<Rightarrow> [] | Some ob \<Rightarrow> ob)))"

definition OK :: "handler \<Rightarrow> unit io" where
  "OK H = (if h_method H = ''DELETE'' \<or> h_method H = ''OPTIONS'' then send HTTP_OK None
     else send HTTP_OK (Some (JObject (set_key ''Details'' (JString ''Command completed.'')
        (set_key ''Operation'' (JString (h_method H)) (set_key ''Code'' (JInt 0) []))))))"

definition ReturnObject :: "jobj \<Rightarrow> unit io" where
  "ReturnObject ob = send HTTP_OK (Some (JObject ob))"

definition ReturnRawJSON :: "json \<Rightarrow> unit io" where
  "ReturnRawJSON doc = send HTTP_OK (Some doc)"

definition ReturnStatus :: "int \<Rightarrow> unit io" where
  "ReturnStatus status = send status None"

lemmas response_defs = BadRequest_def InternalError_def UnAuthorized_def NotFound_def
  ForwardErrorResponse_def OK_def ReturnObject_def ReturnRawJSON_def ReturnStatus_def

definition GetBinding :: "platform \<Rightarrow> handler \<Rightarrow> string \<Rightarrow> string \<Rightarrow> string" where
  "GetBinding P H name dflt = (case map_of (h_bindings H) (po_toLower P name) of
     None \<Rightarrow> dflt | Some v \<Rightarrow> v)"

definition HasParameter :: "handler \<Rightarrow> string \<Rightarrow> string option" where
  "HasParameter H name = map_of (h_params H) name"

definition GetParameter :: "handler \<Rightarrow> string \<Rightarrow> string \<Rightarrow> string" where
  "GetParameter H name dflt = (case HasParameter H name of None \<Rightarrow> dflt | Some v \<Rightarrow> v)"

text \<open>
  Two idioms of the handlers: \<^verbatim>\<open>if (!step(...)) return;\<close> where the step has answered the client
  when it fails, in a handler and in a step.
\<close>

definition guard :: "'a option io \<Rightarrow> ('a \<Rightarrow> unit io) \<Rightarrow> unit io" where
  "guard m k = do { r \<leftarrow> m; (case r of None \<Rightarrow> ret () | Some x \<Rightarrow> k x) }"

definition guard_step :: "'a option io \<Rightarrow> ('a \<Rightarrow> 'b option io) \<Rightarrow> 'b option io" where
  "guard_step m k = do { r \<leftarrow> m; (case r of None \<Rightarrow> ret None | Some x \<Rightarrow> k x) }"

text \<open>A step that answers the client and fails.\<close>

definition fail_with :: "unit io \<Rightarrow> 'a option io" where
  "fail_with m = do { m; ret None }"

text \<open>
  Dereferencing a null pointer throws a \<^verbatim>\<open>Poco::NullPointerException\<close>, which \<^verbatim>\<open>handleRequest\<close> answers
  with a 400.
\<close>

definition null_pointer :: "handler \<Rightarrow> unit io" where
  "null_pointer H = BadRequest H Errors_InternalError []"

definition deref :: "unit io \<Rightarrow> 'a ptr \<Rightarrow> ('a \<Rightarrow> unit io) \<Rightarrow> unit io" where
  "deref on_null p k = (case p of None \<Rightarrow> on_null | Some x \<Rightarrow> k x)"

lemmas idiom_defs = guard_def guard_step_def fail_with_def

section \<open>Which calls an operation makes\<close>

text \<open>No operation changes the network; the new calls satisfy \<open>C\<close>.\<close>

definition emits :: "(api_call \<Rightarrow> bool) \<Rightarrow> 'a io \<Rightarrow> bool" where
  "emits C m \<longleftrightarrow> (\<forall>w. w_net (snd (run_state m w)) = w_net w \<and>
     (\<exists>cs. w_calls (snd (run_state m w)) = w_calls w @ cs \<and> list_all C cs))"

lemma emitsI:
  "(\<And>w. w_net (snd (run_state m w)) = w_net w) \<Longrightarrow>
   (\<And>w. \<exists>cs. w_calls (snd (run_state m w)) = w_calls w @ cs \<and> list_all C cs) \<Longrightarrow> emits C m"
  by (simp add: emits_def)

lemma emitsE:
  assumes "emits C m"
  obtains cs where "w_calls (snd (run_state m w)) = w_calls w @ cs" "list_all C cs"
  using assms by (auto simp: emits_def)

lemma emits_net: "emits C m \<Longrightarrow> w_net (snd (run_state m w)) = w_net w"
  by (simp add: emits_def)

lemma emits_mono: "emits C m \<Longrightarrow> (\<And>c. C c \<Longrightarrow> D c) \<Longrightarrow> emits D m"
  unfolding emits_def by (metis list.pred_mono_strong)

lemma emits_ret [emits_intros]: "emits C (ret x)"
  by (simp add: emits_def)

lemma emits_bind [emits_intros]:
  assumes "emits C m" and "\<And>x. emits C (k x)"
  shows "emits C (m \<bind> k)"
proof (rule emitsI)
  fix w
  obtain x w1 where m: "run_state m w = (x, w1)" by (cases "run_state m w")
  then show "w_net (snd (run_state (m \<bind> k) w)) = w_net w"
    using emits_net [OF assms(1), of w] emits_net [OF assms(2), of x w1] by simp
  obtain cs where "w_calls w1 = w_calls w @ cs" "list_all C cs"
    using assms(1) m by (metis emitsE snd_conv)
  moreover obtain ds where "w_calls (snd (run_state (k x) w1)) = w_calls w1 @ ds" "list_all C ds"
    using assms(2) by (metis emitsE)
  ultimately show "\<exists>cs. w_calls (snd (run_state (m \<bind> k) w)) = w_calls w @ cs \<and> list_all C cs"
    using m by auto
qed

lemma emits_if [emits_intros]: "(b \<Longrightarrow> emits C m) \<Longrightarrow> (\<not> b \<Longrightarrow> emits C n) \<Longrightarrow> emits C (if b then m else n)"
  by simp

lemma emits_option [emits_intros]:
  "(r = None \<Longrightarrow> emits C m) \<Longrightarrow> (\<And>x. r = Some x \<Longrightarrow> emits C (k x)) \<Longrightarrow>
   emits C (case r of None \<Rightarrow> m | Some x \<Rightarrow> k x)"
  by (cases r) auto

lemma emits_sum [emits_intros]:
  "(\<And>e. r = Inl e \<Longrightarrow> emits C (m e)) \<Longrightarrow> (\<And>x. r = Inr x \<Longrightarrow> emits C (k x)) \<Longrightarrow>
   emits C (case r of Inl e \<Rightarrow> m e | Inr x \<Rightarrow> k x)"
  by (cases r) auto

lemma emits_list [emits_intros]:
  "(xs = [] \<Longrightarrow> emits C m) \<Longrightarrow> (\<And>y ys. xs = y # ys \<Longrightarrow> emits C (k y ys)) \<Longrightarrow>
   emits C (case xs of [] \<Rightarrow> m | y # ys \<Rightarrow> k y ys)"
  by (cases xs) auto

lemma emits_prod [emits_intros]:
  "(\<And>x y. p = (x, y) \<Longrightarrow> emits C (k x y)) \<Longrightarrow> emits C (case p of (x, y) \<Rightarrow> k x y)"
  by (cases p) auto

lemma emits_guard [emits_intros]:
  "emits C m \<Longrightarrow> (\<And>x. emits C (k x)) \<Longrightarrow> emits C (guard m k)"
  "emits C m \<Longrightarrow> (\<And>x. emits C (k' x)) \<Longrightarrow> emits C (guard_step m k')"
  unfolding guard_def guard_step_def by (intro emits_intros; assumption)+

lemma emits_fail_with [emits_intros]: "emits C m \<Longrightarrow> emits C (fail_with m)"
  unfolding fail_with_def by (intro emits_intros)

lemma emits_send [emits_intros]: "emits C (send s b)"
  by (simp add: emits_def send_def)

lemma emits_clock [emits_intros]: "emits C read_clock"
  by (simp add: emits_def read_clock_def)

lemma emits_responses [emits_intros]:
  "emits C (BadRequest H E x)" "emits C (InternalError H E)" "emits C (UnAuthorized H E)"
  "emits C (NotFound H)" "emits C (ForwardErrorResponse s r)" "emits C (OK H)"
  "emits C (ReturnObject ob)" "emits C (ReturnRawJSON d)" "emits C (ReturnStatus s)"
  unfolding response_defs by (intro emits_intros)+

lemma emits_deref [emits_intros]:
  "emits C (null_pointer H)"
  "emits C n \<Longrightarrow> (\<And>x. p = Some x \<Longrightarrow> emits C (k x)) \<Longrightarrow> emits C (deref n p k)"
  unfolding null_pointer_def deref_def by (intro emits_intros; assumption)+

lemma emits_transmit:
  assumes "\<And>svc public. C \<lparr>c_verb = verb, c_type = Type, c_base = ms_PrivateEndPoint svc, c_path = path,
     c_query = query, c_body = body, c_headers = auth_headers svc public token, c_timeout = timeout\<rparr>"
  shows "emits C (transmit P verb Type path query body timeout token)"
  using assms by (auto simp: emits_def transmit_def Let_def split: list.splits)

text \<open>
  A condition on every call that may look at the calls made before it: the calls before \<open>cs\<close>
  are \<open>as\<close>.  \<open>traced C m\<close> says that each new call of \<open>m\<close> satisfies \<open>C net h as c\<close>, where \<open>net\<close> is the network,
  \<open>h\<close> the calls before \<open>m\<close> and \<open>as\<close> the calls of \<open>m\<close> before \<open>c\<close>; so \<open>net (h @ as) c\<close> is the answer to the
  call \<open>c\<close>.
\<close>

fun all_traced :: "(api_call list \<Rightarrow> api_call \<Rightarrow> bool) \<Rightarrow> api_call list \<Rightarrow> api_call list \<Rightarrow> bool" where
  "all_traced Q as [] = True"
| "all_traced Q as (c # cs) = (Q as c \<and> all_traced Q (as @ [c]) cs)"

type_synonym trace_condition =
  "(api_call list \<Rightarrow> api_call \<Rightarrow> reply option) \<Rightarrow> api_call list \<Rightarrow> api_call list \<Rightarrow> api_call \<Rightarrow> bool"

definition traced :: "trace_condition \<Rightarrow> 'a io \<Rightarrow> bool" where
  "traced C m \<longleftrightarrow> (\<forall>w. w_net (snd (run_state m w)) = w_net w \<and>
     (\<exists>cs. w_calls (snd (run_state m w)) = w_calls w @ cs \<and> all_traced (C (w_net w) (w_calls w)) [] cs))"

text \<open>Conditions that stay true when more is known of the calls before.\<close>

definition monotone_trace :: "trace_condition \<Rightarrow> bool" where
  "monotone_trace C \<longleftrightarrow> (\<forall>net h xs as c. C net (h @ xs) as c \<longrightarrow> C net h (xs @ as) c)"

lemma all_traced_append: "all_traced Q as (xs @ ys) \<longleftrightarrow> all_traced Q as xs \<and> all_traced Q (as @ xs) ys"
  by (induction xs arbitrary: as) auto

lemma all_traced_later:
  "monotone_trace C \<Longrightarrow> all_traced (C net (h @ xs)) as ys \<Longrightarrow> all_traced (C net h) (xs @ as) ys"
proof (induction ys arbitrary: as)
  case (Cons y ys)
  then show ?case using Cons.IH [of "as @ [y]"] by (auto simp: monotone_trace_def)
qed simp

lemma all_traced_list_all: "list_all D cs \<Longrightarrow> (\<And>as c. D c \<Longrightarrow> Q as c) \<Longrightarrow> all_traced Q as cs"
  by (induction cs arbitrary: as) auto

lemma all_traced_simple: "all_traced (\<lambda>_. D) as cs \<longleftrightarrow> list_all D cs"
  by (induction cs arbitrary: as) auto

lemma traced_emits: "emits D m \<Longrightarrow> (\<And>net h as c. D c \<Longrightarrow> C net h as c) \<Longrightarrow> traced C m"
  unfolding traced_def emits_def using all_traced_list_all by metis

lemma traced_simple: "traced (\<lambda>_ _ _. D) m \<longleftrightarrow> emits D m"
  by (simp add: traced_def emits_def all_traced_simple)

lemma tracedE:
  assumes "traced C m"
  obtains cs where "w_calls (snd (run_state m w)) = w_calls w @ cs" "all_traced (C (w_net w) (w_calls w)) [] cs"
    "w_net (snd (run_state m w)) = w_net w"
  using assms by (auto simp: traced_def)

text \<open>What follows a step may rely on a fact about the step, its result and its calls.\<close>

lemma traced_bind_when:
  assumes "monotone_trace C" "traced C m"
    and "\<And>w x w1. run_state m w = (x, w1) \<Longrightarrow> w_net w1 = w_net w \<Longrightarrow>
      \<exists>cs ds. w_calls w1 = w_calls w @ cs \<and> w_calls (snd (run_state (k x) w1)) = w_calls w1 @ ds
        \<and> all_traced (C (w_net w) (w_calls w)) cs ds \<and> w_net (snd (run_state (k x) w1)) = w_net w1"
  shows "traced C (m \<bind> k)"
  unfolding traced_def
proof (intro allI conjI)
  fix w
  obtain x w1 where m: "run_state m w = (x, w1)" by (cases "run_state m w")
  with assms(2) have net: "w_net w1 = w_net w" by (metis tracedE snd_conv)
  from assms(3) [OF m net] obtain cs ds where d: "w_calls w1 = w_calls w @ cs"
    "w_calls (snd (run_state (k x) w1)) = w_calls w1 @ ds" "all_traced (C (w_net w) (w_calls w)) cs ds"
    "w_net (snd (run_state (k x) w1)) = w_net w1" by blast
  from assms(2) m d(1) have "all_traced (C (w_net w) (w_calls w)) [] cs" by (metis tracedE snd_conv same_append_eq)
  then show "\<exists>cs. w_calls (snd (run_state (m \<bind> k) w)) = w_calls w @ cs \<and> all_traced (C (w_net w) (w_calls w)) [] cs"
    using m d by (intro exI [of _ "cs @ ds"]) (simp add: all_traced_append)
  show "w_net (snd (run_state (m \<bind> k) w)) = w_net w" using m net d(4) by simp
qed

lemma traced_bind:
  assumes C: "monotone_trace C" and "traced C m" "\<And>x. traced C (k x)"
  shows "traced C (m \<bind> k)"
proof (rule traced_bind_when [OF C assms(2)])
  fix w x w1 assume m: "run_state m w = (x, w1)" "w_net w1 = w_net w"
  obtain cs where cs: "w_calls w1 = w_calls w @ cs" using assms(2) m(1) by (metis tracedE snd_conv)
  obtain ds where ds: "w_calls (snd (run_state (k x) w1)) = w_calls w1 @ ds"
    "all_traced (C (w_net w1) (w_calls w1)) [] ds" "w_net (snd (run_state (k x) w1)) = w_net w1"
    using assms(3) by (metis tracedE)
  show "\<exists>cs ds. w_calls w1 = w_calls w @ cs \<and> w_calls (snd (run_state (k x) w1)) = w_calls w1 @ ds
        \<and> all_traced (C (w_net w) (w_calls w)) cs ds \<and> w_net (snd (run_state (k x) w1)) = w_net w1"
    using cs ds m(2) all_traced_later [OF C, of _ "w_calls w" cs "[]" ds] by auto
qed

lemma traced_cases:
  "(b \<Longrightarrow> traced C m) \<Longrightarrow> (\<not> b \<Longrightarrow> traced C n) \<Longrightarrow> traced C (if b then m else n)"
  "(r = None \<Longrightarrow> traced C m) \<Longrightarrow> (\<And>x. r = Some x \<Longrightarrow> traced C (k x)) \<Longrightarrow>
   traced C (case r of None \<Rightarrow> m | Some x \<Rightarrow> k x)"
  "(xs = [] \<Longrightarrow> traced C m) \<Longrightarrow> (\<And>y ys. xs = y # ys \<Longrightarrow> traced C (l y ys)) \<Longrightarrow>
   traced C (case xs of [] \<Rightarrow> m | y # ys \<Rightarrow> l y ys)"
  "(\<And>x y. p = (x, y) \<Longrightarrow> traced C (g x y)) \<Longrightarrow> traced C (case p of (x, y) \<Rightarrow> g x y)"
  by (auto split: option.splits list.splits prod.splits)

lemma traced_guard:
  assumes "monotone_trace C" "traced C m"
  shows "(\<And>x. traced C (k x)) \<Longrightarrow> traced C (guard m k)" "(\<And>x. traced C (k' x)) \<Longrightarrow> traced C (guard_step m k')"
  unfolding guard_def guard_step_def
  by (intro traced_bind assms traced_cases traced_emits [OF emits_ret [where C = "\<lambda>_. False"]]; simp)+

text \<open>A later world: the same network and more calls.\<close>

definition extends :: "world \<Rightarrow> world \<Rightarrow> bool" where
  "extends w w' \<longleftrightarrow> w_net w' = w_net w \<and> (\<exists>cs. w_calls w' = w_calls w @ cs)"

lemma extends_refl: "extends w w"
  by (simp add: extends_def)

lemma extends_trans: "extends a b \<Longrightarrow> extends b c \<Longrightarrow> extends a c"
  unfolding extends_def by force

section \<open>Which responses an operation sends\<close>

text \<open>The new responses satisfy \<open>R\<close>, and the operation does nothing undefined.\<close>

definition answers :: "('a \<Rightarrow> response list \<Rightarrow> bool) \<Rightarrow> 'a io \<Rightarrow> bool" where
  "answers R m \<longleftrightarrow> (\<forall>w. w_undefined (snd (run_state m w)) = w_undefined w \<and>
     (\<exists>rs. w_out (snd (run_state m w)) = w_out w @ rs \<and> R (fst (run_state m w)) rs))"

definition silent :: "'a io \<Rightarrow> bool" where
  "silent m \<longleftrightarrow> answers (\<lambda>_ rs. rs = []) m"

text \<open>Exactly one response; one response exactly when the step fails.\<close>

definition answers_once :: "'a io \<Rightarrow> bool" where
  "answers_once m \<longleftrightarrow> answers (\<lambda>_ rs. length rs = 1) m"

definition answers_fail :: "'a option io \<Rightarrow> bool" where
  "answers_fail m \<longleftrightarrow> answers (\<lambda>r rs. length rs = (if r = None then 1 else 0)) m"

lemmas answers_defs = answers_def silent_def answers_once_def answers_fail_def

lemma silentD: "silent m \<Longrightarrow> w_out (snd (run_state m w)) = w_out w"
  by (auto simp: answers_defs)

lemma silentI: "(\<And>w. w_out (snd (run_state m w)) = w_out w \<and> w_undefined (snd (run_state m w)) = w_undefined w) \<Longrightarrow> silent m"
  by (simp add: answers_defs)

lemma answers_defined: "answers R m \<Longrightarrow> w_undefined (snd (run_state m w)) = w_undefined w"
  by (simp add: answers_def)

lemma silent_defined: "silent m \<Longrightarrow> w_undefined (snd (run_state m w)) = w_undefined w"
  unfolding silent_def by (rule answers_defined)

lemma answersI:
  "(\<And>w. w_undefined (snd (run_state m w)) = w_undefined w) \<Longrightarrow>
   (\<And>w. \<exists>rs. w_out (snd (run_state m w)) = w_out w @ rs \<and> R (fst (run_state m w)) rs) \<Longrightarrow> answers R m"
  by (simp add: answers_def)

lemma answersE:
  assumes "answers R m"
  obtains rs where "w_out (snd (run_state m w)) = w_out w @ rs" "R (fst (run_state m w)) rs"
  using assms by (auto simp: answers_def)

lemma answers_bind_silent:
  assumes "silent m" "\<And>x. answers R (k x)"
  shows "answers R (m \<bind> k)"
proof (rule answersI)
  fix w
  obtain x w1 where m: "run_state m w = (x, w1)" by (cases "run_state m w")
  then have "w_out w1 = w_out w" "w_undefined w1 = w_undefined w"
    using silentD [OF assms(1), of w] silent_defined [OF assms(1), of w] by simp_all
  then show "w_undefined (snd (run_state (m \<bind> k) w)) = w_undefined w"
    "\<exists>rs. w_out (snd (run_state (m \<bind> k) w)) = w_out w @ rs \<and> R (fst (run_state (m \<bind> k) w)) rs"
    using m assms(2) [of x] by (auto simp: answers_def dest: spec [of _ w1])
qed

lemma silent_bind [replies_intros]: "silent m \<Longrightarrow> (\<And>x. silent (k x)) \<Longrightarrow> silent (m \<bind> k)"
  unfolding silent_def [of "_ \<bind> _"] by (rule answers_bind_silent) (simp_all add: silent_def)

lemma once_bind [replies_intros]:
  "silent m \<Longrightarrow> (\<And>x. answers_once (k x)) \<Longrightarrow> answers_once (m \<bind> k)"
  unfolding answers_once_def by (rule answers_bind_silent)

lemma fail_bind [replies_intros]:
  "silent m \<Longrightarrow> (\<And>x. answers_fail (k x)) \<Longrightarrow> answers_fail (m \<bind> k)"
  unfolding answers_fail_def by (rule answers_bind_silent)

lemma silent_ret [replies_intros]: "silent (ret x)"
  by (simp add: answers_defs)

lemma fail_ret_Some [replies_intros]: "answers_fail (ret (Some x))"
  by (simp add: answers_defs)

lemma replies_if [replies_intros]:
  "(b \<Longrightarrow> silent m) \<Longrightarrow> (\<not> b \<Longrightarrow> silent n) \<Longrightarrow> silent (if b then m else n)"
  "(b \<Longrightarrow> answers_once m) \<Longrightarrow> (\<not> b \<Longrightarrow> answers_once n) \<Longrightarrow> answers_once (if b then m else n)"
  "(b \<Longrightarrow> answers_fail m') \<Longrightarrow> (\<not> b \<Longrightarrow> answers_fail n') \<Longrightarrow> answers_fail (if b then m' else n')"
  by simp_all

lemma replies_option [replies_intros]:
  "silent m \<Longrightarrow> (\<And>x. silent (k x)) \<Longrightarrow> silent (case r of None \<Rightarrow> m | Some x \<Rightarrow> k x)"
  "(r = None \<Longrightarrow> answers_once m) \<Longrightarrow> (\<And>x. r = Some x \<Longrightarrow> answers_once (k x)) \<Longrightarrow>
   answers_once (case r of None \<Rightarrow> m | Some x \<Rightarrow> k x)"
  "(r = None \<Longrightarrow> answers_fail m') \<Longrightarrow> (\<And>x. r = Some x \<Longrightarrow> answers_fail (k' x)) \<Longrightarrow>
   answers_fail (case r of None \<Rightarrow> m' | Some x \<Rightarrow> k' x)"
  by (auto split: option.splits)

lemma replies_list [replies_intros]:
  "silent m \<Longrightarrow> (\<And>y ys. silent (k y ys)) \<Longrightarrow> silent (case xs of [] \<Rightarrow> m | y # ys \<Rightarrow> k y ys)"
  "answers_once m \<Longrightarrow> (\<And>y ys. answers_once (k y ys)) \<Longrightarrow>
   answers_once (case xs of [] \<Rightarrow> m | y # ys \<Rightarrow> k y ys)"
  "answers_fail m' \<Longrightarrow> (\<And>y ys. answers_fail (k' y ys)) \<Longrightarrow>
   answers_fail (case xs of [] \<Rightarrow> m' | y # ys \<Rightarrow> k' y ys)"
  by (auto split: list.splits)

lemma replies_prod [replies_intros]:
  "(\<And>x y. silent (k x y)) \<Longrightarrow> silent (case p of (x, y) \<Rightarrow> k x y)"
  "(\<And>x y. answers_once (k x y)) \<Longrightarrow> answers_once (case p of (x, y) \<Rightarrow> k x y)"
  "(\<And>x y. answers_fail (k' x y)) \<Longrightarrow> answers_fail (case p of (x, y) \<Rightarrow> k' x y)"
  by (auto split: prod.splits)

lemma once_guard [replies_intros]:
  assumes "answers_fail m" and "\<And>x. answers_once (k x)"
  shows "answers_once (guard m k)"
  unfolding answers_once_def
proof (rule answersI)
  fix w
  obtain x w1 where m: "run_state m w = (x, w1)" by (cases "run_state m w")
  obtain rs where rs: "w_out w1 = w_out w @ rs" "length rs = (if x = None then 1 else 0)"
    and u: "w_undefined w1 = w_undefined w"
    using assms(1) m by (auto simp: answers_defs dest: spec [of _ w])
  have "w_undefined (snd (run_state (k y) w1)) = w_undefined w1" for y
    using assms(2) by (simp add: answers_defs)
  then show "w_undefined (snd (run_state (guard m k) w)) = w_undefined w"
    using m u by (cases x) (simp_all add: guard_def)
  have k: "\<exists>qs. w_out (snd (run_state (k y) w1)) = w_out w1 @ qs \<and> length qs = 1" for y
    using assms(2) by (auto simp: answers_defs)
  show "\<exists>rs. w_out (snd (run_state (guard m k) w)) = w_out w @ rs \<and> length rs = 1"
  proof (cases x)
    case None
    then show ?thesis using m rs by (simp add: guard_def)
  next
    case (Some y)
    then show ?thesis using m rs k [of y] by (simp add: guard_def)
  qed
qed

lemma fail_guard_step [replies_intros]:
  assumes "answers_fail m" and "\<And>x. answers_fail (k x)"
  shows "answers_fail (guard_step m k)"
  unfolding answers_fail_def
proof (rule answersI)
  fix w
  obtain x w1 where m: "run_state m w = (x, w1)" by (cases "run_state m w")
  obtain rs where rs: "w_out w1 = w_out w @ rs" "length rs = (if x = None then 1 else 0)"
    and u: "w_undefined w1 = w_undefined w"
    using assms(1) m by (auto simp: answers_defs dest: spec [of _ w])
  have "w_undefined (snd (run_state (k y) w1)) = w_undefined w1" for y
    using assms(2) by (simp add: answers_defs)
  then show "w_undefined (snd (run_state (guard_step m k) w)) = w_undefined w"
    using m u by (cases x) (simp_all add: guard_step_def)
  have k: "\<exists>qs. w_out (snd (run_state (k y) w1)) = w_out w1 @ qs
      \<and> length qs = (if fst (run_state (k y) w1) = None then 1 else 0)" for y
    using assms(2) by (auto simp: answers_defs)
  show "\<exists>rs. w_out (snd (run_state (guard_step m k) w)) = w_out w @ rs
      \<and> length rs = (if fst (run_state (guard_step m k) w) = None then 1 else 0)"
  proof (cases x)
    case None
    then show ?thesis using m rs by (simp add: guard_step_def)
  next
    case (Some y)
    then show ?thesis using m rs k [of y] by (simp add: guard_step_def)
  qed
qed

lemma fail_fail_with [replies_intros]:
  assumes "answers_once m"
  shows "answers_fail (fail_with m)"
  unfolding answers_fail_def
proof (rule answersI)
  fix w
  obtain rs where rs: "w_out (snd (run_state m w)) = w_out w @ rs" "length rs = 1"
    and u: "w_undefined (snd (run_state m w)) = w_undefined w"
    using assms by (auto simp: answers_defs dest: spec [of _ w])
  show "w_undefined (snd (run_state (fail_with m) w)) = w_undefined w"
    using u by (cases "run_state m w") (simp add: fail_with_def)
  from rs show "\<exists>rs. w_out (snd (run_state (fail_with m) w)) = w_out w @ rs
      \<and> length rs = (if fst (run_state (fail_with m) w) = None then 1 else 0)"
    by (auto simp: fail_with_def split: prod.splits)
qed

lemma once_send [replies_intros]: "answers_once (send s b)"
  by (simp add: answers_defs send_def)

lemma silent_clock [replies_intros]: "silent read_clock"
  by (simp add: answers_defs read_clock_def)

lemma silent_transmit [replies_intros]: "silent (transmit P verb Type path query body timeout token)"
  by (auto simp: answers_defs transmit_def Let_def split: list.splits)

lemma once_responses [replies_intros]:
  "answers_once (BadRequest H E x)" "answers_once (InternalError H E)" "answers_once (UnAuthorized H E)"
  "answers_once (NotFound H)" "answers_once (ForwardErrorResponse s r)" "answers_once (OK H)"
  "answers_once (ReturnObject ob)" "answers_once (ReturnRawJSON d)" "answers_once (ReturnStatus s)"
  unfolding response_defs by (intro replies_intros)+

lemma once_deref [replies_intros]:
  "answers_once (null_pointer H)"
  "answers_once n \<Longrightarrow> (\<And>x. p = Some x \<Longrightarrow> answers_once (k x)) \<Longrightarrow> answers_once (deref n p k)"
  unfolding null_pointer_def deref_def by (intro replies_intros; assumption)+

lemma silent_requests [replies_intros]:
  "silent (OpenAPIRequestGet P T p q t k r)" "silent (OpenAPIRequestGetArray P T p q t k a r)"
  "silent (OpenAPIRequestPut P T p q b t k r)" "silent (OpenAPIRequestPost P T p q b t k r)"
  "silent (OpenAPIRequestDelete P T p q t k r raw)"
  unfolding request_defs by (intro replies_intros)+

text \<open>Exactly one response, unless the operation ends in undefined behaviour; then none.\<close>

definition answers_if_defined :: "unit io \<Rightarrow> bool" where
  "answers_if_defined m \<longleftrightarrow> (\<forall>w. \<not> w_undefined w \<longrightarrow> (\<exists>rs. w_out (snd (run_state m w)) = w_out w @ rs
     \<and> length rs = (if w_undefined (snd (run_state m w)) then 0 else 1)))"

lemma once_if_defined: "answers_once m \<Longrightarrow> answers_if_defined m"
  by (simp add: answers_if_defined_def answers_defs)

lemma undefined_if_defined: "answers_if_defined undefined_behaviour"
  by (simp add: answers_if_defined_def undefined_behaviour_def)

lemma emits_undefined [emits_intros]: "emits C undefined_behaviour"
  by (simp add: emits_def undefined_behaviour_def)

lemma if_defined_bind:
  assumes "silent m" "\<And>x. answers_if_defined (k x)"
  shows "answers_if_defined (m \<bind> k)"
  unfolding answers_if_defined_def
proof (intro allI impI)
  fix w :: world assume w: "\<not> w_undefined w"
  obtain x w1 where m: "run_state m w = (x, w1)" by (cases "run_state m w")
  then have "w_out w1 = w_out w" "\<not> w_undefined w1"
    using silentD [OF assms(1), of w] silent_defined [OF assms(1), of w] w by simp_all
  then show "\<exists>rs. w_out (snd (run_state (m \<bind> k) w)) = w_out w @ rs
      \<and> length rs = (if w_undefined (snd (run_state (m \<bind> k) w)) then 0 else 1)"
    using m assms(2) [of x] by (auto simp: answers_if_defined_def dest: spec [of _ w1])
qed

lemma if_defined_cases:
  "(b \<Longrightarrow> answers_if_defined m) \<Longrightarrow> (\<not> b \<Longrightarrow> answers_if_defined n) \<Longrightarrow> answers_if_defined (if b then m else n)"
  "(r = None \<Longrightarrow> answers_if_defined m) \<Longrightarrow> (\<And>x. r = Some x \<Longrightarrow> answers_if_defined (k x)) \<Longrightarrow>
   answers_if_defined (case r of None \<Rightarrow> m | Some x \<Rightarrow> k x)"
  "(\<And>x y. p = (x, y) \<Longrightarrow> answers_if_defined (g x y)) \<Longrightarrow> answers_if_defined (case p of (x, y) \<Rightarrow> g x y)"
  "answers_if_defined n \<Longrightarrow> (\<And>x. q = Some x \<Longrightarrow> answers_if_defined (k' x)) \<Longrightarrow> answers_if_defined (deref n q k')"
  by (auto simp: deref_def split: option.splits prod.splits)

section \<open>What the responses contain\<close>

named_theorems responds_intros \<open>a predicate every response of an operation satisfies\<close>

definition responds :: "(response \<Rightarrow> bool) \<Rightarrow> 'a io \<Rightarrow> bool" where
  "responds B m \<longleftrightarrow> answers (\<lambda>_ rs. list_all B rs) m"

lemma responds_silent: "silent m \<Longrightarrow> responds B m"
  by (auto simp: responds_def answers_defs)

lemma responds_bind [responds_intros]:
  assumes "responds B m" and "\<And>x. responds B (k x)"
  shows "responds B (m \<bind> k)"
  unfolding responds_def
proof (rule answersI)
  fix w
  obtain x w1 where m: "run_state m w = (x, w1)" by (cases "run_state m w")
  show "w_undefined (snd (run_state (m \<bind> k) w)) = w_undefined w"
    using m answers_defined [OF assms(1) [unfolded responds_def], of w] answers_defined [OF assms(2) [unfolded responds_def], of x w1]
    by simp
  obtain rs where "w_out w1 = w_out w @ rs" "list_all B rs"
    using assms(1) m by (auto simp: responds_def answers_def dest: spec [of _ w])
  moreover obtain qs where "w_out (snd (run_state (k x) w1)) = w_out w1 @ qs" "list_all B qs"
    using assms(2) by (auto simp: responds_def answers_def)
  ultimately show "\<exists>rs. w_out (snd (run_state (m \<bind> k) w)) = w_out w @ rs \<and> list_all B rs"
    using m by auto
qed

lemma responds_ret [responds_intros]: "responds B (ret x)"
  by (intro responds_silent replies_intros)

lemma responds_cases [responds_intros]:
  "(b \<Longrightarrow> responds B m) \<Longrightarrow> (\<not> b \<Longrightarrow> responds B n) \<Longrightarrow> responds B (if b then m else n)"
  "(r = None \<Longrightarrow> responds B m) \<Longrightarrow> (\<And>x. r = Some x \<Longrightarrow> responds B (k x)) \<Longrightarrow>
   responds B (case r of None \<Rightarrow> m | Some x \<Rightarrow> k x)"
  "(\<And>x y. p = (x, y) \<Longrightarrow> responds B (g x y)) \<Longrightarrow> responds B (case p of (x, y) \<Rightarrow> g x y)"
  "(xs = [] \<Longrightarrow> responds B m) \<Longrightarrow> (\<And>y ys. xs = y # ys \<Longrightarrow> responds B (c y ys)) \<Longrightarrow>
   responds B (case xs of [] \<Rightarrow> m | y # ys \<Rightarrow> c y ys)"
  by (auto split: option.splits prod.splits list.splits)

lemma responds_idioms [responds_intros]:
  "responds B m \<Longrightarrow> (\<And>x. responds B (k x)) \<Longrightarrow> responds B (guard m k)"
  "responds B m \<Longrightarrow> (\<And>x. responds B (k' x)) \<Longrightarrow> responds B (guard_step m k')"
  "responds B u \<Longrightarrow> responds B (fail_with u)"
  unfolding idiom_defs by (intro responds_intros; assumption)+

lemma responds_send [responds_intros]: "B \<lparr>rs_status = s, rs_body = b\<rparr> \<Longrightarrow> responds B (send s b)"
  by (simp add: responds_def answers_def send_def)

section \<open>What a step returns\<close>

text \<open>A step that succeeds returns a value satisfying \<open>Q\<close>; what follows it may rely on that.\<close>

named_theorems yields_intros \<open>what a successful step returns\<close>

definition yields :: "('a \<Rightarrow> bool) \<Rightarrow> 'a option io \<Rightarrow> bool" where
  "yields Q m \<longleftrightarrow> (\<forall>w x. fst (run_state m w) = Some x \<longrightarrow> Q x)"

lemma yields_True: "yields (\<lambda>_. True) m"
  by (simp add: yields_def)

lemma yields_ret [yields_intros]: "Q x \<Longrightarrow> yields Q (ret (Some x))" "yields Q (ret None)"
  by (simp_all add: yields_def)

lemma yields_fail [yields_intros]: "yields Q (fail_with m)"
  by (simp add: yields_def fail_with_def split: prod.splits)

lemma yields_bind: "(\<And>x. yields Q (k x)) \<Longrightarrow> yields Q (m \<bind> k)"
  by (auto simp: yields_def split: prod.splits)

lemma yields_cases [yields_intros]:
  "(b \<Longrightarrow> yields Q m) \<Longrightarrow> (\<not> b \<Longrightarrow> yields Q n) \<Longrightarrow> yields Q (if b then m else n)"
  "(r = None \<Longrightarrow> yields Q m) \<Longrightarrow> (\<And>x. r = Some x \<Longrightarrow> yields Q (k x)) \<Longrightarrow>
   yields Q (case r of None \<Rightarrow> m | Some x \<Rightarrow> k x)"
  "(\<And>x y. p = (x, y) \<Longrightarrow> yields Q (g x y)) \<Longrightarrow> yields Q (case p of (x, y) \<Rightarrow> g x y)"
  by (auto split: option.splits prod.splits)

lemma yields_guard_step:
  assumes "yields R m" and "\<And>x. R x \<Longrightarrow> yields Q (k x)"
  shows "yields Q (guard_step m k)"
  using assms unfolding yields_def guard_step_def by (auto split: option.splits prod.splits) (metis fst_conv)

lemma emits_guard_when:
  assumes "yields Q m" and "emits C m" and "\<And>x. Q x \<Longrightarrow> emits C (k x)"
  shows "emits C (guard m k)"
proof (rule emitsI)
  fix w
  obtain r w1 where m: "run_state m w = (r, w1)" by (cases "run_state m w")
  obtain cs where cs: "w_calls w1 = w_calls w @ cs" "list_all C cs" and net: "w_net w1 = w_net w"
    using assms(2) m by (metis emitsE emits_net snd_conv)
  have k: "emits C (k x)" if "r = Some x" for x
    using assms(1,3) m that unfolding yields_def by (metis fst_conv)
  show "w_net (snd (run_state (guard m k) w)) = w_net w"
    using m net emits_net [OF k] by (cases r) (simp_all add: guard_def)
  show "\<exists>cs. w_calls (snd (run_state (guard m k) w)) = w_calls w @ cs \<and> list_all C cs"
  proof (cases r)
    case None
    then show ?thesis using m cs by (simp add: guard_def)
  next
    case (Some x)
    then obtain ds where "w_calls (snd (run_state (k x) w1)) = w_calls w1 @ ds" "list_all C ds"
      using emitsE [OF k [OF Some], of w1] by metis
    then show ?thesis using m cs Some by (simp add: guard_def)
  qed
qed

section \<open>A concrete world\<close>

text \<open>Every service registered once, a given network, and a clock that stands at noon UTC of day 20000.\<close>

definition sample_service :: "string \<Rightarrow> MicroServiceMeta" where
  "sample_service t = \<lparr>ms_Id = 1, ms_Type = t, ms_PrivateEndPoint = ''https://svc'',
     ms_PublicEndPoint = ''https://svc'', ms_AccessKey = ''key'', ms_Version = ''1'', ms_LastUpdate = 0\<rparr>"

definition sample_world :: "(api_call list \<Rightarrow> api_call \<Rightarrow> reply option) \<Rightarrow> world" where
  "sample_world net = \<lparr>w_services = map sample_service [''owgw'', ''owprov'', ''nwtopology'',
       ''mango-parental-control'', ''owsec'', ''owfms''],
     w_public = ''https://portal'', w_net = net, w_clock = (\<lambda>_. 1728043200000000), w_ticks = 0,
     w_calls = [], w_out = [], w_undefined = False\<rparr>"

lemma sample_world_sel [simp]:
  "w_services (sample_world net) = map sample_service [''owgw'', ''owprov'', ''nwtopology'',
     ''mango-parental-control'', ''owsec'', ''owfms'']"
  "w_public (sample_world net) = ''https://portal''" "w_net (sample_world net) = net"
  "w_clock (sample_world net) = (\<lambda>_. 1728043200000000)" "w_ticks (sample_world net) = 0"
  "w_calls (sample_world net) = []" "w_out (sample_world net) = []" "w_undefined (sample_world net) = False"
  by (simp_all add: sample_world_def)

definition sample_handler :: "string \<Rightarrow> handler" where
  "sample_handler verb = \<lparr>h_method = verb, h_bindings = [], h_params = [], h_body = None,
     h_id = ''sub1'', h_owner = ''op1'', h_email = ''a@b.c'', h_token = ''tok'', h_role = SUBSCRIBER\<rparr>"

end
