(* ===== verification/Objects.thy ===== *)
theory Objects
  imports Platform
begin

text \<open>
  The JSON codecs of \<^verbatim>\<open>src/framework/RESTAPI_utils.h\<close>: the overloads of \<^verbatim>\<open>field_to_json\<close> and
  \<^verbatim>\<open>field_from_json\<close>.  A \<^verbatim>\<open>from_json\<close> method is a list of field readers run on the object until one of
  them throws; the fields read so far stay assigned and the method returns false.  The locale \<open>codec\<close>
  is what a vector or a nested member needs of the codec of its elements.
\<close>

section \<open>Writers\<close>

text \<open>The calls of a \<^verbatim>\<open>to_json\<close> method in order.\<close>

definition write_fields :: "(jobj \<Rightarrow> jobj) list \<Rightarrow> jobj \<Rightarrow> jobj" where
  "write_fields fs ob = fold (\<lambda>f o'. f o') fs ob"

definition objects_to_json :: "('r \<Rightarrow> jobj \<Rightarrow> jobj) \<Rightarrow> 'r list \<Rightarrow> json" where
  "objects_to_json enc xs = JArray (map (\<lambda>x. JObject (enc x [])) xs)"

section \<open>Readers\<close>

text \<open>A reader returns the updated structure and whether it finished without an exception.\<close>

type_synonym 'r reader = "jobj \<Rightarrow> 'r \<Rightarrow> 'r \<times> bool"

definition present :: "jobj \<Rightarrow> string \<Rightarrow> bool" where
  "present ob k \<longleftrightarrow> has ob k \<and> \<not> isNull ob k"

definition read_string :: "platform \<Rightarrow> string \<Rightarrow> ((string \<Rightarrow> string) \<Rightarrow> 'r \<Rightarrow> 'r) \<Rightarrow> 'r reader" where
  "read_string P k upd ob r = (if present ob k
     then (case po_toString P (getVar ob k) of Inl _ \<Rightarrow> (r, False) | Inr s \<Rightarrow> (upd (\<lambda>_. s) r, True))
     else (r, True))"

definition read_bool :: "platform \<Rightarrow> string \<Rightarrow> ((bool \<Rightarrow> bool) \<Rightarrow> 'r \<Rightarrow> 'r) \<Rightarrow> 'r reader" where
  "read_bool P k upd ob r = (if present ob k
     then (case po_toString P (getVar ob k) of Inl _ \<Rightarrow> (r, False)
        | Inr s \<Rightarrow> (upd (\<lambda>_. s = ''true'') r, True))
     else (r, True))"

definition read_uint64 :: "platform \<Rightarrow> string \<Rightarrow> ((uint64 \<Rightarrow> uint64) \<Rightarrow> 'r \<Rightarrow> 'r) \<Rightarrow> 'r reader" where
  "read_uint64 P k upd ob r = (if present ob k
     then (case po_toUInt64 P (getVar ob k) of Inl _ \<Rightarrow> (r, False)
        | Inr i \<Rightarrow> (upd (\<lambda>_. word_of_int i) r, True))
     else (r, True))"

definition read_int32 :: "platform \<Rightarrow> string \<Rightarrow> ((uint32 \<Rightarrow> uint32) \<Rightarrow> 'r \<Rightarrow> 'r) \<Rightarrow> 'r reader" where
  "read_int32 P k upd ob r = (if present ob k
     then (case po_toInt P (getVar ob k) of Inl _ \<Rightarrow> (r, False)
        | Inr i \<Rightarrow> (upd (\<lambda>_. word_of_int i) r, True))
     else (r, True))"

text \<open>Elements converted one by one into a vector; an exception keeps the elements before it.\<close>

fun convert_list :: "(json \<Rightarrow> 'a exn) \<Rightarrow> json list \<Rightarrow> 'a list \<Rightarrow> 'a list \<times> bool" where
  "convert_list conv [] acc = (acc, True)"
| "convert_list conv (x # xs) acc = (case conv x of Inl _ \<Rightarrow> (acc, False)
     | Inr y \<Rightarrow> convert_list conv xs (acc @ [y]))"

definition read_strings :: "platform \<Rightarrow> string \<Rightarrow> ((string list \<Rightarrow> string list) \<Rightarrow> 'r \<Rightarrow> 'r) \<Rightarrow> 'r reader" where
  "read_strings P k upd ob r = (case getArray ob k of None \<Rightarrow> (r, True)
     | Some arr \<Rightarrow> (case convert_list (po_toString P) arr [] of (ys, okv) \<Rightarrow> (upd (\<lambda>_. ys) r, okv)))"

definition read_uint64s :: "platform \<Rightarrow> string \<Rightarrow> ((uint64 list \<Rightarrow> uint64 list) \<Rightarrow> 'r \<Rightarrow> 'r) \<Rightarrow> 'r reader" where
  "read_uint64s P k upd ob r = (case getArray ob k of None \<Rightarrow> (r, True)
     | Some arr \<Rightarrow> (case convert_list (po_toUInt64 P) arr [] of
          (ys, okv) \<Rightarrow> (upd (\<lambda>_. map word_of_int ys) r, okv)))"

text \<open>
  A vector of structures is appended to, not cleared; the result of the element's \<^verbatim>\<open>from_json\<close> is
  ignored, and an element that is not an object throws.
\<close>

fun objects_loop :: "(jobj ptr \<Rightarrow> 'e \<Rightarrow> 'e \<times> bool) \<Rightarrow> 'e \<Rightarrow> json list \<Rightarrow> 'e list \<Rightarrow> 'e list \<times> bool" where
  "objects_loop dec fresh [] acc = (acc, True)"
| "objects_loop dec fresh (JObject ob # xs) acc =
     objects_loop dec fresh xs (acc @ [fst (dec (Some ob) fresh)])"
| "objects_loop dec fresh (_ # xs) acc = (acc, False)"

definition read_objects ::
  "(jobj ptr \<Rightarrow> 'e \<Rightarrow> 'e \<times> bool) \<Rightarrow> 'e \<Rightarrow> string \<Rightarrow> (('e list \<Rightarrow> 'e list) \<Rightarrow> 'r \<Rightarrow> 'r) \<Rightarrow> 'r reader" where
  "read_objects dec fresh k upd ob r = (case getArray ob k of None \<Rightarrow> (r, True)
     | Some arr \<Rightarrow> (upd (\<lambda>ys. fst (objects_loop dec fresh arr ys)) r, snd (objects_loop dec fresh arr [])))"

definition read_object ::
  "(jobj ptr \<Rightarrow> 'e \<Rightarrow> 'e \<times> bool) \<Rightarrow> string \<Rightarrow> (('e \<Rightarrow> 'e) \<Rightarrow> 'r \<Rightarrow> 'r) \<Rightarrow> 'r reader" where
  "read_object dec k upd ob r = (case getObject ob k of None \<Rightarrow> (r, True)
     | Some o' \<Rightarrow> (upd (\<lambda>v. fst (dec (Some o') v)) r, True))"

text \<open>An enumeration is read through its name.\<close>

definition read_enum ::
  "platform \<Rightarrow> (string \<Rightarrow> 'e) \<Rightarrow> string \<Rightarrow> (('e \<Rightarrow> 'e) \<Rightarrow> 'r \<Rightarrow> 'r) \<Rightarrow> 'r reader" where
  "read_enum P conv k upd ob r = (if present ob k
     then (case po_toString P (getVar ob k) of Inl _ \<Rightarrow> (r, False) | Inr s \<Rightarrow> (upd (\<lambda>_. conv s) r, True))
     else (r, True))"

text \<open>A vector of pairs of strings is an array of objects with the members \<^verbatim>\<open>tag\<close> and \<^verbatim>\<open>value\<close>.\<close>

definition pairs_to_json :: "(string \<times> string) list \<Rightarrow> json" where
  "pairs_to_json ps = JArray (map (\<lambda>(a, b). JObject (set_key ''value'' (JString b) (set_key ''tag'' (JString a) []))) ps)"

definition pair_member :: "platform \<Rightarrow> jobj \<Rightarrow> string \<Rightarrow> string exn" where
  "pair_member P ob k = (if has ob k then po_toString P (getVar ob k) else Inr [])"

fun pairs_loop :: "platform \<Rightarrow> json list \<Rightarrow> (string \<times> string) list \<Rightarrow> (string \<times> string) list \<times> bool" where
  "pairs_loop P [] acc = (acc, True)"
| "pairs_loop P (JObject ob # xs) acc = (case pair_member P ob ''tag'' of Inl _ \<Rightarrow> (acc, False)
     | Inr a \<Rightarrow> (case pair_member P ob ''value'' of Inl _ \<Rightarrow> (acc, False)
         | Inr b \<Rightarrow> pairs_loop P xs (acc @ [(a, b)])))"
| "pairs_loop P (_ # xs) acc = (acc, False)"

definition read_pairs ::
  "platform \<Rightarrow> string \<Rightarrow> (((string \<times> string) list \<Rightarrow> (string \<times> string) list) \<Rightarrow> 'r \<Rightarrow> 'r) \<Rightarrow> 'r reader" where
  "read_pairs P k upd ob r = (case getArray ob k of None \<Rightarrow> (r, True)
     | Some arr \<Rightarrow> (upd (\<lambda>ys. fst (pairs_loop P arr ys)) r, snd (pairs_loop P arr [])))"

text \<open>\<^verbatim>\<open>info.from_json(Obj)\<close>: the base structure is read from the same object.\<close>

definition read_base :: "(jobj ptr \<Rightarrow> 'e \<Rightarrow> 'e \<times> bool) \<Rightarrow> (('e \<Rightarrow> 'e) \<Rightarrow> 'r \<Rightarrow> 'r) \<Rightarrow> 'r reader" where
  "read_base dec upd ob r = (upd (\<lambda>v. fst (dec (Some ob) v)) r, True)"

fun run_readers :: "'r reader list \<Rightarrow> 'r reader" where
  "run_readers [] ob r = (r, True)"
| "run_readers (f # fs) ob r = (case f ob r of (r', okv) \<Rightarrow> if okv then run_readers fs ob r' else (r', False))"

text \<open>A null object throws in the first reader.\<close>

definition parse_object :: "'r reader list \<Rightarrow> jobj ptr \<Rightarrow> 'r \<Rightarrow> 'r \<times> bool" where
  "parse_object fs Obj r = (case Obj of None \<Rightarrow> (r, False) | Some ob \<Rightarrow> run_readers fs ob r)"

section \<open>Reading back what was written\<close>

named_theorems codec_simps \<open>readers on an object that holds the written value\<close>

lemma present_getVar: "getVar ob k = v \<Longrightarrow> v \<noteq> JNull \<Longrightarrow> present ob k"
  by (auto simp: present_def has_def isNull_def getVar_def split: option.splits)

lemma convert_list_map:
  "(\<And>x. x \<in> set xs \<Longrightarrow> conv (f x) = Inr (g x)) \<Longrightarrow> convert_list conv (map f xs) acc = (acc @ map g xs, True)"
  by (induction xs arbitrary: acc) auto

lemma uint_less64: "uint (x :: uint64) < 2 ^ 64"
  using uint_bounded [of x] by simp

lemma conv_uint64: "conv_doc P \<Longrightarrow> po_toUInt64 P (JInt (uint (x :: uint64))) = Inr (uint x)"
  by (rule conv_docD(4) [OF _ _ uint_less64]) simp_all

lemma conv_int32: "conv_doc P \<Longrightarrow> po_toInt P (JInt (sint (x :: uint32))) = Inr (sint x)"
  by (rule conv_docD(2)) (use sint_ge [of x] sint_lt [of x] in \<open>simp_all add: int32_def\<close>)

lemma read_signed [codec_simps]:
  "conv_doc P \<Longrightarrow> getVar ob k = JInt (sint x) \<Longrightarrow> read_int32 P k updi ob r = (updi (\<lambda>_. x) r, True)"
  by (simp add: read_int32_def present_getVar conv_int32)

lemma read_scalar [codec_simps]:
  assumes "conv_doc P"
  shows "getVar ob k = JString s \<Longrightarrow> read_string P k upds ob r = (upds (\<lambda>_. s) r, True)"
    and "getVar ob k = JBool b \<Longrightarrow> read_bool P k updb ob r = (updb (\<lambda>_. b) r, True)"
    and "getVar ob k = JInt (uint x) \<Longrightarrow> read_uint64 P k updx ob r = (updx (\<lambda>_. x) r, True)"
  using assms
  by (simp_all add: read_string_def read_bool_def read_uint64_def present_getVar conv_docD conv_uint64)

lemma read_vector [codec_simps]:
  assumes "conv_doc P"
  shows "getVar ob k = JArray (map JString ss) \<Longrightarrow> read_strings P k upds ob r = (upds (\<lambda>_. ss) r, True)"
    and "getVar ob k = JArray (map (\<lambda>x. JInt (uint x)) xs) \<Longrightarrow>
         read_uint64s P k updx ob r = (updx (\<lambda>_. xs) r, True)"
proof -
  show "read_strings P k upds ob r = (upds (\<lambda>_. ss) r, True)" if "getVar ob k = JArray (map JString ss)"
    using that assms convert_list_map [of ss "po_toString P" JString "\<lambda>x. x" "[]"]
    by (simp add: read_strings_def getArray_def conv_docD)
  have "convert_list (po_toUInt64 P) (map (\<lambda>x. JInt (uint x)) xs) [] = ([] @ map uint xs, True)"
    using assms by (intro convert_list_map) (simp add: conv_uint64)
  then show "read_uint64s P k updx ob r = (updx (\<lambda>_. xs) r, True)"
    if "getVar ob k = JArray (map (\<lambda>x. JInt (uint x)) xs)"
    using that by (simp add: read_uint64s_def getArray_def comp_def)
qed

lemma read_object_hit [codec_simps]:
  "getVar ob k = JObject o' \<Longrightarrow> read_object dec k upd ob r = (upd (\<lambda>v. fst (dec (Some o') v)) r, True)"
  by (simp add: read_object_def getObject_def)

lemma read_objects_hit [codec_simps]:
  "getVar ob k = JArray arr \<Longrightarrow> read_objects dec fresh k upd ob r =
   (upd (\<lambda>ys. fst (objects_loop dec fresh arr ys)) r, snd (objects_loop dec fresh arr []))"
  by (simp add: read_objects_def getArray_def)

lemma read_enum_hit [codec_simps]:
  "conv_doc P \<Longrightarrow> getVar ob k = JString s \<Longrightarrow> read_enum P conv k upd ob r = (upd (\<lambda>_. conv s) r, True)"
  by (simp add: read_enum_def present_getVar conv_docD)

lemma pairs_loop_enc:
  "conv_doc P \<Longrightarrow> pairs_loop P (map (\<lambda>(a, b). JObject (set_key ''value'' (JString b) (set_key ''tag'' (JString a) []))) ps) acc
     = (acc @ ps, True)"
  by (induction ps arbitrary: acc) (auto simp: pair_member_def has_def getVar_def conv_docD)

lemma read_pairs_hit [codec_simps]:
  assumes "conv_doc P" and "getVar ob k = pairs_to_json ps"
  shows "read_pairs P k upd ob r = (upd (\<lambda>ys. ys @ ps) r, True)"
  using assms pairs_loop_enc [OF assms(1)] by (simp add: read_pairs_def pairs_to_json_def getArray_def)

lemmas parse_simps = getVar_def parse_object_def write_fields_def read_base_def json_simps codec_simps

section \<open>The contract of a codec\<close>

text \<open>
  Reading into a fresh structure what the writer put into an empty object gives the structure
  back.  Then a vector of such structures, written into a member and read by a client, is appended
  unchanged to what the client's vector already holds.
\<close>

locale codec =
  fixes enc :: "'e \<Rightarrow> jobj \<Rightarrow> jobj"
    and dec :: "platform \<Rightarrow> jobj ptr \<Rightarrow> 'e \<Rightarrow> 'e \<times> bool"
    and fresh :: 'e
  assumes dec_enc: "conv_doc P \<Longrightarrow> dec P (Some (enc x [])) fresh = (x, True)"
begin

lemma loop_enc:
  "conv_doc P \<Longrightarrow> objects_loop (dec P) fresh (map (\<lambda>x. JObject (enc x [])) xs) acc = (acc @ xs, True)"
  by (induction xs arbitrary: acc) (simp_all add: dec_enc)

lemma read_objects_enc:
  assumes "conv_doc P" and "getVar ob k = objects_to_json enc xs"
  shows "read_objects (dec P) fresh k upd ob r = (upd (\<lambda>ys. ys @ xs) r, True)"
  using assms by (simp add: objects_to_json_def read_objects_hit loop_enc)

lemma enc_inj: "enc x [] = enc y [] \<Longrightarrow> x = y"
  using ref_platform_docs(6) by (metis dec_enc prod.inject)

end

end
