(* ===== verification/ProvObjects.thy ===== *)
theory ProvObjects
  imports Objects
begin

text \<open>
  The objects of \<^verbatim>\<open>src/RESTObjects/RESTAPI_ProvObjects\<close> that the portal exchanges with the provisioning
  service: records with the members of the C++ structures, their default values and their
  \<^verbatim>\<open>to_json\<close> and \<^verbatim>\<open>from_json\<close> methods field by field.  The round trips say that what the portal
  writes is what it reads back.  \<^verbatim>\<open>DeviceConfigurationElement::weight\<close> and \<^verbatim>\<open>Location::type\<close> have no
  initialiser in the source; their fresh values here are never read before they are assigned.
\<close>

section \<open>Structures and codecs\<close>

subsection \<open>Enumerations\<close>

datatype LocationType = LT_SERVICE | LT_EQUIPMENT | LT_AUTO | LT_MANUAL | LT_SPECIAL | LT_UNKNOWN
  | LT_CORPORATE

fun to_string_LocationType :: "LocationType \<Rightarrow> string" where
  "to_string_LocationType LT_SERVICE = ''SERVICE''"
| "to_string_LocationType LT_EQUIPMENT = ''EQUIPMENT''"
| "to_string_LocationType LT_AUTO = ''AUTO''"
| "to_string_LocationType LT_MANUAL = ''MANUAL''"
| "to_string_LocationType LT_SPECIAL = ''SPECIAL''"
| "to_string_LocationType LT_UNKNOWN = ''UNKNOWN''"
| "to_string_LocationType LT_CORPORATE = ''CORPORATE''"

definition location_from_string :: "platform \<Rightarrow> string \<Rightarrow> LocationType" where
  "location_from_string P S =
     (if po_icompare P S ''SERVICE'' = 0 then LT_SERVICE
      else if po_icompare P S ''EQUIPMENT'' = 0 then LT_EQUIPMENT
      else if po_icompare P S ''AUTO'' = 0 then LT_AUTO
      else if po_icompare P S ''MANUAL'' = 0 then LT_MANUAL
      else if po_icompare P S ''SPECIAL'' = 0 then LT_SPECIAL
      else if po_icompare P S ''UNKNOWN'' = 0 then LT_UNKNOWN
      else if po_icompare P S ''CORPORATE'' = 0 then LT_CORPORATE
      else LT_UNKNOWN)"

datatype ContactType = CT_SUBSCRIBER | CT_USER | CT_INSTALLER | CT_CSR | CT_MANAGER
  | CT_BUSINESSOWNER | CT_TECHNICIAN | CT_CORPORATE | CT_UNKNOWN

fun to_string_ContactType :: "ContactType \<Rightarrow> string" where
  "to_string_ContactType CT_SUBSCRIBER = ''SUBSCRIBER''"
| "to_string_ContactType CT_USER = ''USER''"
| "to_string_ContactType CT_INSTALLER = ''INSTALLER''"
| "to_string_ContactType CT_CSR = ''CSR''"
| "to_string_ContactType CT_MANAGER = ''MANAGER''"
| "to_string_ContactType CT_BUSINESSOWNER = ''BUSINESSOWNER''"
| "to_string_ContactType CT_TECHNICIAN = ''TECHNICIAN''"
| "to_string_ContactType CT_CORPORATE = ''CORPORATE''"
| "to_string_ContactType CT_UNKNOWN = ''UNKNOWN''"

definition contact_from_string :: "platform \<Rightarrow> string \<Rightarrow> ContactType" where
  "contact_from_string P S =
     (if po_icompare P S ''SUBSCRIBER'' = 0 then CT_SUBSCRIBER
      else if po_icompare P S ''USER'' = 0 then CT_USER
      else if po_icompare P S ''INSTALLER'' = 0 then CT_INSTALLER
      else if po_icompare P S ''CSR'' = 0 then CT_CSR
      else if po_icompare P S ''BUSINESSOWNER'' = 0 then CT_BUSINESSOWNER
      else if po_icompare P S ''TECHNICIAN'' = 0 then CT_TECHNICIAN
      else if po_icompare P S ''CORPORATE'' = 0 then CT_CORPORATE
      else if po_icompare P S ''UNKNOWN'' = 0 then CT_UNKNOWN
      else CT_UNKNOWN)"

text \<open>The type of a location goes through a temporary string, empty when the member is absent.\<close>

definition read_LocationType ::
  "platform \<Rightarrow> string \<Rightarrow> ((LocationType \<Rightarrow> LocationType) \<Rightarrow> 'r \<Rightarrow> 'r) \<Rightarrow> 'r reader" where
  "read_LocationType P k upd ob r =
     (case read_string P k (\<lambda>f x. f x) ob '''' of
        (s, okv) \<Rightarrow> if okv then (upd (\<lambda>_. location_from_string P s) r, True) else (r, False))"

text \<open>An absent group clears the field.\<close>

definition read_deviceGroup ::
  "platform \<Rightarrow> string \<Rightarrow> ((string \<Rightarrow> string) \<Rightarrow> 'r \<Rightarrow> 'r) \<Rightarrow> 'r reader" where
  "read_deviceGroup P k upd ob r =
     (if has ob k then read_string P k upd ob r else (upd (\<lambda>_. '''') r, True))"

subsection \<open>\<^verbatim>\<open>NoteInfo\<close>\<close>

record NoteInfo =
  ni_created :: uint64
  ni_createdBy :: string
  ni_note :: string

definition NoteInfo_fresh :: NoteInfo where
  "NoteInfo_fresh = \<lparr>ni_created = 0,
     ni_createdBy = '''',
     ni_note = ''''\<rparr>"

definition NoteInfo_to_json :: "NoteInfo \<Rightarrow> jobj \<Rightarrow> jobj" where
  "NoteInfo_to_json r = write_fields [
     set_key ''created'' (JInt (uint (ni_created r))),
     set_key ''createdBy'' (JString (ni_createdBy r)),
     set_key ''note'' (JString (ni_note r))]"

definition NoteInfo_from_json :: "platform \<Rightarrow> jobj ptr \<Rightarrow> NoteInfo \<Rightarrow> NoteInfo \<times> bool" where
  "NoteInfo_from_json P = parse_object [
     read_uint64 P ''created'' ni_created_update,
     read_string P ''createdBy'' ni_createdBy_update,
     read_string P ''note'' ni_note_update]"

subsection \<open>\<^verbatim>\<open>ObjectInfo\<close>\<close>

record ObjectInfo =
  oi_id :: string
  oi_name :: string
  oi_description :: string
  oi_notes :: "NoteInfo list"
  oi_created :: uint64
  oi_modified :: uint64
  oi_tags :: "uint64 list"

definition ObjectInfo_fresh :: ObjectInfo where
  "ObjectInfo_fresh = \<lparr>oi_id = '''',
     oi_name = '''',
     oi_description = '''',
     oi_notes = [],
     oi_created = 0,
     oi_modified = 0,
     oi_tags = []\<rparr>"

definition ObjectInfo_to_json :: "ObjectInfo \<Rightarrow> jobj \<Rightarrow> jobj" where
  "ObjectInfo_to_json r = write_fields [
     set_key ''id'' (JString (oi_id r)),
     set_key ''name'' (JString (oi_name r)),
     set_key ''description'' (JString (oi_description r)),
     set_key ''created'' (JInt (uint (oi_created r))),
     set_key ''modified'' (JInt (uint (oi_modified r))),
     set_key ''notes'' (objects_to_json NoteInfo_to_json (oi_notes r)),
     set_key ''tags'' (JArray (map (\<lambda>x. JInt (uint x)) (oi_tags r)))]"

definition ObjectInfo_from_json :: "platform \<Rightarrow> jobj ptr \<Rightarrow> ObjectInfo \<Rightarrow> ObjectInfo \<times> bool" where
  "ObjectInfo_from_json P = parse_object [
     read_string P ''id'' oi_id_update,
     read_string P ''name'' oi_name_update,
     read_string P ''description'' oi_description_update,
     read_uint64 P ''created'' oi_created_update,
     read_uint64 P ''modified'' oi_modified_update,
     read_objects (NoteInfo_from_json P) NoteInfo_fresh ''notes'' oi_notes_update,
     read_uint64s P ''tags'' oi_tags_update]"

subsection \<open>\<^verbatim>\<open>DeviceRules\<close>\<close>

record DeviceRules =
  dr_rcOnly :: string
  dr_rrm :: string
  dr_firmwareUpgrade :: string

definition DeviceRules_fresh :: DeviceRules where
  "DeviceRules_fresh = \<lparr>dr_rcOnly = ''inherit'',
     dr_rrm = ''inherit'',
     dr_firmwareUpgrade = ''inherit''\<rparr>"

definition DeviceRules_to_json :: "DeviceRules \<Rightarrow> jobj \<Rightarrow> jobj" where
  "DeviceRules_to_json r = write_fields [
     set_key ''rcOnly'' (JString (dr_rcOnly r)),
     set_key ''rrm'' (JString (dr_rrm r)),
     set_key ''firmwareUpgrade'' (JString (dr_firmwareUpgrade r))]"

definition DeviceRules_from_json :: "platform \<Rightarrow> jobj ptr \<Rightarrow> DeviceRules \<Rightarrow> DeviceRules \<times> bool" where
  "DeviceRules_from_json P = parse_object [
     read_string P ''rcOnly'' dr_rcOnly_update,
     read_string P ''rrm'' dr_rrm_update,
     read_string P ''firmwareUpgrade'' dr_firmwareUpgrade_update]"

subsection \<open>\<^verbatim>\<open>DiGraphEntry\<close>\<close>

record DiGraphEntry =
  dg_parent :: string
  dg_child :: string

definition DiGraphEntry_fresh :: DiGraphEntry where
  "DiGraphEntry_fresh = \<lparr>dg_parent = '''',
     dg_child = ''''\<rparr>"

definition DiGraphEntry_to_json :: "DiGraphEntry \<Rightarrow> jobj \<Rightarrow> jobj" where
  "DiGraphEntry_to_json r = write_fields [
     set_key ''parent'' (JString (dg_parent r)),
     set_key ''child'' (JString (dg_child r))]"

definition DiGraphEntry_from_json :: "platform \<Rightarrow> jobj ptr \<Rightarrow> DiGraphEntry \<Rightarrow> DiGraphEntry \<times> bool" where
  "DiGraphEntry_from_json P = parse_object [
     read_string P ''parent'' dg_parent_update,
     read_string P ''child'' dg_child_update]"

subsection \<open>\<^verbatim>\<open>Venue\<close>\<close>

record Venue =
  ve_info :: ObjectInfo
  ve_entity :: string
  ve_parent :: string
  ve_children :: "string list"
  ve_managementPolicy :: string
  ve_devices :: "string list"
  ve_topology :: "DiGraphEntry list"
  ve_design :: string
  ve_deviceConfiguration :: "string list"
  ve_contacts :: "string list"
  ve_location :: string
  ve_deviceRules :: DeviceRules
  ve_sourceIP :: "string list"
  ve_variables :: "string list"
  ve_configurations :: "string list"
  ve_maps :: "string list"
  ve_managementPolicies :: "string list"
  ve_managementRoles :: "string list"
  ve_boards :: "string list"

definition Venue_fresh :: Venue where
  "Venue_fresh = \<lparr>ve_info = ObjectInfo_fresh,
     ve_entity = '''',
     ve_parent = '''',
     ve_children = [],
     ve_managementPolicy = '''',
     ve_devices = [],
     ve_topology = [],
     ve_design = '''',
     ve_deviceConfiguration = [],
     ve_contacts = [],
     ve_location = '''',
     ve_deviceRules = DeviceRules_fresh,
     ve_sourceIP = [],
     ve_variables = [],
     ve_configurations = [],
     ve_maps = [],
     ve_managementPolicies = [],
     ve_managementRoles = [],
     ve_boards = []\<rparr>"

definition Venue_to_json :: "Venue \<Rightarrow> jobj \<Rightarrow> jobj" where
  "Venue_to_json r = write_fields [
     ObjectInfo_to_json (ve_info r),
     set_key ''parent'' (JString (ve_parent r)),
     set_key ''entity'' (JString (ve_entity r)),
     set_key ''children'' (JArray (map JString (ve_children r))),
     set_key ''devices'' (JArray (map JString (ve_devices r))),
     set_key ''topology'' (objects_to_json DiGraphEntry_to_json (ve_topology r)),
     set_key ''parent'' (JString (ve_parent r)),
     set_key ''design'' (JString (ve_design r)),
     set_key ''managementPolicy'' (JString (ve_managementPolicy r)),
     set_key ''deviceConfiguration'' (JArray (map JString (ve_deviceConfiguration r))),
     set_key ''contacts'' (JArray (map JString (ve_contacts r))),
     set_key ''location'' (JString (ve_location r)),
     set_key ''deviceRules'' (JObject (DeviceRules_to_json (ve_deviceRules r) [])),
     set_key ''sourceIP'' (JArray (map JString (ve_sourceIP r))),
     set_key ''variables'' (JArray (map JString (ve_variables r))),
     set_key ''managementPolicies'' (JArray (map JString (ve_managementPolicies r))),
     set_key ''managementRoles'' (JArray (map JString (ve_managementRoles r))),
     set_key ''maps'' (JArray (map JString (ve_maps r))),
     set_key ''configurations'' (JArray (map JString (ve_configurations r))),
     set_key ''boards'' (JArray (map JString (ve_boards r)))]"

definition Venue_from_json :: "platform \<Rightarrow> jobj ptr \<Rightarrow> Venue \<Rightarrow> Venue \<times> bool" where
  "Venue_from_json P = parse_object [
     read_base (ObjectInfo_from_json P) ve_info_update,
     read_string P ''parent'' ve_parent_update,
     read_string P ''entity'' ve_entity_update,
     read_strings P ''children'' ve_children_update,
     read_strings P ''devices'' ve_devices_update,
     read_objects (DiGraphEntry_from_json P) DiGraphEntry_fresh ''topology'' ve_topology_update,
     read_string P ''parent'' ve_parent_update,
     read_string P ''design'' ve_design_update,
     read_string P ''managementPolicy'' ve_managementPolicy_update,
     read_strings P ''deviceConfiguration'' ve_deviceConfiguration_update,
     read_strings P ''contacts'' ve_contacts_update,
     read_string P ''location'' ve_location_update,
     read_object (DeviceRules_from_json P) ''deviceRules'' ve_deviceRules_update,
     read_strings P ''sourceIP'' ve_sourceIP_update,
     read_strings P ''variables'' ve_variables_update,
     read_strings P ''managementPolicies'' ve_managementPolicies_update,
     read_strings P ''managementRoles'' ve_managementRoles_update,
     read_strings P ''maps'' ve_maps_update,
     read_strings P ''configurations'' ve_configurations_update,
     read_strings P ''boards'' ve_boards_update]"

subsection \<open>\<^verbatim>\<open>VenueList\<close>\<close>

record VenueList =
  vl_venues :: "Venue list"

definition VenueList_fresh :: VenueList where
  "VenueList_fresh = \<lparr>vl_venues = []\<rparr>"

definition VenueList_to_json :: "VenueList \<Rightarrow> jobj \<Rightarrow> jobj" where
  "VenueList_to_json r = write_fields [
     set_key ''venues'' (objects_to_json Venue_to_json (vl_venues r))]"

text \<open>
  \<^verbatim>\<open>VenueList::from_json\<close> is stricter: every element has to be an object that parses and has an
  identifier.
\<close>

fun venues_loop :: "platform \<Rightarrow> json list \<Rightarrow> Venue list \<Rightarrow> Venue list \<times> bool" where
  "venues_loop P [] acc = (acc, True)"
| "venues_loop P (JObject ob # xs) acc = (case Venue_from_json P (Some ob) Venue_fresh of (v, okv) \<Rightarrow>
     if \<not> okv \<or> oi_id (ve_info v) = [] then (acc, False) else venues_loop P xs (acc @ [v]))"
| "venues_loop P (_ # xs) acc = (acc, False)"

definition VenueList_from_json :: "platform \<Rightarrow> jobj ptr \<Rightarrow> VenueList \<Rightarrow> VenueList \<times> bool" where
  "VenueList_from_json P Obj r = (case Obj of None \<Rightarrow> (r, False)
     | Some ob \<Rightarrow> (case getArray ob ''venues'' of None \<Rightarrow> (r, False)
         | Some arr \<Rightarrow> (case venues_loop P arr [] of (vs, okv) \<Rightarrow> (vl_venues_update (\<lambda>_. vs) r, okv))))"

subsection \<open>\<^verbatim>\<open>Location\<close>\<close>

record Location =
  lo_info :: ObjectInfo
  lo_type :: LocationType
  lo_buildingName :: string
  lo_addressLines :: "string list"
  lo_city :: string
  lo_state :: string
  lo_postal :: string
  lo_country :: string
  lo_phones :: "string list"
  lo_mobiles :: "string list"
  lo_geoCode :: string
  lo_inUse :: "string list"
  lo_entity :: string
  lo_managementPolicy :: string
  lo_timezone :: string

definition Location_fresh :: Location where
  "Location_fresh = \<lparr>lo_info = ObjectInfo_fresh,
     lo_type = LT_SERVICE,
     lo_buildingName = '''',
     lo_addressLines = [],
     lo_city = '''',
     lo_state = '''',
     lo_postal = '''',
     lo_country = '''',
     lo_phones = [],
     lo_mobiles = [],
     lo_geoCode = '''',
     lo_inUse = [],
     lo_entity = '''',
     lo_managementPolicy = '''',
     lo_timezone = ''''\<rparr>"

definition Location_to_json :: "Location \<Rightarrow> jobj \<Rightarrow> jobj" where
  "Location_to_json r = write_fields [
     ObjectInfo_to_json (lo_info r),
     set_key ''type'' (JString (to_string_LocationType (lo_type r))),
     set_key ''buildingName'' (JString (lo_buildingName r)),
     set_key ''addressLines'' (JArray (map JString (lo_addressLines r))),
     set_key ''city'' (JString (lo_city r)),
     set_key ''state'' (JString (lo_state r)),
     set_key ''postal'' (JString (lo_postal r)),
     set_key ''country'' (JString (lo_country r)),
     set_key ''phones'' (JArray (map JString (lo_phones r))),
     set_key ''mobiles'' (JArray (map JString (lo_mobiles r))),
     set_key ''geoCode'' (JString (lo_geoCode r)),
     set_key ''inUse'' (JArray (map JString (lo_inUse r))),
     set_key ''entity'' (JString (lo_entity r)),
     set_key ''managementPolicy'' (JString (lo_managementPolicy r)),
     set_key ''timezone'' (JString (lo_timezone r))]"

definition Location_from_json :: "platform \<Rightarrow> jobj ptr \<Rightarrow> Location \<Rightarrow> Location \<times> bool" where
  "Location_from_json P = parse_object [
     read_base (ObjectInfo_from_json P) lo_info_update,
     read_LocationType P ''type'' lo_type_update,
     read_string P ''buildingName'' lo_buildingName_update,
     read_strings P ''addressLines'' lo_addressLines_update,
     read_string P ''city'' lo_city_update,
     read_string P ''state'' lo_state_update,
     read_string P ''postal'' lo_postal_update,
     read_string P ''country'' lo_country_update,
     read_strings P ''phones'' lo_phones_update,
     read_strings P ''mobiles'' lo_mobiles_update,
     read_string P ''geoCode'' lo_geoCode_update,
     read_strings P ''inUse'' lo_inUse_update,
     read_string P ''entity'' lo_entity_update,
     read_string P ''managementPolicy'' lo_managementPolicy_update,
     read_string P ''timezone'' lo_timezone_update]"

subsection \<open>\<^verbatim>\<open>SubLocation\<close>\<close>

record SubLocation =
  sl_type :: string
  sl_buildingName :: string
  sl_addressLines :: "string list"
  sl_city :: string
  sl_state :: string
  sl_postal :: string
  sl_country :: string
  sl_phones :: "string list"
  sl_mobiles :: "string list"
  sl_geoCode :: string

definition SubLocation_fresh :: SubLocation where
  "SubLocation_fresh = \<lparr>sl_type = '''',
     sl_buildingName = '''',
     sl_addressLines = [],
     sl_city = '''',
     sl_state = '''',
     sl_postal = '''',
     sl_country = '''',
     sl_phones = [],
     sl_mobiles = [],
     sl_geoCode = ''''\<rparr>"

definition SubLocation_to_json :: "SubLocation \<Rightarrow> jobj \<Rightarrow> jobj" where
  "SubLocation_to_json r = write_fields [
     set_key ''type'' (JString (sl_type r)),
     set_key ''buildingName'' (JString (sl_buildingName r)),
     set_key ''addressLines'' (JArray (map JString (sl_addressLines r))),
     set_key ''city'' (JString (sl_city r)),
     set_key ''state'' (JString (sl_state r)),
     set_key ''postal'' (JString (sl_postal r)),
     set_key ''country'' (JString (sl_country r)),
     set_key ''phones'' (JArray (map JString (sl_phones r))),
     set_key ''mobiles'' (JArray (map JString (sl_mobiles r))),
     set_key ''geoCode'' (JString (sl_geoCode r))]"

definition SubLocation_from_json :: "platform \<Rightarrow> jobj ptr \<Rightarrow> SubLocation \<Rightarrow> SubLocation \<times> bool" where
  "SubLocation_from_json P = parse_object [
     read_string P ''type'' sl_type_update,
     read_string P ''buildingName'' sl_buildingName_update,
     read_strings P ''addressLines'' sl_addressLines_update,
     read_string P ''city'' sl_city_update,
     read_string P ''state'' sl_state_update,
     read_string P ''postal'' sl_postal_update,
     read_string P ''country'' sl_country_update,
     read_strings P ''phones'' sl_phones_update,
     read_strings P ''mobiles'' sl_mobiles_update,
     read_string P ''geoCode'' sl_geoCode_update]"

subsection \<open>\<^verbatim>\<open>SubContact\<close>\<close>

record SubContact =
  sc_type :: string
  sc_title :: string
  sc_salutation :: string
  sc_firstname :: string
  sc_lastname :: string
  sc_initials :: string
  sc_visual :: string
  sc_mobiles :: "string list"
  sc_phones :: "string list"
  sc_primaryEmail :: string
  sc_secondaryEmail :: string
  sc_accessPIN :: string

definition SubContact_fresh :: SubContact where
  "SubContact_fresh = \<lparr>sc_type = '''',
     sc_title = '''',
     sc_salutation = '''',
     sc_firstname = '''',
     sc_lastname = '''',
     sc_initials = '''',
     sc_visual = '''',
     sc_mobiles = [],
     sc_phones = [],
     sc_primaryEmail = '''',
     sc_secondaryEmail = '''',
     sc_accessPIN = ''''\<rparr>"

definition SubContact_to_json :: "SubContact \<Rightarrow> jobj \<Rightarrow> jobj" where
  "SubContact_to_json r = write_fields [
     set_key ''type'' (JString (sc_type r)),
     set_key ''title'' (JString (sc_title r)),
     set_key ''salutation'' (JString (sc_salutation r)),
     set_key ''firstname'' (JString (sc_firstname r)),
     set_key ''lastname'' (JString (sc_lastname r)),
     set_key ''initials'' (JString (sc_initials r)),
     set_key ''visual'' (JString (sc_visual r)),
     set_key ''mobiles'' (JArray (map JString (sc_mobiles r))),
     set_key ''phones'' (JArray (map JString (sc_phones r))),
     set_key ''primaryEmail'' (JString (sc_primaryEmail r)),
     set_key ''secondaryEmail'' (JString (sc_secondaryEmail r)),
     set_key ''accessPIN'' (JString (sc_accessPIN r))]"

definition SubContact_from_json :: "platform \<Rightarrow> jobj ptr \<Rightarrow> SubContact \<Rightarrow> SubContact \<times> bool" where
  "SubContact_from_json P = parse_object [
     read_string P ''type'' sc_type_update,
     read_string P ''title'' sc_title_update,
     read_string P ''salutation'' sc_salutation_update,
     read_string P ''firstname'' sc_firstname_update,
     read_string P ''lastname'' sc_lastname_update,
     read_string P ''initials'' sc_initials_update,
     read_string P ''visual'' sc_visual_update,
     read_strings P ''mobiles'' sc_mobiles_update,
     read_strings P ''phones'' sc_phones_update,
     read_string P ''primaryEmail'' sc_primaryEmail_update,
     read_string P ''secondaryEmail'' sc_secondaryEmail_update,
     read_string P ''accessPIN'' sc_accessPIN_update]"

subsection \<open>\<^verbatim>\<open>DeviceConfigurationElement\<close>\<close>

record DeviceConfigurationElement =
  dc_name :: string
  dc_description :: string
  dc_weight :: uint64
  dc_configuration :: string

definition DeviceConfigurationElement_fresh :: DeviceConfigurationElement where
  "DeviceConfigurationElement_fresh = \<lparr>dc_name = '''',
     dc_description = '''',
     dc_weight = 0,
     dc_configuration = ''''\<rparr>"

definition DeviceConfigurationElement_to_json :: "DeviceConfigurationElement \<Rightarrow> jobj \<Rightarrow> jobj" where
  "DeviceConfigurationElement_to_json r = write_fields [
     set_key ''name'' (JString (dc_name r)),
     set_key ''description'' (JString (dc_description r)),
     set_key ''weight'' (JInt (uint (dc_weight r))),
     set_key ''configuration'' (JString (dc_configuration r))]"

definition DeviceConfigurationElement_from_json :: "platform \<Rightarrow> jobj ptr \<Rightarrow> DeviceConfigurationElement \<Rightarrow> DeviceConfigurationElement \<times> bool" where
  "DeviceConfigurationElement_from_json P = parse_object [
     read_string P ''name'' dc_name_update,
     read_string P ''description'' dc_description_update,
     read_uint64 P ''weight'' dc_weight_update,
     read_string P ''configuration'' dc_configuration_update]"

subsection \<open>\<^verbatim>\<open>InventoryTag\<close>\<close>

record InventoryTag =
  it_info :: ObjectInfo
  it_serialNumber :: string
  it_venue :: string
  it_entity :: string
  it_subscriber :: string
  it_deviceType :: string
  it_qrCode :: string
  it_geoCode :: string
  it_location :: string
  it_contact :: string
  it_deviceConfiguration :: string
  it_deviceRules :: DeviceRules
  it_managementPolicy :: string
  it_state :: string
  it_devClass :: string
  it_locale :: string
  it_realMacAddress :: string
  it_doNotAllowOverrides :: bool
  it_imported :: uint64
  it_connected :: uint64
  it_platform :: string

definition InventoryTag_fresh :: InventoryTag where
  "InventoryTag_fresh = \<lparr>it_info = ObjectInfo_fresh,
     it_serialNumber = '''',
     it_venue = '''',
     it_entity = '''',
     it_subscriber = '''',
     it_deviceType = '''',
     it_qrCode = '''',
     it_geoCode = '''',
     it_location = '''',
     it_contact = '''',
     it_deviceConfiguration = '''',
     it_deviceRules = DeviceRules_fresh,
     it_managementPolicy = '''',
     it_state = '''',
     it_devClass = '''',
     it_locale = '''',
     it_realMacAddress = '''',
     it_doNotAllowOverrides = False,
     it_imported = 0,
     it_connected = 0,
     it_platform = ''AP''\<rparr>"

definition InventoryTag_to_json :: "InventoryTag \<Rightarrow> jobj \<Rightarrow> jobj" where
  "InventoryTag_to_json r = write_fields [
     ObjectInfo_to_json (it_info r),
     set_key ''serialNumber'' (JString (it_serialNumber r)),
     set_key ''venue'' (JString (it_venue r)),
     set_key ''entity'' (JString (it_entity r)),
     set_key ''subscriber'' (JString (it_subscriber r)),
     set_key ''deviceType'' (JString (it_deviceType r)),
     set_key ''qrCode'' (JString (it_qrCode r)),
     set_key ''geoCode'' (JString (it_geoCode r)),
     set_key ''location'' (JString (it_location r)),
     set_key ''contact'' (JString (it_contact r)),
     set_key ''deviceConfiguration'' (JString (it_deviceConfiguration r)),
     set_key ''deviceRules'' (JObject (DeviceRules_to_json (it_deviceRules r) [])),
     set_key ''managementPolicy'' (JString (it_managementPolicy r)),
     set_key ''state'' (JString (it_state r)),
     set_key ''devClass'' (JString (it_devClass r)),
     set_key ''locale'' (JString (it_locale r)),
     set_key ''realMacAddress'' (JString (it_realMacAddress r)),
     set_key ''doNotAllowOverrides'' (JBool (it_doNotAllowOverrides r)),
     set_key ''imported'' (JInt (uint (it_imported r))),
     set_key ''connected'' (JInt (uint (it_connected r))),
     set_key ''platform'' (JString (it_platform r))]"

definition InventoryTag_from_json :: "platform \<Rightarrow> jobj ptr \<Rightarrow> InventoryTag \<Rightarrow> InventoryTag \<times> bool" where
  "InventoryTag_from_json P = parse_object [
     read_base (ObjectInfo_from_json P) it_info_update,
     read_string P ''serialNumber'' it_serialNumber_update,
     read_string P ''venue'' it_venue_update,
     read_string P ''entity'' it_entity_update,
     read_string P ''subscriber'' it_subscriber_update,
     read_string P ''deviceType'' it_deviceType_update,
     read_string P ''qrCode'' it_qrCode_update,
     read_string P ''geoCode'' it_geoCode_update,
     read_string P ''location'' it_location_update,
     read_string P ''contact'' it_contact_update,
     read_string P ''deviceConfiguration'' it_deviceConfiguration_update,
     read_object (DeviceRules_from_json P) ''deviceRules'' it_deviceRules_update,
     read_string P ''managementPolicy'' it_managementPolicy_update,
     read_string P ''state'' it_state_update,
     read_string P ''devClass'' it_devClass_update,
     read_string P ''locale'' it_locale_update,
     read_string P ''realMacAddress'' it_realMacAddress_update,
     read_bool P ''doNotAllowOverrides'' it_doNotAllowOverrides_update,
     read_uint64 P ''imported'' it_imported_update,
     read_uint64 P ''connected'' it_connected_update,
     read_string P ''platform'' it_platform_update]"

subsection \<open>\<^verbatim>\<open>SubscriberDevice\<close>\<close>

record SubscriberDevice =
  sd_info :: ObjectInfo
  sd_serialNumber :: string
  sd_deviceGroup :: string
  sd_deviceType :: string
  sd_operatorId :: string
  sd_subscriberId :: string
  sd_location :: SubLocation
  sd_contact :: SubContact
  sd_managementPolicy :: string
  sd_serviceClass :: string
  sd_qrCode :: string
  sd_geoCode :: string
  sd_deviceRules :: DeviceRules
  sd_state :: string
  sd_locale :: string
  sd_billingCode :: string
  sd_configuration :: "DeviceConfigurationElement list"
  sd_suspended :: bool
  sd_realMacAddress :: string

definition SubscriberDevice_fresh :: SubscriberDevice where
  "SubscriberDevice_fresh = \<lparr>sd_info = ObjectInfo_fresh,
     sd_serialNumber = '''',
     sd_deviceGroup = '''',
     sd_deviceType = '''',
     sd_operatorId = '''',
     sd_subscriberId = '''',
     sd_location = SubLocation_fresh,
     sd_contact = SubContact_fresh,
     sd_managementPolicy = '''',
     sd_serviceClass = '''',
     sd_qrCode = '''',
     sd_geoCode = '''',
     sd_deviceRules = DeviceRules_fresh,
     sd_state = '''',
     sd_locale = '''',
     sd_billingCode = '''',
     sd_configuration = [],
     sd_suspended = False,
     sd_realMacAddress = ''''\<rparr>"

definition SubscriberDevice_to_json :: "SubscriberDevice \<Rightarrow> jobj \<Rightarrow> jobj" where
  "SubscriberDevice_to_json r = write_fields [
     ObjectInfo_to_json (sd_info r),
     set_key ''serialNumber'' (JString (sd_serialNumber r)),
     set_key ''deviceGroup'' (JString (sd_deviceGroup r)),
     set_key ''deviceType'' (JString (sd_deviceType r)),
     set_key ''operatorId'' (JString (sd_operatorId r)),
     set_key ''subscriberId'' (JString (sd_subscriberId r)),
     set_key ''location'' (JObject (SubLocation_to_json (sd_location r) [])),
     set_key ''contact'' (JObject (SubContact_to_json (sd_contact r) [])),
     set_key ''managementPolicy'' (JString (sd_managementPolicy r)),
     set_key ''serviceClass'' (JString (sd_serviceClass r)),
     set_key ''qrCode'' (JString (sd_qrCode r)),
     set_key ''geoCode'' (JString (sd_geoCode r)),
     set_key ''deviceRules'' (JObject (DeviceRules_to_json (sd_deviceRules r) [])),
     set_key ''state'' (JString (sd_state r)),
     set_key ''locale'' (JString (sd_locale r)),
     set_key ''billingCode'' (JString (sd_billingCode r)),
     set_key ''configuration'' (objects_to_json DeviceConfigurationElement_to_json (sd_configuration r)),
     set_key ''suspended'' (JBool (sd_suspended r)),
     set_key ''realMacAddress'' (JString (sd_realMacAddress r))]"

definition SubscriberDevice_from_json :: "platform \<Rightarrow> jobj ptr \<Rightarrow> SubscriberDevice \<Rightarrow> SubscriberDevice \<times> bool" where
  "SubscriberDevice_from_json P = parse_object [
     read_base (ObjectInfo_from_json P) sd_info_update,
     read_string P ''serialNumber'' sd_serialNumber_update,
     read_deviceGroup P ''deviceGroup'' sd_deviceGroup_update,
     read_string P ''deviceType'' sd_deviceType_update,
     read_string P ''operatorId'' sd_operatorId_update,
     read_string P ''subscriberId'' sd_subscriberId_update,
     read_object (SubLocation_from_json P) ''location'' sd_location_update,
     read_object (SubContact_from_json P) ''contact'' sd_contact_update,
     read_string P ''managementPolicy'' sd_managementPolicy_update,
     read_string P ''serviceClass'' sd_serviceClass_update,
     read_string P ''qrCode'' sd_qrCode_update,
     read_string P ''geoCode'' sd_geoCode_update,
     read_object (DeviceRules_from_json P) ''deviceRules'' sd_deviceRules_update,
     read_string P ''state'' sd_state_update,
     read_string P ''locale'' sd_locale_update,
     read_string P ''billingCode'' sd_billingCode_update,
     read_objects (DeviceConfigurationElement_from_json P) DeviceConfigurationElement_fresh ''configuration'' sd_configuration_update,
     read_bool P ''suspended'' sd_suspended_update,
     read_string P ''realMacAddress'' sd_realMacAddress_update]"

subsection \<open>\<^verbatim>\<open>SubscriberDeviceList\<close>\<close>

record SubscriberDeviceList =
  sdl_subscriberDevices :: "SubscriberDevice list"

definition SubscriberDeviceList_fresh :: SubscriberDeviceList where
  "SubscriberDeviceList_fresh = \<lparr>sdl_subscriberDevices = []\<rparr>"

definition SubscriberDeviceList_to_json :: "SubscriberDeviceList \<Rightarrow> jobj \<Rightarrow> jobj" where
  "SubscriberDeviceList_to_json r = write_fields [
     set_key ''subscriberDevices'' (objects_to_json SubscriberDevice_to_json (sdl_subscriberDevices r))]"

definition SubscriberDeviceList_from_json :: "platform \<Rightarrow> jobj ptr \<Rightarrow> SubscriberDeviceList \<Rightarrow> SubscriberDeviceList \<times> bool" where
  "SubscriberDeviceList_from_json P = parse_object [
     read_objects (SubscriberDevice_from_json P) SubscriberDevice_fresh ''subscriberDevices'' sdl_subscriberDevices_update]"

section \<open>Round trips\<close>

lemma LocationType_cases [simp]:
  "icompare_doc P \<Longrightarrow> location_from_string P (to_string_LocationType t) = t"
  by (cases t) (simp_all add: location_from_string_def to_lower_def is_upper_def)

lemma NoteInfo_dec_enc:
  "conv_doc P \<Longrightarrow> NoteInfo_from_json P (Some (NoteInfo_to_json r [])) NoteInfo_fresh = (r, True)"
  by (cases r) (simp add: NoteInfo_from_json_def NoteInfo_to_json_def NoteInfo_fresh_def parse_simps)

lemma DiGraphEntry_dec_enc:
  "conv_doc P \<Longrightarrow>
   DiGraphEntry_from_json P (Some (DiGraphEntry_to_json r [])) DiGraphEntry_fresh = (r, True)"
  by (cases r)
    (simp add: DiGraphEntry_from_json_def DiGraphEntry_to_json_def DiGraphEntry_fresh_def parse_simps)

lemma DeviceRules_dec_enc:
  "conv_doc P \<Longrightarrow> DeviceRules_from_json P (Some (DeviceRules_to_json r [])) v = (r, True)"
  by (cases r; cases v) (simp add: DeviceRules_from_json_def DeviceRules_to_json_def parse_simps)

lemma DeviceConfigurationElement_dec_enc:
  "conv_doc P \<Longrightarrow> DeviceConfigurationElement_from_json P
     (Some (DeviceConfigurationElement_to_json r [])) DeviceConfigurationElement_fresh = (r, True)"
  by (cases r) (simp add: DeviceConfigurationElement_from_json_def
      DeviceConfigurationElement_to_json_def DeviceConfigurationElement_fresh_def parse_simps)

interpretation NoteInfo: codec NoteInfo_to_json NoteInfo_from_json NoteInfo_fresh
  by unfold_locales (rule NoteInfo_dec_enc)

interpretation DiGraphEntry: codec DiGraphEntry_to_json DiGraphEntry_from_json DiGraphEntry_fresh
  by unfold_locales (rule DiGraphEntry_dec_enc)

interpretation DeviceConfigurationElement: codec DeviceConfigurationElement_to_json
  DeviceConfigurationElement_from_json DeviceConfigurationElement_fresh
  by unfold_locales (rule DeviceConfigurationElement_dec_enc)

lemma SubLocation_dec_enc:
  "conv_doc P \<Longrightarrow> SubLocation_from_json P (Some (SubLocation_to_json r [])) v = (r, True)"
  by (cases r; cases v) (simp add: SubLocation_from_json_def SubLocation_to_json_def parse_simps)

lemma SubContact_dec_enc:
  "conv_doc P \<Longrightarrow> SubContact_from_json P (Some (SubContact_to_json r [])) v = (r, True)"
  by (cases r; cases v) (simp add: SubContact_from_json_def SubContact_to_json_def parse_simps)

text \<open>
  \<^verbatim>\<open>info.from_json\<close> reads from the object of the derived structure, so the base is read back from any
  object that holds its seven members.
\<close>

lemma ObjectInfo_read:
  assumes "conv_doc P"
    and "getVar ob ''id'' = JString (oi_id r)" "getVar ob ''name'' = JString (oi_name r)"
    and "getVar ob ''description'' = JString (oi_description r)"
    and "getVar ob ''created'' = JInt (uint (oi_created r))"
    and "getVar ob ''modified'' = JInt (uint (oi_modified r))"
    and "getVar ob ''notes'' = objects_to_json NoteInfo_to_json (oi_notes r)"
    and "getVar ob ''tags'' = JArray (map (\<lambda>x. JInt (uint x)) (oi_tags r))"
  shows "ObjectInfo_from_json P (Some ob) ObjectInfo_fresh = (r, True)"
  using assms
  by (cases r) (simp add: ObjectInfo_from_json_def ObjectInfo_fresh_def parse_object_def codec_simps
      NoteInfo.read_objects_enc)

lemmas vector_simps = NoteInfo.read_objects_enc DiGraphEntry.read_objects_enc
  DeviceConfigurationElement.read_objects_enc

lemma InventoryTag_dec_enc:
  "conv_doc P \<Longrightarrow> InventoryTag_from_json P (Some (InventoryTag_to_json r [])) InventoryTag_fresh = (r, True)"
  by (cases r) (simp add: InventoryTag_from_json_def InventoryTag_to_json_def InventoryTag_fresh_def
      ObjectInfo_to_json_def parse_simps ObjectInfo_read DeviceRules_dec_enc)

lemma Venue_dec_enc:
  "conv_doc P \<Longrightarrow> Venue_from_json P (Some (Venue_to_json r [])) Venue_fresh = (r, True)"
  by (cases r) (simp add: Venue_from_json_def Venue_to_json_def Venue_fresh_def
      ObjectInfo_to_json_def parse_simps vector_simps ObjectInfo_read DeviceRules_dec_enc)

lemma Location_dec_enc:
  "conv_doc P \<Longrightarrow> icompare_doc P \<Longrightarrow>
   Location_from_json P (Some (Location_to_json r [])) Location_fresh = (r, True)"
  by (cases r) (simp add: Location_from_json_def Location_to_json_def Location_fresh_def
      ObjectInfo_to_json_def parse_simps ObjectInfo_read read_LocationType_def)

lemma SubscriberDevice_dec_enc:
  "conv_doc P \<Longrightarrow>
   SubscriberDevice_from_json P (Some (SubscriberDevice_to_json r [])) SubscriberDevice_fresh = (r, True)"
  by (cases r) (simp add: SubscriberDevice_from_json_def SubscriberDevice_to_json_def
      SubscriberDevice_fresh_def ObjectInfo_to_json_def parse_simps vector_simps ObjectInfo_read
      DeviceRules_dec_enc SubLocation_dec_enc SubContact_dec_enc read_deviceGroup_def has_def)

interpretation Venue: codec Venue_to_json Venue_from_json Venue_fresh
  by unfold_locales (rule Venue_dec_enc)

interpretation InventoryTag: codec InventoryTag_to_json InventoryTag_from_json InventoryTag_fresh
  by unfold_locales (rule InventoryTag_dec_enc)

interpretation SubscriberDevice: codec SubscriberDevice_to_json SubscriberDevice_from_json
  SubscriberDevice_fresh
  by unfold_locales (rule SubscriberDevice_dec_enc)

definition sample_device :: SubscriberDevice where
  "sample_device = SubscriberDevice_fresh\<lparr>sd_serialNumber := ''aabbccddeeff'', sd_deviceGroup := ''olg'',
     sd_configuration := [\<lparr>dc_name = ''radios'', dc_description = '''', dc_weight = 1,
       dc_configuration = ''{}''\<rparr>]\<rparr>"

text \<open>
  A subscriber's device list survives the exchange with the provisioning service: every member of
  every device, the nested location, contact, rules and configuration sections included, is read
  back as it was written.
\<close>

theorem SubscriberDeviceList_roundtrip:
  assumes "conv_doc P"
  shows "SubscriberDeviceList_from_json P (Some (SubscriberDeviceList_to_json L [])) SubscriberDeviceList_fresh
    = (L, True)"
  using assms
  by (cases L) (simp add: SubscriberDeviceList_from_json_def SubscriberDeviceList_to_json_def
      SubscriberDeviceList_fresh_def parse_object_def write_fields_def getVar_def
      SubscriberDevice.read_objects_enc)

theorem SubscriberDeviceList_roundtrip_witness:
  "SubscriberDeviceList_from_json ref_platform
     (Some (SubscriberDeviceList_to_json \<lparr>sdl_subscriberDevices = [sample_device, sample_device]\<rparr> []))
     SubscriberDeviceList_fresh = (\<lparr>sdl_subscriberDevices = [sample_device, sample_device]\<rparr>, True)"
  by (rule SubscriberDeviceList_roundtrip [OF ref_platform_docs(6)])

lemma venues_loop_enc:
  "conv_doc P \<Longrightarrow> venues_loop P (map (\<lambda>v. JObject (Venue_to_json v [])) vs) acc =
   (acc @ takeWhile (\<lambda>v. oi_id (ve_info v) \<noteq> []) vs, list_all (\<lambda>v. oi_id (ve_info v) \<noteq> []) vs)"
  by (induction vs arbitrary: acc) (simp_all add: Venue.dec_enc)

text \<open>
  A list of venues is accepted exactly when every venue has an identifier, and then it is read
  back unchanged; otherwise the venues before the first one without an identifier are kept and the
  parse fails.
\<close>

theorem VenueList_parse:
  assumes "conv_doc P"
  shows "VenueList_from_json P (Some (VenueList_to_json \<lparr>vl_venues = vs\<rparr> [])) v0 =
    (\<lparr>vl_venues = takeWhile (\<lambda>v. oi_id (ve_info v) \<noteq> []) vs\<rparr>, list_all (\<lambda>v. oi_id (ve_info v) \<noteq> []) vs)"
  using assms
  by (cases v0) (simp add: VenueList_from_json_def VenueList_to_json_def write_fields_def getArray_def
      getVar_def objects_to_json_def venues_loop_enc)

theorem VenueList_parse_witness:
  "VenueList_from_json ref_platform (Some (VenueList_to_json \<lparr>vl_venues = [Venue_fresh]\<rparr> [])) VenueList_fresh =
    (\<lparr>vl_venues = []\<rparr>, False)"
  using VenueList_parse [OF ref_platform_docs(6), of "[Venue_fresh]" VenueList_fresh]
  by (simp add: Venue_fresh_def ObjectInfo_fresh_def)

text \<open>
  The names of the contact types are not all understood: a manager is written as \<^verbatim>\<open>MANAGER\<close>, which
  the parser does not know, and comes back as an unknown contact; every other type is kept.
\<close>

theorem ContactType_roundtrip:
  assumes "icompare_doc P"
  shows "contact_from_string P (to_string_ContactType t) = (if t = CT_MANAGER then CT_UNKNOWN else t)"
  using assms by (cases t) (simp_all add: contact_from_string_def to_lower_def is_upper_def)

theorem ContactType_roundtrip_witness:
  "contact_from_string ref_platform (to_string_ContactType CT_MANAGER) = CT_UNKNOWN"
  using ContactType_roundtrip [OF ref_platform_docs(7), of CT_MANAGER] by simp

end
