(* ===== verification/Sdk.thy ===== *)
theory Sdk
  imports Net ProvObjects
begin

text \<open>
  The clients of the other microservices, \<^verbatim>\<open>src/sdks\<close>: parental control, provisioning, the gateway
  controller (its commands, configuration and statistics), network topology and security.  Each
  operation makes one call and returns whether it succeeded with its out parameters.  The locale
  \<open>scoped_call\<close> is the contract the handlers rely on for the parental-control operations: nothing but
  that service is called, under the path of the subscriber.
\<close>

text \<open>The bearer token of an optional handler; an empty token selects the API key of the service.\<close>

definition client_token :: "handler option \<Rightarrow> string" where
  "client_token client = (case client of None \<Rightarrow> [] | Some H \<Rightarrow> h_token H)"

section \<open>Parental control\<close>

definition IsParsedObjectSuccess :: "int \<Rightarrow> jobj ptr \<Rightarrow> bool" where
  "IsParsedObjectSuccess status resp \<longleftrightarrow> status = HTTP_OK \<and> resp \<noteq> None"

definition IsParsedArraySuccess :: "int \<Rightarrow> json list ptr \<Rightarrow> bool" where
  "IsParsedArraySuccess status arr \<longleftrightarrow> status = HTTP_OK \<and> arr \<noteq> None"

definition ExecuteGetArray ::
  "platform \<Rightarrow> string \<Rightarrow> (bool \<times> int \<times> json list ptr \<times> jobj ptr) io" where
  "ExecuteGetArray P endpoint = do {
     (status, arr, ob) \<leftarrow> OpenAPIRequestGetArray P uSERVICE_MANGO_PARENTAL_CONTROL endpoint [] 60000 [] None None;
     ret (IsParsedArraySuccess status arr, status, arr, ob)
   }"

definition ExecuteGetObject :: "platform \<Rightarrow> string \<Rightarrow> (bool \<times> int \<times> jobj ptr) io" where
  "ExecuteGetObject P endpoint = do {
     (status, ob) \<leftarrow> OpenAPIRequestGet P uSERVICE_MANGO_PARENTAL_CONTROL endpoint [] 60000 [] None;
     ret (IsParsedObjectSuccess status ob, status, ob)
   }"

definition ExecutePostObject :: "platform \<Rightarrow> string \<Rightarrow> jobj \<Rightarrow> nat \<Rightarrow> (bool \<times> int \<times> jobj ptr) io" where
  "ExecutePostObject P endpoint Body TimeoutMs = do {
     (status, ob) \<leftarrow> OpenAPIRequestPost P uSERVICE_MANGO_PARENTAL_CONTROL endpoint [] Body TimeoutMs [] None;
     ret (IsParsedObjectSuccess status ob, status, ob)
   }"

definition ExecutePutObject :: "platform \<Rightarrow> string \<Rightarrow> jobj \<Rightarrow> nat \<Rightarrow> (bool \<times> int \<times> jobj ptr) io" where
  "ExecutePutObject P endpoint Body TimeoutMs = do {
     (status, ob) \<leftarrow> OpenAPIRequestPut P uSERVICE_MANGO_PARENTAL_CONTROL endpoint [] Body TimeoutMs [] None;
     ret (IsParsedObjectSuccess status ob, status, ob)
   }"

definition ExecuteDelete :: "platform \<Rightarrow> string \<Rightarrow> nat \<Rightarrow> (bool \<times> int \<times> jobj ptr \<times> string) io" where
  "ExecuteDelete P endpoint TimeoutMs = do {
     (status, ob, raw) \<leftarrow> OpenAPIRequestDelete P uSERVICE_MANGO_PARENTAL_CONTROL endpoint [] TimeoutMs [] None [];
     ret (status = HTTP_OK, status, ob, raw)
   }"

lemmas execute_defs = ExecuteGetArray_def ExecuteGetObject_def ExecutePostObject_def
  ExecutePutObject_def ExecuteDelete_def

abbreviation subscribers_path :: "string \<Rightarrow> string" where
  "subscribers_path sid \<equiv> ''/api/v1/subscribers/'' @ sid"

text \<open>The two success rules of a deletion.\<close>

definition deleted_if_parsed :: "bool \<times> int \<times> jobj ptr \<times> string \<Rightarrow> bool \<times> int \<times> jobj ptr" where
  "deleted_if_parsed r = (case r of (okv, status, ob, raw) \<Rightarrow>
     (okv \<and> (raw = [] \<or> ob \<noteq> None), status, ob))"

definition deleted_with_config :: "bool \<times> int \<times> jobj ptr \<times> string \<Rightarrow> bool \<times> int \<times> jobj ptr" where
  "deleted_with_config r = (case r of (okv, status, ob, raw) \<Rightarrow>
     (okv \<and> raw \<noteq> [] \<and> (case ob of None \<Rightarrow> False | Some o' \<Rightarrow> has o' ''config-raw''), status, ob))"

definition GetGroups where
  "GetGroups P sid = ExecuteGetArray P (subscribers_path sid @ ''/groups'')"

definition CreateGroup where
  "CreateGroup P sid Body = ExecutePostObject P (subscribers_path sid @ ''/groups'') Body 60000"

definition GetGroup where
  "GetGroup P sid gid = ExecuteGetObject P (subscribers_path sid @ ''/groups/'' @ gid)"

definition UpdateGroup where
  "UpdateGroup P sid gid Body = ExecutePutObject P (subscribers_path sid @ ''/groups/'' @ gid) Body 60000"

definition DeleteGroup :: "platform \<Rightarrow> string \<Rightarrow> string \<Rightarrow> (bool \<times> int \<times> jobj ptr) io" where
  "DeleteGroup P sid gid = do {
     r \<leftarrow> ExecuteDelete P (subscribers_path sid @ ''/groups/'' @ gid) 60000;
     ret (deleted_if_parsed r)
   }"

definition GetSchedules where
  "GetSchedules P sid = ExecuteGetArray P (subscribers_path sid @ ''/schedules'')"

definition CreateSchedule where
  "CreateSchedule P sid Body = ExecutePostObject P (subscribers_path sid @ ''/schedules'') Body 60000"

definition GetSchedule where
  "GetSchedule P sid scid = ExecuteGetObject P (subscribers_path sid @ ''/schedules/'' @ scid)"

definition UpdateSchedule where
  "UpdateSchedule P sid scid Body =
     ExecutePutObject P (subscribers_path sid @ ''/schedules/'' @ scid) Body 120000"

definition DeleteSchedule :: "platform \<Rightarrow> string \<Rightarrow> string \<Rightarrow> (bool \<times> int \<times> jobj ptr) io" where
  "DeleteSchedule P sid scid = do {
     r \<leftarrow> ExecuteDelete P (subscribers_path sid @ ''/schedules/'' @ scid) 120000;
     ret (deleted_if_parsed r)
   }"

definition GetScheduleGroups where
  "GetScheduleGroups P sid scid =
     ExecuteGetArray P (subscribers_path sid @ ''/schedules/'' @ scid @ ''/groups'')"

definition GetGroupDevices where
  "GetGroupDevices P sid gid = ExecuteGetArray P (subscribers_path sid @ ''/groups/'' @ gid @ ''/devices'')"

definition CreateGroupDevice where
  "CreateGroupDevice P sid gid Body =
     ExecutePostObject P (subscribers_path sid @ ''/groups/'' @ gid @ ''/devices'') Body 120000"

definition CreateGroupDevicesV2 where
  "CreateGroupDevicesV2 P sid gid Body =
     ExecutePostObject P (''/api/v2/subscribers/'' @ sid @ ''/groups/'' @ gid @ ''/devices'') Body 120000"

definition GetGroupDevice where
  "GetGroupDevice P sid gid mac =
     ExecuteGetObject P (subscribers_path sid @ ''/groups/'' @ gid @ ''/devices/'' @ mac)"

definition DeleteGroupDevice :: "platform \<Rightarrow> string \<Rightarrow> string \<Rightarrow> string \<Rightarrow> (bool \<times> int \<times> jobj ptr) io" where
  "DeleteGroupDevice P sid gid mac = do {
     r \<leftarrow> ExecuteDelete P (subscribers_path sid @ ''/groups/'' @ gid @ ''/devices/'' @ mac) 120000;
     ret (deleted_with_config r)
   }"

definition GetGroupSchedules where
  "GetGroupSchedules P sid gid =
     ExecuteGetArray P (subscribers_path sid @ ''/groups/'' @ gid @ ''/schedules'')"

definition CreateGroupSchedule where
  "CreateGroupSchedule P sid gid Body =
     ExecutePostObject P (subscribers_path sid @ ''/groups/'' @ gid @ ''/schedules'') Body 120000"

definition GetGroupSchedule where
  "GetGroupSchedule P sid gid scid =
     ExecuteGetObject P (subscribers_path sid @ ''/groups/'' @ gid @ ''/schedules/'' @ scid)"

definition DeleteGroupSchedule :: "platform \<Rightarrow> string \<Rightarrow> string \<Rightarrow> string \<Rightarrow> (bool \<times> int \<times> jobj ptr) io" where
  "DeleteGroupSchedule P sid gid scid = do {
     r \<leftarrow> ExecuteDelete P (subscribers_path sid @ ''/groups/'' @ gid @ ''/schedules/'' @ scid) 120000;
     ret (deleted_with_config r)
   }"

definition ReplaceGroupSchedules where
  "ReplaceGroupSchedules P sid gid Body =
     ExecutePutObject P (subscribers_path sid @ ''/groups/'' @ gid @ ''/schedules'') Body 120000"

definition CreateClientAccess where
  "CreateClientAccess P sid Body = ExecutePostObject P (subscribers_path sid @ ''/client-access'') Body 120000"

definition DeleteClientAccess :: "platform \<Rightarrow> string \<Rightarrow> string \<Rightarrow> (bool \<times> int \<times> jobj ptr) io" where
  "DeleteClientAccess P sid mac = do {
     r \<leftarrow> ExecuteDelete P (subscribers_path sid @ ''/client-access/'' @ mac) 120000;
     ret (deleted_with_config r)
   }"

lemmas parental_defs = GetGroups_def CreateGroup_def GetGroup_def UpdateGroup_def DeleteGroup_def
  GetSchedules_def CreateSchedule_def GetSchedule_def UpdateSchedule_def DeleteSchedule_def
  GetScheduleGroups_def GetGroupDevices_def CreateGroupDevice_def CreateGroupDevicesV2_def
  GetGroupDevice_def DeleteGroupDevice_def GetGroupSchedules_def CreateGroupSchedule_def
  GetGroupSchedule_def DeleteGroupSchedule_def ReplaceGroupSchedules_def CreateClientAccess_def
  DeleteClientAccess_def

section \<open>Provisioning\<close>

text \<open>\<^verbatim>\<open>try { return x.from_json(CallResponse); } catch (...) { return false; }\<close> after a 200.\<close>

definition parse_reply ::
  "(jobj ptr \<Rightarrow> 'r \<Rightarrow> 'r \<times> bool) \<Rightarrow> 'r \<Rightarrow> int \<times> jobj ptr \<Rightarrow> bool \<times> 'r \<times> int \<times> jobj ptr" where
  "parse_reply dec r0 c = (case c of (status, resp) \<Rightarrow>
     if status = HTTP_OK then (case dec resp r0 of (r, okv) \<Rightarrow> (okv, r, status, resp))
     else (False, r0, status, resp))"

definition Prov_Device_Get ::
  "platform \<Rightarrow> handler option \<Rightarrow> string \<Rightarrow> InventoryTag \<Rightarrow> (bool \<times> InventoryTag) io" where
  "Prov_Device_Get P client Mac Device = do {
     c \<leftarrow> OpenAPIRequestGet P uSERVICE_PROVISIONING (''/api/v1/inventory/'' @ Mac) [] 60000
       (client_token client) (Some []);
     ret (case parse_reply (InventoryTag_from_json P) Device c of (okv, r, _) \<Rightarrow> (okv, r))
   }"

definition Prov_Venue_Get ::
  "platform \<Rightarrow> handler option \<Rightarrow> string \<Rightarrow> Venue \<Rightarrow> jobj ptr \<Rightarrow> (bool \<times> Venue \<times> int \<times> jobj ptr) io" where
  "Prov_Venue_Get P client VenueUUID v0 resp = do {
     c \<leftarrow> OpenAPIRequestGet P uSERVICE_PROVISIONING (''/api/v1/venue/'' @ VenueUUID) [] 60000
       (client_token client) resp;
     ret (parse_reply (Venue_from_json P) v0 c)
   }"

definition Prov_Venue_GetVenues ::
  "platform \<Rightarrow> handler option \<Rightarrow> string \<Rightarrow> (bool \<times> VenueList \<times> int \<times> jobj ptr) io" where
  "Prov_Venue_GetVenues P client SubscriberId = do {
     c \<leftarrow> OpenAPIRequestGet P uSERVICE_PROVISIONING ''/api/v1/venue'' [(''subscriberId'', SubscriberId)] 60000
       (client_token client) (Some []);
     ret (parse_reply (VenueList_from_json P) VenueList_fresh c)
   }"

definition created_location_body :: "jobj ptr \<Rightarrow> jobj" where
  "created_location_body loc = set_key ''createObjects'' (JObject (set_key ''objects'' (JArray [JObject
     (set_key ''location'' (JObject (case loc of None \<Rightarrow> [] | Some l \<Rightarrow> l)) [])]) [])) []"

definition put_venue :: "platform \<Rightarrow> handler option \<Rightarrow> string \<Rightarrow> jobj \<Rightarrow> (bool \<times> int \<times> jobj ptr) io" where
  "put_venue P client path body = do {
     (status, resp) \<leftarrow> OpenAPIRequestPut P uSERVICE_PROVISIONING path [] body 60000 (client_token client) (Some []);
     ret (status = HTTP_OK, status, resp)
   }"

definition Prov_Venue_CreateLocation where
  "Prov_Venue_CreateLocation P client VenueId locationData =
     put_venue P client (''/api/v1/venue/'' @ VenueId) (created_location_body locationData)"

definition Prov_Venue_ClearLocation where
  "Prov_Venue_ClearLocation P client VenueId =
     put_venue P client (''/api/v1/venue/'' @ VenueId) (set_key ''location'' (JString '''') [])"

definition Prov_Venue_SetLocation where
  "Prov_Venue_SetLocation P client VenueId LocationUUID =
     put_venue P client (''/api/v1/venue/'' @ VenueId) (set_key ''location'' (JString LocationUUID) [])"

definition Prov_Location_Get ::
  "platform \<Rightarrow> handler option \<Rightarrow> string \<Rightarrow> (bool \<times> Location \<times> int \<times> jobj ptr) io" where
  "Prov_Location_Get P client LocationUUID = do {
     c \<leftarrow> OpenAPIRequestGet P uSERVICE_PROVISIONING (''/api/v1/location/'' @ LocationUUID) [] 60000
       (client_token client) (Some []);
     ret (parse_reply (Location_from_json P) Location_fresh c)
   }"

definition Prov_Location_Put where
  "Prov_Location_Put P client LocationUUID body =
     put_venue P client (''/api/v1/location/'' @ LocationUUID) (case body of None \<Rightarrow> [] | Some b \<Rightarrow> b)"

definition Prov_Location_Delete ::
  "platform \<Rightarrow> handler option \<Rightarrow> string \<Rightarrow> (bool \<times> int \<times> jobj ptr) io" where
  "Prov_Location_Delete P client LocationUUID = do {
     (status, resp, raw) \<leftarrow> OpenAPIRequestDelete P uSERVICE_PROVISIONING (''/api/v1/location/'' @ LocationUUID) []
       60000 (client_token client) (Some []) [];
     ret (status = HTTP_OK, status, resp)
   }"

definition Prov_Subscriber_GetDevices ::
  "platform \<Rightarrow> handler option \<Rightarrow> string \<Rightarrow> string \<Rightarrow> jobj ptr \<Rightarrow>
   (bool \<times> SubscriberDeviceList \<times> int \<times> jobj ptr) io" where
  "Prov_Subscriber_GetDevices P client SubscriberId OperatorId resp = do {
     c \<leftarrow> OpenAPIRequestGet P uSERVICE_PROVISIONING ''/api/v1/subscriberDevice''
       [(''subscriberId'', SubscriberId), (''operatorId'', OperatorId)] 60000 (client_token client) resp;
     ret (parse_reply (SubscriberDeviceList_from_json P) SubscriberDeviceList_fresh c)
   }"

definition Prov_Subscriber_GetDevice ::
  "platform \<Rightarrow> handler option \<Rightarrow> string \<Rightarrow> jobj ptr \<Rightarrow> (bool \<times> SubscriberDevice \<times> int \<times> jobj ptr) io" where
  "Prov_Subscriber_GetDevice P client SerialNumber resp = do {
     c \<leftarrow> OpenAPIRequestGet P uSERVICE_PROVISIONING (''/api/v1/subscriberDevice/'' @ SerialNumber) [] 60000
       (client_token client) resp;
     ret (parse_reply (SubscriberDevice_from_json P) SubscriberDevice_fresh c)
   }"

definition subscriber_device_body ::
  "string \<Rightarrow> string \<Rightarrow> string \<Rightarrow> string \<Rightarrow> string \<Rightarrow> DeviceConfigurationElement list \<Rightarrow> jobj" where
  "subscriber_device_body name serial sid operator grp configuration = write_fields [
     set_key ''name'' (JString name), set_key ''serialNumber'' (JString serial),
     set_key ''subscriberId'' (JString sid), set_key ''operatorId'' (JString operator),
     set_key ''deviceGroup'' (JString grp),
     set_key ''configuration'' (objects_to_json DeviceConfigurationElement_to_json configuration)] []"

text \<open>The created record is read into the caller's device, whose vectors it appends to.\<close>

definition Prov_Subscriber_CreateSubsciberDevice ::
  "platform \<Rightarrow> handler option \<Rightarrow> string \<Rightarrow> string \<Rightarrow> string \<Rightarrow> string \<Rightarrow> string \<Rightarrow>
   DeviceConfigurationElement list \<Rightarrow> SubscriberDevice \<Rightarrow> jobj ptr \<Rightarrow>
   (bool \<times> SubscriberDevice \<times> int \<times> jobj ptr) io" where
  "Prov_Subscriber_CreateSubsciberDevice P client name serial sid operator grp configuration device resp = do {
     c \<leftarrow> OpenAPIRequestPost P uSERVICE_PROVISIONING ''/api/v1/subscriberDevice/0'' []
       (subscriber_device_body name serial sid operator grp configuration) 120000 (client_token client) resp;
     ret (parse_reply (SubscriberDevice_from_json P) device c)
   }"

definition Prov_Subscriber_DeleteSubscriberDevice ::
  "platform \<Rightarrow> handler option \<Rightarrow> string \<Rightarrow> jobj ptr \<Rightarrow> (bool \<times> int \<times> jobj ptr) io" where
  "Prov_Subscriber_DeleteSubscriberDevice P client SerialNumber resp = do {
     (status, resp', raw) \<leftarrow> OpenAPIRequestDelete P uSERVICE_PROVISIONING
       (''/api/v1/subscriberDevice/'' @ SerialNumber) [] 60000 (client_token client) resp [];
     ret (status = HTTP_OK, status, resp')
   }"

lemmas prov_defs = Prov_Device_Get_def Prov_Venue_Get_def Prov_Venue_GetVenues_def put_venue_def
  Prov_Venue_CreateLocation_def Prov_Venue_ClearLocation_def Prov_Venue_SetLocation_def
  Prov_Location_Get_def Prov_Location_Put_def Prov_Location_Delete_def
  Prov_Subscriber_GetDevices_def Prov_Subscriber_GetDevice_def
  Prov_Subscriber_CreateSubsciberDevice_def Prov_Subscriber_DeleteSubscriberDevice_def

section \<open>Gateway controller\<close>

text \<open>Every command is a POST; a missing body becomes an empty object.\<close>

definition ExecuteGatewayCommand ::
  "platform \<Rightarrow> handler option \<Rightarrow> string \<Rightarrow> jobj \<Rightarrow> (bool \<times> int \<times> jobj ptr) io" where
  "ExecuteGatewayCommand P client endPoint req = do {
     (status, resp) \<leftarrow> OpenAPIRequestPost P uSERVICE_GATEWAY endPoint [] req 60000 (client_token client) None;
     ret (status = HTTP_OK, status, Some (case resp of None \<Rightarrow> [] | Some ob \<Rightarrow> ob))
   }"

abbreviation device_path :: "string \<Rightarrow> string" where
  "device_path Mac \<equiv> ''/api/v1/device/'' @ Mac"

text \<open>A reboot ignores the requested time.\<close>

definition Reboot :: "platform \<Rightarrow> handler option \<Rightarrow> string \<Rightarrow> uint64 \<Rightarrow> (bool \<times> int \<times> jobj ptr) io" where
  "Reboot P client Mac When = ExecuteGatewayCommand P client (device_path Mac @ ''/reboot'')
     (set_key ''when'' (JInt 0) (set_key ''serialNumber'' (JString Mac) []))"

definition LEDs ::
  "platform \<Rightarrow> handler option \<Rightarrow> string \<Rightarrow> uint64 \<Rightarrow> uint64 \<Rightarrow> string \<Rightarrow> (bool \<times> int \<times> jobj ptr) io" where
  "LEDs P client Mac When Duration Pattern = ExecuteGatewayCommand P client (device_path Mac @ ''/leds'')
     (set_key ''pattern'' (JString Pattern) (set_key ''duration'' (JInt (uint Duration))
       (set_key ''when'' (JInt (uint When)) (set_key ''serialNumber'' (JString Mac) []))))"

definition Factory ::
  "platform \<Rightarrow> handler option \<Rightarrow> string \<Rightarrow> uint64 \<Rightarrow> bool \<Rightarrow> (bool \<times> int \<times> jobj ptr) io" where
  "Factory P client Mac When KeepRedirector = ExecuteGatewayCommand P client (device_path Mac @ ''/factory'')
     (set_key ''keepRedirector'' (JBool KeepRedirector) (set_key ''when'' (JInt (uint When))
       (set_key ''serialNumber'' (JString Mac) [])))"

definition Upgrade ::
  "platform \<Rightarrow> handler option \<Rightarrow> string \<Rightarrow> uint64 \<Rightarrow> string \<Rightarrow> bool \<Rightarrow> (bool \<times> int \<times> jobj ptr) io" where
  "Upgrade P client Mac When ImageName KeepRedirector =
     ExecuteGatewayCommand P client (device_path Mac @ ''/upgrade'')
     (set_key ''uri'' (JString ImageName) (set_key ''when'' (JInt (uint When))
       (set_key ''serialNumber'' (JString Mac) [])))"

definition GetLastStats :: "platform \<Rightarrow> handler option \<Rightarrow> string \<Rightarrow> jobj ptr \<Rightarrow> (bool \<times> jobj ptr) io" where
  "GetLastStats P client Mac resp = do {
     (status, resp') \<leftarrow> OpenAPIRequestGet P uSERVICE_GATEWAY (device_path Mac @ ''/statistics'')
       [(''lastOnly'', ''true'')] 60000 (client_token client) resp;
     ret (status = HTTP_OK, resp')
   }"

definition GetConfig :: "platform \<Rightarrow> handler option \<Rightarrow> string \<Rightarrow> (bool \<times> int \<times> jobj ptr) io" where
  "GetConfig P client Mac = do {
     (status, resp) \<leftarrow> OpenAPIRequestGet P uSERVICE_GATEWAY (device_path Mac) [] 1000 (client_token client) None;
     ret (status = HTTP_OK \<and> (case resp of None \<Rightarrow> False | Some ob \<Rightarrow> has ob ''configuration''), status, resp)
   }"

text \<open>
  \<^verbatim>\<open>Utils::Now()\<close> is in seconds.  The configuration is stamped in place: the caller's object gets
  the new \<^verbatim>\<open>uuid\<close>, so it is returned as well.
\<close>

definition Configure ::
  "platform \<Rightarrow> handler option \<Rightarrow> string \<Rightarrow> jobj \<Rightarrow> (bool \<times> jobj \<times> int \<times> jobj ptr) io" where
  "Configure P client Mac Configuration = do {
     us \<leftarrow> read_clock;
     let now = JInt (us div 1000000);
     let config = set_key ''uuid'' now Configuration;
     (status, resp) \<leftarrow> OpenAPIRequestPost P uSERVICE_GATEWAY (device_path Mac @ ''/configure'') []
       (write_fields [set_key ''serialNumber'' (JString Mac), set_key ''UUID'' now, set_key ''when'' (JInt 0),
          set_key ''configuration'' (JObject config)] []) 90000 (client_token client) None;
     ret (status = HTTP_OK, config, status, resp)
   }"

lemmas gateway_defs = ExecuteGatewayCommand_def Reboot_def LEDs_def Factory_def Upgrade_def
  GetLastStats_def GetConfig_def Configure_def

section \<open>Topology and security\<close>

definition Topology_Get :: "platform \<Rightarrow> handler option \<Rightarrow> string \<Rightarrow> jobj ptr \<Rightarrow> (bool \<times> int \<times> jobj ptr) io" where
  "Topology_Get P client boardId resp = do {
     (status, resp') \<leftarrow> OpenAPIRequestGet P uSERVICE_NETWORK_TOPOLOGY ''/api/v1/topology''
       [(''boardId'', boardId)] 60000 (client_token client) resp;
     ret (status = HTTP_OK, status, resp')
   }"

definition Sec_User_Exists :: "platform \<Rightarrow> string \<Rightarrow> bool io" where
  "Sec_User_Exists P uid = do {
     (status, _) \<leftarrow> OpenAPIRequestGet P uSERVICE_SECURITY (''/api/v1/user/'' @ uid) [] 5000 [] None;
     ret (status = HTTP_OK)
   }"

definition Sec_Subscriber_Exists :: "platform \<Rightarrow> string \<Rightarrow> bool io" where
  "Sec_Subscriber_Exists P uid = do {
     (status, _) \<leftarrow> OpenAPIRequestGet P uSERVICE_SECURITY (''/api/v1/subuser/'' @ uid) [] 5000 [] None;
     ret (status = HTTP_OK)
   }"

definition Sec_Subscriber_Delete :: "platform \<Rightarrow> handler option \<Rightarrow> string \<Rightarrow> bool io" where
  "Sec_Subscriber_Delete P client uid = do {
     (status, _, _) \<leftarrow> OpenAPIRequestDelete P uSERVICE_SECURITY (''/api/v1/subuser/'' @ uid) [] 15000
       (client_token client) None [];
     ret (200 \<le> status \<and> status \<le> 204)
   }"

lemmas other_sdk_defs = Topology_Get_def Sec_User_Exists_def Sec_Subscriber_Exists_def
  Sec_Subscriber_Delete_def

section \<open>Responses\<close>

text \<open>No SDK operation answers the client.\<close>

lemma silent_parental [replies_intros]:
  "silent (GetGroups P s)" "silent (CreateGroup P s b)" "silent (GetGroup P s g)"
  "silent (UpdateGroup P s g b)" "silent (DeleteGroup P s g)" "silent (GetSchedules P s)"
  "silent (CreateSchedule P s b)" "silent (GetSchedule P s i)" "silent (UpdateSchedule P s i b)"
  "silent (DeleteSchedule P s i)" "silent (GetScheduleGroups P s i)" "silent (GetGroupDevices P s g)"
  "silent (CreateGroupDevice P s g b)" "silent (CreateGroupDevicesV2 P s g b)"
  "silent (GetGroupDevice P s g m)" "silent (DeleteGroupDevice P s g m)" "silent (GetGroupSchedules P s g)"
  "silent (CreateGroupSchedule P s g b)" "silent (GetGroupSchedule P s g i)"
  "silent (DeleteGroupSchedule P s g i)" "silent (ReplaceGroupSchedules P s g b)"
  "silent (CreateClientAccess P s b)" "silent (DeleteClientAccess P s m)"
  unfolding parental_defs execute_defs by (intro replies_intros)+

lemma silent_prov [replies_intros]:
  "silent (Prov_Device_Get P c m d)" "silent (Prov_Venue_Get P c v v0 r)" "silent (Prov_Venue_GetVenues P c s)"
  "silent (Prov_Venue_CreateLocation P c v l)" "silent (Prov_Venue_ClearLocation P c v)"
  "silent (Prov_Venue_SetLocation P c v u)" "silent (Prov_Location_Get P c u)"
  "silent (Prov_Location_Put P c u b)" "silent (Prov_Location_Delete P c u)"
  "silent (Prov_Subscriber_GetDevices P c s o' r)" "silent (Prov_Subscriber_GetDevice P c m r)"
  "silent (Prov_Subscriber_CreateSubsciberDevice P c n m s o' g cf sd r)"
  "silent (Prov_Subscriber_DeleteSubscriberDevice P c m r)"
  unfolding prov_defs by (intro replies_intros)+

lemma silent_gateway [replies_intros]:
  "silent (Reboot P c m w)" "silent (LEDs P c m w d p)" "silent (Factory P c m w k)"
  "silent (Upgrade P c m w i k)" "silent (GetLastStats P c m r)" "silent (GetConfig P c m)"
  "silent (Configure P c m cf)" "silent (Topology_Get P c b r)" "silent (Sec_User_Exists P i)"
  "silent (Sec_Subscriber_Exists P i)" "silent (Sec_Subscriber_Delete P c i)"
  unfolding gateway_defs other_sdk_defs Let_def by (intro replies_intros)+

section \<open>Scope of the parental-control calls\<close>

text \<open>A call to the parental-control service under the path of subscriber \<open>sid\<close>.\<close>

definition in_scope :: "string \<Rightarrow> api_call \<Rightarrow> bool" where
  "in_scope sid c \<longleftrightarrow> c_type c = uSERVICE_MANGO_PARENTAL_CONTROL \<and>
     (prefix (''/api/v1/subscribers/'' @ sid @ ''/'') (c_path c)
      \<or> prefix (''/api/v2/subscribers/'' @ sid @ ''/'') (c_path c))"

text \<open>
  The contract: an operation on behalf of a subscriber calls nothing but the parental-control
  service under the path of that subscriber, and leaves the response to its caller.
\<close>

locale scoped_call =
  fixes op :: "platform \<Rightarrow> string \<Rightarrow> 'x \<Rightarrow> 'a io"
  assumes op_scope: "emits (in_scope sid) (op P sid x)"
    and op_silent: "silent (op P sid x)"
begin

lemma then_scope:
  "(\<And>r. emits (in_scope sid) (k r)) \<Longrightarrow> emits (in_scope sid) (op P sid x \<bind> k)"
  by (intro emits_bind op_scope)

lemma then_emits:
  assumes "\<And>c. in_scope sid c \<Longrightarrow> C c" and "\<And>r. emits C (k r)"
  shows "emits C (op P sid x \<bind> k)"
  using assms by (intro emits_bind emits_mono [OF op_scope])

lemma then_once: "(\<And>r. answers_once (k r)) \<Longrightarrow> answers_once (op P sid x \<bind> k)"
  by (intro once_bind op_silent)

end

lemma prefix_append_path: "prefix (a @ b @ c) (a @ b @ c @ d)"
  by (simp add: prefix_def)

lemma emits_requests:
  assumes "\<And>svc public verb body. C \<lparr>c_verb = verb, c_type = T, c_base = ms_PrivateEndPoint svc, c_path = p,
     c_query = q, c_body = body, c_headers = auth_headers svc public k, c_timeout = t\<rparr>"
  shows "emits C (OpenAPIRequestGet P T p q t k r)" "emits C (OpenAPIRequestGetArray P T p q t k a r)"
    "emits C (OpenAPIRequestPut P T p q b t k r)" "emits C (OpenAPIRequestPost P T p q b t k r)"
    "emits C (OpenAPIRequestDelete P T p q t k r raw)"
  unfolding request_defs using assms by (intro emits_intros emits_transmit; simp)+

lemma emits_execute:
  assumes "prefix (''/api/v1/subscribers/'' @ sid @ ''/'') p \<or> prefix (''/api/v2/subscribers/'' @ sid @ ''/'') p"
  shows "emits (in_scope sid) (ExecuteGetArray P p)" "emits (in_scope sid) (ExecuteGetObject P p)"
    "emits (in_scope sid) (ExecutePostObject P p b t)" "emits (in_scope sid) (ExecutePutObject P p b t)"
    "emits (in_scope sid) (ExecuteDelete P p t)"
  unfolding execute_defs using assms
  by (intro emits_intros emits_requests; simp add: in_scope_def)+

lemma parental_scope [emits_intros]:
  "emits (in_scope s) (GetGroups P s)" "emits (in_scope s) (CreateGroup P s b)"
  "emits (in_scope s) (GetGroup P s g)" "emits (in_scope s) (UpdateGroup P s g b)"
  "emits (in_scope s) (DeleteGroup P s g)" "emits (in_scope s) (GetSchedules P s)"
  "emits (in_scope s) (CreateSchedule P s b)" "emits (in_scope s) (GetSchedule P s i)"
  "emits (in_scope s) (UpdateSchedule P s i b)" "emits (in_scope s) (DeleteSchedule P s i)"
  "emits (in_scope s) (GetScheduleGroups P s i)" "emits (in_scope s) (GetGroupDevices P s g)"
  "emits (in_scope s) (CreateGroupDevice P s g b)" "emits (in_scope s) (CreateGroupDevicesV2 P s g b)"
  "emits (in_scope s) (GetGroupDevice P s g m)" "emits (in_scope s) (DeleteGroupDevice P s g m)"
  "emits (in_scope s) (GetGroupSchedules P s g)" "emits (in_scope s) (CreateGroupSchedule P s g b)"
  "emits (in_scope s) (GetGroupSchedule P s g i)" "emits (in_scope s) (DeleteGroupSchedule P s g i)"
  "emits (in_scope s) (ReplaceGroupSchedules P s g b)" "emits (in_scope s) (CreateClientAccess P s b)"
  "emits (in_scope s) (DeleteClientAccess P s m)"
  unfolding parental_defs
  by (intro emits_ret emits_bind emits_execute; simp add: prefix_def)+

text \<open>Every operation of the SDK keeps the contract.\<close>

interpretation pc_GetGroups: scoped_call "\<lambda>P s (u :: unit). GetGroups P s"
  by unfold_locales (rule parental_scope silent_parental)+

interpretation pc_CreateGroup: scoped_call "\<lambda>P s x. CreateGroup P s x"
  by unfold_locales (rule parental_scope silent_parental)+

interpretation pc_GetGroup: scoped_call "\<lambda>P s x. GetGroup P s x"
  by unfold_locales (rule parental_scope silent_parental)+

interpretation pc_UpdateGroup: scoped_call "\<lambda>P s x. UpdateGroup P s (fst x) (snd x)"
  by unfold_locales (rule parental_scope silent_parental)+

interpretation pc_DeleteGroup: scoped_call "\<lambda>P s x. DeleteGroup P s x"
  by unfold_locales (rule parental_scope silent_parental)+

interpretation pc_GetSchedules: scoped_call "\<lambda>P s (u :: unit). GetSchedules P s"
  by unfold_locales (rule parental_scope silent_parental)+

interpretation pc_CreateSchedule: scoped_call "\<lambda>P s x. CreateSchedule P s x"
  by unfold_locales (rule parental_scope silent_parental)+

interpretation pc_GetSchedule: scoped_call "\<lambda>P s x. GetSchedule P s x"
  by unfold_locales (rule parental_scope silent_parental)+

interpretation pc_UpdateSchedule: scoped_call "\<lambda>P s x. UpdateSchedule P s (fst x) (snd x)"
  by unfold_locales (rule parental_scope silent_parental)+

interpretation pc_DeleteSchedule: scoped_call "\<lambda>P s x. DeleteSchedule P s x"
  by unfold_locales (rule parental_scope silent_parental)+

interpretation pc_GetScheduleGroups: scoped_call "\<lambda>P s x. GetScheduleGroups P s x"
  by unfold_locales (rule parental_scope silent_parental)+

interpretation pc_GetGroupDevices: scoped_call "\<lambda>P s x. GetGroupDevices P s x"
  by unfold_locales (rule parental_scope silent_parental)+

interpretation pc_CreateGroupDevice: scoped_call "\<lambda>P s x. CreateGroupDevice P s (fst x) (snd x)"
  by unfold_locales (rule parental_scope silent_parental)+

interpretation pc_CreateGroupDevicesV2: scoped_call "\<lambda>P s x. CreateGroupDevicesV2 P s (fst x) (snd x)"
  by unfold_locales (rule parental_scope silent_parental)+

interpretation pc_GetGroupDevice: scoped_call "\<lambda>P s x. GetGroupDevice P s (fst x) (snd x)"
  by unfold_locales (rule parental_scope silent_parental)+

interpretation pc_DeleteGroupDevice: scoped_call "\<lambda>P s x. DeleteGroupDevice P s (fst x) (snd x)"
  by unfold_locales (rule parental_scope silent_parental)+

interpretation pc_GetGroupSchedules: scoped_call "\<lambda>P s x. GetGroupSchedules P s x"
  by unfold_locales (rule parental_scope silent_parental)+

interpretation pc_CreateGroupSchedule: scoped_call "\<lambda>P s x. CreateGroupSchedule P s (fst x) (snd x)"
  by unfold_locales (rule parental_scope silent_parental)+

interpretation pc_GetGroupSchedule: scoped_call "\<lambda>P s x. GetGroupSchedule P s (fst x) (snd x)"
  by unfold_locales (rule parental_scope silent_parental)+

interpretation pc_DeleteGroupSchedule: scoped_call "\<lambda>P s x. DeleteGroupSchedule P s (fst x) (snd x)"
  by unfold_locales (rule parental_scope silent_parental)+

interpretation pc_ReplaceGroupSchedules: scoped_call "\<lambda>P s x. ReplaceGroupSchedules P s (fst x) (snd x)"
  by unfold_locales (rule parental_scope silent_parental)+

interpretation pc_CreateClientAccess: scoped_call "\<lambda>P s x. CreateClientAccess P s x"
  by unfold_locales (rule parental_scope silent_parental)+

interpretation pc_DeleteClientAccess: scoped_call "\<lambda>P s x. DeleteClientAccess P s x"
  by unfold_locales (rule parental_scope silent_parental)+

lemmas scoped_then = pc_GetGroups.then_emits
  pc_CreateGroup.then_emits
  pc_GetGroup.then_emits
  pc_UpdateGroup.then_emits [where x = "(x, y)" for x y, simplified]
  pc_DeleteGroup.then_emits
  pc_GetSchedules.then_emits
  pc_CreateSchedule.then_emits
  pc_GetSchedule.then_emits
  pc_UpdateSchedule.then_emits [where x = "(x, y)" for x y, simplified]
  pc_DeleteSchedule.then_emits
  pc_GetScheduleGroups.then_emits
  pc_GetGroupDevices.then_emits
  pc_CreateGroupDevice.then_emits [where x = "(x, y)" for x y, simplified]
  pc_CreateGroupDevicesV2.then_emits [where x = "(x, y)" for x y, simplified]
  pc_GetGroupDevice.then_emits [where x = "(x, y)" for x y, simplified]
  pc_DeleteGroupDevice.then_emits [where x = "(x, y)" for x y, simplified]
  pc_GetGroupSchedules.then_emits
  pc_CreateGroupSchedule.then_emits [where x = "(x, y)" for x y, simplified]
  pc_GetGroupSchedule.then_emits [where x = "(x, y)" for x y, simplified]
  pc_DeleteGroupSchedule.then_emits [where x = "(x, y)" for x y, simplified]
  pc_ReplaceGroupSchedules.then_emits [where x = "(x, y)" for x y, simplified]
  pc_CreateClientAccess.then_emits
  pc_DeleteClientAccess.then_emits

end
