(* ===== verification/Schedules.thy ===== *)
theory Schedules
  imports Net
begin

text \<open>
  The schedule helpers of \<^verbatim>\<open>src/RESTAPI/RESTAPI_parental_control_utils.cpp\<close>: times of day and weekdays,
  the validation of a schedule request, the request body sent to the parental-control service, and
  the conversion of a schedule between the subscriber's time zone and UTC.  Days are day numbers
  since the epoch and times are seconds, as in the \<^verbatim>\<open>date\<close> library the code uses; the zone is a
  parameter.
\<close>

section \<open>Times of day\<close>

definition MinuteToTimeString :: "platform \<Rightarrow> int \<Rightarrow> string option" where
  "MinuteToTimeString P minuteOfDay =
     (if minuteOfDay < 0 \<or> minuteOfDay > 1439 then None
      else Some (po_format_hhmm P (minuteOfDay div 60) (minuteOfDay mod 60)))"

definition digit_val :: "char \<Rightarrow> int" where
  "digit_val c = int (chr_code c) - 48"

definition ParseTimeString :: "json \<Rightarrow> int option" where
  "ParseTimeString value = (case value of
     JString t \<Rightarrow>
       if length t \<noteq> 5 \<or> t ! 2 \<noteq> CHR '':'' \<or> \<not> is_digit (t ! 0) \<or> \<not> is_digit (t ! 1)
          \<or> \<not> is_digit (t ! 3) \<or> \<not> is_digit (t ! 4) then None
       else let hour = digit_val (t ! 0) * 10 + digit_val (t ! 1);
                minute = digit_val (t ! 3) * 10 + digit_val (t ! 4)
            in if hour > 23 \<or> minute > 59 then None else Some (hour * 60 + minute)
   | _ \<Rightarrow> None)"

section \<open>Weekdays\<close>

text \<open>The remainder of C++, with the sign of the dividend.\<close>

definition cpp_rem :: "int \<Rightarrow> int \<Rightarrow> int" where
  "cpp_rem a b = sgn a * (\<bar>a\<bar> mod \<bar>b\<bar>)"

text \<open>\<^verbatim>\<open>std::set<int>::insert\<close>: the set is the increasing list of its elements.\<close>

fun int_set_insert :: "int \<Rightarrow> int list \<Rightarrow> int list" where
  "int_set_insert x [] = [x]"
| "int_set_insert x (y # ys) = (if x < y then x # y # ys else if x = y then y # ys
     else y # int_set_insert x ys)"

definition shifted_day :: "int \<Rightarrow> int \<Rightarrow> int" where
  "shifted_day shift day = cpp_rem (cpp_rem (day + shift) 7 + 7) 7"

text \<open>\<^verbatim>\<open>getElement<int>\<close> of every element, up to the first that does not convert.\<close>

fun get_ints :: "platform \<Rightarrow> json list \<Rightarrow> int list exn" where
  "get_ints P [] = Inr []"
| "get_ints P (x # xs) = (case po_toInt P x of Inl e \<Rightarrow> Inl e
     | Inr d \<Rightarrow> (case get_ints P xs of Inl e \<Rightarrow> Inl e | Inr ds \<Rightarrow> Inr (d # ds)))"

definition ShiftWeekdays :: "platform \<Rightarrow> json list ptr \<Rightarrow> int \<Rightarrow> json list ptr exn" where
  "ShiftWeekdays P weekdays shift = (case weekdays of None \<Rightarrow> Inr None
     | Some days \<Rightarrow>
        if days = [] \<or> shift = 0 then Inr (Some days)
        else (case get_ints P days of Inl e \<Rightarrow> Inl e
           | Inr ds \<Rightarrow> Inr (Some (map JInt (fold (\<lambda>d acc. int_set_insert (shifted_day shift d) acc) ds [])))))"

fun weekdays_loop :: "platform \<Rightarrow> json list \<Rightarrow> int list \<Rightarrow> bool" where
  "weekdays_loop P [] seen = True"
| "weekdays_loop P (x # xs) seen = (case po_toInt P x of Inl _ \<Rightarrow> False
     | Inr day \<Rightarrow> if day < 0 \<or> day > 6 \<or> day \<in> set seen then False else weekdays_loop P xs (day # seen))"

definition ValidateWeekdays :: "platform \<Rightarrow> json list ptr \<Rightarrow> bool" where
  "ValidateWeekdays P weekdays = (case weekdays of None \<Rightarrow> False
     | Some days \<Rightarrow> days \<noteq> [] \<and> weekdays_loop P days [])"

section \<open>The request\<close>

record ParsedScheduleRequest =
  ps_name :: string
  ps_description :: "string option"
  ps_has_description :: bool
  ps_enabled :: bool
  ps_targetKind :: string
  ps_targetValue :: string
  ps_has_target_value :: bool
  ps_startMinute :: int
  ps_stopMinute :: int
  ps_weekdays :: "json list ptr"

definition ParsedScheduleRequest_fresh :: ParsedScheduleRequest where
  "ParsedScheduleRequest_fresh = \<lparr>ps_name = '''', ps_description = None, ps_has_description = False,
     ps_enabled = True, ps_targetKind = '''', ps_targetValue = '''', ps_has_target_value = False,
     ps_startMinute = 0, ps_stopMinute = 0, ps_weekdays = None\<rparr>"

definition schedule_fields :: "string list" where
  "schedule_fields = [''name'', ''description'', ''enabled'', ''action_type'', ''target_kind'',
     ''target_value'', ''start_time'', ''stop_time'', ''weekdays'']"

abbreviation reject :: "handler \<Rightarrow> string \<Rightarrow> 'a option io" where
  "reject H txt \<equiv> fail_with (BadRequest H Errors_MissingOrInvalidParameters txt)"

text \<open>
  The nine checks in the order of the code; each answers 400 and stops.  The helpers below are the
  blocks of the function for the target, the times, the enabled flag and the description.
\<close>

definition parse_target :: "platform \<Rightarrow> handler \<Rightarrow> jobj \<Rightarrow> ParsedScheduleRequest \<Rightarrow> ParsedScheduleRequest option io" where
  "parse_target P H body out = (case getString body ''target_kind'' of
     None \<Rightarrow> reject H ''target_kind is required''
   | Some kind \<Rightarrow>
       if kind \<noteq> ''INTERNET'' \<and> kind \<noteq> ''APP'' then reject H ''target_kind must be INTERNET or APP''
       else if kind = ''APP'' then
         (case getString body ''target_value'' of
            None \<Rightarrow> reject H ''APP schedules require a non-empty target_value''
          | Some v \<Rightarrow> if po_trim P v = [] then reject H ''APP schedules require a non-empty target_value''
              else ret (Some (out\<lparr>ps_targetKind := kind, ps_has_target_value := True,
                                  ps_targetValue := po_trim P v\<rparr>)))
       else if has body ''target_value'' then
         (if \<not> isNull body ''target_value'' then reject H ''INTERNET schedules require target_value to be null''
          else ret (Some (out\<lparr>ps_targetKind := kind, ps_has_target_value := True, ps_targetValue := ''''\<rparr>)))
       else ret (Some (out\<lparr>ps_targetKind := kind, ps_has_target_value := False, ps_targetValue := ''''\<rparr>)))"

definition parse_times :: "handler \<Rightarrow> jobj \<Rightarrow> ParsedScheduleRequest \<Rightarrow> ParsedScheduleRequest option io" where
  "parse_times H body out = (case ParseTimeString (getVar body ''start_time'') of
     None \<Rightarrow> reject H ''start_time must use HH:MM format''
   | Some start \<Rightarrow> (case ParseTimeString (getVar body ''stop_time'') of
       None \<Rightarrow> reject H ''stop_time must use HH:MM format''
     | Some stop \<Rightarrow>
         if start = stop then reject H ''start_time and stop_time must not represent the same minute''
         else ret (Some (out\<lparr>ps_startMinute := start, ps_stopMinute := stop\<rparr>))))"

definition parse_enabled :: "handler \<Rightarrow> jobj \<Rightarrow> bool \<Rightarrow> ParsedScheduleRequest \<Rightarrow> ParsedScheduleRequest option io" where
  "parse_enabled H body enabledRequired out =
     (if enabledRequired then
        (case getBool body ''enabled'' of
           None \<Rightarrow> reject H ''enabled is required and must be a boolean''
         | Some b \<Rightarrow> ret (Some (out\<lparr>ps_enabled := b\<rparr>)))
      else if has body ''enabled'' then
        (case getBool body ''enabled'' of
           None \<Rightarrow> reject H ''enabled must be a boolean''
         | Some b \<Rightarrow> ret (Some (out\<lparr>ps_enabled := b\<rparr>)))
      else ret (Some (out\<lparr>ps_enabled := True\<rparr>)))"

definition parse_description :: "platform \<Rightarrow> handler \<Rightarrow> jobj \<Rightarrow> ParsedScheduleRequest \<Rightarrow> ParsedScheduleRequest option io" where
  "parse_description P H body out =
     (if has body ''description'' then
        if isNull body ''description'' then ret (Some (out\<lparr>ps_has_description := True, ps_description := None\<rparr>))
        else (case getString body ''description'' of
           None \<Rightarrow> reject H ''description must be a string or null''
         | Some d \<Rightarrow> ret (Some (out\<lparr>ps_has_description := True, ps_description := Some (po_trim P d)\<rparr>)))
      else ret (Some (out\<lparr>ps_has_description := False, ps_description := None\<rparr>)))"

definition ParseAndValidateScheduleRequest ::
  "platform \<Rightarrow> handler \<Rightarrow> jobj \<Rightarrow> bool \<Rightarrow> ParsedScheduleRequest option io" where
  "ParseAndValidateScheduleRequest P H body enabledRequired =
     (case find (\<lambda>n. n \<notin> set schedule_fields) (getNames body) of
        Some name \<Rightarrow> reject H (''Unknown field: '' @ name)
      | None \<Rightarrow> (case getString body ''name'' of
          None \<Rightarrow> reject H ''name is required''
        | Some n \<Rightarrow>
            if po_trim P n = [] then reject H ''name must be non-empty''
            else if getString body ''action_type'' \<noteq> Some ''BLOCK'' then reject H ''action_type must be BLOCK''
            else guard_step (parse_target P H body (ParsedScheduleRequest_fresh\<lparr>ps_name := po_trim P n\<rparr>)) (\<lambda>out.
                 guard_step (parse_times H body out) (\<lambda>out.
                 if \<not> isArray body ''weekdays'' \<or> \<not> ValidateWeekdays P (getArray body ''weekdays'')
                 then reject H ''weekdays must contain distinct values in the range 0..6''
                 else guard_step (parse_enabled H body enabledRequired
                                    (out\<lparr>ps_weekdays := getArray body ''weekdays''\<rparr>))
                   (parse_description P H body)))))"

definition BuildScheduleRequestBody :: "ParsedScheduleRequest \<Rightarrow> jobj" where
  "BuildScheduleRequestBody req =
     (let b1 = set_key ''name'' (JString (ps_name req)) [];
          b2 = (if ps_has_description req then set_key ''description''
                  (case ps_description req of Some d \<Rightarrow> JString d | None \<Rightarrow> JNull) b1 else b1);
          b3 = set_key ''target_kind'' (JString (ps_targetKind req))
                 (set_key ''action_type'' (JString ''BLOCK'') (set_key ''enabled'' (JBool (ps_enabled req)) b2));
          b4 = (if ps_targetKind req = ''APP'' then set_key ''target_value'' (JString (ps_targetValue req)) b3
                else if ps_has_target_value req then set_key ''target_value'' JNull b3 else b3)
      in set_key ''weekdays'' (case ps_weekdays req of Some d \<Rightarrow> JArray d | None \<Rightarrow> JNull)
           (set_key ''stop_minute'' (JInt (ps_stopMinute req))
             (set_key ''start_minute'' (JInt (ps_startMinute req)) b4)))"

section \<open>Time zones\<close>

abbreviation day_secs :: int where "day_secs \<equiv> 86400"

definition minute_of_day :: "int \<Rightarrow> int" where
  "minute_of_day t = (t mod day_secs) div 60"

text \<open>
  The arithmetic of \<^verbatim>\<open>ConvertScheduleTimesToUtc\<close> at the instant \<open>now\<close> (in seconds): the UTC minutes of
  the start and the stop and the shift of the start day.
\<close>

definition to_utc_times :: "tzone \<Rightarrow> int \<Rightarrow> int \<Rightarrow> int \<Rightarrow> int \<times> int \<times> int" where
  "to_utc_times zone now start stop =
     (let localDate = tz_to_local zone now div day_secs;
          localStart = localDate * day_secs + start div 60 * 3600 + start mod 60 * 60;
          localStopDate = (if stop \<le> start then localDate + 1 else localDate);
          localStop = localStopDate * day_secs + stop div 60 * 3600 + stop mod 60 * 60;
          sysStart = tz_to_sys zone localStart;
          sysStop = tz_to_sys zone localStop
      in (minute_of_day sysStart, minute_of_day sysStop, sysStart div day_secs - localDate))"

definition ConvertScheduleTimesToUtc ::
  "platform \<Rightarrow> string \<Rightarrow> ParsedScheduleRequest \<Rightarrow> ParsedScheduleRequest option io" where
  "ConvertScheduleTimesToUtc P timezoneStr request =
     (if timezoneStr = [] then ret None
      else (case po_locate_zone P timezoneStr of None \<Rightarrow> ret None
        | Some zone \<Rightarrow> do {
            us \<leftarrow> read_clock;
            (case to_utc_times zone (us div 1000000) (ps_startMinute request) (ps_stopMinute request) of
               (utcStart, utcStop, shift) \<Rightarrow>
                 (case ShiftWeekdays P (ps_weekdays request) shift of Inl _ \<Rightarrow> ret None
                    | Inr days \<Rightarrow> ret (Some (request\<lparr>ps_startMinute := utcStart, ps_stopMinute := utcStop,
                                                   ps_weekdays := days\<rparr>))))
          }))"

text \<open>The arithmetic of \<^verbatim>\<open>NormalizeScheduleResponse\<close>.\<close>

definition to_local_times :: "tzone \<Rightarrow> int \<Rightarrow> int \<Rightarrow> int \<Rightarrow> int \<times> int \<times> int" where
  "to_local_times zone now start stop =
     (let localDay = tz_to_local zone now div day_secs;
          utcDay0 = tz_to_sys zone (localDay * day_secs) div day_secs;
          tentativeLocalStart = tz_to_local zone (utcDay0 * day_secs + start * 60) div day_secs;
          utcDay = utcDay0 + (localDay - tentativeLocalStart);
          sysStart = utcDay * day_secs + start * 60;
          sysStopDays = (if stop \<le> start then utcDay + 1 else utcDay);
          sysStop = sysStopDays * day_secs + stop * 60;
          localStart = tz_to_local zone sysStart;
          localStop = tz_to_local zone sysStop
      in (minute_of_day localStart, minute_of_day localStop, localStart div day_secs - utcDay))"

text \<open>
  \<^verbatim>\<open>NormalizeScheduleResponse\<close> rewrites the object in place and reports success; every caller discards
  the object on failure.
\<close>

definition normalized_schedule ::
  "platform \<Rightarrow> tzone \<Rightarrow> int \<Rightarrow> jobj \<Rightarrow> int \<Rightarrow> int \<Rightarrow> jobj option" where
  "normalized_schedule P zone now schedule startMinute stopMinute =
     (case to_local_times zone now startMinute stopMinute of (start, stop, shift) \<Rightarrow>
        (case (if isArray schedule ''weekdays''
               then (case ShiftWeekdays P (getArray schedule ''weekdays'') shift of Inl _ \<Rightarrow> None
                  | Inr (Some d) \<Rightarrow> Some (set_key ''weekdays'' (JArray d) schedule)
                  | Inr None \<Rightarrow> Some (set_key ''weekdays'' JNull schedule))
               else Some schedule) of None \<Rightarrow> None
         | Some sched \<Rightarrow>
            (case (MinuteToTimeString P start, MinuteToTimeString P stop) of
               (Some startTime, Some stopTime) \<Rightarrow>
                 Some (remove_key ''config-raw'' (remove_key ''stop_minute'' (remove_key ''start_minute''
                   (set_key ''stop_time'' (JString stopTime) (set_key ''start_time'' (JString startTime) sched)))))
             | _ \<Rightarrow> None)))"

definition NormalizeScheduleResponse :: "platform \<Rightarrow> jobj ptr \<Rightarrow> string \<Rightarrow> jobj option io" where
  "NormalizeScheduleResponse P schedule timezoneStr = (case schedule of None \<Rightarrow> ret None
     | Some sched \<Rightarrow>
        if timezoneStr = [] \<or> \<not> has sched ''start_minute'' \<or> \<not> has sched ''stop_minute'' then ret None
        else (case (po_toInt P (getVar sched ''start_minute''), po_toInt P (getVar sched ''stop_minute'')) of
            (Inr start, Inr stop) \<Rightarrow>
              if start < 0 \<or> start \<ge> 24 * 60 \<or> stop < 0 \<or> stop \<ge> 24 * 60 then ret None
              else (case po_locate_zone P timezoneStr of None \<Rightarrow> ret None
                 | Some zone \<Rightarrow> do {
                     us \<leftarrow> read_clock;
                     ret (normalized_schedule P zone (us div 1000000) sched start stop)
                   })
          | _ \<Rightarrow> ret None))"

section \<open>Times and weekdays\<close>

lemma digit_val_dig: "0 \<le> n \<Longrightarrow> n < 10 \<Longrightarrow> digit_val (dig n) = n"
  by (simp add: digit_val_def chr_code_dig)

lemma dig_digit_val: "is_digit c \<Longrightarrow> dig (digit_val c) = c"
  by (simp add: digit_val_def dig_def is_digit_def)

lemma digit_val_range: "is_digit c \<Longrightarrow> 0 \<le> digit_val c \<and> digit_val c < 10"
  by (auto simp: digit_val_def is_digit_def)

lemma two_digits_val:
  "is_digit a \<Longrightarrow> is_digit b \<Longrightarrow> two_digits (digit_val a * 10 + digit_val b) = [a, b]"
  using digit_val_range [of a] digit_val_range [of b] by (simp add: two_digits_def dig_digit_val)

lemma length5E:
  assumes "length xs = 5"
  obtains a b c d e where "xs = [a, b, c, d, e]"
  using assms by (auto simp: length_Suc_conv eval_nat_numeral)

lemma ParseTimeString_Some:
  "ParseTimeString v = Some n \<longleftrightarrow> (\<exists>h m. v = JString (two_digits h @ '':'' @ two_digits m)
     \<and> 0 \<le> h \<and> h < 24 \<and> 0 \<le> m \<and> m < 60 \<and> n = h * 60 + m)" (is "?l \<longleftrightarrow> ?r")
proof
  assume l: ?l
  then obtain t where v: "v = JString t" by (auto simp: ParseTimeString_def split: json.splits)
  with l have "length t = 5" by (auto simp: ParseTimeString_def split: if_splits)
  then obtain a b c d e where t: "t = [a, b, c, d, e]" by (rule length5E)
  from l have dg: "is_digit a" "is_digit b" "is_digit d" "is_digit e" and c: "c = CHR '':''"
    and n: "n = (digit_val a * 10 + digit_val b) * 60 + (digit_val d * 10 + digit_val e)"
    and b: "digit_val a * 10 + digit_val b < 24" "digit_val d * 10 + digit_val e < 60"
    by (auto simp: ParseTimeString_def v t Let_def split: if_splits)
  have "v = JString (two_digits (digit_val a * 10 + digit_val b) @ '':'' @ two_digits (digit_val d * 10 + digit_val e))"
    using dg by (simp add: v t c two_digits_val)
  moreover have "0 \<le> digit_val a * 10 + digit_val b" "0 \<le> digit_val d * 10 + digit_val e"
    using dg [THEN digit_val_range] by auto
  ultimately show ?r using b n by blast
next
  assume ?r
  then show ?l
    by (auto simp: ParseTimeString_def two_digits_def Let_def digit_val_dig)
qed

lemma ParseTimeString_range: "ParseTimeString v = Some n \<Longrightarrow> 0 \<le> n \<and> n < 1440"
  by (auto simp: ParseTimeString_Some)

lemma MinuteToTimeString_eq:
  assumes "hhmm_doc P" "0 \<le> n" "n < 1440"
  shows "MinuteToTimeString P n = Some (two_digits (n div 60) @ '':'' @ two_digits (n mod 60))"
proof -
  have "0 \<le> n div 60" "n div 60 < 100" "0 \<le> n mod 60" "n mod 60 < 100" using assms by auto
  then show ?thesis using assms by (simp add: MinuteToTimeString_def hhmm_docD)
qed

text \<open>
  The parser and the printer of times of day are inverse to each other: a string is accepted as
  the minute \<open>n\<close> exactly when it is what the printer gives for \<open>n\<close>.  In particular only \<^verbatim>\<open>00:00\<close> to
  \<^verbatim>\<open>23:59\<close> are accepted.
\<close>

theorem ParseTimeString_inverse:
  assumes "hhmm_doc P"
  shows "ParseTimeString (JString s) = Some n \<longleftrightarrow> MinuteToTimeString P n = Some s"
proof
  assume "ParseTimeString (JString s) = Some n"
  then obtain h m where "s = two_digits h @ '':'' @ two_digits m" "0 \<le> h" "h < 24" "0 \<le> m" "m < 60"
    "n = h * 60 + m" by (auto simp: ParseTimeString_Some)
  then show "MinuteToTimeString P n = Some s"
    using assms by (simp add: MinuteToTimeString_eq)
next
  assume r: "MinuteToTimeString P n = Some s"
  then have "0 \<le> n" "n < 1440" by (auto simp: MinuteToTimeString_def split: if_splits)
  moreover with r assms have "s = two_digits (n div 60) @ '':'' @ two_digits (n mod 60)"
    by (simp add: MinuteToTimeString_eq)
  moreover have "n div 60 < 24" using \<open>n < 1440\<close> by simp
  ultimately show "ParseTimeString (JString s) = Some n"
    unfolding ParseTimeString_Some by (intro exI [of _ "n div 60"] exI [of _ "n mod 60"]) simp
qed

theorem ParseTimeString_inverse_witness:
  "ParseTimeString (JString ''07:45'') = Some 465 \<longleftrightarrow> MinuteToTimeString ref_platform 465 = Some ''07:45''"
  by (rule ParseTimeString_inverse [OF ref_platform_docs(5)])

lemma shifted_day_mod: "shifted_day shift d = (d + shift) mod 7"
proof -
  have "cpp_rem (cpp_rem a 7 + 7) 7 = a mod 7" for a :: int
  proof (cases "a \<ge> 0")
    case True
    then have "cpp_rem a 7 = a mod 7" by (auto simp: cpp_rem_def sgn_if)
    then show ?thesis by (simp add: cpp_rem_def sgn_if add_nonneg_pos)
  next
    case False
    then have "cpp_rem a 7 = - ((- a) mod 7)" by (simp add: cpp_rem_def sgn_if)
    moreover have "0 < 7 - (- a) mod 7" using pos_mod_bound [of 7 "- a"] by simp
    ultimately have "cpp_rem (cpp_rem a 7 + 7) 7 = (7 - (- a) mod 7) mod 7"
      by (simp add: cpp_rem_def sgn_if)
    also have "\<dots> = (7 + a) mod 7" by (simp add: mod_diff_right_eq mod_minus_eq)
    finally show ?thesis by simp
  qed
  then show ?thesis by (simp add: shifted_day_def)
qed

lemma set_int_set_insert [simp]: "set (int_set_insert x xs) = insert x (set xs)"
  by (induction xs) auto

lemma sorted_int_set_insert: "sorted_wrt (<) xs \<Longrightarrow> sorted_wrt (<) (int_set_insert x xs)"
  by (induction xs) auto

lemma set_shift_fold:
  "set (fold (\<lambda>d acc. int_set_insert (shifted_day s d) acc) ds acc) = (\<lambda>d. (d + s) mod 7) ` set ds \<union> set acc"
  by (induction ds arbitrary: acc) (auto simp: shifted_day_mod)

lemma sorted_shift_fold:
  "sorted_wrt (<) acc \<Longrightarrow> sorted_wrt (<) (fold (\<lambda>d acc. int_set_insert (shifted_day s d) acc) ds acc)"
  by (induction ds arbitrary: acc) (simp_all add: sorted_int_set_insert)

lemma get_ints_Inr: "get_ints P xs = Inr ds \<longleftrightarrow> map (po_toInt P) xs = map Inr ds"
proof (induction xs arbitrary: ds)
  case Nil
  then show ?case by auto
next
  case (Cons x xs)
  then show ?case
    by (cases "po_toInt P x"; cases "get_ints P xs") (auto simp: Cons_eq_map_conv)
qed

lemma weekdays_loop_iff:
  "weekdays_loop P xs seen \<longleftrightarrow> (\<exists>ds. map (po_toInt P) xs = map Inr ds \<and> distinct ds
     \<and> set ds \<subseteq> {0..6} \<and> set ds \<inter> set seen = {})"
proof (induction xs arbitrary: seen)
  case Nil
  then show ?case by simp
next
  case (Cons x xs)
  show ?case
  proof (cases "po_toInt P x")
    case (Inl e)
    then show ?thesis by (auto simp: Cons_eq_map_conv)
  next
    case (Inr d)
    then show ?thesis
      using Cons.IH [of "d # seen"] by (auto simp: Cons_eq_map_conv)
  qed
qed

text \<open>
  Weekdays are accepted exactly when the array is a non-empty list of distinct integers from 0
  to 6.
\<close>

theorem ValidateWeekdays_iff:
  "ValidateWeekdays P weekdays \<longleftrightarrow> (\<exists>days ds. weekdays = Some days \<and> ds \<noteq> []
     \<and> map (po_toInt P) days = map Inr ds \<and> distinct ds \<and> set ds \<subseteq> {0..6})"
  by (cases weekdays) (auto simp: ValidateWeekdays_def weekdays_loop_iff)

section \<open>Validation of a request\<close>

text \<open>
  A check either rejects, with one 400 response and no other effect, or changes nothing and returns
  a value with the property \<open>Q\<close>.
\<close>

definition checked :: "handler \<Rightarrow> ('a \<Rightarrow> bool) \<Rightarrow> 'a option io \<Rightarrow> bool" where
  "checked H Q m \<longleftrightarrow> (\<forall>w. case run_state m w of
     (None, w') \<Rightarrow> (\<exists>txt. w' = snd (run_state (BadRequest H Errors_MissingOrInvalidParameters txt) w))
   | (Some x, w') \<Rightarrow> Q x \<and> w' = w)"

lemma checked_reject: "checked H Q (reject H txt)"
  by (auto simp: checked_def fail_with_def split: prod.splits) (metis snd_conv)

lemma checked_if: "(b \<Longrightarrow> checked H Q m) \<Longrightarrow> (\<not> b \<Longrightarrow> checked H Q n) \<Longrightarrow> checked H Q (if b then m else n)"
  by simp

lemma checked_option:
  "(r = None \<Longrightarrow> checked H Q m) \<Longrightarrow> (\<And>x. r = Some x \<Longrightarrow> checked H Q (k x)) \<Longrightarrow>
   checked H Q (case r of None \<Rightarrow> m | Some x \<Rightarrow> k x)"
  by (cases r) auto

lemma checked_ret: "Q x \<Longrightarrow> checked H Q (ret (Some x))"
  by (simp add: checked_def)

lemma checked_guard_step:
  assumes "checked H Q m" and "\<And>x. Q x \<Longrightarrow> checked H R (k x)"
  shows "checked H R (guard_step m k)"
  unfolding checked_def
proof
  fix w
  obtain r w1 where m: "run_state m w = (r, w1)" by (cases "run_state m w")
  show "case run_state (guard_step m k) w of
      (None, w') \<Rightarrow> \<exists>txt. w' = snd (run_state (BadRequest H Errors_MissingOrInvalidParameters txt) w)
    | (Some x, w') \<Rightarrow> R x \<and> w' = w"
  proof (cases r)
    case None
    then show ?thesis using assms(1) m by (auto simp: checked_def guard_step_def dest: spec [of _ w])
  next
    case (Some x)
    then have "Q x" "w1 = w" using assms(1) m by (auto simp: checked_def dest: spec [of _ w])
    then show ?thesis using assms(2) Some m by (auto simp: checked_def guard_step_def)
  qed
qed

definition wf_request :: "platform \<Rightarrow> ParsedScheduleRequest \<Rightarrow> bool" where
  "wf_request P r \<longleftrightarrow> ps_name r \<noteq> [] \<and>
     (if ps_targetKind r = ''APP'' then ps_has_target_value r \<and> ps_targetValue r \<noteq> []
      else ps_targetKind r = ''INTERNET'' \<and> ps_targetValue r = []) \<and>
     0 \<le> ps_startMinute r \<and> ps_startMinute r < 1440 \<and> 0 \<le> ps_stopMinute r \<and> ps_stopMinute r < 1440 \<and>
     ps_startMinute r \<noteq> ps_stopMinute r \<and> ValidateWeekdays P (ps_weekdays r)"

definition target_ok :: "ParsedScheduleRequest \<Rightarrow> bool" where
  "target_ok r \<longleftrightarrow> ps_name r \<noteq> [] \<and>
     (if ps_targetKind r = ''APP'' then ps_has_target_value r \<and> ps_targetValue r \<noteq> []
      else ps_targetKind r = ''INTERNET'' \<and> ps_targetValue r = [])"

definition times_ok :: "ParsedScheduleRequest \<Rightarrow> bool" where
  "times_ok r \<longleftrightarrow> 0 \<le> ps_startMinute r \<and> ps_startMinute r < 1440 \<and> 0 \<le> ps_stopMinute r \<and>
     ps_stopMinute r < 1440 \<and> ps_startMinute r \<noteq> ps_stopMinute r"

lemma wf_request_parts: "wf_request P r \<longleftrightarrow> target_ok r \<and> times_ok r \<and> ValidateWeekdays P (ps_weekdays r)"
  by (auto simp: wf_request_def target_ok_def times_ok_def)

lemma checked_parse_target:
  "ps_name out \<noteq> [] \<Longrightarrow> checked H target_ok (parse_target P H body out)"
  unfolding parse_target_def
  by (intro checked_option checked_if checked_reject checked_ret) (simp_all add: target_ok_def)

lemma checked_parse_times:
  "target_ok out \<Longrightarrow> checked H (\<lambda>r. target_ok r \<and> times_ok r) (parse_times H body out)"
  unfolding parse_times_def
  by (intro checked_option checked_if checked_reject checked_ret)
    (auto simp: target_ok_def times_ok_def dest: ParseTimeString_range)

lemma checked_parse_enabled:
  "(\<And>b. Q (out\<lparr>ps_enabled := b\<rparr>)) \<Longrightarrow> checked H Q (parse_enabled H body er out)"
  unfolding parse_enabled_def
  by (intro checked_option checked_if checked_reject checked_ret) auto

lemma checked_parse_description:
  "(\<And>b d. Q (out\<lparr>ps_has_description := b, ps_description := d\<rparr>)) \<Longrightarrow>
   checked H Q (parse_description P H body out)"
  unfolding parse_description_def
  by (intro checked_option checked_if checked_reject checked_ret) auto

lemma request_frame:
  "target_ok (out\<lparr>ps_weekdays := d\<rparr>) = target_ok out" "times_ok (out\<lparr>ps_weekdays := d\<rparr>) = times_ok out"
  "target_ok (out\<lparr>ps_enabled := b\<rparr>) = target_ok out" "times_ok (out\<lparr>ps_enabled := b\<rparr>) = times_ok out"
  "target_ok (out\<lparr>ps_has_description := b\<rparr>) = target_ok out"
  "times_ok (out\<lparr>ps_has_description := b\<rparr>) = times_ok out"
  "target_ok (out\<lparr>ps_description := dd\<rparr>) = target_ok out"
  "times_ok (out\<lparr>ps_description := dd\<rparr>) = times_ok out"
  by (simp_all add: target_ok_def times_ok_def)

lemma checked_tail:
  assumes "target_ok out"
  shows "checked H (wf_request P) (guard_step (parse_times H body out) (\<lambda>out.
     if \<not> isArray body ''weekdays'' \<or> \<not> ValidateWeekdays P (getArray body ''weekdays'') then reject H txt
     else guard_step (parse_enabled H body er (out\<lparr>ps_weekdays := getArray body ''weekdays''\<rparr>))
            (parse_description P H body)))"
proof (rule checked_guard_step [OF checked_parse_times [OF assms]], intro checked_if checked_reject)
  fix r assume r: "target_ok r \<and> times_ok r"
    and v: "\<not> (\<not> isArray body ''weekdays'' \<or> \<not> ValidateWeekdays P (getArray body ''weekdays''))"
  show "checked H (wf_request P) (guard_step
     (parse_enabled H body er (r\<lparr>ps_weekdays := getArray body ''weekdays''\<rparr>)) (parse_description P H body))"
    by (rule checked_guard_step [where Q = "wf_request P", OF checked_parse_enabled])
      (use r v in \<open>auto intro!: checked_parse_description simp: request_frame wf_request_parts\<close>)
qed

lemma checked_ParseAndValidate: "checked H (wf_request P) (ParseAndValidateScheduleRequest P H body er)"
  unfolding ParseAndValidateScheduleRequest_def
  by (intro checked_option checked_if checked_reject checked_guard_step [OF checked_parse_target] checked_tail)
    simp_all

text \<open>What an acceptable request body is.\<close>

definition valid_schedule_body :: "platform \<Rightarrow> jobj \<Rightarrow> bool \<Rightarrow> bool" where
  "valid_schedule_body P body enabledRequired \<longleftrightarrow>
     set (getNames body) \<subseteq> set schedule_fields \<and>
     (case getString body ''name'' of Some n \<Rightarrow> po_trim P n \<noteq> [] | None \<Rightarrow> False) \<and>
     getString body ''action_type'' = Some ''BLOCK'' \<and>
     (getString body ''target_kind'' = Some ''INTERNET'' \<and> isNull body ''target_value'' \<or>
      getString body ''target_kind'' = Some ''APP'' \<and>
        (case getString body ''target_value'' of Some v \<Rightarrow> po_trim P v \<noteq> [] | None \<Rightarrow> False)) \<and>
     (case (ParseTimeString (getVar body ''start_time''), ParseTimeString (getVar body ''stop_time'')) of
        (Some a, Some b) \<Rightarrow> a \<noteq> b | _ \<Rightarrow> False) \<and>
     ValidateWeekdays P (getArray body ''weekdays'') \<and>
     (getBool body ''enabled'' \<noteq> None \<or> \<not> enabledRequired \<and> \<not> has body ''enabled'') \<and>
     (isNull body ''description'' \<or> getString body ''description'' \<noteq> None)"

lemma accepts_reject: "fst (run_state (reject H txt) w) = None"
  by (simp add: fail_with_def split: prod.splits)

lemma accepts_guard_step:
  assumes "checked H Q m"
  shows "fst (run_state (guard_step m k) w) \<noteq> None \<longleftrightarrow>
    (\<exists>x. fst (run_state m w) = Some x \<and> fst (run_state (k x) w) \<noteq> None)"
proof -
  have "case run_state m w of (None, w') \<Rightarrow> True | (Some x, w') \<Rightarrow> w' = w"
    using assms by (auto simp: checked_def split: prod.splits option.splits)
  then show ?thesis
    by (auto simp: guard_step_def split: prod.splits option.splits)
qed

lemma not_has_isNull: "\<not> has ob k \<Longrightarrow> isNull ob k"
  by (auto simp: has_def isNull_def getVar_def)

lemma isArray_Validate: "ValidateWeekdays P (getArray body k) \<Longrightarrow> isArray body k"
  by (auto simp: ValidateWeekdays_def isArray_def split: option.splits)

lemma accepts_target:
  "fst (run_state (parse_target P H body out) w) \<noteq> None \<longleftrightarrow>
     getString body ''target_kind'' = Some ''INTERNET'' \<and> isNull body ''target_value'' \<or>
     getString body ''target_kind'' = Some ''APP'' \<and>
       (case getString body ''target_value'' of Some v \<Rightarrow> po_trim P v \<noteq> [] | None \<Rightarrow> False)"
  using not_has_isNull [of body "''target_value''"]
  by (auto simp: parse_target_def accepts_reject split: option.splits if_splits)

lemma accepts_times:
  "fst (run_state (parse_times H body out) w) \<noteq> None \<longleftrightarrow>
     (case (ParseTimeString (getVar body ''start_time''), ParseTimeString (getVar body ''stop_time'')) of
        (Some a, Some b) \<Rightarrow> a \<noteq> b | _ \<Rightarrow> False)"
  by (auto simp: parse_times_def accepts_reject split: option.splits if_splits)

lemma accepts_enabled:
  "fst (run_state (parse_enabled H body er out) w) \<noteq> None \<longleftrightarrow>
     getBool body ''enabled'' \<noteq> None \<or> \<not> er \<and> \<not> has body ''enabled''"
  by (auto simp: parse_enabled_def accepts_reject split: option.splits if_splits)

lemma accepts_description:
  "fst (run_state (parse_description P H body out) w) \<noteq> None \<longleftrightarrow>
     isNull body ''description'' \<or> getString body ''description'' \<noteq> None"
  using not_has_isNull [of body "''description''"]
  by (auto simp: parse_description_def accepts_reject split: option.splits if_splits)

lemma accepts_tail:
  "fst (run_state (guard_step (parse_times H body out) (\<lambda>out.
     if \<not> isArray body ''weekdays'' \<or> \<not> ValidateWeekdays P (getArray body ''weekdays'') then reject H txt
     else guard_step (parse_enabled H body er (out\<lparr>ps_weekdays := getArray body ''weekdays''\<rparr>))
            (parse_description P H body))) w) \<noteq> None \<longleftrightarrow>
   fst (run_state (parse_times H body out) w) \<noteq> None \<and> ValidateWeekdays P (getArray body ''weekdays'') \<and>
   (getBool body ''enabled'' \<noteq> None \<or> \<not> er \<and> \<not> has body ''enabled'') \<and>
   (isNull body ''description'' \<or> getString body ''description'' \<noteq> None)"
proof -
  have t: "checked H (\<lambda>_. True) (parse_times H body out)"
    unfolding parse_times_def by (intro checked_option checked_if checked_reject checked_ret) simp_all
  have e: "checked H (\<lambda>_. True) (parse_enabled H body er out)" for out
    by (rule checked_parse_enabled) simp
  show ?thesis
    using isArray_Validate [of P body "''weekdays''"]
    by (auto simp: accepts_guard_step [OF t] accepts_guard_step [OF e] accepts_reject
        accepts_description accepts_enabled simp flip: not_None_eq)
qed

lemma accepts_ParseAndValidate:
  "fst (run_state (ParseAndValidateScheduleRequest P H body er) w) \<noteq> None \<longleftrightarrow> valid_schedule_body P body er"
proof -
  have g: "checked H (\<lambda>_. True) (parse_target P H body out)" for out
    unfolding parse_target_def by (intro checked_option checked_if checked_reject checked_ret) simp_all
  have f: "find (\<lambda>n. n \<notin> set schedule_fields) (getNames body) = None \<longleftrightarrow>
      set (getNames body) \<subseteq> set schedule_fields"
    by (auto simp: find_None_iff)
  have step: "fst (run_state (guard_step (parse_target P H body out) (\<lambda>out. guard_step (parse_times H body out) (\<lambda>out.
     if \<not> isArray body ''weekdays'' \<or> \<not> ValidateWeekdays P (getArray body ''weekdays'') then reject H t
     else guard_step (parse_enabled H body er (out\<lparr>ps_weekdays := getArray body ''weekdays''\<rparr>))
            (parse_description P H body)))) w) \<noteq> None \<longleftrightarrow>
    fst (run_state (parse_target P H body out) w) \<noteq> None \<and>
    (case (ParseTimeString (getVar body ''start_time''), ParseTimeString (getVar body ''stop_time'')) of
        (Some a, Some b) \<Rightarrow> a \<noteq> b | _ \<Rightarrow> False) \<and>
    ValidateWeekdays P (getArray body ''weekdays'') \<and>
    (getBool body ''enabled'' \<noteq> None \<or> \<not> er \<and> \<not> has body ''enabled'') \<and>
    (isNull body ''description'' \<or> getString body ''description'' \<noteq> None)" for out t
    unfolding accepts_guard_step [OF g] accepts_tail accepts_times by (simp flip: not_None_eq)
  show ?thesis
  proof (cases "find (\<lambda>n. n \<notin> set schedule_fields) (getNames body)")
    case None
    then have s: "set (getNames body) \<subseteq> set schedule_fields" using f by blast
    show ?thesis
    proof (cases "getString body ''name''")
      case None
      then show ?thesis using \<open>find _ _ = None\<close>
        by (simp add: ParseAndValidateScheduleRequest_def valid_schedule_body_def accepts_reject)
    next
      case (Some n)
      then show ?thesis using \<open>find _ _ = None\<close> s
        unfolding ParseAndValidateScheduleRequest_def valid_schedule_body_def
        by (cases "po_trim P n = []"; cases "getString body ''action_type'' = Some ''BLOCK''")
          (simp_all only: step accepts_target accepts_reject option.case if_True if_False simp_thms)
    qed
  next
    case (Some n)
    then have "\<not> set (getNames body) \<subseteq> set schedule_fields" using f by auto
    then show ?thesis
      by (simp add: Some ParseAndValidateScheduleRequest_def valid_schedule_body_def accepts_reject)
  qed
qed

text \<open>
  (C11) A schedule request is accepted exactly when its body is valid.  Then nothing is sent and the
  parsed request is well formed: a name, a target that fits its kind, two different minutes of a
  day, distinct weekdays from 0 to 6.  Otherwise the client gets exactly one 400 response with the
  error 1018, and no other service is called.
\<close>

theorem ParseAndValidateScheduleRequest_correct:
  "case run_state (ParseAndValidateScheduleRequest P H body enabledRequired) w of
     (Some req, w') \<Rightarrow> valid_schedule_body P body enabledRequired \<and> wf_request P req \<and> w' = w
   | (None, w') \<Rightarrow> \<not> valid_schedule_body P body enabledRequired \<and>
       (\<exists>d. w' = w\<lparr>w_out := w_out w @ [\<lparr>rs_status = 400, rs_body = Some (JObject (error_object 400
          (h_method H) (format_msg Errors_MissingOrInvalidParameters d)))\<rparr>]\<rparr>)"
  using checked_ParseAndValidate [of H P body enabledRequired]
    accepts_ParseAndValidate [of P H body enabledRequired w]
  by (auto simp: checked_def BadRequest_def send_def split: prod.splits option.splits dest: spec [of _ w])

section \<open>Time zones\<close>

lemma minutes_as_seconds: "x div 60 * 3600 + x mod 60 * 60 = x * (60 :: int)"
  using div_mult_mod_eq [of x 60] by linarith

lemma minute_of_day_minutes: "minute_of_day (d * day_secs + x * 60) = x mod 1440"
proof -
  have "(d * day_secs + x * 60) mod day_secs = (x mod 1440) * 60"
    using mult_mod_right [of 60 x 1440] by (simp add: mult.commute)
  then show ?thesis by (simp add: minute_of_day_def)
qed

lemma day_of_minutes: "(d * day_secs + x * 60) div day_secs = d + x div (1440 :: int)"
proof -
  have "x * 60 div day_secs = x div 1440"
    using div_mult_mult2 [of 60 x 1440] by simp
  then show ?thesis by simp
qed

lemma to_utc_times_eq:
  assumes "\<And>l. tz_to_sys zone l = l - 60 * off"
  shows "to_utc_times zone now start stop =
     ((start - off) mod 1440, (stop - off) mod 1440, (start - off) div 1440)"
proof -
  have l: "tz_to_sys zone (d * day_secs + x div 60 * 3600 + x mod 60 * 60) = d * day_secs + (x - off) * 60" for d x
    using minutes_as_seconds [of x] by (simp add: assms algebra_simps)
  show ?thesis
    unfolding to_utc_times_def Let_def l minute_of_day_minutes day_of_minutes by simp
qed

lemma to_local_times_eq:
  assumes "\<And>t. tz_to_local zone t = t + 60 * off" and "\<And>l. tz_to_sys zone l = l - 60 * off"
  shows "to_local_times zone now start stop =
     ((start + off) mod 1440, (stop + off) mod 1440, (start + off) div 1440)"
proof -
  have l: "tz_to_local zone (d * day_secs + x * 60) = d * day_secs + (x + off) * 60" for d x
    by (simp add: assms algebra_simps)
  show ?thesis
    unfolding to_local_times_def Let_def l minute_of_day_minutes day_of_minutes by simp
qed

text \<open>The shift of the start day is undone on the way back.\<close>

lemma shift_back:
  fixes s :: int
  assumes "0 \<le> s" "s < 1440"
  shows "((s - off) mod 1440 + off) mod 1440 = s" "((s - off) mod 1440 + off) div 1440 = - ((s - off) div 1440)"
proof -
  have e: "(s - off) mod 1440 + off = s + - ((s - off) div 1440) * 1440"
    using div_mult_mod_eq [of "s - off" 1440] by linarith
  have "(s + k * 1440) mod 1440 = s" "(s + k * 1440) div 1440 = k" for k
    using assms by simp_all
  then show "((s - off) mod 1440 + off) mod 1440 = s" "((s - off) mod 1440 + off) div 1440 = - ((s - off) div 1440)"
    unfolding e by blast+
qed

text \<open>The weekday of a day number; day 0 was a Thursday.\<close>

definition weekday_of :: "int \<Rightarrow> int" where
  "weekday_of D = (D + 4) mod 7"



lemma ShiftWeekdays_ints:
  assumes "conv_doc P" "set ds \<subseteq> {0..6}"
  shows "\<exists>ds'. ShiftWeekdays P (Some (map JInt ds)) shift = Inr (Some (map JInt ds'))
    \<and> set ds' = (\<lambda>d. (d + shift) mod 7) ` set ds"
proof (cases "ds = [] \<or> shift = 0")
  case True
  have "(\<lambda>d. d mod 7) ` set ds = set ds"
    using assms(2) by (force simp: image_iff)
  with True show ?thesis by (intro exI [of _ ds]) (auto simp: ShiftWeekdays_def)
next
  case False
  have "get_ints P (map JInt ds) = Inr ds"
    using assms by (auto simp: get_ints_Inr conv_docD int32_def subset_iff)
  with False show ?thesis
    by (intro exI [of _ "fold (\<lambda>d. int_set_insert (shifted_day shift d)) ds []"])
      (simp add: ShiftWeekdays_def set_shift_fold)
qed

lemma days_mod_image:
  assumes "set ds \<subseteq> {0..6 :: int}"
  shows "(\<lambda>d. (d + - k) mod 7) ` ((\<lambda>d. (d + k) mod 7) ` set ds) = set ds"
proof -
  have "((d + k) mod 7 + - k) mod 7 = d" if "d \<in> set ds" for d
  proof -
    have "((d + k) mod 7 + - k) mod 7 = (d + k + - k) mod 7" by (rule mod_add_left_eq)
    then show ?thesis using assms that by auto
  qed
  then show ?thesis by (simp add: image_image)
qed

text \<open>
  (C9) A schedule comes back as it was entered.  In a zone at a fixed offset the request is converted
  to UTC, sent, echoed by the service, and normalised at any later time: the client sees the start
  and stop times it gave and the same weekdays, and neither the internal minutes nor the
  configuration snapshot.
\<close>

theorem schedule_roundtrip:
  assumes docs: "conv_doc P" "hhmm_doc P"
    and zone: "tz \<noteq> []" "po_locate_zone P tz = Some zone" "fixed_offset zone off"
    and times: "0 \<le> start" "start < 1440" "0 \<le> stop" "stop < 1440"
    and days: "set ds \<subseteq> {0..6}"
  shows "\<exists>req' ob s e ds'.
     fst (run_state (ConvertScheduleTimesToUtc P tz
       (req\<lparr>ps_startMinute := start, ps_stopMinute := stop, ps_weekdays := Some (map JInt ds)\<rparr>)) w) = Some req'
     \<and> fst (run_state (NormalizeScheduleResponse P (Some (BuildScheduleRequestBody req')) tz) w') = Some ob
     \<and> MinuteToTimeString P start = Some s \<and> getVar ob ''start_time'' = JString s
     \<and> MinuteToTimeString P stop = Some e \<and> getVar ob ''stop_time'' = JString e
     \<and> getVar ob ''weekdays'' = JArray (map JInt ds') \<and> set ds' = set ds
     \<and> \<not> has ob ''start_minute'' \<and> \<not> has ob ''stop_minute'' \<and> \<not> has ob ''config-raw''"
proof -
  have z: "tz_to_sys zone l = l - 60 * off" "tz_to_local zone l = l + 60 * off" for l
    using zone(3) by (simp_all add: fixed_offset_def)
  let ?u = "(start - off) mod 1440" and ?v = "(stop - off) mod 1440" and ?k = "(start - off) div 1440"
  obtain d1 where d1: "ShiftWeekdays P (Some (map JInt ds)) ?k = Inr (Some (map JInt d1))"
    "set d1 = (\<lambda>d. (d + ?k) mod 7) ` set ds" using ShiftWeekdays_ints [OF docs(1) days] by blast
  then have "set d1 \<subseteq> {0..6}" by auto
  then obtain d2 where d2: "ShiftWeekdays P (Some (map JInt d1)) (- ?k) = Inr (Some (map JInt d2))"
    "set d2 = (\<lambda>d. (d + - ?k) mod 7) ` set d1" using ShiftWeekdays_ints [OF docs(1)] by blast
  define req' where "req' = req\<lparr>ps_startMinute := ?u, ps_stopMinute := ?v, ps_weekdays := Some (map JInt d1)\<rparr>"
  let ?b = "BuildScheduleRequestBody req'"
  have c: "fst (run_state (ConvertScheduleTimesToUtc P tz
       (req\<lparr>ps_startMinute := start, ps_stopMinute := stop, ps_weekdays := Some (map JInt ds)\<rparr>)) w) = Some req'"
    using zone d1(1)
    by (simp add: ConvertScheduleTimesToUtc_def read_clock_def to_utc_times_eq [OF z(1)] req'_def)
  have b: "getVar ?b ''start_minute'' = JInt ?u" "getVar ?b ''stop_minute'' = JInt ?v"
    "getVar ?b ''weekdays'' = JArray (map JInt d1)" "has ?b ''start_minute''" "has ?b ''stop_minute''"
    by (simp_all add: BuildScheduleRequestBody_def Let_def json_simps req'_def)
  have r: "0 \<le> ?u" "?u < 1440" "0 \<le> ?v" "?v < 1440" by simp_all
  then have i: "po_toInt P (JInt ?u) = Inr ?u" "po_toInt P (JInt ?v) = Inr ?v"
    using docs(1) by (auto intro!: conv_docD(2) simp: int32_def)
  have t: "to_local_times zone now ?u ?v = (start, stop, - ?k)" for now
    unfolding to_local_times_eq [OF z(2,1)] using shift_back times by simp
  obtain s e where se: "MinuteToTimeString P start = Some s" "MinuteToTimeString P stop = Some e"
    using MinuteToTimeString_eq [OF docs(2)] times by blast
  define ob where "ob = remove_key ''config-raw'' (remove_key ''stop_minute'' (remove_key ''start_minute''
     (set_key ''stop_time'' (JString e) (set_key ''start_time'' (JString s)
       (set_key ''weekdays'' (JArray (map JInt d2)) ?b)))))"
  have "normalized_schedule P zone now ?b ?u ?v = Some ob" for now
    using d2(1) se b(3) by (simp add: normalized_schedule_def t isArray_def getArray_def ob_def)
  then have "fst (run_state (NormalizeScheduleResponse P (Some ?b) tz) w') = Some ob"
    using zone b i r by (simp add: NormalizeScheduleResponse_def read_clock_def not_le not_less)
  moreover have "getVar ob ''start_time'' = JString s" "getVar ob ''stop_time'' = JString e"
    "getVar ob ''weekdays'' = JArray (map JInt d2)" "\<not> has ob ''start_minute''" "\<not> has ob ''stop_minute''"
    "\<not> has ob ''config-raw''" by (simp_all add: ob_def json_simps)
  moreover have "set d2 = set ds" using days_mod_image [OF days] d1(2) d2(2) by simp
  ultimately show ?thesis using c se by blast
qed

theorem schedule_roundtrip_witness:
  "\<exists>req' ob s e ds'.
     fst (run_state (ConvertScheduleTimesToUtc ref_platform ''Asia/Kolkata''
       (ParsedScheduleRequest_fresh\<lparr>ps_startMinute := 120, ps_stopMinute := 60, ps_weekdays := Some (map JInt [1, 3])\<rparr>))
       (sample_world (\<lambda>_ _. None))) = Some req'
     \<and> fst (run_state (NormalizeScheduleResponse ref_platform (Some (BuildScheduleRequestBody req')) ''Asia/Kolkata'')
       (sample_world (\<lambda>_ _. None))) = Some ob
     \<and> MinuteToTimeString ref_platform 120 = Some s \<and> getVar ob ''start_time'' = JString s
     \<and> MinuteToTimeString ref_platform 60 = Some e \<and> getVar ob ''stop_time'' = JString e
     \<and> getVar ob ''weekdays'' = JArray (map JInt ds') \<and> set ds' = set [1, 3]
     \<and> \<not> has ob ''start_minute'' \<and> \<not> has ob ''stop_minute'' \<and> \<not> has ob ''config-raw''"
proof -
  have "po_locate_zone ref_platform ''Asia/Kolkata'' = Some ist_zone" by (simp add: ref_platform_def)
  show ?thesis
    by (rule schedule_roundtrip [OF ref_platform_docs(6) ref_platform_docs(5) _ \<open>po_locate_zone _ _ = _\<close>
        fixed_offset_ist]) simp_all
qed

end
