(* ===== verification/ConfigRaw.thy ===== *)
theory ConfigRaw
  imports Sdk Schedules
begin

text \<open>
  The second half of \<^verbatim>\<open>src/RESTAPI/RESTAPI_parental_control_utils.cpp\<close>: which errors of the
  parental-control service reach the client, the time zone of a subscriber, and what happens after
  a change: the \<^verbatim>\<open>config-raw\<close> snapshot of the service is checked, written into the configuration of the
  subscriber's gateway, and the client is answered.
\<close>

section \<open>Errors of the parental-control service\<close>

definition MAX_ERROR_CODE_LENGTH :: nat where "MAX_ERROR_CODE_LENGTH = 128"
definition MAX_ERROR_MESSAGE_LENGTH :: nat where "MAX_ERROR_MESSAGE_LENGTH = 1024"

definition kSafeCodes :: "string list" where
  "kSafeCodes = [''invalid_request'', ''not_found'', ''unauthorized'', ''forbidden'',
     ''invalid_group'', ''group_not_found'', ''duplicate_group'', ''group_already_exists'',
     ''invalid_device'', ''invalid_mac'', ''device_not_found'', ''device_already_assigned'',
     ''device_already_exists'', ''group_device_already_exists'',
     ''invalid_schedule'', ''schedule_not_found'', ''duplicate_schedule'', ''schedule_already_exists'',
     ''group_schedule_link_not_found'', ''group_schedule_already_exists'', ''duplicate_group_schedule'',
     ''invalid_client_access'', ''client_access_not_found'', ''client_access_already_exists'']"

definition IsClientSafeParentalControlErrorCode :: "string \<Rightarrow> bool" where
  "IsClientSafeParentalControlErrorCode code \<longleftrightarrow> code \<in> set kSafeCodes"

fun safe_description_loop :: "string \<Rightarrow> string \<Rightarrow> bool \<Rightarrow> string" where
  "safe_description_loop [] description lastWasSpace = description"
| "safe_description_loop (ch # rest) description lastWasSpace =
     (if ch = CHR ''_'' \<or> ch = CHR ''-'' then
        if description \<noteq> [] \<and> \<not> lastWasSpace then safe_description_loop rest (description @ '' '') True
        else safe_description_loop rest description lastWasSpace
      else safe_description_loop rest
             (description @ [if description = [] then to_upper ch else to_lower ch]) False)"

definition SafeDescriptionFromErrorCode :: "string \<Rightarrow> string" where
  "SafeDescriptionFromErrorCode code = (let d = safe_description_loop code [] False in
     if d = [] then ''Parental-control service error'' else d)"

definition normalized_error :: "int \<Rightarrow> string \<Rightarrow> string \<Rightarrow> jobj" where
  "normalized_error status descr details = set_key ''ErrorDetails'' (JString details)
     (set_key ''ErrorDescription'' (JString descr) (set_key ''ErrorCode'' (JInt status) []))"

definition NormalizeParentalControlErrorResponse :: "platform \<Rightarrow> int \<Rightarrow> jobj ptr \<Rightarrow> jobj ptr" where
  "NormalizeParentalControlErrorResponse P status resp = (case resp of None \<Rightarrow> None
     | Some ob \<Rightarrow> (case getObject ob ''error'' of None \<Rightarrow> None
        | Some errorObject \<Rightarrow>
            let code = po_trim P (case getString errorObject ''code'' of None \<Rightarrow> [] | Some c \<Rightarrow> c);
                message = po_trim P (case getString errorObject ''message'' of None \<Rightarrow> [] | Some m \<Rightarrow> m)
            in if code = [] \<and> message = [] then None
               else if length code > MAX_ERROR_CODE_LENGTH \<or> length message > MAX_ERROR_MESSAGE_LENGTH
                 \<or> \<not> IsClientSafeParentalControlErrorCode code
               then Some (normalized_error status ''Parental-control service error'' ''parental_control_error'')
               else Some (normalized_error status (SafeDescriptionFromErrorCode code) code)))"

definition ForwardParentalControlErrorResponse :: "platform \<Rightarrow> int \<Rightarrow> jobj ptr \<Rightarrow> unit io" where
  "ForwardParentalControlErrorResponse P status resp =
     (case NormalizeParentalControlErrorResponse P status resp of
        Some ob \<Rightarrow> ForwardErrorResponse status (Some ob)
      | None \<Rightarrow> ForwardErrorResponse status resp)"

section \<open>Time zone of a subscriber\<close>

definition ResolveSubscriberTimezone :: "platform \<Rightarrow> handler \<Rightarrow> string \<Rightarrow> string option io" where
  "ResolveSubscriberTimezone P H subscriberId = do {
     (okv, venueList, callStatus, callResponse) \<leftarrow> Prov_Venue_GetVenues P None subscriberId;
     if \<not> okv then
       (if callStatus \<noteq> HTTP_OK then fail_with (ForwardErrorResponse callStatus callResponse)
        else fail_with (InternalError H Errors_InternalError))
     else (case vl_venues venueList of
         [] \<Rightarrow> fail_with (BadRequest H Errors_TimezoneRequired [])
       | venue # _ \<Rightarrow>
           if ve_location venue = [] then fail_with (BadRequest H Errors_TimezoneRequired [])
           else do {
             (okl, location, locStatus, locResponse) \<leftarrow> Prov_Location_Get P None (ve_location venue);
             if \<not> okl then
               (if locStatus \<noteq> HTTP_OK then fail_with (ForwardErrorResponse locStatus locResponse)
                else fail_with (InternalError H Errors_InternalError))
             else if lo_timezone location = [] then fail_with (BadRequest H Errors_TimezoneRequired [])
             else (case po_locate_zone P (lo_timezone location) of
                 None \<Rightarrow> fail_with (InternalError H Errors_InternalError)
               | Some _ \<Rightarrow> ret (Some (lo_timezone location)))
           })
   }"

section \<open>The configuration snapshot\<close>

text \<open>A command of the snapshot is an array of two or three strings.\<close>

definition raw_command_ok :: "json \<Rightarrow> bool" where
  "raw_command_ok cmd = (case cmd of
     JArray xs \<Rightarrow> (length xs = 2 \<or> length xs = 3) \<and> list_all isString xs | _ \<Rightarrow> False)"

text \<open>The result is the Boolean and the out parameter, which is reset first.\<close>

definition ExtractConfigRawSnapshot :: "jobj ptr \<Rightarrow> bool \<Rightarrow> bool \<times> json list ptr" where
  "ExtractConfigRawSnapshot callResponse required = (case callResponse of
     None \<Rightarrow> (\<not> required, None)
   | Some ob \<Rightarrow>
       if \<not> has ob ''config-raw'' then (\<not> required, None)
       else if isNull ob ''config-raw'' then (True, None)
       else (case getArray ob ''config-raw'' of None \<Rightarrow> (False, None)
          | Some configRaw \<Rightarrow> (list_all raw_command_ok configRaw, Some configRaw)))"

datatype ApplyConfigRawResult = NoConfigApplyNeeded | Applied | MissingOperatorId
  | ProvisioningLookupFailed | MissingGatewaySerial | GatewayConfigLoadFailed
  | GatewayConfigMalformed | GatewayConfigureFailed

text \<open>The serial of the first device of group \<^verbatim>\<open>olg\<close>, empty when there is none.\<close>

fun find_gateway :: "platform \<Rightarrow> SubscriberDevice list \<Rightarrow> string" where
  "find_gateway P [] = []"
| "find_gateway P (dev # devs) = (if po_toLower P (sd_deviceGroup dev) = ''olg'' then sd_serialNumber dev
     else find_gateway P devs)"

text \<open>
  Writing the snapshot into the fetched configuration and sending it back.  The configuration is
  fetched and sent with the token of the handler.
\<close>

definition apply_to_gateway :: "platform \<Rightarrow> handler \<Rightarrow> string \<Rightarrow> json list \<Rightarrow> ApplyConfigRawResult io" where
  "apply_to_gateway P H resolvedSerial configRaw = do {
     (okc, gwStatus, gwResponse) \<leftarrow> GetConfig P (Some H) resolvedSerial;
     if \<not> okc then ret GatewayConfigLoadFailed
     else (case gwResponse of None \<Rightarrow> ret GatewayConfigMalformed
       | Some gw \<Rightarrow> (case getObject gw ''configuration'' of None \<Rightarrow> ret GatewayConfigMalformed
         | Some gatewayConfig \<Rightarrow> do {
             (oks, _, _, _) \<leftarrow> Configure P (Some H) resolvedSerial (set_key ''config-raw'' (JArray configRaw) gatewayConfig);
             ret (if oks then Applied else GatewayConfigureFailed)
           }))
   }"

definition ApplyConfigRaw ::
  "platform \<Rightarrow> handler \<Rightarrow> string \<Rightarrow> string \<Rightarrow> json list ptr \<Rightarrow> string \<Rightarrow> ApplyConfigRawResult io" where
  "ApplyConfigRaw P H subscriberId operatorId configRaw gatewaySerial = (case configRaw of
     None \<Rightarrow> ret NoConfigApplyNeeded
   | Some raw \<Rightarrow>
       if operatorId = [] then ret MissingOperatorId
       else do {
         r \<leftarrow> (if gatewaySerial = [] then do {
                  (okd, devList, _, _) \<leftarrow> Prov_Subscriber_GetDevices P None subscriberId operatorId None;
                  ret (if okd then Some (find_gateway P (sdl_subscriberDevices devList)) else None)
                }
              else ret (Some gatewaySerial));
         (case r of None \<Rightarrow> ret ProvisioningLookupFailed
          | Some resolvedSerial \<Rightarrow>
              if resolvedSerial = [] then ret MissingGatewaySerial
              else apply_to_gateway P H resolvedSerial raw)
       })"

definition HandleApplyConfigRawResult :: "handler \<Rightarrow> ApplyConfigRawResult \<Rightarrow> unit option io" where
  "HandleApplyConfigRawResult H result = (case result of
     NoConfigApplyNeeded \<Rightarrow> ret (Some ())
   | Applied \<Rightarrow> ret (Some ())
   | MissingOperatorId \<Rightarrow> fail_with (UnAuthorized H Errors_OperatorIdMustExist)
   | MissingGatewaySerial \<Rightarrow> fail_with (InternalError H Errors_MissingSerialNumber)
   | ProvisioningLookupFailed \<Rightarrow> fail_with (InternalError H Errors_InternalError)
   | GatewayConfigLoadFailed \<Rightarrow> fail_with (InternalError H Errors_InternalError)
   | GatewayConfigMalformed \<Rightarrow> fail_with (InternalError H Errors_InternalError)
   | GatewayConfigureFailed \<Rightarrow> fail_with (InternalError H Errors_InternalError))"

definition ValidateAuthPreconditions :: "handler \<Rightarrow> string \<Rightarrow> string \<Rightarrow> bool \<Rightarrow> unit option io" where
  "ValidateAuthPreconditions H subscriberId operatorId requireOperatorId =
     (if subscriberId = [] then fail_with (UnAuthorized H Errors_InvalidSubscriberId)
      else if requireOperatorId \<and> operatorId = [] then fail_with (UnAuthorized H Errors_OperatorIdMustExist)
      else ret (Some ()))"

definition ApplyConfigRawFromMutationResponse ::
  "platform \<Rightarrow> handler \<Rightarrow> string \<Rightarrow> string \<Rightarrow> jobj ptr \<Rightarrow> bool \<Rightarrow> unit option io" where
  "ApplyConfigRawFromMutationResponse P H subscriberId operatorId mutationResponse configRawRequired =
     (case ExtractConfigRawSnapshot mutationResponse configRawRequired of (okx, configRaw) \<Rightarrow>
        if \<not> okx then fail_with (InternalError H Errors_InternalError)
        else if configRaw = None then ret (Some ())
        else do {
          result \<leftarrow> ApplyConfigRaw P H subscriberId operatorId configRaw [];
          HandleApplyConfigRawResult H result
        })"

definition StripConfigRawFromMutationResponse :: "jobj \<Rightarrow> jobj" where
  "StripConfigRawFromMutationResponse ob = (if has ob ''config-raw'' then remove_key ''config-raw'' ob else ob)"

datatype MutationSuccessResponse = Success_Ok | Success_ReturnObject
  | Success_ReturnObjectWithoutConfigRaw | Success_ReturnNormalizedScheduleObject

record MutationCallResult =
  mu_success :: bool
  mu_status :: int
  mu_response :: "jobj ptr"

definition HandleParentalControlMutationResult ::
  "platform \<Rightarrow> handler \<Rightarrow> MutationCallResult \<Rightarrow> string \<Rightarrow> string \<Rightarrow> bool \<Rightarrow> MutationSuccessResponse \<Rightarrow> string \<Rightarrow> unit io" where
  "HandleParentalControlMutationResult P H mutation subscriberId operatorId configRawRequired successResponse tz =
     (if \<not> mu_success mutation
      then ForwardParentalControlErrorResponse P (mu_status mutation) (mu_response mutation)
      else guard (ApplyConfigRawFromMutationResponse P H subscriberId operatorId (mu_response mutation) configRawRequired)
        (\<lambda>_. if successResponse = Success_Ok then OK H
          else (case mu_response mutation of None \<Rightarrow> InternalError H Errors_InternalError
            | Some response \<Rightarrow> (case successResponse of
                Success_ReturnNormalizedScheduleObject \<Rightarrow> do {
                  n \<leftarrow> NormalizeScheduleResponse P (Some response) tz;
                  (case n of None \<Rightarrow> InternalError H Errors_InternalError | Some ob \<Rightarrow> ReturnObject ob)
                }
              | Success_ReturnObjectWithoutConfigRaw \<Rightarrow> ReturnObject (StripConfigRawFromMutationResponse response)
              | _ \<Rightarrow> ReturnObject response))))"

section \<open>Responses and calls\<close>

lemma silent_schedule [replies_intros]:
  "silent (NormalizeScheduleResponse P s tz)" "silent (ConvertScheduleTimesToUtc P tz r)"
  unfolding NormalizeScheduleResponse_def ConvertScheduleTimesToUtc_def
  by (auto intro!: replies_intros split: option.splits sum.splits prod.splits)

lemma emits_schedule [emits_intros]:
  "emits C (NormalizeScheduleResponse P s tz)" "emits C (ConvertScheduleTimesToUtc P tz r)"
  unfolding NormalizeScheduleResponse_def ConvertScheduleTimesToUtc_def
  by (auto intro!: emits_intros split: option.splits sum.splits prod.splits)

lemma checked_effects:
  assumes "checked H Q m"
  shows "answers_fail m" and "emits C m"
proof -
  have w: "\<exists>rs. w_out (snd (run_state m w)) = w_out w @ rs
      \<and> length rs = (if fst (run_state m w) = None then 1 else 0)
      \<and> w_calls (snd (run_state m w)) = w_calls w \<and> w_net (snd (run_state m w)) = w_net w
      \<and> w_undefined (snd (run_state m w)) = w_undefined w" for w
  proof -
    obtain r w1 where m: "run_state m w = (r, w1)" by (cases "run_state m w")
    show ?thesis
      using assms m by (cases r) (auto simp: checked_def BadRequest_def send_def dest!: spec [of _ w])
  qed
  show "answers_fail m" unfolding answers_fail_def answers_def using w by blast
  have "w_calls (snd (run_state m w)) = w_calls w \<and> w_net (snd (run_state m w)) = w_net w" for w using w [of w] by blast
  then show "emits C m" by (simp add: emits_def)
qed

lemma replies_ParseAndValidate [replies_intros]:
  "answers_fail (ParseAndValidateScheduleRequest P H body er)"
  by (rule checked_effects(1) [OF checked_ParseAndValidate])

lemma emits_ParseAndValidate [emits_intros]: "emits C (ParseAndValidateScheduleRequest P H body er)"
  by (rule checked_effects(2) [OF checked_ParseAndValidate])

lemma replies_Forward [replies_intros]: "answers_once (ForwardParentalControlErrorResponse P s r)"
  unfolding ForwardParentalControlErrorResponse_def by (intro replies_intros)

lemma replies_Resolve [replies_intros]: "answers_fail (ResolveSubscriberTimezone P H sid)"
  unfolding ResolveSubscriberTimezone_def by (intro replies_intros)

lemma silent_ApplyConfigRaw [replies_intros]: "silent (ApplyConfigRaw P H s o' raw g)"
  unfolding ApplyConfigRaw_def apply_to_gateway_def by (intro replies_intros)

lemma replies_HandleApply [replies_intros]: "answers_fail (HandleApplyConfigRawResult H r)"
  unfolding HandleApplyConfigRawResult_def by (cases r) (simp_all only: ApplyConfigRawResult.case, (intro replies_intros)+)

lemma replies_ValidateAuth [replies_intros]: "answers_fail (ValidateAuthPreconditions H s o' b)"
  unfolding ValidateAuthPreconditions_def by (intro replies_intros)

lemma replies_ApplyFromMutation [replies_intros]:
  "answers_fail (ApplyConfigRawFromMutationResponse P H s o' r b)"
  unfolding ApplyConfigRawFromMutationResponse_def by (intro replies_intros)

lemma replies_Mutation [replies_intros]:
  "answers_once (HandleParentalControlMutationResult P H m s o' b sr tz)"
  unfolding HandleParentalControlMutationResult_def
  by (cases sr) (simp_all only: MutationSuccessResponse.case, (intro replies_intros)+)

section \<open>Properties\<close>

lemma normalized_error_fields:
  "getNames (normalized_error s d t) = [''ErrorCode'', ''ErrorDescription'', ''ErrorDetails'']"
  "getVar (normalized_error s d t) ''ErrorCode'' = JInt s"
  "getVar (normalized_error s d t) ''ErrorDescription'' = JString d"
  "getVar (normalized_error s d t) ''ErrorDetails'' = JString t"
  by (simp_all add: normalized_error_def getNames_def getVar_def)

text \<open>
  (C13) No text of the parental-control service leaks to the client: when a downstream error carries an
  error object with a code or a message, the client gets exactly the three fields of the portal, with
  the status of the call, and the details are one of the listed safe codes or the generic one; the
  message itself never appears, and the description depends on the safe code only.
\<close>

theorem NormalizeParentalControlErrorResponse_safe:
  assumes "NormalizeParentalControlErrorResponse P status resp = Some ob"
  shows "getNames ob = [''ErrorCode'', ''ErrorDescription'', ''ErrorDetails'']
    \<and> getVar ob ''ErrorCode'' = JInt status
    \<and> (\<exists>code. IsClientSafeParentalControlErrorCode code \<and> getVar ob ''ErrorDetails'' = JString code
           \<and> getVar ob ''ErrorDescription'' = JString (SafeDescriptionFromErrorCode code)
         \<or> getVar ob ''ErrorDetails'' = JString ''parental_control_error''
           \<and> getVar ob ''ErrorDescription'' = JString ''Parental-control service error'')"
  using assms
  by (auto simp: NormalizeParentalControlErrorResponse_def normalized_error_fields Let_def
      split: option.splits if_splits)

theorem NormalizeParentalControlErrorResponse_safe_witness:
  "NormalizeParentalControlErrorResponse ref_platform 409 (Some [(''error'', JObject
     [(''code'', JString ''duplicate_group''), (''message'', JString ''secret'')])])
     = Some (normalized_error 409 ''Duplicate group'' ''duplicate_group'')
   \<and> getNames (normalized_error 409 ''Duplicate group'' ''duplicate_group'')
     = [''ErrorCode'', ''ErrorDescription'', ''ErrorDetails'']"
proof
  show n: "NormalizeParentalControlErrorResponse ref_platform 409 (Some [(''error'', JObject
     [(''code'', JString ''duplicate_group''), (''message'', JString ''secret'')])])
     = Some (normalized_error 409 ''Duplicate group'' ''duplicate_group'')"
    by (simp add: NormalizeParentalControlErrorResponse_def getObject_def getVar_def getString_def Let_def
        trim_docD [OF ref_platform_docs(3)] trim_ws_def is_space_def IsClientSafeParentalControlErrorCode_def
        kSafeCodes_def MAX_ERROR_CODE_LENGTH_def MAX_ERROR_MESSAGE_LENGTH_def SafeDescriptionFromErrorCode_def
        to_upper_def to_lower_def is_upper_def is_lower_def char_of_def bit_Suc_0_iff)
  from NormalizeParentalControlErrorResponse_safe [OF n]
  show "getNames (normalized_error 409 ''Duplicate group'' ''duplicate_group'')
     = [''ErrorCode'', ''ErrorDescription'', ''ErrorDetails'']" by blast
qed

text \<open>
  The snapshot is accepted exactly when it is absent and not required, null, or an array whose
  elements are commands of two or three strings; in the last case, and only then, it is returned
  for use.
\<close>

theorem ExtractConfigRawSnapshot_correct:
  "(fst (ExtractConfigRawSnapshot resp required) \<longleftrightarrow>
      (if \<exists>ob. resp = Some ob \<and> has ob ''config-raw''
       then getVar (the resp) ''config-raw'' = JNull \<or>
         (\<exists>cmds. getVar (the resp) ''config-raw'' = JArray cmds \<and> list_all raw_command_ok cmds)
       else \<not> required))
   \<and> (fst (ExtractConfigRawSnapshot resp required) \<longrightarrow> snd (ExtractConfigRawSnapshot resp required) =
      (case resp of None \<Rightarrow> None | Some ob \<Rightarrow> getArray ob ''config-raw''))"
  by (cases resp) (auto simp: ExtractConfigRawSnapshot_def isNull_def getArray_def has_def getVar_def
      split: option.splits)

theorem ExtractConfigRawSnapshot_correct_witness:
  "ExtractConfigRawSnapshot (Some [(''config-raw'', JArray [JArray [JString ''delete'', JString ''firewall'']])]) True
     = (True, Some [JArray [JString ''delete'', JString ''firewall'']])"
  using ExtractConfigRawSnapshot_correct
    [of "Some [(''config-raw'', JArray [JArray [JString ''delete'', JString ''firewall'']])]" True]
  by (auto simp: ExtractConfigRawSnapshot_def has_def isNull_def getArray_def getVar_def raw_command_ok_def)

text \<open>A response whose body, when it is an object, has no \<^verbatim>\<open>config-raw\<close>.\<close>

definition hides_config_raw :: "response \<Rightarrow> bool" where
  "hides_config_raw r \<longleftrightarrow> (case rs_body r of Some (JObject ob) \<Rightarrow> \<not> has ob ''config-raw'' | _ \<Rightarrow> True)"

lemma hides_portal_responses [responds_intros]:
  "responds hides_config_raw (BadRequest H E x)" "responds hides_config_raw (InternalError H E)"
  "responds hides_config_raw (UnAuthorized H E)" "responds hides_config_raw (NotFound H)"
  "responds hides_config_raw (OK H)"
  unfolding BadRequest_def InternalError_def UnAuthorized_def NotFound_def OK_def
  by (auto intro!: responds_intros simp: hides_config_raw_def error_object_def has_def)

lemma hides_ReturnObject: "\<not> has ob ''config-raw'' \<Longrightarrow> responds hides_config_raw (ReturnObject ob)"
  unfolding ReturnObject_def by (intro responds_intros) (simp add: hides_config_raw_def)

lemma NormalizeScheduleResponse_hides:
  "fst (run_state (NormalizeScheduleResponse P s tz) w) = Some ob \<Longrightarrow> \<not> has ob ''config-raw''"
  by (auto simp: NormalizeScheduleResponse_def normalized_schedule_def read_clock_def json_simps
      split: option.splits sum.splits prod.splits if_splits)

lemma hides_normalized:
  "responds hides_config_raw (do { n \<leftarrow> NormalizeScheduleResponse P s tz;
     (case n of None \<Rightarrow> InternalError H E | Some ob \<Rightarrow> ReturnObject ob) })" (is "responds _ ?m")
  unfolding responds_def
proof (rule answersI)
  fix w
  obtain n w1 where r: "run_state (NormalizeScheduleResponse P s tz) w = (n, w1)"
    by (cases "run_state (NormalizeScheduleResponse P s tz) w")
  have o1: "w_out w1 = w_out w" "w_undefined w1 = w_undefined w"
    using silentD [OF silent_schedule(1), of P s tz w] silent_defined [OF silent_schedule(1), of P s tz w] r by simp_all
  have k: "responds hides_config_raw (case n of None \<Rightarrow> InternalError H E | Some ob \<Rightarrow> ReturnObject ob)"
    using NormalizeScheduleResponse_hides [of P s tz w] r
    by (auto intro!: responds_intros hides_ReturnObject split: option.splits)
  show "w_undefined (snd (run_state ?m w)) = w_undefined w"
    using r o1 answers_defined [OF k [unfolded responds_def], of w1] by (cases n) simp_all
  show "\<exists>rs. w_out (snd (run_state ?m w)) = w_out w @ rs \<and> list_all hides_config_raw rs"
    using k r o1 by (auto simp: responds_def answers_def split: option.splits dest: spec [of _ w1])
qed

lemma hides_ApplyFromMutation:
  "responds hides_config_raw (ApplyConfigRawFromMutationResponse P H s o' r b)"
  unfolding ApplyConfigRawFromMutationResponse_def HandleApplyConfigRawResult_def
  by (auto intro!: responds_intros responds_silent [OF silent_ApplyConfigRaw]
      split: prod.splits ApplyConfigRawResult.splits)



text \<open>The call that stores the snapshot \<open>raw\<close> in the configuration of a gateway.\<close>

definition pushes_snapshot :: "json list \<Rightarrow> api_call \<Rightarrow> bool" where
  "pushes_snapshot raw c \<longleftrightarrow> c_type c = uSERVICE_GATEWAY \<and> c_verb c = ''POST'' \<and>
     (\<exists>serial. serial \<noteq> [] \<and> c_path c = device_path serial @ ''/configure'') \<and>
     (case c_body c of None \<Rightarrow> False
      | Some b \<Rightarrow> (case getObject b ''configuration'' of None \<Rightarrow> False
          | Some cfg \<Rightarrow> getArray cfg ''config-raw'' = Some raw))"

lemma Configure_success:
  assumes "run_state (Configure P client Mac cfg) w = ((True, x), w1)"
  shows "\<exists>c b now rp. w_calls w1 = w_calls w @ [c] \<and> w_net w1 = w_net w
    \<and> w_net w (w_calls w) c = Some rp \<and> rp_status rp = HTTP_OK \<and> c_type c = uSERVICE_GATEWAY \<and> c_verb c = ''POST''
    \<and> c_path c = device_path Mac @ ''/configure'' \<and> c_body c = Some b
    \<and> getObject b ''configuration'' = Some (set_key ''uuid'' now cfg)"
proof -
  have "getVar (write_fields [set_key ''serialNumber'' s, set_key ''UUID'' n, set_key ''when'' k,
     set_key ''configuration'' (JObject ob)] []) ''configuration'' = JObject ob" for s n k ob
    by (simp add: write_fields_def getVar_def)
  then show ?thesis
    using assms
    by (auto simp: Configure_def OpenAPIRequestPost_def read_clock_def transmit_def Let_def
        body_or_timeout_def getObject_def split: prod.splits list.splits option.splits)
qed

text \<open>
  Of the new calls the last one stored the snapshot: it was sent, and the gateway service answered it with 200.
\<close>

definition stored_last :: "json list \<Rightarrow> world \<Rightarrow> world \<Rightarrow> bool" where
  "stored_last raw w w1 \<longleftrightarrow> (\<exists>cs c rp. w_calls w1 = w_calls w @ cs @ [c] \<and> pushes_snapshot raw c
     \<and> w_net w (w_calls w @ cs) c = Some rp \<and> rp_status rp = HTTP_OK)"

lemma stored_last_before:
  assumes "emits C m" "run_state m w = (x, w2)" "stored_last raw w2 w1"
  shows "stored_last raw w w1"
proof -
  obtain as where as: "w_calls w2 = w_calls w @ as" using emitsE [OF assms(1), of w] assms(2) by auto
  obtain cs c rp where "w_calls w1 = w_calls w2 @ cs @ [c]" "pushes_snapshot raw c"
    "w_net w2 (w_calls w2 @ cs) c = Some rp" "rp_status rp = HTTP_OK"
    using assms(3) unfolding stored_last_def by blast
  moreover have "w_net w2 = w_net w" using emits_net [OF assms(1), of w] assms(2) by simp
  ultimately show ?thesis using as unfolding stored_last_def
    by (intro exI [of _ "as @ cs"] exI [of _ c] exI [of _ rp]) simp
qed

lemma emits_any_transmit: "emits (\<lambda>_. True) (transmit P verb Type path query body timeout token)"
  by (rule emits_transmit) simp

lemma apply_to_gateway_Applied:
  assumes "run_state (apply_to_gateway P H serial raw) w = (Applied, w1)" and "serial \<noteq> []"
  shows "stored_last raw w w1"
proof -
  obtain cfg x w2 y where g: "run_state (GetConfig P (Some H) serial) w = (y, w2)"
    and "run_state (Configure P (Some H) serial (set_key ''config-raw'' (JArray raw) cfg)) w2 = ((True, x), w1)"
    using assms(1) by (auto simp: apply_to_gateway_def split: prod.splits if_splits option.splits)
  then obtain c b now rp where "w_calls w1 = w_calls w2 @ [c]" "c_type c = uSERVICE_GATEWAY"
    "c_verb c = ''POST''" "c_path c = device_path serial @ ''/configure''" "c_body c = Some b"
    "w_net w2 (w_calls w2) c = Some rp" "rp_status rp = HTTP_OK"
    "getObject b ''configuration'' = Some (set_key ''uuid'' now (set_key ''config-raw'' (JArray raw) cfg))"
    by (auto dest!: Configure_success)
  then have "stored_last raw w2 w1"
    using assms(2) unfolding stored_last_def
    by (intro exI [of _ "[]"] exI [of _ c] exI [of _ rp]) (auto simp: pushes_snapshot_def getArray_def json_simps)
  moreover have "emits (\<lambda>_. True) (GetConfig P (Some H) serial)"
    unfolding GetConfig_def OpenAPIRequestGet_def by (intro emits_intros emits_any_transmit)
  ultimately show ?thesis using g by (blast intro: stored_last_before)
qed

lemma ApplyConfigRaw_Applied:
  assumes "run_state (ApplyConfigRaw P H sid oid (Some raw) []) w = (Applied, w1)"
  shows "stored_last raw w w1"
proof -
  obtain serial w2 y where g: "run_state (Prov_Subscriber_GetDevices P None sid oid None) w = (y, w2)"
    and "serial \<noteq> []" "run_state (apply_to_gateway P H serial raw) w2 = (Applied, w1)"
    using assms by (auto simp: ApplyConfigRaw_def split: prod.splits if_splits option.splits)
  moreover have "emits (\<lambda>_. True) (Prov_Subscriber_GetDevices P None sid oid None)"
    unfolding Prov_Subscriber_GetDevices_def OpenAPIRequestGet_def by (intro emits_intros emits_any_transmit)
  ultimately show ?thesis by (blast intro: apply_to_gateway_Applied stored_last_before)
qed

lemma ApplyFromMutation_success:
  assumes "run_state (ApplyConfigRawFromMutationResponse P H sid oid (Some ob) required) w = (Some (), w1)"
    and "getArray ob ''config-raw'' = Some raw"
  shows "stored_last raw w w1"
proof -
  have x: "ExtractConfigRawSnapshot (Some ob) required = (list_all raw_command_ok raw, Some raw)"
    using assms(2) getArray_has [OF assms(2)]
    by (auto simp: ExtractConfigRawSnapshot_def isNull_def getArray_def)
  obtain r w2 where a: "run_state (ApplyConfigRaw P H sid oid (Some raw) []) w = (r, w2)"
    by (cases "run_state (ApplyConfigRaw P H sid oid (Some raw) []) w")
  have "r \<noteq> NoConfigApplyNeeded"
    using a by (auto simp: ApplyConfigRaw_def apply_to_gateway_def split: prod.splits if_splits option.splits)
  then have "r = Applied \<and> w2 = w1"
    using assms(1) a x
    by (cases r) (auto simp: ApplyConfigRawFromMutationResponse_def HandleApplyConfigRawResult_def
        fail_with_def split: if_splits prod.splits)
  then show ?thesis using a ApplyConfigRaw_Applied by blast
qed

text \<open>A failed step answers with an error status.\<close>

definition is_error :: "response \<Rightarrow> bool" where
  "is_error r \<longleftrightarrow> rs_status r \<noteq> HTTP_OK"

lemma error_ApplyFromMutation:
  "answers (\<lambda>r rs. r = None \<longrightarrow> (\<exists>e. rs = [e] \<and> is_error e)) (ApplyConfigRawFromMutationResponse P H s o' m b)"
proof (rule answersI)
  fix w
  obtain r w2 where a: "run_state (ApplyConfigRaw P H s o' (snd (ExtractConfigRawSnapshot m b)) []) w = (r, w2)"
    by (cases "run_state (ApplyConfigRaw P H s o' (snd (ExtractConfigRawSnapshot m b)) []) w")
  have o2: "w_out w2 = w_out w" "w_undefined w2 = w_undefined w"
    using silentD [OF silent_ApplyConfigRaw] silent_defined [OF silent_ApplyConfigRaw] a by (metis snd_conv)+
  show "w_undefined (snd (run_state (ApplyConfigRawFromMutationResponse P H s o' m b) w)) = w_undefined w"
    using a o2
    by (cases r) (auto simp: ApplyConfigRawFromMutationResponse_def HandleApplyConfigRawResult_def fail_with_def
        InternalError_def UnAuthorized_def send_def split: prod.splits)
  from o2 show "\<exists>rs. w_out (snd (run_state (ApplyConfigRawFromMutationResponse P H s o' m b) w)) = w_out w @ rs \<and>
      (fst (run_state (ApplyConfigRawFromMutationResponse P H s o' m b) w) = None \<longrightarrow> (\<exists>e. rs = [e] \<and> is_error e))"
    using a
    by (cases r) (auto simp: ApplyConfigRawFromMutationResponse_def HandleApplyConfigRawResult_def fail_with_def
        InternalError_def UnAuthorized_def send_def is_error_def split: prod.splits)
qed

lemma no_calls: "emits (\<lambda>_. False) m \<Longrightarrow> w_calls (snd (run_state m w)) = w_calls w"
  by (auto simp: emits_def list_all_iff dest!: spec [of _ w])

definition mutation_answer ::
  "platform \<Rightarrow> handler \<Rightarrow> jobj ptr \<Rightarrow> MutationSuccessResponse \<Rightarrow> string \<Rightarrow> unit io" where
  "mutation_answer P H resp sr tz = (if sr = Success_Ok then OK H
     else (case resp of None \<Rightarrow> InternalError H Errors_InternalError
       | Some response \<Rightarrow> (case sr of
           Success_ReturnNormalizedScheduleObject \<Rightarrow> do {
             n \<leftarrow> NormalizeScheduleResponse P (Some response) tz;
             (case n of None \<Rightarrow> InternalError H Errors_InternalError | Some ob \<Rightarrow> ReturnObject ob)
           }
         | Success_ReturnObjectWithoutConfigRaw \<Rightarrow> ReturnObject (StripConfigRawFromMutationResponse response)
         | _ \<Rightarrow> ReturnObject response)))"

lemma emits_mutation_answer: "emits C (mutation_answer P H resp sr tz)"
  unfolding mutation_answer_def
  by (cases sr) (simp_all only: MutationSuccessResponse.case, (intro emits_intros)+)

lemma Mutation_split:
  "mu_success m \<Longrightarrow> HandleParentalControlMutationResult P H m sid oid required sr tz =
   guard (ApplyConfigRawFromMutationResponse P H sid oid (mu_response m) required)
     (\<lambda>_. mutation_answer P H (mu_response m) sr tz)"
  by (simp add: HandleParentalControlMutationResult_def mutation_answer_def)

text \<open>
  (C8) The client is told that a change succeeded only after the gateway has it: when the service
  accepted a change and returned a snapshot, a final response 200 means that the last call of the
  portal wrote exactly this snapshot into the configuration of the gateway and was answered with 200.
\<close>

theorem Mutation_success_applied:
  assumes "mu_success m" "mu_response m = Some ob" "getArray ob ''config-raw'' = Some raw"
    and "run_state (HandleParentalControlMutationResult P H m sid oid required sr tz) w = ((), w1)"
    and "rs_status (last (w_out w1)) = HTTP_OK"
  shows "\<exists>cs c rp. w_calls w1 = w_calls w @ cs @ [c] \<and> pushes_snapshot raw c
    \<and> w_net w (w_calls w @ cs) c = Some rp \<and> rp_status rp = HTTP_OK"
proof -
  let ?a = "ApplyConfigRawFromMutationResponse P H sid oid (Some ob) required"
  let ?k = "mutation_answer P H (Some ob) sr tz"
  obtain r w2 where a: "run_state ?a w = (r, w2)" by (cases "run_state ?a w")
  have h: "run_state (guard ?a (\<lambda>_. ?k)) w = ((), w1)"
    using assms(1,2,4) by (simp add: Mutation_split)
  have "stored_last raw w w1"
  proof (cases r)
    case None
    then have "w1 = w2" using a h by (simp add: guard_def)
    moreover obtain e where "w_out w2 = w_out w @ [e]" "is_error e"
      using error_ApplyFromMutation [of P H sid oid "Some ob" required] a None
      by (auto simp: answers_def dest!: spec [of _ w])
    ultimately show ?thesis using assms(5) by (simp add: is_error_def)
  next
    case (Some u)
    then have "snd (run_state ?k w2) = w1" using a h by (simp add: guard_def)
    then have "w_calls w1 = w_calls w2" using no_calls [OF emits_mutation_answer] by metis
    then show ?thesis using ApplyFromMutation_success [of P H sid oid ob required w w2 raw] a Some assms(3)
      by (simp add: stored_last_def)
  qed
  then show ?thesis by (simp add: stored_last_def)
qed

text \<open>A network with one gateway and one mesh device, on which every call succeeds.\<close>

definition sample_devices :: jobj where
  "sample_devices = [(''subscriberDevices'', JArray [
     JObject [(''deviceGroup'', JString ''AP''), (''serialNumber'', JString ''112233445566'')],
     JObject [(''deviceGroup'', JString ''OLG''), (''serialNumber'', JString ''aabbccddeeff'')]])]"

definition sample_net :: "api_call list \<Rightarrow> api_call \<Rightarrow> reply option" where
  "sample_net cs c = Some \<lparr>rp_status = 200, rp_text = ''x'', rp_json = Some (JObject (
     if c_path c = ''/api/v1/subscriberDevice'' then sample_devices
     else if c_path c = ''/api/v1/device/aabbccddeeff'' then
       [(''configuration'', JObject [(''config-raw'', JArray [JNull]), (''radios'', JArray [])])]
     else []))\<rparr>"

lemma sample_GetDevices:
  "run_state (Prov_Subscriber_GetDevices ref_platform None sid oid None) (sample_world sample_net) =
   ((True, \<lparr>sdl_subscriberDevices =
        [SubscriberDevice_fresh\<lparr>sd_serialNumber := ''112233445566'', sd_deviceGroup := ''AP''\<rparr>,
         SubscriberDevice_fresh\<lparr>sd_serialNumber := ''aabbccddeeff'', sd_deviceGroup := ''OLG''\<rparr>]\<rparr>,
     200, Some sample_devices),
    (sample_world sample_net)\<lparr>w_calls := [\<lparr>c_verb = ''GET'', c_type = ''owprov'', c_base = ''https://svc'',
       c_path = ''/api/v1/subscriberDevice'', c_query = [(''subscriberId'', sid), (''operatorId'', oid)],
       c_body = None, c_headers = [(''X-API-KEY'', ''key''), (''X-INTERNAL-NAME'', ''https://portal'')],
       c_timeout = 60000\<rparr>]\<rparr>)"
  by (simp add: Prov_Subscriber_GetDevices_def OpenAPIRequestGet_def transmit_def sample_service_def GetServices_def lower_docD [OF ref_platform_docs(1)] service_names to_lower_def is_upper_def
      sample_net_def sample_devices_def Let_def reply_object_def client_token_def auth_headers_def parse_reply_def
      SubscriberDeviceList_from_json_def SubscriberDeviceList_fresh_def parse_object_def read_objects_def
      getArray_def getVar_def SubscriberDevice_from_json_def SubscriberDevice_fresh_def read_base_def
      ObjectInfo_from_json_def read_string_def read_uint64_def read_uint64s_def read_bool_def
      read_object_def read_deviceGroup_def present_def has_def isNull_def getObject_def
      conv_docD(1) [OF ref_platform_docs(6)])

lemmas run_defs = OpenAPIRequestGet_def OpenAPIRequestGetArray_def OpenAPIRequestPut_def
  OpenAPIRequestPost_def OpenAPIRequestDelete_def transmit_def sample_service_def
  GetServices_def lower_docD [OF ref_platform_docs(1)] service_names to_lower_def is_upper_def
  Let_def reply_object_def client_token_def auth_headers_def body_or_timeout_def read_clock_def
  sample_handler_def send_def response_defs idiom_defs char_of_def bit_Suc_0_iff

theorem Mutation_success_applied_witness:
  "\<exists>cs c rp. w_calls (snd (run_state (HandleParentalControlMutationResult ref_platform
     (sample_handler ''POST'') \<lparr>mu_success = True, mu_status = 200, mu_response = Some [(''config-raw'', JArray [])]\<rparr>
     ''sub1'' ''op1'' True Success_Ok []) (sample_world sample_net))) = cs @ [c]
     \<and> pushes_snapshot [] c \<and> sample_net cs c = Some rp \<and> rp_status rp = 200"
proof -
  let ?m = "HandleParentalControlMutationResult ref_platform (sample_handler ''POST'')
     \<lparr>mu_success = True, mu_status = 200, mu_response = Some [(''config-raw'', JArray [])]\<rparr>
     ''sub1'' ''op1'' True Success_Ok []"
  have "rs_status (last (w_out (snd (run_state ?m (sample_world sample_net))))) = 200"
    by (simp add: HandleParentalControlMutationResult_def ApplyConfigRawFromMutationResponse_def
        ExtractConfigRawSnapshot_def has_def isNull_def getVar_def getArray_def getObject_def guard_def
        ApplyConfigRaw_def sample_GetDevices apply_to_gateway_def GetConfig_def Configure_def
        sample_net_def HandleApplyConfigRawResult_def run_defs)
  moreover have "run_state ?m (sample_world sample_net) = ((), snd (run_state ?m (sample_world sample_net)))"
    by (simp add: prod_eq_iff)
  ultimately show ?thesis
    using Mutation_success_applied [where ob = "[(''config-raw'', JArray [])]" and raw = "[]" and w = "sample_world sample_net"
        and P = ref_platform and H = "sample_handler ''POST''" and sid = "''sub1''" and oid = "''op1''"
        and required = True and sr = Success_Ok and tz = "[]"
        and m = "\<lparr>mu_success = True, mu_status = 200, mu_response = Some [(''config-raw'', JArray [])]\<rparr>"]
    by (simp add: getArray_def getVar_def)
qed

end
