(* ===== verification/Utils.thy ===== *)
theory Utils
  imports Platform
begin

unbundle bit_operations_syntax

text \<open>
  \<^verbatim>\<open>src/framework/utils.cpp\<close> and \<^verbatim>\<open>utils.h\<close>: MAC addresses and serial numbers, identifiers, list
  splitting, base64, and the small comparison and formatting helpers.  Functions that modify a
  string in place return the new string beside their result; \<^verbatim>\<open>static\<close> variables are explicit
  state.
\<close>

section \<open>MAC addresses and serial numbers\<close>

definition NormalizeMac :: "platform \<Rightarrow> string \<Rightarrow> bool \<times> string" where
  "NormalizeMac P mac =
     (let m1 = po_replace P mac '':'' '''';
          m2 = po_replace P m1 ''-'' ''''
      in if length m2 \<noteq> 12 then (False, m2)
         else if \<not> list_all is_xdigit m2 then (False, m2)
         else (True, po_toLower P m2))"

definition ValidSerialNumber :: "string \<Rightarrow> bool" where
  "ValidSerialNumber Serial \<longleftrightarrow> length Serial = 12 \<and> list_all is_xdigit Serial"

definition ValidUUID :: "string \<Rightarrow> bool" where
  "ValidUUID uuid =
     (if length uuid > 36 then False
      else list_all (\<lambda>i. i = CHR ''-'' \<or> is_xdigit i) uuid
        \<and> length (filter (\<lambda>i. i = CHR ''-'') uuid) > 0)"

definition padTo :: "string \<Rightarrow> nat \<Rightarrow> char \<Rightarrow> string" where
  "padTo str num paddingChar = str @ replicate (num - length str mod num) paddingChar"

text \<open>
  The result is built in a zero-terminated buffer, so a NUL byte in the serial would end it.
\<close>

definition SerialToMAC :: "string \<Rightarrow> string" where
  "SerialToMAC Serial =
     (let R = (if length Serial < 12 then padTo Serial 12 (CHR ''0'')
               else if length Serial > 12 then take 12 Serial else Serial)
      in takeWhile (\<lambda>c. c \<noteq> CHR 0x00)
           [R ! 0, R ! 1, CHR '':'', R ! 2, R ! 3, CHR '':'', R ! 4, R ! 5, CHR '':'',
            R ! 6, R ! 7, CHR '':'', R ! 8, R ! 9, CHR '':'', R ! 10, R ! 11])"

fun MACToInt_loop :: "uint64 \<Rightarrow> string \<Rightarrow> uint64" where
  "MACToInt_loop Result [] = Result"
| "MACToInt_loop Result (c # cs) =
     (if c = CHR '':'' then MACToInt_loop Result cs
      else let r = push_bit 4 Result; n = chr_code c in
        if is_digit c then MACToInt_loop (r + of_nat (n - 48)) cs
        else if 97 \<le> n \<and> n \<le> 102 then MACToInt_loop (r + of_nat (n - 97 + 10)) cs
        else if 65 \<le> n \<and> n \<le> 70 then MACToInt_loop (r + of_nat (n - 65 + 10)) cs
        else MACToInt_loop r cs)"

definition MACToInt :: "string \<Rightarrow> uint64" where
  "MACToInt MAC = MACToInt_loop 0 MAC"

definition nibble_char :: "uint64 \<Rightarrow> char" where
  "nibble_char B = (if unat B < 10 then char_of (unat B + 48) else char_of (unat B - 10 + 97))"

text \<open>The loop fills the twelve characters from the right, shifting \<open>S\<close> by a nibble each time.\<close>

fun IntToSerialNumber_loop :: "nat \<Rightarrow> uint64 \<Rightarrow> string \<Rightarrow> string" where
  "IntToSerialNumber_loop 0 S b = b"
| "IntToSerialNumber_loop (Suc i) S b =
     IntToSerialNumber_loop i (drop_bit 4 S) (nibble_char (S AND 0x0f) # b)"

definition IntToSerialNumber :: "uint64 \<Rightarrow> string" where
  "IntToSerialNumber S = IntToSerialNumber_loop 12 S []"

text \<open>\<^verbatim>\<open>std::stoull(S, nullptr, 16)\<close>: white space, sign, \<^verbatim>\<open>0x\<close> prefix, then the longest run of digits.\<close>

definition hex_val :: "char \<Rightarrow> nat" where
  "hex_val c = (let n = chr_code c in
     if is_digit c then n - 48 else if 97 \<le> n \<and> n \<le> 102 then n - 87 else n - 55)"

definition strip_0x :: "string \<Rightarrow> string" where
  "strip_0x s = (case s of z # x # d # ds \<Rightarrow>
       (if z = CHR ''0'' \<and> (x = CHR ''x'' \<or> x = CHR ''X'') \<and> is_xdigit d then d # ds else s)
     | _ \<Rightarrow> s)"

definition stoull16 :: "string \<Rightarrow> uint64 exn" where
  "stoull16 S =
     (let s1 = dropWhile is_space S;
          neg = (s1 \<noteq> [] \<and> hd s1 = CHR ''-'');
          s2 = (if s1 \<noteq> [] \<and> (hd s1 = CHR ''-'' \<or> hd s1 = CHR ''+'') then tl s1 else s1);
          ds = takeWhile is_xdigit (strip_0x s2);
          v = fold (\<lambda>c n. 16 * n + hex_val c) ds 0
      in if ds = [] then Inl StdException
         else if v \<ge> 2 ^ 64 then Inl StdException
         else Inr (if neg then - of_nat v else of_nat v))"

definition SerialNumberToInt :: "string \<Rightarrow> uint64 exn" where
  "SerialNumberToInt S = stoull16 S"

section \<open>Splitting and sanitising\<close>

text \<open>\<open>P\<close> is the start of the current token; \<open>find_first_of\<close> looks for the next delimiter.\<close>

function Split :: "string \<Rightarrow> char \<Rightarrow> string list" where
  "Split List Delimiter =
     (if List = [] then []
      else if Delimiter \<notin> set List then [List]
      else takeWhile (\<lambda>c. c \<noteq> Delimiter) List
        # Split (tl (dropWhile (\<lambda>c. c \<noteq> Delimiter) List)) Delimiter)"
  by pat_completeness auto
termination
proof (relation "measure (\<lambda>(l, d). length l)")
  fix List :: string and Delimiter
  assume "List \<noteq> []" and "\<not> Delimiter \<notin> set List"
  have "length (tl (dropWhile (\<lambda>c. c \<noteq> Delimiter) List)) \<le> length (dropWhile (\<lambda>c. c \<noteq> Delimiter) List) - 1"
    by simp
  also have "\<dots> < length List"
    using \<open>List \<noteq> []\<close> length_dropWhile_le [of "\<lambda>c. c \<noteq> Delimiter" List]
    by (cases List) auto
  finally show "((tl (dropWhile (\<lambda>c. c \<noteq> Delimiter) List), Delimiter), (List, Delimiter))
      \<in> measure (\<lambda>(l, d). length l)"
    by simp
qed simp

declare Split.simps [simp del]

definition SanitizeToken :: "string \<Rightarrow> string" where
  "SanitizeToken Token =
     (if length Token > 8 then take 4 Token @ ''****'' @ take 4 (drop (length Token - 4) Token)
      else ''*******'')"

section \<open>Base64\<close>

definition kEncodeLookup :: string where
  "kEncodeLookup = ''ABCDEFGHIJKLMNOPQRSTUVWXYZabcdefghijklmnopqrstuvwxyz0123456789+/''"

abbreviation kPadCharacter :: char where
  "kPadCharacter \<equiv> CHR ''=''"

definition b64_char :: "uint32 \<Rightarrow> char" where
  "b64_char i = kEncodeLookup ! unat i"

text \<open>
  The loop consumes three bytes per turn; the \<^verbatim>\<open>switch\<close> after it handles the one or two bytes
  left.
\<close>

fun base64encode :: "byte list \<Rightarrow> string" where
  "base64encode (a # b # c # rest) =
     (let temp = push_bit 16 (ucast a) + push_bit 8 (ucast b) + ucast c :: uint32
      in b64_char (drop_bit 18 (temp AND 0x00FC0000)) # b64_char (drop_bit 12 (temp AND 0x0003F000))
       # b64_char (drop_bit 6 (temp AND 0x00000FC0)) # b64_char (temp AND 0x0000003F)
       # base64encode rest)"
| "base64encode [a] =
     (let temp = push_bit 16 (ucast a) :: uint32
      in [b64_char (drop_bit 18 (temp AND 0x00FC0000)), b64_char (drop_bit 12 (temp AND 0x0003F000)),
          kPadCharacter, kPadCharacter])"
| "base64encode [a, b] =
     (let temp = push_bit 16 (ucast a) + push_bit 8 (ucast b) :: uint32
      in [b64_char (drop_bit 18 (temp AND 0x00FC0000)), b64_char (drop_bit 12 (temp AND 0x0003F000)),
          b64_char (drop_bit 6 (temp AND 0x00000FC0)), kPadCharacter])"
| "base64encode [] = []"

text \<open>The value a character contributes to \<^verbatim>\<open>temp\<close>; \<open>None\<close> when it is not in the alphabet.\<close>

definition b64_value :: "char \<Rightarrow> uint32 option" where
  "b64_value c = (let n = chr_code c in
     if 0x41 \<le> n \<and> n \<le> 0x5A then Some (of_nat (n - 0x41))
     else if 0x61 \<le> n \<and> n \<le> 0x7A then Some (of_nat (n - 0x47))
     else if 0x30 \<le> n \<and> n \<le> 0x39 then Some (of_nat (n + 0x04))
     else if n = 0x2B then Some 0x3E
     else if n = 0x2F then Some 0x3F
     else None)"

text \<open>
  One character per step: \<open>temp\<close> is shifted by six bits first, and is not reset between groups.
  \<open>i\<close> is the position in the current group of four, and \<^verbatim>\<open>input.end() - it\<close> the characters left,
  the current one included.
\<close>

fun base64decode_loop :: "uint32 \<Rightarrow> nat \<Rightarrow> string \<Rightarrow> byte list \<Rightarrow> byte list exn" where
  "base64decode_loop temp i [] decoded = Inr decoded"
| "base64decode_loop temp i (c # cs) decoded =
     (let temp = push_bit 6 temp in
      case b64_value c of
        Some v \<Rightarrow>
          (let temp = temp OR v in
           if i < 3 then base64decode_loop temp (Suc i) cs decoded
           else base64decode_loop temp 0 cs
             (decoded @ [ucast (drop_bit 16 temp AND 0x000000FF),
                         ucast (drop_bit 8 temp AND 0x000000FF), ucast (temp AND 0x000000FF)]))
      | None \<Rightarrow>
          (if c = kPadCharacter then
             (if length (c # cs) = 1 then
                Inr (decoded @ [ucast (drop_bit 16 temp AND 0x000000FF),
                                ucast (drop_bit 8 temp AND 0x000000FF)])
              else if length (c # cs) = 2 then
                Inr (decoded @ [ucast (drop_bit 10 temp AND 0x000000FF)])
              else Inl StdException)
           else Inl StdException))"

definition base64decode :: "string \<Rightarrow> byte list exn" where
  "base64decode input =
     (if length input mod 4 \<noteq> 0 then Inl StdException else base64decode_loop 0 0 input [])"

section \<open>Comparison and validation helpers\<close>

definition CompareTime :: "int \<Rightarrow> int \<Rightarrow> int \<Rightarrow> int \<Rightarrow> int \<Rightarrow> int \<Rightarrow> bool" where
  "CompareTime H1 H2 M1 M2 S1 S2 =
     (if H1 < H2 then True
      else if H1 > H2 then False
      else if M1 < M2 then True
      else if M2 > M1 then False
      else if S1 \<le> S2 then True
      else False)"

text \<open>
  \<^verbatim>\<open>ValidNumber\<close> keeps its regular expression in a \<^verbatim>\<open>static\<close> variable: \<open>True\<close> while it still holds the
  signed pattern it was initialised with.
\<close>

fun frac_ok :: "string \<Rightarrow> bool" where
  "frac_ok [] = True"
| "frac_ok (c # cs) = (c = CHR ''.'' \<and> cs \<noteq> [] \<and> list_all is_digit cs)"

definition unsigned_number :: "string \<Rightarrow> bool" where
  "unsigned_number s \<longleftrightarrow> s \<noteq> [] \<and> is_digit (hd s) \<and> frac_ok (dropWhile is_digit s)"

definition signed_number :: "string \<Rightarrow> bool" where
  "signed_number s \<longleftrightarrow> unsigned_number (if s \<noteq> [] \<and> hd s = CHR ''-'' then tl s else s)"

definition ValidNumber :: "bool \<Rightarrow> string \<Rightarrow> bool \<Rightarrow> bool \<times> bool" where
  "ValidNumber IntRegex number isSigned =
     (let IntRegex' = (if \<not> isSigned then False else IntRegex)
      in (if IntRegex' then signed_number number else unsigned_number number, IntRegex'))"

section \<open>MAC addresses: lemmas\<close>

definition canonical_mac :: "string \<Rightarrow> bool" where
  "canonical_mac m \<longleftrightarrow> length m = 12 \<and> list_all is_lower_xdigit m"

definition strip_mac :: "string \<Rightarrow> string" where
  "strip_mac s = filter (\<lambda>c. c \<noteq> CHR ''-'') (filter (\<lambda>c. c \<noteq> CHR '':'') s)"

lemma NormalizeMac_eq:
  assumes "replace_doc P" "lower_doc P"
  shows "NormalizeMac P mac =
    (if length (strip_mac mac) = 12 \<and> list_all is_xdigit (strip_mac mac)
     then (True, map to_lower (strip_mac mac)) else (False, strip_mac mac))"
  using assms by (simp add: NormalizeMac_def strip_mac_def Let_def)

lemma canonical_macE:
  assumes "canonical_mac m"
  obtains a b c d e f g h i j k l where "m = [a, b, c, d, e, f, g, h, i, j, k, l]"
    and "list_all is_lower_xdigit [a, b, c, d, e, f, g, h, i, j, k, l]"
proof -
  from assms have "length m = 12" and all: "list_all is_lower_xdigit m"
    by (simp_all add: canonical_mac_def)
  from this(1) show thesis
    by (rule length12E) (use all in \<open>auto intro: that\<close>)
qed

lemma canonical_mac_lower:
  "length m = 12 \<Longrightarrow> list_all is_xdigit m \<Longrightarrow> canonical_mac (map to_lower m)"
  by (auto simp: canonical_mac_def list_all_iff to_lower_xdigit)

lemma strip_mac_canonical: "canonical_mac m \<Longrightarrow> strip_mac m = m"
  unfolding strip_mac_def canonical_mac_def
  by (simp add: list_all_iff lower_xdigit_not_sep filter_id_on)

lemma map_to_lower_canonical: "canonical_mac m \<Longrightarrow> map to_lower m = m"
  by (auto simp: canonical_mac_def list_all_iff intro: map_id_on)

lemma list_all_xdigit_canonical: "canonical_mac m \<Longrightarrow> list_all is_xdigit m"
  by (auto simp: canonical_mac_def list_all_iff lower_xdigit_xdigit)

lemmas canonical_simps = strip_mac_canonical map_to_lower_canonical list_all_xdigit_canonical

lemma NormalizeMac_success:
  assumes "replace_doc P" "lower_doc P" "NormalizeMac P mac = (True, m)"
  shows "canonical_mac m"
  using assms by (auto simp: NormalizeMac_eq canonical_mac_lower split: if_splits)

lemma NormalizeMac_fixed:
  assumes "replace_doc P" "lower_doc P" "canonical_mac m"
  shows "NormalizeMac P m = (True, m)"
  using assms by (simp add: NormalizeMac_eq canonical_simps) (simp add: canonical_mac_def)

lemma lower_xdigit_not_nul: "is_lower_xdigit c \<Longrightarrow> c \<noteq> CHR 0x00"
  by (auto simp: ctype_defs)

lemma SerialToMAC_canonical:
  assumes "list_all is_lower_xdigit [a, b, c, d, e, f, g, h, i, j, k, l]"
  shows "SerialToMAC [a, b, c, d, e, f, g, h, i, j, k, l] =
    [a, b, CHR '':'', c, d, CHR '':'', e, f, CHR '':'', g, h, CHR '':'', i, j, CHR '':'', k, l]"
  using assms by (simp add: SerialToMAC_def lower_xdigit_not_nul)

lemma strip_SerialToMAC:
  assumes "canonical_mac m"
  shows "strip_mac (SerialToMAC m) = m"
  using assms
proof (rule canonical_macE)
  fix a b c d e f g h i j k l
  assume m: "m = [a, b, c, d, e, f, g, h, i, j, k, l]"
    and x: "list_all is_lower_xdigit [a, b, c, d, e, f, g, h, i, j, k, l]"
  then have "\<And>x. x \<in> set m \<Longrightarrow> x \<noteq> CHR '':'' \<and> x \<noteq> CHR ''-''"
    by (auto simp: list_all_iff dest: lower_xdigit_not_sep)
  then show ?thesis
    unfolding m SerialToMAC_canonical [OF x] by (simp add: strip_mac_def m)
qed

section \<open>MAC addresses: theorems\<close>

text \<open>\<^verbatim>\<open>NormalizeMac\<close> succeeds exactly on a string that has twelve hexadecimal digits once colons
  and dashes are dropped; the result is then the canonical form (twelve lower-case digits), and
  normalising it again changes nothing.\<close>

theorem NormalizeMac_canonical:
  assumes "replace_doc P" "lower_doc P"
  shows "(fst (NormalizeMac P mac) \<longleftrightarrow>
      length (strip_mac mac) = 12 \<and> list_all is_xdigit (strip_mac mac))
    \<and> (fst (NormalizeMac P mac) \<longrightarrow> canonical_mac (snd (NormalizeMac P mac))
      \<and> NormalizeMac P (snd (NormalizeMac P mac)) = NormalizeMac P mac)"
proof (intro conjI impI)
  show "fst (NormalizeMac P mac) \<longleftrightarrow>
      length (strip_mac mac) = 12 \<and> list_all is_xdigit (strip_mac mac)"
    using assms by (simp add: NormalizeMac_eq)
  assume "fst (NormalizeMac P mac)"
  then obtain m where m: "NormalizeMac P mac = (True, m)" by (cases "NormalizeMac P mac") auto
  have can: "canonical_mac m" using assms m by (rule NormalizeMac_success)
  with m show "canonical_mac (snd (NormalizeMac P mac))" by simp
  from can m show "NormalizeMac P (snd (NormalizeMac P mac)) = NormalizeMac P mac"
    using assms by (simp add: NormalizeMac_fixed)
qed

theorem NormalizeMac_canonical_witness:
  "canonical_mac (snd (NormalizeMac ref_platform ''AA-bb-CC-00-11-22''))"
  using NormalizeMac_canonical [OF ref_platform_docs(4,1), of "''AA-bb-CC-00-11-22''"]
  by (simp add: strip_mac_def ctype_defs)

text \<open>The colon-separated form \<^verbatim>\<open>SerialToMAC\<close> builds from a canonical MAC address has seventeen
  characters, is normalised back to the same address, and determines it.\<close>

theorem SerialToMAC_roundtrip:
  assumes "replace_doc P" "lower_doc P" "canonical_mac m"
  shows "NormalizeMac P (SerialToMAC m) = (True, m) \<and> length (SerialToMAC m) = 17"
proof
  have "length m = 12" using assms(3) by (simp add: canonical_mac_def)
  then show "NormalizeMac P (SerialToMAC m) = (True, m)"
    using assms by (simp add: NormalizeMac_eq strip_SerialToMAC canonical_simps)
  show "length (SerialToMAC m) = 17"
    using assms(3) by (rule canonical_macE) (simp add: SerialToMAC_canonical)
qed

theorem SerialToMAC_roundtrip_witness:
  "NormalizeMac ref_platform (SerialToMAC ''aabbcc001122'') = (True, ''aabbcc001122'')"
  using SerialToMAC_roundtrip [OF ref_platform_docs(4,1), of "''aabbcc001122''"]
  by (simp add: canonical_mac_def ctype_defs)

section \<open>Base64: lemmas\<close>

lemma masked_shift: "drop_bit k (t AND push_bit k (mask m)) = take_bit m (drop_bit k t)"
  for t :: uint32
  by (rule bit_word_eqI) (auto simp: bit_simps dest: bit_imp_le_length)

lemma b64_masks:
  fixes t :: uint32
  shows "drop_bit 18 (t AND 0x00FC0000) = take_bit 6 (drop_bit 18 t)"
    and "drop_bit 12 (t AND 0x0003F000) = take_bit 6 (drop_bit 12 t)"
    and "drop_bit 6 (t AND 0x00000FC0) = take_bit 6 (drop_bit 6 t)"
    and "t AND 0x0000003F = take_bit 6 t" and "t AND 0x000000FF = take_bit 8 t"
  using masked_shift [of 18 t 6] masked_shift [of 12 t 6] masked_shift [of 6 t 6]
    masked_shift [of 0 t 6] masked_shift [of 0 t 8]
  by (simp_all add: mask_eq_exp_minus_1 push_bit_eq_mult)

lemma byte_bit: "bit (a :: byte) n \<Longrightarrow> n < 8"
  using bit_imp_le_length [of a n] by simp

lemma concat_bytes:
  fixes a b c :: byte
  shows "push_bit 16 (ucast a) + push_bit 8 (ucast b) + ucast c
      = (push_bit 16 (ucast a) OR push_bit 8 (ucast b) OR ucast c :: uint32)"
    and "push_bit 16 (ucast a) + push_bit 8 (ucast b)
      = (push_bit 16 (ucast a) OR push_bit 8 (ucast b) :: uint32)"
proof -
  have ab: "push_bit 16 (ucast a) AND push_bit 8 (ucast b) = (0 :: uint32)"
    by (rule bit_word_eqI) (auto simp: bit_simps dest!: byte_bit)
  have abc: "(push_bit 16 (ucast a) OR push_bit 8 (ucast b)) AND ucast c = (0 :: uint32)"
    by (rule bit_word_eqI) (auto simp: bit_simps dest!: byte_bit)
  show "push_bit 16 (ucast a) + push_bit 8 (ucast b)
      = (push_bit 16 (ucast a) OR push_bit 8 (ucast b) :: uint32)"
    by (rule disjunctive_add_eq_or [OF ab])
  then show "push_bit 16 (ucast a) + push_bit 8 (ucast b) + ucast c
      = (push_bit 16 (ucast a) OR push_bit 8 (ucast b) OR ucast c :: uint32)"
    by (simp only: disjunctive_add_eq_or [OF abc] or.assoc)
qed

text \<open>\<open>quad temp t\<close> is \<^verbatim>\<open>temp\<close> after the four sextets of the low 24 bits of \<open>t\<close> are shifted in.\<close>

definition quad :: "uint32 \<Rightarrow> uint32 \<Rightarrow> uint32" where
  "quad temp t = push_bit 6 (push_bit 6 (push_bit 6 (push_bit 6 temp OR take_bit 6 (drop_bit 18 t))
     OR take_bit 6 (drop_bit 12 t)) OR take_bit 6 (drop_bit 6 t)) OR take_bit 6 t"

lemma bit_quad: "n < 24 \<Longrightarrow> bit (quad temp t) n = bit t n"
proof -
  assume "n < 24"
  then consider "n < 6" | "6 \<le> n \<and> n < 12" | "12 \<le> n \<and> n < 18" | "18 \<le> n \<and> n < 24"
    by linarith
  then show ?thesis by cases (auto simp: quad_def bit_simps)
qed

lemma byte_of_quad: "m \<le> 16 \<Longrightarrow> take_bit 8 (drop_bit m (quad temp t)) = take_bit 8 (drop_bit m t)"
  by (rule bit_word_eqI) (auto simp: bit_simps bit_quad)

lemma bytes_of_concat:
  fixes a b c :: byte
  shows "ucast (take_bit 8 (drop_bit 16 (push_bit 16 (ucast a) OR push_bit 8 (ucast b) OR ucast c :: uint32))) = a"
    and "ucast (take_bit 8 (drop_bit 8 (push_bit 16 (ucast a) OR push_bit 8 (ucast b) OR ucast c :: uint32))) = b"
    and "ucast (take_bit 8 (push_bit 16 (ucast a) OR push_bit 8 (ucast b) OR ucast c :: uint32)) = c"
  by (rule bit_word_eqI; auto simp: bit_simps dest: byte_bit)+

lemma b64_alphabet: "map b64_value kEncodeLookup = map (\<lambda>i. Some (of_nat i)) [0..<64]"
  by (simp add: kEncodeLookup_def b64_value_def upt_rec)

lemma b64_value_char: "b64_value (b64_char (take_bit 6 i)) = Some (take_bit 6 i)"
proof -
  have i: "unat (take_bit 6 i) < 64"
    using take_bit_nat_less_exp [of 6 "unat i"] by (simp only: unsigned_take_bit_eq) simp
  have "length kEncodeLookup = 64" by (simp add: kEncodeLookup_def)
  with i have "b64_value (kEncodeLookup ! unat (take_bit 6 i))
      = map b64_value kEncodeLookup ! unat (take_bit 6 i)" by simp
  also have "\<dots> = Some (take_bit 6 i)" using i by (simp add: b64_alphabet)
  finally show ?thesis by (simp add: b64_char_def)
qed

lemma b64_value_pad: "b64_value kPadCharacter = None"
  by (simp add: b64_value_def)

lemma decode_group:
  "base64decode_loop temp 0 (b64_char (take_bit 6 (drop_bit 18 t)) # b64_char (take_bit 6 (drop_bit 12 t))
     # b64_char (take_bit 6 (drop_bit 6 t)) # b64_char (take_bit 6 t) # cs) decoded
   = base64decode_loop (quad temp t) 0 cs (decoded @ [ucast (take_bit 8 (drop_bit 16 t)),
       ucast (take_bit 8 (drop_bit 8 t)), ucast (take_bit 8 t)])"
proof -
  have "base64decode_loop temp 0 (b64_char (take_bit 6 (drop_bit 18 t)) # b64_char (take_bit 6 (drop_bit 12 t))
     # b64_char (take_bit 6 (drop_bit 6 t)) # b64_char (take_bit 6 t) # cs) decoded
   = base64decode_loop (quad temp t) 0 cs (decoded @ [ucast (take_bit 8 (drop_bit 16 (quad temp t))),
       ucast (take_bit 8 (drop_bit 8 (quad temp t))), ucast (take_bit 8 (drop_bit 0 (quad temp t)))])"
    by (simp only: base64decode_loop.simps b64_value_char b64_masks Let_def option.case quad_def
        drop_bit_0 id_apply) simp
  then show ?thesis by (simp only: byte_of_quad) simp
qed

lemma decode_one:
  fixes a :: byte
  defines "t \<equiv> push_bit 16 (ucast a) :: uint32"
  shows "base64decode_loop temp 0 [b64_char (take_bit 6 (drop_bit 18 t)),
      b64_char (take_bit 6 (drop_bit 12 t)), kPadCharacter, kPadCharacter] decoded = Inr (decoded @ [a])"
proof -
  have "ucast (take_bit 8 (drop_bit 10 (push_bit 6 (push_bit 6 (push_bit 6 temp
      OR take_bit 6 (drop_bit 18 t)) OR take_bit 6 (drop_bit 12 t))))) = a"
  proof (rule bit_word_eqI)
    fix n
    assume "n < LENGTH(8)"
    then have "n < 2 \<or> (\<exists>m. n = m + 2 \<and> m < 6)" by (simp add: less_iff_Suc_add) presburger
    then show "bit (ucast (take_bit 8 (drop_bit 10 (push_bit 6 (push_bit 6 (push_bit 6 temp
      OR take_bit 6 (drop_bit 18 t)) OR take_bit 6 (drop_bit 12 t))))) :: byte) n = bit a n"
      unfolding t_def by (auto simp: bit_simps)
  qed
  then show ?thesis
    by (simp only: base64decode_loop.simps b64_value_char b64_value_pad b64_masks Let_def
        option.case) simp
qed

lemma decode_two:
  fixes a b :: byte
  defines "t \<equiv> push_bit 16 (ucast a) OR push_bit 8 (ucast b) :: uint32"
  shows "base64decode_loop temp 0 [b64_char (take_bit 6 (drop_bit 18 t)),
      b64_char (take_bit 6 (drop_bit 12 t)), b64_char (take_bit 6 (drop_bit 6 t)), kPadCharacter] decoded
    = Inr (decoded @ [a, b])"
proof -
  let ?q = "push_bit 6 (push_bit 6 (push_bit 6 (push_bit 6 temp OR take_bit 6 (drop_bit 18 t))
      OR take_bit 6 (drop_bit 12 t)) OR take_bit 6 (drop_bit 6 t))"
  have q: "bit ?q n = bit t n" if "6 \<le> n" "n < 24" for n
  proof -
    from that consider "6 \<le> n \<and> n < 12" | "12 \<le> n \<and> n < 18" | "18 \<le> n \<and> n < 24" by linarith
    then show ?thesis by cases (auto simp: bit_simps)
  qed
  have "take_bit 8 (drop_bit 16 ?q) = take_bit 8 (drop_bit 16 t)"
    and "take_bit 8 (drop_bit 8 ?q) = take_bit 8 (drop_bit 8 t)"
    by (rule bit_word_eqI, simp only: bit_take_bit_iff bit_drop_bit_eq o_apply, use q in force)+
  with bytes_of_concat(1,2) [of a b 0]
  have "ucast (take_bit 8 (drop_bit 16 ?q)) = a" "ucast (take_bit 8 (drop_bit 8 ?q)) = b"
    by (simp_all add: t_def)
  then show ?thesis
    by (simp only: base64decode_loop.simps b64_value_char b64_value_pad b64_masks Let_def
        option.case) simp
qed

lemma decode_encode_loop:
  "base64decode_loop temp 0 (base64encode bs) decoded = Inr (decoded @ bs)"
proof (induction bs arbitrary: temp decoded rule: base64encode.induct)
  case (1 a b c rest)
  show ?case
    by (simp only: base64encode.simps Let_def b64_masks concat_bytes(1) decode_group bytes_of_concat "1.IH")
      simp
next
  case (2 a)
  show ?case by (simp only: base64encode.simps Let_def b64_masks decode_one)
next
  case (3 a b)
  show ?case by (simp only: base64encode.simps Let_def b64_masks concat_bytes(2) decode_two)
next
  case 4
  show ?case by simp
qed

lemma length_base64encode: "length (base64encode bs) mod 4 = 0"
  by (induction bs rule: base64encode.induct) (auto simp: Let_def)

text \<open>Base64: decoding what \<^verbatim>\<open>base64encode\<close> produced never throws and returns the bytes.\<close>

theorem base64_roundtrip: "base64decode (base64encode bs) = Inr bs"
  by (simp add: base64decode_def length_base64encode decode_encode_loop)

section \<open>Serial numbers as integers\<close>

definition hex_nat :: "string \<Rightarrow> nat" where
  "hex_nat cs = foldl (\<lambda>n c. 16 * n + hex_val c) 0 cs"

lemma hex_nat_snoc: "hex_nat (cs @ [c]) = 16 * hex_nat cs + hex_val c"
  by (simp add: hex_nat_def)

lemma hex_val_bound: "is_lower_xdigit c \<Longrightarrow> hex_val c < 16"
  by (auto simp: hex_val_def ctype_defs Let_def)

lemma hex_nat_bound: "list_all is_lower_xdigit cs \<Longrightarrow> hex_nat cs < 16 ^ length cs"
proof (induction cs rule: rev_induct)
  case Nil
  then show ?case by (simp add: hex_nat_def)
next
  case (snoc c cs)
  then have "hex_nat cs < 16 ^ length cs" "hex_val c < 16" by (simp_all add: hex_val_bound)
  then show ?case by (simp add: hex_nat_snoc)
qed

lemma MACToInt_loop_append: "MACToInt_loop r (xs @ ys) = MACToInt_loop (MACToInt_loop r xs) ys"
  by (induction r xs rule: MACToInt_loop.induct) (simp_all add: Let_def)

lemma MACToInt_step:
  "is_lower_xdigit c \<Longrightarrow> MACToInt_loop r [c] = push_bit 4 r + of_nat (hex_val c)"
  by (auto simp: hex_val_def ctype_defs Let_def)

lemma MACToInt_hex: "list_all is_lower_xdigit cs \<Longrightarrow> MACToInt cs = of_nat (hex_nat cs)"
proof (induction cs rule: rev_induct)
  case Nil
  then show ?case by (simp add: MACToInt_def hex_nat_def)
next
  case (snoc c cs)
  then show ?case
    by (simp add: MACToInt_def MACToInt_loop_append MACToInt_step hex_nat_snoc push_bit_eq_mult
        del: MACToInt_loop.simps)
qed

lemma nibble_char_hex: "is_lower_xdigit c \<Longrightarrow> nibble_char (of_nat (hex_val c)) = c"
proof -
  assume c: "is_lower_xdigit c"
  then have "unat (of_nat (hex_val c) :: uint64) = hex_val c"
    using hex_val_bound [OF c] by (simp add: unat_of_nat)
  with c show ?thesis by (auto simp: nibble_char_def hex_val_def ctype_defs Let_def)
qed

lemma nibble_split:
  fixes w :: uint64
  assumes "h < 16" "n < 2 ^ 60"
  shows "drop_bit 4 (of_nat (16 * n + h) :: uint64) = of_nat n"
    and "(of_nat (16 * n + h) :: uint64) AND 0x0f = of_nat h"
proof -
  from assms have u: "unat (of_nat (16 * n + h) :: uint64) = 16 * n + h"
    by (simp only: unat_of_nat) simp
  have "unat (drop_bit 4 (of_nat (16 * n + h) :: uint64)) = n"
    using assms by (simp only: unat_drop_bit_eq u) (simp add: drop_bit_eq_div)
  then show "drop_bit 4 (of_nat (16 * n + h) :: uint64) = of_nat n"
    using assms by (simp only: word_unat_eq_iff unat_of_nat) simp
  have m: "(0x0f :: uint64) = mask 4" by (simp add: mask_eq_exp_minus_1)
  have "unat ((of_nat (16 * n + h) :: uint64) AND 0x0f) = h"
    using assms by (simp only: m take_bit_eq_mask [symmetric] unsigned_take_bit_eq u)
      (simp add: take_bit_eq_mod)
  then show "(of_nat (16 * n + h) :: uint64) AND 0x0f = of_nat h"
    using assms by (simp only: word_unat_eq_iff unat_of_nat) simp
qed

lemma IntToSerialNumber_loop_hex:
  "list_all is_lower_xdigit cs \<Longrightarrow> length cs \<le> 15 \<Longrightarrow>
   IntToSerialNumber_loop (length cs) (of_nat (hex_nat cs)) b = cs @ b"
proof (induction cs arbitrary: b rule: rev_induct)
  case Nil
  then show ?case by simp
next
  case (snoc c cs)
  then have c: "is_lower_xdigit c" and cs: "list_all is_lower_xdigit cs" by simp_all
  have "(16::nat) ^ length cs \<le> 16 ^ 15" using snoc.prems by (intro power_increasing) auto
  with hex_nat_bound [OF cs] have n: "hex_nat cs < 2 ^ 60" by simp
  show ?case
    using snoc nibble_split [OF hex_val_bound [OF c] n]
    by (simp only: hex_nat_snoc length_append_singleton IntToSerialNumber_loop.simps)
      (simp add: nibble_char_hex)
qed

text \<open>A canonical MAC address is recovered from the integer it denotes:
  \<^verbatim>\<open>IntToSerialNumber(MACToInt(m))\<close> is \<open>m\<close>, so distinct addresses have distinct integers.\<close>

theorem IntToSerialNumber_MACToInt:
  assumes "canonical_mac m"
  shows "IntToSerialNumber (MACToInt m) = m"
  using assms IntToSerialNumber_loop_hex [of m "[]"]
  by (simp add: canonical_mac_def IntToSerialNumber_def MACToInt_hex)

theorem IntToSerialNumber_MACToInt_witness:
  "IntToSerialNumber (MACToInt ''90ef12ab34cd'') = ''90ef12ab34cd''"
  by (rule IntToSerialNumber_MACToInt) (simp add: canonical_mac_def ctype_defs)

section \<open>Splitting: theorems\<close>

lemma Split_simps:
  "Split [] d = []"
  "d \<notin> set l \<Longrightarrow> l \<noteq> [] \<Longrightarrow> Split l d = [l]"
  "d \<notin> set a \<Longrightarrow> Split (a @ d # b) d = a # Split b d"
  by (subst Split.simps, simp add: takeWhile_append)+ 

text \<open>\<^verbatim>\<open>Split\<close> returns the maximal delimiter-free pieces: no piece holds the delimiter, and joining
  the pieces with it gives the list back, up to one delimiter at the very end.\<close>

theorem Split_join:
  "list_all (\<lambda>t. d \<notin> set t) (Split l d)
   \<and> (let j = concat (map (\<lambda>t. t @ [d]) (Split l d)) in l = j \<or> l @ [d] = j)"
proof (induction l d rule: Split.induct)
  case (1 l d)
  show ?case
  proof (cases "l = [] \<or> d \<notin> set l")
    case True
    then show ?thesis by (cases "l = []") (auto simp: Split_simps Let_def)
  next
    case False
    then obtain a b where l: "l = a @ d # b" and a: "d \<notin> set a"
      by (metis split_list_first)
    then have dw: "tl (dropWhile (\<lambda>c. c \<noteq> d) l) = b" by (simp add: dropWhile_append)
    from "1.IH" False dw have "list_all (\<lambda>t. d \<notin> set t) (Split b d)
        \<and> (let j = concat (map (\<lambda>t. t @ [d]) (Split b d)) in b = j \<or> b @ [d] = j)" by simp
    then show ?thesis using a by (auto simp: l Split_simps Let_def)
  qed
qed

text \<open>The form of a token that is logged shows at most its first and last four characters: two
  tokens of more than eight characters that agree there are logged alike, and a shorter one is
  not shown at all.\<close>

theorem SanitizeToken_hides:
  assumes "length a = 4" "length b = 4" "length s \<le> 8"
  shows "SanitizeToken (a @ x # m @ b) = SanitizeToken (a @ y # m' @ b)
    \<and> SanitizeToken s = ''*******''"
  using assms by (simp add: SanitizeToken_def)

theorem SanitizeToken_hides_witness:
  "SanitizeToken (''abcd'' @ CHR ''1'' # ''234'' @ ''wxyz'') = SanitizeToken (''abcd'' @ CHR ''9'' # '''' @ ''wxyz'')"
  using SanitizeToken_hides [of "''abcd''" "''wxyz''" "[]" "CHR ''1''" "''234''" "CHR ''9''" "[]"]
  by simp

section \<open>Comparison and validation: theorems\<close>

text \<open>\<^verbatim>\<open>CompareTime\<close> is meant to decide "time 1 is not after time 2", but its second test on the
  minutes repeats the first one: besides the times in lexicographic order it accepts exactly those
  with the same hour, a later minute and seconds not after.\<close>

theorem CompareTime_exact:
  "CompareTime H1 H2 M1 M2 S1 S2 \<longleftrightarrow>
     (H1 < H2 \<or> H1 = H2 \<and> (M1 < M2 \<or> M1 = M2 \<and> S1 \<le> S2))
     \<or> (H1 = H2 \<and> M1 > M2 \<and> S1 \<le> S2)"
  by (auto simp: CompareTime_def)

fun ValidNumber_calls :: "bool \<Rightarrow> (string \<times> bool) list \<Rightarrow> bool" where
  "ValidNumber_calls r [] = r"
| "ValidNumber_calls r ((n, sg) # cs) = ValidNumber_calls (snd (ValidNumber r n sg)) cs"

lemma ValidNumber_calls_state: "ValidNumber_calls r cs \<longleftrightarrow> r \<and> (\<forall>c \<in> set cs. snd c)"
  by (induction r cs rule: ValidNumber_calls.induct) (auto simp: ValidNumber_def Let_def)

lemma unsigned_minus: "\<not> unsigned_number (CHR ''-'' # n)"
  by (simp add: unsigned_number_def ctype_defs)

text \<open>\<^verbatim>\<open>ValidNumber\<close> overwrites its \<^verbatim>\<open>static\<close> regular expression on the first unsigned call, and never
  restores it: from then on every negative number is refused, whatever \<open>isSigned\<close> says, while
  before it a signed call accepts the number.\<close>

theorem ValidNumber_sticky:
  assumes "unsigned_number n"
  shows "fst (ValidNumber (ValidNumber_calls True cs) (CHR ''-'' # n) True) \<longleftrightarrow> (\<forall>c \<in> set cs. snd c)"
  using assms
  by (simp add: ValidNumber_def ValidNumber_calls_state unsigned_minus signed_number_def)

theorem ValidNumber_sticky_witness:
  "\<not> fst (ValidNumber (ValidNumber_calls True [(''7'', False)]) (CHR ''-'' # ''12'') True)"
  using ValidNumber_sticky [of "''12''" "[(''7'', False)]"]
  by (simp add: unsigned_number_def ctype_defs)

end
