(* ===== verification/ParentalHandlers.thy ===== *)
theory ParentalHandlers
  imports ConfigRaw Utils
begin

text \<open>
  The request handlers of the parental-control resources: groups, devices and schedules of a group,
  schedules and the groups of a schedule (\<^verbatim>\<open>src/RESTAPI/RESTAPI_group*\<close>, \<^verbatim>\<open>RESTAPI_schedule*\<close>).  Each
  handler is a definition with the guards, calls and responses of the code in order.  The properties
  say that a handler answers exactly once, that it acts for its own subscriber only, and what it
  forwards.
\<close>

section \<open>Shared guards\<close>

text \<open>A path binding that has to be a UUID.\<close>

definition uuid_binding :: "platform \<Rightarrow> handler \<Rightarrow> string \<Rightarrow> string option io" where
  "uuid_binding P H name = (let v = GetBinding P H name [] in
     if v = [] then fail_with (BadRequest H Errors_MissingUUID [])
     else if \<not> ValidUUID v then fail_with (BadRequest H Errors_UnknownId [])
     else ret (Some v))"

definition mac_binding :: "platform \<Rightarrow> handler \<Rightarrow> string option io" where
  "mac_binding P H = (let v = GetBinding P H ''client_mac'' [] in
     if v = [] \<or> \<not> fst (NormalizeMac P v) then reject H ''client_mac is missing or invalid''
     else ret (Some (SerialToMAC (snd (NormalizeMac P v)))))"

definition parsed_body :: "handler \<Rightarrow> jobj option io" where
  "parsed_body H = (case h_body H of None \<Rightarrow> fail_with (BadRequest H Errors_InvalidJSONDocument [])
     | Some body \<Rightarrow> ret (Some body))"

text \<open>Bodies with other members than the listed ones are rejected.\<close>

definition known_fields :: "handler \<Rightarrow> string list \<Rightarrow> jobj \<Rightarrow> unit option io" where
  "known_fields H allowed body = (case find (\<lambda>n. n \<notin> set allowed) (getNames body) of
     Some name \<Rightarrow> reject H (''Unknown field: '' @ name) | None \<Rightarrow> ret (Some ()))"

definition require_subscriber :: "handler \<Rightarrow> unit option io" where
  "require_subscriber H = (if h_id H = [] then fail_with (UnAuthorized H Errors_InvalidSubscriberId)
     else ret (Some ()))"

text \<open>The name and description of a group, trimmed; the same code in PUT and POST.\<close>

definition group_body :: "platform \<Rightarrow> handler \<Rightarrow> jobj \<Rightarrow> jobj option io" where
  "group_body P H body = guard_step (known_fields H [''name'', ''description''] body) (\<lambda>_.
     (case getString body ''name'' of None \<Rightarrow> reject H ''name is required''
      | Some n \<Rightarrow>
          if po_trim P n = [] then reject H ''name must be non-empty''
          else let b = set_key ''name'' (JString (po_trim P n)) [] in
            if has body ''description'' then
              if isNull body ''description'' then ret (Some (set_key ''description'' JNull b))
              else (case getString body ''description'' of
                 None \<Rightarrow> reject H ''description must be a string or null''
               | Some d \<Rightarrow> ret (Some (set_key ''description'' (JString (po_trim P d)) b)))
            else ret (Some b)))"

text \<open>
  What follows a call that returns an object, and one that returns an array; \<open>on_null\<close> is what the
  handler does with a null array: an explicit check, or the exception of the dereference.
\<close>

definition answer_object :: "platform \<Rightarrow> handler \<Rightarrow> bool \<times> int \<times> jobj ptr \<Rightarrow> unit io" where
  "answer_object P H r = (case r of (okv, callStatus, callResponse) \<Rightarrow>
     if okv then deref (null_pointer H) callResponse ReturnObject
     else ForwardParentalControlErrorResponse P callStatus callResponse)"

definition answer_array :: "platform \<Rightarrow> unit io \<Rightarrow> bool \<times> int \<times> json list ptr \<times> jobj ptr \<Rightarrow> unit io" where
  "answer_array P on_null r = (case r of (okv, callStatus, arrayResponse, errorResponse) \<Rightarrow>
     if okv then deref on_null arrayResponse (\<lambda>arr. ReturnRawJSON (JArray arr))
     else ForwardParentalControlErrorResponse P callStatus errorResponse)"

definition mutated :: "bool \<times> int \<times> jobj ptr \<Rightarrow> MutationCallResult" where
  "mutated r = (case r of (okv, status, resp) \<Rightarrow> \<lparr>mu_success = okv, mu_status = status, mu_response = resp\<rparr>)"

section \<open>Groups\<close>

definition groups_DoGet :: "platform \<Rightarrow> handler \<Rightarrow> unit io" where
  "groups_DoGet P H = guard (require_subscriber H) (\<lambda>_. guard (uuid_binding P H ''group_id'') (\<lambda>groupId. do {
     r \<leftarrow> GetGroup P (h_id H) groupId;
     answer_object P H r
   }))"

definition groups_DoPut :: "platform \<Rightarrow> handler \<Rightarrow> unit io" where
  "groups_DoPut P H = guard (ValidateAuthPreconditions H (h_id H) (h_owner H) False) (\<lambda>_.
     guard (uuid_binding P H ''group_id'') (\<lambda>groupId. guard (parsed_body H) (\<lambda>parsed.
     guard (group_body P H parsed) (\<lambda>body. do {
       r \<leftarrow> UpdateGroup P (h_id H) groupId body;
       answer_object P H r
     }))))"

definition groups_DoDelete :: "platform \<Rightarrow> handler \<Rightarrow> unit io" where
  "groups_DoDelete P H = guard (ValidateAuthPreconditions H (h_id H) (h_owner H) False) (\<lambda>_.
     guard (uuid_binding P H ''group_id'') (\<lambda>groupId. do {
       r \<leftarrow> DeleteGroup P (h_id H) groupId;
       HandleParentalControlMutationResult P H (mutated r) (h_id H) (h_owner H) False Success_Ok []
     }))"

definition groups_list_DoGet :: "platform \<Rightarrow> handler \<Rightarrow> unit io" where
  "groups_list_DoGet P H = guard (require_subscriber H) (\<lambda>_. do {
     r \<leftarrow> GetGroups P (h_id H);
     answer_array P (null_pointer H) r
   })"

definition groups_list_DoPost :: "platform \<Rightarrow> handler \<Rightarrow> unit io" where
  "groups_list_DoPost P H = guard (require_subscriber H) (\<lambda>_. guard (parsed_body H) (\<lambda>parsed.
     guard (group_body P H parsed) (\<lambda>body. do {
       r \<leftarrow> CreateGroup P (h_id H) body;
       answer_object P H r
     })))"

section \<open>Devices of a group\<close>

definition group_devices_DoGet :: "platform \<Rightarrow> handler \<Rightarrow> unit io" where
  "group_devices_DoGet P H = guard (require_subscriber H) (\<lambda>_. guard (uuid_binding P H ''group_id'') (\<lambda>groupId.
     guard (mac_binding P H) (\<lambda>mac. do {
       r \<leftarrow> GetGroupDevice P (h_id H) groupId mac;
       answer_object P H r
     })))"

definition group_devices_DoDelete :: "platform \<Rightarrow> handler \<Rightarrow> unit io" where
  "group_devices_DoDelete P H = guard (ValidateAuthPreconditions H (h_id H) (h_owner H) True) (\<lambda>_.
     guard (uuid_binding P H ''group_id'') (\<lambda>groupId. guard (mac_binding P H) (\<lambda>mac. do {
       r \<leftarrow> DeleteGroupDevice P (h_id H) groupId mac;
       HandleParentalControlMutationResult P H (mutated r) (h_id H) (h_owner H) True Success_Ok []
     })))"

definition group_devices_list_DoGet :: "platform \<Rightarrow> handler \<Rightarrow> unit io" where
  "group_devices_list_DoGet P H = guard (require_subscriber H) (\<lambda>_. guard (uuid_binding P H ''group_id'') (\<lambda>groupId. do {
     r \<leftarrow> GetGroupDevices P (h_id H) groupId;
     answer_array P (InternalError H Errors_InternalError) r
   }))"

definition client_mac_body :: "platform \<Rightarrow> handler \<Rightarrow> jobj \<Rightarrow> jobj option io" where
  "client_mac_body P H parsed = guard_step (known_fields H [''client_mac''] parsed) (\<lambda>_.
     (case getString parsed ''client_mac'' of
        None \<Rightarrow> reject H ''client_mac is required and must be a string''
      | Some mac \<Rightarrow> (case NormalizeMac P mac of (okv, m) \<Rightarrow>
          if \<not> okv then reject H ''client_mac is not a valid MAC address''
          else ret (Some (set_key ''client_mac'' (JString (SerialToMAC m)) [])))))"

definition group_devices_list_DoPost :: "platform \<Rightarrow> handler \<Rightarrow> unit io" where
  "group_devices_list_DoPost P H = guard (ValidateAuthPreconditions H (h_id H) (h_owner H) True) (\<lambda>_.
     guard (uuid_binding P H ''group_id'') (\<lambda>groupId. guard (parsed_body H) (\<lambda>parsed.
     guard (client_mac_body P H parsed) (\<lambda>body. do {
       r \<leftarrow> CreateGroupDevice P (h_id H) groupId body;
       HandleParentalControlMutationResult P H (mutated r) (h_id H) (h_owner H) True
         Success_ReturnObjectWithoutConfigRaw []
     }))))"

text \<open>The loop of the second version: every element normalised, duplicates dropped.\<close>

fun collect_macs :: "platform \<Rightarrow> handler \<Rightarrow> json list \<Rightarrow> string list \<Rightarrow> string list option io" where
  "collect_macs P H [] acc = ret (Some acc)"
| "collect_macs P H (JString rawMac # xs) acc = (case NormalizeMac P rawMac of (okv, m) \<Rightarrow>
     if \<not> okv then reject H (''Invalid MAC address: '' @ m)
     else collect_macs P H xs (if SerialToMAC m \<in> set acc then acc else acc @ [SerialToMAC m]))"
| "collect_macs P H (_ # xs) acc = reject H ''Each element in client_macs must be a string''"

definition client_macs_body :: "platform \<Rightarrow> handler \<Rightarrow> jobj \<Rightarrow> jobj option io" where
  "client_macs_body P H parsed = guard_step (known_fields H [''client_macs''] parsed) (\<lambda>_.
     (case getArray parsed ''client_macs'' of
        None \<Rightarrow> reject H ''client_macs is required and must be an array''
      | Some macs \<Rightarrow>
          if macs = [] then reject H ''client_macs must contain at least one MAC address''
          else if length macs > 100 then reject H ''client_macs must not exceed 100 MAC addresses''
          else guard_step (collect_macs P H macs []) (\<lambda>ms.
            ret (Some (set_key ''client_macs'' (JArray (map JString ms)) [])))))"

definition group_devices_list_v2_DoPost :: "platform \<Rightarrow> handler \<Rightarrow> unit io" where
  "group_devices_list_v2_DoPost P H = guard (ValidateAuthPreconditions H (h_id H) (h_owner H) True) (\<lambda>_.
     guard (uuid_binding P H ''group_id'') (\<lambda>groupId. guard (parsed_body H) (\<lambda>parsed.
     guard (client_macs_body P H parsed) (\<lambda>body. do {
       r \<leftarrow> CreateGroupDevicesV2 P (h_id H) groupId body;
       HandleParentalControlMutationResult P H (mutated r) (h_id H) (h_owner H) True
         Success_ReturnObjectWithoutConfigRaw []
     }))))"

section \<open>Schedules of a group\<close>

definition group_schedules_DoGet :: "platform \<Rightarrow> handler \<Rightarrow> unit io" where
  "group_schedules_DoGet P H = guard (require_subscriber H) (\<lambda>_. guard (uuid_binding P H ''group_id'') (\<lambda>groupId.
     guard (uuid_binding P H ''schedule_id'') (\<lambda>scheduleId. do {
       r \<leftarrow> GetGroupSchedule P (h_id H) groupId scheduleId;
       answer_object P H r
     })))"

definition group_schedules_DoDelete :: "platform \<Rightarrow> handler \<Rightarrow> unit io" where
  "group_schedules_DoDelete P H = guard (ValidateAuthPreconditions H (h_id H) (h_owner H) True) (\<lambda>_.
     guard (uuid_binding P H ''group_id'') (\<lambda>groupId. guard (uuid_binding P H ''schedule_id'') (\<lambda>scheduleId. do {
       r \<leftarrow> DeleteGroupSchedule P (h_id H) groupId scheduleId;
       HandleParentalControlMutationResult P H (mutated r) (h_id H) (h_owner H) True Success_Ok []
     })))"

text \<open>Every schedule of an array is normalised in place; one that is not fails the request.\<close>

fun normalize_all :: "platform \<Rightarrow> json list \<Rightarrow> string \<Rightarrow> json list option io" where
  "normalize_all P [] tz = ret (Some [])"
| "normalize_all P (JObject ob # xs) tz = do {
     n \<leftarrow> NormalizeScheduleResponse P (Some ob) tz;
     (case n of None \<Rightarrow> ret None
      | Some ob' \<Rightarrow> do {
          r \<leftarrow> normalize_all P xs tz;
          ret (map_option (\<lambda>ys. JObject ob' # ys) r)
        })
   }"
| "normalize_all P (_ # xs) tz = ret None"

definition answer_schedules :: "platform \<Rightarrow> handler \<Rightarrow> unit io \<Rightarrow> string \<Rightarrow> bool \<times> int \<times> json list ptr \<times> jobj ptr \<Rightarrow> unit io" where
  "answer_schedules P H on_null tz r = (case r of (okv, callStatus, arrayResponse, errorResponse) \<Rightarrow>
     if \<not> okv then ForwardParentalControlErrorResponse P callStatus errorResponse
     else deref on_null arrayResponse (\<lambda>arr. do {
       n \<leftarrow> normalize_all P arr tz;
       (case n of None \<Rightarrow> InternalError H Errors_InternalError | Some ys \<Rightarrow> ReturnRawJSON (JArray ys))
     }))"

definition group_schedules_list_DoGet :: "platform \<Rightarrow> handler \<Rightarrow> unit io" where
  "group_schedules_list_DoGet P H = guard (require_subscriber H) (\<lambda>_. guard (uuid_binding P H ''group_id'') (\<lambda>groupId.
     guard (ResolveSubscriberTimezone P H (h_id H)) (\<lambda>tz. do {
       r \<leftarrow> GetGroupSchedules P (h_id H) groupId;
       answer_schedules P H (InternalError H Errors_InternalError) tz r
     })))"

definition schedule_id_body :: "handler \<Rightarrow> jobj \<Rightarrow> unit option io" where
  "schedule_id_body H parsed = guard_step (known_fields H [''schedule_id''] parsed) (\<lambda>_.
     (case getString parsed ''schedule_id'' of
        None \<Rightarrow> reject H ''schedule_id is required and must be a string''
      | Some i \<Rightarrow> if \<not> ValidUUID i then reject H ''schedule_id is not a valid UUID'' else ret (Some ())))"

definition group_schedules_list_DoPost :: "platform \<Rightarrow> handler \<Rightarrow> unit io" where
  "group_schedules_list_DoPost P H = guard (ValidateAuthPreconditions H (h_id H) (h_owner H) True) (\<lambda>_.
     guard (uuid_binding P H ''group_id'') (\<lambda>groupId. guard (parsed_body H) (\<lambda>parsed.
     guard (schedule_id_body H parsed) (\<lambda>_. do {
       r \<leftarrow> CreateGroupSchedule P (h_id H) groupId parsed;
       HandleParentalControlMutationResult P H (mutated r) (h_id H) (h_owner H) True
         Success_ReturnObjectWithoutConfigRaw []
     }))))"

fun unique_ids :: "handler \<Rightarrow> json list \<Rightarrow> string list \<Rightarrow> unit option io" where
  "unique_ids H [] seen = ret (Some ())"
| "unique_ids H (JString i # xs) seen =
     (if \<not> ValidUUID i then reject H ''invalid UUID in schedule_ids''
      else if i \<in> set seen then reject H ''duplicate UUID in schedule_ids''
      else unique_ids H xs (i # seen))"
| "unique_ids H (_ # xs) seen = reject H ''schedule_ids entries must be strings''"

definition schedule_ids_body :: "handler \<Rightarrow> jobj \<Rightarrow> unit option io" where
  "schedule_ids_body H parsed = guard_step (known_fields H [''schedule_ids''] parsed) (\<lambda>_.
     (case getArray parsed ''schedule_ids'' of
        None \<Rightarrow> reject H ''schedule_ids is required and must be an array''
      | Some xs \<Rightarrow> unique_ids H xs []))"

definition group_schedules_list_DoPut :: "platform \<Rightarrow> handler \<Rightarrow> unit io" where
  "group_schedules_list_DoPut P H = guard (ValidateAuthPreconditions H (h_id H) (h_owner H) True) (\<lambda>_.
     guard (uuid_binding P H ''group_id'') (\<lambda>groupId. guard (parsed_body H) (\<lambda>parsed.
     guard (schedule_ids_body H parsed) (\<lambda>_. do {
       r \<leftarrow> ReplaceGroupSchedules P (h_id H) groupId parsed;
       HandleParentalControlMutationResult P H (mutated r) (h_id H) (h_owner H) True
         Success_ReturnObjectWithoutConfigRaw []
     }))))"

section \<open>Schedules\<close>

definition answer_schedule :: "platform \<Rightarrow> handler \<Rightarrow> string \<Rightarrow> bool \<times> int \<times> jobj ptr \<Rightarrow> unit io" where
  "answer_schedule P H tz r = (case r of (okv, callStatus, callResponse) \<Rightarrow>
     if \<not> okv then ForwardParentalControlErrorResponse P callStatus callResponse
     else do {
       n \<leftarrow> NormalizeScheduleResponse P callResponse tz;
       (case n of None \<Rightarrow> InternalError H Errors_InternalError | Some ob \<Rightarrow> ReturnObject ob)
     })"

definition to_utc_or_fail :: "platform \<Rightarrow> handler \<Rightarrow> string \<Rightarrow> ParsedScheduleRequest \<Rightarrow> ParsedScheduleRequest option io" where
  "to_utc_or_fail P H tz req = do {
     c \<leftarrow> ConvertScheduleTimesToUtc P tz req;
     (case c of None \<Rightarrow> fail_with (InternalError H Errors_InternalError) | Some req' \<Rightarrow> ret (Some req'))
   }"

definition schedules_DoGet :: "platform \<Rightarrow> handler \<Rightarrow> unit io" where
  "schedules_DoGet P H = guard (require_subscriber H) (\<lambda>_. guard (uuid_binding P H ''schedule_id'') (\<lambda>scheduleId.
     guard (ResolveSubscriberTimezone P H (h_id H)) (\<lambda>tz. do {
       r \<leftarrow> GetSchedule P (h_id H) scheduleId;
       answer_schedule P H tz r
     })))"

definition schedules_DoPut :: "platform \<Rightarrow> handler \<Rightarrow> unit io" where
  "schedules_DoPut P H = guard (ValidateAuthPreconditions H (h_id H) (h_owner H) False) (\<lambda>_.
     guard (uuid_binding P H ''schedule_id'') (\<lambda>scheduleId. guard (parsed_body H) (\<lambda>parsed.
     guard (ParseAndValidateScheduleRequest P H parsed True) (\<lambda>req.
     guard (ResolveSubscriberTimezone P H (h_id H)) (\<lambda>tz. guard (to_utc_or_fail P H tz req) (\<lambda>req'. do {
       r \<leftarrow> UpdateSchedule P (h_id H) scheduleId (BuildScheduleRequestBody req');
       HandleParentalControlMutationResult P H (mutated r) (h_id H) (h_owner H) False
         Success_ReturnNormalizedScheduleObject tz
     }))))))"

definition schedules_DoDelete :: "platform \<Rightarrow> handler \<Rightarrow> unit io" where
  "schedules_DoDelete P H = guard (ValidateAuthPreconditions H (h_id H) (h_owner H) False) (\<lambda>_.
     guard (uuid_binding P H ''schedule_id'') (\<lambda>scheduleId. do {
       r \<leftarrow> DeleteSchedule P (h_id H) scheduleId;
       HandleParentalControlMutationResult P H (mutated r) (h_id H) (h_owner H) False Success_Ok []
     }))"

definition schedules_list_DoGet :: "platform \<Rightarrow> handler \<Rightarrow> unit io" where
  "schedules_list_DoGet P H = guard (require_subscriber H) (\<lambda>_.
     guard (ResolveSubscriberTimezone P H (h_id H)) (\<lambda>tz. do {
       r \<leftarrow> GetSchedules P (h_id H);
       answer_schedules P H (null_pointer H) tz r
     }))"

definition schedules_list_DoPost :: "platform \<Rightarrow> handler \<Rightarrow> unit io" where
  "schedules_list_DoPost P H = guard (require_subscriber H) (\<lambda>_. guard (parsed_body H) (\<lambda>parsed.
     guard (ParseAndValidateScheduleRequest P H parsed False) (\<lambda>req.
     guard (ResolveSubscriberTimezone P H (h_id H)) (\<lambda>tz. guard (to_utc_or_fail P H tz req) (\<lambda>req'. do {
       r \<leftarrow> CreateSchedule P (h_id H) (BuildScheduleRequestBody req');
       answer_schedule P H tz r
     })))))"

definition schedule_groups_list_DoGet :: "platform \<Rightarrow> handler \<Rightarrow> unit io" where
  "schedule_groups_list_DoGet P H = guard (require_subscriber H) (\<lambda>_. guard (uuid_binding P H ''schedule_id'') (\<lambda>scheduleId. do {
     r \<leftarrow> GetScheduleGroups P (h_id H) scheduleId;
     answer_array P (InternalError H Errors_InternalError) r
   }))"

lemmas handler_defs = groups_DoGet_def groups_DoPut_def groups_DoDelete_def groups_list_DoGet_def
  groups_list_DoPost_def group_devices_DoGet_def group_devices_DoDelete_def
  group_devices_list_DoGet_def group_devices_list_DoPost_def group_devices_list_v2_DoPost_def
  group_schedules_DoGet_def group_schedules_DoDelete_def group_schedules_list_DoGet_def
  group_schedules_list_DoPost_def group_schedules_list_DoPut_def schedules_DoGet_def
  schedules_DoPut_def schedules_DoDelete_def schedules_list_DoGet_def schedules_list_DoPost_def
  schedule_groups_list_DoGet_def

text \<open>All handlers of the parental-control resources.\<close>

definition parental_handlers :: "(platform \<Rightarrow> handler \<Rightarrow> unit io) list" where
  "parental_handlers = [groups_DoGet, groups_DoPut, groups_DoDelete, groups_list_DoGet, groups_list_DoPost,
     group_devices_DoGet, group_devices_DoDelete, group_devices_list_DoGet, group_devices_list_DoPost,
     group_devices_list_v2_DoPost, group_schedules_DoGet, group_schedules_DoDelete,
     group_schedules_list_DoGet, group_schedules_list_DoPost, group_schedules_list_DoPut,
     schedules_DoGet, schedules_DoPut, schedules_DoDelete, schedules_list_DoGet, schedules_list_DoPost,
     schedule_groups_list_DoGet]"

section \<open>Responses\<close>

lemma replies_guards [replies_intros]:
  "answers_fail (uuid_binding P H n)" "answers_fail (mac_binding P H)" "answers_fail (parsed_body H)"
  "answers_fail (known_fields H fs b)" "answers_fail (require_subscriber H)"
  unfolding uuid_binding_def mac_binding_def parsed_body_def known_fields_def require_subscriber_def Let_def
  by (intro replies_intros)+

lemma replies_group_body [replies_intros]: "answers_fail (group_body P H b)"
  unfolding group_body_def Let_def by (intro replies_intros)

lemma replies_collect [replies_intros]: "answers_fail (collect_macs P H xs acc)"
  by (induction P H xs acc rule: collect_macs.induct)
    (auto intro!: replies_intros split: prod.splits)

lemma replies_unique [replies_intros]: "answers_fail (unique_ids H xs seen)"
  by (induction H xs seen rule: unique_ids.induct) (auto intro!: replies_intros)

lemma replies_bodies [replies_intros]:
  "answers_fail (client_mac_body P H b)" "answers_fail (client_macs_body P H b)"
  "answers_fail (schedule_id_body H b)" "answers_fail (schedule_ids_body H b)"
  "answers_fail (to_utc_or_fail P H tz req)"
  unfolding client_mac_body_def client_macs_body_def schedule_id_body_def schedule_ids_body_def
    to_utc_or_fail_def by (intro replies_intros)+

lemma silent_normalize_all [replies_intros]: "silent (normalize_all P xs tz)"
  by (induction P xs tz rule: normalize_all.induct) (auto intro!: replies_intros)

lemma replies_answers [replies_intros]:
  "answers_once (answer_object P H r)" "answers_once n \<Longrightarrow> answers_once (answer_array P n r')"
  "answers_once n \<Longrightarrow> answers_once (answer_schedules P H n tz r')" "answers_once (answer_schedule P H tz r)"
  unfolding answer_object_def answer_array_def answer_schedules_def answer_schedule_def
  by (intro replies_intros; assumption?)+

lemma parental_once: "DoX \<in> set parental_handlers \<Longrightarrow> answers_once (DoX P H)"
proof -
  have "list_all (\<lambda>DoX. answers_once (DoX P H)) parental_handlers"
    unfolding parental_handlers_def list.pred_inject handler_defs
    by (intro conjI TrueI list.pred_inject(1) replies_intros)
  then show "DoX \<in> set parental_handlers \<Longrightarrow> answers_once (DoX P H)" by (simp add: list_all_iff)
qed

text \<open>
  Every handler of the parental-control resources sends exactly one response, whatever the
  request, the other services and the clock do.
\<close>

theorem parental_handlers_answer_once:
  "list_all (\<lambda>DoX. answers_once (DoX P H)) parental_handlers"
  unfolding list_all_iff by (blast intro: parental_once)

section \<open>Calls\<close>

text \<open>
  The calls a handler may make for its subscriber: the parental-control service under the
  subscriber's path; the venues, the location and the devices of the subscriber in the provisioning
  service; and the configuration of a device, with the credentials of the client.
\<close>

definition own_call :: "handler \<Rightarrow> api_call \<Rightarrow> bool" where
  "own_call H c \<longleftrightarrow> in_scope (h_id H) c
     \<or> c_type c = uSERVICE_PROVISIONING \<and> c_verb c = ''GET'' \<and>
         (c_path c = ''/api/v1/venue'' \<and> c_query c = [(''subscriberId'', h_id H)]
          \<or> prefix ''/api/v1/location/'' (c_path c)
          \<or> c_path c = ''/api/v1/subscriberDevice'' \<and>
            c_query c = [(''subscriberId'', h_id H), (''operatorId'', h_owner H)])
     \<or> c_type c = uSERVICE_GATEWAY \<and> prefix ''/api/v1/device/'' (c_path c) \<and>
         (h_token H \<noteq> [] \<longrightarrow> c_headers c = [(''Authorization'', ''Bearer '' @ h_token H)])"

lemma own_in_scope: "in_scope (h_id H) c \<Longrightarrow> own_call H c"
  by (simp add: own_call_def)

lemma own_Resolve [emits_intros]: "emits (own_call H) (ResolveSubscriberTimezone P H (h_id H))"
  unfolding ResolveSubscriberTimezone_def Prov_Venue_GetVenues_def Prov_Location_Get_def OpenAPIRequestGet_def
  by (intro emits_intros emits_transmit) (simp_all add: own_call_def client_token_def)

lemma own_Apply [emits_intros]: "emits (own_call H) (ApplyConfigRaw P H (h_id H) (h_owner H) raw g)"
  unfolding ApplyConfigRaw_def apply_to_gateway_def GetConfig_def Configure_def Let_def
    Prov_Subscriber_GetDevices_def OpenAPIRequestGet_def OpenAPIRequestPost_def
  by (intro emits_intros emits_transmit) (simp_all add: own_call_def client_token_def auth_headers_def)

lemma emits_HandleApply [emits_intros]: "emits C (HandleApplyConfigRawResult H r)"
  unfolding HandleApplyConfigRawResult_def
  by (cases r) (simp_all only: ApplyConfigRawResult.case, (intro emits_intros)+)

lemma emits_Forward [emits_intros]: "emits C (ForwardParentalControlErrorResponse P s r)"
  unfolding ForwardParentalControlErrorResponse_def by (intro emits_intros)

lemma own_Mutation [emits_intros]:
  "emits (own_call H) (HandleParentalControlMutationResult P H m (h_id H) (h_owner H) b sr tz)"
proof (cases "mu_success m")
  case True
  then show ?thesis
    unfolding Mutation_split [OF True] ApplyConfigRawFromMutationResponse_def
    by (intro emits_intros emits_mutation_answer)
next
  case False
  then show ?thesis by (simp add: HandleParentalControlMutationResult_def emits_Forward)
qed

lemma emits_guards [emits_intros]:
  "emits C (uuid_binding P H n)" "emits C (mac_binding P H)" "emits C (parsed_body H)"
  "emits C (known_fields H fs b)" "emits C (require_subscriber H)" "emits C (ValidateAuthPreconditions H s o' q)"
  unfolding uuid_binding_def mac_binding_def parsed_body_def known_fields_def require_subscriber_def Let_def
    ValidateAuthPreconditions_def
  by (intro emits_intros)+

lemma emits_collect [emits_intros]: "emits C (collect_macs P H xs acc)"
  by (induction P H xs acc rule: collect_macs.induct) (auto intro!: emits_intros split: prod.splits)

lemma emits_unique [emits_intros]: "emits C (unique_ids H xs seen)"
  by (induction H xs seen rule: unique_ids.induct) (auto intro!: emits_intros)

lemma emits_normalize_all [emits_intros]: "emits C (normalize_all P xs tz)"
  by (induction P xs tz rule: normalize_all.induct) (auto intro!: emits_intros)

lemma emits_bodies [emits_intros]:
  "emits C (group_body P H b)" "emits C (client_mac_body P H b)" "emits C (client_macs_body P H b)"
  "emits C (schedule_id_body H b)" "emits C (schedule_ids_body H b)" "emits C (to_utc_or_fail P H tz req)"
  unfolding group_body_def client_mac_body_def client_macs_body_def schedule_id_body_def
    schedule_ids_body_def to_utc_or_fail_def Let_def by (intro emits_intros)+

lemma emits_answers [emits_intros]:
  "emits C (answer_object P H r)" "emits C n \<Longrightarrow> emits C (answer_array P n r')"
  "emits C n \<Longrightarrow> emits C (answer_schedules P H n tz r')" "emits C (answer_schedule P H tz r)"
  unfolding answer_object_def answer_array_def answer_schedules_def answer_schedule_def
  by (intro emits_intros; assumption?)+

lemmas own_then = scoped_then [of "h_id H" "own_call H", OF own_in_scope] for H

lemma parental_emits: "DoX \<in> set parental_handlers \<Longrightarrow> emits (own_call H) (DoX P H)"
proof -
  have "list_all (\<lambda>DoX. emits (own_call H) (DoX P H)) parental_handlers"
    unfolding parental_handlers_def list.pred_inject handler_defs
    by (intro conjI TrueI list.pred_inject(1) own_then emits_intros)
  then show "DoX \<in> set parental_handlers \<Longrightarrow> emits (own_call H) (DoX P H)" by (simp add: list_all_iff)
qed

text \<open>
  Subscribers are isolated: whatever the request contains, every call a parental-control handler
  makes is for the authenticated subscriber: under its own path in the parental-control service, for
  its own venues and devices in the provisioning service, or to a device with the client's own token.
\<close>

theorem parental_handlers_isolated:
  "list_all (\<lambda>DoX. emits (own_call H) (DoX P H)) parental_handlers"
  unfolding list_all_iff by (blast intro: parental_emits)

section \<open>Paths\<close>

text \<open>Characters without a meaning of their own in a URI path: no query, no dots, no escapes.\<close>

definition path_char :: "char \<Rightarrow> bool" where
  "path_char c \<longleftrightarrow> is_alnum c \<or> c \<in> {CHR ''-'', CHR '':'', CHR ''/''}"

definition clean_call :: "handler \<Rightarrow> api_call \<Rightarrow> bool" where
  "clean_call H c \<longleftrightarrow> c_type c \<noteq> uSERVICE_MANGO_PARENTAL_CONTROL \<or>
     (\<exists>v rest. c_path c = ''/api/'' @ v @ ''/subscribers/'' @ h_id H @ ''/'' @ rest
        \<and> v \<in> {''v1'', ''v2''} \<and> list_all path_char rest)"

lemma xdigit_path_char: "is_lower_xdigit c \<Longrightarrow> path_char c" "is_xdigit c \<Longrightarrow> path_char c"
  by (auto simp: path_char_def ctype_defs)

lemma uuid_path_chars:
  assumes "ValidUUID u"
  shows "list_all path_char u"
proof -
  have "list_all (\<lambda>i. i = CHR ''-'' \<or> is_xdigit i) u"
    using assms by (simp add: ValidUUID_def split: if_splits)
  moreover have "path_char (CHR ''-'')" by (simp add: path_char_def)
  ultimately show ?thesis using xdigit_path_char(2) by (auto elim!: list.pred_mono_strong)
qed

lemma mac_path_chars:
  assumes "canonical_mac m"
  shows "list_all path_char (SerialToMAC m)"
  using assms
proof (rule canonical_macE)
  fix a b c d e f g h i j k l
  assume m: "m = [a, b, c, d, e, f, g, h, i, j, k, l]"
    and x: "list_all is_lower_xdigit [a, b, c, d, e, f, g, h, i, j, k, l]"
  moreover have "path_char (CHR '':'')" by (simp add: path_char_def)
  ultimately show ?thesis
    unfolding m SerialToMAC_canonical [OF x] by (simp add: xdigit_path_char(1))
qed

lemma yields_uuid: "yields (list_all path_char) (uuid_binding P H n)"
  unfolding uuid_binding_def Let_def by (intro yields_intros) (simp add: uuid_path_chars)

lemma yields_mac:
  assumes "replace_doc P" "lower_doc P"
  shows "yields (list_all path_char) (mac_binding P H)"
proof -
  have "list_all path_char (SerialToMAC (snd (NormalizeMac P v)))" if "fst (NormalizeMac P v)" for v
    using that by (intro mac_path_chars NormalizeMac_success [OF assms, of v]) (simp add: prod_eq_iff)
  then show ?thesis
    unfolding mac_binding_def Let_def by (intro yields_intros) blast
qed

lemmas guard_uuid = emits_guard_when [OF yields_uuid emits_guards(1)]

lemma clean_execute:
  assumes "p = ''/api/'' @ v @ ''/subscribers/'' @ h_id H @ ''/'' @ rest" "v = ''v1'' \<or> v = ''v2''"
    and "list_all path_char rest"
  shows "emits (clean_call H) (ExecuteGetArray P p)" "emits (clean_call H) (ExecuteGetObject P p)"
    "emits (clean_call H) (ExecutePostObject P p b t)" "emits (clean_call H) (ExecutePutObject P p b t)"
    "emits (clean_call H) (ExecuteDelete P p t)"
proof -
  have "\<exists>v rest. p = ''/api/'' @ v @ ''/subscribers/'' @ h_id H @ ''/'' @ rest
      \<and> v \<in> {''v1'', ''v2''} \<and> list_all path_char rest"
    using assms by blast
  then show "emits (clean_call H) (ExecuteGetArray P p)" "emits (clean_call H) (ExecuteGetObject P p)"
    "emits (clean_call H) (ExecutePostObject P p b t)" "emits (clean_call H) (ExecutePutObject P p b t)"
    "emits (clean_call H) (ExecuteDelete P p t)"
    unfolding execute_defs by (intro emits_intros emits_requests; simp add: clean_call_def)+
qed

lemmas clean_v1 = clean_execute [where v = "''v1''" and p = "''/api/'' @ ''v1'' @ ''/subscribers/'' @ h_id H @ ''/'' @ r" and rest = r for H r, simplified]
lemmas clean_v2 = clean_execute [where v = "''v2''" and p = "''/api/'' @ ''v2'' @ ''/subscribers/'' @ h_id H @ ''/'' @ r" and rest = r for H r, simplified]

lemma clean_ops:
  "emits (clean_call H) (GetGroups P (h_id H))" "emits (clean_call H) (CreateGroup P (h_id H) b)"
  "emits (clean_call H) (GetSchedules P (h_id H))" "emits (clean_call H) (CreateSchedule P (h_id H) b)"
  "list_all path_char g \<Longrightarrow> emits (clean_call H) (GetGroup P (h_id H) g)"
  "list_all path_char g \<Longrightarrow> emits (clean_call H) (UpdateGroup P (h_id H) g b)"
  "list_all path_char g \<Longrightarrow> emits (clean_call H) (DeleteGroup P (h_id H) g)"
  "list_all path_char i \<Longrightarrow> emits (clean_call H) (GetSchedule P (h_id H) i)"
  "list_all path_char i \<Longrightarrow> emits (clean_call H) (UpdateSchedule P (h_id H) i b)"
  "list_all path_char i \<Longrightarrow> emits (clean_call H) (DeleteSchedule P (h_id H) i)"
  "list_all path_char i \<Longrightarrow> emits (clean_call H) (GetScheduleGroups P (h_id H) i)"
  "list_all path_char g \<Longrightarrow> emits (clean_call H) (GetGroupDevices P (h_id H) g)"
  "list_all path_char g \<Longrightarrow> emits (clean_call H) (CreateGroupDevice P (h_id H) g b)"
  "list_all path_char g \<Longrightarrow> emits (clean_call H) (GetGroupSchedules P (h_id H) g)"
  "list_all path_char g \<Longrightarrow> emits (clean_call H) (CreateGroupSchedule P (h_id H) g b)"
  "list_all path_char g \<Longrightarrow> emits (clean_call H) (ReplaceGroupSchedules P (h_id H) g b)"
  "list_all path_char g \<Longrightarrow> list_all path_char m \<Longrightarrow> emits (clean_call H) (GetGroupDevice P (h_id H) g m)"
  "list_all path_char g \<Longrightarrow> list_all path_char m \<Longrightarrow> emits (clean_call H) (DeleteGroupDevice P (h_id H) g m)"
  "list_all path_char g \<Longrightarrow> list_all path_char i \<Longrightarrow> emits (clean_call H) (GetGroupSchedule P (h_id H) g i)"
  "list_all path_char g \<Longrightarrow> list_all path_char i \<Longrightarrow> emits (clean_call H) (DeleteGroupSchedule P (h_id H) g i)"
  unfolding parental_defs
  by (simp_all add: clean_v1 emits_ret emits_bind path_char_def ctype_defs)

lemma clean_v2_op: "list_all path_char g \<Longrightarrow> emits (clean_call H) (CreateGroupDevicesV2 P (h_id H) g b)"
  unfolding parental_defs by (simp add: clean_v2 path_char_def ctype_defs)

lemma clean_Resolve: "emits (clean_call H) (ResolveSubscriberTimezone P H (h_id H))"
  unfolding ResolveSubscriberTimezone_def Prov_Venue_GetVenues_def Prov_Location_Get_def OpenAPIRequestGet_def
  by (intro emits_intros emits_transmit) (simp_all add: clean_call_def service_names)

lemma clean_Mutation:
  "emits (clean_call H) (HandleParentalControlMutationResult P H' m s o' b sr tz)"
proof (cases "mu_success m")
  case True
  then show ?thesis
    unfolding Mutation_split [OF True] ApplyConfigRawFromMutationResponse_def ApplyConfigRaw_def
      apply_to_gateway_def GetConfig_def Configure_def Let_def
      Prov_Subscriber_GetDevices_def OpenAPIRequestGet_def OpenAPIRequestPost_def
    by (intro emits_intros emits_mutation_answer emits_transmit)
      (simp_all add: clean_call_def service_names)
next
  case False
  then show ?thesis by (simp add: HandleParentalControlMutationResult_def emits_Forward)
qed



text \<open>
  Without a subscriber no handler does anything: the only effect is one response 403, and no
  other service is called.
\<close>

theorem parental_handlers_need_subscriber:
  assumes "h_id H = []"
  shows "list_all (\<lambda>DoX. DoX P H = UnAuthorized H Errors_InvalidSubscriberId) parental_handlers"
proof -
  have "guard (require_subscriber H) k = UnAuthorized H Errors_InvalidSubscriberId"
    "guard (ValidateAuthPreconditions H [] o' b) k = UnAuthorized H Errors_InvalidSubscriberId" for k o' b
    using assms
    by (auto simp: guard_def fail_with_def require_subscriber_def ValidateAuthPreconditions_def
        intro!: state.expand ext split: prod.splits)
  then show ?thesis
    unfolding parental_handlers_def handler_defs using assms by simp
qed

theorem parental_handlers_need_subscriber_witness:
  "groups_DoGet ref_platform ((sample_handler ''GET'')\<lparr>h_id := []\<rparr>)
   = UnAuthorized ((sample_handler ''GET'')\<lparr>h_id := []\<rparr>) Errors_InvalidSubscriberId"
  using parental_handlers_need_subscriber [of "(sample_handler ''GET'')\<lparr>h_id := []\<rparr>" ref_platform]
  by (simp add: parental_handlers_def)

section \<open>Bodies\<close>

abbreviation to_mac :: "platform \<Rightarrow> string \<Rightarrow> string" where
  "to_mac P raw \<equiv> SerialToMAC (snd (NormalizeMac P raw))"

lemma not_string_cases: "(\<And>s. j = JString s \<Longrightarrow> thesis) \<Longrightarrow> (\<not> isString j \<Longrightarrow> thesis) \<Longrightarrow> thesis"
  by (metis isString_iff)

lemma collect_macs_result:
  assumes "fst (run_state (collect_macs P H xs acc) w) = Some ms" "distinct acc"
  shows "\<exists>raw. xs = map JString raw \<and> list_all (\<lambda>r. fst (NormalizeMac P r)) raw \<and> distinct ms
    \<and> set ms = set acc \<union> to_mac P ` set raw"
  using assms
proof (induction P H xs acc rule: collect_macs.induct)
  case (2 P H rawMac xs acc)
  obtain okv m where n: "NormalizeMac P rawMac = (okv, m)" by (cases "NormalizeMac P rawMac")
  let ?acc = "if SerialToMAC m \<in> set acc then acc else acc @ [SerialToMAC m]"
  have okv: "okv" using 2(2) n by (auto simp: fail_with_def split: if_splits prod.splits)
  then have "fst (run_state (collect_macs P H xs ?acc) w) = Some ms" using 2(2) n by simp
  moreover have "distinct ?acc" using 2(3) by simp
  ultimately obtain raw where "xs = map JString raw" "list_all (\<lambda>r. fst (NormalizeMac P r)) raw"
    "distinct ms" "set ms = set ?acc \<union> to_mac P ` set raw"
    using 2(1) [OF n [symmetric]] okv by auto
  then show ?case using n okv by (intro exI [of _ "rawMac # raw"]) auto
qed (auto simp: fail_with_def split: prod.splits)

lemma unique_ids_result:
  assumes "fst (run_state (unique_ids H xs seen) w) = Some ()"
  shows "\<exists>ids. xs = map JString ids \<and> distinct ids \<and> set ids \<inter> set seen = {} \<and> list_all ValidUUID ids"
  using assms
proof (induction H xs seen rule: unique_ids.induct)
  case (2 H i xs seen)
  then obtain ids where "xs = map JString ids" "distinct ids" "set ids \<inter> set (i # seen) = {}" "list_all ValidUUID ids"
    by (auto simp: fail_with_def split: if_splits prod.splits)
  moreover have "ValidUUID i" "i \<notin> set seen"
    using 2(2) by (auto simp: fail_with_def split: if_splits prod.splits)
  ultimately show ?case by (intro exI [of _ "i # ids"]) auto
qed (auto simp: fail_with_def split: prod.splits)

lemma guard_step_Some:
  assumes "fst (run_state (guard_step m k) w) = Some y"
  obtains x w1 where "run_state m w = (Some x, w1)" "fst (run_state (k x) w1) = Some y"
  using assms by (auto simp: guard_step_def split: prod.splits option.splits)

lemma known_fields_Some:
  assumes "run_state (known_fields H fs b) w = (Some x, w1)"
  shows "set (getNames b) \<subseteq> set fs"
  using assms by (auto simp: known_fields_def fail_with_def find_None_iff split: option.splits prod.splits)

text \<open>
  The bulk assignment forwards a set of devices: when the body is accepted, the client sent
  between 1 and 100 valid MAC addresses and no other field, and exactly their canonical
  colon-separated forms are forwarded, each once.
\<close>

theorem client_macs_body_correct:
  assumes "fst (run_state (client_macs_body P H parsed) w) = Some body"
  shows "\<exists>raw ms. getArray parsed ''client_macs'' = Some (map JString raw)
    \<and> set (getNames parsed) \<subseteq> {''client_macs''}
    \<and> 1 \<le> length raw \<and> length raw \<le> 100 \<and> list_all (\<lambda>r. fst (NormalizeMac P r)) raw
    \<and> body = [(''client_macs'', JArray (map JString ms))] \<and> distinct ms \<and> set ms = to_mac P ` set raw"
proof -
  from assms obtain u w1 where k: "run_state (known_fields H [''client_macs''] parsed) w = (Some u, w1)"
    and r: "fst (run_state (case getArray parsed ''client_macs'' of
        None \<Rightarrow> reject H ''client_macs is required and must be an array''
      | Some macs \<Rightarrow>
          if macs = [] then reject H ''client_macs must contain at least one MAC address''
          else if length macs > 100 then reject H ''client_macs must not exceed 100 MAC addresses''
          else guard_step (collect_macs P H macs []) (\<lambda>ms.
            ret (Some (set_key ''client_macs'' (JArray (map JString ms)) [])))) w1) = Some body"
    unfolding client_macs_body_def by (rule guard_step_Some)
  from r obtain macs where m: "getArray parsed ''client_macs'' = Some macs" "macs \<noteq> []" "length macs \<le> 100"
    and g: "fst (run_state (guard_step (collect_macs P H macs []) (\<lambda>ms.
            ret (Some (set_key ''client_macs'' (JArray (map JString ms)) [])))) w1) = Some body"
    by (auto simp: fail_with_def split: option.splits if_splits prod.splits)
  from g obtain ms w2 where c: "run_state (collect_macs P H macs []) w1 = (Some ms, w2)"
    and b: "body = [(''client_macs'', JArray (map JString ms))]"
    by (rule guard_step_Some) auto
  have "fst (run_state (collect_macs P H macs []) w1) = Some ms" using c by simp
  from collect_macs_result [OF this] obtain raw where "macs = map JString raw"
    "list_all (\<lambda>r. fst (NormalizeMac P r)) raw" "distinct ms" "set ms = to_mac P ` set raw"
    by auto
  then show ?thesis
    using m b known_fields_Some [OF k] by (intro exI [of _ raw] exI [of _ ms]) (auto simp: Suc_le_eq)
qed

theorem client_macs_body_correct_witness:
  "\<exists>raw ms. getArray [(''client_macs'', JArray [JString ''AA-bb-CC-00-11-22'', JString ''aabbcc001122''])]
      ''client_macs'' = Some (map JString raw) \<and> distinct ms \<and> set ms = to_mac ref_platform ` set raw"
proof -
  let ?b = "[(''client_macs'', JArray [JString ''AA-bb-CC-00-11-22'', JString ''aabbcc001122''])]"
  have n: "NormalizeMac ref_platform ''AA-bb-CC-00-11-22'' = (True, ''aabbcc001122'')"
    "NormalizeMac ref_platform ''aabbcc001122'' = (True, ''aabbcc001122'')"
    by (simp_all add: NormalizeMac_eq [OF ref_platform_docs(4,1)] strip_mac_def ctype_defs char_of_def bit_Suc_0_iff)
  have "fst (run_state (client_macs_body ref_platform (sample_handler ''POST'') ?b) (sample_world (\<lambda>_ _. None)))
      = Some [(''client_macs'', JArray (map JString [SerialToMAC ''aabbcc001122'']))]"
    by (simp add: client_macs_body_def guard_step_def known_fields_def getNames_def getArray_def getVar_def n)
  from client_macs_body_correct [OF this] show ?thesis by blast
qed

text \<open>
  The schedules of a group are replaced by a set of schedules: the body is accepted only when
  it consists of an array of pairwise distinct UUIDs.
\<close>

theorem schedule_ids_body_correct:
  assumes "fst (run_state (schedule_ids_body H parsed) w) = Some ()"
  shows "\<exists>ids. getArray parsed ''schedule_ids'' = Some (map JString ids)
    \<and> set (getNames parsed) \<subseteq> {''schedule_ids''} \<and> distinct ids \<and> list_all ValidUUID ids"
proof -
  from assms obtain u w1 where k: "run_state (known_fields H [''schedule_ids''] parsed) w = (Some u, w1)"
    and r: "fst (run_state (case getArray parsed ''schedule_ids'' of
        None \<Rightarrow> reject H ''schedule_ids is required and must be an array''
      | Some xs \<Rightarrow> unique_ids H xs []) w1) = Some ()"
    unfolding schedule_ids_body_def by (rule guard_step_Some)
  then show ?thesis
    using known_fields_Some [OF k] unique_ids_result
    by (fastforce simp: fail_with_def split: option.splits prod.splits)
qed

theorem schedule_ids_body_correct_witness:
  "\<exists>ids. getArray [(''schedule_ids'', JArray [JString ''a-1'', JString ''a-2''])] ''schedule_ids''
     = Some (map JString ids) \<and> distinct ids"
proof -
  let ?b = "[(''schedule_ids'', JArray [JString ''a-1'', JString ''a-2''])]"
  have "fst (run_state (schedule_ids_body (sample_handler ''PUT'') ?b) (sample_world (\<lambda>_ _. None))) = Some ()"
    by (simp add: schedule_ids_body_def guard_step_def known_fields_def getNames_def getArray_def getVar_def
        ValidUUID_def ctype_defs)
  from schedule_ids_body_correct [OF this] show ?thesis by blast
qed

section \<open>A removal the gateway does not learn of\<close>

text \<open>
  A device is removed from a group only on paper: when the service answers the removal with
  status 200 but without a \<^verbatim>\<open>config-raw\<close> snapshot, the call counts as failed, and the error path
  forwards the status 200: the client is told that the removal succeeded, and no call reaches the
  gateway.
\<close>

theorem group_devices_DoDelete_unconfirmed:
  assumes "h_id H \<noteq> []" "h_owner H \<noteq> []" "GetBinding P H ''group_id'' [] = gid" "gid \<noteq> []" "ValidUUID gid"
    and "GetBinding P H ''client_mac'' [] = mac" "mac \<noteq> []" "NormalizeMac P mac = (True, m)"
    and "run_state (DeleteGroupDevice P (h_id H) gid (SerialToMAC m)) w = ((False, HTTP_OK, resp), w1)"
  shows "\<exists>body. run_state (group_devices_DoDelete P H) w =
    ((), w1\<lparr>w_out := w_out w1 @ [\<lparr>rs_status = HTTP_OK, rs_body = body\<rparr>]\<rparr>)"
  using assms
  by (auto simp: group_devices_DoDelete_def guard_def ValidateAuthPreconditions_def uuid_binding_def
      mac_binding_def Let_def HandleParentalControlMutationResult_def mutated_def
      ForwardParentalControlErrorResponse_def ForwardErrorResponse_def send_def split: option.splits)

text \<open>A group and a device of it, in the request and in the service.\<close>

definition delete_handler :: handler where
  "delete_handler = (sample_handler ''DELETE'')\<lparr>h_bindings :=
     [(''group_id'', ''0-1''), (''client_mac'', ''aabbcc001122'')]\<rparr>"

theorem group_devices_DoDelete_unconfirmed_witness:
  "map rs_status (w_out (snd (run_state (group_devices_DoDelete ref_platform delete_handler)
     (sample_world (\<lambda>_ _. Some \<lparr>rp_status = 200, rp_text = ''{}'', rp_json = Some (JObject [])\<rparr>))))) = [200]"
proof -
  let ?w = "sample_world (\<lambda>_ _. Some \<lparr>rp_status = 200, rp_text = ''{}'', rp_json = Some (JObject [])\<rparr>)"
  have n: "NormalizeMac ref_platform ''aabbcc001122'' = (True, ''aabbcc001122'')"
    by (simp add: NormalizeMac_eq [OF ref_platform_docs(4,1)] strip_mac_def ctype_defs char_of_def bit_Suc_0_iff)
  let ?d = "DeleteGroupDevice ref_platform ''sub1'' ''0-1'' (SerialToMAC ''aabbcc001122'')"
  have d: "run_state ?d ?w = ((False, 200, Some []), snd (run_state ?d ?w))" "w_out (snd (run_state ?d ?w)) = []"
    by (simp_all add: DeleteGroupDevice_def ExecuteDelete_def deleted_with_config_def has_def run_defs)
  have "\<exists>body. run_state (group_devices_DoDelete ref_platform delete_handler) ?w =
    ((), (snd (run_state ?d ?w))\<lparr>w_out := w_out (snd (run_state ?d ?w)) @ [\<lparr>rs_status = HTTP_OK, rs_body = body\<rparr>]\<rparr>)"
    by (rule group_devices_DoDelete_unconfirmed [where gid = "''0-1''" and mac = "''aabbcc001122''"
          and m = "''aabbcc001122''" and resp = "Some []"])
      (use d in \<open>simp_all add: delete_handler_def sample_handler_def GetBinding_def n ValidUUID_def ctype_defs
        lower_docD [OF ref_platform_docs(1)] char_of_def bit_Suc_0_iff\<close>)
  then show ?thesis using d by auto
qed

end
