(* ===== verification/Blocked.thy ===== *)
theory Blocked
  imports Schedules Utils
begin

text \<open>
  Which clients the configuration of a gateway blocks right now: the last part of
  \<^verbatim>\<open>src/RESTAPI/RESTAPI_parental_control_utils.cpp\<close>.  The firewall commands of \<^verbatim>\<open>config-raw\<close> are
  collected into rules, the active rules are evaluated against the clock, and every blocked client
  gets the time its block ends.
\<close>

section \<open>Ordered maps\<close>

text \<open>
  A \<^verbatim>\<open>std::map\<close> from strings as an association list in the order of its keys.  \<open>upsert k f d m\<close> is
  \<^verbatim>\<open>m[k] = f(m[k])\<close>, where a missing entry is created with the default value \<open>d\<close>.
\<close>

fun upsert :: "string \<Rightarrow> ('a \<Rightarrow> 'a) \<Rightarrow> 'a \<Rightarrow> (string \<times> 'a) list \<Rightarrow> (string \<times> 'a) list" where
  "upsert k f d [] = [(k, f d)]"
| "upsert k f d ((k', v) # m) = (if k = k' then (k, f v) # m
     else if k < k' then (k, f d) # (k', v) # m else (k', v) # upsert k f d m)"

section \<open>Rules\<close>

definition CLIENT_ACCESS_PREFIX :: string where "CLIENT_ACCESS_PREFIX = ''firewall.pc_client_access_''"
definition SCHEDULE_PREFIX :: string where "SCHEDULE_PREFIX = ''firewall.pc_rule_g''"

record FirewallRuleInfo =
  fr_enabled :: bool
  fr_hasSection :: bool
  fr_hasEnabled :: bool
  fr_hasStartDate :: bool
  fr_hasStopDate :: bool
  fr_hasStartTime :: bool
  fr_hasStopTime :: bool
  fr_hasWeekdays :: bool
  fr_isClientAccessRule :: bool
  fr_hasClientAccessBoundary :: bool
  fr_startDate :: string
  fr_stopDate :: string
  fr_startTime :: string
  fr_stopTime :: string
  fr_weekdays :: "int list"
  fr_macs :: "string list"

definition FirewallRuleInfo_fresh :: FirewallRuleInfo where
  "FirewallRuleInfo_fresh = \<lparr>fr_enabled = False, fr_hasSection = False, fr_hasEnabled = False,
     fr_hasStartDate = False, fr_hasStopDate = False, fr_hasStartTime = False, fr_hasStopTime = False,
     fr_hasWeekdays = False, fr_isClientAccessRule = False, fr_hasClientAccessBoundary = False,
     fr_startDate = [], fr_stopDate = [], fr_startTime = [], fr_stopTime = [], fr_weekdays = [], fr_macs = []\<rparr>"

definition IsValidDate :: "platform \<Rightarrow> string \<Rightarrow> bool" where
  "IsValidDate P d \<longleftrightarrow> length d = 10 \<and> po_parse P ''%Y-%m-%d'' d \<noteq> None"

definition IsValidTime :: "platform \<Rightarrow> string \<Rightarrow> bool" where
  "IsValidTime P t \<longleftrightarrow> length t = 8 \<and> po_parse P ''%H:%M:%S'' t \<noteq> None"

text \<open>
  The end of a window: it has to parse and to lie after now.  \<open>nowUtc\<close> is in microseconds, the
  result in seconds.
\<close>

definition stop_epoch :: "platform \<Rightarrow> int \<Rightarrow> string \<Rightarrow> bool \<times> int" where
  "stop_epoch P nowUtc stopStr = (case po_parse P ''%Y-%m-%d %H:%M:%S'' stopStr of
     None \<Rightarrow> (False, 0)
   | Some stopDt \<Rightarrow> if stopDt \<le> nowUtc then (False, 0) else (True, stopDt div 1000000))"

definition weekly_active ::
  "platform \<Rightarrow> int \<Rightarrow> string \<Rightarrow> string \<Rightarrow> FirewallRuleInfo \<Rightarrow> int \<Rightarrow> bool \<times> int" where
  "weekly_active P nowUtcWeekday nowDateStr nowTimeStr rule nowUtc =
     (if \<not> fr_hasStartTime rule \<or> \<not> fr_hasStopTime rule then (False, 0)
      else let start = fr_startTime rule; stop = fr_stopTime rule in
        if start = stop then (False, 0)
        else if start < stop then
          (if nowUtcWeekday \<in> set (fr_weekdays rule) \<and> start \<le> nowTimeStr \<and> nowTimeStr < stop
           then stop_epoch P nowUtc (nowDateStr @ '' '' @ stop) else (False, 0))
        else
          (if nowUtcWeekday \<in> set (fr_weekdays rule) \<and> start \<le> nowTimeStr
           then stop_epoch P nowUtc (po_format P (nowUtc + 86400000000) ''%Y-%m-%d'' @ '' '' @ stop)
           else if (nowUtcWeekday + 6) mod 7 \<in> set (fr_weekdays rule) \<and> nowTimeStr < stop
           then stop_epoch P nowUtc (nowDateStr @ '' '' @ stop) else (False, 0)))"

definition IsRuleActive ::
  "platform \<Rightarrow> int \<Rightarrow> string \<Rightarrow> string \<Rightarrow> FirewallRuleInfo \<Rightarrow> int \<Rightarrow> bool \<times> int" where
  "IsRuleActive P nowUtcWeekday nowDateStr nowTimeStr rule nowUtc =
     (if \<not> fr_hasSection rule \<or> \<not> fr_hasEnabled rule \<or> \<not> fr_enabled rule then (False, 0)
      else if fr_macs rule = [] then (False, 0)
      else if fr_hasWeekdays rule then weekly_active P nowUtcWeekday nowDateStr nowTimeStr rule nowUtc
      else if \<not> fr_isClientAccessRule rule then (False, 0)
      else if \<not> fr_hasClientAccessBoundary rule then (True, -1)
      else if \<not> fr_hasStartDate rule \<or> \<not> fr_hasStopDate rule \<or> \<not> fr_hasStartTime rule \<or> \<not> fr_hasStopTime rule
      then (False, 0)
      else let nowStr = nowDateStr @ '' '' @ nowTimeStr;
               startStr = fr_startDate rule @ '' '' @ fr_startTime rule;
               stopDate = (if fr_startTime rule \<le> fr_stopTime rule then fr_startDate rule else fr_stopDate rule);
               stopStr = stopDate @ '' '' @ fr_stopTime rule
        in if nowStr < startStr then (False, 0)
           else if stopStr \<le> nowStr then (False, 0)
           else stop_epoch P nowUtc stopStr)"

section \<open>Reading the commands\<close>

text \<open>\<^verbatim>\<open>stream >> token\<close> until the stream is exhausted.\<close>

fun stream_tokens :: "string \<Rightarrow> string \<Rightarrow> string list" where
  "stream_tokens [] token = (if token = [] then [] else [token])"
| "stream_tokens (c # cs) token =
     (if is_space c then (if token = [] then stream_tokens cs [] else token # stream_tokens cs [])
      else stream_tokens cs (token @ [c]))"

definition weekday_index :: "string \<Rightarrow> int option" where
  "weekday_index = map_of [(''Sun'', 0), (''Mon'', 1), (''Tue'', 2), (''Wed'', 3), (''Thu'', 4), (''Fri'', 5), (''Sat'', 6)]"

fun insert_weekdays :: "string list \<Rightarrow> int list \<Rightarrow> int list option" where
  "insert_weekdays [] parsed = Some parsed"
| "insert_weekdays (token # ts) parsed = (case weekday_index token of None \<Rightarrow> None
     | Some d \<Rightarrow> insert_weekdays ts (int_set_insert d parsed))"

definition unquote :: "string \<Rightarrow> string" where
  "unquote v = (if length v \<ge> 2 \<and> hd v = CHR 0x27 \<and> last v = CHR 0x27 then butlast (tl v) else v)"

definition set_weekdays :: "string \<Rightarrow> FirewallRuleInfo \<Rightarrow> FirewallRuleInfo" where
  "set_weekdays val rule = (case insert_weekdays (stream_tokens (unquote val) []) [] of
     Some (d # ds) \<Rightarrow> rule\<lparr>fr_weekdays := d # ds, fr_hasWeekdays := True\<rparr>
   | _ \<Rightarrow> rule\<lparr>fr_weekdays := [], fr_hasWeekdays := False\<rparr>)"

text \<open>The update of one \<^verbatim>\<open>set\<close> command, \<open>None\<close> for a parameter that is ignored.\<close>

definition set_param ::
  "platform \<Rightarrow> bool \<Rightarrow> string \<Rightarrow> string \<Rightarrow> (FirewallRuleInfo \<Rightarrow> FirewallRuleInfo) option" where
  "set_param P isClientAccessRule param val =
     (let bounded = (\<lambda>r. if isClientAccessRule then r\<lparr>fr_hasClientAccessBoundary := True\<rparr> else r) in
      if param = ''enabled'' then Some (\<lambda>r. r\<lparr>fr_enabled := (val = ''1''), fr_hasEnabled := True\<rparr>)
      else if param = ''start_time'' then
        Some (\<lambda>r. (bounded r)\<lparr>fr_startTime := val, fr_hasStartTime := IsValidTime P val\<rparr>)
      else if param = ''stop_time'' then
        Some (\<lambda>r. (bounded r)\<lparr>fr_stopTime := val, fr_hasStopTime := IsValidTime P val\<rparr>)
      else if isClientAccessRule \<and> param = ''start_date'' then
        Some (\<lambda>r. (bounded r)\<lparr>fr_startDate := val, fr_hasStartDate := IsValidDate P val\<rparr>)
      else if isClientAccessRule \<and> param = ''stop_date'' then
        Some (\<lambda>r. (bounded r)\<lparr>fr_stopDate := val, fr_hasStopDate := IsValidDate P val\<rparr>)
      else if \<not> isClientAccessRule \<and> param = ''weekdays'' then Some (set_weekdays val)
      else None)"

type_synonym rules = "(string \<times> FirewallRuleInfo) list"

abbreviation at_rule :: "string \<Rightarrow> (FirewallRuleInfo \<Rightarrow> FirewallRuleInfo) \<Rightarrow> rules \<Rightarrow> rules" where
  "at_rule section f rules \<equiv> upsert section f FirewallRuleInfo_fresh rules"

text \<open>
  One command.  The two prefixes exclude each other.  \<open>rest\<close> is the key after the prefix; the
  section ends at its first dot.
\<close>

definition apply_command :: "platform \<Rightarrow> string \<Rightarrow> string \<Rightarrow> string \<Rightarrow> rules \<Rightarrow> rules" where
  "apply_command P opr key val rules =
     (let isClientAccessRule = prefix CLIENT_ACCESS_PREFIX key;
          isScheduleRule = prefix SCHEDULE_PREFIX key
      in if \<not> isClientAccessRule \<and> \<not> isScheduleRule then rules
         else let n = length (if isClientAccessRule then CLIENT_ACCESS_PREFIX else SCHEDULE_PREFIX);
                  rest = drop n key;
                  section = take n key @ takeWhile (\<lambda>c. c \<noteq> CHR ''.'') rest;
                  rules1 = (if isClientAccessRule
                    then at_rule section (\<lambda>r. r\<lparr>fr_isClientAccessRule := True\<rparr>) rules else rules)
           in if CHR ''.'' \<notin> set rest then
                (if opr = ''set'' \<and> val = ''rule'' then at_rule key (\<lambda>r. r\<lparr>fr_hasSection := True\<rparr>) rules1
                 else rules1)
              else let param = tl (dropWhile (\<lambda>c. c \<noteq> CHR ''.'') rest)
                in if opr = ''set'' then
                     (case set_param P isClientAccessRule param val of None \<Rightarrow> rules1
                        | Some f \<Rightarrow> at_rule section f rules1)
                   else if opr = ''add_list'' \<and> param = ''src_mac'' then
                     (case NormalizeMac P val of (okv, mac) \<Rightarrow>
                        if okv then at_rule section (\<lambda>r. r\<lparr>fr_macs := fr_macs r @ [mac]\<rparr>) rules1 else rules1)
                   else rules1)"

text \<open>Commands that are not arrays of three strings are skipped.\<close>

fun collect_rules :: "platform \<Rightarrow> json list \<Rightarrow> rules \<Rightarrow> rules" where
  "collect_rules P [] rules = rules"
| "collect_rules P (JArray [a, b, c] # cmds) rules =
     collect_rules P cmds (case (po_toString P a, po_toString P b, po_toString P c) of
        (Inr opr, Inr key, Inr val) \<Rightarrow> apply_command P opr key val rules | _ \<Rightarrow> rules)"
| "collect_rules P (_ # cmds) rules = collect_rules P cmds rules"

section \<open>Blocked clients\<close>

text \<open>The latest end wins; \<open>-1\<close> is a permanent block.\<close>

definition later_stop :: "int \<Rightarrow> int option \<Rightarrow> int" where
  "later_stop stopEpoch old = (case old of None \<Rightarrow> stopEpoch
     | Some o' \<Rightarrow> if stopEpoch = -1 \<or> (o' \<noteq> -1 \<and> stopEpoch > o') then stopEpoch else o')"

text \<open>\<open>upsert\<close> with the entry of \<^verbatim>\<open>macStopEpochMap.find\<close> as an option.\<close>

fun block_macs :: "string list \<Rightarrow> int \<Rightarrow> (string \<times> int) list \<Rightarrow> (string \<times> int) list" where
  "block_macs [] stopEpoch m = m"
| "block_macs (mac # macs) stopEpoch m =
     block_macs macs stopEpoch (upsert mac (\<lambda>_. later_stop stopEpoch (map_of m mac)) 0 m)"

fun stop_epochs :: "(FirewallRuleInfo \<Rightarrow> bool \<times> int) \<Rightarrow> rules \<Rightarrow> (string \<times> int) list \<Rightarrow> (string \<times> int) list" where
  "stop_epochs active [] m = m"
| "stop_epochs active ((_, rule) # rules) m = (case active rule of (isActive, stopEpoch) \<Rightarrow>
     stop_epochs active rules (if isActive then block_macs (fr_macs rule) stopEpoch m else m))"

definition until_string :: "platform \<Rightarrow> string \<Rightarrow> int \<Rightarrow> string" where
  "until_string P timezoneStr stopEpoch = (if stopEpoch = -1 then ''indefinite''
     else (case (if timezoneStr = [] then None else po_locate_zone P timezoneStr) of
         Some zone \<Rightarrow> po_format_local P (tz_to_local zone stopEpoch)
       | None \<Rightarrow> po_format P (stopEpoch * 1000000) ''%Y-%m-%d %H:%M:%S''))"

definition active_now :: "platform \<Rightarrow> int \<Rightarrow> FirewallRuleInfo \<Rightarrow> bool \<times> int" where
  "active_now P nowUtc rule = IsRuleActive P (po_dayOfWeek P nowUtc) (po_format P nowUtc ''%Y-%m-%d'')
     (po_format P nowUtc ''%H:%M:%S'') rule nowUtc"

definition GetBlockedClients :: "platform \<Rightarrow> jobj ptr \<Rightarrow> string \<Rightarrow> (bool \<times> (string \<times> string) list) io" where
  "GetBlockedClients P config timezoneStr = (case config of None \<Rightarrow> ret (False, [])
     | Some cfg \<Rightarrow> (case getArray cfg ''config-raw'' of None \<Rightarrow> ret (True, [])
        | Some configRaw \<Rightarrow> do {
            nowUtc \<leftarrow> read_clock;
            ret (True, map (\<lambda>(mac, stopEpoch). (mac, until_string P timezoneStr stopEpoch))
              (stop_epochs (active_now P nowUtc) (collect_rules P configRaw []) []))
          }))"

section \<open>Effects\<close>

lemma silent_GetBlockedClients [replies_intros]: "silent (GetBlockedClients P c tz)"
  unfolding GetBlockedClients_def by (intro replies_intros)

lemma emits_GetBlockedClients [emits_intros]: "emits C (GetBlockedClients P c tz)"
  unfolding GetBlockedClients_def by (intro emits_intros)

section \<open>Ordered maps: lemmas\<close>

definition ordered :: "(string \<times> 'a) list \<Rightarrow> bool" where
  "ordered m \<longleftrightarrow> sorted_wrt (<) (map fst m)"

lemma ordered_simps [simp]:
  "ordered []" "ordered ((k, v) # m) \<longleftrightarrow> (\<forall>x \<in> fst ` set m. k < x) \<and> ordered m"
  by (auto simp: ordered_def)

lemma fst_set_upsert: "fst ` set (upsert k f d m) = insert k (fst ` set m)"
  by (induction k f d m rule: upsert.induct) auto

lemma ordered_upsert [simp]: "ordered m \<Longrightarrow> ordered (upsert k f d m)"
proof (induction k f d m rule: upsert.induct)
  case (2 k f d k' v m)
  then show ?case by (auto simp: fst_set_upsert)
qed simp

lemma map_of_upsert:
  "ordered m \<Longrightarrow> map_of (upsert k f d m) x =
    (if x = k then Some (f (case map_of m k of None \<Rightarrow> d | Some v \<Rightarrow> v)) else map_of m x)"
proof (induction k f d m rule: upsert.induct)
  case (2 k f d k' v m)
  show ?case
  proof (cases "k < k'")
    case True
    then have "k \<notin> fst ` set m" using 2(2) by (auto dest: less_trans)
    then have "map_of m k = None" by (simp add: map_of_eq_None_iff)
    with True show ?thesis by auto
  next
    case False
    then show ?thesis using 2 by auto
  qed
qed simp

lemma ordered_distinct: "ordered m \<Longrightarrow> distinct (map fst m)"
  unfolding ordered_def by (metis strict_sorted_iff)

section \<open>The latest end\<close>

text \<open>An end \<open>t\<close> is no later than \<open>s\<close>, where \<open>-1\<close> stands for never.\<close>

definition no_later :: "int \<Rightarrow> int \<Rightarrow> bool" where
  "no_later t s \<longleftrightarrow> s = -1 \<or> (t \<noteq> -1 \<and> t \<le> s)"

definition latest :: "int list \<Rightarrow> int option \<Rightarrow> int option" where
  "latest ss old = fold (\<lambda>s o'. Some (later_stop s o')) ss old"

definition stops :: "(FirewallRuleInfo \<Rightarrow> bool \<times> int) \<Rightarrow> rules \<Rightarrow> string \<Rightarrow> int list" where
  "stops active rules mac = [snd (active r). (_, r) \<leftarrow> rules, fst (active r) \<and> mac \<in> set (fr_macs r)]"

lemma later_stop_idem [simp]: "later_stop s (Some (later_stop s o')) = later_stop s o'"
  by (auto simp: later_stop_def split: option.splits)

lemma block_macs_spec:
  "ordered m \<Longrightarrow> ordered (block_macs macs s m) \<and>
   map_of (block_macs macs s m) x = (if x \<in> set macs then Some (later_stop s (map_of m x)) else map_of m x)"
  by (induction macs s m rule: block_macs.induct) (auto simp: map_of_upsert)

lemma stop_epochs_spec:
  "ordered m \<Longrightarrow> ordered (stop_epochs active rules m) \<and>
   map_of (stop_epochs active rules m) mac = latest (stops active rules mac) (map_of m mac)"
proof (induction active rules m rule: stop_epochs.induct)
  case (2 active k rule rules m)
  obtain a s where a: "active rule = (a, s)" by (cases "active rule")
  then show ?case
    using "2.IH" [OF a [symmetric]] "2.prems" block_macs_spec [of m "fr_macs rule" s]
    by (auto simp: stops_def latest_def)
qed (simp add: stops_def latest_def)

lemma latest_Some:
  "\<exists>s. latest ss (Some x) = Some s \<and> s \<in> insert x (set ss) \<and> (\<forall>t \<in> insert x (set ss). no_later t s)"
proof (induction ss arbitrary: x)
  case Nil
  then show ?case by (auto simp: latest_def no_later_def)
next
  case (Cons a ss)
  let ?y = "later_stop a (Some x)"
  obtain s where s: "latest ss (Some ?y) = Some s" "s \<in> insert ?y (set ss)" "\<forall>t \<in> insert ?y (set ss). no_later t s"
    using Cons.IH by blast
  have y: "?y \<in> {a, x}" "no_later a ?y" "no_later x ?y"
    by (auto simp: later_stop_def no_later_def)
  have tr: "no_later u v \<Longrightarrow> no_later v w \<Longrightarrow> no_later u w" for u v w
    by (auto simp: no_later_def)
  have "latest (a # ss) (Some x) = latest ss (Some ?y)" by (simp add: latest_def)
  then show ?case using s y tr by (intro exI [of _ s]) (auto intro: tr)
qed

lemma latest_None:
  "latest ss None = None \<longleftrightarrow> ss = []"
  "latest ss None = Some s \<Longrightarrow> s \<in> set ss \<and> (\<forall>t \<in> set ss. no_later t s)"
proof -
  have *: "latest (a # ss) None = latest ss (Some a)" "latest [] None = None" for a ss
    by (simp_all add: latest_def later_stop_def)
  show "latest ss None = None \<longleftrightarrow> ss = []"
  proof (cases ss)
    case (Cons a list)
    then show ?thesis using * latest_Some [of list a] by auto
  qed (simp add: *)
  show "latest ss None = Some s \<Longrightarrow> s \<in> set ss \<and> (\<forall>t \<in> set ss. no_later t s)"
  proof (cases ss)
    case (Cons a list)
    assume "latest ss None = Some s"
    then show ?thesis using Cons * latest_Some [of list a] by auto
  qed (simp add: *)
qed

lemma stops_empty: "stops active rules mac = [] \<longleftrightarrow>
    \<not> (\<exists>k r. (k, r) \<in> set rules \<and> fst (active r) \<and> mac \<in> set (fr_macs r))"
  by (auto simp: stops_def)

lemma blocked_entries:
  fixes active rules
  defines "m \<equiv> stop_epochs active rules []"
  shows "distinct (map fst m)" "(mac, s) \<in> set m \<longleftrightarrow> latest (stops active rules mac) None = Some s"
proof -
  have o: "ordered m" "map_of m mac = latest (stops active rules mac) None"
    using stop_epochs_spec [of "[]" active rules mac] by (simp_all add: m_def)
  show d: "distinct (map fst m)" using o(1) by (rule ordered_distinct)
  show "(mac, s) \<in> set m \<longleftrightarrow> latest (stops active rules mac) None = Some s"
    using d o(2) by (metis map_of_eq_Some_iff)
qed

text \<open>
  (C17) The blocked clients are exactly the clients of the rules that are active now, each listed
  once, and the time shown is the end of the longest of the blocks that apply to it, with a
  permanent block shown as \<^verbatim>\<open>indefinite\<close>.
\<close>

theorem GetBlockedClients_exact:
  assumes "getArray cfg ''config-raw'' = Some raw"
    and "run_state (GetBlockedClients P (Some cfg) tz) w = ((okv, res), w1)"
    and "active = active_now P (w_clock w (w_ticks w))" and "rules = collect_rules P raw []"
  shows "okv \<and> distinct (map fst res)
    \<and> (mac \<in> fst ` set res \<longleftrightarrow>
        (\<exists>section rule. (section, rule) \<in> set rules \<and> fst (active rule) \<and> mac \<in> set (fr_macs rule)))
    \<and> ((mac, until) \<in> set res \<longrightarrow> (\<exists>s. until = until_string P tz s
        \<and> s \<in> set (stops active rules mac) \<and> list_all (\<lambda>t. no_later t s) (stops active rules mac)))"
proof -
  let ?m = "stop_epochs active rules []"
  have r: "okv" "res = map (\<lambda>(mac, s). (mac, until_string P tz s)) ?m"
    using assms by (auto simp: GetBlockedClients_def read_clock_def)
  have f: "map fst res = map fst ?m" by (auto simp: r(2))
  then have d: "distinct (map fst res)" using blocked_entries(1) by simp
  have "mac \<in> fst ` set res \<longleftrightarrow> mac \<in> fst ` set ?m" using f by (metis list.set_map)
  also have "mac \<in> fst ` set ?m \<longleftrightarrow> (\<exists>s. (mac, s) \<in> set ?m)" by force
  finally have mem: "mac \<in> fst ` set res \<longleftrightarrow> (\<exists>s. latest (stops active rules mac) None = Some s)"
    by (simp only: blocked_entries(2))
  have "\<exists>s. until = until_string P tz s \<and> s \<in> set (stops active rules mac)
      \<and> list_all (\<lambda>t. no_later t s) (stops active rules mac)" if u: "(mac, until) \<in> set res"
  proof -
    obtain s where "(mac, s) \<in> set ?m" "until = until_string P tz s" using u unfolding r(2) by auto
    then show ?thesis using latest_None(2) by (auto simp: blocked_entries(2) list_all_iff)
  qed
  moreover have "mac \<in> fst ` set res \<longleftrightarrow> stops active rules mac \<noteq> []"
    using mem latest_None(1) [of "stops active rules mac"] by (metis option.exhaust option.distinct(1))
  ultimately show ?thesis using r(1) d by (auto simp: stops_empty)
qed

section \<open>Weekly windows\<close>

lemma dig_less: "0 \<le> m \<Longrightarrow> m < 10 \<Longrightarrow> 0 \<le> n \<Longrightarrow> n < 10 \<Longrightarrow> dig m < dig n \<longleftrightarrow> m < n"
  by (simp add: less_char_def chr_code_dig)

lemma dig_eq: "0 \<le> m \<Longrightarrow> m < 10 \<Longrightarrow> 0 \<le> n \<Longrightarrow> n < 10 \<Longrightarrow> dig m = dig n \<longleftrightarrow> m = n"
  by (metis chr_code_dig add_left_cancel nat_eq_iff2 of_nat_less_0_iff linorder_not_le add_nonneg_nonneg zero_le_numeral)

lemma lex_div:
  fixes a b k :: int
  assumes "0 < k"
  shows "a < b \<longleftrightarrow> a div k < b div k \<or> a div k = b div k \<and> a mod k < b mod k"
proof -
  have d: "a = a div k * k + a mod k" "b = b div k * k + b mod k" by simp_all
  have m: "a \<le> b \<Longrightarrow> a div k \<le> b div k" "b \<le> a \<Longrightarrow> b div k \<le> a div k"
    using assms by (simp_all add: zdiv_mono1)
  show ?thesis
  proof (cases "a div k = b div k")
    case True
    then have "a < b \<longleftrightarrow> a mod k < b mod k" using d by (metis add_less_cancel_left)
    then show ?thesis using True by simp
  next
    case False
    then show ?thesis using m by linarith
  qed
qed

lemma two_digits_less:
  assumes "0 \<le> m" "m < 100" "0 \<le> n" "n < 100"
  shows "two_digits m @ x < two_digits n @ y \<longleftrightarrow> m < n \<or> m = n \<and> x < y"
proof -
  have d: "0 \<le> m div 10" "m div 10 < 10" "0 \<le> n div 10" "n div 10 < 10" using assms by auto
  have e: "m = n \<longleftrightarrow> m div 10 = n div 10 \<and> m mod 10 = n mod 10"
    by (metis div_mult_mod_eq)
  show ?thesis
    using d unfolding e lex_div [of 10 m n, simplified] by (auto simp: two_digits_def dig_less dig_eq)
qed

lemma show_time_less:
  assumes "0 \<le> a" "a < 86400" "0 \<le> b" "b < 86400"
  shows "show_time a < show_time b \<longleftrightarrow> a < b"
proof -
  have h: "a mod 86400 = a" "b mod 86400 = b" using assms by simp_all
  have t: "show_time a = two_digits (a div 3600) @ '':'' @ (two_digits (a div 60 mod 60) @ '':'' @ two_digits (a mod 60))"
    "show_time b = two_digits (b div 3600) @ '':'' @ (two_digits (b div 60 mod 60) @ '':'' @ two_digits (b mod 60))"
    by (simp_all add: show_time_def h)
  have hh: "a div 3600 = a div 60 div 60" "b div 3600 = b div 60 div 60"
    by (simp_all add: zdiv_zmult2_eq [symmetric])
  have eq: "a div 60 = b div 60 \<longleftrightarrow> a div 60 div 60 = b div 60 div 60 \<and> a div 60 mod 60 = b div 60 mod 60"
    by (metis div_mult_mod_eq)
  have "show_time a < show_time b \<longleftrightarrow> a div 3600 < b div 3600 \<or> a div 3600 = b div 3600 \<and>
     (a div 60 mod 60 < b div 60 mod 60 \<or> a div 60 mod 60 = b div 60 mod 60 \<and> a mod 60 < b mod 60)"
    unfolding t using assms
    by (simp add: two_digits_less two_digits_less [where x = "[]" and y = "[]", simplified])
  also have "\<dots> \<longleftrightarrow> a < b"
    unfolding lex_div [of 60 a b, simplified] lex_div [of 60 "a div 60" "b div 60", simplified] eq hh by auto
  finally show ?thesis .
qed

text \<open>Seconds since the beginning of the window of a day that is \<open>e\<close> days before the current one.\<close>

lemma window_day:
  fixes e a b s :: int
  assumes "-6 \<le> e" "e \<le> 6" "0 \<le> s" "s < 86400" "0 \<le> a" "a < 86400" "0 \<le> b" "b < 86400" "a \<noteq> b"
  shows "(e * 86400 + s - a) mod 604800 < (b - a) mod 86400 \<longleftrightarrow>
      a < b \<and> e = 0 \<and> a \<le> s \<and> s < b \<or> b < a \<and> (e = 0 \<and> a \<le> s \<or> (e = 1 \<or> e = -6) \<and> s < b)"
    (is "?l \<longleftrightarrow> ?r")
    and "e = 0 \<Longrightarrow> a \<le> s \<Longrightarrow> (e * 86400 + s - a) mod 604800 = s - a"
    and "e = 1 \<or> e = -6 \<Longrightarrow> s < b \<Longrightarrow> b < a \<Longrightarrow> (e * 86400 + s - a) mod 604800 = 86400 + s - a"
proof -
  let ?x = "e * 86400 + s - a"
  have wrap: "y mod k = (if 0 \<le> y then y else y + k)" if "- k \<le> y" "y < k" for y k :: int
    using that mod_add_self2 [of y k] by (cases "0 \<le> y") (auto simp del: mod_add_self2)
  have x: "?x mod 604800 = (if 0 \<le> ?x then ?x else ?x + 604800)"
    using assms by (intro wrap) auto
  have l: "(b - a) mod 86400 = (if a < b then b - a else b - a + 86400)"
    using assms by (subst wrap) auto
  consider "e \<le> -1" "e \<noteq> -6" | "e = -6" | "e = 0" | "e = 1" | "e \<ge> 2" by linarith
  then show "?l \<longleftrightarrow> ?r" unfolding x l using assms by cases auto
  show "e = 0 \<Longrightarrow> a \<le> s \<Longrightarrow> ?x mod 604800 = s - a" unfolding x by auto
  show "e = 1 \<or> e = -6 \<Longrightarrow> s < b \<Longrightarrow> b < a \<Longrightarrow> ?x mod 604800 = 86400 + s - a" unfolding x using assms by auto
qed

text \<open>
  What the formatter, the parser and the calendar of Poco document, at the instant \<open>now\<close>
  (microseconds since the epoch): the time of the day is printed with two digits per field, day 0
  of the epoch was a Thursday, and a date printed for today or tomorrow, with a time, is read back.
\<close>

definition utc_doc :: "platform \<Rightarrow> int \<Rightarrow> bool" where
  "utc_doc P now \<longleftrightarrow> po_format P now ''%H:%M:%S'' = show_time (now div 1000000 mod 86400)
     \<and> po_dayOfWeek P now = (now div 1000000 div 86400 + 4) mod 7
     \<and> (\<forall>t. 0 \<le> t \<and> t < 86400 \<longrightarrow>
          po_parse P ''%Y-%m-%d %H:%M:%S'' (po_format P now ''%Y-%m-%d'' @ '' '' @ show_time t)
            = Some ((now div 1000000 div 86400 * 86400 + t) * 1000000)
        \<and> po_parse P ''%Y-%m-%d %H:%M:%S'' (po_format P (now + 86400000000) ''%Y-%m-%d'' @ '' '' @ show_time t)
            = Some (((now div 1000000 div 86400 + 1) * 86400 + t) * 1000000))"

text \<open>Seconds since the last beginning of a window that opens on weekday \<open>d\<close> at second \<open>a\<close> of the day.\<close>

definition since :: "int \<Rightarrow> int \<Rightarrow> int \<Rightarrow> int" where
  "since sec a d = (sec + 4 * 86400 - d * 86400 - a) mod 604800"

lemma since_weekday:
  fixes sec a d :: int
  shows "since sec a d = (((sec div 86400 + 4) mod 7 - d) * 86400 + sec mod 86400 - a) mod 604800"
proof -
  let ?D = "sec div 86400 + 4"
  have "sec + 4 * 86400 - d * 86400 - a = (?D mod 7 - d) * 86400 + sec mod 86400 - a + 604800 * (?D div 7)"
  proof -
    have "sec + 4 * 86400 - d * 86400 - a = (m - d) * 86400 + u - a + 604800 * q"
      if "sec = t * 86400 + u" "t + 4 = q * 7 + m" for t u q m
      using that by (simp add: algebra_simps)
    from this [of "sec div 86400" "sec mod 86400" "?D div 7" "?D mod 7"] show ?thesis by simp
  qed
  then show ?thesis unfolding since_def by (simp only: mod_mult_self2)
qed

lemma stop_epoch_future:
  assumes "po_parse P ''%Y-%m-%d %H:%M:%S'' s = Some (x * 1000000)" "now div 1000000 < x"
  shows "stop_epoch P now s = (True, x)"
  using assms by (auto simp: stop_epoch_def)

lemma weekly_cases:
  assumes "utc_doc P now" "fr_hasStartTime r" "fr_hasStopTime r"
    and "fr_startTime r = show_time a" "fr_stopTime r = show_time b"
    and "0 \<le> a" "a < 86400" "0 \<le> b" "b < 86400" "a \<noteq> b"
    and "s = now div 1000000 mod 86400" "D = now div 1000000 div 86400" "W = set (fr_weekdays r)"
    and "wd = (D + 4) mod 7"
  shows "weekly_active P (po_dayOfWeek P now) (po_format P now ''%Y-%m-%d'') (po_format P now ''%H:%M:%S'') r now =
    (if a < b then if wd \<in> W \<and> a \<le> s \<and> s < b then (True, D * 86400 + b) else (False, 0)
     else if wd \<in> W \<and> a \<le> s then (True, (D + 1) * 86400 + b)
     else if (wd + 6) mod 7 \<in> W \<and> s < b then (True, D * 86400 + b) else (False, 0))"
proof -
  have s: "0 \<le> s" "s < 86400" "now div 1000000 = D * 86400 + s" using assms(11,12) by simp_all
  have less: "show_time x < show_time y \<longleftrightarrow> x < y" if "x \<in> {a, b, s}" "y \<in> {a, b, s}" for x y
    using that assms(6-9) s(1,2) by (intro show_time_less) auto
  have le: "show_time x \<le> show_time y \<longleftrightarrow> x \<le> y" if "x \<in> {a, b, s}" "y \<in> {a, b, s}" for x y
    using less [of y x] that by (metis linorder_not_less)
  have ne: "show_time a \<noteq> show_time b" using less [of a b] less [of b a] assms(10) by (cases "a < b") auto
  have p: "po_parse P ''%Y-%m-%d %H:%M:%S'' (po_format P now ''%Y-%m-%d'' @ '' '' @ show_time b)
        = Some ((D * 86400 + b) * 1000000)"
    "po_parse P ''%Y-%m-%d %H:%M:%S'' (po_format P (now + 86400000000) ''%Y-%m-%d'' @ '' '' @ show_time b)
        = Some (((D + 1) * 86400 + b) * 1000000)"
    using assms(1,8,9) unfolding utc_doc_def assms(12) by blast+
  have today: "stop_epoch P now (po_format P now ''%Y-%m-%d'' @ '' '' @ show_time b) = (True, D * 86400 + b)" if "s < b"
    using that s(3) by (intro stop_epoch_future [OF p(1)]) linarith
  have tomorrow: "stop_epoch P now (po_format P (now + 86400000000) ''%Y-%m-%d'' @ '' '' @ show_time b)
      = (True, (D + 1) * 86400 + b)"
    using s assms(8) by (intro stop_epoch_future [OF p(2)]) (simp add: algebra_simps)
  have fmt: "po_format P now ''%H:%M:%S'' = show_time s" "po_dayOfWeek P now = wd"
    using assms(1) by (simp_all add: utc_doc_def assms(11,12,14))
  show ?thesis
    unfolding weekly_active_def fmt using assms(2-5,13) ne today tomorrow by (auto simp: less le Let_def)
qed

lemma since_window:
  fixes a b d sec :: int
  assumes ab: "0 \<le> a" "a < 86400" "0 \<le> b" "b < 86400" "a \<noteq> b" and d: "0 \<le> d" "d \<le> 6"
    and s: "s = sec mod 86400" and wd: "wd = (sec div 86400 + 4) mod 7"
  shows "since sec a d < (b - a) mod 86400 \<longleftrightarrow> a < b \<and> d = wd \<and> a \<le> s \<and> s < b
      \<or> b < a \<and> (d = wd \<and> a \<le> s \<or> d = (wd + 6) mod 7 \<and> s < b)"
    and "a \<le> s \<Longrightarrow> since sec a wd = s - a"
    and "d = (wd + 6) mod 7 \<Longrightarrow> s < b \<Longrightarrow> b < a \<Longrightarrow> since sec a d = 86400 + s - a"
proof -
  have s': "0 \<le> s" "s < 86400" by (simp_all add: s)
  have w: "0 \<le> wd" "wd \<le> 6" by (simp_all add: wd)
  have sin: "since sec a x = ((wd - x) * 86400 + s - a) mod 604800" for x
    by (simp add: since_weekday s wd)
  have e: "-6 \<le> wd - d" "wd - d \<le> 6" using d w by linarith+
  have "(wd + 6) mod 7 = (if wd = 0 then 6 else wd - 1)"
    using w mod_add_self2 [of "wd - 1" 7] by (auto simp: add.commute simp del: mod_add_self2)
  then have prev: "wd - d = 1 \<or> wd - d = -6 \<longleftrightarrow> d = (wd + 6) mod 7" using w d by auto
  note win = window_day [OF e s' ab]
  show "since sec a d < (b - a) mod 86400 \<longleftrightarrow> a < b \<and> d = wd \<and> a \<le> s \<and> s < b
      \<or> b < a \<and> (d = wd \<and> a \<le> s \<or> d = (wd + 6) mod 7 \<and> s < b)"
    unfolding sin win(1) prev by auto
  show "a \<le> s \<Longrightarrow> since sec a wd = s - a"
    using window_day(2) [of 0 s a b] s' ab by (simp add: sin)
  show "d = (wd + 6) mod 7 \<Longrightarrow> s < b \<Longrightarrow> b < a \<Longrightarrow> since sec a d = 86400 + s - a"
    using win(3) prev unfolding sin by blast
qed

text \<open>
  (C16) A recurring rule blocks exactly during its weekly windows: at any instant it is active iff some
  of its weekdays began a window less than the length of the window ago, also across midnight and
  across the end of the week, and the end it reports is the end of that window.  Times are compared
  as strings by the code and as seconds here.
\<close>

theorem weekly_rule_window:
  assumes "utc_doc P now" and "fr_hasSection r" "fr_hasEnabled r" "fr_enabled r" "fr_macs r \<noteq> []"
    and "fr_hasWeekdays r" "fr_hasStartTime r" "fr_hasStopTime r"
    and "fr_startTime r = show_time a" "fr_stopTime r = show_time b"
    and "0 \<le> a" "a < 86400" "0 \<le> b" "b < 86400" "a \<noteq> b"
    and "set (fr_weekdays r) \<subseteq> {0..6}"
    and "sec = now div 1000000" "len = (b - a) mod 86400"
  shows "(fst (active_now P now r) \<longleftrightarrow> (\<exists>d \<in> set (fr_weekdays r). since sec a d < len))
    \<and> (\<forall>d \<in> set (fr_weekdays r). since sec a d < len \<longrightarrow> snd (active_now P now r) = sec - since sec a d + len)"
proof -
  define s D where "s = sec mod 86400" and "D = sec div 86400"
  define wd where "wd = (D + 4) mod 7"
  let ?W = "set (fr_weekdays r)"
  have act: "active_now P now r = weekly_active P (po_dayOfWeek P now) (po_format P now ''%Y-%m-%d'')
      (po_format P now ''%H:%M:%S'') r now"
    using assms(2-6) by (simp add: active_now_def IsRuleActive_def)
  have c: "active_now P now r =
    (if a < b then if wd \<in> ?W \<and> a \<le> s \<and> s < b then (True, D * 86400 + b) else (False, 0)
     else if wd \<in> ?W \<and> a \<le> s then (True, (D + 1) * 86400 + b)
     else if (wd + 6) mod 7 \<in> ?W \<and> s < b then (True, D * 86400 + b) else (False, 0))"
    unfolding act by (rule weekly_cases [OF assms(1,7-15)]) (simp_all add: s_def D_def wd_def assms(17))
  have sec: "sec = D * 86400 + s" by (simp add: s_def D_def)
  have win: "0 \<le> d" "d \<le> 6" if "d \<in> ?W" for d using that assms(16) by auto
  note el = since_window(1) [OF assms(11-15) win s_def wd_def [unfolded D_def], folded assms(18)]
  have v: "since sec a wd = s - a" if "a \<le> s"
    using since_window(2) [OF assms(11-15), of wd s sec wd] that by (simp add: s_def wd_def D_def)
  note v1 = since_window(3) [OF assms(11-15) win s_def wd_def [unfolded D_def]]
  have len: "len = (if a < b then b - a else b - a + 86400)"
    using assms(11-15,18) mod_add_self2 [of "b - a" 86400] by (auto simp del: mod_add_self2)
  have "fst (active_now P now r) \<longleftrightarrow> (\<exists>d \<in> ?W. since sec a d < len)"
    using assms(15) unfolding c by (auto simp: el)
  moreover have "snd (active_now P now r) = sec - since sec a d + len" if d: "d \<in> ?W" "since sec a d < len" for d
  proof -
    have "a < b \<and> d = wd \<and> a \<le> s \<and> s < b \<or> b < a \<and> (d = wd \<and> a \<le> s \<or> d = (wd + 6) mod 7 \<and> s < b)"
      using d el by blast
    then show ?thesis
      using d(1) v v1 [OF d(1) d(1)] unfolding c len sec by auto
  qed
  ultimately show ?thesis by blast
qed

lemma digs_two_digits: "0 \<le> n \<Longrightarrow> n < 100 \<Longrightarrow> digs (two_digits n) = Some n"
  by (auto simp: digs_def two_digits_def chr_code_dig)

lemma read_show_time:
  assumes "0 \<le> t" "t < 86400"
  shows "read_time (show_time t) = Some t"
proof -
  have t: "t mod 86400 = t" using assms by simp
  have b: "0 \<le> t div 3600" "t div 3600 < 24" using assms by auto
  have "take 2 (show_time t) = two_digits (t div 3600)" "take 2 (drop 3 (show_time t)) = two_digits (t div 60 mod 60)"
    "drop 6 (show_time t) = two_digits (t mod 60)" "length (show_time t) = 8"
    "show_time t ! 2 = CHR '':''" "show_time t ! 5 = CHR '':''"
    by (simp_all add: show_time_def t two_digits_def eval_nat_numeral)
  moreover have "t div 3600 * 3600 + t div 60 mod 60 * 60 + t mod 60 = t"
  proof -
    have "t div 3600 = t div 60 div 60" by (simp add: zdiv_zmult2_eq [symmetric])
    moreover have "t div 60 = t div 60 div 60 * 60 + t div 60 mod 60" "t = t div 60 * 60 + t mod 60" by simp_all
    ultimately show ?thesis by linarith
  qed
  ultimately show ?thesis using b by (simp add: read_time_def digs_two_digits)
qed

text \<open>Noon of a Friday, with a rule from 22:00 on Thursdays and Fridays to 13:00 of the next day.\<close>

definition sample_now :: int where "sample_now = 1728043200000000"

definition sample_rule :: FirewallRuleInfo where
  "sample_rule = FirewallRuleInfo_fresh\<lparr>fr_hasSection := True, fr_hasEnabled := True, fr_enabled := True,
     fr_macs := [''aabbcc001122''], fr_hasWeekdays := True, fr_weekdays := [4, 5], fr_hasStartTime := True,
     fr_hasStopTime := True, fr_startTime := show_time 79200, fr_stopTime := show_time 46800\<rparr>"

lemma sample_dates:
  "ref_format sample_now ''%Y-%m-%d'' = ''2024-10-04''" "read_date ''2024-10-04'' = Some 1728000000"
  "ref_format (sample_now + 86400000000) ''%Y-%m-%d'' = ''2024-10-05''" "read_date ''2024-10-05'' = Some 1728086400"
  by code_simp+

lemma sample_utc_doc: "utc_doc ref_platform sample_now"
  unfolding utc_doc_def using read_show_time
  by (auto simp: ref_platform_def sample_dates ref_parse_def)
    (simp_all add: sample_now_def ref_format_def show_time_def Let_def)

theorem weekly_rule_window_witness:
  "active_now ref_platform sample_now sample_rule = (True, 1728046800)"
proof -
  have s: "since 1728043200 79200 4 = 50400" "since 1728043200 79200 5 = 568800"
    by (simp_all add: since_def)
  have "(fst (active_now ref_platform sample_now sample_rule) \<longleftrightarrow>
      (\<exists>d \<in> set (fr_weekdays sample_rule). since 1728043200 79200 d < 54000))
    \<and> (\<forall>d \<in> set (fr_weekdays sample_rule). since 1728043200 79200 d < 54000 \<longrightarrow>
        snd (active_now ref_platform sample_now sample_rule) = 1728043200 - since 1728043200 79200 d + 54000)"
    by (rule weekly_rule_window [OF sample_utc_doc, where b = 46800])
      (simp_all add: sample_rule_def sample_now_def)
  then show ?thesis by (simp add: sample_rule_def s prod_eq_iff)
qed

definition sample_raw :: "json list" where
  "sample_raw = [
     JArray [JString ''set'', JString ''firewall.pc_client_access_1'', JString ''rule''],
     JArray [JString ''set'', JString ''firewall.pc_client_access_1.enabled'', JString ''1''],
     JArray [JString ''add_list'', JString ''firewall.pc_client_access_1.src_mac'', JString ''aabbcc001122'']]"

lemma sample_rules: "collect_rules ref_platform sample_raw [] = [(''firewall.pc_client_access_1'',
    FirewallRuleInfo_fresh\<lparr>fr_hasSection := True, fr_hasEnabled := True, fr_enabled := True,
      fr_isClientAccessRule := True, fr_macs := [''aabbcc001122'']\<rparr>)]"
  by (simp add: sample_raw_def apply_command_def CLIENT_ACCESS_PREFIX_def SCHEDULE_PREFIX_def Let_def
      conv_docD(1) [OF ref_platform_docs(6)] set_param_def FirewallRuleInfo_fresh_def
      NormalizeMac_eq [OF ref_platform_docs(4,1)] strip_mac_def ctype_defs char_of_def bit_Suc_0_iff)

theorem GetBlockedClients_exact_witness:
  "''aabbcc001122'' \<in> fst ` set (snd (fst (run_state
     (GetBlockedClients ref_platform (Some [(''config-raw'', JArray sample_raw)]) '''') (sample_world (\<lambda>_ _. None)))))"
proof -
  let ?m = "GetBlockedClients ref_platform (Some [(''config-raw'', JArray sample_raw)]) ''''"
  let ?w = "sample_world (\<lambda>_ _. None)"
  obtain okv res w1 where r: "run_state ?m ?w = ((okv, res), w1)" by (metis prod.exhaust)
  have a: "getArray [(''config-raw'', JArray sample_raw)] ''config-raw'' = Some sample_raw"
    by (simp add: getArray_def getVar_def)
  from GetBlockedClients_exact [OF a r refl refl, of "''aabbcc001122''" "[]"]
  have "''aabbcc001122'' \<in> fst ` set res"
    by (simp add: sample_rules active_now_def IsRuleActive_def FirewallRuleInfo_fresh_def)
  then show ?thesis by (simp add: r)
qed

end
