(* ===== verification/Topology.thy ===== *)
theory Topology
  imports ConfigRaw Blocked
begin

text \<open>
  The topology of a subscriber's network (\<^verbatim>\<open>src/RESTAPI/RESTAPI_topology_handler.cpp\<close>): the devices of
  the subscriber and its gateway are looked up, the topology of the venue's board is fetched, reduced
  to the subscriber's own devices, and every client in it is marked as blocked or not.
\<close>

section \<open>Looking up the context\<close>

record VenueTopologyContext =
  vt_boardId :: string
  vt_timezone :: string

definition FetchSubscriberDevices :: "platform \<Rightarrow> handler \<Rightarrow> SubscriberDeviceList option io" where
  "FetchSubscriberDevices P H = do {
     (okv, devices, callStatus, callResponse) \<leftarrow> Prov_Subscriber_GetDevices P None (h_id H) (h_owner H) (Some []);
     if okv then ret (Some devices)
     else if callStatus = HTTP_NOT_FOUND then fail_with (BadRequest H Errors_SubNoDeviceActivated [])
     else if callStatus \<noteq> HTTP_OK then fail_with (ForwardErrorResponse callStatus callResponse)
     else fail_with (InternalError H Errors_InternalError)
   }"

text \<open>Without a gateway the client gets an empty object and the request ends.\<close>

definition FindGatewaySerial :: "platform \<Rightarrow> SubscriberDeviceList \<Rightarrow> string option io" where
  "FindGatewaySerial P devices = (let gatewaySerial = find_gateway P (sdl_subscriberDevices devices) in
     if gatewaySerial = [] then fail_with (ReturnObject []) else ret (Some gatewaySerial))"

definition venue_of_gateway :: "platform \<Rightarrow> handler \<Rightarrow> string \<Rightarrow> Venue option io" where
  "venue_of_gateway P H gatewaySerial =
     (if gatewaySerial = [] then fail_with (BadRequest H Errors_MissingSerialNumber [])
      else do {
        (okd, inventory) \<leftarrow> Prov_Device_Get P None gatewaySerial InventoryTag_fresh;
        if \<not> okd then fail_with (BadRequest H Errors_SubNoDeviceActivated [])
        else if it_venue inventory = [] then fail_with (BadRequest H Errors_VenueMustExist [])
        else do {
          (okv, venue, callStatus, callResponse) \<leftarrow> Prov_Venue_Get P None (it_venue inventory) Venue_fresh (Some []);
          if okv then ret (Some venue)
          else if callStatus \<noteq> HTTP_OK then fail_with (ForwardErrorResponse callStatus callResponse)
          else fail_with (InternalError H Errors_InternalError)
        }
      })"

definition timezone_of_venue :: "platform \<Rightarrow> handler \<Rightarrow> Venue \<Rightarrow> string option io" where
  "timezone_of_venue P H venue = do {
     (okl, location, callStatus, callResponse) \<leftarrow> Prov_Location_Get P None (ve_location venue);
     if okl then
       (if lo_timezone location = [] then fail_with (BadRequest H Errors_TimezoneRequired [])
        else if po_locate_zone P (lo_timezone location) = None then fail_with (BadRequest H Errors_TimezoneRequired [])
        else ret (Some (lo_timezone location)))
     else if callStatus \<noteq> HTTP_OK then fail_with (ForwardErrorResponse callStatus callResponse)
     else fail_with (InternalError H Errors_InternalError)
   }"

definition ResolveVenueTopologyContext :: "platform \<Rightarrow> handler \<Rightarrow> string \<Rightarrow> VenueTopologyContext option io" where
  "ResolveVenueTopologyContext P H gatewaySerial = guard_step (venue_of_gateway P H gatewaySerial) (\<lambda>venue.
     (case ve_boards venue of [] \<Rightarrow> fail_with (NotFound H)
      | boardId # _ \<Rightarrow>
          if boardId = [] then fail_with (NotFound H)
          else if ve_location venue = [] then fail_with (BadRequest H Errors_TimezoneRequired [])
          else guard_step (timezone_of_venue P H venue)
            (\<lambda>tz. ret (Some \<lparr>vt_boardId = boardId, vt_timezone = tz\<rparr>))))"

definition FetchTopology :: "platform \<Rightarrow> handler \<Rightarrow> string \<Rightarrow> jobj ptr option io" where
  "FetchTopology P H boardId = do {
     (okv, topoStatus, topologyResponse) \<leftarrow> Topology_Get P None boardId (Some []);
     if okv then ret (Some topologyResponse)
     else if topoStatus \<noteq> HTTP_OK then fail_with (ForwardErrorResponse topoStatus topologyResponse)
     else fail_with (InternalError H Errors_InternalError)
   }"

section \<open>Filtering\<close>

definition BuildAllowedSerialsSet :: "SubscriberDeviceList \<Rightarrow> string list" where
  "BuildAllowedSerialsSet devices = filter (\<lambda>s. s \<noteq> []) (map sd_serialNumber (sdl_subscriberDevices devices))"

definition node_allowed :: "string list \<Rightarrow> json \<Rightarrow> bool" where
  "node_allowed allowed node = (case node of
     JObject ob \<Rightarrow> has ob ''serial'' \<and> (case getVar ob ''serial'' of JString s \<Rightarrow> s \<in> set allowed | _ \<Rightarrow> False)
   | _ \<Rightarrow> False)"

definition FilterTopologyNodes :: "SubscriberDeviceList \<Rightarrow> jobj \<Rightarrow> jobj" where
  "FilterTopologyNodes devices topo = (case getArray topo ''nodes'' of None \<Rightarrow> topo
     | Some nodes \<Rightarrow> set_key ''nodes'' (JArray (filter (node_allowed (BuildAllowedSerialsSet devices)) nodes)) topo)"

definition edge_allowed :: "string list \<Rightarrow> json \<Rightarrow> bool" where
  "edge_allowed allowed edge = (case edge of
     JObject ob \<Rightarrow> has ob ''from'' \<and> has ob ''to'' \<and>
       (case (getVar ob ''from'', getVar ob ''to'') of
          (JString a, JString b) \<Rightarrow> a \<in> set allowed \<and> b \<in> set allowed | _ \<Rightarrow> False)
   | _ \<Rightarrow> False)"

definition filter_edge_type :: "string list \<Rightarrow> string \<Rightarrow> jobj \<Rightarrow> jobj" where
  "filter_edge_type allowed edgeType edges = (case getArray edges edgeType of None \<Rightarrow> edges
     | Some edgeArray \<Rightarrow> set_key edgeType (JArray (filter (edge_allowed allowed) edgeArray)) edges)"

text \<open>The edges object is shared with the response, so the change is seen there.\<close>

definition FilterTopologyEdges :: "SubscriberDeviceList \<Rightarrow> jobj \<Rightarrow> jobj" where
  "FilterTopologyEdges devices topo = (case getObject topo ''edges'' of None \<Rightarrow> topo
     | Some edges \<Rightarrow> let allowed = BuildAllowedSerialsSet devices in
         set_key ''edges'' (JObject (filter_edge_type allowed ''wired'' (filter_edge_type allowed ''mesh'' edges))) topo)"

section \<open>Marking blocked clients\<close>

text \<open>The blocked clients by their colon-separated address; a later entry overrides an earlier one.\<close>

definition blocked_set :: "(string \<times> string) list \<Rightarrow> string \<Rightarrow> string option" where
  "blocked_set blocked = map_of (rev (map (\<lambda>(mac, until). (SerialToMAC mac, until)) blocked))"

fun historical_clients :: "platform \<Rightarrow> (string \<Rightarrow> string option) \<Rightarrow> json list \<Rightarrow> json list" where
  "historical_clients P blocked [] = []"
| "historical_clients P blocked (x # xs) = (case po_toString P x of Inl _ \<Rightarrow> historical_clients P blocked xs
     | Inr station \<Rightarrow> JObject (case blocked (po_toLower P station) of
           Some until \<Rightarrow> set_key ''blocked_until'' (JString until) (set_key ''blocked'' (JString ''1'')
             (set_key ''station'' (JString station) []))
         | None \<Rightarrow> set_key ''blocked'' (JString ''0'') (set_key ''station'' (JString station) []))
       # historical_clients P blocked xs)"

definition tag_client :: "platform \<Rightarrow> (string \<Rightarrow> string option) \<Rightarrow> json \<Rightarrow> json" where
  "tag_client P blocked client = (case client of
     JObject ob \<Rightarrow> (if \<not> has ob ''station'' then client else (case getVar ob ''station'' of
         JString station \<Rightarrow> JObject (case blocked (po_toLower P station) of
             Some until \<Rightarrow> set_key ''blocked_until'' (JString until) (set_key ''blocked'' (JString ''1'') ob)
           | None \<Rightarrow> remove_key ''blocked_until'' (set_key ''blocked'' (JString ''0'') ob))
       | _ \<Rightarrow> client))
   | _ \<Rightarrow> client)"

fun tag_ap :: "platform \<Rightarrow> (string \<Rightarrow> string option) \<Rightarrow> json \<Rightarrow> json" where
  "tag_ap P blocked (JObject ap) = JObject (update_array ''clients'' (tag_client P blocked) ap)"
| "tag_ap P blocked ap = ap"

text \<open>A node that is not an object is a null pointer, and dereferencing it throws.\<close>

fun tag_nodes :: "platform \<Rightarrow> (string \<Rightarrow> string option) \<Rightarrow> json list \<Rightarrow> json list option" where
  "tag_nodes P blocked [] = Some []"
| "tag_nodes P blocked (JObject node # nodes) =
     map_option (\<lambda>ns. JObject (update_array ''aps'' (tag_ap P blocked) node) # ns) (tag_nodes P blocked nodes)"
| "tag_nodes P blocked (_ # nodes) = None"

definition tag_topology :: "platform \<Rightarrow> (string \<Rightarrow> string option) \<Rightarrow> jobj \<Rightarrow> jobj option" where
  "tag_topology P blocked topo =
     (let topo1 = (case getArray topo ''historicalDevices'' of None \<Rightarrow> topo
          | Some ds \<Rightarrow> remove_key ''historicalDevices''
              (set_key ''historicalClients'' (JArray (historical_clients P blocked ds)) topo))
      in (case getArray topo1 ''nodes'' of None \<Rightarrow> Some topo1
          | Some nodes \<Rightarrow> map_option (\<lambda>ns. set_key ''nodes'' (JArray ns) topo1) (tag_nodes P blocked nodes)))"

definition TagBlockedClients :: "platform \<Rightarrow> string \<Rightarrow> jobj \<Rightarrow> string \<Rightarrow> jobj option io" where
  "TagBlockedClients P gatewaySerial topo timezoneStr = do {
     (gotConfig, status, deviceObj) \<leftarrow> GetConfig P None gatewaySerial;
     let config = (if gotConfig then (case deviceObj of None \<Rightarrow> None | Some ob \<Rightarrow> getObject ob ''configuration'') else None);
     (_, blocked) \<leftarrow> (if config = None then ret (False, []) else GetBlockedClients P config timezoneStr);
     ret (tag_topology P (blocked_set blocked) topo)
   }"

definition FinalizeTopologyResponse ::
  "platform \<Rightarrow> SubscriberDeviceList \<Rightarrow> string \<Rightarrow> VenueTopologyContext \<Rightarrow> jobj \<Rightarrow> jobj option io" where
  "FinalizeTopologyResponse P devices gatewaySerial ctx topo = do {
     t \<leftarrow> TagBlockedClients P gatewaySerial (FilterTopologyEdges devices (FilterTopologyNodes devices topo)) (vt_timezone ctx);
     ret (map_option (set_key ''timezone'' (JString (vt_timezone ctx))) t)
   }"

definition topology_DoGet :: "platform \<Rightarrow> handler \<Rightarrow> unit io" where
  "topology_DoGet P H =
     (if h_id H = [] then NotFound H
      else guard (FetchSubscriberDevices P H) (\<lambda>devices.
        guard (FindGatewaySerial P devices) (\<lambda>gatewaySerial.
        guard (ResolveVenueTopologyContext P H gatewaySerial) (\<lambda>ctx.
        guard (FetchTopology P H (vt_boardId ctx)) (\<lambda>topologyResponse.
          deref (null_pointer H) topologyResponse (\<lambda>topo. do {
            t \<leftarrow> FinalizeTopologyResponse P devices gatewaySerial ctx topo;
            deref (null_pointer H) t ReturnObject
          }))))))"

section \<open>Effects\<close>

lemmas lookup_defs = FetchSubscriberDevices_def FindGatewaySerial_def venue_of_gateway_def
  timezone_of_venue_def ResolveVenueTopologyContext_def FetchTopology_def

lemma topology_replies [replies_intros]:
  "answers_fail (FetchSubscriberDevices P H)" "answers_fail (FindGatewaySerial P devices)"
  "answers_fail (ResolveVenueTopologyContext P H g)" "answers_fail (FetchTopology P H b)"
  "silent (FinalizeTopologyResponse P devices g ctx topo)"
  unfolding lookup_defs FinalizeTopologyResponse_def TagBlockedClients_def Let_def
  by (intro replies_intros)+

text \<open>A call that reads: for the subscriber's own devices, or for a record found through them.\<close>

definition topology_call :: "handler \<Rightarrow> api_call \<Rightarrow> bool" where
  "topology_call H c \<longleftrightarrow> c_verb c = ''GET'' \<and> c_body c = None \<and>
     (c_type c = uSERVICE_PROVISIONING \<and> (c_path c = ''/api/v1/subscriberDevice'' \<longrightarrow>
          c_query c = [(''subscriberId'', h_id H), (''operatorId'', h_owner H)])
      \<or> c_type c = uSERVICE_NETWORK_TOPOLOGY \<or> c_type c = uSERVICE_GATEWAY)"

lemma once_topology: "answers_once (topology_DoGet P H)"
  unfolding topology_DoGet_def by (intro replies_intros)

lemma emits_topology: "emits (topology_call H) (topology_DoGet P H)"
  unfolding topology_DoGet_def lookup_defs FinalizeTopologyResponse_def TagBlockedClients_def Let_def
    Prov_Subscriber_GetDevices_def Prov_Device_Get_def Prov_Venue_Get_def Prov_Location_Get_def
    Topology_Get_def GetConfig_def OpenAPIRequestGet_def
  by (intro emits_intros emits_transmit) (simp_all add: topology_call_def)

section \<open>Filtering: lemmas\<close>

definition serial_of :: "json \<Rightarrow> string option" where
  "serial_of node = (case node of JObject ob \<Rightarrow> getString ob ''serial'' | _ \<Rightarrow> None)"

lemma node_allowed_iff: "node_allowed allowed node \<longleftrightarrow> (\<exists>s \<in> set allowed. serial_of node = Some s)"
  by (auto simp: node_allowed_def serial_of_def getString_iff isNull_def split: json.splits)

lemma serial_of_tagged: "serial_of (JObject (update_array ''aps'' f node)) = serial_of (JObject node)"
  by (simp add: serial_of_def getString_def isNull_def json_simps)

lemma tag_nodes_serials:
  "list_all (\<lambda>n. serial_of n \<noteq> None) nodes \<Longrightarrow>
   \<exists>ns. tag_nodes P blocked nodes = Some ns \<and> map serial_of ns = map serial_of nodes"
proof (induction P blocked nodes rule: tag_nodes.induct)
  case (2 P blocked node nodes)
  then show ?case by (auto simp: serial_of_tagged)
qed (auto simp: serial_of_def)

lemma filtered_topology:
  assumes "topo' = FilterTopologyEdges devices (FilterTopologyNodes devices topo)"
  shows "getArray topo' ''nodes'' = map_option (filter (node_allowed (BuildAllowedSerialsSet devices))) (getArray topo ''nodes'')"
    and "getObject topo' ''edges'' = map_option (\<lambda>edges. filter_edge_type (BuildAllowedSerialsSet devices) ''wired''
      (filter_edge_type (BuildAllowedSerialsSet devices) ''mesh'' edges)) (getObject topo ''edges'')"
  using assms by (auto simp: FilterTopologyEdges_def FilterTopologyNodes_def json_simps Let_def split: option.splits)

lemma filtered_edges:
  assumes "t \<in> {''mesh'', ''wired''}"
  shows "getArray (filter_edge_type allowed ''wired'' (filter_edge_type allowed ''mesh'' edges)) t =
    map_option (filter (edge_allowed allowed)) (getArray edges t)"
  using assms by (auto simp: filter_edge_type_def json_simps split: option.splits)

lemma tag_topology_frame:
  assumes "map_option (list_all (\<lambda>n. serial_of n \<noteq> None)) (getArray topo ''nodes'') \<noteq> Some False"
  shows "\<exists>ob. tag_topology P blocked topo = Some ob \<and> getObject ob ''edges'' = getObject topo ''edges''
    \<and> map_option (map serial_of) (getArray ob ''nodes'') = map_option (map serial_of) (getArray topo ''nodes'')"
proof -
  let ?topo1 = "case getArray topo ''historicalDevices'' of None \<Rightarrow> topo
      | Some ds \<Rightarrow> remove_key ''historicalDevices''
          (set_key ''historicalClients'' (JArray (historical_clients P blocked ds)) topo)"
  have f: "getArray ?topo1 ''nodes'' = getArray topo ''nodes''" "getObject ?topo1 ''edges'' = getObject topo ''edges''"
    by (auto simp: json_simps split: option.splits)
  show ?thesis
  proof (cases "getArray topo ''nodes''")
    case None
    then show ?thesis using f by (auto simp: tag_topology_def Let_def)
  next
    case (Some nodes)
    then obtain ns where "tag_nodes P blocked nodes = Some ns" "map serial_of ns = map serial_of nodes"
      using assms tag_nodes_serials by fastforce
    then show ?thesis using f Some by (auto simp: tag_topology_def Let_def json_simps)
  qed
qed

lemma map_serials_filter:
  "map serial_of (filter (node_allowed allowed) nodes)
   = filter (\<lambda>s. s \<in> Some ` set allowed) (map serial_of nodes)"
  by (induction nodes) (auto simp: node_allowed_iff)


definition sample_topology :: jobj where
  "sample_topology = [(''nodes'', JArray [JObject [(''serial'', JString ''112233445566'')],
     JObject [(''serial'', JString ''0123456789ab'')]])]"


section \<open>Marking: lemmas\<close>

lemma inj_SerialToMAC: "canonical_mac a \<Longrightarrow> canonical_mac b \<Longrightarrow> SerialToMAC a = SerialToMAC b \<longleftrightarrow> a = b"
  by (metis strip_SerialToMAC)

lemma blocked_set_iff:
  assumes "distinct (map fst blocked)" "list_all (\<lambda>e. canonical_mac (fst e)) blocked"
  shows "blocked_set blocked st = Some u \<longleftrightarrow> (\<exists>m. (m, u) \<in> set blocked \<and> SerialToMAC m = st)"
proof -
  have "inj_on SerialToMAC (fst ` set blocked)"
    using assms(2) by (auto simp: inj_on_def list_all_iff inj_SerialToMAC)
  then have "distinct (map SerialToMAC (map fst blocked))"
    using assms(1) by (simp only: distinct_map [of SerialToMAC] list.set_map simp_thms)
  then have "distinct (map fst (rev (map (\<lambda>(mac, until). (SerialToMAC mac, until)) blocked)))"
    by (simp add: rev_map [symmetric] comp_def split_beta)
  then show ?thesis
    unfolding blocked_set_def by (subst map_of_eq_Some_iff) auto
qed

text \<open>
  A client of the topology is marked as blocked exactly when its address, in any case, is that of
  a blocked client; it then carries the end of the block, and no other member of it changes.
\<close>

theorem tag_client_exact:
  assumes "lower_doc P" "distinct (map fst blocked)" "list_all (\<lambda>e. canonical_mac (fst e)) blocked"
    and "has ob ''station''" "getVar ob ''station'' = JString station"
  shows "\<exists>ob'. tag_client P (blocked_set blocked) (JObject ob) = JObject ob'
    \<and> getVar ob' ''blocked'' = JString (if \<exists>m \<in> fst ` set blocked. SerialToMAC m = map to_lower station then ''1'' else ''0'')
    \<and> ((m, u) \<in> set blocked \<and> SerialToMAC m = map to_lower station \<longrightarrow> getVar ob' ''blocked_until'' = JString u)
    \<and> (k \<notin> {''blocked'', ''blocked_until''} \<longrightarrow> getVar ob' k = getVar ob k)"
proof (cases "blocked_set blocked (map to_lower station)")
  case None
  then have n: "\<not> (\<exists>m u. (m, u) \<in> set blocked \<and> SerialToMAC m = map to_lower station)"
    using blocked_set_iff [OF assms(2,3)] by (metis option.distinct(1))
  then have "\<not> (\<exists>m \<in> fst ` set blocked. SerialToMAC m = map to_lower station)" by auto
  then show ?thesis
    using None n assms(1,4,5) by (auto simp: tag_client_def json_simps)
next
  case (Some v)
  then obtain m' where m': "(m', v) \<in> set blocked" "SerialToMAC m' = map to_lower station"
    using blocked_set_iff [OF assms(2,3)] by blast
  then have e: "\<exists>m \<in> fst ` set blocked. SerialToMAC m = map to_lower station" by force
  have "u = v" if "(m, u) \<in> set blocked" "SerialToMAC m = map to_lower station"
    using that Some blocked_set_iff [OF assms(2,3), of "map to_lower station" u] by auto
  then show ?thesis
    using Some e assms(1,4,5) by (auto simp: tag_client_def json_simps)
qed

theorem tag_client_exact_witness:
  "\<exists>ob'. tag_client ref_platform (blocked_set [(''aabbcc001122'', ''indefinite'')])
       (JObject [(''station'', JString ''AA:bb:CC:00:11:22'')]) = JObject ob'
     \<and> getVar ob' ''blocked'' = JString ''1''"
proof -
  have c: "canonical_mac ''aabbcc001122''" by (simp add: canonical_mac_def ctype_defs)
  have "SerialToMAC ''aabbcc001122'' = ''aa:bb:cc:00:11:22''"
    by (subst SerialToMAC_canonical) (simp_all add: ctype_defs)
  moreover have "map to_lower ''AA:bb:CC:00:11:22'' = ''aa:bb:cc:00:11:22''"
    by (simp add: ctype_defs char_of_def bit_Suc_0_iff)
  moreover have "\<exists>ob'. tag_client ref_platform (blocked_set [(''aabbcc001122'', ''indefinite'')])
       (JObject [(''station'', JString ''AA:bb:CC:00:11:22'')]) = JObject ob'
     \<and> getVar ob' ''blocked'' = JString (if \<exists>m \<in> fst ` set [(''aabbcc001122'', ''indefinite'')].
           SerialToMAC m = map to_lower ''AA:bb:CC:00:11:22'' then ''1'' else ''0'')"
    using tag_client_exact [OF ref_platform_docs(1), of "[(''aabbcc001122'', ''indefinite'')]"
        "[(''station'', JString ''AA:bb:CC:00:11:22'')]" "''AA:bb:CC:00:11:22''"] c
    by (fastforce simp: has_def getVar_def)
  ultimately show ?thesis by simp
qed

end
