(* ===== verification/ConfigMaker.thy ===== *)
theory ConfigMaker
  imports ProvObjects
begin

text \<open>
  Device configurations (\<^verbatim>\<open>src/ConfigMaker.cpp\<close>): the check of a gateway's configuration, the
  configuration a mesh device gets from it, the default SSIDs of a new gateway, and the split of a
  configuration into the weighted sections the provisioning service stores.
\<close>

definition DEFAULT_SSID_PREFIX :: string where "DEFAULT_SSID_PREFIX = ''OpenWifi-''"
definition MAC_SUFFIX_START_INDEX :: nat where "MAC_SUFFIX_START_INDEX = 8"
definition DEFAULT_DEVICE_CONFIG_WEIGHT :: uint64 where "DEFAULT_DEVICE_CONFIG_WEIGHT = 1"

definition BuildDefaultSsid :: "string \<Rightarrow> string" where
  "BuildDefaultSsid deviceMac = DEFAULT_SSID_PREFIX @
     (if length deviceMac > MAC_SUFFIX_START_INDEX then drop MAC_SUFFIX_START_INDEX deviceMac else deviceMac)"

section \<open>Weighted sections\<close>

text \<open>Only sections that are objects or arrays are kept.\<close>

definition AppendWeightedSection ::
  "platform \<Rightarrow> jobj \<Rightarrow> string \<Rightarrow> DeviceConfigurationElement list \<Rightarrow> DeviceConfigurationElement list" where
  "AppendWeightedSection P config name out =
     (if isArray config name \<or> isObject config name
      then out @ [DeviceConfigurationElement_fresh\<lparr>dc_name := name, dc_weight := DEFAULT_DEVICE_CONFIG_WEIGHT,
        dc_configuration := po_stringify P (JObject (set_key name (getVar config name) []))\<rparr>]
      else out)"

definition AppendWeightedSections :: "platform \<Rightarrow> jobj ptr \<Rightarrow> DeviceConfigurationElement list option" where
  "AppendWeightedSections P config = (case config of None \<Rightarrow> None
     | Some cfg \<Rightarrow> Some (fold (AppendWeightedSection P cfg) (getNames cfg) []))"

section \<open>Validation\<close>

text \<open>Whether an access-point and a mesh SSID were found; \<open>None\<close> for a malformed entry.\<close>

fun ssid_modes :: "json list \<Rightarrow> bool \<Rightarrow> bool \<Rightarrow> (bool \<times> bool) option" where
  "ssid_modes [] ap mesh = Some (ap, mesh)"
| "ssid_modes (JObject ssid # ssids) ap mesh = (case getString ssid ''bss-mode'' of None \<Rightarrow> None
     | Some mode \<Rightarrow> if mode = ''ap'' then ssid_modes ssids True mesh
         else if mode = ''mesh'' then ssid_modes ssids ap True else ssid_modes ssids ap mesh)"
| "ssid_modes (_ # ssids) ap mesh = None"

definition member_is :: "jobj \<Rightarrow> string \<Rightarrow> string \<Rightarrow> string \<Rightarrow> bool" where
  "member_is iface section key val \<longleftrightarrow>
     (case getObject iface section of None \<Rightarrow> False | Some ob \<Rightarrow> getString ob key = Some val)"

definition downstream_ok :: "jobj \<Rightarrow> bool" where
  "downstream_ok iface \<longleftrightarrow> member_is iface ''ipv4'' ''addressing'' ''static''
     \<and> member_is iface ''tunnel'' ''proto'' ''mesh''
     \<and> (case getArray iface ''ssids'' of None \<Rightarrow> False
        | Some ssids \<Rightarrow> ssids \<noteq> [] \<and> ssid_modes ssids False False = Some (True, True))"

definition no_ssids :: "jobj \<Rightarrow> bool" where
  "no_ssids iface \<longleftrightarrow> (case getArray iface ''ssids'' of None \<Rightarrow> True | Some ssids \<Rightarrow> ssids = [])"

fun validate_interfaces :: "json list \<Rightarrow> bool \<Rightarrow> bool" where
  "validate_interfaces [] downstreamFound = downstreamFound"
| "validate_interfaces (JObject iface # ifs) downstreamFound = (case getString iface ''role'' of None \<Rightarrow> False
     | Some role \<Rightarrow>
         if role = ''upstream'' then no_ssids iface \<and> validate_interfaces ifs downstreamFound
         else if role \<noteq> ''downstream'' then False
         else downstream_ok iface \<and> validate_interfaces ifs True)"
| "validate_interfaces (_ # ifs) downstreamFound = False"

definition ValidateConfig :: "jobj ptr \<Rightarrow> bool" where
  "ValidateConfig deviceConfig = (case deviceConfig of None \<Rightarrow> False
     | Some dc \<Rightarrow> (case getObject dc ''configuration'' of None \<Rightarrow> False
        | Some configuration \<Rightarrow> (case getArray configuration ''interfaces'' of None \<Rightarrow> False
           | Some interfaces \<Rightarrow> interfaces \<noteq> [] \<and> validate_interfaces interfaces False)))"

section \<open>Mesh configuration\<close>

text \<open>
  \<^verbatim>\<open>meshInterface["ipv4"] = ...\<close> of \<^verbatim>\<open>nlohmann::json\<close> turns a null into an object and throws for any
  other value that is not an object.
\<close>

definition dynamic_ipv4 :: json where
  "dynamic_ipv4 = JObject [(''addressing'', JString ''dynamic'')]"

fun mesh_interface :: "json \<Rightarrow> json option" where
  "mesh_interface (JObject iface) = Some (JObject (set_key ''ipv4'' dynamic_ipv4 iface))"
| "mesh_interface JNull = Some (JObject (set_key ''ipv4'' dynamic_ipv4 []))"
| "mesh_interface _ = None"

fun mesh_interfaces :: "json list \<Rightarrow> json list option" where
  "mesh_interfaces [] = Some []"
| "mesh_interfaces (i # is) = (case (mesh_interface i, mesh_interfaces is) of
     (Some m, Some ms) \<Rightarrow> Some (m # ms) | _ \<Rightarrow> None)"

definition mesh_document :: "json \<Rightarrow> json option" where
  "mesh_document cfg = (case cfg of
     JObject ob \<Rightarrow> (case getArray ob ''interfaces'' of
         Some (i # is) \<Rightarrow> map_option (\<lambda>ms. JObject (remove_key ''config-raw'' (set_key ''interfaces'' (JArray ms) ob)))
           (mesh_interfaces (i # is))
       | _ \<Rightarrow> Some (JObject (remove_key ''config-raw'' ob)))
   | _ \<Rightarrow> Some cfg)"

definition BuildMeshConfig :: "platform \<Rightarrow> jobj ptr \<Rightarrow> jobj option" where
  "BuildMeshConfig P inputConfig = (case inputConfig of None \<Rightarrow> None
     | Some ob \<Rightarrow> (case getObject ob ''configuration'' of None \<Rightarrow> None
        | Some gatewayConfig \<Rightarrow> (case po_nlohmann P (JObject gatewayConfig) of None \<Rightarrow> None
           | Some cfg \<Rightarrow> (case mesh_document cfg of None \<Rightarrow> None
              | Some doc \<Rightarrow> (case po_reparse P doc of Some (JObject out) \<Rightarrow> Some out | _ \<Rightarrow> None)))))"

section \<open>Default gateway configuration\<close>

definition default_ssid :: "string \<Rightarrow> string \<Rightarrow> json \<Rightarrow> json" where
  "default_ssid newSsid newPassword j = (case j of
     JObject ssid \<Rightarrow> (case (getString ssid ''bss-mode'', getObject ssid ''encryption'') of
         (Some bssMode, Some encryption) \<Rightarrow>
           let encryption' = JObject (set_key ''key'' (JString newPassword) encryption) in
           if bssMode = ''ap'' then JObject (set_key ''encryption'' encryption' (set_key ''name'' (JString newSsid) ssid))
           else if bssMode = ''mesh'' then JObject (set_key ''encryption'' encryption' ssid)
           else j
       | _ \<Rightarrow> j)
   | _ \<Rightarrow> j)"

fun on_object :: "(jobj \<Rightarrow> jobj) \<Rightarrow> json \<Rightarrow> json" where
  "on_object f (JObject ob) = JObject (f ob)"
| "on_object f j = j"

text \<open>The configuration with default SSIDs, and its sections for the provisioning record.\<close>

definition gateway_defaults :: "platform \<Rightarrow> string \<Rightarrow> jobj \<Rightarrow> jobj" where
  "gateway_defaults P deviceMac config = update_array ''interfaces''
     (on_object (update_array ''ssids'' (default_ssid (BuildDefaultSsid deviceMac) (po_toUpper P deviceMac)))) config"

definition BuildGatewayConfig :: "platform \<Rightarrow> jobj ptr \<Rightarrow> string \<Rightarrow> DeviceConfigurationElement list option" where
  "BuildGatewayConfig P deviceConfig deviceMac = (if \<not> ValidateConfig deviceConfig then None
     else (case deviceConfig of None \<Rightarrow> None
       | Some dc \<Rightarrow> AppendWeightedSections P (map_option (gateway_defaults P deviceMac) (getObject dc ''configuration''))))"

section \<open>Validation: lemmas\<close>

definition has_mode :: "string \<Rightarrow> json list \<Rightarrow> bool" where
  "has_mode mode ssids \<longleftrightarrow> (\<exists>ssid. JObject ssid \<in> set ssids \<and> getString ssid ''bss-mode'' = Some mode)"

definition ssid_wf :: "json \<Rightarrow> bool" where
  "ssid_wf j = (case j of JObject ssid \<Rightarrow> getString ssid ''bss-mode'' \<noteq> None | _ \<Rightarrow> False)"

lemma has_mode_simps [simp]:
  "\<not> has_mode m []" "has_mode m (JObject s # ss) \<longleftrightarrow> getString s ''bss-mode'' = Some m \<or> has_mode m ss"
  by (auto simp: has_mode_def)

lemma ssid_modes_iff:
  "ssid_modes ssids ap mesh = Some (a, b) \<longleftrightarrow>
   list_all ssid_wf ssids \<and> a = (ap \<or> has_mode ''ap'' ssids) \<and> b = (mesh \<or> has_mode ''mesh'' ssids)"
  by (induction ssids ap mesh rule: ssid_modes.induct) (auto simp: ssid_wf_def split: option.splits)

text \<open>What is expected of an interface by its role.\<close>

definition interface_ok :: "json \<Rightarrow> bool" where
  "interface_ok j = (case j of
     JObject iface \<Rightarrow>
       getString iface ''role'' = Some ''upstream'' \<and> no_ssids iface
       \<or> getString iface ''role'' = Some ''downstream'' \<and> member_is iface ''ipv4'' ''addressing'' ''static''
         \<and> member_is iface ''tunnel'' ''proto'' ''mesh''
         \<and> (\<exists>ssids. getArray iface ''ssids'' = Some ssids \<and> list_all ssid_wf ssids
              \<and> has_mode ''ap'' ssids \<and> has_mode ''mesh'' ssids)
   | _ \<Rightarrow> False)"

definition is_downstream :: "json \<Rightarrow> bool" where
  "is_downstream j = (case j of JObject iface \<Rightarrow> getString iface ''role'' = Some ''downstream'' | _ \<Rightarrow> False)"

lemma downstream_ok_iff:
  "downstream_ok iface \<longleftrightarrow> member_is iface ''ipv4'' ''addressing'' ''static''
     \<and> member_is iface ''tunnel'' ''proto'' ''mesh''
     \<and> (\<exists>ssids. getArray iface ''ssids'' = Some ssids \<and> list_all ssid_wf ssids
              \<and> has_mode ''ap'' ssids \<and> has_mode ''mesh'' ssids)"
  by (auto simp: downstream_ok_def ssid_modes_iff split: option.splits)

lemma validate_interfaces_iff:
  "validate_interfaces ifs d \<longleftrightarrow> list_all interface_ok ifs \<and> (d \<or> (\<exists>i \<in> set ifs. is_downstream i))"
  by (induction ifs d rule: validate_interfaces.induct)
    (auto simp: interface_ok_def is_downstream_def downstream_ok_iff split: option.splits)

text \<open>
  A device configuration is accepted exactly when it has interfaces, every interface is an
  upstream one without SSIDs or a downstream one with static addressing, a mesh tunnel and both an
  access-point and a mesh SSID, and at least one interface is downstream.
\<close>

theorem ValidateConfig_iff:
  "ValidateConfig dc \<longleftrightarrow> (\<exists>ob cfg ifs. dc = Some ob \<and> getObject ob ''configuration'' = Some cfg
     \<and> getArray cfg ''interfaces'' = Some ifs \<and> list_all interface_ok ifs \<and> list_ex is_downstream ifs)"
  by (auto simp: ValidateConfig_def validate_interfaces_iff list_ex_iff split: option.splits)

section \<open>Mesh configuration: properties\<close>

lemma mesh_interfaces_objects:
  "mesh_interfaces (map JObject os) = Some (map (\<lambda>i. JObject (set_key ''ipv4'' dynamic_ipv4 i)) os)"
  by (induction os) auto

lemma wf_json_set_key:
  "wf_json (JObject ob) \<Longrightarrow> wf_json v \<Longrightarrow> valid_utf8 k \<Longrightarrow> wf_json (JObject (set_key k v ob))"
  using wf_obj_set_key [of ob k v]
  by (induction k v ob rule: set_key.induct) (auto simp: list_all_iff wf_obj_def split: if_splits)

lemma wf_json_remove_key: "wf_json (JObject ob) \<Longrightarrow> wf_json (JObject (remove_key k ob))"
  by (simp add: wf_obj_remove_key) (auto simp: remove_key_def list_all_iff)

lemma wf_json_getArray: "wf_json (JObject ob) \<Longrightarrow> getArray ob k = Some xs \<Longrightarrow> list_all wf_json xs"
  by (auto simp: getArray_def getVar_def list_all_iff split: option.splits dest!: map_of_SomeD)

lemma mesh_document_objects:
  assumes "wf_json (JObject cfg)" "getArray cfg ''interfaces'' = Some (map JObject ifs)"
  shows "\<exists>out. mesh_document (JObject cfg) = Some (JObject out) \<and> wf_json (JObject out)
    \<and> getArray out ''interfaces'' = Some (map (\<lambda>i. JObject (set_key ''ipv4'' dynamic_ipv4 i)) ifs)
    \<and> \<not> has out ''config-raw'' \<and> (\<forall>k. k \<notin> {''interfaces'', ''config-raw''} \<longrightarrow> getVar out k = getVar cfg k)"
proof (cases ifs)
  case Nil
  then show ?thesis
    using assms by (simp add: mesh_document_def json_simps wf_json_remove_key del: wf_json.simps)
next
  case (Cons i rest)
  let ?ms = "map (\<lambda>i. JObject (set_key ''ipv4'' dynamic_ipv4 i)) ifs"
  have d: "mesh_document (JObject cfg) = Some (JObject (remove_key ''config-raw'' (set_key ''interfaces'' (JArray ?ms) cfg)))"
    using assms(2) mesh_interfaces_objects [of ifs] Cons by (simp add: mesh_document_def)
  have utf8: "valid_utf8 ''ipv4''" "valid_utf8 ''interfaces''" by (simp_all add: valid_utf8_def)
  have "list_all wf_json (map JObject ifs)" by (rule wf_json_getArray [OF assms])
  moreover have "wf_json dynamic_ipv4" by (simp add: dynamic_ipv4_def wf_obj_def valid_utf8_def)
  ultimately have "wf_json (JArray ?ms)"
    using wf_json_set_key [of _ dynamic_ipv4 "''ipv4''"] utf8 by (simp add: list_all_iff del: wf_json.simps(2))
  then have "wf_json (JObject (remove_key ''config-raw'' (set_key ''interfaces'' (JArray ?ms) cfg)))"
    by (intro wf_json_remove_key wf_json_set_key assms utf8)
  then show ?thesis
    by (intro exI [of _ "remove_key ''config-raw'' (set_key ''interfaces'' (JArray ?ms) cfg)"])
      (simp add: d json_simps del: wf_json.simps)
qed

text \<open>
  (C35) The configuration of a mesh device is that of its gateway with every interface switched to
  dynamic addressing and without the parental-control rules, which are enforced on the gateway
  only; it can always be built when the interfaces are objects, and nothing else changes.
\<close>

theorem BuildMeshConfig_correct:
  assumes "reparse_doc P" "getObject dc ''configuration'' = Some cfg" "wf_json (JObject cfg)"
    and "getArray cfg ''interfaces'' = Some (map JObject ifs)"
  shows "\<exists>out. BuildMeshConfig P (Some dc) = Some out
    \<and> getArray out ''interfaces'' = Some (map (\<lambda>i. JObject (set_key ''ipv4'' dynamic_ipv4 i)) ifs)
    \<and> \<not> has out ''config-raw'' \<and> (\<forall>k. k \<notin> {''interfaces'', ''config-raw''} \<longrightarrow> getVar out k = getVar cfg k)"
proof -
  obtain out where out: "mesh_document (JObject cfg) = Some (JObject out)" "wf_json (JObject out)"
    "getArray out ''interfaces'' = Some (map (\<lambda>i. JObject (set_key ''ipv4'' dynamic_ipv4 i)) ifs)"
    "\<not> has out ''config-raw''" "\<forall>k. k \<notin> {''interfaces'', ''config-raw''} \<longrightarrow> getVar out k = getVar cfg k"
    using mesh_document_objects [OF assms(3,4)] by blast
  then have "BuildMeshConfig P (Some dc) = Some out"
    using assms(1-3) unfolding reparse_doc_def BuildMeshConfig_def by (simp del: wf_json.simps)
  then show ?thesis using out(3-5) by blast
qed

definition mesh_sample :: jobj where
  "mesh_sample = [(''configuration'', JObject [(''config-raw'', JArray []), (''interfaces'',
     JArray [JObject [(''role'', JString ''upstream'')]])])]"

theorem BuildMeshConfig_correct_witness:
  "\<exists>out. BuildMeshConfig ref_platform (Some mesh_sample) = Some out \<and> \<not> has out ''config-raw''"
  using BuildMeshConfig_correct [OF ref_platform_docs(8), of mesh_sample
      "[(''config-raw'', JArray []), (''interfaces'', JArray [JObject [(''role'', JString ''upstream'')]])]"
      "[[(''role'', JString ''upstream'')]]"]
  by (auto simp: mesh_sample_def getObject_def getArray_def getVar_def wf_obj_def valid_utf8_def)

section \<open>Sections: properties\<close>

lemma fold_sections:
  "fold (AppendWeightedSection P cfg) names out = out @ map (\<lambda>name. DeviceConfigurationElement_fresh\<lparr>dc_name := name,
     dc_weight := 1, dc_configuration := po_stringify P (JObject [(name, getVar cfg name)])\<rparr>)
     (filter (\<lambda>n. isArray cfg n \<or> isObject cfg n) names)"
  by (induction names arbitrary: out) (auto simp: AppendWeightedSection_def DEFAULT_DEVICE_CONFIG_WEIGHT_def)

text \<open>
  The provisioning record of a device has one element per section of the configuration that is
  an object or an array, in key order and nothing else, each with weight 1 and the text of a document
  that holds exactly this section.
\<close>

theorem AppendWeightedSections_exact:
  "\<exists>els. AppendWeightedSections P (Some cfg) = Some els
     \<and> map dc_name els = filter (\<lambda>n. isArray cfg n \<or> isObject cfg n) (getNames cfg)
     \<and> list_all (\<lambda>e. dc_weight e = 1
         \<and> dc_configuration e = po_stringify P (JObject [(dc_name e, getVar cfg (dc_name e))])) els"
  by (simp add: AppendWeightedSections_def fold_sections comp_def list_all_iff)

section \<open>Default gateway configuration: properties\<close>

lemma getString_set_key [json_simps]:
  "getString (set_key k v ob) k' = (if k' = k then (case v of JString s \<Rightarrow> Some s | _ \<Rightarrow> None) else getString ob k')"
  by (simp add: getString_def json_simps)

definition mode_of :: "json \<Rightarrow> string option" where
  "mode_of j = (case j of JObject ssid \<Rightarrow> getString ssid ''bss-mode'' | _ \<Rightarrow> None)"

lemma mode_of_default [simp]: "mode_of (default_ssid n p j) = mode_of j"
  by (auto simp: mode_of_def default_ssid_def json_simps Let_def split: json.splits option.splits)

lemma ssid_wf_mode: "ssid_wf j \<longleftrightarrow> mode_of j \<noteq> None"
  by (simp add: ssid_wf_def mode_of_def split: json.splits)

lemma has_mode_mode: "has_mode m ssids \<longleftrightarrow> Some m \<in> mode_of ` set ssids"
  by (force simp: has_mode_def mode_of_def split: json.splits)

lemma interface_ok_update:
  assumes "\<And>j. mode_of (f j) = mode_of j" "interface_ok i"
  shows "interface_ok (on_object (update_array ''ssids'' f) i)
    \<and> is_downstream (on_object (update_array ''ssids'' f) i) = is_downstream i"
proof -
  obtain ob where i: "i = JObject ob" using assms(2) by (auto simp: interface_ok_def split: json.splits)
  let ?ob = "update_array ''ssids'' f ob"
  have frame: "getString ?ob k = getString ob k" "member_is ?ob k a b = member_is ob k a b" if "k \<noteq> ''ssids''" for k a b
    using that by (simp_all add: getString_def member_is_def getObject_def json_simps)
  have arr: "getArray ?ob ''ssids'' = map_option (map f) (getArray ob ''ssids'')"
    by (auto simp: update_array_def json_simps split: option.splits)
  have "mode_of ` f ` S = mode_of ` S" for S using assms(1) by (simp add: image_image)
  then have "has_mode m (map f ssids) = has_mode m ssids" "list_all ssid_wf (map f ssids) = list_all ssid_wf ssids" for m ssids
    using assms(1) by (simp_all add: has_mode_mode list_all_iff ssid_wf_mode)
  then show ?thesis
    using assms(2) by (auto simp: i interface_ok_def is_downstream_def frame arr no_ssids_def split: option.splits)
qed

definition ssid_defaults :: "string \<Rightarrow> string \<Rightarrow> json \<Rightarrow> bool" where
  "ssid_defaults name key j = (case j of JObject ssid \<Rightarrow>
     (case (getString ssid ''bss-mode'', getObject ssid ''encryption'') of
        (Some mode, Some enc) \<Rightarrow> (mode = ''ap'' \<longrightarrow> getString ssid ''name'' = Some name)
          \<and> (mode = ''ap'' \<or> mode = ''mesh'' \<longrightarrow> getString enc ''key'' = Some key)
      | _ \<Rightarrow> True)
   | _ \<Rightarrow> True)"

lemma ssid_defaults_default: "ssid_defaults n p (default_ssid n p j)"
  by (auto simp: ssid_defaults_def default_ssid_def json_simps Let_def split: json.splits option.splits)

definition iface_defaults :: "string \<Rightarrow> string \<Rightarrow> json \<Rightarrow> bool" where
  "iface_defaults name key j = (case j of JObject iface \<Rightarrow>
     (case getArray iface ''ssids'' of None \<Rightarrow> True | Some ssids \<Rightarrow> list_all (ssid_defaults name key) ssids) | _ \<Rightarrow> True)"

lemma iface_defaults_default:
  "iface_defaults n p (on_object (update_array ''ssids'' (default_ssid n p)) j)"
  by (cases j) (auto simp: iface_defaults_def update_array_def json_simps list_all_iff ssid_defaults_default split: option.splits)

text \<open>
  Preparing the default configuration of a gateway keeps it valid, and afterwards every
  access-point SSID with encryption is named after the last digits of the device address and every
  access-point and mesh SSID is protected with the address in upper case.
\<close>

theorem gateway_defaults_valid:
  assumes "ValidateConfig (Some dc)" "getObject dc ''configuration'' = Some cfg"
    and "upper_doc P" "length mac = 12"
  shows "ValidateConfig (Some (set_key ''configuration'' (JObject (gateway_defaults P mac cfg)) dc))
    \<and> (\<exists>ifs. getArray (gateway_defaults P mac cfg) ''interfaces'' = Some ifs
        \<and> list_all (iface_defaults (''OpenWifi-'' @ drop 8 mac) (map to_upper mac)) ifs)"
proof -
  obtain ifs where ifs: "getArray cfg ''interfaces'' = Some ifs" "list_all interface_ok ifs" "list_ex is_downstream ifs"
    using assms(1,2) unfolding ValidateConfig_def
    by (auto simp: validate_interfaces_iff list_ex_iff split: option.splits)
  let ?f = "on_object (update_array ''ssids'' (default_ssid (BuildDefaultSsid mac) (po_toUpper P mac)))"
  have g: "getArray (gateway_defaults P mac cfg) ''interfaces'' = Some (map ?f ifs)"
    by (simp add: gateway_defaults_def update_array_def ifs(1) json_simps)
  have up: "interface_ok (?f i)" "is_downstream (?f i) = is_downstream i" if "interface_ok i" for i
    using interface_ok_update [OF mode_of_default that] by auto
  have "list_all interface_ok (map ?f ifs)" "list_ex is_downstream (map ?f ifs)"
    using ifs(2,3) up by (auto simp: list_all_iff list_ex_iff)
  then have "ValidateConfig (Some (set_key ''configuration'' (JObject (gateway_defaults P mac cfg)) dc))"
    using g by (auto simp: ValidateConfig_def validate_interfaces_iff list_ex_iff json_simps)
  moreover have "BuildDefaultSsid mac = ''OpenWifi-'' @ drop 8 mac"
    using assms(4) by (simp add: BuildDefaultSsid_def DEFAULT_SSID_PREFIX_def MAC_SUFFIX_START_INDEX_def)
  then have "list_all (iface_defaults (''OpenWifi-'' @ drop 8 mac) (map to_upper mac)) (map ?f ifs)"
    using iface_defaults_default upper_docD [OF assms(3), of mac] by (simp add: list_all_iff)
  ultimately show ?thesis using g by blast
qed

definition valid_device :: jobj where
  "valid_device = [(''configuration'', JObject [(''interfaces'', JArray [JObject [
     (''ipv4'', JObject [(''addressing'', JString ''static'')]),
     (''role'', JString ''downstream''),
     (''ssids'', JArray [JObject [(''bss-mode'', JString ''ap''), (''encryption'', JObject [])],
        JObject [(''bss-mode'', JString ''mesh'')]]),
     (''tunnel'', JObject [(''proto'', JString ''mesh'')])]])])]"

theorem gateway_defaults_valid_witness:
  "\<exists>ifs cfg. getObject valid_device ''configuration'' = Some cfg
     \<and> getArray (gateway_defaults ref_platform ''aabbcc001122'' cfg) ''interfaces'' = Some ifs
     \<and> list_all (iface_defaults ''OpenWifi-1122'' ''AABBCC001122'') ifs"
proof -
  have v: "ValidateConfig (Some valid_device)"
    by (simp add: valid_device_def ValidateConfig_def getObject_def getVar_def getArray_def getString_def
        downstream_ok_def member_is_def)
  have u: "map to_upper ''aabbcc001122'' = ''AABBCC001122''"
    by (simp add: ctype_defs char_of_def bit_Suc_0_iff)
  obtain cfg where c: "getObject valid_device ''configuration'' = Some cfg"
    by (simp add: valid_device_def getObject_def getVar_def)
  show ?thesis
    using gateway_defaults_valid [OF v c ref_platform_docs(2), of "''aabbcc001122''"] c u by auto
qed

end
