(* ===== verification/GatewayConfig.thy ===== *)
theory GatewayConfig
  imports Utils ConfigRaw ConfigMaker
begin

text \<open>
  Changing the configuration of a subscriber's network, the second half of
  \<^verbatim>\<open>src/sdks/SDK_gw.cpp\<close>: new Wi-Fi names and passwords (\<^verbatim>\<open>ApplySsidOverrides\<close>), blocking and
  unblocking clients through the parental-control service (\<^verbatim>\<open>ApplyClientAccessChanges\<close>), and
  \<^verbatim>\<open>SetConfig\<close>, which fetches the configuration of the gateway, applies both, pushes the result to the
  gateway when it changed, and a derived configuration to the mesh devices.  An operation that fails
  returns the status and document the client will see (\<open>Inl\<close>).
\<close>

section \<open>Errors\<close>

type_synonym gw_error = "int \<times> jobj"

definition SetErrorResponse :: "int \<Rightarrow> msg \<Rightarrow> string \<Rightarrow> gw_error" where
  "SetErrorResponse status error extra = (status,
     set_key ''ErrorDescription'' (JString (format_msg error extra))
       (set_key ''ErrorCode'' (JInt status) []))"

text \<open>\<^verbatim>\<open>response = callResponse ? callResponse : makeShared<Object>()\<close>\<close>

definition or_empty :: "jobj ptr \<Rightarrow> jobj" where
  "or_empty p = (case p of None \<Rightarrow> [] | Some ob \<Rightarrow> ob)"

section \<open>Wi-Fi names and passwords\<close>

text \<open>\<^verbatim>\<open>^[A-Za-z0-9._ \-]{1,32}$\<close> and \<^verbatim>\<open>^\S{8,32}$\<close>, matched against the whole string.\<close>

definition ssid_char :: "char \<Rightarrow> bool" where
  "ssid_char c \<longleftrightarrow> is_alnum c \<or> c \<in> {CHR ''.'', CHR ''_'', CHR '' '', CHR ''-''}"

definition ValidateSsidName :: "platform \<Rightarrow> string \<Rightarrow> gw_error + string" where
  "ValidateSsidName P ssid = (let s = po_trim P ssid in
     if 1 \<le> length s \<and> length s \<le> 32 \<and> list_all ssid_char s then Inr s
     else Inl (SetErrorResponse HTTP_BAD_REQUEST Errors_SSIDInvalidName []))"

definition ValidateSsidPassword :: "string \<Rightarrow> gw_error + unit" where
  "ValidateSsidPassword password =
     (if 8 \<le> length password \<and> length password \<le> 32 \<and> list_all (\<lambda>c. \<not> is_space c) password then Inr ()
      else Inl (SetErrorResponse HTTP_BAD_REQUEST Errors_SSIDInvalidPassword []))"

text \<open>One entry of \<^verbatim>\<open>ssids\<close>; \<open>None\<close> is the internal error for a missing \<^verbatim>\<open>encryption\<close> object.\<close>

definition override_ssid :: "string \<Rightarrow> string \<Rightarrow> json \<Rightarrow> json option" where
  "override_ssid name password j = (case asObject j of None \<Rightarrow> Some j
     | Some ssid \<Rightarrow>
         if getString ssid ''bss-mode'' = Some ''mesh'' then Some j
         else (case getObject ssid ''encryption'' of None \<Rightarrow> None
           | Some encryption \<Rightarrow> Some (JObject (set_key ''encryption''
               (JObject (set_key ''key'' (JString password) encryption))
               (set_key ''name'' (JString name) ssid)))))"

definition ssids_of :: "json \<Rightarrow> json list" where
  "ssids_of iface = (case asObject iface of None \<Rightarrow> []
     | Some ob \<Rightarrow> (case getArray ob ''ssids'' of None \<Rightarrow> [] | Some ssids \<Rightarrow> ssids))"

definition override_interface :: "string \<Rightarrow> string \<Rightarrow> json \<Rightarrow> json option" where
  "override_interface name password iface = (case asObject iface of None \<Rightarrow> Some iface
     | Some ob \<Rightarrow>
         if ssids_of iface = [] then Some iface
         else map_option (\<lambda>ssids. JObject (set_key ''ssids'' (JArray ssids) ob))
           (those (map (override_ssid name password) (ssids_of iface))))"

text \<open>The requested name and password.\<close>

definition requested_ssid :: "platform \<Rightarrow> jobj \<Rightarrow> (string \<times> string) option" where
  "requested_ssid P Body = (case getObject Body ''ssid'' of None \<Rightarrow> None
     | Some ssidObj \<Rightarrow>
         if \<not> has ssidObj ''name'' \<or> \<not> has ssidObj ''password'' then None
         else (case (po_toString P (getVar ssidObj ''name''), po_toString P (getVar ssidObj ''password'')) of
             (Inr name, Inr password) \<Rightarrow>
               (if po_trim P name = [] \<or> po_trim P password = [] then None
                else Some (po_trim P name, po_trim P password))
           | _ \<Rightarrow> None))"

definition ApplySsidOverrides :: "platform \<Rightarrow> jobj \<Rightarrow> jobj \<Rightarrow> gw_error + jobj" where
  "ApplySsidOverrides P Config Body = (case requested_ssid P Body of
     None \<Rightarrow> Inl (SetErrorResponse HTTP_BAD_REQUEST Errors_MissingOrInvalidParameters [])
   | Some (ssid, password) \<Rightarrow> (case ValidateSsidName P ssid of Inl e \<Rightarrow> Inl e
     | Inr name \<Rightarrow> (case ValidateSsidPassword password of Inl e \<Rightarrow> Inl e
       | Inr _ \<Rightarrow> (case getArray Config ''interfaces'' of
             None \<Rightarrow> Inl (SetErrorResponse HTTP_INTERNAL_SERVER_ERROR Errors_InternalError [])
           | Some interfaces \<Rightarrow> (case those (map (override_interface name password) interfaces) of
                 None \<Rightarrow> Inl (SetErrorResponse HTTP_INTERNAL_SERVER_ERROR Errors_InternalError [])
               | Some updated \<Rightarrow>
                   if list_all (\<lambda>iface. ssids_of iface = []) interfaces
                   then Inl (SetErrorResponse HTTP_INTERNAL_SERVER_ERROR Errors_InternalError [])
                   else Inr (set_key ''interfaces'' (JArray updated) Config))))))"

section \<open>Blocking and unblocking clients\<close>

record ValidatedClientEntry =
  ve_mac :: string
  ve_formattedMac :: string
  ve_access :: string
  ve_durationMinutes :: int
  ve_hasDuration :: bool

text \<open>The fields of an entry: \<^verbatim>\<open>duration\<close> is absent, null or a 64-bit number.\<close>

datatype duration = NoDuration | NullDuration | Minutes int

definition entry_fields :: "platform \<Rightarrow> jobj \<Rightarrow> (string \<times> string \<times> duration) option" where
  "entry_fields P entry =
     (case (po_toString P (getVar entry ''mac''), po_toString P (getVar entry ''access'')) of
        (Inr mac, Inr access) \<Rightarrow>
          (if \<not> has entry ''duration'' then Some (mac, access, NoDuration)
           else if isNull entry ''duration'' then Some (mac, access, NullDuration)
           else (case po_toInt64 P (getVar entry ''duration'') of Inl _ \<Rightarrow> None
             | Inr n \<Rightarrow> Some (mac, access, Minutes n)))
      | _ \<Rightarrow> None)"

text \<open>\<^verbatim>\<open>durationMinutes * 60\<close> on \<^verbatim>\<open>int64_t\<close>; an overflow is taken to wrap.\<close>

definition duration_seconds :: "int \<Rightarrow> int" where
  "duration_seconds n = sint (word_of_int (n * 60) :: 64 word)"

abbreviation reject :: "msg \<Rightarrow> (gw_error + 'a) io" where
  "reject E \<equiv> ret (Inl (SetErrorResponse HTTP_BAD_REQUEST E []))"

text \<open>Whether a block of \<open>n\<close> minutes from now stays in the current (UTC) day.\<close>

definition same_day :: "platform \<Rightarrow> int \<Rightarrow> int \<Rightarrow> bool" where
  "same_day P now n \<longleftrightarrow> po_ymd P (po_plusSeconds P now (duration_seconds n)) = po_ymd P now"

definition validate_entry :: "platform \<Rightarrow> json \<Rightarrow> (gw_error + ValidatedClientEntry) io" where
  "validate_entry P j = (case asObject j of None \<Rightarrow> reject Errors_MissingOrInvalidParameters
     | Some entry \<Rightarrow>
         if \<not> has entry ''mac'' \<or> \<not> has entry ''access'' then reject Errors_MissingOrInvalidParameters
         else (case entry_fields P entry of None \<Rightarrow> reject Errors_MissingOrInvalidParameters
           | Some (rawMac, rawAccess, duration) \<Rightarrow>
               let access = po_toLower P (po_trim P rawAccess);
                   (valid, mac) = NormalizeMac P rawMac;
                   minutes = (case duration of Minutes n \<Rightarrow> n | _ \<Rightarrow> 0);
                   entry' = \<lparr>ve_mac = mac, ve_formattedMac = po_toLower P (SerialToMAC mac),
                     ve_access = access, ve_durationMinutes = minutes,
                     ve_hasDuration = (duration \<noteq> NoDuration)\<rparr>
               in if \<not> valid then reject Errors_InvalidMacAddress
                  else if access \<noteq> ''allow'' \<and> access \<noteq> ''deny'' then reject Errors_InvalidAccess
                  else if access = ''allow'' \<and> duration \<noteq> NoDuration
                    then reject Errors_DurationNotAllowedForAllow
                  else if duration = NullDuration \<or> (duration \<noteq> NoDuration \<and> minutes < 1)
                    then reject Errors_InvalidDuration
                  else if duration \<noteq> NoDuration \<and> access = ''deny'' then do {
                    now \<leftarrow> read_clock;
                    (if same_day P now minutes then ret (Inr entry')
                     else reject Errors_DurationCrossesMidnight)
                  }
                  else ret (Inr entry')))"

text \<open>Pass 1: every entry is checked, without side effects.\<close>

fun validate_entries :: "platform \<Rightarrow> json list \<Rightarrow> (gw_error + ValidatedClientEntry list) io" where
  "validate_entries P [] = ret (Inr [])"
| "validate_entries P (j # js) = do {
     r \<leftarrow> validate_entry P j;
     (case r of Inl e \<Rightarrow> ret (Inl e)
      | Inr entry \<Rightarrow> do {
          rs \<leftarrow> validate_entries P js;
          ret (case rs of Inl e \<Rightarrow> Inl e | Inr entries \<Rightarrow> Inr (entry # entries))
        })
   }"

text \<open>The request for a block; a limited one names the day and the time of day it lasts.\<close>

definition block_body :: "platform \<Rightarrow> ValidatedClientEntry \<Rightarrow> jobj io" where
  "block_body P entry = (let body = set_key ''client_mac'' (JString (ve_formattedMac entry)) [] in
     if ve_hasDuration entry then do {
       now \<leftarrow> read_clock;
       let endDt = po_plusSeconds P now (duration_seconds (ve_durationMinutes entry));
       let nextDay = po_plusSeconds P endDt 86400;
       ret (write_fields [
         set_key ''start_date'' (JString (po_format P now ''%Y-%m-%d'')),
         set_key ''stop_date'' (JString (po_format P nextDay ''%Y-%m-%d'')),
         set_key ''start_time'' (JString (po_format P now ''%H:%M:%S'')),
         set_key ''stop_time'' (JString (po_format P endDt ''%H:%M:%S''))] body)
     }
     else ret body)"

text \<open>Pass 2: the calls, until one fails; the result is the answer of the last one.\<close>

fun run_entries :: "platform \<Rightarrow> string \<Rightarrow> ValidatedClientEntry list \<Rightarrow> jobj ptr \<Rightarrow> (gw_error + jobj ptr) io" where
  "run_entries P SubscriberId [] lastCallResponse = ret (Inr lastCallResponse)"
| "run_entries P SubscriberId (entry # entries) lastCallResponse = do {
     (okc, callStatus, callResponse) \<leftarrow>
       (if ve_access entry = ''deny'' then do {
          reqBody \<leftarrow> block_body P entry;
          CreateClientAccess P SubscriberId reqBody
        }
        else DeleteClientAccess P SubscriberId (ve_formattedMac entry));
     (if okc then run_entries P SubscriberId entries callResponse
      else ret (Inl (callStatus, or_empty callResponse)))
   }"

text \<open>The rules of the last answer replace those of the configuration.\<close>

definition store_rules :: "jobj ptr \<Rightarrow> jobj \<Rightarrow> jobj" where
  "store_rules lastCallResponse Config = (case ExtractConfigRawSnapshot lastCallResponse False of
     (okx, configRaw) \<Rightarrow> (case configRaw of
       Some raw \<Rightarrow> (if lastCallResponse \<noteq> None \<and> okx \<and> raw \<noteq> [] then set_key ''config-raw'' (JArray raw) Config
         else remove_key ''config-raw'' Config)
     | None \<Rightarrow> remove_key ''config-raw'' Config))"

definition ApplyClientAccessChanges ::
  "platform \<Rightarrow> jobj \<Rightarrow> jobj \<Rightarrow> string \<Rightarrow> (gw_error + jobj) io" where
  "ApplyClientAccessChanges P Config Body SubscriberId = (case getArray Body ''client'' of
     None \<Rightarrow> reject Errors_MissingOrInvalidParameters
   | Some clientList \<Rightarrow>
       if clientList = [] then reject Errors_MissingOrInvalidParameters
       else do {
         v \<leftarrow> validate_entries P clientList;
         (case v of Inl e \<Rightarrow> ret (Inl e)
          | Inr entries \<Rightarrow> do {
              r \<leftarrow> run_entries P SubscriberId entries None;
              ret (case r of Inl e \<Rightarrow> Inl e | Inr answer \<Rightarrow> Inr (store_rules answer Config))
            })
       })"

section \<open>SetConfig\<close>

definition IsSameSerial :: "platform \<Rightarrow> string \<Rightarrow> string \<Rightarrow> bool" where
  "IsSameSerial P lhs rhs = (case (NormalizeMac P lhs, NormalizeMac P rhs) of
     ((True, l), (True, r)) \<Rightarrow> l = r | _ \<Rightarrow> lhs = rhs)"

definition SerializeJson :: "platform \<Rightarrow> jobj ptr \<Rightarrow> string" where
  "SerializeJson P ob = (case ob of None \<Rightarrow> [] | Some o' \<Rightarrow> po_condense P (JObject o'))"

text \<open>A refused configuration; a status 200 would become 500.\<close>

definition configure_failed :: "int \<Rightarrow> jobj ptr \<Rightarrow> gw_error" where
  "configure_failed status resp =
     (if status = HTTP_OK then HTTP_INTERNAL_SERVER_ERROR else status, or_empty resp)"

text \<open>The loop over the mesh devices; the shared configuration object is stamped by each call.\<close>

fun configure_mesh ::
  "platform \<Rightarrow> handler option \<Rightarrow> string \<Rightarrow> SubscriberDevice list \<Rightarrow> jobj \<Rightarrow> (gw_error + unit) io" where
  "configure_mesh P client gw [] meshConfig = ret (Inr ())"
| "configure_mesh P client gw (dev # devs) meshConfig =
     (if sd_serialNumber dev = [] \<or> IsSameSerial P (sd_serialNumber dev) gw
      then configure_mesh P client gw devs meshConfig
      else do {
        (okc, stamped, meshStatus, meshResponse) \<leftarrow> Configure P client (sd_serialNumber dev) meshConfig;
        (if okc then configure_mesh P client gw devs stamped
         else ret (Inl (configure_failed meshStatus meshResponse)))
      })"

text \<open>The requested changes of the configuration, in the order of the code.\<close>

definition apply_changes :: "platform \<Rightarrow> jobj \<Rightarrow> jobj \<Rightarrow> string \<Rightarrow> (gw_error + jobj) io" where
  "apply_changes P config Body SubscriberId =
     (case (if has Body ''ssid'' then ApplySsidOverrides P config Body else Inr config) of
        Inl e \<Rightarrow> ret (Inl e)
      | Inr config1 \<Rightarrow>
          if has Body ''client'' then ApplyClientAccessChanges P config1 Body SubscriberId
          else ret (Inr config1))"

text \<open>Sending the changed configuration to the gateway and, for a Wi-Fi change, to the mesh.\<close>

definition push_config ::
  "platform \<Rightarrow> handler option \<Rightarrow> jobj \<Rightarrow> SubscriberDevice list \<Rightarrow> string \<Rightarrow> jobj \<Rightarrow> jobj \<Rightarrow>
   (gw_error + unit) io" where
  "push_config P client Body devs gw deviceObj config = do {
     (okc, stamped, gatewayStatus, gatewayResponse) \<leftarrow> Configure P client gw config;
     (if \<not> okc then ret (Inl (configure_failed gatewayStatus gatewayResponse))
      else if \<not> has Body ''ssid'' \<or> length devs \<le> 1 then ret (Inr ())
      else (case BuildMeshConfig P (Some (set_key ''configuration'' (JObject stamped) deviceObj)) of
          None \<Rightarrow> ret (Inl (SetErrorResponse HTTP_INTERNAL_SERVER_ERROR Errors_InternalError []))
        | Some meshConfig \<Rightarrow> configure_mesh P client gw devs meshConfig))
   }"

text \<open>
  The object of the configuration is shared with \<^verbatim>\<open>deviceObj\<close>, so the mesh configuration is built from
  the changed and stamped one.  Success is status 200 with an empty document.
\<close>

definition SetConfig ::
  "platform \<Rightarrow> handler option \<Rightarrow> jobj ptr \<Rightarrow> SubscriberDeviceList \<Rightarrow> string \<Rightarrow> string \<Rightarrow>
   (gw_error + unit) io" where
  "SetConfig P client Body devices gw SubscriberId = (case Body of
     None \<Rightarrow> reject Errors_MissingOrInvalidParameters
   | Some body \<Rightarrow>
       if sdl_subscriberDevices devices = [] then reject Errors_SubNoDeviceActivated
       else if gw = [] then reject Errors_MissingSerialNumber
       else do {
         (okg, getStatus, deviceObj) \<leftarrow> GetConfig P client gw;
         (if \<not> okg then ret (Inl (getStatus, or_empty deviceObj))
          else (case deviceObj of None \<Rightarrow> reject Errors_MissingOrInvalidParameters
            | Some dob \<Rightarrow> (case getObject dob ''configuration'' of
                None \<Rightarrow> reject Errors_MissingOrInvalidParameters
              | Some config \<Rightarrow> do {
                  r \<leftarrow> apply_changes P config body SubscriberId;
                  (case r of Inl e \<Rightarrow> ret (Inl e)
                   | Inr config' \<Rightarrow>
                       if SerializeJson P (Some config') = SerializeJson P (Some config) then ret (Inr ())
                       else push_config P client body (sdl_subscriberDevices devices) gw dob config')
                })))
       })"

section \<open>Wi-Fi names and passwords: what changes\<close>

text \<open>
  An entry after a change: a mesh entry is the same, any other one has the new name and key and is
  otherwise the same.
\<close>

definition ssid_updated :: "string \<Rightarrow> string \<Rightarrow> json \<Rightarrow> json \<Rightarrow> bool" where
  "ssid_updated name password j j' \<longleftrightarrow> (case asObject j of None \<Rightarrow> j' = j
     | Some ob \<Rightarrow>
         if getString ob ''bss-mode'' = Some ''mesh'' then j' = j
         else (\<exists>ob' enc enc'. j' = JObject ob' \<and> getObject ob ''encryption'' = Some enc
           \<and> getObject ob' ''encryption'' = Some enc' \<and> getVar ob' ''name'' = JString name
           \<and> getVar enc' ''key'' = JString password
           \<and> (\<forall>k. k \<notin> {''name'', ''encryption''} \<longrightarrow> getVar ob' k = getVar ob k)
           \<and> (\<forall>k. k \<noteq> ''key'' \<longrightarrow> getVar enc' k = getVar enc k)))"

text \<open>An interface after a change: its entries are changed, nothing else is.\<close>

definition iface_updated :: "string \<Rightarrow> string \<Rightarrow> json \<Rightarrow> json \<Rightarrow> bool" where
  "iface_updated name password j j' \<longleftrightarrow>
     list_all2 (ssid_updated name password) (ssids_of j) (ssids_of j')
     \<and> (case asObject j of None \<Rightarrow> j' = j
        | Some ob \<Rightarrow> \<exists>ob'. j' = JObject ob' \<and> (\<forall>k. k \<noteq> ''ssids'' \<longrightarrow> getVar ob' k = getVar ob k))"

lemma those_list_all2:
  "those (map f xs) = Some ys \<Longrightarrow> (\<And>x y. f x = Some y \<Longrightarrow> R x y) \<Longrightarrow> list_all2 R xs ys"
  by (induction xs arbitrary: ys) (auto split: option.splits)

lemma override_ssid_updated: "override_ssid n p j = Some j' \<Longrightarrow> ssid_updated n p j j'"
  by (auto simp: override_ssid_def ssid_updated_def getObject_def json_simps split: option.splits if_splits)

lemma override_interface_updated:
  assumes "override_interface n p j = Some j'"
  shows "iface_updated n p j j'"
proof (cases "ssids_of j = []")
  case True
  then show ?thesis
    using assms by (cases j) (auto simp: override_interface_def iface_updated_def split: option.splits)
next
  case False
  then obtain ob ssids where j: "j = JObject ob" and s: "those (map (override_ssid n p) (ssids_of j)) = Some ssids"
    and j': "j' = JObject (set_key ''ssids'' (JArray ssids) ob)"
    using assms by (auto simp: override_interface_def ssids_of_def split: option.splits if_splits)
  have "ssids_of j' = ssids" by (simp add: j' ssids_of_def json_simps)
  moreover have "list_all2 (ssid_updated n p) (ssids_of j) ssids"
    using s by (rule those_list_all2) (rule override_ssid_updated)
  ultimately show ?thesis
    by (simp add: iface_updated_def j j' json_simps)
qed


definition wifi_config :: jobj where
  "wifi_config = [(''interfaces'', JArray [JObject [(''ssids'', JArray [
     JObject [(''bss-mode'', JString ''ap''), (''encryption'', JObject [(''key'', JString ''old'')]), (''name'', JString ''old'')],
     JObject [(''bss-mode'', JString ''mesh''), (''name'', JString ''mesh'')]])]])]"

definition wifi_request :: jobj where
  "wifi_request = [(''ssid'', JObject [(''name'', JString ''Home''), (''password'', JString ''secret123'')])]"

abbreviation wifi_new :: jobj where
  "wifi_new \<equiv> [(''interfaces'', JArray [JObject [(''ssids'', JArray [
     JObject [(''bss-mode'', JString ''ap''), (''encryption'', JObject [(''key'', JString ''secret123'')]), (''name'', JString ''Home'')],
     JObject [(''bss-mode'', JString ''mesh''), (''name'', JString ''mesh'')]])]])]"

lemma wifi_sample: "ApplySsidOverrides ref_platform wifi_config wifi_request =
  Inr wifi_new"
  by code_simp


section \<open>Blocking and unblocking clients: all or nothing\<close>

lemma emits_validate [emits_intros]: "emits C (validate_entry P j)" "emits C (validate_entries P js)"
proof -
  show *: "emits C (validate_entry P j)" for j
    unfolding validate_entry_def Let_def by (intro emits_intros)
  show "emits C (validate_entries P js)"
    by (induction js) (simp_all, (intro emits_intros *; assumption)+)
qed

lemma silent_client_access [replies_intros]:
  "silent (validate_entry P j)" "silent (validate_entries P js)" "silent (block_body P e)"
  "silent (run_entries P s es last_resp)"
proof -
  show *: "silent (validate_entry P j)" for j
    unfolding validate_entry_def Let_def by (intro replies_intros)
  show "silent (validate_entries P js)"
    by (induction js) (auto intro!: replies_intros * split: sum.splits)
  show **: "silent (block_body P e)" for e
    unfolding block_body_def Let_def by (intro replies_intros)
  show "silent (run_entries P s es last_resp)"
    by (induction es arbitrary: last_resp) (auto intro!: replies_intros ** split: if_splits)
qed

text \<open>What pass 1 guarantees of an accepted entry.\<close>

definition valid_entry :: "ValidatedClientEntry \<Rightarrow> bool" where
  "valid_entry e \<longleftrightarrow> canonical_mac (ve_mac e) \<and> ve_formattedMac e = SerialToMAC (ve_mac e)
     \<and> ve_access e \<in> {''allow'', ''deny''}
     \<and> (ve_hasDuration e \<longrightarrow> ve_access e = ''deny'' \<and> 1 \<le> ve_durationMinutes e)"

lemma lower_SerialToMAC:
  assumes "canonical_mac m"
  shows "map to_lower (SerialToMAC m) = SerialToMAC m"
  using assms
proof (rule canonical_macE)
  have "to_lower (CHR '':'') = CHR '':''" by (simp add: to_lower_def is_upper_def)
  then show ?thesis if "m = [a, b, c, d, e, f, g, h, i, j, k, l]"
    and "list_all is_lower_xdigit [a, b, c, d, e, f, g, h, i, j, k, l]" for a b c d e f g h i j k l
    using that by (simp add: SerialToMAC_canonical)
qed

lemma validate_entry_valid:
  assumes "replace_doc P" "lower_doc P" and "run_state (validate_entry P j) w = (Inr e, w1)"
  shows "valid_entry e"
proof -
  obtain ob mac access d m where ob: "j = JObject ob" and f: "entry_fields P ob = Some (mac, access, d)"
    and m: "NormalizeMac P mac = (True, m)" and e: "ve_mac e = m"
    "ve_formattedMac e = map to_lower (SerialToMAC m)" "ve_access e = map to_lower (po_trim P access)"
    "ve_access e \<in> {''allow'', ''deny''}" "ve_access e = ''allow'' \<longrightarrow> d = NoDuration"
    "ve_hasDuration e \<longleftrightarrow> d \<noteq> NoDuration"
    "d \<noteq> NoDuration \<longrightarrow> 1 \<le> ve_durationMinutes e"
    using assms
    by (auto simp: validate_entry_def Let_def split: option.splits if_splits prod.splits duration.splits)
  have "canonical_mac m" using NormalizeMac_success [OF assms(1,2) m] .
  then show ?thesis using e by (auto simp: valid_entry_def lower_SerialToMAC)
qed

lemma validate_entries_valid:
  assumes "replace_doc P" "lower_doc P" and "run_state (validate_entries P js) w = (Inr es, w1)"
  shows "list_all valid_entry es \<and> length es = length js"
  using assms(3)
proof (induction js arbitrary: es w)
  case (Cons j js)
  then obtain e es' w2 where "run_state (validate_entry P j) w = (Inr e, w2)"
    "run_state (validate_entries P js) w2 = (Inr es', w1)" "es = e # es'"
    by (auto split: prod.splits sum.splits)
  then show ?case using validate_entry_valid [OF assms(1,2)] Cons.IH by auto
qed simp

text \<open>The call an entry stands for.\<close>

definition entry_call :: "string \<Rightarrow> ValidatedClientEntry \<Rightarrow> api_call \<Rightarrow> bool" where
  "entry_call sid e c \<longleftrightarrow> c_type c = uSERVICE_MANGO_PARENTAL_CONTROL \<and>
     (if ve_access e = ''deny''
      then c_verb c = ''POST'' \<and> c_path c = subscribers_path sid @ ''/client-access'' \<and>
        (\<exists>b. c_body c = Some b \<and> getVar b ''client_mac'' = JString (ve_formattedMac e)
           \<and> (has b ''start_date'' \<longleftrightarrow> ve_hasDuration e))
      else c_verb c = ''DELETE'' \<and> c_path c = subscribers_path sid @ ''/client-access/'' @ ve_formattedMac e)"

lemma block_body_run:
  assumes "run_state (block_body P e) w = (b, w1)"
  shows "w_calls w1 = w_calls w \<and> getVar b ''client_mac'' = JString (ve_formattedMac e)
    \<and> (has b ''start_date'' \<longleftrightarrow> ve_hasDuration e)"
  using assms
  by (auto simp: block_body_def Let_def read_clock_def write_fields_def getVar_def has_def split: if_splits)

lemma run_entry:
  assumes "run_state (if ve_access e = ''deny'' then do { b \<leftarrow> block_body P e; CreateClientAccess P sid b }
     else DeleteClientAccess P sid (ve_formattedMac e)) w = ((okc, st, resp), w1)"
  shows "\<exists>cs. w_calls w1 = w_calls w @ cs \<and> length cs \<le> 1 \<and> list_all (entry_call sid e) cs \<and> (okc \<longrightarrow> length cs = 1)"
proof (cases "ve_access e = ''deny''")
  case True
  obtain b w2 where b: "run_state (block_body P e) w = (b, w2)" by (cases "run_state (block_body P e) w")
  with True assms have "run_state (CreateClientAccess P sid b) w2 = ((okc, st, resp), w1)" by simp
  with block_body_run [OF b] True show ?thesis
    by (auto simp: CreateClientAccess_def ExecutePostObject_def OpenAPIRequestPost_def transmit_def Let_def
        entry_call_def IsParsedObjectSuccess_def body_or_timeout_def split: list.splits prod.splits)
next
  case False
  with assms show ?thesis
    by (auto simp: DeleteClientAccess_def ExecuteDelete_def OpenAPIRequestDelete_def transmit_def Let_def
        entry_call_def deleted_with_config_def split: list.splits prod.splits option.splits)
qed

lemma run_entries_calls:
  assumes "run_state (run_entries P sid es l) w = (r, w1)"
  shows "\<exists>cs. w_calls w1 = w_calls w @ cs \<and> length cs \<le> length es
    \<and> list_all2 (entry_call sid) (take (length cs) es) cs \<and> (\<forall>x. r = Inr x \<longrightarrow> length cs = length es)"
  using assms
proof (induction es arbitrary: l w)
  case Nil
  then show ?case by simp
next
  case (Cons e es)
  let ?m = "if ve_access e = ''deny'' then do { b \<leftarrow> block_body P e; CreateClientAccess P sid b }
     else DeleteClientAccess P sid (ve_formattedMac e)"
  obtain x w2 where "run_state ?m w = (x, w2)" by (cases "run_state ?m w")
  then obtain okc st resp where m: "run_state ?m w = ((okc, st, resp), w2)" by (cases x) auto
  obtain cs where cs: "w_calls w2 = w_calls w @ cs" "length cs \<le> 1" "list_all (entry_call sid e) cs"
    "okc \<longrightarrow> length cs = 1"
    using run_entry [OF m] by blast
  show ?case
  proof (cases okc)
    case True
    then obtain c where c: "cs = [c]" using cs(4) by (auto simp: length_Suc_conv)
    have "run_state (run_entries P sid es resp) w2 = (r, w1)" using Cons.prems m True by simp
    from Cons.IH [OF this] obtain ds where "w_calls w1 = w_calls w2 @ ds" "length ds \<le> length es"
      "list_all2 (entry_call sid) (take (length ds) es) ds" "\<forall>x. r = Inr x \<longrightarrow> length ds = length es"
      by blast
    then show ?thesis using cs c by (intro exI [of _ "c # ds"]) auto
  next
    case False
    then have "w1 = w2" "r = Inl (st, or_empty resp)" using Cons.prems m by simp_all
    then show ?thesis using cs by (cases cs) (auto intro!: exI [of _ cs])
  qed
qed


definition block_request :: jobj where
  "block_request = [(''client'', JArray [JObject [(''access'', JString '' Deny''), (''mac'', JString ''AA:BB:CC:DD:EE:01'')]])]"

definition block_entry :: ValidatedClientEntry where
  "block_entry = \<lparr>ve_mac = ''aabbccddee01'', ve_formattedMac = ''aa:bb:cc:dd:ee:01'', ve_access = ''deny'',
     ve_durationMinutes = 0, ve_hasDuration = False\<rparr>"

lemma block_sample:
  "getArray block_request ''client'' = Some [JObject [(''access'', JString '' Deny''), (''mac'', JString ''AA:BB:CC:DD:EE:01'')]]"
  "fst (run_state (validate_entries ref_platform [JObject [(''access'', JString '' Deny''), (''mac'', JString ''AA:BB:CC:DD:EE:01'')]]) w)
    = Inr [block_entry]"
proof -
  have n: "NormalizeMac ref_platform ''AA:BB:CC:DD:EE:01'' = (True, ''aabbccddee01'')" by code_simp
  have m: "po_toLower ref_platform (SerialToMAC ''aabbccddee01'') = ''aa:bb:cc:dd:ee:01''" by code_simp
  have a: "po_toLower ref_platform (po_trim ref_platform '' Deny'') = ''deny''" by code_simp
  have f: "entry_fields ref_platform [(''access'', JString '' Deny''), (''mac'', JString ''AA:BB:CC:DD:EE:01'')]
    = Some (''AA:BB:CC:DD:EE:01'', '' Deny'', NoDuration)" by code_simp
  show "getArray block_request ''client'' = Some [JObject [(''access'', JString '' Deny''), (''mac'', JString ''AA:BB:CC:DD:EE:01'')]]"
    by code_simp
  show "fst (run_state (validate_entries ref_platform [JObject [(''access'', JString '' Deny''), (''mac'', JString ''AA:BB:CC:DD:EE:01'')]]) w)
    = Inr [block_entry]"
    by (simp add: validate_entry_def f n m a has_def block_entry_def)
qed


section \<open>SetConfig: which calls, and what success means\<close>

text \<open>
  The calls of a configuration change: reading the configuration of the gateway, configuring the
  gateway or a device of the subscriber, and client access of the subscriber.
\<close>

definition config_call :: "string \<Rightarrow> string set \<Rightarrow> string \<Rightarrow> api_call \<Rightarrow> bool" where
  "config_call gw own sid c \<longleftrightarrow> in_scope sid c \<or> c_type c = uSERVICE_GATEWAY \<and>
     (c_verb c = ''GET'' \<and> c_path c = device_path gw
      \<or> c_verb c = ''POST'' \<and> (\<exists>s \<in> insert gw own. c_path c = device_path s @ ''/configure''))"

lemma emits_config_requests:
  "emits (config_call gw own sid) (GetConfig P client gw)"
  "s \<in> insert gw own \<Longrightarrow> emits (config_call gw own sid) (Configure P client s cfg)"
  unfolding GetConfig_def Configure_def OpenAPIRequestGet_def OpenAPIRequestPost_def Let_def
  by (intro emits_intros emits_transmit; auto simp: config_call_def)+

lemma emits_client_access:
  "emits (config_call gw own sid) (ApplyClientAccessChanges P config body sid)"
proof -
  have m: "emits (config_call gw own sid) m" if "emits (in_scope sid) m" for m :: "'a io"
    using that by (rule emits_mono) (simp add: config_call_def)
  have r: "emits (config_call gw own sid) (run_entries P sid es l)" for es l
  proof (induction es arbitrary: l)
    case (Cons e es)
    show ?case
      unfolding run_entries.simps block_body_def Let_def
      by (intro emits_intros Cons.IH m [OF parental_scope(22)] m [OF parental_scope(23)])
  qed (simp add: emits_ret)
  show ?thesis
    unfolding ApplyClientAccessChanges_def by (intro emits_intros r)
qed

lemma emits_configure_mesh:
  "sd_serialNumber ` set devs \<subseteq> own \<Longrightarrow> emits (config_call gw own sid) (configure_mesh P client gw devs cfg)"
proof (induction devs arbitrary: cfg)
  case (Cons dev devs)
  then show ?case
    by (auto intro!: emits_intros emits_config_requests)
qed (simp add: emits_ret)

lemma emits_SetConfig:
  "emits (config_call gw (sd_serialNumber ` set (sdl_subscriberDevices devices)) sid)
     (SetConfig P client body devices gw sid)"
  unfolding SetConfig_def apply_changes_def push_config_def
  by (intro emits_intros emits_config_requests emits_client_access emits_configure_mesh) auto

lemma silent_SetConfig [replies_intros]: "silent (SetConfig P client body devices gw sid)"
proof -
  have c: "silent (ApplyClientAccessChanges P config body' sid)" for config body'
    unfolding ApplyClientAccessChanges_def by (auto intro!: replies_intros split: sum.splits option.splits)
  have m: "silent (configure_mesh P client gw devs cfg)" for devs cfg
    by (induction devs arbitrary: cfg) (auto intro!: replies_intros)
  show ?thesis
    unfolding SetConfig_def apply_changes_def push_config_def
    by (auto intro!: replies_intros c m split: option.splits sum.splits)
qed

text \<open>
  A call that was answered with 200 and sent the configuration \<open>cfg\<close>, up to the stamp, to the device
  with serial number \<open>s\<close>.
\<close>

definition sends_config :: "string \<Rightarrow> jobj \<Rightarrow> api_call \<Rightarrow> bool" where
  "sends_config s cfg c \<longleftrightarrow> c_type c = uSERVICE_GATEWAY \<and> c_verb c = ''POST''
     \<and> c_path c = device_path s @ ''/configure''
     \<and> (\<exists>b ob. c_body c = Some b \<and> getObject b ''configuration'' = Some ob
          \<and> remove_key ''uuid'' ob = remove_key ''uuid'' cfg)"

definition stored :: "world \<Rightarrow> string \<Rightarrow> jobj \<Rightarrow> bool" where
  "stored w s cfg \<longleftrightarrow> (\<exists>before c after rp. w_calls w = before @ c # after \<and> sends_config s cfg c
     \<and> w_net w before c = Some rp \<and> rp_status rp = HTTP_OK)"

lemma stored_extends: "stored w s cfg \<Longrightarrow> extends w w' \<Longrightarrow> stored w' s cfg"
  unfolding stored_def extends_def by force

lemma remove_set_key [simp]: "remove_key k (set_key k v ob) = remove_key k ob"
  by (induction ob) (auto simp: remove_key_def)

lemma Configure_run:
  assumes "run_state (Configure P client s cfg) w = ((okc, stamped, x), w1)"
  shows "extends w w1" and "remove_key ''uuid'' stamped = remove_key ''uuid'' cfg"
    and "okc \<Longrightarrow> stored w1 s cfg"
proof -
  have v: "getVar (write_fields [set_key ''serialNumber'' s, set_key ''UUID'' n, set_key ''when'' k,
     set_key ''configuration'' (JObject ob)] []) ''configuration'' = JObject ob" for s n k ob
    by (simp add: write_fields_def getVar_def)
  note defs = Configure_def OpenAPIRequestPost_def read_clock_def transmit_def Let_def body_or_timeout_def
  show "extends w w1" and "remove_key ''uuid'' stamped = remove_key ''uuid'' cfg"
    using assms by (auto simp: defs extends_def split: prod.splits list.splits option.splits)
  show "stored w1 s cfg" if okc
  proof -
    have "\<exists>c rp. w_calls w1 = w_calls w @ [c] \<and> w_net w1 = w_net w \<and> sends_config s cfg c
      \<and> w_net w (w_calls w) c = Some rp \<and> rp_status rp = HTTP_OK"
      using assms that
      by (auto simp: defs sends_config_def getObject_def v split: prod.splits list.splits option.splits)
    then obtain c rp where "w_calls w1 = w_calls w @ c # []" "w_net w1 = w_net w" "sends_config s cfg c"
      "w_net w (w_calls w) c = Some rp" "rp_status rp = HTTP_OK" by auto
    then show ?thesis unfolding stored_def by metis
  qed
qed

lemma sends_config_cong:
  "remove_key ''uuid'' a = remove_key ''uuid'' b \<Longrightarrow> stored w s a \<longleftrightarrow> stored w s b"
  by (simp add: stored_def sends_config_def)

lemma configure_mesh_run:
  assumes "run_state (configure_mesh P client gw devs cfg) w = (Inr (), w1)"
  shows "extends w w1" and "dev \<in> set devs \<Longrightarrow> sd_serialNumber dev \<noteq> [] \<Longrightarrow>
    \<not> IsSameSerial P (sd_serialNumber dev) gw \<Longrightarrow> stored w1 (sd_serialNumber dev) cfg"
proof -
  have "extends w w1 \<and> (\<forall>dev \<in> set devs. sd_serialNumber dev \<noteq> [] \<and> \<not> IsSameSerial P (sd_serialNumber dev) gw
    \<longrightarrow> stored w1 (sd_serialNumber dev) cfg)"
    using assms
  proof (induction devs arbitrary: cfg w)
    case Nil
    then show ?case by (simp add: extends_def)
  next
    case (Cons d ds)
    show ?case
    proof (cases "sd_serialNumber d = [] \<or> IsSameSerial P (sd_serialNumber d) gw")
      case True
      then show ?thesis using Cons by auto
    next
      case False
      then obtain stamped x w2 where c: "run_state (Configure P client (sd_serialNumber d) cfg) w = ((True, stamped, x), w2)"
        and r: "run_state (configure_mesh P client gw ds stamped) w2 = (Inr (), w1)"
        using Cons.prems by (auto split: prod.splits if_splits)
      note e = Configure_run [OF c]
      from Cons.IH [OF r] e show ?thesis
        using sends_config_cong [OF e(2)] by (auto intro: stored_extends extends_trans)
    qed
  qed
  then show "extends w w1" and "dev \<in> set devs \<Longrightarrow> sd_serialNumber dev \<noteq> [] \<Longrightarrow>
    \<not> IsSameSerial P (sd_serialNumber dev) gw \<Longrightarrow> stored w1 (sd_serialNumber dev) cfg"
    by blast+
qed

text \<open>
  The network after a change: the gateway has the configuration, and after a Wi-Fi change the other
  devices have the mesh configuration built from it.
\<close>

definition configured ::
  "platform \<Rightarrow> jobj \<Rightarrow> SubscriberDevice list \<Rightarrow> string \<Rightarrow> jobj \<Rightarrow> jobj \<Rightarrow> world \<Rightarrow> bool" where
  "configured P body devs gw deviceObj config w \<longleftrightarrow> stored w gw config \<and>
     (has body ''ssid'' \<and> 1 < length devs \<longrightarrow>
       (\<exists>stamped mesh. remove_key ''uuid'' stamped = remove_key ''uuid'' config
         \<and> BuildMeshConfig P (Some (set_key ''configuration'' (JObject stamped) deviceObj)) = Some mesh
         \<and> (\<forall>dev \<in> set devs. sd_serialNumber dev \<noteq> [] \<and> \<not> IsSameSerial P (sd_serialNumber dev) gw
              \<longrightarrow> stored w (sd_serialNumber dev) mesh)))"

text \<open>
  (C18) A configuration change that is reported as done is done.  On success the requested changes were
  computed from the configuration of the gateway; either they change nothing and no device is
  configured, or the gateway accepted the changed configuration and, for a Wi-Fi change in a network
  of several devices, every other device of the subscriber accepted the mesh configuration built
  from it.
\<close>

theorem SetConfig_success_applied:
  assumes "run_state (SetConfig P client (Some body) devices gw sid) w = (Inr (), w1)"
    and "devs = sdl_subscriberDevices devices"
  shows "\<exists>st deviceObj config config' w2 w3. run_state (GetConfig P client gw) w = ((True, st, Some deviceObj), w2)
    \<and> getObject deviceObj ''configuration'' = Some config
    \<and> run_state (apply_changes P config body sid) w2 = (Inr config', w3)
    \<and> (if SerializeJson P (Some config') = SerializeJson P (Some config) then w1 = w3
       else configured P body devs gw deviceObj config' w1)"
proof -
  obtain st dob config config' w2 w3 where o: "run_state (GetConfig P client gw) w = ((True, st, Some dob), w2)"
    and c: "getObject dob ''configuration'' = Some config"
    and a: "run_state (apply_changes P config body sid) w2 = (Inr config', w3)"
    and p: "if SerializeJson P (Some config') = SerializeJson P (Some config) then w1 = w3
       else run_state (push_config P client body devs gw dob config') w3 = (Inr (), w1)"
    using assms by (auto simp: SetConfig_def split: prod.splits if_splits option.splits sum.splits)
  have "configured P body devs gw dob config' w1"
    if push: "run_state (push_config P client body devs gw dob config') w3 = (Inr (), w1)"
  proof -
    obtain stamped x w4 where cf: "run_state (Configure P client gw config') w3 = ((True, stamped, x), w4)"
      and rest: "if \<not> has body ''ssid'' \<or> length devs \<le> 1 then w4 = w1
        else (\<exists>mesh. BuildMeshConfig P (Some (set_key ''configuration'' (JObject stamped) dob)) = Some mesh
          \<and> run_state (configure_mesh P client gw devs mesh) w4 = (Inr (), w1))"
      using push by (auto simp: push_config_def split: prod.splits if_splits option.splits)
    note g = Configure_run [OF cf]
    show ?thesis
    proof (cases "\<not> has body ''ssid'' \<or> length devs \<le> 1")
      case True
      then show ?thesis using rest g(3) by (auto simp: configured_def)
    next
      case False
      then obtain mesh where "BuildMeshConfig P (Some (set_key ''configuration'' (JObject stamped) dob)) = Some mesh"
        and m: "run_state (configure_mesh P client gw devs mesh) w4 = (Inr (), w1)"
        using rest by auto
      then show ?thesis
        unfolding configured_def using g stored_extends configure_mesh_run [OF m] by blast
    qed
  qed
  then have "if SerializeJson P (Some config') = SerializeJson P (Some config) then w1 = w3
       else configured P body devs gw dob config' w1"
    using p by (simp split: if_splits)
  then show ?thesis using o c a by blast
qed

definition wifi_net :: "api_call list \<Rightarrow> api_call \<Rightarrow> reply option" where
  "wifi_net before c = Some \<lparr>rp_status = 200, rp_text = [],
     rp_json = Some (JObject (if c_verb c = ''GET'' then [(''configuration'', JObject wifi_config)] else []))\<rparr>"

definition wifi_devices :: SubscriberDeviceList where
  "wifi_devices = \<lparr>sdl_subscriberDevices = [
     SubscriberDevice_fresh\<lparr>sd_serialNumber := ''aabbccddeeff'', sd_deviceGroup := ''olg''\<rparr>,
     SubscriberDevice_fresh\<lparr>sd_serialNumber := ''aabbccddee00'', sd_deviceGroup := ''ap''\<rparr>]\<rparr>"

definition wifi_world :: "world \<Rightarrow> bool" where
  "wifi_world w \<longleftrightarrow> w_services w = w_services (sample_world wifi_net) \<and> w_net w = wifi_net
     \<and> w_clock w = (\<lambda>_. 1728043200000000)"

lemma wifi_calls:
  assumes "wifi_world w"
  shows "\<exists>w1. run_state (GetConfig ref_platform None s) w = ((True, 200, Some [(''configuration'', JObject wifi_config)]), w1)
    \<and> wifi_world w1"
    and "\<exists>w1. run_state (Configure ref_platform None s cfg) w
      = ((True, set_key ''uuid'' (JInt 1728043200) cfg, 200, Some []), w1) \<and> wifi_world w1"
  using assms
  by (simp_all add: wifi_world_def GetConfig_def Configure_def wifi_net_def run_defs has_def)

lemma wifi_mesh: "\<exists>mesh. BuildMeshConfig ref_platform (Some (set_key ''configuration'' (JObject
     (set_key ''uuid'' (JInt 1728043200) wifi_new))
     [(''configuration'', JObject wifi_config)])) = Some mesh"
proof -
  have "BuildMeshConfig ref_platform (Some (set_key ''configuration'' (JObject
     (set_key ''uuid'' (JInt 1728043200) wifi_new))
     [(''configuration'', JObject wifi_config)])) \<noteq> None"
    by code_simp
  then show ?thesis by auto
qed

lemma wifi_same: "IsSameSerial ref_platform ''aabbccddeeff'' ''aabbccddeeff''"
  "\<not> IsSameSerial ref_platform ''aabbccddee00'' ''aabbccddeeff''"
  by code_simp+

lemma wifi_changed: "SerializeJson ref_platform (Some wifi_new) \<noteq> SerializeJson ref_platform (Some wifi_config)"
  by code_simp

lemma wifi_run:
  "fst (run_state (SetConfig ref_platform None (Some wifi_request) wifi_devices ''aabbccddeeff'' ''sub1'')
    (sample_world wifi_net)) = Inr ()"
proof -
  have r: "has wifi_request ''ssid''" "\<not> has wifi_request ''client''" by code_simp+
  have w: "wifi_world (sample_world wifi_net)" by (simp add: wifi_world_def)
  obtain w1 where g: "run_state (GetConfig ref_platform None ''aabbccddeeff'') (sample_world wifi_net)
      = ((True, 200, Some [(''configuration'', JObject wifi_config)]), w1)" "wifi_world w1"
    using wifi_calls(1) [OF w] by blast
  obtain mesh where m: "BuildMeshConfig ref_platform (Some (set_key ''configuration'' (JObject
     (set_key ''uuid'' (JInt 1728043200) wifi_new))
     [(''configuration'', JObject wifi_config)])) = Some mesh"
    using wifi_mesh by blast
  obtain w2 where c: "run_state (Configure ref_platform None ''aabbccddeeff'' wifi_new) w1 = ((True, set_key ''uuid'' (JInt 1728043200)
     wifi_new, 200, Some []), w2)" "wifi_world w2"
    using wifi_calls(2) [OF g(2)] by blast
  obtain w3 where d: "run_state (Configure ref_platform None ''aabbccddee00'' mesh) w2
      = ((True, set_key ''uuid'' (JInt 1728043200) mesh, 200, Some []), w3)"
    using wifi_calls(2) [OF c(2)] by blast
  have o: "getObject [(''configuration'', JObject wifi_config)] ''configuration'' = Some wifi_config"
    by (simp add: getObject_def getVar_def)
  show ?thesis
    by (simp del: set_key.simps add: SetConfig_def wifi_devices_def g(1) o apply_changes_def r wifi_sample wifi_changed
        push_config_def c(1) m d wifi_same)
qed

theorem SetConfig_success_applied_witness:
  "\<exists>st deviceObj config config' w2 w3.
    run_state (GetConfig ref_platform None ''aabbccddeeff'') (sample_world wifi_net) = ((True, st, Some deviceObj), w2)
    \<and> getObject deviceObj ''configuration'' = Some config
    \<and> run_state (apply_changes ref_platform config wifi_request ''sub1'') w2 = (Inr config', w3)"
proof -
  let ?m = "SetConfig ref_platform None (Some wifi_request) wifi_devices ''aabbccddeeff'' ''sub1''"
  have "run_state ?m (sample_world wifi_net) = (Inr (), snd (run_state ?m (sample_world wifi_net)))"
    using wifi_run by (simp add: prod_eq_iff)
  from SetConfig_success_applied [OF this refl] show ?thesis by blast
qed

end
