(* ===== verification/Action.thy ===== *)
theory Action
  imports GatewayConfig
begin

text \<open>
  The action handler, \<^verbatim>\<open>src/RESTAPI/RESTAPI_action_handler.cpp\<close>: commands of a subscriber to its
  devices (reboot, blink, upgrade, factory reset) and changes of the network's configuration.
\<close>

section \<open>Reading the request\<close>

text \<open>An exception of Poco that leaves a handler is answered with a 400 by \<^verbatim>\<open>handleRequest\<close>.\<close>

definition uncaught :: "handler \<Rightarrow> unit io" where
  "uncaught H = BadRequest H Errors_InternalError []"

text \<open>\<^verbatim>\<open>AssignIfPresent\<close>: the conversions of \<^verbatim>\<open>Poco::Dynamic::Var\<close> may throw.\<close>

definition AssignString :: "platform \<Rightarrow> jobj \<Rightarrow> string \<Rightarrow> string \<Rightarrow> string exn" where
  "AssignString P O' field Value = (if has O' field then po_toString P (getVar O' field) else Inr Value)"

definition AssignUInt64 :: "platform \<Rightarrow> jobj \<Rightarrow> string \<Rightarrow> uint64 \<Rightarrow> uint64 exn" where
  "AssignUInt64 P O' field Value = (if has O' field
     then map_sum (\<lambda>e. e) word_of_int (po_toUInt64 P (getVar O' field)) else Inr Value)"

definition AssignBool :: "platform \<Rightarrow> jobj \<Rightarrow> string \<Rightarrow> bool \<Rightarrow> bool exn" where
  "AssignBool P O' field Value = (if has O' field
     then map_sum (\<lambda>e. e) (\<lambda>s. s = ''true'') (po_toString P (getVar O' field)) else Inr Value)"

definition assigned :: "handler \<Rightarrow> 'a exn \<Rightarrow> 'a option io" where
  "assigned H r = (case r of Inl _ \<Rightarrow> fail_with (uncaught H) | Inr x \<Rightarrow> ret (Some x))"

record ActionContext =
  ac_Command :: string
  ac_Mac :: string
  ac_TargetSerial :: string
  ac_GatewaySerial :: string
  ac_ImageName :: string
  ac_Pattern :: string
  ac_When :: uint64
  ac_Duration :: uint64
  ac_KeepRedirector :: bool
  ac_SubscriberDevices :: SubscriberDeviceList

definition ActionContext_fresh :: ActionContext where
  "ActionContext_fresh = \<lparr>ac_Command = [], ac_Mac = [], ac_TargetSerial = [], ac_GatewaySerial = [],
     ac_ImageName = [], ac_Pattern = ''blink'', ac_When = 0, ac_Duration = 30, ac_KeepRedirector = True,
     ac_SubscriberDevices = SubscriberDeviceList_fresh\<rparr>"

text \<open>The address of the device, required and normalised unless the command is \<^verbatim>\<open>configure\<close>.\<close>

definition checked_mac :: "platform \<Rightarrow> handler \<Rightarrow> string \<Rightarrow> string \<Rightarrow> string option io" where
  "checked_mac P H command mac =
     (if command = ''configure'' then ret (Some mac)
      else if mac = [] then fail_with (BadRequest H Errors_MissingSerialNumber [])
      else (case NormalizeMac P mac of (valid, m) \<Rightarrow>
        if valid then ret (Some m) else fail_with (BadRequest H Errors_InvalidMacAddress [])))"

definition ParseRequest :: "platform \<Rightarrow> handler \<Rightarrow> jobj \<Rightarrow> ActionContext option io" where
  "ParseRequest P H body =
     (let command = po_toLower P (po_trim P (GetParameter H ''action'' [])) in
      if command = [] then fail_with (BadRequest H Errors_MissingOrInvalidParameters [])
      else guard_step (assigned H (AssignString P body ''mac'' [])) (\<lambda>rawMac.
        guard_step (checked_mac P H command (po_toLower P (po_trim P rawMac))) (\<lambda>mac.
        guard_step (assigned H (AssignUInt64 P body ''when'' 0)) (\<lambda>When.
        guard_step (assigned H (AssignUInt64 P body ''duration'' 30)) (\<lambda>Duration.
        guard_step (assigned H (AssignString P body ''uri'' [])) (\<lambda>uri.
        guard_step (assigned H (AssignString P body ''pattern'' ''blink'')) (\<lambda>Pattern.
        guard_step (assigned H (AssignBool P body ''keepRedirector'' True)) (\<lambda>KeepRedirector.
          ret (Some (ActionContext_fresh\<lparr>ac_Command := command, ac_Mac := mac, ac_When := When,
            ac_Duration := Duration, ac_ImageName := po_trim P uri, ac_Pattern := Pattern,
            ac_KeepRedirector := KeepRedirector\<rparr>))))))))))"

section \<open>The devices of the subscriber\<close>

definition action_FetchSubscriberDevices :: "platform \<Rightarrow> handler \<Rightarrow> ActionContext \<Rightarrow> ActionContext option io" where
  "action_FetchSubscriberDevices P H ctx = do {
     (okv, devices, callStatus, callResponse) \<leftarrow> Prov_Subscriber_GetDevices P None (h_id H) (h_owner H) (Some []);
     (if \<not> okv then
        (if callStatus = HTTP_NOT_FOUND then fail_with (BadRequest H Errors_SubNoDeviceActivated [])
         else if callStatus \<noteq> HTTP_OK then fail_with (ForwardErrorResponse callStatus callResponse)
         else fail_with (InternalError H Errors_InternalError))
      else if sdl_subscriberDevices devices = [] then fail_with (BadRequest H Errors_SubNoDeviceActivated [])
      else ret (Some (ctx\<lparr>ac_SubscriberDevices := devices\<rparr>)))
   }"

definition action_FindGatewaySerial :: "platform \<Rightarrow> handler \<Rightarrow> ActionContext \<Rightarrow> ActionContext option io" where
  "action_FindGatewaySerial P H ctx =
     (let gw = find_gateway P (sdl_subscriberDevices (ac_SubscriberDevices ctx)) in
      if gw = [] then fail_with (BadRequest H Errors_SubNoDeviceActivated [])
      else ret (Some (ctx\<lparr>ac_GatewaySerial := gw\<rparr>)))"

definition normalizes_to :: "platform \<Rightarrow> string \<Rightarrow> string \<Rightarrow> bool" where
  "normalizes_to P s mac = (case NormalizeMac P s of (valid, m) \<Rightarrow> valid \<and> m = mac)"

text \<open>The first device with the requested serial number or hardware address.\<close>

fun find_target :: "platform \<Rightarrow> string \<Rightarrow> SubscriberDevice list \<Rightarrow> string" where
  "find_target P mac [] = []"
| "find_target P mac (dev # devs) =
     (if normalizes_to P (sd_serialNumber dev) mac \<or> normalizes_to P (sd_realMacAddress dev) mac
      then sd_serialNumber dev else find_target P mac devs)"

definition ResolveTargetSerial :: "platform \<Rightarrow> handler \<Rightarrow> ActionContext \<Rightarrow> ActionContext option io" where
  "ResolveTargetSerial P H ctx =
     (if ac_Command ctx = ''configure'' then ret (Some ctx)
      else let s = find_target P (ac_Mac ctx) (sdl_subscriberDevices (ac_SubscriberDevices ctx)) in
        if s = [] then fail_with (NotFound H) else ret (Some (ctx\<lparr>ac_TargetSerial := s\<rparr>)))"

section \<open>Execution\<close>

definition ReturnSDKResponse :: "handler \<Rightarrow> int \<Rightarrow> jobj ptr \<Rightarrow> unit io" where
  "ReturnSDKResponse H status response = (let payload = or_empty response in
     if status \<noteq> HTTP_OK then ForwardErrorResponse status (Some payload)
     else if payload \<noteq> [] then ReturnObject payload else OK H)"

definition ExecuteConfigure :: "platform \<Rightarrow> handler \<Rightarrow> jobj \<Rightarrow> ActionContext \<Rightarrow> unit io" where
  "ExecuteConfigure P H body ctx = do {
     r \<leftarrow> SetConfig P None (Some body) (ac_SubscriberDevices ctx) (ac_GatewaySerial ctx) (h_id H);
     (case r of Inl (status, response) \<Rightarrow> ReturnSDKResponse H status (Some response)
      | Inr _ \<Rightarrow> ReturnSDKResponse H HTTP_OK (Some []))
   }"

definition action_command :: "platform \<Rightarrow> ActionContext \<Rightarrow> (bool \<times> int \<times> jobj ptr) io option" where
  "action_command P ctx =
     (if ac_Command ctx = ''reboot'' then Some (Reboot P None (ac_TargetSerial ctx) (ac_When ctx))
      else if ac_Command ctx = ''blink''
        then Some (LEDs P None (ac_TargetSerial ctx) (ac_When ctx) (ac_Duration ctx) (ac_Pattern ctx))
      else if ac_Command ctx = ''upgrade''
        then Some (Upgrade P None (ac_TargetSerial ctx) (ac_When ctx) (ac_ImageName ctx) (ac_KeepRedirector ctx))
      else if ac_Command ctx = ''factory''
        then Some (Factory P None (ac_TargetSerial ctx) (ac_When ctx) (ac_KeepRedirector ctx))
      else None)"

definition ExecuteCommand :: "platform \<Rightarrow> handler \<Rightarrow> ActionContext \<Rightarrow> unit io" where
  "ExecuteCommand P H ctx = (case action_command P ctx of
     None \<Rightarrow> BadRequest H Errors_MissingOrInvalidParameters []
   | Some m \<Rightarrow> do {
       (_, callStatus, callResponse) \<leftarrow> m;
       ReturnSDKResponse H callStatus callResponse
     })"

definition action_DoPost :: "platform \<Rightarrow> handler \<Rightarrow> unit io" where
  "action_DoPost P H = (let body = or_empty (h_body H) in
     guard (ParseRequest P H body) (\<lambda>ctx.
     guard (action_FetchSubscriberDevices P H ctx) (\<lambda>ctx1.
     guard (action_FindGatewaySerial P H ctx1) (\<lambda>ctx2.
     guard (ResolveTargetSerial P H ctx2) (\<lambda>ctx3.
       if ac_Command ctx3 = ''configure'' then ExecuteConfigure P H body ctx3
       else ExecuteCommand P H ctx3)))))"

section \<open>One answer\<close>

lemma fail_assigned [replies_intros]: "answers_fail (assigned H r)"
  unfolding assigned_def uncaught_def by (auto intro!: replies_intros split: sum.splits)

lemma fail_action_steps [replies_intros]:
  "answers_fail (ParseRequest P H b)" "answers_fail (action_FetchSubscriberDevices P H c)"
  "answers_fail (action_FindGatewaySerial P H c)" "answers_fail (ResolveTargetSerial P H c)"
  unfolding ParseRequest_def checked_mac_def action_FetchSubscriberDevices_def
    action_FindGatewaySerial_def ResolveTargetSerial_def Let_def
  by (intro replies_intros)+

lemma once_ReturnSDKResponse [replies_intros]: "answers_once (ReturnSDKResponse H s r)"
  unfolding ReturnSDKResponse_def Let_def by (intro replies_intros)

lemma silent_action_command: "action_command P ctx = Some m \<Longrightarrow> silent m"
  by (auto simp: action_command_def intro!: replies_intros split: if_splits)

lemma once_execute [replies_intros]:
  "answers_once (ExecuteConfigure P H b c)" "answers_once (ExecuteCommand P H c)"
  unfolding ExecuteConfigure_def ExecuteCommand_def
  by (auto intro!: replies_intros silent_action_command split: sum.splits option.splits)

lemma once_action: "answers_once (action_DoPost P H)"
  unfolding action_DoPost_def Let_def by (intro replies_intros)

section \<open>Only the subscriber's own devices\<close>

text \<open>
  The devices a request is about: all devices of the subscriber for a configuration change, and the
  ones with the requested serial number or hardware address for a command.
\<close>

definition addressed :: "platform \<Rightarrow> handler \<Rightarrow> SubscriberDevice \<Rightarrow> bool" where
  "addressed P H dev \<longleftrightarrow> po_toLower P (po_trim P (GetParameter H ''action'' [])) = ''configure'' \<or>
     (\<exists>raw mac. AssignString P (or_empty (h_body H)) ''mac'' [] = Inr raw
        \<and> NormalizeMac P (po_toLower P (po_trim P raw)) = (True, mac)
        \<and> (normalizes_to P (sd_serialNumber dev) mac \<or> normalizes_to P (sd_realMacAddress dev) mac))"

definition action_call :: "handler \<Rightarrow> string set \<Rightarrow> api_call \<Rightarrow> bool" where
  "action_call H serials c \<longleftrightarrow> in_scope (h_id H) c
     \<or> c_type c = uSERVICE_GATEWAY \<and> (\<exists>s \<in> serials. \<exists>x. c_path c = device_path s @ x)"

text \<open>A step that changes nothing when it succeeds, and then returns a value satisfying \<open>Q\<close>.\<close>

definition clean_step :: "('a \<Rightarrow> bool) \<Rightarrow> 'a option io \<Rightarrow> bool" where
  "clean_step Q m \<longleftrightarrow> (\<forall>w x w1. run_state m w = (Some x, w1) \<longrightarrow> w1 = w \<and> Q x)"

lemma clean_step_simps [simp]:
  "clean_step Q (ret (Some x)) = Q x" "clean_step Q (fail_with m)"
  by (auto simp: clean_step_def fail_with_def split: prod.splits)

lemma clean_guard_step:
  "clean_step R m \<Longrightarrow> (\<And>x. R x \<Longrightarrow> clean_step Q (k x)) \<Longrightarrow> clean_step Q (guard_step m k)"
  unfolding clean_step_def guard_step_def by (fastforce split: prod.splits option.splits)

lemma clean_assigned: "clean_step (\<lambda>x. r = Inr x) (assigned H r)"
  by (cases r) (simp_all add: assigned_def)

lemma clean_checked_mac:
  "clean_step (\<lambda>m. command = ''configure'' \<or> NormalizeMac P mac = (True, m)) (checked_mac P H command mac)"
  by (cases "NormalizeMac P mac") (simp add: checked_mac_def)

definition parsed_ok :: "platform \<Rightarrow> handler \<Rightarrow> jobj \<Rightarrow> ActionContext \<Rightarrow> bool" where
  "parsed_ok P H body ctx \<longleftrightarrow> ac_Command ctx = po_toLower P (po_trim P (GetParameter H ''action'' []))
      \<and> (ac_Command ctx = ''configure'' \<or> (\<exists>raw. AssignString P body ''mac'' [] = Inr raw
           \<and> NormalizeMac P (po_toLower P (po_trim P raw)) = (True, ac_Mac ctx)))"

lemma clean_if:
  "(b \<Longrightarrow> clean_step Q m) \<Longrightarrow> (\<not> b \<Longrightarrow> clean_step Q n) \<Longrightarrow> clean_step Q (if b then m else n)"
  by simp

lemma clean_ParseRequest: "clean_step (parsed_ok P H body) (ParseRequest P H body)"
  unfolding ParseRequest_def Let_def
  by (intro clean_if clean_guard_step [OF clean_assigned] clean_guard_step [OF clean_checked_mac])
    (auto simp: parsed_ok_def)

lemma emits_ParseRequest [emits_intros]: "emits C (ParseRequest P H body)"
  unfolding ParseRequest_def checked_mac_def assigned_def uncaught_def Let_def by (intro emits_intros)

lemma find_target_dev:
  "find_target P mac devs = s \<Longrightarrow> s \<noteq> [] \<Longrightarrow>
   \<exists>dev \<in> set devs. s = sd_serialNumber dev \<and>
     (normalizes_to P (sd_serialNumber dev) mac \<or> normalizes_to P (sd_realMacAddress dev) mac)"
  by (induction devs) (auto split: if_splits)

lemma find_gateway_dev: "find_gateway P devs \<noteq> [] \<Longrightarrow> find_gateway P devs \<in> sd_serialNumber ` set devs"
  by (induction devs) auto

lemma emits_command:
  assumes "ac_TargetSerial ctx \<in> serials"
  shows "emits (action_call H serials) (ExecuteCommand P H ctx)"
proof -
  have g: "emits (action_call H serials) (ExecuteGatewayCommand P None (device_path (ac_TargetSerial ctx) @ x) b)" for x b
    unfolding ExecuteGatewayCommand_def OpenAPIRequestPost_def
    by (intro emits_intros emits_transmit) (use assms in \<open>auto simp: action_call_def\<close>)
  have "emits (action_call H serials) m" if "action_command P ctx = Some m" for m
    using that g by (auto simp: action_command_def Reboot_def LEDs_def Upgrade_def Factory_def split: if_splits)
  then show ?thesis
    unfolding ExecuteCommand_def ReturnSDKResponse_def Let_def by (intro emits_intros)
qed

lemma config_action_call:
  assumes "config_call gw own (h_id H) c" "gw \<in> serials" "own \<subseteq> serials"
  shows "action_call H serials c"
proof -
  have "\<exists>s \<in> serials. \<exists>x. c_path c = device_path s @ x" if "c_path c = device_path s @ x" "s \<in> insert gw own" for s x
    using that assms(2,3) by blast
  from this [of gw "[]"] this [of _ "''/configure''"] show ?thesis
    using assms(1) unfolding config_call_def action_call_def by fastforce
qed

lemma emits_configure:
  assumes "ac_GatewaySerial ctx \<in> serials"
    and "sd_serialNumber ` set (sdl_subscriberDevices (ac_SubscriberDevices ctx)) \<subseteq> serials"
  shows "emits (action_call H serials) (ExecuteConfigure P H body ctx)"
proof -
  have "emits (action_call H serials)
      (SetConfig P None (Some body) (ac_SubscriberDevices ctx) (ac_GatewaySerial ctx) (h_id H))"
    using emits_SetConfig
  proof (rule emits_mono)
    fix c
    assume "config_call (ac_GatewaySerial ctx)
      (sd_serialNumber ` set (sdl_subscriberDevices (ac_SubscriberDevices ctx))) (h_id H) c"
    then show "action_call H serials c"
      using config_action_call assms by blast
  qed
  then show ?thesis
    unfolding ExecuteConfigure_def ReturnSDKResponse_def Let_def by (intro emits_intros)
qed

text \<open>The part of the handler after the devices have been fetched.\<close>

definition action_rest :: "platform \<Rightarrow> handler \<Rightarrow> ActionContext \<Rightarrow> unit io" where
  "action_rest P H ctx1 = guard (action_FindGatewaySerial P H ctx1) (\<lambda>ctx2.
     guard (ResolveTargetSerial P H ctx2) (\<lambda>ctx3.
       if ac_Command ctx3 = ''configure'' then ExecuteConfigure P H (or_empty (h_body H)) ctx3
       else ExecuteCommand P H ctx3))"

lemma action_steps_yield:
  "yields (\<lambda>c. \<exists>gw \<in> sd_serialNumber ` set (sdl_subscriberDevices (ac_SubscriberDevices ctx)).
     c = ctx\<lparr>ac_GatewaySerial := gw\<rparr>) (action_FindGatewaySerial P H ctx)"
  "yields (\<lambda>c. ac_Command ctx = ''configure'' \<and> c = ctx \<or> ac_Command ctx \<noteq> ''configure'' \<and>
     (\<exists>dev \<in> set (sdl_subscriberDevices (ac_SubscriberDevices ctx)). c = ctx\<lparr>ac_TargetSerial := sd_serialNumber dev\<rparr>
       \<and> (normalizes_to P (sd_serialNumber dev) (ac_Mac ctx) \<or> normalizes_to P (sd_realMacAddress dev) (ac_Mac ctx))))
   (ResolveTargetSerial P H ctx)"
proof -
  show "yields (\<lambda>c. \<exists>gw \<in> sd_serialNumber ` set (sdl_subscriberDevices (ac_SubscriberDevices ctx)).
     c = ctx\<lparr>ac_GatewaySerial := gw\<rparr>) (action_FindGatewaySerial P H ctx)"
    unfolding action_FindGatewaySerial_def Let_def
    by (intro yields_intros) (use find_gateway_dev in blast)
  show "yields (\<lambda>c. ac_Command ctx = ''configure'' \<and> c = ctx \<or> ac_Command ctx \<noteq> ''configure'' \<and>
     (\<exists>dev \<in> set (sdl_subscriberDevices (ac_SubscriberDevices ctx)). c = ctx\<lparr>ac_TargetSerial := sd_serialNumber dev\<rparr>
       \<and> (normalizes_to P (sd_serialNumber dev) (ac_Mac ctx) \<or> normalizes_to P (sd_realMacAddress dev) (ac_Mac ctx))))
   (ResolveTargetSerial P H ctx)"
    unfolding ResolveTargetSerial_def Let_def
  proof (intro yields_intros)
    assume "ac_Command ctx \<noteq> ''configure''"
      and "find_target P (ac_Mac ctx) (sdl_subscriberDevices (ac_SubscriberDevices ctx)) \<noteq> []"
    with find_target_dev [OF refl this(2)] show "ac_Command ctx = ''configure'' \<and>
      ctx\<lparr>ac_TargetSerial := find_target P (ac_Mac ctx) (sdl_subscriberDevices (ac_SubscriberDevices ctx))\<rparr> = ctx \<or>
      ac_Command ctx \<noteq> ''configure'' \<and> (\<exists>dev \<in> set (sdl_subscriberDevices (ac_SubscriberDevices ctx)).
        ctx\<lparr>ac_TargetSerial := find_target P (ac_Mac ctx) (sdl_subscriberDevices (ac_SubscriberDevices ctx))\<rparr>
          = ctx\<lparr>ac_TargetSerial := sd_serialNumber dev\<rparr> \<and>
        (normalizes_to P (sd_serialNumber dev) (ac_Mac ctx) \<or> normalizes_to P (sd_realMacAddress dev) (ac_Mac ctx)))"
      by auto
  qed simp
qed

lemma emits_action_rest:
  assumes "parsed_ok P H (or_empty (h_body H)) ctx"
    and "devs = sdl_subscriberDevices (ac_SubscriberDevices ctx)"
  shows "emits (action_call H (sd_serialNumber ` {dev \<in> set devs. addressed P H dev})) (action_rest P H ctx)"
  unfolding action_rest_def
proof (intro emits_guard_when [OF action_steps_yield(1)] emits_guard_when [OF action_steps_yield(2)])
  show "emits C (action_FindGatewaySerial P H ctx)" "emits C (ResolveTargetSerial P H ctx2)" for C ctx2
    unfolding action_FindGatewaySerial_def ResolveTargetSerial_def Let_def by (intro emits_intros)+
  fix ctx2 ctx3
  assume gw: "\<exists>gw \<in> sd_serialNumber ` set (sdl_subscriberDevices (ac_SubscriberDevices ctx)). ctx2 = ctx\<lparr>ac_GatewaySerial := gw\<rparr>"
    and c3: "ac_Command ctx2 = ''configure'' \<and> ctx3 = ctx2 \<or> ac_Command ctx2 \<noteq> ''configure'' \<and>
     (\<exists>dev \<in> set (sdl_subscriberDevices (ac_SubscriberDevices ctx2)). ctx3 = ctx2\<lparr>ac_TargetSerial := sd_serialNumber dev\<rparr>
       \<and> (normalizes_to P (sd_serialNumber dev) (ac_Mac ctx2) \<or> normalizes_to P (sd_realMacAddress dev) (ac_Mac ctx2)))"
  show "emits (action_call H (sd_serialNumber ` {dev \<in> set devs. addressed P H dev}))
    (if ac_Command ctx3 = ''configure'' then ExecuteConfigure P H (or_empty (h_body H)) ctx3 else ExecuteCommand P H ctx3)"
  proof (cases "ac_Command ctx = ''configure''")
    case True
    then have "addressed P H dev" for dev using assms(1) by (simp add: parsed_ok_def addressed_def)
    then show ?thesis using True gw c3 assms(2) by (auto intro!: emits_configure)
  next
    case False
    then obtain raw where "AssignString P (or_empty (h_body H)) ''mac'' [] = Inr raw"
      "NormalizeMac P (po_toLower P (po_trim P raw)) = (True, ac_Mac ctx)" using assms(1) unfolding parsed_ok_def by blast
    then have "normalizes_to P (sd_serialNumber dev) (ac_Mac ctx) \<or> normalizes_to P (sd_realMacAddress dev) (ac_Mac ctx)
        \<Longrightarrow> addressed P H dev" for dev unfolding addressed_def by blast
    then show ?thesis using False gw c3 assms(2) by (auto intro!: emits_command)
  qed
qed

lemma action_split: "action_DoPost P H = guard (ParseRequest P H (or_empty (h_body H))) (\<lambda>ctx.
   guard (action_FetchSubscriberDevices P H ctx) (action_rest P H))"
  by (simp add: action_DoPost_def action_rest_def [abs_def] Let_def)

text \<open>
  (C22) A subscriber acts on its own devices only.  The handler answers exactly once; after it has
  listed the devices of the authenticated subscriber, every call goes to the client-access resource of
  this subscriber or to the gateway controller for a device of that list, and for a command other
  than \<^verbatim>\<open>configure\<close> the device is one whose serial number or hardware address is the requested one.  An
  unreadable request makes no call at all.
\<close>

theorem action_own_devices_only:
  assumes "run_state (Prov_Subscriber_GetDevices P None (h_id H) (h_owner H) (Some [])) w = ((okd, devices, st, resp), w1)"
    and "run_state (action_DoPost P H) w = ((), w2)"
    and "own = sd_serialNumber ` {dev \<in> set (sdl_subscriberDevices devices). addressed P H dev}"
  shows "answers_once (action_DoPost P H) \<and>
    (w_calls w2 = w_calls w \<or> (\<exists>cs. w_calls w2 = w_calls w1 @ cs \<and> list_all (action_call H own) cs))"
proof (intro conjI once_action)
  let ?p = "ParseRequest P H (or_empty (h_body H))"
  obtain r w' where p: "run_state ?p w = (r, w')" by (cases "run_state ?p w")
  show "w_calls w2 = w_calls w \<or> (\<exists>cs. w_calls w2 = w_calls w1 @ cs \<and> list_all (action_call H own) cs)"
  proof (cases r)
    case None
    then have "w2 = w'" using assms(2) p by (simp add: action_split guard_def)
    moreover have "w_calls w' = w_calls w" using no_calls [OF emits_ParseRequest] p by (metis snd_conv)
    ultimately show ?thesis by simp
  next
    case (Some ctx)
    then have w': "w' = w" and ok: "parsed_ok P H (or_empty (h_body H)) ctx"
      using clean_ParseRequest p unfolding clean_step_def by blast+
    then have g: "run_state (guard (action_FetchSubscriberDevices P H ctx) (action_rest P H)) w = ((), w2)"
      using assms(2) p Some by (simp add: action_split guard_def)
    let ?c = "ctx\<lparr>ac_SubscriberDevices := devices\<rparr>"
    show ?thesis
    proof (cases "okd \<and> sdl_subscriberDevices devices \<noteq> []")
      case True
      then have "run_state (action_rest P H ?c) w1 = ((), w2)"
        using g assms(1) by (simp add: guard_def action_FetchSubscriberDevices_def)
      moreover have "emits (action_call H own) (action_rest P H ?c)"
        unfolding assms(3) using ok by (intro emits_action_rest) (auto simp: parsed_ok_def)
      ultimately show ?thesis by (metis emitsE snd_conv)
    next
      case False
      define f where "f = (if \<not> okd then (if st = HTTP_NOT_FOUND then BadRequest H Errors_SubNoDeviceActivated []
        else if st \<noteq> HTTP_OK then ForwardErrorResponse st resp else InternalError H Errors_InternalError)
        else BadRequest H Errors_SubNoDeviceActivated [])"
      have "snd (run_state f w1) = w2"
        using g assms(1) False
        by (auto simp: guard_def action_FetchSubscriberDevices_def fail_with_def f_def split: if_splits prod.splits)
      moreover have "emits (\<lambda>_. False) f" unfolding f_def by (intro emits_intros)
      ultimately show ?thesis using no_calls by fastforce
    qed
  qed
qed

definition action_request :: handler where
  "action_request = (sample_handler ''POST'')\<lparr>h_params := [(''action'', ''Reboot'')],
     h_body := Some [(''mac'', JString ''11:22:33:44:55:66'')]\<rparr>"

theorem action_own_devices_only_witness:
  "\<exists>own cs w1. w_calls (snd (run_state (action_DoPost ref_platform action_request) (sample_world sample_net))) = w1 @ cs
     \<and> list_all (action_call action_request own) cs \<and> answers_once (action_DoPost ref_platform action_request)"
proof -
  let ?w = "sample_world sample_net"
  obtain okd devices st resp w1 where
    g: "run_state (Prov_Subscriber_GetDevices ref_platform None (h_id action_request) (h_owner action_request) (Some [])) ?w
      = ((okd, devices, st, resp), w1)"
    by (cases "run_state (Prov_Subscriber_GetDevices ref_platform None (h_id action_request) (h_owner action_request) (Some [])) ?w") auto
  have d: "run_state (action_DoPost ref_platform action_request) ?w
      = ((), snd (run_state (action_DoPost ref_platform action_request) ?w))"
    by (simp add: prod_eq_iff)
  show ?thesis
    using action_own_devices_only [OF g d refl] by (metis append_Nil2 list.pred_inject(1))
qed

end
