(* ===== verification/SubscriberDevices.thy ===== *)
theory SubscriberDevices
  imports GatewayConfig
begin

text \<open>
  Adding a device to a subscriber and removing it,
  \<^verbatim>\<open>src/RESTAPI/RESTAPI_subscriber_devices_handler.cpp\<close>.  The first device of a subscriber becomes the
  gateway (group \<^verbatim>\<open>olg\<close>) with a default configuration, every later one a mesh access point (group
  \<^verbatim>\<open>ap\<close>) with the configuration of the gateway.
\<close>

section \<open>Adding a device\<close>

record AddDeviceContext =
  ad_Mac :: string
  ad_DeviceName :: string
  ad_DeviceGroup :: string
  ad_ExistingDevices :: SubscriberDeviceList
  ad_SubDevice :: SubscriberDevice

definition AddDeviceContext_fresh :: AddDeviceContext where
  "AddDeviceContext_fresh = \<lparr>ad_Mac = [], ad_DeviceName = [], ad_DeviceGroup = [],
     ad_ExistingDevices = SubscriberDeviceList_fresh, ad_SubDevice = SubscriberDevice_fresh\<rparr>"

definition Validate_Inputs :: "platform \<Rightarrow> handler \<Rightarrow> string option io" where
  "Validate_Inputs P H =
     (if h_id H = [] then fail_with (UnAuthorized H Errors_InvalidSubscriberId)
      else (case NormalizeMac P (GetBinding P H ''mac'' []) of (valid, mac) \<Rightarrow>
        if valid then ret (Some mac) else fail_with (BadRequest H Errors_InvalidMacAddress [])))"

definition add_FetchSubscriberDevices :: "platform \<Rightarrow> handler \<Rightarrow> SubscriberDeviceList option io" where
  "add_FetchSubscriberDevices P H = do {
     (okv, devices, status, response) \<leftarrow> Prov_Subscriber_GetDevices P None (h_id H) (h_owner H) (Some []);
     (if okv then ret (Some devices)
      else if status = HTTP_NOT_FOUND then ret (Some (devices\<lparr>sdl_subscriberDevices := []\<rparr>))
      else fail_with (InternalError H Errors_AddDeviceFailed))
   }"

text \<open>The step succeeds when the device is not provisioned yet.\<close>

definition IsDeviceAlreadyProvisioned :: "platform \<Rightarrow> handler \<Rightarrow> AddDeviceContext \<Rightarrow> unit option io" where
  "IsDeviceAlreadyProvisioned P H ctx =
     (if ad_Mac ctx \<in> sd_serialNumber ` set (sdl_subscriberDevices (ad_ExistingDevices ctx))
      then fail_with (BadRequest H Errors_SerialNumberAlreadyProvisioned [])
      else do {
        (okv, existingDevice, callStatus, callResponse) \<leftarrow> Prov_Subscriber_GetDevice P (Some H) (ad_Mac ctx) (Some []);
        (if okv then fail_with (BadRequest H Errors_SerialNumberAlreadyProvisioned [])
         else if callStatus \<noteq> HTTP_NOT_FOUND then fail_with (ForwardErrorResponse callStatus callResponse)
         else ret (Some ()))
      })"

definition IsDevicePresentInInventory :: "platform \<Rightarrow> handler \<Rightarrow> AddDeviceContext \<Rightarrow> unit option io" where
  "IsDevicePresentInInventory P H ctx = do {
     (okv, inventory) \<leftarrow> Prov_Device_Get P None (ad_Mac ctx) InventoryTag_fresh;
     (if okv then ret (Some ()) else fail_with (BadRequest H Errors_SubNoDeviceActivated []))
   }"

definition InitializeSubscriberDevice :: "handler \<Rightarrow> AddDeviceContext \<Rightarrow> AddDeviceContext" where
  "InitializeSubscriberDevice H ctx =
     (let existing = sdl_subscriberDevices (ad_ExistingDevices ctx);
          grp = (if existing = [] then ''olg'' else ''ap'');
          name = ''Device-'' @ show_nat (length existing + 1);
          dev = ad_SubDevice ctx
      in ctx\<lparr>ad_DeviceGroup := grp, ad_DeviceName := name,
           ad_SubDevice := dev\<lparr>sd_info := (sd_info dev)\<lparr>oi_name := name\<rparr>, sd_serialNumber := ad_Mac ctx,
             sd_subscriberId := h_id H, sd_deviceGroup := grp\<rparr>\<rparr>)"

definition with_configuration :: "AddDeviceContext \<Rightarrow> DeviceConfigurationElement list \<Rightarrow> AddDeviceContext" where
  "with_configuration ctx cfg = ctx\<lparr>ad_SubDevice := (ad_SubDevice ctx)\<lparr>sd_configuration := cfg\<rparr>\<rparr>"

definition PrepareGatewayConfiguration :: "platform \<Rightarrow> handler \<Rightarrow> AddDeviceContext \<Rightarrow> AddDeviceContext option io" where
  "PrepareGatewayConfiguration P H ctx = do {
     (okg, responseStatus, ConfigObj) \<leftarrow> GetConfig P None (ad_Mac ctx);
     (if \<not> okg then fail_with (ForwardErrorResponse responseStatus ConfigObj)
      else (case BuildGatewayConfig P ConfigObj (ad_Mac ctx) of
          None \<Rightarrow> fail_with (InternalError H Errors_ApplyConfigFailed)
        | Some cfg \<Rightarrow> ret (Some (with_configuration ctx cfg))))
   }"

definition PrepareMeshConfiguration :: "platform \<Rightarrow> handler \<Rightarrow> AddDeviceContext \<Rightarrow> AddDeviceContext option io" where
  "PrepareMeshConfiguration P H ctx =
     (let gw = find_gateway P (sdl_subscriberDevices (ad_ExistingDevices ctx)) in
      if gw = [] then fail_with (InternalError H Errors_AddDeviceFailed)
      else do {
        (okg, responseStatus, config) \<leftarrow> GetConfig P None gw;
        (if \<not> okg then fail_with (InternalError H Errors_AddDeviceFailed)
         else if \<not> ValidateConfig config then fail_with (InternalError H Errors_ConfigBlockInvalid)
         else (case BuildMeshConfig P config of
             None \<Rightarrow> fail_with (InternalError H Errors_ConfigurationMustExist)
           | Some mesh \<Rightarrow> (case AppendWeightedSections P (Some mesh) of
                 None \<Rightarrow> fail_with (InternalError H Errors_ConfigurationMustExist)
               | Some cfg \<Rightarrow> ret (Some (with_configuration ctx cfg)))))
      })"

definition CreateProvisioningRecord :: "platform \<Rightarrow> handler \<Rightarrow> AddDeviceContext \<Rightarrow> unit option io" where
  "CreateProvisioningRecord P H ctx = do {
     (okv, dev, callStatus, callResponse) \<leftarrow> Prov_Subscriber_CreateSubsciberDevice P (Some H) (ad_DeviceName ctx)
       (ad_Mac ctx) (h_id H) (h_owner H) (ad_DeviceGroup ctx) (sd_configuration (ad_SubDevice ctx))
       (ad_SubDevice ctx) (Some []);
     (if okv then ret (Some ()) else fail_with (ForwardErrorResponse callStatus callResponse))
   }"

definition prepare_configuration :: "platform \<Rightarrow> handler \<Rightarrow> AddDeviceContext \<Rightarrow> AddDeviceContext option io" where
  "prepare_configuration P H ctx = (if ad_DeviceGroup ctx = ''olg'' then PrepareGatewayConfiguration P H ctx
     else PrepareMeshConfiguration P H ctx)"

definition subscriber_devices_DoPost :: "platform \<Rightarrow> handler \<Rightarrow> unit io" where
  "subscriber_devices_DoPost P H =
     guard (Validate_Inputs P H) (\<lambda>mac.
     guard (add_FetchSubscriberDevices P H) (\<lambda>devices.
       let ctx = AddDeviceContext_fresh\<lparr>ad_Mac := mac, ad_ExistingDevices := devices\<rparr> in
       guard (IsDeviceAlreadyProvisioned P H ctx) (\<lambda>_.
       guard (IsDevicePresentInInventory P H ctx) (\<lambda>_.
       guard (prepare_configuration P H (InitializeSubscriberDevice H ctx)) (\<lambda>ctx1.
       guard (CreateProvisioningRecord P H ctx1) (\<lambda>_. OK H))))))"

section \<open>Removing a device\<close>

definition subscriber_devices_DoDelete :: "platform \<Rightarrow> handler \<Rightarrow> unit io" where
  "subscriber_devices_DoDelete P H = guard (Validate_Inputs P H) (\<lambda>mac. do {
     (okv, callStatus, callResponse) \<leftarrow> Prov_Subscriber_DeleteSubscriberDevice P (Some H) mac (Some []);
     (if okv then OK H else ForwardErrorResponse callStatus callResponse)
   })"

section \<open>One answer\<close>

lemma fail_add_steps [replies_intros]:
  "answers_fail (Validate_Inputs P H)" "answers_fail (add_FetchSubscriberDevices P H)"
  "answers_fail (IsDeviceAlreadyProvisioned P H c)" "answers_fail (IsDevicePresentInInventory P H c)"
  "answers_fail (prepare_configuration P H c)" "answers_fail (CreateProvisioningRecord P H c)"
  unfolding Validate_Inputs_def add_FetchSubscriberDevices_def IsDeviceAlreadyProvisioned_def
    IsDevicePresentInInventory_def prepare_configuration_def PrepareGatewayConfiguration_def
    PrepareMeshConfiguration_def CreateProvisioningRecord_def Let_def
  by (intro replies_intros)+

lemma once_subscriber_devices:
  "answers_once (subscriber_devices_DoPost P H)" "answers_once (subscriber_devices_DoDelete P H)"
  unfolding subscriber_devices_DoPost_def subscriber_devices_DoDelete_def Let_def by (intro replies_intros)+

section \<open>What adding a device does\<close>

lemma guard_assoc: "guard (guard_step m k) f = guard m (\<lambda>x. guard (k x) f)"
  unfolding guard_def guard_step_def
  by (rule State_Monad.state.expand, rule ext) (auto split: prod.splits option.splits)

text \<open>Everything before the record is created.\<close>

definition add_prepare :: "platform \<Rightarrow> handler \<Rightarrow> AddDeviceContext option io" where
  "add_prepare P H =
     guard_step (Validate_Inputs P H) (\<lambda>mac.
     guard_step (add_FetchSubscriberDevices P H) (\<lambda>devices.
       guard_step (IsDeviceAlreadyProvisioned P H (AddDeviceContext_fresh\<lparr>ad_Mac := mac, ad_ExistingDevices := devices\<rparr>)) (\<lambda>_.
       guard_step (IsDevicePresentInInventory P H (AddDeviceContext_fresh\<lparr>ad_Mac := mac, ad_ExistingDevices := devices\<rparr>)) (\<lambda>_.
       prepare_configuration P H (InitializeSubscriberDevice H
         (AddDeviceContext_fresh\<lparr>ad_Mac := mac, ad_ExistingDevices := devices\<rparr>))))))"

lemma add_split: "subscriber_devices_DoPost P H =
   guard (add_prepare P H) (\<lambda>ctx. guard (CreateProvisioningRecord P H ctx) (\<lambda>_. OK H))"
  by (simp add: subscriber_devices_DoPost_def add_prepare_def guard_assoc Let_def)

lemma emits_add_prepare: "emits (\<lambda>c. c_verb c = ''GET'') (add_prepare P H)"
  unfolding add_prepare_def Validate_Inputs_def add_FetchSubscriberDevices_def IsDeviceAlreadyProvisioned_def
    IsDevicePresentInInventory_def prepare_configuration_def PrepareGatewayConfiguration_def
    PrepareMeshConfiguration_def Prov_Subscriber_GetDevices_def Prov_Subscriber_GetDevice_def
    Prov_Device_Get_def GetConfig_def OpenAPIRequestGet_def Let_def
  by (intro emits_intros emits_transmit) simp_all

text \<open>A device may be added: it is known, free, and in the inventory.\<close>

definition may_add :: "platform \<Rightarrow> handler \<Rightarrow> world \<Rightarrow> string \<Rightarrow> SubscriberDevice list \<Rightarrow> bool" where
  "may_add P H w mac devices \<longleftrightarrow> h_id H \<noteq> [] \<and> NormalizeMac P (GetBinding P H ''mac'' []) = (True, mac)
     \<and> mac \<notin> sd_serialNumber ` set devices
     \<and> (\<exists>devs w1 dev resp w2 inv w3.
          run_state (add_FetchSubscriberDevices P H) w = (Some devs, w1) \<and> sdl_subscriberDevices devs = devices
        \<and> run_state (Prov_Subscriber_GetDevice P (Some H) mac (Some [])) w1 = ((False, dev, HTTP_NOT_FOUND, resp), w2)
        \<and> run_state (Prov_Device_Get P None mac InventoryTag_fresh) w2 = ((True, inv), w3))"

lemma guard_step_Some_iff:
  "run_state (guard_step m k) w = (Some y, w2) \<longleftrightarrow>
   (\<exists>x w1. run_state m w = (Some x, w1) \<and> run_state (k x) w1 = (Some y, w2))"
  by (auto simp: guard_step_def split: prod.splits option.splits)

lemma fail_with_Some [simp]: "run_state (fail_with m) w \<noteq> (Some x, w1)"
  by (auto simp: fail_with_def split: prod.splits)

lemma prepare_keeps:
  assumes "run_state (prepare_configuration P H ctx) w = (Some ctx1, w1)"
  shows "ad_Mac ctx1 = ad_Mac ctx \<and> ad_DeviceName ctx1 = ad_DeviceName ctx \<and> ad_DeviceGroup ctx1 = ad_DeviceGroup ctx"
  using assms
  by (auto simp: prepare_configuration_def PrepareGatewayConfiguration_def PrepareMeshConfiguration_def Let_def
      with_configuration_def split: if_splits prod.splits option.splits)

lemma add_prepare_run:
  assumes "run_state (add_prepare P H) w = (Some ctx, w1)"
  shows "\<exists>devices. may_add P H w (ad_Mac ctx) devices
    \<and> ad_DeviceGroup ctx = (if devices = [] then ''olg'' else ''ap'')
    \<and> ad_DeviceName ctx = ''Device-'' @ show_nat (length devices + 1)"
proof -
  let ?c = "\<lambda>mac devs. AddDeviceContext_fresh\<lparr>ad_Mac := mac, ad_ExistingDevices := devs\<rparr>"
  from assms obtain mac devs w2 w3 w4 w5 where v: "run_state (Validate_Inputs P H) w = (Some mac, w2)"
    and f: "run_state (add_FetchSubscriberDevices P H) w2 = (Some devs, w3)"
    and a: "run_state (IsDeviceAlreadyProvisioned P H (?c mac devs)) w3 = (Some (), w4)"
    and i: "run_state (IsDevicePresentInInventory P H (?c mac devs)) w4 = (Some (), w5)"
    and p: "run_state (prepare_configuration P H (InitializeSubscriberDevice H (?c mac devs))) w5 = (Some ctx, w1)"
    unfolding add_prepare_def guard_step_Some_iff by auto
  have 1: "w2 = w" "h_id H \<noteq> []" "NormalizeMac P (GetBinding P H ''mac'' []) = (True, mac)"
    using v by (auto simp: Validate_Inputs_def split: if_splits prod.splits)
  have 2: "mac \<notin> sd_serialNumber ` set (sdl_subscriberDevices devs)"
    "\<exists>dev resp. run_state (Prov_Subscriber_GetDevice P (Some H) mac (Some [])) w3 = ((False, dev, HTTP_NOT_FOUND, resp), w4)"
    using a by (auto simp: IsDeviceAlreadyProvisioned_def split: if_splits prod.splits)
  have 3: "\<exists>inv. run_state (Prov_Device_Get P None mac InventoryTag_fresh) w4 = ((True, inv), w5)"
    using i by (auto simp: IsDevicePresentInInventory_def split: if_splits prod.splits)
  have 4: "ad_Mac ctx = mac" "ad_DeviceGroup ctx = (if sdl_subscriberDevices devs = [] then ''olg'' else ''ap'')"
    "ad_DeviceName ctx = ''Device-'' @ show_nat (length (sdl_subscriberDevices devs) + 1)"
    using prepare_keeps [OF p] by (simp_all add: InitializeSubscriberDevice_def Let_def)
  have "may_add P H w mac (sdl_subscriberDevices devs)"
    unfolding may_add_def using 1 2 3 f by blast
  then show ?thesis using 4 by blast
qed

text \<open>
  (C23) A device is added only after every check: when the handler makes a call that is not a read, it
  is the single creation of a record for the requested address under the authenticated subscriber
  and its operator; the address is well formed, not among the subscriber's devices, not
  provisioned to anybody (404) and in the inventory; and the record is that of the gateway for the
  first device and of an access point for every later one, numbered after the existing ones.
\<close>

theorem add_device_guarded:
  assumes "run_state (subscriber_devices_DoPost P H) w = ((), w')"
    and "w_calls w' = w_calls w @ cs" and "c \<in> set cs" "c_verb c \<noteq> ''GET''"
  shows "\<exists>mac devices configuration. may_add P H w mac devices \<and> filter (\<lambda>c. c_verb c \<noteq> ''GET'') cs = [c]
    \<and> c_type c = uSERVICE_PROVISIONING \<and> c_verb c = ''POST'' \<and> c_path c = ''/api/v1/subscriberDevice/0''
    \<and> c_body c = Some (subscriber_device_body (''Device-'' @ show_nat (length devices + 1)) mac (h_id H) (h_owner H)
        (if devices = [] then ''olg'' else ''ap'') configuration)"
proof -
  obtain r w1 where p: "run_state (add_prepare P H) w = (r, w1)" by (cases "run_state (add_prepare P H) w")
  obtain ds where ds: "w_calls w1 = w_calls w @ ds" "list_all (\<lambda>c. c_verb c = ''GET'') ds"
    using emits_add_prepare p by (metis emitsE snd_conv)
  show ?thesis
  proof (cases r)
    case None
    then have "w' = w1" using assms(1) p by (simp add: add_split guard_def)
    then have "cs = ds" using assms(2) ds by simp
    then show ?thesis using assms(3,4) ds(2) by (auto simp: list_all_iff)
  next
    case (Some ctx)
    then have g: "run_state (guard (CreateProvisioningRecord P H ctx) (\<lambda>_. OK H)) w1 = ((), w')"
      using assms(1) p by (simp add: add_split guard_def)
    have "\<exists>es. w_calls w' = w_calls w1 @ es \<and> length es \<le> 1 \<and> list_all (\<lambda>c. c_type c = uSERVICE_PROVISIONING
        \<and> c_verb c = ''POST'' \<and> c_path c = ''/api/v1/subscriberDevice/0''
        \<and> c_body c = Some (subscriber_device_body (ad_DeviceName ctx) (ad_Mac ctx) (h_id H) (h_owner H)
           (ad_DeviceGroup ctx) (sd_configuration (ad_SubDevice ctx)))) es"
      using g
      by (auto simp: guard_def CreateProvisioningRecord_def Prov_Subscriber_CreateSubsciberDevice_def
          OpenAPIRequestPost_def transmit_def Let_def OK_def ForwardErrorResponse_def fail_with_def send_def
          split: list.splits prod.splits if_splits option.splits)
    then obtain es where es: "w_calls w' = w_calls w1 @ es" "length es \<le> 1" and post: "list_all (\<lambda>c. c_type c = uSERVICE_PROVISIONING
        \<and> c_verb c = ''POST'' \<and> c_path c = ''/api/v1/subscriberDevice/0''
        \<and> c_body c = Some (subscriber_device_body (ad_DeviceName ctx) (ad_Mac ctx) (h_id H) (h_owner H)
           (ad_DeviceGroup ctx) (sd_configuration (ad_SubDevice ctx)))) es" by blast
    have cs: "cs = ds @ es" using assms(2) ds(1) es(1) by simp
    then have "c \<in> set es" using assms(3,4) ds(2) by (auto simp: list_all_iff)
    then have c: "es = [c]" using es(2) by (cases es) auto
    have "filter (\<lambda>c. c_verb c \<noteq> ''GET'') ds = []" using ds(2) by (simp add: list_all_iff filter_empty_conv)
    then have "filter (\<lambda>c. c_verb c \<noteq> ''GET'') cs = [c]" using cs c assms(4) by simp
    moreover obtain devices where "may_add P H w (ad_Mac ctx) devices"
      "ad_DeviceGroup ctx = (if devices = [] then ''olg'' else ''ap'')"
      "ad_DeviceName ctx = ''Device-'' @ show_nat (length devices + 1)"
      using add_prepare_run p Some by blast
    ultimately show ?thesis using post c by auto
  qed
qed

text \<open>A network in which the device is free and in the inventory and has a valid configuration.\<close>

definition add_net :: "api_call list \<Rightarrow> api_call \<Rightarrow> reply option" where
  "add_net before c = Some \<lparr>
     rp_status = (if take 24 (c_path c) = ''/api/v1/subscriberDevice'' then 404 else 200), rp_text = [],
     rp_json = Some (JObject (if take 14 (c_path c) = ''/api/v1/device'' then valid_device else []))\<rparr>"

definition add_request :: handler where
  "add_request = (sample_handler ''POST'')\<lparr>h_bindings := [(''mac'', ''AA-BB-CC-DD-EE-FF'')]\<rparr>"

definition add_world :: "world \<Rightarrow> bool" where
  "add_world w \<longleftrightarrow> w_services w = w_services (sample_world add_net) \<and> w_net w = add_net"

text \<open>A member that is absent is left as it was.\<close>

lemma readers_empty:
  "read_string P k us [] r = (r, True)" "read_bool P k ub [] r = (r, True)" "read_uint64 P k ux [] r = (r, True)"
  "read_object dec k uo [] r = (r, True)"
  by (simp_all add: read_string_def read_bool_def read_uint64_def read_object_def present_def has_def
      getObject_def getVar_def)

lemma add_calls:
  assumes "add_world w"
  shows "\<exists>w1. run_state (add_FetchSubscriberDevices ref_platform H) w = (Some SubscriberDeviceList_fresh, w1) \<and> add_world w1"
    and "ad_Mac ctx \<notin> sd_serialNumber ` set (sdl_subscriberDevices (ad_ExistingDevices ctx)) \<Longrightarrow>
      \<exists>w1. run_state (IsDeviceAlreadyProvisioned ref_platform H ctx) w = (Some (), w1) \<and> add_world w1"
    and "\<exists>w1. run_state (IsDevicePresentInInventory ref_platform H ctx) w = (Some (), w1) \<and> add_world w1"
    and "\<exists>w1. run_state (GetConfig ref_platform None mac) w = ((True, 200, Some valid_device), w1) \<and> add_world w1"
    and "\<exists>w1 c. run_state (CreateProvisioningRecord ref_platform H ctx) w = (None, w1) \<and> w_calls w1 = w_calls w @ [c] \<and> c_verb c = ''POST''"
proof -
  have "snd (InventoryTag_from_json ref_platform (Some []) InventoryTag_fresh)"
    by (simp add: InventoryTag_from_json_def parse_object_def read_base_def readers_empty)
  then obtain tag where inv: "InventoryTag_from_json ref_platform (Some []) InventoryTag_fresh = (tag, True)"
    by (metis (full_types) prod.collapse)
  have cfg: "has valid_device ''configuration''" by code_simp
  show "\<exists>w1. run_state (add_FetchSubscriberDevices ref_platform H) w = (Some SubscriberDeviceList_fresh, w1) \<and> add_world w1"
    using assms by (simp add: add_world_def add_FetchSubscriberDevices_def Prov_Subscriber_GetDevices_def add_net_def
        parse_reply_def SubscriberDeviceList_fresh_def run_defs)
  show "ad_Mac ctx \<notin> sd_serialNumber ` set (sdl_subscriberDevices (ad_ExistingDevices ctx)) \<Longrightarrow>
      \<exists>w1. run_state (IsDeviceAlreadyProvisioned ref_platform H ctx) w = (Some (), w1) \<and> add_world w1"
    using assms by (simp add: add_world_def IsDeviceAlreadyProvisioned_def Prov_Subscriber_GetDevice_def add_net_def
        parse_reply_def run_defs)
  show "\<exists>w1. run_state (IsDevicePresentInInventory ref_platform H ctx) w = (Some (), w1) \<and> add_world w1"
    using assms by (simp add: add_world_def IsDevicePresentInInventory_def Prov_Device_Get_def add_net_def
        parse_reply_def inv run_defs)
  show "\<exists>w1. run_state (GetConfig ref_platform None mac) w = ((True, 200, Some valid_device), w1) \<and> add_world w1"
    using assms by (simp add: add_world_def GetConfig_def add_net_def cfg run_defs)
  show "\<exists>w1 c. run_state (CreateProvisioningRecord ref_platform H ctx) w = (None, w1) \<and> w_calls w1 = w_calls w @ [c] \<and> c_verb c = ''POST''"
    using assms by (simp add: add_world_def CreateProvisioningRecord_def Prov_Subscriber_CreateSubsciberDevice_def add_net_def
        parse_reply_def run_defs)
qed

lemma add_run:
  "\<exists>w' cs c. run_state (subscriber_devices_DoPost ref_platform add_request) (sample_world add_net) = ((), w')
    \<and> w_calls w' = w_calls (sample_world add_net) @ cs \<and> c \<in> set cs \<and> c_verb c = ''POST''"
proof -
  let ?H = add_request
  let ?c = "AddDeviceContext_fresh\<lparr>ad_Mac := ''aabbccddeeff'', ad_ExistingDevices := SubscriberDeviceList_fresh\<rparr>"
  have n: "NormalizeMac ref_platform (GetBinding ref_platform add_request ''mac'' []) = (True, ''aabbccddeeff'')"
    by code_simp
  have "BuildGatewayConfig ref_platform (Some valid_device) ''aabbccddeeff'' \<noteq> None" by code_simp
  then obtain cfg where b: "BuildGatewayConfig ref_platform (Some valid_device) ''aabbccddeeff'' = Some cfg" by auto
  have v: "run_state (Validate_Inputs ref_platform ?H) (sample_world add_net) = (Some ''aabbccddeeff'', sample_world add_net)"
    by (simp add: Validate_Inputs_def n) (simp add: add_request_def sample_handler_def)
  have w: "add_world (sample_world add_net)" by (simp add: add_world_def)
  obtain w1 where f: "run_state (add_FetchSubscriberDevices ref_platform ?H) (sample_world add_net)
      = (Some SubscriberDeviceList_fresh, w1)" "add_world w1"
    using add_calls(1) [OF w] by blast
  obtain w2 where a: "run_state (IsDeviceAlreadyProvisioned ref_platform ?H ?c) w1 = (Some (), w2)" "add_world w2"
    using add_calls(2) [OF f(2), of ?c ?H] by (auto simp: SubscriberDeviceList_fresh_def)
  obtain w3 where i: "run_state (IsDevicePresentInInventory ref_platform ?H ?c) w2 = (Some (), w3)" "add_world w3"
    using add_calls(3) [OF a(2)] by blast
  obtain w4 where g: "run_state (GetConfig ref_platform None ''aabbccddeeff'') w3 = ((True, 200, Some valid_device), w4)" "add_world w4"
    using add_calls(4) [OF i(2)] by blast
  define ctx where "ctx = with_configuration (InitializeSubscriberDevice ?H ?c) cfg"
  have p: "run_state (prepare_configuration ref_platform ?H (InitializeSubscriberDevice ?H ?c)) w3 = (Some ctx, w4)"
    by (simp add: prepare_configuration_def PrepareGatewayConfiguration_def InitializeSubscriberDevice_def
        SubscriberDeviceList_fresh_def Let_def g(1) b ctx_def)
  obtain w5 c where r: "run_state (CreateProvisioningRecord ref_platform ?H ctx) w4 = (None, w5)"
    "w_calls w5 = w_calls w4 @ [c]" "c_verb c = ''POST''"
    using add_calls(5) [OF g(2)] by blast
  have run: "run_state (subscriber_devices_DoPost ref_platform ?H) (sample_world add_net) = ((), w5)"
    by (simp add: subscriber_devices_DoPost_def guard_def v f(1) a(1) i(1) p r(1) Let_def)
  then show ?thesis using r by (intro exI [of _ w5] exI [of _ "w_calls w5"] exI [of _ c]) simp
qed

theorem add_device_guarded_witness:
  "\<exists>(c :: api_call) mac devices configuration. may_add ref_platform add_request (sample_world add_net) mac devices
    \<and> c_body c = Some (subscriber_device_body (''Device-'' @ show_nat (length devices + 1)) mac (h_id add_request)
        (h_owner add_request) (if devices = [] then ''olg'' else ''ap'') configuration)"
proof -
  obtain w' cs c where r: "run_state (subscriber_devices_DoPost ref_platform add_request) (sample_world add_net) = ((), w')"
    "w_calls w' = w_calls (sample_world add_net) @ cs" "c \<in> set cs" "c_verb c = ''POST''"
    using add_run by blast
  then have "c_verb c \<noteq> ''GET''" by simp
  from add_device_guarded [OF r(1-3) this] show ?thesis by blast
qed

text \<open>
  When the controller knows the device but has no configuration for it (an answer 200 without
  \<^verbatim>\<open>configuration\<close>), the request ends without a record, and its status 200 is forwarded: the client
  cannot tell this from success.
\<close>

theorem add_device_unconfigured:
  assumes "run_state (GetConfig P None (ad_Mac ctx)) w = ((False, HTTP_OK, resp), w1)"
    and "ad_DeviceGroup ctx = ''olg''"
  shows "run_state (prepare_configuration P H ctx) w = (None, w1\<lparr>w_out := w_out w1 @
    [\<lparr>rs_status = HTTP_OK, rs_body = Some (JObject (or_empty resp))\<rparr>]\<rparr>)"
  using assms by (simp add: prepare_configuration_def PrepareGatewayConfiguration_def fail_with_def
      ForwardErrorResponse_def send_def or_empty_def)

end
