(* ===== verification/SubscriberLocation.thy ===== *)
theory SubscriberLocation
  imports Utils ConfigRaw
begin

text \<open>
  The location of a subscriber's venue (\<^verbatim>\<open>src/RESTAPI/RESTAPI_subscriber_location_handler.cpp\<close>), with
  the compensation of a failed deletion, and the claim of a device
  (\<^verbatim>\<open>src/RESTAPI/RESTAPI_claim_handler.cpp\<close>).
\<close>

section \<open>Request bodies\<close>

definition kAllowedLocationKeys :: "string set" where
  "kAllowedLocationKeys = {''name'', ''description'', ''type'', ''buildingName'', ''addressLines'',
     ''city'', ''state'', ''postal'', ''country'', ''phones'', ''mobiles'', ''geoCode'', ''timezone''}"

fun copy_allowed :: "jobj \<Rightarrow> jobj \<Rightarrow> jobj option" where
  "copy_allowed [] output = Some output"
| "copy_allowed ((k, v) # entries) output =
     (if k \<notin> kAllowedLocationKeys then None else copy_allowed entries (set_key k v output))"

definition BuildAllowedLocationBody :: "jobj ptr \<Rightarrow> jobj option" where
  "BuildAllowedLocationBody input = (case input of None \<Rightarrow> None | Some ob \<Rightarrow> copy_allowed ob [])"

text \<open>The trimmed time zone, when it is a known one.\<close>

definition checked_timezone :: "platform \<Rightarrow> jobj \<Rightarrow> string option" where
  "checked_timezone P body = (case getString body ''timezone'' of None \<Rightarrow> None
     | Some raw \<Rightarrow> (let timezone = po_trim P raw in
         if timezone = [] \<or> po_locate_zone P timezone = None then None else Some timezone))"

section \<open>The venue of the subscriber\<close>

text \<open>The first venue; the four handlers share these steps.\<close>

definition first_venue :: "platform \<Rightarrow> handler \<Rightarrow> Venue option io" where
  "first_venue P H = do {
     (okv, venueList, callStatus, callResponse) \<leftarrow> Prov_Venue_GetVenues P None (h_id H);
     (if \<not> okv then
        (if callStatus \<noteq> HTTP_OK then fail_with (ForwardErrorResponse callStatus callResponse)
         else fail_with (InternalError H Errors_InvalidJSONDocument))
      else (case vl_venues venueList of [] \<Rightarrow> fail_with (NotFound H) | venue # _ \<Rightarrow> ret (Some venue)))
   }"

section \<open>The handlers\<close>

definition location_DoGet :: "platform \<Rightarrow> handler \<Rightarrow> unit io" where
  "location_DoGet P H =
     (if h_id H = [] then UnAuthorized H Errors_InvalidSubscriberId
      else guard (first_venue P H) (\<lambda>venue.
        if ve_location venue = [] then NotFound H
        else do {
          (okl, location, callStatus, callResponse) \<leftarrow> Prov_Location_Get P None (ve_location venue);
          (if okl then deref (null_pointer H) callResponse ReturnObject
           else if callStatus \<noteq> HTTP_OK then ForwardErrorResponse callStatus callResponse
           else InternalError H Errors_InvalidJSONDocument)
        }))"

definition location_DoPost :: "platform \<Rightarrow> handler \<Rightarrow> unit io" where
  "location_DoPost P H =
     (if h_id H = [] then UnAuthorized H Errors_InvalidSubscriberId
      else if h_body H = None then BadRequest H Errors_InvalidJSONDocument []
      else (case BuildAllowedLocationBody (h_body H) of
          None \<Rightarrow> BadRequest H Errors_MissingOrInvalidParameters []
        | Some locationBody \<Rightarrow> (case checked_timezone P locationBody of
              None \<Rightarrow> BadRequest H Errors_MissingOrInvalidParameters []
            | Some timezone \<Rightarrow> guard (first_venue P H) (\<lambda>venue.
                if oi_id (ve_info venue) = [] then InternalError H Errors_InvalidJSONDocument
                else if ve_location venue \<noteq> [] then BadRequest H Errors_SubscriberLocationAlreadyConfigured []
                else do {
                  (okc, callStatus, callResponse) \<leftarrow> Prov_Venue_CreateLocation P None (oi_id (ve_info venue))
                    (Some (set_key ''timezone'' (JString timezone) locationBody));
                  (if okc then OK H else ForwardErrorResponse callStatus callResponse)
                }))))"

definition put_body :: "platform \<Rightarrow> jobj ptr \<Rightarrow> jobj option" where
  "put_body P input = (case BuildAllowedLocationBody input of None \<Rightarrow> None
     | Some body \<Rightarrow>
         if body = [] then None
         else if \<not> has body ''timezone'' then Some body
         else map_option (\<lambda>timezone. set_key ''timezone'' (JString timezone) body) (checked_timezone P body))"

definition location_DoPut :: "platform \<Rightarrow> handler \<Rightarrow> unit io" where
  "location_DoPut P H =
     (if h_id H = [] then UnAuthorized H Errors_InvalidSubscriberId
      else if h_body H = None then BadRequest H Errors_InvalidJSONDocument []
      else (case put_body P (h_body H) of None \<Rightarrow> BadRequest H Errors_MissingOrInvalidParameters []
        | Some locationBody \<Rightarrow> guard (first_venue P H) (\<lambda>venue.
            if ve_location venue = [] then NotFound H
            else do {
              (okp, callStatus, callResponse) \<leftarrow> Prov_Location_Put P None (ve_location venue) (Some locationBody);
              (if okp then deref (null_pointer H) callResponse ReturnObject
               else ForwardErrorResponse callStatus callResponse)
            })))"

text \<open>The venue is detached first; when the location cannot be deleted it is attached again.\<close>

definition location_DoDelete :: "platform \<Rightarrow> handler \<Rightarrow> unit io" where
  "location_DoDelete P H =
     (if h_id H = [] then UnAuthorized H Errors_InvalidSubscriberId
      else guard (first_venue P H) (\<lambda>venue.
        if oi_id (ve_info venue) = [] then InternalError H Errors_InvalidJSONDocument
        else if ve_location venue = [] then NotFound H
        else do {
          (okc, callStatus, callResponse) \<leftarrow> Prov_Venue_ClearLocation P None (oi_id (ve_info venue));
          (if \<not> okc then ForwardErrorResponse callStatus callResponse
           else do {
             (okd, deleteStatus, deleteResponse) \<leftarrow> Prov_Location_Delete P None (ve_location venue);
             (if okd then OK H
              else do {
                (okr, restoreStatus, restoreResponse) \<leftarrow> Prov_Venue_SetLocation P None (oi_id (ve_info venue)) (ve_location venue);
                ForwardErrorResponse deleteStatus deleteResponse
              })
           })
        }))"

section \<open>Claiming a device\<close>

text \<open>The token of the call is the id of the user.\<close>

definition claim_DoPut :: "platform \<Rightarrow> handler \<Rightarrow> unit io" where
  "claim_DoPut P H = (case (HasParameter H ''serialNumber'', HasParameter H ''id'') of
     (Some SerialNumber, Some claimId) \<Rightarrow>
       (if \<not> ValidSerialNumber SerialNumber then BadRequest H Errors_MissingOrInvalidParameters []
        else do {
          (StatusCode, CallResponse) \<leftarrow> OpenAPIRequestPut P uSERVICE_PROVISIONING ''/api/v1/inventory''
            [(''serialNumber'', SerialNumber), (''claimer'', h_id H)] [] 20000 (h_id H) None;
          (if StatusCode = HTTP_OK then deref (null_pointer H) CallResponse ReturnObject
           else ReturnStatus StatusCode)
        })
   | _ \<Rightarrow> BadRequest H Errors_MissingOrInvalidParameters [])"

section \<open>One answer\<close>

lemma fail_first_venue [replies_intros]: "answers_fail (first_venue P H)"
  unfolding first_venue_def by (intro replies_intros)

lemma once_location:
  "answers_once (location_DoGet P H)" "answers_once (location_DoPost P H)"
  "answers_once (location_DoPut P H)" "answers_once (location_DoDelete P H)" "answers_once (claim_DoPut P H)"
  unfolding location_DoGet_def location_DoPost_def location_DoPut_def location_DoDelete_def claim_DoPut_def
  by (intro replies_intros)+

section \<open>What is written\<close>

definition allowed_body :: "platform \<Rightarrow> jobj \<Rightarrow> bool" where
  "allowed_body P b \<longleftrightarrow> set (getNames b) \<subseteq> kAllowedLocationKeys \<and>
     (has b ''timezone'' \<longrightarrow> (\<exists>tz. getVar b ''timezone'' = JString tz \<and> tz \<noteq> [] \<and> po_locate_zone P tz \<noteq> None))"

lemma names_simps: "getNames [] = []" "getNames (m # ms) = fst m # getNames ms"
  by (simp_all add: getNames_def)

lemma copy_allowed_keys:
  "copy_allowed ob acc = Some b \<Longrightarrow> set (getNames b) = set (getNames ob) \<union> set (getNames acc)
   \<and> set (getNames ob) \<subseteq> kAllowedLocationKeys"
  by (induction ob acc rule: copy_allowed.induct) (auto simp: obj.keys_put names_simps split: if_splits)

lemma BuildAllowed_keys: "BuildAllowedLocationBody input = Some b \<Longrightarrow> set (getNames b) \<subseteq> kAllowedLocationKeys"
  using copy_allowed_keys by (fastforce simp: BuildAllowedLocationBody_def names_simps split: option.splits)

lemma allowed_with_timezone:
  assumes "BuildAllowedLocationBody input = Some b" "checked_timezone P b = Some tz"
  shows "allowed_body P (set_key ''timezone'' (JString tz) b)"
proof -
  have "set (getNames b) \<subseteq> kAllowedLocationKeys"
    using assms(1) by (rule BuildAllowed_keys)
  then have "set (getNames (set_key ''timezone'' (JString tz) b)) \<subseteq> kAllowedLocationKeys"
    by (simp add: obj.keys_put kAllowedLocationKeys_def)
  moreover have "tz \<noteq> []" "po_locate_zone P tz \<noteq> None"
    using assms(2) by (auto simp: checked_timezone_def Let_def split: option.splits if_splits)
  ultimately show ?thesis by (simp add: allowed_body_def json_simps)
qed

lemma put_body_allowed:
  assumes "put_body P input = Some b"
  shows "allowed_body P b"
proof -
  obtain b0 where b0: "BuildAllowedLocationBody input = Some b0"
    using assms by (auto simp: put_body_def split: option.splits)
  show ?thesis
  proof (cases "has b0 ''timezone''")
    case True
    then show ?thesis
      using assms b0 by (auto simp: put_body_def intro: allowed_with_timezone split: if_splits)
  next
    case False
    then show ?thesis
      using assms b0 BuildAllowed_keys by (auto simp: put_body_def allowed_body_def split: if_splits)
  qed
qed

definition location_write :: "platform \<Rightarrow> api_call \<Rightarrow> bool" where
  "location_write P c \<longleftrightarrow> c_type c = uSERVICE_PROVISIONING \<and> (c_verb c = ''GET'' \<or> c_verb c = ''PUT'' \<and>
     (\<exists>b. allowed_body P b \<and> (c_body c = Some b \<or> c_body c = Some (created_location_body (Some b)) \<and> has b ''timezone'')))"

text \<open>
  Creating or changing the location of a subscriber sends the provisioning service only members
  of the published list, with a time zone the time-zone database knows (always present on
  creation); everything else is refused before any call.
\<close>

theorem location_writes_allowed:
  "emits (location_write P) (location_DoPost P H) \<and> emits (location_write P) (location_DoPut P H)"
proof
  have g: "emits (location_write P) (first_venue P H)"
    unfolding first_venue_def Prov_Venue_GetVenues_def OpenAPIRequestGet_def
    by (intro emits_intros emits_transmit) (simp add: location_write_def)
  have c: "emits (location_write P) (Prov_Venue_CreateLocation P None v (Some b))"
    if "allowed_body P b" "has b ''timezone''" for v b
    unfolding Prov_Venue_CreateLocation_def put_venue_def OpenAPIRequestPut_def
    by (intro emits_intros emits_transmit) (use that in \<open>auto simp: location_write_def\<close>)
  have p: "emits (location_write P) (Prov_Location_Put P None v (Some b))" if "allowed_body P b" for v b
    unfolding Prov_Location_Put_def put_venue_def OpenAPIRequestPut_def
    by (intro emits_intros emits_transmit) (use that in \<open>auto simp: location_write_def\<close>)
  show "emits (location_write P) (location_DoPost P H)"
    unfolding location_DoPost_def
    by (intro emits_intros g c) (auto intro: allowed_with_timezone simp: json_simps)
  show "emits (location_write P) (location_DoPut P H)"
    unfolding location_DoPut_def by (intro emits_intros g p put_body_allowed)
qed

section \<open>Deleting a location\<close>

text \<open>A call of the portal to the provisioning service \<open>svc\<close>, with the key of the service.\<close>

definition prov_call :: "world \<Rightarrow> MicroServiceMeta \<Rightarrow> string \<Rightarrow> string \<Rightarrow> jobj option \<Rightarrow> api_call" where
  "prov_call w svc verb path body = \<lparr>c_verb = verb, c_type = uSERVICE_PROVISIONING,
     c_base = ms_PrivateEndPoint svc, c_path = path, c_query = [], c_body = body,
     c_headers = auth_headers svc (w_public w) [], c_timeout = 60000\<rparr>"

text \<open>Attaching location \<open>loc\<close> to a venue, or detaching with the empty one.\<close>

abbreviation set_location :: "world \<Rightarrow> MicroServiceMeta \<Rightarrow> string \<Rightarrow> string \<Rightarrow> api_call" where
  "set_location w svc venueId loc \<equiv>
     prov_call w svc ''PUT'' (''/api/v1/venue/'' @ venueId) (Some (set_key ''location'' (JString loc) []))"

definition answer_status :: "reply option \<Rightarrow> int" where
  "answer_status r = (case r of None \<Rightarrow> HTTP_GATEWAY_TIMEOUT | Some rp \<Rightarrow> rp_status rp)"

lemma venue_put_run:
  assumes "GetServices P uSERVICE_PROVISIONING (w_services w) = svc # svcs"
  shows "run_state (Prov_Venue_ClearLocation P None v) w =
     (let r = body_or_timeout (w_net w (w_calls w) (set_location w svc v [])) (Some [])
      in ((fst r = HTTP_OK, r), w\<lparr>w_calls := w_calls w @ [set_location w svc v []]\<rparr>))"
    and "run_state (Prov_Venue_SetLocation P None v l) w =
     (let r = body_or_timeout (w_net w (w_calls w) (set_location w svc v l)) (Some [])
      in ((fst r = HTTP_OK, r), w\<lparr>w_calls := w_calls w @ [set_location w svc v l]\<rparr>))"
  using assms
  by (simp_all add: Prov_Venue_ClearLocation_def Prov_Venue_SetLocation_def put_venue_def OpenAPIRequestPut_def
      transmit_def prov_call_def client_token_def Let_def split_beta)

lemma location_delete_run:
  assumes "GetServices P uSERVICE_PROVISIONING (w_services w) = svc # svcs"
  shows "\<exists>resp. run_state (Prov_Location_Delete P None l) w =
     (let c = prov_call w svc ''DELETE'' (''/api/v1/location/'' @ l) None; s = answer_status (w_net w (w_calls w) c)
      in ((s = HTTP_OK, s, resp), w\<lparr>w_calls := w_calls w @ [c]\<rparr>))"
  using assms
  by (auto simp: Prov_Location_Delete_def OpenAPIRequestDelete_def transmit_def prov_call_def client_token_def Let_def
      answer_status_def split: option.splits)

text \<open>
  (C24) Deleting the location of a venue never leaves the venue detached silently.  The venue is detached
  first; if that is refused, nothing else is tried.  If the location is then deleted the client gets
  200.  If it is not, the venue is attached to the same location again, and the client gets the
  status of the failed deletion.
\<close>

theorem location_DoDelete_compensates:
  assumes "run_state (first_venue P H) w = (Some venue, w1)" "h_id H \<noteq> []"
    and "venueId = oi_id (ve_info venue)" "venueId \<noteq> []" and "loc = ve_location venue" "loc \<noteq> []"
    and "GetServices P uSERVICE_PROVISIONING (w_services w1) = svc # svcs"
    and "clear = set_location w1 svc venueId []" "restore = set_location w1 svc venueId loc"
    and "del = prov_call w1 svc ''DELETE'' (''/api/v1/location/'' @ loc) None"
    and "run_state (location_DoDelete P H) w = ((), w')"
  shows "if fst (body_or_timeout (w_net w1 (w_calls w1) clear) (Some [])) \<noteq> HTTP_OK
    then w_calls w' = w_calls w1 @ [clear]
    else (let status = answer_status (w_net w1 (w_calls w1 @ [clear]) del) in
      w_calls w' = w_calls w1 @ [clear, del] @ (if status = HTTP_OK then [] else [restore])
      \<and> rs_status (last (w_out w')) = status)"
proof -
  let ?r = "body_or_timeout (w_net w1 (w_calls w1) clear) (Some [])"
  let ?w2 = "w1\<lparr>w_calls := w_calls w1 @ [clear]\<rparr>"
  have c: "run_state (Prov_Venue_ClearLocation P None venueId) w1 = ((fst ?r = HTTP_OK, ?r), ?w2)"
    using venue_put_run(1) [OF assms(7)] assms(8) by (simp add: Let_def)
  have s2: "GetServices P uSERVICE_PROVISIONING (w_services ?w2) = svc # svcs" using assms(7) by simp
  have same: "prov_call (w1\<lparr>w_calls := x\<rparr>) = prov_call w1" for x by (intro ext) (simp add: prov_call_def)
  let ?s = "answer_status (w_net w1 (w_calls w1 @ [clear]) del)"
  obtain resp where d: "run_state (Prov_Location_Delete P None loc) ?w2 =
      ((?s = HTTP_OK, ?s, resp), w1\<lparr>w_calls := w_calls w1 @ [clear, del]\<rparr>)"
    using location_delete_run [OF s2, of loc] assms(10) by (auto simp: Let_def same)
  obtain r2 where r: "run_state (Prov_Venue_SetLocation P None venueId loc) (w1\<lparr>w_calls := w_calls w1 @ [clear, del]\<rparr>)
      = (r2, w1\<lparr>w_calls := w_calls w1 @ [clear, del, restore]\<rparr>)"
    using venue_put_run(2) [of P "w1\<lparr>w_calls := w_calls w1 @ [clear, del]\<rparr>" svc svcs venueId loc] assms(7,9)
    by (simp add: Let_def same)
  show ?thesis
    using assms(2,4,6,11) assms(3) [symmetric] assms(5) [symmetric]
    by (cases ?r; cases r2)
      (auto simp: location_DoDelete_def guard_def assms(1) c d r Let_def ForwardErrorResponse_def OK_def send_def
        split: if_splits)
qed

definition sample_venue :: Venue where
  "sample_venue = Venue_fresh\<lparr>ve_info := ObjectInfo_fresh\<lparr>oi_id := ''v1''\<rparr>, ve_location := ''l1''\<rparr>"

definition venues_reply :: jobj where
  "venues_reply = [(''venues'', JArray [JObject (Venue_to_json sample_venue [])])]"

text \<open>A provisioning service that refuses to delete a location.\<close>

definition venue_net :: "api_call list \<Rightarrow> api_call \<Rightarrow> reply option" where
  "venue_net before c = Some \<lparr>rp_status = (if c_verb c = ''DELETE'' then 500 else 200), rp_text = [],
     rp_json = Some (JObject (if c_verb c = ''GET'' then venues_reply else []))\<rparr>"

lemma sample_venue_sel: "oi_id (ve_info sample_venue) = ''v1''" "ve_location sample_venue = ''l1''"
  by (simp_all add: sample_venue_def)

lemma venues_parsed:
  "VenueList_from_json ref_platform (Some venues_reply) VenueList_fresh = (\<lparr>vl_venues = [sample_venue]\<rparr>, True)"
  using venues_loop_enc [OF ref_platform_docs(6), of "[sample_venue]" "[]"]
  by (simp add: VenueList_from_json_def venues_reply_def getArray_def getVar_def VenueList_fresh_def sample_venue_sel)

lemma sample_first_venue:
  "\<exists>w1. run_state (first_venue ref_platform (sample_handler ''DELETE'')) (sample_world venue_net) = (Some sample_venue, w1)
    \<and> w_services w1 = w_services (sample_world venue_net) \<and> w_net w1 = venue_net"
  by (simp add: first_venue_def Prov_Venue_GetVenues_def venue_net_def venues_parsed parse_reply_def run_defs)

theorem location_DoDelete_compensates_witness:
  "\<exists>w1 svc clear del. w_calls (snd (run_state (location_DoDelete ref_platform (sample_handler ''DELETE'')) (sample_world venue_net)))
    = w_calls w1 @ [clear, del, set_location w1 svc ''v1'' ''l1'']
   \<and> rs_status (last (w_out (snd (run_state (location_DoDelete ref_platform (sample_handler ''DELETE'')) (sample_world venue_net))))) = 500"
proof -
  let ?m = "location_DoDelete ref_platform (sample_handler ''DELETE'')"
  obtain w1 where f: "run_state (first_venue ref_platform (sample_handler ''DELETE'')) (sample_world venue_net) = (Some sample_venue, w1)"
    and s: "w_services w1 = w_services (sample_world venue_net)" and n: "w_net w1 = venue_net"
    using sample_first_venue by blast
  obtain svc svcs where svc: "GetServices ref_platform uSERVICE_PROVISIONING (w_services w1) = svc # svcs"
    unfolding s by (simp add: run_defs)
  have run: "run_state ?m (sample_world venue_net) = ((), snd (run_state ?m (sample_world venue_net)))"
    by (simp add: prod_eq_iff)
  have id: "h_id (sample_handler ''DELETE'') \<noteq> []" by (simp add: sample_handler_def)
  note r = location_DoDelete_compensates [OF f id sample_venue_sel(1) [symmetric] _ sample_venue_sel(2) [symmetric] _ svc
      refl refl refl run]
  show ?thesis
    using r
    by (auto simp: n venue_net_def body_or_timeout_def reply_object_def answer_status_def Let_def prov_call_def)
qed

end
