(* ===== verification/Nlohmann.thy ===== *)
theory Nlohmann
  imports Platform
begin

text \<open>
  The accessors of \<^verbatim>\<open>nlohmann::json\<close> the portal uses on parsed documents.  \<open>None\<close> stands for an
  exception; every use is inside a \<^verbatim>\<open>catch (...)\<close>.  The subscript of a constant document with a key it
  does not have is undefined in the library (an assertion); it is taken to throw.
\<close>

definition nl_contains :: "json \<Rightarrow> string \<Rightarrow> bool" where
  "nl_contains j k = (case asObject j of None \<Rightarrow> False | Some ob \<Rightarrow> has ob k)"

definition nl_at :: "json \<Rightarrow> string \<Rightarrow> json option" where
  "nl_at j k = (case asObject j of None \<Rightarrow> None | Some ob \<Rightarrow> map_of ob k)"

text \<open>\<^verbatim>\<open>get<std::string>()\<close> and \<^verbatim>\<open>get\<close> of an integer type: numbers and Booleans are converted.\<close>

definition nl_string :: "json \<Rightarrow> string option" where
  "nl_string j = (case j of JString s \<Rightarrow> Some s | _ \<Rightarrow> None)"

definition nl_number :: "platform \<Rightarrow> json \<Rightarrow> int option" where
  "nl_number P j = (case j of JInt i \<Rightarrow> Some i | JBool b \<Rightarrow> Some (if b then 1 else 0)
     | JDouble d \<Rightarrow> Some (po_trunc P d) | _ \<Rightarrow> None)"

definition nl_at_string :: "json \<Rightarrow> string \<Rightarrow> string option" where
  "nl_at_string j k = Option.bind (nl_at j k) nl_string"

definition nl_at_number :: "platform \<Rightarrow> json \<Rightarrow> string \<Rightarrow> int option" where
  "nl_at_number P j k = Option.bind (nl_at j k) (nl_number P)"

text \<open>\<^verbatim>\<open>j.contains(k) && j[k].is_array()\<close>, with the elements.\<close>

definition nl_array :: "json \<Rightarrow> string \<Rightarrow> json list option" where
  "nl_array j k = Option.bind (nl_at j k) asArray"

end
