(* ===== verification/SubObjects.thy ===== *)
theory SubObjects
  imports Objects
begin

text \<open>
  The records the portal keeps of a subscriber and its access points, and the lists of clients and
  statistics it answers with: \<^verbatim>\<open>src/RESTObjects/RESTAPI_SubObjects.h\<close> and \<^verbatim>\<open>.cpp\<close>.  Members without an
  initialiser start as 0 or false here; none of them is ever written or read by a codec.  Three
  structures whose names the provisioning objects also use carry the prefix \<open>Sub_\<close>.
\<close>

section \<open>Structures and codecs\<close>

subsection \<open>\<^verbatim>\<open>HomeDeviceMode\<close>\<close>

record HomeDeviceMode =
  hd_enableLEDS :: bool
  hd_type :: string
  hd_subnet :: string
  hd_subnetMask :: string
  hd_startIP :: string
  hd_endIP :: string
  hd_created :: uint64
  hd_modified :: uint64
  hd_subnetV6 :: string
  hd_subnetMaskV6 :: uint32
  hd_startIPV6 :: string
  hd_endIPV6 :: string
  hd_leaseTime :: string

definition HomeDeviceMode_fresh :: HomeDeviceMode where
  "HomeDeviceMode_fresh = \<lparr>hd_enableLEDS = True, hd_type = '''', hd_subnet = '''', hd_subnetMask = '''', hd_startIP =
     '''', hd_endIP = '''', hd_created = 0, hd_modified = 0, hd_subnetV6 = '''', hd_subnetMaskV6 =
     0, hd_startIPV6 = '''', hd_endIPV6 = '''', hd_leaseTime = ''''\<rparr>"

subsection \<open>\<^verbatim>\<open>IPReservation\<close>\<close>

record IPReservation =
  ir_nickname :: string
  ir_ipAddress :: string
  ir_macAddress :: string

definition IPReservation_fresh :: IPReservation where
  "IPReservation_fresh = \<lparr>ir_nickname = '''', ir_ipAddress = '''', ir_macAddress = ''''\<rparr>"

subsection \<open>\<^verbatim>\<open>IPReservationList\<close>\<close>

record IPReservationList =
  irl_id :: string
  irl_reservations :: "IPReservation list"
  irl_created :: uint64
  irl_modified :: uint64

definition IPReservationList_fresh :: IPReservationList where
  "IPReservationList_fresh = \<lparr>irl_id = '''', irl_reservations = [], irl_created = 0, irl_modified = 0\<rparr>"

subsection \<open>\<^verbatim>\<open>DnsConfiguration\<close>\<close>

record DnsConfiguration =
  dn_ISP :: bool
  dn_custom :: bool
  dn_primary :: string
  dn_secondary :: string
  dn_primaryV6 :: string
  dn_secondaryV6 :: string

definition DnsConfiguration_fresh :: DnsConfiguration where
  "DnsConfiguration_fresh = \<lparr>dn_ISP = False, dn_custom = False, dn_primary = '''', dn_secondary = '''', dn_primaryV6 = '''',
     dn_secondaryV6 = ''''\<rparr>"

subsection \<open>\<^verbatim>\<open>InternetConnection\<close>\<close>

record InternetConnection =
  ic_type :: string
  ic_username :: string
  ic_password :: string
  ic_ipAddress :: string
  ic_subnetMask :: string
  ic_defaultGateway :: string
  ic_sendHostname :: bool
  ic_primaryDns :: string
  ic_secondaryDns :: string
  ic_created :: uint64
  ic_modified :: uint64
  ic_ipV6Support :: bool
  ic_ipAddressV6 :: string
  ic_subnetMaskV6 :: uint32
  ic_defaultGatewayV6 :: string
  ic_primaryDnsV6 :: string
  ic_secondaryDnsV6 :: string

definition InternetConnection_fresh :: InternetConnection where
  "InternetConnection_fresh = \<lparr>ic_type = '''', ic_username = '''', ic_password = '''', ic_ipAddress = '''', ic_subnetMask =
     '''', ic_defaultGateway = '''', ic_sendHostname = True, ic_primaryDns = '''', ic_secondaryDns =
     '''', ic_created = 0, ic_modified = 0, ic_ipV6Support = False, ic_ipAddressV6 = '''',
     ic_subnetMaskV6 = 0, ic_defaultGatewayV6 = '''', ic_primaryDnsV6 = '''', ic_secondaryDnsV6 =
     ''''\<rparr>"

subsection \<open>\<^verbatim>\<open>WifiNetwork\<close>\<close>

record WifiNetwork =
  wn_type :: string
  wn_name :: string
  wn_password :: string
  wn_encryption :: string
  wn_bands :: "string list"

definition WifiNetwork_fresh :: WifiNetwork where
  "WifiNetwork_fresh = \<lparr>wn_type = '''', wn_name = '''', wn_password = '''', wn_encryption = '''', wn_bands = []\<rparr>"

definition WifiNetwork_to_json :: "WifiNetwork \<Rightarrow> jobj \<Rightarrow> jobj" where
  "WifiNetwork_to_json r = write_fields [
     set_key ''type'' (JString (wn_type r)),
     set_key ''name'' (JString (wn_name r)),
     set_key ''password'' (JString (wn_password r)),
     set_key ''encryption'' (JString (wn_encryption r)),
     set_key ''bands'' (JArray (map JString (wn_bands r)))]"

definition WifiNetwork_from_json :: "platform \<Rightarrow> jobj ptr \<Rightarrow> WifiNetwork \<Rightarrow> WifiNetwork \<times> bool" where
  "WifiNetwork_from_json P = parse_object [
     read_string P ''type'' wn_type_update,
     read_string P ''name'' wn_name_update,
     read_string P ''password'' wn_password_update,
     read_string P ''encryption'' wn_encryption_update,
     read_strings P ''bands'' wn_bands_update]"

subsection \<open>\<^verbatim>\<open>WifiNetworkList\<close>\<close>

record WifiNetworkList =
  wnl_wifiNetworks :: "WifiNetwork list"
  wnl_created :: uint64
  wnl_modified :: uint64

definition WifiNetworkList_fresh :: WifiNetworkList where
  "WifiNetworkList_fresh = \<lparr>wnl_wifiNetworks = [], wnl_created = 0, wnl_modified = 0\<rparr>"

definition WifiNetworkList_to_json :: "WifiNetworkList \<Rightarrow> jobj \<Rightarrow> jobj" where
  "WifiNetworkList_to_json r = write_fields [
     set_key ''wifiNetworks'' (objects_to_json WifiNetwork_to_json (wnl_wifiNetworks r)),
     set_key ''created'' (JInt (uint (wnl_created r))),
     set_key ''modified'' (JInt (uint (wnl_modified r)))]"

definition WifiNetworkList_from_json :: "platform \<Rightarrow> jobj ptr \<Rightarrow> WifiNetworkList \<Rightarrow> WifiNetworkList \<times> bool" where
  "WifiNetworkList_from_json P = parse_object [
     read_objects (WifiNetwork_from_json P) WifiNetwork_fresh ''wifiNetworks'' wnl_wifiNetworks_update,
     read_uint64 P ''created'' wnl_created_update,
     read_uint64 P ''modified'' wnl_modified_update]"

subsection \<open>\<^verbatim>\<open>AccessTime\<close>\<close>

record AccessTime =
  at_day :: string
  at_rangeList :: "string list"

definition AccessTime_fresh :: AccessTime where
  "AccessTime_fresh = \<lparr>at_day = '''', at_rangeList = []\<rparr>"

definition AccessTime_to_json :: "AccessTime \<Rightarrow> jobj \<Rightarrow> jobj" where
  "AccessTime_to_json r = write_fields [
     set_key ''day'' (JString (at_day r)),
     set_key ''rangeList'' (JArray (map JString (at_rangeList r)))]"

definition AccessTime_from_json :: "platform \<Rightarrow> jobj ptr \<Rightarrow> AccessTime \<Rightarrow> AccessTime \<times> bool" where
  "AccessTime_from_json P = parse_object [
     read_string P ''day'' at_day_update,
     read_strings P ''rangeList'' at_rangeList_update]"

subsection \<open>\<^verbatim>\<open>AccessTimes\<close>\<close>

record AccessTimes =
  ats_schedule :: "AccessTime list"
  ats_created :: uint64
  ats_modified :: uint64

definition AccessTimes_fresh :: AccessTimes where
  "AccessTimes_fresh = \<lparr>ats_schedule = [], ats_created = 0, ats_modified = 0\<rparr>"

definition AccessTimes_to_json :: "AccessTimes \<Rightarrow> jobj \<Rightarrow> jobj" where
  "AccessTimes_to_json r = write_fields [
     set_key ''schedule'' (objects_to_json AccessTime_to_json (ats_schedule r)),
     set_key ''created'' (JInt (uint (ats_created r))),
     set_key ''modified'' (JInt (uint (ats_modified r)))]"

definition AccessTimes_from_json :: "platform \<Rightarrow> jobj ptr \<Rightarrow> AccessTimes \<Rightarrow> AccessTimes \<times> bool" where
  "AccessTimes_from_json P = parse_object [
     read_objects (AccessTime_from_json P) AccessTime_fresh ''schedule'' ats_schedule_update,
     read_uint64 P ''created'' ats_created_update,
     read_uint64 P ''modified'' ats_modified_update]"

subsection \<open>\<^verbatim>\<open>SubscriberDevice\<close>\<close>

record Sub_Device =
  ssd_name :: string
  ssd_description :: string
  ssd_macAddress :: string
  ssd_manufacturer :: string
  ssd_firstContact :: uint64
  ssd_lastContact :: uint64
  ssd_group :: string
  ssd_icon :: string
  ssd_suspended :: bool
  ssd_ip :: string
  ssd_schedule :: "AccessTimes list"

definition Sub_Device_fresh :: Sub_Device where
  "Sub_Device_fresh = \<lparr>ssd_name = '''', ssd_description = '''', ssd_macAddress = '''', ssd_manufacturer = '''',
     ssd_firstContact = 0, ssd_lastContact = 0, ssd_group = '''', ssd_icon = '''', ssd_suspended =
     False, ssd_ip = '''', ssd_schedule = []\<rparr>"

definition Sub_Device_to_json :: "Sub_Device \<Rightarrow> jobj \<Rightarrow> jobj" where
  "Sub_Device_to_json r = write_fields [
     set_key ''name'' (JString (ssd_name r)),
     set_key ''description'' (JString (ssd_description r)),
     set_key ''macAddress'' (JString (ssd_macAddress r)),
     set_key ''manufacturer'' (JString (ssd_manufacturer r)),
     set_key ''firstContact'' (JInt (uint (ssd_firstContact r))),
     set_key ''lastContact'' (JInt (uint (ssd_lastContact r))),
     set_key ''group'' (JString (ssd_group r)),
     set_key ''icon'' (JString (ssd_icon r)),
     set_key ''suspended'' (JBool (ssd_suspended r)),
     set_key ''ip'' (JString (ssd_ip r)),
     set_key ''schedule'' (objects_to_json AccessTimes_to_json (ssd_schedule r))]"

definition Sub_Device_from_json :: "platform \<Rightarrow> jobj ptr \<Rightarrow> Sub_Device \<Rightarrow> Sub_Device \<times> bool" where
  "Sub_Device_from_json P = parse_object [
     read_string P ''name'' ssd_name_update,
     read_string P ''description'' ssd_description_update,
     read_string P ''macAddress'' ssd_macAddress_update,
     read_string P ''manufacturer'' ssd_manufacturer_update,
     read_uint64 P ''firstContact'' ssd_firstContact_update,
     read_uint64 P ''lastContact'' ssd_lastContact_update,
     read_string P ''group'' ssd_group_update,
     read_string P ''icon'' ssd_icon_update,
     read_bool P ''suspended'' ssd_suspended_update,
     read_string P ''ip'' ssd_ip_update,
     read_objects (AccessTimes_from_json P) AccessTimes_fresh ''schedule'' ssd_schedule_update]"

subsection \<open>\<^verbatim>\<open>SubscriberDeviceList\<close>\<close>

record Sub_DeviceList =
  ssl_devices :: "Sub_Device list"
  ssl_created :: uint64
  ssl_modified :: uint64

definition Sub_DeviceList_fresh :: Sub_DeviceList where
  "Sub_DeviceList_fresh = \<lparr>ssl_devices = [], ssl_created = 0, ssl_modified = 0\<rparr>"

definition Sub_DeviceList_to_json :: "Sub_DeviceList \<Rightarrow> jobj \<Rightarrow> jobj" where
  "Sub_DeviceList_to_json r = write_fields [
     set_key ''devices'' (objects_to_json Sub_Device_to_json (ssl_devices r)),
     set_key ''created'' (JInt (uint (ssl_created r))),
     set_key ''modified'' (JInt (uint (ssl_modified r)))]"

definition Sub_DeviceList_from_json :: "platform \<Rightarrow> jobj ptr \<Rightarrow> Sub_DeviceList \<Rightarrow> Sub_DeviceList \<times> bool" where
  "Sub_DeviceList_from_json P = parse_object [
     read_objects (Sub_Device_from_json P) Sub_Device_fresh ''devices'' ssl_devices_update,
     read_uint64 P ''created'' ssl_created_update,
     read_uint64 P ''modified'' ssl_modified_update]"

subsection \<open>\<^verbatim>\<open>Association\<close>\<close>

record Association =
  as_name :: string
  as_ssid :: string
  as_macAddress :: string
  as_rssi :: uint32
  as_power :: uint32
  as_ipv4 :: string
  as_ipv6 :: string
  as_tx :: uint64
  as_rx :: uint64
  as_manufacturer :: string

definition Association_fresh :: Association where
  "Association_fresh = \<lparr>as_name = '''', as_ssid = '''', as_macAddress = '''', as_rssi = 0, as_power = 0, as_ipv4 =
     '''', as_ipv6 = '''', as_tx = 0, as_rx = 0, as_manufacturer = ''''\<rparr>"

definition Association_to_json :: "Association \<Rightarrow> jobj \<Rightarrow> jobj" where
  "Association_to_json r = write_fields [
     set_key ''name'' (JString (as_name r)),
     set_key ''ssid'' (JString (as_ssid r)),
     set_key ''macAddress'' (JString (as_macAddress r)),
     set_key ''rssi'' (JInt (sint (as_rssi r))),
     set_key ''power'' (JInt (sint (as_power r))),
     set_key ''ipv4'' (JString (as_ipv4 r)),
     set_key ''ipv6'' (JString (as_ipv6 r)),
     set_key ''tx'' (JInt (uint (as_tx r))),
     set_key ''rx'' (JInt (uint (as_rx r))),
     set_key ''manufacturer'' (JString (as_manufacturer r))]"

definition Association_from_json :: "platform \<Rightarrow> jobj ptr \<Rightarrow> Association \<Rightarrow> Association \<times> bool" where
  "Association_from_json P = parse_object [
     read_string P ''name'' as_name_update,
     read_string P ''ssid'' as_ssid_update,
     read_string P ''macAddress'' as_macAddress_update,
     read_int32 P ''rssi'' as_rssi_update,
     read_int32 P ''power'' as_power_update,
     read_string P ''ipv4'' as_ipv4_update,
     read_string P ''ipv6'' as_ipv6_update,
     read_uint64 P ''tx'' as_tx_update,
     read_uint64 P ''rx'' as_rx_update,
     read_string P ''manufacturer'' as_manufacturer_update]"

subsection \<open>\<^verbatim>\<open>AssociationList\<close>\<close>

record AssociationList =
  asl_associations :: "Association list"
  asl_created :: uint64
  asl_modified :: uint64

definition AssociationList_fresh :: AssociationList where
  "AssociationList_fresh = \<lparr>asl_associations = [], asl_created = 0, asl_modified = 0\<rparr>"

definition AssociationList_to_json :: "AssociationList \<Rightarrow> jobj \<Rightarrow> jobj" where
  "AssociationList_to_json r = write_fields [
     set_key ''associations'' (objects_to_json Association_to_json (asl_associations r)),
     set_key ''created'' (JInt (uint (asl_created r))),
     set_key ''modified'' (JInt (uint (asl_modified r)))]"

definition AssociationList_from_json :: "platform \<Rightarrow> jobj ptr \<Rightarrow> AssociationList \<Rightarrow> AssociationList \<times> bool" where
  "AssociationList_from_json P = parse_object [
     read_objects (Association_from_json P) Association_fresh ''associations'' asl_associations_update,
     read_uint64 P ''created'' asl_created_update,
     read_uint64 P ''modified'' asl_modified_update]"

subsection \<open>\<^verbatim>\<open>Client\<close>\<close>

record Client =
  cl_macAddress :: string
  cl_speed :: string
  cl_mode :: string
  cl_ipv4 :: string
  cl_ipv6 :: string
  cl_tx :: uint64
  cl_rx :: uint64
  cl_manufacturer :: string

definition Client_fresh :: Client where
  "Client_fresh = \<lparr>cl_macAddress = '''', cl_speed = '''', cl_mode = '''', cl_ipv4 = '''', cl_ipv6 = '''', cl_tx =
     0, cl_rx = 0, cl_manufacturer = ''''\<rparr>"

definition Client_to_json :: "Client \<Rightarrow> jobj \<Rightarrow> jobj" where
  "Client_to_json r = write_fields [
     set_key ''macAddress'' (JString (cl_macAddress r)),
     set_key ''speed'' (JString (cl_speed r)),
     set_key ''mode'' (JString (cl_mode r)),
     set_key ''ipv4'' (JString (cl_ipv4 r)),
     set_key ''ipv6'' (JString (cl_ipv6 r)),
     set_key ''tx'' (JInt (uint (cl_tx r))),
     set_key ''rx'' (JInt (uint (cl_rx r))),
     set_key ''manufacturer'' (JString (cl_manufacturer r))]"

definition Client_from_json :: "platform \<Rightarrow> jobj ptr \<Rightarrow> Client \<Rightarrow> Client \<times> bool" where
  "Client_from_json P = parse_object [
     read_string P ''macAddress'' cl_macAddress_update,
     read_string P ''speed'' cl_speed_update,
     read_string P ''mode'' cl_mode_update,
     read_string P ''ipv4'' cl_ipv4_update,
     read_string P ''ipv6'' cl_ipv6_update,
     read_uint64 P ''tx'' cl_tx_update,
     read_uint64 P ''rx'' cl_rx_update,
     read_string P ''manufacturer'' cl_manufacturer_update]"

subsection \<open>\<^verbatim>\<open>ClientList\<close>\<close>

record ClientList =
  cll_clients :: "Client list"
  cll_created :: uint64
  cll_modified :: uint64

definition ClientList_fresh :: ClientList where
  "ClientList_fresh = \<lparr>cll_clients = [], cll_created = 0, cll_modified = 0\<rparr>"

definition ClientList_to_json :: "ClientList \<Rightarrow> jobj \<Rightarrow> jobj" where
  "ClientList_to_json r = write_fields [
     set_key ''clients'' (objects_to_json Client_to_json (cll_clients r)),
     set_key ''created'' (JInt (uint (cll_created r))),
     set_key ''modified'' (JInt (uint (cll_modified r)))]"

definition ClientList_from_json :: "platform \<Rightarrow> jobj ptr \<Rightarrow> ClientList \<Rightarrow> ClientList \<times> bool" where
  "ClientList_from_json P = parse_object [
     read_objects (Client_from_json P) Client_fresh ''clients'' cll_clients_update,
     read_uint64 P ''created'' cll_created_update,
     read_uint64 P ''modified'' cll_modified_update]"

subsection \<open>\<^verbatim>\<open>Location\<close>\<close>

record Sub_Location =
  slo_buildingName :: string
  slo_addressLines :: "string list"
  slo_city :: string
  slo_state :: string
  slo_postal :: string
  slo_country :: string
  slo_phones :: "string list"
  slo_mobiles :: "string list"

definition Sub_Location_fresh :: Sub_Location where
  "Sub_Location_fresh = \<lparr>slo_buildingName = '''', slo_addressLines = [], slo_city = '''', slo_state = '''', slo_postal =
     '''', slo_country = '''', slo_phones = [], slo_mobiles = []\<rparr>"

definition Sub_Location_to_json :: "Sub_Location \<Rightarrow> jobj \<Rightarrow> jobj" where
  "Sub_Location_to_json r = write_fields [
     set_key ''buildingName'' (JString (slo_buildingName r)),
     set_key ''addressLines'' (JArray (map JString (slo_addressLines r))),
     set_key ''city'' (JString (slo_city r)),
     set_key ''state'' (JString (slo_state r)),
     set_key ''postal'' (JString (slo_postal r)),
     set_key ''country'' (JString (slo_country r)),
     set_key ''phones'' (JArray (map JString (slo_phones r))),
     set_key ''mobiles'' (JArray (map JString (slo_mobiles r)))]"

definition Sub_Location_from_json :: "platform \<Rightarrow> jobj ptr \<Rightarrow> Sub_Location \<Rightarrow> Sub_Location \<times> bool" where
  "Sub_Location_from_json P = parse_object [
     read_string P ''buildingName'' slo_buildingName_update,
     read_strings P ''addressLines'' slo_addressLines_update,
     read_string P ''city'' slo_city_update,
     read_string P ''state'' slo_state_update,
     read_string P ''postal'' slo_postal_update,
     read_string P ''country'' slo_country_update,
     read_strings P ''phones'' slo_phones_update,
     read_strings P ''mobiles'' slo_mobiles_update]"

subsection \<open>\<^verbatim>\<open>RadioHE\<close>\<close>

record RadioHE =
  rh_multipleBSSID :: bool
  rh_ema :: bool
  rh_bssColor :: uint64

definition RadioHE_fresh :: RadioHE where
  "RadioHE_fresh = \<lparr>rh_multipleBSSID = False, rh_ema = False, rh_bssColor = 64\<rparr>"

subsection \<open>\<^verbatim>\<open>RadioRates\<close>\<close>

record RadioRates =
  rr_beacon :: uint64
  rr_multicast :: uint64

definition RadioRates_fresh :: RadioRates where
  "RadioRates_fresh = \<lparr>rr_beacon = 6000, rr_multicast = 24000\<rparr>"

subsection \<open>\<^verbatim>\<open>RadioInformation\<close>\<close>

record RadioInformation =
  ri_band :: string
  ri_bandwidth :: uint64
  ri_channel :: uint64
  ri_country :: string
  ri_channelMode :: string
  ri_channelWidth :: uint64
  ri_requireMode :: string
  ri_txpower :: uint64
  ri_legacyRates :: bool
  ri_beaconInterval :: uint64
  ri_dtimPeriod :: uint64
  ri_maximumClients :: uint64
  ri_rates :: RadioRates
  ri_he :: RadioHE
  ri_allowDFS :: bool
  ri_mimo :: string
  ri_rawInfo :: "string list"

definition RadioInformation_fresh :: RadioInformation where
  "RadioInformation_fresh = \<lparr>ri_band = '''', ri_bandwidth = 0, ri_channel = 0, ri_country = '''', ri_channelMode = ''HE'',
     ri_channelWidth = 80, ri_requireMode = '''', ri_txpower = 0, ri_legacyRates = False,
     ri_beaconInterval = 100, ri_dtimPeriod = 2, ri_maximumClients = 64, ri_rates =
     RadioRates_fresh, ri_he = RadioHE_fresh, ri_allowDFS = False, ri_mimo = '''', ri_rawInfo = []\<rparr>"

subsection \<open>\<^verbatim>\<open>AccessPoint\<close>\<close>

record AccessPoint =
  ap_id :: string
  ap_macAddress :: string
  ap_serialNumber :: string
  ap_name :: string
  ap_deviceType :: string
  ap_subscriberDevices :: Sub_DeviceList
  ap_ipReservations :: IPReservationList
  ap_address :: Sub_Location
  ap_wifiNetworks :: WifiNetworkList
  ap_internetConnection :: InternetConnection
  ap_deviceMode :: HomeDeviceMode
  ap_dnsConfiguration :: DnsConfiguration
  ap_radios :: "RadioInformation list"
  ap_automaticUpgrade :: bool
  ap_configurationUUID :: string
  ap_currentFirmware :: string
  ap_currentFirmwareDate :: uint64
  ap_latestFirmware :: string
  ap_latestFirmwareDate :: uint64
  ap_newFirmwareAvailable :: bool
  ap_latestFirmwareURI :: string

definition AccessPoint_fresh :: AccessPoint where
  "AccessPoint_fresh = \<lparr>ap_id = '''', ap_macAddress = '''', ap_serialNumber = '''', ap_name = '''', ap_deviceType =
     '''', ap_subscriberDevices = Sub_DeviceList_fresh, ap_ipReservations = IPReservationList_fresh,
     ap_address = Sub_Location_fresh, ap_wifiNetworks = WifiNetworkList_fresh, ap_internetConnection
     = InternetConnection_fresh, ap_deviceMode = HomeDeviceMode_fresh, ap_dnsConfiguration =
     DnsConfiguration_fresh, ap_radios = [], ap_automaticUpgrade = True, ap_configurationUUID =
     '''', ap_currentFirmware = '''', ap_currentFirmwareDate = 0, ap_latestFirmware = '''',
     ap_latestFirmwareDate = 0, ap_newFirmwareAvailable = False, ap_latestFirmwareURI = ''''\<rparr>"

definition AccessPoint_to_json :: "AccessPoint \<Rightarrow> jobj \<Rightarrow> jobj" where
  "AccessPoint_to_json r = write_fields [
     set_key ''id'' (JString (ap_id r)),
     set_key ''macAddress'' (JString (ap_macAddress r)),
     set_key ''serialNumber'' (JString (ap_serialNumber r)),
     set_key ''name'' (JString (ap_name r)),
     set_key ''deviceType'' (JString (ap_deviceType r))]"

definition AccessPoint_from_json :: "platform \<Rightarrow> jobj ptr \<Rightarrow> AccessPoint \<Rightarrow> AccessPoint \<times> bool" where
  "AccessPoint_from_json P = parse_object [
     read_string P ''id'' ap_id_update,
     read_string P ''macAddress'' ap_macAddress_update,
     read_string P ''serialNumber'' ap_serialNumber_update,
     read_string P ''name'' ap_name_update,
     read_string P ''deviceType'' ap_deviceType_update]"

subsection \<open>\<^verbatim>\<open>AccessPointList\<close>\<close>

record AccessPointList =
  apl_list :: "AccessPoint list"

definition AccessPointList_fresh :: AccessPointList where
  "AccessPointList_fresh = \<lparr>apl_list = []\<rparr>"

definition AccessPointList_to_json :: "AccessPointList \<Rightarrow> jobj \<Rightarrow> jobj" where
  "AccessPointList_to_json r = write_fields [
     set_key ''list'' (objects_to_json AccessPoint_to_json (apl_list r))]"

definition AccessPointList_from_json :: "platform \<Rightarrow> jobj ptr \<Rightarrow> AccessPointList \<Rightarrow> AccessPointList \<times> bool" where
  "AccessPointList_from_json P = parse_object [
     read_objects (AccessPoint_from_json P) AccessPoint_fresh ''list'' apl_list_update]"

subsection \<open>\<^verbatim>\<open>SubscriberInfo\<close>\<close>

record SubscriberInfo =
  si_id :: string
  si_userId :: string
  si_firstName :: string
  si_initials :: string
  si_lastName :: string
  si_phoneNumber :: string
  si_secondaryEmail :: string
  si_accessPoints :: AccessPointList
  si_serviceAddress :: Sub_Location
  si_billingAddress :: Sub_Location
  si_created :: uint64
  si_modified :: uint64

definition SubscriberInfo_fresh :: SubscriberInfo where
  "SubscriberInfo_fresh = \<lparr>si_id = '''', si_userId = '''', si_firstName = '''', si_initials = '''', si_lastName = '''',
     si_phoneNumber = '''', si_secondaryEmail = '''', si_accessPoints = AccessPointList_fresh,
     si_serviceAddress = Sub_Location_fresh, si_billingAddress = Sub_Location_fresh, si_created = 0,
     si_modified = 0\<rparr>"

definition SubscriberInfo_to_json :: "SubscriberInfo \<Rightarrow> jobj \<Rightarrow> jobj" where
  "SubscriberInfo_to_json r = write_fields [
     set_key ''id'' (JString (si_id r)),
     set_key ''userId'' (JString (si_userId r)),
     set_key ''firstName'' (JString (si_firstName r)),
     set_key ''initials'' (JString (si_initials r)),
     set_key ''lastName'' (JString (si_lastName r)),
     set_key ''phoneNumber'' (JString (si_phoneNumber r)),
     set_key ''secondaryEmail'' (JString (si_secondaryEmail r)),
     set_key ''accessPoints'' (JObject (AccessPointList_to_json (si_accessPoints r) [])),
     set_key ''serviceAddress'' (JObject (Sub_Location_to_json (si_serviceAddress r) [])),
     set_key ''billingAddress'' (JObject (Sub_Location_to_json (si_billingAddress r) [])),
     set_key ''created'' (JInt (uint (si_created r))),
     set_key ''modified'' (JInt (uint (si_modified r)))]"

definition SubscriberInfo_from_json :: "platform \<Rightarrow> jobj ptr \<Rightarrow> SubscriberInfo \<Rightarrow> SubscriberInfo \<times> bool" where
  "SubscriberInfo_from_json P = parse_object [
     read_string P ''id'' si_id_update,
     read_string P ''userId'' si_userId_update,
     read_string P ''firstName'' si_firstName_update,
     read_string P ''initials'' si_initials_update,
     read_string P ''lastName'' si_lastName_update,
     read_string P ''phoneNumber'' si_phoneNumber_update,
     read_string P ''secondaryEmail'' si_secondaryEmail_update,
     read_object (AccessPointList_from_json P) ''accessPoints'' si_accessPoints_update,
     read_object (Sub_Location_from_json P) ''serviceAddress'' si_serviceAddress_update,
     read_object (Sub_Location_from_json P) ''billingAddress'' si_billingAddress_update,
     read_uint64 P ''created'' si_created_update,
     read_uint64 P ''modified'' si_modified_update]"

subsection \<open>\<^verbatim>\<open>StatsEntry\<close>\<close>

record StatsEntry =
  se_timestamp :: uint64
  se_tx :: uint64
  se_rx :: uint64

definition StatsEntry_fresh :: StatsEntry where
  "StatsEntry_fresh = \<lparr>se_timestamp = 0, se_tx = 0, se_rx = 0\<rparr>"

definition StatsEntry_to_json :: "StatsEntry \<Rightarrow> jobj \<Rightarrow> jobj" where
  "StatsEntry_to_json r = write_fields [
     set_key ''timestamp'' (JInt (uint (se_timestamp r))),
     set_key ''tx'' (JInt (uint (se_tx r))),
     set_key ''rx'' (JInt (uint (se_rx r)))]"

definition StatsEntry_from_json :: "platform \<Rightarrow> jobj ptr \<Rightarrow> StatsEntry \<Rightarrow> StatsEntry \<times> bool" where
  "StatsEntry_from_json P = parse_object [
     read_uint64 P ''timestamp'' se_timestamp_update,
     read_uint64 P ''tx'' se_tx_update,
     read_uint64 P ''rx'' se_rx_update]"

subsection \<open>\<^verbatim>\<open>StatsBlock\<close>\<close>

record StatsBlock =
  sb_modified :: uint64
  sb_external :: "StatsEntry list"
  sb_internal :: "StatsEntry list"

definition StatsBlock_fresh :: StatsBlock where
  "StatsBlock_fresh = \<lparr>sb_modified = 0, sb_external = [], sb_internal = []\<rparr>"

definition StatsBlock_to_json :: "StatsBlock \<Rightarrow> jobj \<Rightarrow> jobj" where
  "StatsBlock_to_json r = write_fields [
     set_key ''modified'' (JInt (uint (sb_modified r))),
     set_key ''external'' (objects_to_json StatsEntry_to_json (sb_external r)),
     set_key ''internal'' (objects_to_json StatsEntry_to_json (sb_internal r))]"

definition StatsBlock_from_json :: "platform \<Rightarrow> jobj ptr \<Rightarrow> StatsBlock \<Rightarrow> StatsBlock \<times> bool" where
  "StatsBlock_from_json P = parse_object [
     read_uint64 P ''modified'' sb_modified_update,
     read_objects (StatsEntry_from_json P) StatsEntry_fresh ''external'' sb_external_update,
     read_objects (StatsEntry_from_json P) StatsEntry_fresh ''internal'' sb_internal_update]"

section \<open>Reading back what was written\<close>

text \<open>
  A codec that keeps only a part of a structure: reading gives \<open>keep x\<close>.  Vectors of such structures
  keep that part of each element.  A faithful codec is the case where everything is kept.
\<close>

locale lossy_codec =
  fixes enc :: "'e \<Rightarrow> jobj \<Rightarrow> jobj"
    and dec :: "platform \<Rightarrow> jobj ptr \<Rightarrow> 'e \<Rightarrow> 'e \<times> bool"
    and fresh :: 'e
    and keep :: "'e \<Rightarrow> 'e"
  assumes dec_enc_keep: "conv_doc P \<Longrightarrow> dec P (Some (enc x [])) fresh = (keep x, True)"
begin

lemma loop_enc_keep:
  "conv_doc P \<Longrightarrow> objects_loop (dec P) fresh (map (\<lambda>x. JObject (enc x [])) xs) acc = (acc @ map keep xs, True)"
  by (induction xs arbitrary: acc) (simp_all add: dec_enc_keep)

lemma read_objects_keep:
  assumes "conv_doc P" and "getVar ob k = objects_to_json enc xs"
  shows "read_objects (dec P) fresh k upd ob r = (upd (\<lambda>ys. ys @ map keep xs) r, True)"
  using assms by (simp add: objects_to_json_def read_objects_hit loop_enc_keep)

end

sublocale codec \<subseteq> lossy_codec enc dec fresh "\<lambda>x. x"
  by unfold_locales (rule dec_enc)

lemma WifiNetwork_dec_enc:
  "conv_doc P \<Longrightarrow> WifiNetwork_from_json P (Some (WifiNetwork_to_json r [])) WifiNetwork_fresh = (r, True)"
  by (cases r) (simp add: WifiNetwork_from_json_def WifiNetwork_to_json_def WifiNetwork_fresh_def parse_simps)

interpretation WifiNetwork: codec WifiNetwork_to_json WifiNetwork_from_json WifiNetwork_fresh
  by unfold_locales (rule WifiNetwork_dec_enc)

lemma AccessTime_dec_enc:
  "conv_doc P \<Longrightarrow> AccessTime_from_json P (Some (AccessTime_to_json r [])) AccessTime_fresh = (r, True)"
  by (cases r) (simp add: AccessTime_from_json_def AccessTime_to_json_def AccessTime_fresh_def parse_simps)

interpretation AccessTime: codec AccessTime_to_json AccessTime_from_json AccessTime_fresh
  by unfold_locales (rule AccessTime_dec_enc)

lemma AccessTimes_dec_enc:
  "conv_doc P \<Longrightarrow> AccessTimes_from_json P (Some (AccessTimes_to_json r [])) AccessTimes_fresh = (r, True)"
  by (cases r) (simp add: AccessTimes_from_json_def AccessTimes_to_json_def AccessTimes_fresh_def parse_simps AccessTime.read_objects_enc)

interpretation AccessTimes: codec AccessTimes_to_json AccessTimes_from_json AccessTimes_fresh
  by unfold_locales (rule AccessTimes_dec_enc)

lemma Sub_Device_dec_enc:
  "conv_doc P \<Longrightarrow> Sub_Device_from_json P (Some (Sub_Device_to_json r [])) Sub_Device_fresh = (r, True)"
  by (cases r) (simp add: Sub_Device_from_json_def Sub_Device_to_json_def Sub_Device_fresh_def parse_simps AccessTimes.read_objects_enc)

interpretation Sub_Device: codec Sub_Device_to_json Sub_Device_from_json Sub_Device_fresh
  by unfold_locales (rule Sub_Device_dec_enc)

lemma Association_dec_enc:
  "conv_doc P \<Longrightarrow> Association_from_json P (Some (Association_to_json r [])) Association_fresh = (r, True)"
  by (cases r) (simp add: Association_from_json_def Association_to_json_def Association_fresh_def parse_simps)

interpretation Association: codec Association_to_json Association_from_json Association_fresh
  by unfold_locales (rule Association_dec_enc)

lemma Client_dec_enc:
  "conv_doc P \<Longrightarrow> Client_from_json P (Some (Client_to_json r [])) Client_fresh = (r, True)"
  by (cases r) (simp add: Client_from_json_def Client_to_json_def Client_fresh_def parse_simps)

interpretation Client: codec Client_to_json Client_from_json Client_fresh
  by unfold_locales (rule Client_dec_enc)

lemma StatsEntry_dec_enc:
  "conv_doc P \<Longrightarrow> StatsEntry_from_json P (Some (StatsEntry_to_json r [])) StatsEntry_fresh = (r, True)"
  by (cases r) (simp add: StatsEntry_from_json_def StatsEntry_to_json_def StatsEntry_fresh_def parse_simps)

interpretation StatsEntry: codec StatsEntry_to_json StatsEntry_from_json StatsEntry_fresh
  by unfold_locales (rule StatsEntry_dec_enc)

text \<open>The lists the handlers answer with.\<close>

lemma list_dec_enc:
  "conv_doc P \<Longrightarrow> WifiNetworkList_from_json P (Some (WifiNetworkList_to_json wl [])) WifiNetworkList_fresh = (wl, True)"
  "conv_doc P \<Longrightarrow> Sub_DeviceList_from_json P (Some (Sub_DeviceList_to_json dl [])) Sub_DeviceList_fresh = (dl, True)"
  "conv_doc P \<Longrightarrow> AssociationList_from_json P (Some (AssociationList_to_json al [])) AssociationList_fresh = (al, True)"
  "conv_doc P \<Longrightarrow> ClientList_from_json P (Some (ClientList_to_json cl [])) ClientList_fresh = (cl, True)"
  "conv_doc P \<Longrightarrow> StatsBlock_from_json P (Some (StatsBlock_to_json sb [])) StatsBlock_fresh = (sb, True)"
  by (cases wl, simp add: WifiNetworkList_from_json_def WifiNetworkList_to_json_def WifiNetworkList_fresh_def
        parse_simps WifiNetwork.read_objects_enc)
    (cases dl, simp add: Sub_DeviceList_from_json_def Sub_DeviceList_to_json_def Sub_DeviceList_fresh_def
        parse_simps Sub_Device.read_objects_enc,
     cases al, simp add: AssociationList_from_json_def AssociationList_to_json_def AssociationList_fresh_def
        parse_simps Association.read_objects_enc,
     cases cl, simp add: ClientList_from_json_def ClientList_to_json_def ClientList_fresh_def
        parse_simps Client.read_objects_enc,
     cases sb, simp add: StatsBlock_from_json_def StatsBlock_to_json_def StatsBlock_fresh_def
        parse_simps StatsEntry.read_objects_enc)

lemma Sub_Location_dec_enc:
  "conv_doc P \<Longrightarrow> Sub_Location_from_json P (Some (Sub_Location_to_json r [])) v = (r, True)"
  by (cases r; cases v) (simp add: Sub_Location_from_json_def Sub_Location_to_json_def parse_simps)

text \<open>What is stored of an access point: its identifiers, name and type.\<close>

definition saved_access_point :: "AccessPoint \<Rightarrow> AccessPoint" where
  "saved_access_point r = AccessPoint_fresh\<lparr>ap_id := ap_id r, ap_macAddress := ap_macAddress r,
     ap_serialNumber := ap_serialNumber r, ap_name := ap_name r, ap_deviceType := ap_deviceType r\<rparr>"

interpretation AccessPoint: lossy_codec AccessPoint_to_json AccessPoint_from_json AccessPoint_fresh saved_access_point
  by unfold_locales (simp add: AccessPoint_from_json_def AccessPoint_to_json_def saved_access_point_def
      AccessPoint_fresh_def parse_simps)

lemma AccessPointList_dec_enc:
  "conv_doc P \<Longrightarrow> AccessPointList_from_json P (Some (AccessPointList_to_json r [])) AccessPointList_fresh
     = (\<lparr>apl_list = map saved_access_point (apl_list r)\<rparr>, True)"
  by (cases r) (simp add: AccessPointList_from_json_def AccessPointList_to_json_def AccessPointList_fresh_def
      parse_simps AccessPoint.read_objects_keep)

text \<open>
  The record of a subscriber is read back as it was written, except for its access points: of each
  of them only the identifiers, the name and the type are kept, and the networks, radios, reserved
  addresses, connection and firmware data are lost.
\<close>

theorem SubscriberInfo_roundtrip:
  assumes "conv_doc P"
  shows "SubscriberInfo_from_json P (Some (SubscriberInfo_to_json r [])) SubscriberInfo_fresh =
    (r\<lparr>si_accessPoints := \<lparr>apl_list = map saved_access_point (apl_list (si_accessPoints r))\<rparr>\<rparr>, True)"
  using assms
  by (cases r) (simp add: SubscriberInfo_from_json_def SubscriberInfo_to_json_def SubscriberInfo_fresh_def
      parse_simps AccessPointList_dec_enc Sub_Location_dec_enc)

theorem SubscriberInfo_roundtrip_witness:
  "SubscriberInfo_from_json ref_platform (Some (SubscriberInfo_to_json (SubscriberInfo_fresh\<lparr>si_id := ''s''\<rparr>) []))
     SubscriberInfo_fresh = (SubscriberInfo_fresh\<lparr>si_id := ''s''\<rparr>, True)"
  using SubscriberInfo_roundtrip [OF ref_platform_docs(6), of "SubscriberInfo_fresh\<lparr>si_id := ''s''\<rparr>"]
  by (simp add: SubscriberInfo_fresh_def AccessPointList_fresh_def)

end
