(* ===== verification/Stats.thy ===== *)
theory Stats
  imports Nlohmann SubObjects Utils Net "HOL-Library.Monad_Syntax"
begin

text \<open>
  The statistics cache, \<^verbatim>\<open>src/StatsSvr.h\<close> and \<^verbatim>\<open>src/StatsSvr.cpp\<close>: a buffer of traffic differences per
  device, filled from the state messages of the devices, and the handler that returns it
  (\<^verbatim>\<open>src/RESTAPI/RESTAPI_stats_handler.cpp\<close>).  The buffer is an array that is moved down by one element
  when it is full.  It refines a sliding window of the last 19 differences of consecutive readings.
\<close>

section \<open>The buffer of a device\<close>

abbreviation buffer_size :: nat where "buffer_size \<equiv> 20"

record DeviceStats =
  ds_LastUpdate :: uint64
  ds_timestamps :: "uint64 list"
  ds_ext_txs :: "uint64 list"
  ds_ext_rxs :: "uint64 list"
  ds_int_txs :: "uint64 list"
  ds_int_rxs :: "uint64 list"
  ds_base_int_tx :: uint64
  ds_base_int_rx :: uint64
  ds_base_ext_tx :: uint64
  ds_base_ext_rx :: uint64
  ds_index :: uint32
  ds_no_base :: bool

text \<open>The arrays have no initialiser: their first content \<open>junk\<close> is arbitrary.\<close>

definition DeviceStats_fresh :: "uint64 list \<Rightarrow> DeviceStats" where
  "DeviceStats_fresh junk = \<lparr>ds_LastUpdate = 0, ds_timestamps = junk, ds_ext_txs = junk, ds_ext_rxs = junk,
     ds_int_txs = junk, ds_int_rxs = junk, ds_base_int_tx = 0, ds_base_int_rx = 0, ds_base_ext_tx = 0,
     ds_base_ext_rx = 0, ds_index = 0, ds_no_base = True\<rparr>"

text \<open>
  \<^verbatim>\<open>memmove(&a[0], &a[1], sizeof(a[1]) * buffer_size - 1)\<close> moves 159 bytes: the last 7 of them come from
  behind the array, where the next member lies, and only the highest byte of the last element stays
  (little-endian layout).
\<close>

definition spill :: "uint64 \<Rightarrow> uint64 \<Rightarrow> uint64" where
  "spill own next = or (and own (not (mask 56))) (and next (mask 56))"

definition move_down :: "uint64 list \<Rightarrow> uint64 \<Rightarrow> uint64 list" where
  "move_down a next = tl a @ [spill (last a) next]"

definition shift_buffers :: "DeviceStats \<Rightarrow> DeviceStats" where
  "shift_buffers D = D\<lparr>
     ds_timestamps := move_down (ds_timestamps D) (hd (ds_ext_txs D)),
     ds_ext_txs := move_down (ds_ext_txs D) (hd (ds_ext_rxs D)),
     ds_ext_rxs := move_down (ds_ext_rxs D) (hd (ds_int_txs D)),
     ds_int_txs := move_down (ds_int_txs D) (hd (ds_int_rxs D)),
     ds_int_rxs := move_down (ds_int_rxs D) (ds_base_int_tx D),
     ds_index := ds_index D - 1\<rparr>"

text \<open>The counters are 32-bit parameters, the bases and differences 64-bit.\<close>

definition store_value ::
  "uint64 \<Rightarrow> uint32 \<Rightarrow> uint32 \<Rightarrow> uint32 \<Rightarrow> uint32 \<Rightarrow> DeviceStats \<Rightarrow> DeviceStats" where
  "store_value ts ext_tx ext_rx int_tx int_rx D = (let i = unat (ds_index D) in D\<lparr>
     ds_timestamps := (ds_timestamps D)[i := ts],
     ds_int_txs := (ds_int_txs D)[i := ucast int_tx - ds_base_int_tx D], ds_base_int_tx := ucast int_tx,
     ds_int_rxs := (ds_int_rxs D)[i := ucast int_rx - ds_base_int_rx D], ds_base_int_rx := ucast int_rx,
     ds_ext_txs := (ds_ext_txs D)[i := ucast ext_tx - ds_base_ext_tx D], ds_base_ext_tx := ucast ext_tx,
     ds_ext_rxs := (ds_ext_rxs D)[i := ucast ext_rx - ds_base_ext_rx D], ds_base_ext_rx := ucast ext_rx,
     ds_index := ds_index D + 1\<rparr>)"

definition AddValue ::
  "uint64 \<Rightarrow> uint64 \<Rightarrow> uint32 \<Rightarrow> uint32 \<Rightarrow> uint32 \<Rightarrow> uint32 \<Rightarrow> DeviceStats \<Rightarrow> DeviceStats" where
  "AddValue now ts ext_tx ext_rx int_tx int_rx D =
     (if ds_no_base D then D\<lparr>ds_base_int_rx := ucast int_rx, ds_base_int_tx := ucast int_tx,
          ds_base_ext_rx := ucast ext_rx, ds_base_ext_tx := ucast ext_tx, ds_no_base := False\<rparr>
      else let D1 = store_value ts ext_tx ext_rx int_tx int_rx D;
               D2 = (if ds_index D1 = of_nat buffer_size then shift_buffers D1 else D1)
           in D2\<lparr>ds_LastUpdate := now\<rparr>)"

definition DeviceStats_Get :: "DeviceStats \<Rightarrow> StatsBlock \<Rightarrow> StatsBlock" where
  "DeviceStats_Get D Stats = Stats\<lparr>sb_modified := ds_LastUpdate D,
     sb_external := sb_external Stats @ map (\<lambda>i. \<lparr>se_timestamp = ds_timestamps D ! i, se_tx = ds_ext_txs D ! i,
       se_rx = ds_ext_rxs D ! i\<rparr>) [0..<unat (ds_index D)],
     sb_internal := sb_internal Stats @ map (\<lambda>i. \<lparr>se_timestamp = ds_timestamps D ! i, se_tx = ds_int_txs D ! i,
       se_rx = ds_int_rxs D ! i\<rparr>) [0..<unat (ds_index D)]\<rparr>"

section \<open>State messages\<close>

record counters =
  co_int_rx :: uint64
  co_int_tx :: uint64
  co_ext_rx :: uint64
  co_ext_tx :: uint64

text \<open>An interface is internal when its location has three parts and the last is not \<^verbatim>\<open>0\<close>.\<close>

definition external_stats :: "platform \<Rightarrow> json \<Rightarrow> bool option" where
  "external_stats P cur = (if nl_contains cur ''location''
     then map_option (\<lambda>location. let parts = po_tokens P location ''/'' in length parts = 3 \<longrightarrow> parts ! 2 = ''0'')
       (nl_at_string cur ''location'')
     else Some True)"

definition add_interface :: "platform \<Rightarrow> json \<Rightarrow> counters \<Rightarrow> counters option" where
  "add_interface P cur c = do {
     external \<leftarrow> external_stats P cur;
     (case nl_at cur ''counters'' of None \<Rightarrow> Some c
      | Some cs \<Rightarrow>
          if nl_contains cs ''rx_bytes'' \<and> nl_contains cs ''tx_bytes'' then do {
            rx \<leftarrow> nl_at_number P cs ''rx_bytes'';
            tx \<leftarrow> nl_at_number P cs ''tx_bytes'';
            Some (if external then c\<lparr>co_ext_rx := word_of_int rx, co_ext_tx := word_of_int tx\<rparr>
              else c\<lparr>co_int_rx := word_of_int rx, co_int_tx := word_of_int tx\<rparr>)
          }
          else Some c)
   }"

fun add_interfaces :: "platform \<Rightarrow> json list \<Rightarrow> counters \<Rightarrow> counters option" where
  "add_interfaces P [] c = Some c"
| "add_interfaces P (cur # rest) c = Option.bind (add_interface P cur c) (add_interfaces P rest)"

text \<open>The device, time and counters of a state message; \<open>None\<close> when it is not one or an accessor throws.\<close>

definition read_state :: "platform \<Rightarrow> json \<Rightarrow> (uint64 \<times> uint64 \<times> counters) option" where
  "read_state P msg = do {
     payload \<leftarrow> nl_at msg ''payload'';
     state \<leftarrow> nl_at payload ''state'';
     serialNumber \<leftarrow> nl_at_string payload ''serial'';
     _ \<leftarrow> nl_at state ''version'';
     unit \<leftarrow> nl_at state ''unit'';
     timestamp \<leftarrow> nl_at_number P unit ''localtime'';
     interfaces \<leftarrow> nl_array state ''interfaces'';
     serial_int \<leftarrow> (case SerialNumberToInt serialNumber of Inl _ \<Rightarrow> None | Inr n \<Rightarrow> Some n);
     c \<leftarrow> add_interfaces P interfaces \<lparr>co_int_rx = 0, co_int_tx = 0, co_ext_rx = 0, co_ext_tx = 0\<rparr>;
     Some (serial_int, word_of_int timestamp, c)
   }"

section \<open>The server\<close>

record StatsSvr =
  sv_Queue :: "(string \<times> string) list"
  sv_Running :: bool
  sv_DeviceStats :: "uint64 \<rightharpoonup> DeviceStats"

definition StatsReceived :: "string \<Rightarrow> string \<Rightarrow> StatsSvr \<Rightarrow> StatsSvr" where
  "StatsReceived Key Payload S = S\<lparr>sv_Queue := sv_Queue S @ [(Key, Payload)]\<rparr>"

text \<open>Passing a 64-bit counter to \<^verbatim>\<open>AddValue\<close> drops its upper half.\<close>

definition add_counters :: "uint64 \<Rightarrow> uint64 \<Rightarrow> counters \<Rightarrow> DeviceStats \<Rightarrow> DeviceStats" where
  "add_counters now ts c = AddValue now ts (ucast (co_ext_tx c)) (ucast (co_ext_rx c)) (ucast (co_int_tx c))
     (ucast (co_int_rx c))"

definition handle_message :: "platform \<Rightarrow> uint64 list \<Rightarrow> uint64 \<Rightarrow> string \<Rightarrow> StatsSvr \<Rightarrow> StatsSvr" where
  "handle_message P junk now Payload S = (case Option.bind (po_nl_parse P Payload) (read_state P) of
     None \<Rightarrow> S
   | Some (serial_int, timestamp, c) \<Rightarrow> S\<lparr>sv_DeviceStats := (sv_DeviceStats S)(serial_int \<mapsto>
       add_counters now timestamp c (case sv_DeviceStats S serial_int of None \<Rightarrow> DeviceStats_fresh junk | Some D \<Rightarrow> D))\<rparr>)"

text \<open>One turn of the loop of \<^verbatim>\<open>run\<close>, and \<^verbatim>\<open>Stop\<close>.\<close>

definition run_once :: "platform \<Rightarrow> uint64 list \<Rightarrow> uint64 \<Rightarrow> StatsSvr \<Rightarrow> StatsSvr" where
  "run_once P junk now S = (case sv_Queue S of [] \<Rightarrow> S
     | (Key, Payload) # rest \<Rightarrow>
         if sv_Running S then handle_message P junk now Payload (S\<lparr>sv_Queue := rest\<rparr>) else S\<lparr>sv_Queue := rest\<rparr>)"

definition StatsSvr_Start :: "StatsSvr \<Rightarrow> StatsSvr" where
  "StatsSvr_Start S = S\<lparr>sv_Running := True\<rparr>"

definition StatsSvr_Stop :: "StatsSvr \<Rightarrow> StatsSvr" where
  "StatsSvr_Stop S = S\<lparr>sv_Running := False\<rparr>"

text \<open>\<^verbatim>\<open>StatsSvr::Get\<close> throws for a serial number that is not hexadecimal.\<close>

definition StatsSvr_Get :: "StatsSvr \<Rightarrow> string \<Rightarrow> StatsBlock \<Rightarrow> StatsBlock exn" where
  "StatsSvr_Get S SerialNumber Stats = (case SerialNumberToInt SerialNumber of Inl e \<Rightarrow> Inl e
     | Inr n \<Rightarrow> Inr (case sv_DeviceStats S n of None \<Rightarrow> Stats | Some D \<Rightarrow> DeviceStats_Get D Stats))"

text \<open>
  The handler; \<open>db\<close> is the lookup of a subscriber by id in the storage.  A standard exception is not
  caught by \<^verbatim>\<open>handleRequest\<close> and ends the connection without a response.
\<close>

definition stats_DoGet :: "platform \<Rightarrow> (string \<Rightarrow> SubscriberInfo option) \<Rightarrow> StatsSvr \<Rightarrow> handler \<Rightarrow> unit io" where
  "stats_DoGet P db S H = (let MAC = GetBinding P H ''mac'' [] in
     if MAC = [] \<or> \<not> ValidSerialNumber MAC then BadRequest H Errors_InvalidSerialNumber []
     else (case db (h_id H) of None \<Rightarrow> NotFound H
       | Some SI \<Rightarrow> (case find (\<lambda>device. ap_macAddress device = MAC) (apl_list (si_accessPoints SI)) of
             None \<Rightarrow> ReturnObject (StatsBlock_to_json StatsBlock_fresh [])
           | Some device \<Rightarrow> (case StatsSvr_Get S (ap_serialNumber device) StatsBlock_fresh of
                 Inl _ \<Rightarrow> ret ()
               | Inr SB \<Rightarrow> ReturnObject (StatsBlock_to_json SB [])))))"

section \<open>The buffer is a sliding window\<close>

text \<open>The invariant: five arrays of full size and an index inside them.\<close>

definition wf_stats :: "DeviceStats \<Rightarrow> bool" where
  "wf_stats D \<longleftrightarrow> length (ds_timestamps D) = buffer_size \<and> length (ds_ext_txs D) = buffer_size
     \<and> length (ds_ext_rxs D) = buffer_size \<and> length (ds_int_txs D) = buffer_size
     \<and> length (ds_int_rxs D) = buffer_size \<and> unat (ds_index D) < buffer_size"

text \<open>
  The specification: the last reading and a window of samples.  A sample is the time and the four
  differences to the reading before.
\<close>

type_synonym reading = "uint64 \<times> uint64 \<times> uint64 \<times> uint64"
type_synonym sample = "uint64 \<times> reading"

definition minus_reading :: "reading \<Rightarrow> reading \<Rightarrow> reading" where
  "minus_reading r b = (case (r, b) of ((a, b, c, d), (a', b', c', d')) \<Rightarrow> (a - a', b - b', c - c', d - d'))"

definition push_window :: "sample list \<Rightarrow> sample \<Rightarrow> sample list" where
  "push_window xs x = (if length xs + 1 = buffer_size then tl (xs @ [x]) else xs @ [x])"

fun spec_add :: "uint64 \<times> reading \<Rightarrow> reading option \<times> sample list \<Rightarrow> reading option \<times> sample list" where
  "spec_add (ts, r) (None, xs) = (Some r, xs)"
| "spec_add (ts, r) (Some b, xs) = (Some r, push_window xs (ts, minus_reading r b))"

text \<open>The abstraction of a buffer; its window is what \<^verbatim>\<open>Get\<close> returns.\<close>

definition sample_at :: "DeviceStats \<Rightarrow> nat \<Rightarrow> sample" where
  "sample_at D i = (ds_timestamps D ! i, ds_ext_txs D ! i, ds_ext_rxs D ! i, ds_int_txs D ! i, ds_int_rxs D ! i)"

definition abs_stats :: "DeviceStats \<Rightarrow> reading option \<times> sample list" where
  "abs_stats D = ((if ds_no_base D then None
       else Some (ds_base_ext_tx D, ds_base_ext_rx D, ds_base_int_tx D, ds_base_int_rx D)),
     map (sample_at D) [0..<unat (ds_index D)])"

lemma unat_index: "unat (i :: uint32) < 20 \<Longrightarrow> unat (i + 1) = unat i + 1"
  by (simp add: unat_word_ariths)

lemma index_20: "unat (i :: uint32) < 20 \<Longrightarrow> i + 1 = 20 \<longleftrightarrow> unat i = 19"
  using unat_index [of i] by (simp add: word_unat_eq_iff)

lemma store_value_window:
  assumes "wf_stats D"
  shows "map (sample_at (store_value ts etx erx itx irx D)) [0..<unat (ds_index D) + 1] =
    map (sample_at D) [0..<unat (ds_index D)] @ [(ts, minus_reading (ucast etx, ucast erx, ucast itx, ucast irx)
      (ds_base_ext_tx D, ds_base_ext_rx D, ds_base_int_tx D, ds_base_int_rx D))]"
  using assms by (simp add: store_value_def sample_at_def wf_stats_def minus_reading_def Let_def)

lemma shift_window:
  assumes "length (ds_timestamps D) = 20" "length (ds_ext_txs D) = 20" "length (ds_ext_rxs D) = 20"
    and "length (ds_int_txs D) = 20" "length (ds_int_rxs D) = 20"
  shows "map (sample_at (shift_buffers D)) [0..<19] = tl (map (sample_at D) [0..<20])"
proof (rule nth_equalityI)
  fix i
  assume "i < length (map (sample_at (shift_buffers D)) [0..<19])"
  then have i: "i < 19" by simp
  have m: "length a = 20 \<Longrightarrow> move_down a n ! i = a ! Suc i" for a n
    using i by (simp add: move_down_def nth_append nth_tl)
  show "map (sample_at (shift_buffers D)) [0..<19] ! i = tl (map (sample_at D) [0..<20]) ! i"
    using i assms by (simp add: nth_tl sample_at_def shift_buffers_def m)
qed simp

lemma AddValue_step:
  assumes "wf_stats D"
  shows "wf_stats (AddValue now ts etx erx itx irx D)
    \<and> abs_stats (AddValue now ts etx erx itx irx D)
      = spec_add (ts, ucast etx, ucast erx, ucast itx, ucast irx) (abs_stats D)"
proof (cases "ds_no_base D")
  case True
  then show ?thesis using assms by (simp add: AddValue_def wf_stats_def abs_stats_def sample_at_def)
next
  case False
  let ?S = "store_value ts etx erx itx irx D"
  have len: "length (ds_timestamps ?S) = 20" "length (ds_ext_txs ?S) = 20" "length (ds_ext_rxs ?S) = 20"
    "length (ds_int_txs ?S) = 20" "length (ds_int_rxs ?S) = 20" and i: "unat (ds_index D) < 20"
    and idx: "ds_index ?S = ds_index D + 1" and nb: "\<not> ds_no_base ?S"
    using assms False by (simp_all add: wf_stats_def store_value_def Let_def)
  have base: "(ds_base_ext_tx ?S, ds_base_ext_rx ?S, ds_base_int_tx ?S, ds_base_int_rx ?S)
      = (ucast etx, ucast erx, ucast itx, ucast irx)"
    by (simp add: store_value_def Let_def)
  note win = store_value_window [OF assms, of ts etx erx itx irx]
  have same: "sample_at (E\<lparr>ds_LastUpdate := now\<rparr>) = sample_at E" for E by (rule ext) (simp add: sample_at_def)
  show ?thesis
  proof (cases "unat (ds_index D) = 19")
    case True
    then have "ds_index D + 1 = 20" using index_20 [OF i] by simp
    then have full: "AddValue now ts etx erx itx irx D = (shift_buffers ?S)\<lparr>ds_LastUpdate := now\<rparr>"
      using False by (simp add: AddValue_def Let_def idx)
    have b: "ds_index (shift_buffers ?S) = ds_index D" by (simp add: shift_buffers_def idx)
    have "length (move_down a n) = length a" if "length a = 20" for a n
      using that by (simp add: move_down_def)
    then have "wf_stats (shift_buffers ?S)"
      using len i b by (simp add: wf_stats_def) (simp add: shift_buffers_def)
    then have wf: "wf_stats (AddValue now ts etx erx itx irx D)" by (simp add: full wf_stats_def)
    have "map (sample_at (shift_buffers ?S)) [0..<19] = tl (map (sample_at ?S) [0..<20])"
      using shift_window len by blast
    also have "map (sample_at ?S) [0..<20] = map (sample_at ?S) [0..<unat (ds_index D) + 1]" using True by simp
    finally have w: "map (sample_at (shift_buffers ?S)) [0..<19] = tl (map (sample_at D) [0..<unat (ds_index D)]
       @ [(ts, minus_reading (ucast etx, ucast erx, ucast itx, ucast irx)
      (ds_base_ext_tx D, ds_base_ext_rx D, ds_base_int_tx D, ds_base_int_rx D))])"
      unfolding win .
    have "abs_stats (AddValue now ts etx erx itx irx D) = (Some (ucast etx, ucast erx, ucast itx, ucast irx),
        map (sample_at (shift_buffers ?S)) [0..<19])"
      using nb base b True by (simp add: full abs_stats_def same) (simp add: shift_buffers_def)
    then show ?thesis using wf w False True by (simp add: abs_stats_def push_window_def)
  next
    case other: False
    then have "ds_index D + 1 \<noteq> 20" using index_20 [OF i] by simp
    then have add: "AddValue now ts etx erx itx irx D = ?S\<lparr>ds_LastUpdate := now\<rparr>"
      using False by (simp add: AddValue_def Let_def idx)
    have j: "unat (ds_index ?S) = unat (ds_index D) + 1" using unat_index [OF i] idx by simp
    then have "wf_stats (AddValue now ts etx erx itx irx D)"
      using len i other by (simp add: add wf_stats_def)
    then show ?thesis
      using nb base other win False by (simp add: add abs_stats_def same j push_window_def)
  qed
qed

text \<open>
  (C33) Adding a reading to the buffer keeps its invariant and does to its abstraction what the
  specification says: the first reading only sets the base, every later one appends its differences
  to the reading before, and of the window the oldest sample is dropped when it would reach 20.
  The bytes that are moved from behind the arrays are never visible.
\<close>

theorem AddValue_refines:
  assumes "wf_stats D"
  shows "wf_stats (AddValue now ts etx erx itx irx D)
    \<and> abs_stats (AddValue now ts etx erx itx irx D)
      = spec_add (ts, ucast etx, ucast erx, ucast itx, ucast irx) (abs_stats D)"
  using assms by (rule AddValue_step)

theorem AddValue_refines_witness:
  "abs_stats (AddValue 9 8 7 6 5 4 (DeviceStats_fresh (replicate 20 0))) = (Some (7, 6, 5, 4), [])"
proof -
  have "wf_stats (DeviceStats_fresh (replicate 20 0))" by (simp add: wf_stats_def DeviceStats_fresh_def)
  from AddValue_refines [OF this, of 9 8 7 6 5 4] show ?thesis
    by (simp add: abs_stats_def DeviceStats_fresh_def)
qed

section \<open>Every reachable state of the server\<close>

text \<open>
  The server starts with no statistics; messages arrive, the worker handles the next one, and it is
  started and stopped, in any order.
\<close>

inductive stats_step :: "platform \<Rightarrow> StatsSvr \<Rightarrow> StatsSvr \<Rightarrow> bool" for P where
  received: "stats_step P S (StatsReceived Key Payload S)"
| worked: "length junk = buffer_size \<Longrightarrow> stats_step P S (run_once P junk now S)"
| started: "stats_step P S (StatsSvr_Start S)"
| stopped: "stats_step P S (StatsSvr_Stop S)"

inductive stats_reachable :: "platform \<Rightarrow> StatsSvr \<Rightarrow> bool" for P where
  initial: "stats_reachable P \<lparr>sv_Queue = [], sv_Running = False, sv_DeviceStats = Map.empty\<rparr>"
| step: "stats_reachable P S \<Longrightarrow> stats_step P S S' \<Longrightarrow> stats_reachable P S'"

inductive_cases stats_stepE: "stats_step P S S'"

definition wf_svr :: "StatsSvr \<Rightarrow> bool" where
  "wf_svr S \<longleftrightarrow> (\<forall>n D. sv_DeviceStats S n = Some D \<longrightarrow> wf_stats D)"

lemmas AddValue_wf = AddValue_step [THEN conjunct1]

lemma fresh_wf: "length junk = buffer_size \<Longrightarrow> wf_stats (DeviceStats_fresh junk)"
  by (simp add: wf_stats_def DeviceStats_fresh_def)

lemma run_once_wf:
  assumes "wf_svr S" "length junk = buffer_size"
  shows "wf_svr (run_once P junk now S)"
proof -
  have "wf_svr (handle_message P junk now payload S')" if "sv_DeviceStats S' = sv_DeviceStats S" for payload S'
    using assms that
    by (auto simp: handle_message_def wf_svr_def add_counters_def fresh_wf intro!: AddValue_wf
        split: option.splits if_splits)
  moreover have "wf_svr (S\<lparr>sv_Queue := q\<rparr>)" for q using assms(1) by (simp add: wf_svr_def)
  ultimately show ?thesis
    using assms(1) by (simp add: run_once_def split: list.splits prod.splits)
qed

text \<open>
  Whatever messages arrive and in whatever order the server works, the statistics of every device
  stay well formed: the index of the next write is inside the arrays, and a client is never shown more
  than 19 entries.
\<close>

theorem stats_reachable_wf:
  assumes "stats_reachable P S" and "sv_DeviceStats S n = Some D"
  shows "wf_stats D \<and> length (sb_external (DeviceStats_Get D StatsBlock_fresh)) \<le> 19
    \<and> length (sb_internal (DeviceStats_Get D StatsBlock_fresh)) \<le> 19"
proof -
  have "wf_svr S"
    using assms(1)
  proof (induction rule: stats_reachable.induct)
    case initial
    then show ?case by (simp add: wf_svr_def)
  next
    case (step S S')
    from step.hyps(2) step.IH show ?case
      by cases (auto simp: StatsReceived_def StatsSvr_Start_def StatsSvr_Stop_def wf_svr_def
          intro: run_once_wf [unfolded wf_svr_def, rule_format])
  qed
  then have "wf_stats D" using assms(2) by (simp add: wf_svr_def)
  then show ?thesis by (simp add: DeviceStats_Get_def StatsBlock_fresh_def wf_stats_def)
qed

definition state_message :: json where
  "state_message = JObject [(''payload'', JObject [(''serial'', JString ''0a''), (''state'', JObject [
     (''interfaces'', JArray []), (''unit'', JObject [(''localtime'', JInt 7)]), (''version'', JInt 1)])])]"

definition stats_platform :: platform where
  "stats_platform = ref_platform\<lparr>po_nl_parse := (\<lambda>_. Some state_message)\<rparr>"

lemma state_message_read: "read_state stats_platform state_message =
    Some (10, 7, \<lparr>co_int_rx = 0, co_int_tx = 0, co_ext_rx = 0, co_ext_tx = 0\<rparr>)"
proof -
  have "SerialNumberToInt ''0a'' = Inr 10"
    by (simp add: SerialNumberToInt_def stoull16_def strip_0x_def hex_val_def ctype_defs)
  then show ?thesis
    by (simp add: read_state_def state_message_def nl_at_def nl_at_string_def nl_at_number_def nl_array_def
        nl_string_def nl_number_def)
qed

theorem stats_reachable_wf_witness:
  "\<exists>S D. stats_reachable stats_platform S \<and> sv_DeviceStats S 10 = Some D \<and> wf_stats D"
proof -
  let ?S0 = "\<lparr>sv_Queue = [], sv_Running = False, sv_DeviceStats = Map.empty\<rparr>"
  let ?S = "run_once stats_platform (replicate 20 0) 5 (StatsReceived ''k'' ''m'' (StatsSvr_Start ?S0))"
  have r: "stats_reachable stats_platform ?S"
    by (rule stats_reachable.step, rule stats_reachable.step, rule stats_reachable.step,
        rule stats_reachable.initial, rule started, rule received, rule worked) simp
  have "po_nl_parse stats_platform p = Some state_message" for p by (simp add: stats_platform_def)
  then obtain D where d: "sv_DeviceStats ?S 10 = Some D"
    by (simp add: run_once_def StatsReceived_def StatsSvr_Start_def handle_message_def state_message_read)
  from stats_reachable_wf [OF r d] r d show ?thesis by blast
qed

section \<open>Counters beyond 32 bits\<close>

text \<open>The difference the buffer stores for two consecutive readings of a 64-bit counter.\<close>

definition stored_difference :: "uint64 \<Rightarrow> uint64 \<Rightarrow> uint64" where
  "stored_difference old new = ucast (ucast new :: uint32) - ucast (ucast old :: uint32)"

lemma unat_stored: "unat (ucast (ucast (x :: uint64) :: uint32) :: uint64) = unat x mod 2 ^ 32"
  by (simp add: unsigned_ucast_eq take_bit_eq_mod unat_mod_distrib)

lemma carry: "a = (q + 1) * k + m \<Longrightarrow> b = q * k + n \<Longrightarrow> a < b + k \<Longrightarrow> m < n" for a :: nat
  by (simp add: add_mult_distrib)

lemma stored_difference_exact:
  assumes "unat old \<le> unat new" "unat new < unat old + 2 ^ 32"
  shows "stored_difference old new =
      (if unat new div 2 ^ 32 = unat old div 2 ^ 32 then new - old else new - old - 2 ^ 32)
    \<and> (unat new div 2 ^ 32 \<noteq> unat old div 2 ^ 32 \<longrightarrow> 2 ^ 63 < unat (stored_difference old new))"
proof -
  let ?q = "unat old div 2 ^ 32" and ?r = "unat new div 2 ^ 32"
  have lo: "(ucast (ucast x :: uint32) :: uint64) = x - of_nat (unat x div 2 ^ 32 * 2 ^ 32)" for x :: uint64
  proof -
    have "(ucast (ucast x :: uint32) :: uint64) = of_nat (unat x mod 2 ^ 32)"
      by (subst unat_stored [symmetric]) simp
    also have "unat x mod 2 ^ 32 = unat x - unat x div 2 ^ 32 * 2 ^ 32" by (simp add: minus_div_mult_eq_mod)
    also have "(of_nat (unat x - unat x div 2 ^ 32 * 2 ^ 32) :: uint64) = of_nat (unat x) - of_nat (unat x div 2 ^ 32 * 2 ^ 32)"
      by (rule of_nat_diff) (metis div_times_less_eq_dividend)
    finally show ?thesis by simp
  qed
  have "?q \<le> ?r" using assms(1) by (rule div_le_mono)
  moreover have "?r \<le> (unat old + 2 ^ 32) div 2 ^ 32" using assms(2) by (intro div_le_mono) simp
  ultimately have r: "?r = ?q \<or> ?r = ?q + 1" by (simp add: le_Suc_eq) linarith
  have d: "stored_difference old new = new - old - of_nat ((?r - ?q) * 2 ^ 32)"
    using r unfolding stored_difference_def lo by (auto simp: algebra_simps)
  have "stored_difference old new = (if ?r = ?q then new - old else new - old - 2 ^ 32)"
    using d r by auto
  moreover have "2 ^ 63 < unat (stored_difference old new)" if "?r \<noteq> ?q"
  proof -
    have lt: "unat new mod 2 ^ 32 < unat old mod 2 ^ 32"
    proof -
      have "?r = ?q + 1" using that r by blast
      then have "unat new = (?q + 1) * 2 ^ 32 + unat new mod 2 ^ 32" by (metis div_mult_mod_eq)
      moreover have "unat old = ?q * 2 ^ 32 + unat old mod 2 ^ 32" by (metis div_mult_mod_eq)
      ultimately show ?thesis using assms(2) by (rule carry)
    qed
    have "unat (stored_difference old new) = 2 ^ 64 + unat new mod 2 ^ 32 - unat old mod 2 ^ 32"
      using lt unfolding stored_difference_def by (simp add: unat_sub_if_size unat_stored word_size)
    moreover have "unat old mod 2 ^ 32 < 2 ^ 32" by simp
    ultimately show ?thesis by simp
  qed
  ultimately show ?thesis by blast
qed

text \<open>What \<^verbatim>\<open>Get\<close> returns is the window.\<close>

lemma Get_window:
  "sb_external (DeviceStats_Get D StatsBlock_fresh) =
   map (\<lambda>(ts, etx, erx, itx, irx). \<lparr>se_timestamp = ts, se_tx = etx, se_rx = erx\<rparr>) (snd (abs_stats D))"
  by (simp add: DeviceStats_Get_def StatsBlock_fresh_def abs_stats_def sample_at_def)

lemma last_push: "push_window xs x \<noteq> [] \<and> last (push_window xs x) = x"
  by (cases xs) (auto simp: push_window_def)



end
