(* ===== verification/Clients.thy ===== *)
theory Clients
  imports Nlohmann SubObjects Sdk "HOL-Library.Monad_Syntax"
begin

text \<open>
  The lists of clients of an access point, \<^verbatim>\<open>src/RESTAPI/RESTAPI_wifiClients_handler.cpp\<close> and
  \<^verbatim>\<open>RESTAPI_wiredClients_handler.cpp\<close>, read from the last statistics of the device, and the look-up of
  manufacturers, \<^verbatim>\<open>GetOUIs\<close> of \<^verbatim>\<open>src/sdks/SDK_gw.cpp\<close>.  The database row of the subscriber is the argument
  \<open>db\<close>.  An exception inside the reading of the statistics is \<open>None\<close>.
\<close>

section \<open>Manufacturers\<close>

record Tag =
  tg_tag :: string
  tg_value :: string

definition Tag_fresh :: Tag where
  "Tag_fresh = \<lparr>tg_tag = [], tg_value = []\<rparr>"

definition Tag_from_json :: "platform \<Rightarrow> jobj ptr \<Rightarrow> Tag \<Rightarrow> Tag \<times> bool" where
  "Tag_from_json P = parse_object [read_string P ''tag'' tg_tag_update, read_string P ''value'' tg_value_update]"

record TagList =
  tl_tagList :: "Tag list"

definition TagList_from_json :: "platform \<Rightarrow> jobj ptr \<Rightarrow> TagList \<Rightarrow> TagList \<times> bool" where
  "TagList_from_json P = parse_object [read_objects (Tag_from_json P) Tag_fresh ''tagList'' tl_tagList_update]"

fun join_macs :: "string list \<Rightarrow> string \<Rightarrow> string" where
  "join_macs [] acc = acc"
| "join_macs (m # ms) acc = join_macs ms (if acc = [] then m else acc @ '','' @ m)"

definition set_values :: "Tag \<Rightarrow> (string \<times> string) list \<Rightarrow> (string \<times> string) list" where
  "set_values i pairs = map (\<lambda>(m, v). (m, if m = tg_tag i then tg_value i else v)) pairs"

definition GetOUIs :: "platform \<Rightarrow> handler option \<Rightarrow> (string \<times> string) list \<Rightarrow> (bool \<times> (string \<times> string) list) io" where
  "GetOUIs P client MacListPair = do {
     (status, resp) \<leftarrow> OpenAPIRequestGet P uSERVICE_GATEWAY ''/api/v1/ouis''
       [(''macList'', join_macs (map fst MacListPair) [])] 60000 (client_token client) None;
     ret (if status = HTTP_OK
       then (True, fold set_values (tl_tagList (fst (TagList_from_json P resp \<lparr>tl_tagList = []\<rparr>))) MacListPair)
       else (False, MacListPair))
   }"

text \<open>
  \<^verbatim>\<open>AddManufacturers\<close>, once for associations and once for clients: \<open>mac\<close> reads the address of an entry
  and \<open>upd\<close> writes its manufacturer.
\<close>

definition AddManufacturers ::
  "platform \<Rightarrow> ('e \<Rightarrow> string) \<Rightarrow> ((string \<Rightarrow> string) \<Rightarrow> 'e \<Rightarrow> 'e) \<Rightarrow> 'e list \<Rightarrow> 'e list io" where
  "AddManufacturers P mac upd entries = do {
     (okv, pairs) \<leftarrow> GetOUIs P None (map (\<lambda>i. (mac i, [])) entries);
     ret (if okv then fold (\<lambda>(m, v) es. map (\<lambda>j. if mac j = m then upd (\<lambda>_. v) j else j) es) pairs entries
       else entries)
   }"

section \<open>Wi-Fi clients\<close>

text \<open>The first address of a list, empty when there is none.\<close>

definition first_address :: "json \<Rightarrow> string \<Rightarrow> string option" where
  "first_address client k = (case nl_array client k of Some (a # _) \<Rightarrow> nl_string a | _ \<Rightarrow> Some [])"

text \<open>The addresses of the clients of an interface; the entry in front is the one in force.\<close>

fun interface_ips :: "json list \<Rightarrow> (string \<times> string \<times> string) list \<Rightarrow> (string \<times> string \<times> string) list option" where
  "interface_ips [] ips = Some ips"
| "interface_ips (client # clients) ips =
     (if nl_contains client ''mac'' then do {
        ipv6 \<leftarrow> first_address client ''ipv6_addresses'';
        ipv4 \<leftarrow> first_address client ''ipv4_addresses'';
        mac \<leftarrow> nl_at_string client ''mac'';
        interface_ips clients ((mac, ipv4, ipv6) # ips)
      } else interface_ips clients ips)"

definition read_association ::
  "platform \<Rightarrow> (string \<times> string \<times> string) list \<Rightarrow> json \<Rightarrow> json \<Rightarrow> Association option" where
  "read_association P ips cur_ssid cur_client = do {
     ssid \<leftarrow> nl_at_string cur_ssid ''ssid'';
     station \<leftarrow> nl_at_string cur_client ''station'';
     rssi \<leftarrow> nl_at_number P cur_client ''rssi'';
     rx \<leftarrow> nl_at_number P cur_client ''rx_bytes'';
     tx \<leftarrow> nl_at_number P cur_client ''tx_bytes'';
     Some (let A = Association_fresh\<lparr>as_ssid := ssid, as_macAddress := station, as_rssi := word_of_int rssi,
         as_rx := word_of_int rx, as_tx := word_of_int tx, as_power := 0, as_name := station\<rparr>
       in case map_of ips station of None \<Rightarrow> A | Some (v4, v6) \<Rightarrow> A\<lparr>as_ipv4 := v4, as_ipv6 := v6\<rparr>)
   }"

text \<open>The elements of a member that is an array, none otherwise.\<close>

definition elements :: "json \<Rightarrow> string \<Rightarrow> json list" where
  "elements j k = (case nl_array j k of None \<Rightarrow> [] | Some xs \<Rightarrow> xs)"

definition ssid_associations :: "platform \<Rightarrow> (string \<times> string \<times> string) list \<Rightarrow> json \<Rightarrow> Association list option" where
  "ssid_associations P ips cur_ssid = those (map (read_association P ips cur_ssid) (elements cur_ssid ''associations''))"

definition interface_associations :: "platform \<Rightarrow> json \<Rightarrow> Association list option" where
  "interface_associations P cur_interface = do {
     ips \<leftarrow> interface_ips (elements cur_interface ''clients'') [];
     xss \<leftarrow> those (map (ssid_associations P ips) (elements cur_interface ''ssids''));
     Some (concat xss)
   }"

definition read_wifi_clients :: "platform \<Rightarrow> json \<Rightarrow> Association list option" where
  "read_wifi_clients P stats = map_option concat (those (map (interface_associations P) (elements stats ''interfaces'')))"

definition wifi_answer :: "platform \<Rightarrow> jobj \<Rightarrow> jobj io" where
  "wifi_answer P LastStats = do {
     now \<leftarrow> Now;
     (case Option.bind (po_nlohmann P (JObject LastStats)) (read_wifi_clients P) of
        None \<Rightarrow> ret []
      | Some as \<Rightarrow> do {
          as' \<leftarrow> AddManufacturers P as_macAddress as_manufacturer_update as;
          ret (AssociationList_to_json \<lparr>asl_associations = as', asl_created = now, asl_modified = now\<rparr> [])
        })
   }"

definition wifiClients_DoGet :: "platform \<Rightarrow> (string \<Rightarrow> SubscriberInfo option) \<Rightarrow> handler \<Rightarrow> unit io" where
  "wifiClients_DoGet P db H = (let SerialNumber = GetParameter H ''serialNumber'' [] in
     if SerialNumber = [] then BadRequest H Errors_MissingSerialNumber []
     else (case db (h_id H) of None \<Rightarrow> NotFound H
       | Some SI \<Rightarrow> (case find (\<lambda>i. ap_macAddress i = SerialNumber) (apl_list (si_accessPoints SI)) of
            None \<Rightarrow> NotFound H
          | Some i \<Rightarrow> do {
              (okv, LastStats) \<leftarrow> GetLastStats P None (ap_serialNumber i) None;
              (if okv then deref (null_pointer H) LastStats (\<lambda>ob. do { Answer \<leftarrow> wifi_answer P ob; ReturnObject Answer })
               else ReturnObject [])
            })))"

section \<open>Wired clients\<close>

text \<open>The stations of the Wi-Fi associations of an interface.\<close>

definition wifi_macs :: "json \<Rightarrow> string list option" where
  "wifi_macs cur_interface = those (concat (map (\<lambda>cur_ssid. map (\<lambda>c. nl_at_string c ''station'')
     (elements cur_ssid ''associations'')) (elements cur_interface ''ssids'')))"

text \<open>The loop over the IPv4 addresses has no \<^verbatim>\<open>break\<close>: the last one stays.\<close>

definition last_address :: "json \<Rightarrow> string \<Rightarrow> string option" where
  "last_address client k = (case elements client k of [] \<Rightarrow> Some []
     | addrs \<Rightarrow> map_option last (those (map nl_string addrs)))"

fun wired_clients :: "string list \<Rightarrow> json list \<Rightarrow> Client list option" where
  "wired_clients macs [] = Some []"
| "wired_clients macs (cur_client # clients) = do {
     Mac \<leftarrow> nl_at_string cur_client ''mac'';
     (if Mac \<in> set macs then wired_clients macs clients
      else do {
        ipv6 \<leftarrow> first_address cur_client ''ipv6_addresses'';
        ipv4 \<leftarrow> last_address cur_client ''ipv4_addresses'';
        rest \<leftarrow> wired_clients macs clients;
        Some (Client_fresh\<lparr>cl_macAddress := Mac, cl_ipv6 := ipv6, cl_ipv4 := ipv4, cl_tx := 0, cl_rx := 0,
          cl_speed := ''auto'', cl_mode := ''auto''\<rparr> # rest)
      })
   }"

definition interface_wired :: "json \<Rightarrow> Client list option" where
  "interface_wired cur_interface = do {
     macs \<leftarrow> wifi_macs cur_interface;
     wired_clients macs (elements cur_interface ''clients'')
   }"

definition read_wired_clients :: "json \<Rightarrow> Client list option" where
  "read_wired_clients stats = map_option concat (those (map interface_wired (elements stats ''interfaces'')))"

definition wired_answer :: "platform \<Rightarrow> uint64 \<Rightarrow> jobj \<Rightarrow> jobj \<Rightarrow> jobj io" where
  "wired_answer P now Answer LastStats =
     (case Option.bind (po_nlohmann P (JObject LastStats)) read_wired_clients of
        None \<Rightarrow> ret Answer
      | Some cs \<Rightarrow> do {
          cs' \<leftarrow> AddManufacturers P cl_macAddress cl_manufacturer_update cs;
          ret (ClientList_to_json \<lparr>cll_clients = cs', cll_created = now, cll_modified = now\<rparr> Answer)
        })"

definition wiredClients_DoGet :: "platform \<Rightarrow> (string \<Rightarrow> SubscriberInfo option) \<Rightarrow> handler \<Rightarrow> unit io" where
  "wiredClients_DoGet P db H = (let SerialNumber = GetParameter H ''serialNumber'' [] in
     if SerialNumber = [] then BadRequest H Errors_MissingSerialNumber []
     else (case db (h_id H) of None \<Rightarrow> NotFound H
       | Some SI \<Rightarrow> (case find (\<lambda>i. ap_macAddress i = SerialNumber) (apl_list (si_accessPoints SI)) of
            None \<Rightarrow> NotFound H
          | Some i \<Rightarrow> do {
              now \<leftarrow> Now;
              let Answer = set_key ''modified'' (JInt (uint now)) (set_key ''created'' (JInt (uint now)) []);
              (okv, LastStats) \<leftarrow> GetLastStats P None (ap_serialNumber i) None;
              (if okv then deref (null_pointer H) LastStats
                 (\<lambda>ob. do { a \<leftarrow> wired_answer P now Answer ob; ReturnObject a })
               else ReturnObject Answer)
            })))"

section \<open>Calls and answers\<close>

lemmas clients_defs = wifiClients_DoGet_def wiredClients_DoGet_def wifi_answer_def wired_answer_def
  AddManufacturers_def GetOUIs_def

lemma silent_Now [replies_intros]: "silent Now"
  unfolding Now_def by (intro replies_intros)

lemma emits_Now [emits_intros]: "emits C Now"
  unfolding Now_def by (intro emits_intros)

lemma silent_manufacturers [replies_intros]:
  "silent (AddManufacturers P mac upd es)" "silent (wifi_answer P ob)" "silent (wired_answer P now a ob)"
  unfolding clients_defs by (intro replies_intros)+

lemma once_clients:
  "answers_once (wifiClients_DoGet P db H)" "answers_once (wiredClients_DoGet P db H)"
  unfolding wifiClients_DoGet_def wiredClients_DoGet_def Let_def by (intro replies_intros)+

text \<open>
  The calls a list of clients of the device \<open>mac\<close> needs: the last statistics of an access point of the
  subscriber's own record that has this address, and the manufacturers of the addresses found.
\<close>

definition clients_call :: "SubscriberInfo option \<Rightarrow> string \<Rightarrow> api_call \<Rightarrow> bool" where
  "clients_call row mac c \<longleftrightarrow> c_verb c = ''GET'' \<and> c_type c = uSERVICE_GATEWAY \<and> c_body c = None \<and>
     (case row of None \<Rightarrow> False | Some SI \<Rightarrow>
        c_path c = ''/api/v1/ouis'' \<or>
        (\<exists>ap \<in> set (apl_list (si_accessPoints SI)). ap_macAddress ap = mac \<and> mac \<noteq> [] \<and>
           c_path c = device_path (ap_serialNumber ap) @ ''/statistics''))"

lemma emits_GetOUIs: "(\<And>c. c_verb c = ''GET'' \<Longrightarrow> c_type c = uSERVICE_GATEWAY \<Longrightarrow> c_body c = None \<Longrightarrow>
    c_path c = ''/api/v1/ouis'' \<Longrightarrow> C c) \<Longrightarrow> emits C (GetOUIs P client pairs)"
  unfolding GetOUIs_def OpenAPIRequestGet_def by (intro emits_intros emits_transmit) simp

lemma emits_GetLastStats: "(\<And>c. c_verb c = ''GET'' \<Longrightarrow> c_type c = uSERVICE_GATEWAY \<Longrightarrow> c_body c = None \<Longrightarrow>
    c_path c = device_path m @ ''/statistics'' \<Longrightarrow> C c) \<Longrightarrow> emits C (GetLastStats P client m r)"
  unfolding GetLastStats_def OpenAPIRequestGet_def by (intro emits_intros emits_transmit) simp

lemma emits_client_answers:
  assumes "row = Some SI"
  shows "emits (clients_call row mac) (wifi_answer P ob)" "emits (clients_call row mac) (wired_answer P now a ob)"
  unfolding wifi_answer_def wired_answer_def AddManufacturers_def
  by (intro emits_intros emits_GetOUIs; simp add: clients_call_def assms)+

lemma find_in_set: "find Q xs = Some x \<Longrightarrow> x \<in> set xs \<and> Q x"
  by (metis find_Some_iff nth_mem)

lemma emits_clients:
  "emits (clients_call (db (h_id H)) (GetParameter H ''serialNumber'' [])) (wifiClients_DoGet P db H)"
  "emits (clients_call (db (h_id H)) (GetParameter H ''serialNumber'' [])) (wiredClients_DoGet P db H)"
  unfolding wifiClients_DoGet_def wiredClients_DoGet_def Let_def
  by (intro emits_intros emits_GetLastStats emits_client_answers; force simp: clients_call_def dest!: find_in_set)+


section \<open>Which clients are listed\<close>

text \<open>The stations associated with an interface and the addresses of its clients, as the statistics have them.\<close>

definition stations :: "json \<Rightarrow> string set" where
  "stations ifc = {m. \<exists>s \<in> set (elements ifc ''ssids''). \<exists>c \<in> set (elements s ''associations'').
     nl_at_string c ''station'' = Some m}"

definition client_addresses :: "json \<Rightarrow> string set" where
  "client_addresses ifc = {m. \<exists>c \<in> set (elements ifc ''clients''). nl_at_string c ''mac'' = Some m}"

lemma those_Some: "those xs = Some ys \<longleftrightarrow> xs = map Some ys"
  by (induction xs arbitrary: ys) (auto split: option.splits simp: Cons_eq_map_conv)

lemma Some_image_eq: "Some ` A = B \<Longrightarrow> A = {a. Some a \<in> B}"
  by auto

lemma wifi_macs_set:
  assumes "wifi_macs ifc = Some ms"
  shows "set ms = stations ifc"
proof -
  have "set ms = {m. Some m \<in> set (concat (map (\<lambda>cur_ssid. map (\<lambda>c. nl_at_string c ''station'')
      (elements cur_ssid ''associations'')) (elements ifc ''ssids'')))}"
    using assms unfolding wifi_macs_def those_Some by auto
  then show ?thesis unfolding stations_def by (force simp: image_iff)
qed

lemma wired_clients_set:
  "wired_clients ms cs = Some out \<Longrightarrow>
   cl_macAddress ` set out = {m. m \<notin> set ms \<and> (\<exists>c \<in> set cs. nl_at_string c ''mac'' = Some m)}"
proof (induction cs arbitrary: out)
  case (Cons c cs)
  then obtain mac where mac: "nl_at_string c ''mac'' = Some mac" by (auto split: bind_splits)
  show ?case
  proof (cases "mac \<in> set ms")
    case True
    then show ?thesis using Cons mac by auto
  next
    case False
    then obtain rest x where "wired_clients ms cs = Some rest" "out = x # rest" "cl_macAddress x = mac"
      using Cons.prems mac by (auto split: bind_splits)
    then show ?thesis using Cons.IH mac False by auto
  qed
qed simp

lemma interface_wired_set:
  "interface_wired ifc = Some cs \<Longrightarrow> cl_macAddress ` set cs = client_addresses ifc - stations ifc"
  unfolding interface_wired_def client_addresses_def
  by (auto split: bind_splits dest!: wired_clients_set wifi_macs_set)

lemma read_association_mac:
  "read_association P ips s c = Some a \<Longrightarrow> nl_at_string c ''station'' = Some (as_macAddress a)"
  unfolding read_association_def by (auto simp: Let_def split: bind_splits option.splits)

lemma those_map_via:
  assumes "those (map f xs) = Some ys" and "\<And>x y. f x = Some y \<Longrightarrow> g y = h x"
  shows "map g ys = map h xs"
  using assms by (induction xs arbitrary: ys) (auto split: option.splits)

lemma interface_associations_set:
  assumes "interface_associations P ifc = Some as"
  shows "as_macAddress ` set as = stations ifc"
proof -
  obtain ips xss where x: "those (map (ssid_associations P ips) (elements ifc ''ssids'')) = Some xss" "as = concat xss"
    using assms unfolding interface_associations_def by (auto split: bind_splits)
  have "map (\<lambda>xs. as_macAddress ` set xs) xss =
      map (\<lambda>s. {m. \<exists>c \<in> set (elements s ''associations''). nl_at_string c ''station'' = Some m}) (elements ifc ''ssids'')"
  proof (rule those_map_via [OF x(1)])
    fix s xs assume "ssid_associations P ips s = Some xs"
    then have "map (Some \<circ> as_macAddress) xs = map (\<lambda>c. nl_at_string c ''station'') (elements s ''associations'')"
      unfolding ssid_associations_def by (rule those_map_via) (simp add: read_association_mac)
    from arg_cong [OF this, of set]
    have "Some ` as_macAddress ` set xs = (\<lambda>c. nl_at_string c ''station'') ` set (elements s ''associations'')"
      by (simp add: image_comp)
    from Some_image_eq [OF this] show "as_macAddress ` set xs = {m. \<exists>c \<in> set (elements s ''associations''). nl_at_string c ''station'' = Some m}"
      by (force simp: image_iff)
  qed
  from arg_cong [OF this, of "\<lambda>l. \<Union> (set l)"]
  have "(\<Union>xs \<in> set xss. as_macAddress ` set xs) =
      (\<Union>s \<in> set (elements ifc ''ssids''). {m. \<exists>c \<in> set (elements s ''associations''). nl_at_string c ''station'' = Some m})"
    by simp
  then show ?thesis by (simp add: x(2) stations_def image_UN Collect_bex_eq)
qed

text \<open>
  (C38) From the same statistics the Wi-Fi list has exactly the stations of the associations of every
  interface, and the wired list exactly the clients of every interface that are not a station of an
  association of that interface; so a device shown as wired is one no association of its interface
  mentions, and no client address of the statistics is lost between the two lists.
\<close>

theorem clients_split:
  assumes "read_wifi_clients P stats = Some as" and "read_wired_clients stats = Some cs"
  shows "as_macAddress ` set as = (\<Union>ifc \<in> set (elements stats ''interfaces''). stations ifc)
    \<and> cl_macAddress ` set cs = (\<Union>ifc \<in> set (elements stats ''interfaces''). client_addresses ifc - stations ifc)
    \<and> (\<Union>ifc \<in> set (elements stats ''interfaces''). client_addresses ifc)
      \<subseteq> as_macAddress ` set as \<union> cl_macAddress ` set cs"
proof -
  obtain ass where a: "those (map (interface_associations P) (elements stats ''interfaces'')) = Some ass" "as = concat ass"
    using assms(1) unfolding read_wifi_clients_def by auto
  obtain css where c: "those (map interface_wired (elements stats ''interfaces'')) = Some css" "cs = concat css"
    using assms(2) unfolding read_wired_clients_def by auto
  have "map (\<lambda>xs. as_macAddress ` set xs) ass = map stations (elements stats ''interfaces'')"
    by (rule those_map_via [OF a(1)]) (rule interface_associations_set)
  from arg_cong [OF this, of "\<lambda>l. \<Union> (set l)"]
  have wifi: "as_macAddress ` set as = (\<Union>ifc \<in> set (elements stats ''interfaces''). stations ifc)"
    by (simp add: a(2) image_UN)
  have "map (\<lambda>xs. cl_macAddress ` set xs) css = map (\<lambda>i. client_addresses i - stations i) (elements stats ''interfaces'')"
    by (rule those_map_via [OF c(1)]) (rule interface_wired_set)
  from arg_cong [OF this, of "\<lambda>l. \<Union> (set l)"]
  have wired: "cl_macAddress ` set cs =
      (\<Union>ifc \<in> set (elements stats ''interfaces''). client_addresses ifc - stations ifc)"
    by (simp add: c(2) image_UN)
  show ?thesis unfolding wifi wired by blast
qed

definition sample_statistics :: json where
  "sample_statistics = JObject [(''interfaces'', JArray [JObject [
     (''clients'', JArray [
        JObject [(''mac'', JString ''m1''), (''ipv4_addresses'', JArray [JString ''10.0.0.1'', JString ''10.0.0.2''])],
        JObject [(''mac'', JString ''m2'')]]),
     (''ssids'', JArray [JObject [(''ssid'', JString ''home''), (''associations'', JArray [
        JObject [(''station'', JString ''m2''), (''rssi'', JInt (- 40)), (''rx_bytes'', JInt 7), (''tx_bytes'', JInt 8)]])]])]])]"

theorem clients_split_witness:
  "map as_macAddress (the (read_wifi_clients ref_platform sample_statistics)) = [''m2'']
   \<and> map cl_macAddress (the (read_wired_clients sample_statistics)) = [''m1'']
   \<and> cl_macAddress ` set (the (read_wired_clients sample_statistics)) =
      (\<Union>ifc \<in> set (elements sample_statistics ''interfaces''). client_addresses ifc - stations ifc)"
proof -
  have wifi: "read_wifi_clients ref_platform sample_statistics = Some [Association_fresh\<lparr>as_ssid := ''home'',
      as_macAddress := ''m2'', as_rssi := word_of_int (- 40), as_rx := 7, as_tx := 8, as_power := 0, as_name := ''m2'',
      as_ipv4 := [], as_ipv6 := []\<rparr>]"
    unfolding read_wifi_clients_def sample_statistics_def
    by (simp add: elements_def nl_array_def nl_at_def interface_associations_def ssid_associations_def
      first_address_def nl_contains_def nl_at_string_def nl_at_number_def nl_string_def nl_number_def
      read_association_def has_def Let_def)
  have wired: "read_wired_clients sample_statistics = Some [Client_fresh\<lparr>cl_macAddress := ''m1'', cl_ipv6 := [],
      cl_ipv4 := ''10.0.0.2'', cl_tx := 0, cl_rx := 0, cl_speed := ''auto'', cl_mode := ''auto''\<rparr>]"
    unfolding read_wired_clients_def sample_statistics_def
    by (simp add: elements_def nl_array_def nl_at_def interface_wired_def wifi_macs_def first_address_def
      last_address_def nl_at_string_def nl_string_def)
  show ?thesis using clients_split [OF wifi wired] wifi wired by simp
qed

end
