(* ===== verification/SecObjects.thy ===== *)
theory SecObjects
  imports ProvObjects Net
begin

text \<open>
  The objects of the security service, \<^verbatim>\<open>src/RESTObjects/RESTAPI_SecurityObjects.h\<close> and \<^verbatim>\<open>.cpp\<close>: users,
  tokens, access rights, profiles and links, with their codecs.  Members without an initialiser
  start as 0 or as the first value of their enumeration here; a structure whose initialiser reads the clock takes that
  reading as an argument.  Reading back what was written gives the object, except for the members a
  codec leaves out.
\<close>

section \<open>Enumerations\<close>

definition UserTypeFromString :: "platform \<Rightarrow> string \<Rightarrow> USER_ROLE" where
  "UserTypeFromString P U = (if po_icompare P U ''root'' = 0 then ROOT
      else if po_icompare P U ''admin'' = 0 then ADMIN
      else if po_icompare P U ''subscriber'' = 0 then SUBSCRIBER
      else if po_icompare P U ''partner'' = 0 then PARTNER
      else if po_icompare P U ''csr'' = 0 then CSR
      else if po_icompare P U ''system'' = 0 then SYSTEM
      else if po_icompare P U ''installer'' = 0 then INSTALLER
      else if po_icompare P U ''noc'' = 0 then NOC
      else if po_icompare P U ''accounting'' = 0 then ACCOUNTING
      else UNKNOWN)"

fun UserTypeToString :: "USER_ROLE \<Rightarrow> string" where
  "UserTypeToString ROOT = ''root''"
| "UserTypeToString ADMIN = ''admin''"
| "UserTypeToString SUBSCRIBER = ''subscriber''"
| "UserTypeToString PARTNER = ''partner''"
| "UserTypeToString CSR = ''csr''"
| "UserTypeToString SYSTEM = ''system''"
| "UserTypeToString INSTALLER = ''installer''"
| "UserTypeToString NOC = ''noc''"
| "UserTypeToString ACCOUNTING = ''accounting''"
| "UserTypeToString UNKNOWN = ''unknown''"

datatype ResourceAccessType = NONE | READ | MODIFY | DELETE | CREATE | TEST | MOVE

definition ResourceAccessTypeFromString :: "platform \<Rightarrow> string \<Rightarrow> ResourceAccessType" where
  "ResourceAccessTypeFromString P s = (if po_icompare P s ''READ'' = 0 then READ
      else if po_icompare P s ''MODIFY'' = 0 then MODIFY
      else if po_icompare P s ''DELETE'' = 0 then DELETE
      else if po_icompare P s ''CREATE'' = 0 then CREATE
      else if po_icompare P s ''TEST'' = 0 then TEST
      else if po_icompare P s ''MOVE'' = 0 then MOVE
      else NONE)"

fun ResourceAccessTypeToString :: "ResourceAccessType \<Rightarrow> string" where
  "ResourceAccessTypeToString READ = ''READ''"
| "ResourceAccessTypeToString MODIFY = ''MODIFY''"
| "ResourceAccessTypeToString DELETE = ''DELETE''"
| "ResourceAccessTypeToString CREATE = ''CREATE''"
| "ResourceAccessTypeToString TEST = ''TEST''"
| "ResourceAccessTypeToString MOVE = ''MOVE''"
| "ResourceAccessTypeToString NONE = ''NONE''"

section \<open>Structures and codecs\<close>

subsection \<open>\<^verbatim>\<open>AclTemplate\<close>\<close>

record AclTemplate =
  acl_Read :: bool
  acl_ReadWrite :: bool
  acl_ReadWriteCreate :: bool
  acl_Delete :: bool
  acl_PortalLogin :: bool

definition AclTemplate_fresh :: AclTemplate where
  "AclTemplate_fresh = \<lparr>acl_Read = True, acl_ReadWrite = True, acl_ReadWriteCreate = True, acl_Delete = True,
     acl_PortalLogin = True\<rparr>"

definition AclTemplate_to_json :: "AclTemplate \<Rightarrow> jobj \<Rightarrow> jobj" where
  "AclTemplate_to_json r = write_fields [
     set_key ''Read'' (JBool (acl_Read r)),
     set_key ''ReadWrite'' (JBool (acl_ReadWrite r)),
     set_key ''ReadWriteCreate'' (JBool (acl_ReadWriteCreate r)),
     set_key ''Delete'' (JBool (acl_Delete r)),
     set_key ''PortalLogin'' (JBool (acl_PortalLogin r))]"

definition AclTemplate_from_json :: "platform \<Rightarrow> jobj ptr \<Rightarrow> AclTemplate \<Rightarrow> AclTemplate \<times> bool" where
  "AclTemplate_from_json P = parse_object [
     read_bool P ''Read'' acl_Read_update,
     read_bool P ''ReadWrite'' acl_ReadWrite_update,
     read_bool P ''ReadWriteCreate'' acl_ReadWriteCreate_update,
     read_bool P ''Delete'' acl_Delete_update,
     read_bool P ''PortalLogin'' acl_PortalLogin_update]"

subsection \<open>\<^verbatim>\<open>WebToken\<close>\<close>

record WebToken =
  wt_access_token :: string
  wt_refresh_token :: string
  wt_id_token :: string
  wt_token_type :: string
  wt_username :: string
  wt_userMustChangePassword :: bool
  wt_errorCode :: uint64
  wt_expires_in :: uint64
  wt_idle_timeout :: uint64
  wt_acl_template :: AclTemplate
  wt_created :: uint64
  wt_lastRefresh :: uint64

definition WebToken_fresh :: WebToken where
  "WebToken_fresh = \<lparr>wt_access_token = '''', wt_refresh_token = '''', wt_id_token = '''', wt_token_type = '''',
     wt_username = '''', wt_userMustChangePassword = False, wt_errorCode = 0, wt_expires_in = 0,
     wt_idle_timeout = 0, wt_acl_template = AclTemplate_fresh, wt_created = 0, wt_lastRefresh = 0\<rparr>"

definition WebToken_to_json :: "WebToken \<Rightarrow> jobj \<Rightarrow> jobj" where
  "WebToken_to_json r = write_fields [
     set_key ''access_token'' (JString (wt_access_token r)),
     set_key ''refresh_token'' (JString (wt_refresh_token r)),
     set_key ''token_type'' (JString (wt_token_type r)),
     set_key ''expires_in'' (JInt (uint (wt_expires_in r))),
     set_key ''idle_timeout'' (JInt (uint (wt_idle_timeout r))),
     set_key ''created'' (JInt (uint (wt_created r))),
     set_key ''username'' (JString (wt_username r)),
     set_key ''userMustChangePassword'' (JBool (wt_userMustChangePassword r)),
     set_key ''errorCode'' (JInt (uint (wt_errorCode r))),
     set_key ''aclTemplate'' (JObject (AclTemplate_to_json (wt_acl_template r) [])),
     set_key ''errorCode'' (JInt (uint (wt_errorCode r))),
     set_key ''lastRefresh'' (JInt (uint (wt_lastRefresh r)))]"

definition WebToken_from_json :: "platform \<Rightarrow> jobj ptr \<Rightarrow> WebToken \<Rightarrow> WebToken \<times> bool" where
  "WebToken_from_json P = parse_object [
     read_object (AclTemplate_from_json P) ''aclTemplate'' wt_acl_template_update,
     read_string P ''access_token'' wt_access_token_update,
     read_string P ''refresh_token'' wt_refresh_token_update,
     read_string P ''token_type'' wt_token_type_update,
     read_uint64 P ''expires_in'' wt_expires_in_update,
     read_uint64 P ''idle_timeout'' wt_idle_timeout_update,
     read_uint64 P ''created'' wt_created_update,
     read_string P ''username'' wt_username_update,
     read_bool P ''userMustChangePassword'' wt_userMustChangePassword_update,
     read_uint64 P ''lastRefresh'' wt_lastRefresh_update]"

subsection \<open>\<^verbatim>\<open>MobilePhoneNumber\<close>\<close>

record MobilePhoneNumber =
  mp_number :: string
  mp_verified :: bool
  mp_primary :: bool

definition MobilePhoneNumber_fresh :: MobilePhoneNumber where
  "MobilePhoneNumber_fresh = \<lparr>mp_number = '''', mp_verified = False, mp_primary = False\<rparr>"

definition MobilePhoneNumber_to_json :: "MobilePhoneNumber \<Rightarrow> jobj \<Rightarrow> jobj" where
  "MobilePhoneNumber_to_json r = write_fields [
     set_key ''number'' (JString (mp_number r)),
     set_key ''verified'' (JBool (mp_verified r)),
     set_key ''primary'' (JBool (mp_primary r))]"

definition MobilePhoneNumber_from_json :: "platform \<Rightarrow> jobj ptr \<Rightarrow> MobilePhoneNumber \<Rightarrow> MobilePhoneNumber \<times> bool" where
  "MobilePhoneNumber_from_json P = parse_object [
     read_string P ''number'' mp_number_update,
     read_bool P ''verified'' mp_verified_update,
     read_bool P ''primary'' mp_primary_update]"

subsection \<open>\<^verbatim>\<open>MfaAuthInfo\<close>\<close>

record MfaAuthInfo =
  mf_enabled :: bool
  mf_method :: string

definition MfaAuthInfo_fresh :: MfaAuthInfo where
  "MfaAuthInfo_fresh = \<lparr>mf_enabled = False, mf_method = ''''\<rparr>"

definition MfaAuthInfo_to_json :: "MfaAuthInfo \<Rightarrow> jobj \<Rightarrow> jobj" where
  "MfaAuthInfo_to_json r = write_fields [
     set_key ''enabled'' (JBool (mf_enabled r)),
     set_key ''method'' (JString (mf_method r))]"

definition MfaAuthInfo_from_json :: "platform \<Rightarrow> jobj ptr \<Rightarrow> MfaAuthInfo \<Rightarrow> MfaAuthInfo \<times> bool" where
  "MfaAuthInfo_from_json P = parse_object [
     read_bool P ''enabled'' mf_enabled_update,
     read_string P ''method'' mf_method_update]"

subsection \<open>\<^verbatim>\<open>UserLoginLoginExtensions\<close>\<close>

record UserLoginLoginExtensions =
  ul_mobiles :: "MobilePhoneNumber list"
  ul_mfa :: MfaAuthInfo
  ul_authenticatorSecret :: string

definition UserLoginLoginExtensions_fresh :: UserLoginLoginExtensions where
  "UserLoginLoginExtensions_fresh = \<lparr>ul_mobiles = [], ul_mfa = MfaAuthInfo_fresh, ul_authenticatorSecret = ''''\<rparr>"

definition UserLoginLoginExtensions_to_json :: "UserLoginLoginExtensions \<Rightarrow> jobj \<Rightarrow> jobj" where
  "UserLoginLoginExtensions_to_json r = write_fields [
     set_key ''mobiles'' (objects_to_json MobilePhoneNumber_to_json (ul_mobiles r)),
     set_key ''mfa'' (JObject (MfaAuthInfo_to_json (ul_mfa r) [])),
     set_key ''authenticatorSecret'' (JString (ul_authenticatorSecret r))]"

definition UserLoginLoginExtensions_from_json :: "platform \<Rightarrow> jobj ptr \<Rightarrow> UserLoginLoginExtensions \<Rightarrow> UserLoginLoginExtensions \<times> bool" where
  "UserLoginLoginExtensions_from_json P = parse_object [
     read_objects (MobilePhoneNumber_from_json P) MobilePhoneNumber_fresh ''mobiles'' ul_mobiles_update,
     read_object (MfaAuthInfo_from_json P) ''mfa'' ul_mfa_update,
     read_string P ''authenticatorSecret'' ul_authenticatorSecret_update]"

subsection \<open>\<^verbatim>\<open>MFAChallengeRequest\<close>\<close>

record MFAChallengeRequest =
  mq_uuid :: string
  mq_question :: string
  mq_method :: string
  mq_created :: uint64

definition MFAChallengeRequest_fresh :: "uint64 \<Rightarrow> MFAChallengeRequest" where
  "MFAChallengeRequest_fresh now = \<lparr>mq_uuid = '''', mq_question = '''', mq_method = '''', mq_created = now\<rparr>"

definition MFAChallengeRequest_to_json :: "MFAChallengeRequest \<Rightarrow> jobj \<Rightarrow> jobj" where
  "MFAChallengeRequest_to_json r = write_fields [
     set_key ''uuid'' (JString (mq_uuid r)),
     set_key ''question'' (JString (mq_question r)),
     set_key ''created'' (JInt (uint (mq_created r))),
     set_key ''method'' (JString (mq_method r))]"

definition MFAChallengeRequest_from_json :: "platform \<Rightarrow> jobj ptr \<Rightarrow> MFAChallengeRequest \<Rightarrow> MFAChallengeRequest \<times> bool" where
  "MFAChallengeRequest_from_json P = parse_object [
     read_string P ''uuid'' mq_uuid_update,
     read_string P ''question'' mq_question_update,
     read_uint64 P ''created'' mq_created_update,
     read_string P ''method'' mq_method_update]"

subsection \<open>\<^verbatim>\<open>MFAChallengeResponse\<close>\<close>

record MFAChallengeResponse =
  mr_uuid :: string
  mr_answer :: string

definition MFAChallengeResponse_fresh :: MFAChallengeResponse where
  "MFAChallengeResponse_fresh = \<lparr>mr_uuid = '''', mr_answer = ''''\<rparr>"

definition MFAChallengeResponse_to_json :: "MFAChallengeResponse \<Rightarrow> jobj \<Rightarrow> jobj" where
  "MFAChallengeResponse_to_json r = write_fields [
     set_key ''uuid'' (JString (mr_uuid r)),
     set_key ''answer'' (JString (mr_answer r))]"

definition MFAChallengeResponse_from_json :: "platform \<Rightarrow> jobj ptr \<Rightarrow> MFAChallengeResponse \<Rightarrow> MFAChallengeResponse \<times> bool" where
  "MFAChallengeResponse_from_json P = parse_object [
     read_string P ''uuid'' mr_uuid_update,
     read_string P ''answer'' mr_answer_update]"

subsection \<open>\<^verbatim>\<open>UserInfo\<close>\<close>

record UserInfo =
  ui_id :: string
  ui_name :: string
  ui_description :: string
  ui_avatar :: string
  ui_email :: string
  ui_validated :: bool
  ui_validationEmail :: string
  ui_validationDate :: uint64
  ui_creationDate :: uint64
  ui_validationURI :: string
  ui_changePassword :: bool
  ui_lastLogin :: uint64
  ui_currentLoginURI :: string
  ui_lastPasswordChange :: uint64
  ui_lastEmailCheck :: uint64
  ui_waitingForEmailCheck :: bool
  ui_locale :: string
  ui_notes :: "NoteInfo list"
  ui_location :: string
  ui_owner :: string
  ui_suspended :: bool
  ui_blackListed :: bool
  ui_userRole :: USER_ROLE
  ui_userTypeProprietaryInfo :: UserLoginLoginExtensions
  ui_securityPolicy :: string
  ui_securityPolicyChange :: uint64
  ui_currentPassword :: string
  ui_lastPasswords :: "string list"
  ui_oauthType :: string
  ui_oauthUserInfo :: string
  ui_modified :: uint64
  ui_signingUp :: string

definition UserInfo_fresh :: UserInfo where
  "UserInfo_fresh = \<lparr>ui_id = '''', ui_name = '''', ui_description = '''', ui_avatar = '''', ui_email = '''',
     ui_validated = False, ui_validationEmail = '''', ui_validationDate = 0, ui_creationDate = 0,
     ui_validationURI = '''', ui_changePassword = False, ui_lastLogin = 0, ui_currentLoginURI =
     '''', ui_lastPasswordChange = 0, ui_lastEmailCheck = 0, ui_waitingForEmailCheck = False,
     ui_locale = '''', ui_notes = [], ui_location = '''', ui_owner = '''', ui_suspended = False,
     ui_blackListed = False, ui_userRole = UNKNOWN, ui_userTypeProprietaryInfo =
     UserLoginLoginExtensions_fresh, ui_securityPolicy = '''', ui_securityPolicyChange = 0,
     ui_currentPassword = '''', ui_lastPasswords = [], ui_oauthType = '''', ui_oauthUserInfo = '''',
     ui_modified = 0, ui_signingUp = ''''\<rparr>"

definition UserInfo_to_json :: "UserInfo \<Rightarrow> jobj \<Rightarrow> jobj" where
  "UserInfo_to_json r = write_fields [
     set_key ''id'' (JString (ui_id r)),
     set_key ''name'' (JString (ui_name r)),
     set_key ''description'' (JString (ui_description r)),
     set_key ''avatar'' (JString (ui_avatar r)),
     set_key ''email'' (JString (ui_email r)),
     set_key ''validated'' (JBool (ui_validated r)),
     set_key ''validationEmail'' (JString (ui_validationEmail r)),
     set_key ''validationDate'' (JInt (uint (ui_validationDate r))),
     set_key ''creationDate'' (JInt (uint (ui_creationDate r))),
     set_key ''validationURI'' (JString (ui_validationURI r)),
     set_key ''changePassword'' (JBool (ui_changePassword r)),
     set_key ''lastLogin'' (JInt (uint (ui_lastLogin r))),
     set_key ''currentLoginURI'' (JString (ui_currentLoginURI r)),
     set_key ''lastPasswordChange'' (JInt (uint (ui_lastPasswordChange r))),
     set_key ''lastEmailCheck'' (JInt (uint (ui_lastEmailCheck r))),
     set_key ''waitingForEmailCheck'' (JBool (ui_waitingForEmailCheck r)),
     set_key ''locale'' (JString (ui_locale r)),
     set_key ''notes'' (objects_to_json NoteInfo_to_json (ui_notes r)),
     set_key ''location'' (JString (ui_location r)),
     set_key ''owner'' (JString (ui_owner r)),
     set_key ''suspended'' (JBool (ui_suspended r)),
     set_key ''blackListed'' (JBool (ui_blackListed r)),
     set_key ''userRole'' (JString (UserTypeToString (ui_userRole r))),
     set_key ''userTypeProprietaryInfo'' (JObject (UserLoginLoginExtensions_to_json (ui_userTypeProprietaryInfo r) [])),
     set_key ''securityPolicy'' (JString (ui_securityPolicy r)),
     set_key ''securityPolicyChange'' (JInt (uint (ui_securityPolicyChange r))),
     set_key ''currentPassword'' (JString (ui_currentPassword r)),
     set_key ''lastPasswords'' (JArray (map JString (ui_lastPasswords r))),
     set_key ''oauthType'' (JString (ui_oauthType r)),
     set_key ''oauthUserInfo'' (JString (ui_oauthUserInfo r)),
     set_key ''modified'' (JInt (uint (ui_modified r))),
     set_key ''signingUp'' (JString (ui_signingUp r))]"

definition UserInfo_from_json :: "platform \<Rightarrow> jobj ptr \<Rightarrow> UserInfo \<Rightarrow> UserInfo \<times> bool" where
  "UserInfo_from_json P = parse_object [
     read_string P ''id'' ui_id_update,
     read_string P ''name'' ui_name_update,
     read_string P ''description'' ui_description_update,
     read_string P ''avatar'' ui_avatar_update,
     read_string P ''email'' ui_email_update,
     read_string P ''validationEmail'' ui_validationEmail_update,
     read_string P ''validationURI'' ui_validationURI_update,
     read_string P ''currentLoginURI'' ui_currentLoginURI_update,
     read_string P ''locale'' ui_locale_update,
     read_objects (NoteInfo_from_json P) NoteInfo_fresh ''notes'' ui_notes_update,
     read_string P ''location'' ui_location_update,
     read_string P ''owner'' ui_owner_update,
     read_enum P (UserTypeFromString P) ''userRole'' ui_userRole_update,
     read_string P ''securityPolicy'' ui_securityPolicy_update,
     read_object (UserLoginLoginExtensions_from_json P) ''userTypeProprietaryInfo'' ui_userTypeProprietaryInfo_update,
     read_uint64 P ''validationDate'' ui_validationDate_update,
     read_uint64 P ''creationDate'' ui_creationDate_update,
     read_uint64 P ''lastLogin'' ui_lastLogin_update,
     read_uint64 P ''lastPasswordChange'' ui_lastPasswordChange_update,
     read_uint64 P ''lastEmailCheck'' ui_lastEmailCheck_update,
     read_uint64 P ''securityPolicyChange'' ui_securityPolicyChange_update,
     read_bool P ''validated'' ui_validated_update,
     read_bool P ''changePassword'' ui_changePassword_update,
     read_bool P ''waitingForEmailCheck'' ui_waitingForEmailCheck_update,
     read_bool P ''suspended'' ui_suspended_update,
     read_bool P ''blackListed'' ui_blackListed_update,
     read_string P ''currentPassword'' ui_currentPassword_update,
     read_strings P ''lastPasswords'' ui_lastPasswords_update,
     read_string P ''oauthType'' ui_oauthType_update,
     read_string P ''oauthUserInfo'' ui_oauthUserInfo_update,
     read_uint64 P ''modified'' ui_modified_update,
     read_string P ''signingUp'' ui_signingUp_update]"

subsection \<open>\<^verbatim>\<open>UserInfoList\<close>\<close>

record UserInfoList =
  uil_users :: "UserInfo list"

definition UserInfoList_fresh :: UserInfoList where
  "UserInfoList_fresh = \<lparr>uil_users = []\<rparr>"

definition UserInfoList_to_json :: "UserInfoList \<Rightarrow> jobj \<Rightarrow> jobj" where
  "UserInfoList_to_json r = write_fields [
     set_key ''users'' (objects_to_json UserInfo_to_json (uil_users r))]"

definition UserInfoList_from_json :: "platform \<Rightarrow> jobj ptr \<Rightarrow> UserInfoList \<Rightarrow> UserInfoList \<times> bool" where
  "UserInfoList_from_json P = parse_object [
     read_objects (UserInfo_from_json P) UserInfo_fresh ''users'' uil_users_update]"

subsection \<open>\<^verbatim>\<open>InternalServiceInfo\<close>\<close>

record InternalServiceInfo =
  isi_privateURI :: string
  isi_publicURI :: string
  isi_token :: string

definition InternalServiceInfo_fresh :: InternalServiceInfo where
  "InternalServiceInfo_fresh = \<lparr>isi_privateURI = '''', isi_publicURI = '''', isi_token = ''''\<rparr>"

definition InternalServiceInfo_to_json :: "InternalServiceInfo \<Rightarrow> jobj \<Rightarrow> jobj" where
  "InternalServiceInfo_to_json r = write_fields [
     set_key ''privateURI'' (JString (isi_privateURI r)),
     set_key ''publicURI'' (JString (isi_publicURI r)),
     set_key ''token'' (JString (isi_token r))]"

definition InternalServiceInfo_from_json :: "platform \<Rightarrow> jobj ptr \<Rightarrow> InternalServiceInfo \<Rightarrow> InternalServiceInfo \<times> bool" where
  "InternalServiceInfo_from_json P = parse_object [
     read_string P ''privateURI'' isi_privateURI_update,
     read_string P ''publicURI'' isi_publicURI_update,
     read_string P ''token'' isi_token_update]"

subsection \<open>\<^verbatim>\<open>InternalSystemServices\<close>\<close>

record InternalSystemServices =
  iss_key :: string
  iss_version :: string
  iss_services :: "InternalServiceInfo list"

definition InternalSystemServices_fresh :: InternalSystemServices where
  "InternalSystemServices_fresh = \<lparr>iss_key = '''', iss_version = '''', iss_services = []\<rparr>"

definition InternalSystemServices_to_json :: "InternalSystemServices \<Rightarrow> jobj \<Rightarrow> jobj" where
  "InternalSystemServices_to_json r = write_fields [
     set_key ''key'' (JString (iss_key r)),
     set_key ''version'' (JString (iss_version r)),
     set_key ''services'' (objects_to_json InternalServiceInfo_to_json (iss_services r))]"

definition InternalSystemServices_from_json :: "platform \<Rightarrow> jobj ptr \<Rightarrow> InternalSystemServices \<Rightarrow> InternalSystemServices \<times> bool" where
  "InternalSystemServices_from_json P = parse_object [
     read_string P ''key'' iss_key_update,
     read_string P ''version'' iss_version_update,
     read_objects (InternalServiceInfo_from_json P) InternalServiceInfo_fresh ''services'' iss_services_update]"

subsection \<open>\<^verbatim>\<open>SystemEndpoint\<close>\<close>

record SystemEndpoint =
  sye_type :: string
  sye_id :: uint64
  sye_vendor :: string
  sye_uri :: string
  sye_authenticationType :: string

definition SystemEndpoint_fresh :: SystemEndpoint where
  "SystemEndpoint_fresh = \<lparr>sye_type = '''', sye_id = 0, sye_vendor = ''OpenWiFi'', sye_uri = '''', sye_authenticationType
     = ''internal_v1''\<rparr>"

definition SystemEndpoint_to_json :: "SystemEndpoint \<Rightarrow> jobj \<Rightarrow> jobj" where
  "SystemEndpoint_to_json r = write_fields [
     set_key ''type'' (JString (sye_type r)),
     set_key ''id'' (JInt (uint (sye_id r))),
     set_key ''vendor'' (JString (sye_vendor r)),
     set_key ''uri'' (JString (sye_uri r)),
     set_key ''authenticationType'' (JString (sye_authenticationType r))]"

definition SystemEndpoint_from_json :: "platform \<Rightarrow> jobj ptr \<Rightarrow> SystemEndpoint \<Rightarrow> SystemEndpoint \<times> bool" where
  "SystemEndpoint_from_json P = parse_object [
     read_string P ''type'' sye_type_update,
     read_uint64 P ''id'' sye_id_update,
     read_string P ''vendor'' sye_vendor_update,
     read_string P ''uri'' sye_uri_update,
     read_string P ''authenticationType'' sye_authenticationType_update]"

subsection \<open>\<^verbatim>\<open>SystemEndpointList\<close>\<close>

record SystemEndpointList =
  syl_endpoints :: "SystemEndpoint list"

definition SystemEndpointList_fresh :: SystemEndpointList where
  "SystemEndpointList_fresh = \<lparr>syl_endpoints = []\<rparr>"

definition SystemEndpointList_to_json :: "SystemEndpointList \<Rightarrow> jobj \<Rightarrow> jobj" where
  "SystemEndpointList_to_json r = write_fields [
     set_key ''endpoints'' (objects_to_json SystemEndpoint_to_json (syl_endpoints r))]"

definition SystemEndpointList_from_json :: "platform \<Rightarrow> jobj ptr \<Rightarrow> SystemEndpointList \<Rightarrow> SystemEndpointList \<times> bool" where
  "SystemEndpointList_from_json P = parse_object [
     read_objects (SystemEndpoint_from_json P) SystemEndpoint_fresh ''endpoints'' syl_endpoints_update]"

subsection \<open>\<^verbatim>\<open>UserInfoAndPolicy\<close>\<close>

record UserInfoAndPolicy =
  up_webtoken :: WebToken
  up_userinfo :: UserInfo

definition UserInfoAndPolicy_fresh :: UserInfoAndPolicy where
  "UserInfoAndPolicy_fresh = \<lparr>up_webtoken = WebToken_fresh, up_userinfo = UserInfo_fresh\<rparr>"

definition UserInfoAndPolicy_to_json :: "UserInfoAndPolicy \<Rightarrow> jobj \<Rightarrow> jobj" where
  "UserInfoAndPolicy_to_json r = write_fields [
     set_key ''tokenInfo'' (JObject (WebToken_to_json (up_webtoken r) [])),
     set_key ''userInfo'' (JObject (UserInfo_to_json (up_userinfo r) []))]"

definition UserInfoAndPolicy_from_json :: "platform \<Rightarrow> jobj ptr \<Rightarrow> UserInfoAndPolicy \<Rightarrow> UserInfoAndPolicy \<times> bool" where
  "UserInfoAndPolicy_from_json P = parse_object [
     read_object (WebToken_from_json P) ''tokenInfo'' up_webtoken_update,
     read_object (UserInfo_from_json P) ''userInfo'' up_userinfo_update]"

subsection \<open>\<^verbatim>\<open>ProfileAction\<close>\<close>

record ProfileAction =
  pa_resource :: string
  pa_access :: ResourceAccessType

definition ProfileAction_fresh :: ProfileAction where
  "ProfileAction_fresh = \<lparr>pa_resource = '''', pa_access = NONE\<rparr>"

definition ProfileAction_to_json :: "ProfileAction \<Rightarrow> jobj \<Rightarrow> jobj" where
  "ProfileAction_to_json r = write_fields [
     set_key ''resource'' (JString (pa_resource r)),
     set_key ''access'' (JString (ResourceAccessTypeToString (pa_access r)))]"

definition ProfileAction_from_json :: "platform \<Rightarrow> jobj ptr \<Rightarrow> ProfileAction \<Rightarrow> ProfileAction \<times> bool" where
  "ProfileAction_from_json P = parse_object [
     read_string P ''resource'' pa_resource_update,
     read_enum P (ResourceAccessTypeFromString P) ''access'' pa_access_update]"

subsection \<open>\<^verbatim>\<open>SecurityProfile\<close>\<close>

record SecurityProfile =
  sp_id :: uint64
  sp_name :: string
  sp_description :: string
  sp_policy :: "ProfileAction list"
  sp_role :: string
  sp_notes :: "NoteInfo list"

definition SecurityProfile_fresh :: SecurityProfile where
  "SecurityProfile_fresh = \<lparr>sp_id = 0, sp_name = '''', sp_description = '''', sp_policy = [], sp_role = '''', sp_notes = []\<rparr>"

definition SecurityProfile_to_json :: "SecurityProfile \<Rightarrow> jobj \<Rightarrow> jobj" where
  "SecurityProfile_to_json r = write_fields [
     set_key ''id'' (JInt (uint (sp_id r))),
     set_key ''name'' (JString (sp_name r)),
     set_key ''description'' (JString (sp_description r)),
     set_key ''policy'' (objects_to_json ProfileAction_to_json (sp_policy r)),
     set_key ''role'' (JString (sp_role r)),
     set_key ''notes'' (objects_to_json NoteInfo_to_json (sp_notes r))]"

definition SecurityProfile_from_json :: "platform \<Rightarrow> jobj ptr \<Rightarrow> SecurityProfile \<Rightarrow> SecurityProfile \<times> bool" where
  "SecurityProfile_from_json P = parse_object [
     read_uint64 P ''id'' sp_id_update,
     read_string P ''name'' sp_name_update,
     read_string P ''description'' sp_description_update,
     read_objects (ProfileAction_from_json P) ProfileAction_fresh ''policy'' sp_policy_update,
     read_string P ''role'' sp_role_update,
     read_objects (NoteInfo_from_json P) NoteInfo_fresh ''notes'' sp_notes_update]"

subsection \<open>\<^verbatim>\<open>SecurityProfileList\<close>\<close>

record SecurityProfileList =
  spl_profiles :: "SecurityProfile list"

definition SecurityProfileList_fresh :: SecurityProfileList where
  "SecurityProfileList_fresh = \<lparr>spl_profiles = []\<rparr>"

definition SecurityProfileList_to_json :: "SecurityProfileList \<Rightarrow> jobj \<Rightarrow> jobj" where
  "SecurityProfileList_to_json r = write_fields [
     set_key ''profiles'' (objects_to_json SecurityProfile_to_json (spl_profiles r))]"

definition SecurityProfileList_from_json :: "platform \<Rightarrow> jobj ptr \<Rightarrow> SecurityProfileList \<Rightarrow> SecurityProfileList \<times> bool" where
  "SecurityProfileList_from_json P = parse_object [
     read_objects (SecurityProfile_from_json P) SecurityProfile_fresh ''profiles'' spl_profiles_update]"

subsection \<open>\<^verbatim>\<open>ActionLink\<close>\<close>

record ActionLink =
  al_id :: string
  al_action :: uint64
  al_userId :: string
  al_actionTemplate :: string
  al_variables :: "(string \<times> string) list"
  al_locale :: string
  al_message :: string
  al_sent :: uint64
  al_created :: uint64
  al_expires :: uint64
  al_completed :: uint64
  al_canceled :: uint64
  al_userAction :: bool

definition ActionLink_fresh :: "uint64 \<Rightarrow> ActionLink" where
  "ActionLink_fresh now = \<lparr>al_id = '''', al_action = 0, al_userId = '''', al_actionTemplate = '''', al_variables = [],
     al_locale = '''', al_message = '''', al_sent = 0, al_created = now, al_expires = 0,
     al_completed = 0, al_canceled = 0, al_userAction = True\<rparr>"

definition ActionLink_to_json :: "ActionLink \<Rightarrow> jobj \<Rightarrow> jobj" where
  "ActionLink_to_json r = write_fields [
     set_key ''id'' (JString (al_id r)),
     set_key ''action'' (JInt (uint (al_action r))),
     set_key ''userId'' (JString (al_userId r)),
     set_key ''actionTemplate'' (JString (al_actionTemplate r)),
     set_key ''variables'' (pairs_to_json (al_variables r)),
     set_key ''locale'' (JString (al_locale r)),
     set_key ''message'' (JString (al_message r)),
     set_key ''sent'' (JInt (uint (al_sent r))),
     set_key ''created'' (JInt (uint (al_created r))),
     set_key ''expires'' (JInt (uint (al_expires r))),
     set_key ''completed'' (JInt (uint (al_completed r))),
     set_key ''canceled'' (JInt (uint (al_canceled r))),
     set_key ''userAction'' (JBool (al_userAction r))]"

definition ActionLink_from_json :: "platform \<Rightarrow> jobj ptr \<Rightarrow> ActionLink \<Rightarrow> ActionLink \<times> bool" where
  "ActionLink_from_json P = parse_object [
     read_string P ''id'' al_id_update,
     read_uint64 P ''action'' al_action_update,
     read_string P ''userId'' al_userId_update,
     read_string P ''actionTemplate'' al_actionTemplate_update,
     read_pairs P ''variables'' al_variables_update,
     read_string P ''locale'' al_locale_update,
     read_string P ''message'' al_message_update,
     read_uint64 P ''sent'' al_sent_update,
     read_uint64 P ''created'' al_created_update,
     read_uint64 P ''expires'' al_expires_update,
     read_uint64 P ''completed'' al_completed_update,
     read_uint64 P ''canceled'' al_canceled_update,
     read_bool P ''userAction'' al_userAction_update]"

subsection \<open>\<^verbatim>\<open>Preferences\<close>\<close>

record Preferences =
  pr_id :: string
  pr_modified :: uint64
  pr_data :: "(string \<times> string) list"

definition Preferences_fresh :: Preferences where
  "Preferences_fresh = \<lparr>pr_id = '''', pr_modified = 0, pr_data = []\<rparr>"

definition Preferences_to_json :: "Preferences \<Rightarrow> jobj \<Rightarrow> jobj" where
  "Preferences_to_json r = write_fields [
     set_key ''id'' (JString (pr_id r)),
     set_key ''modified'' (JInt (uint (pr_modified r))),
     set_key ''data'' (pairs_to_json (pr_data r))]"

definition Preferences_from_json :: "platform \<Rightarrow> jobj ptr \<Rightarrow> Preferences \<Rightarrow> Preferences \<times> bool" where
  "Preferences_from_json P = parse_object [
     read_string P ''id'' pr_id_update,
     read_uint64 P ''modified'' pr_modified_update,
     read_pairs P ''data'' pr_data_update]"

subsection \<open>\<^verbatim>\<open>SubMfaConfig\<close>\<close>

record SubMfaConfig =
  sm_id :: string
  sm_type :: string
  sm_sms :: string
  sm_email :: string

definition SubMfaConfig_fresh :: SubMfaConfig where
  "SubMfaConfig_fresh = \<lparr>sm_id = '''', sm_type = '''', sm_sms = '''', sm_email = ''''\<rparr>"

definition SubMfaConfig_to_json :: "SubMfaConfig \<Rightarrow> jobj \<Rightarrow> jobj" where
  "SubMfaConfig_to_json r = write_fields [
     set_key ''id'' (JString (sm_id r)),
     set_key ''type'' (JString (sm_type r)),
     set_key ''sms'' (JString (sm_sms r)),
     set_key ''email'' (JString (sm_email r))]"

definition SubMfaConfig_from_json :: "platform \<Rightarrow> jobj ptr \<Rightarrow> SubMfaConfig \<Rightarrow> SubMfaConfig \<times> bool" where
  "SubMfaConfig_from_json P = parse_object [
     read_string P ''id'' sm_id_update,
     read_string P ''type'' sm_type_update,
     read_string P ''sms'' sm_sms_update,
     read_string P ''email'' sm_email_update]"

subsection \<open>\<^verbatim>\<open>Token\<close>\<close>

record Token =
  to_token :: string
  to_refreshToken :: string
  to_tokenType :: string
  to_userName :: string
  to_created :: uint64
  to_expires :: uint64
  to_idleTimeout :: uint64
  to_revocationDate :: uint64
  to_lastRefresh :: uint64

definition Token_fresh :: Token where
  "Token_fresh = \<lparr>to_token = '''', to_refreshToken = '''', to_tokenType = '''', to_userName = '''', to_created =
     0, to_expires = 0, to_idleTimeout = 0, to_revocationDate = 0, to_lastRefresh = 0\<rparr>"

definition Token_to_json :: "Token \<Rightarrow> jobj \<Rightarrow> jobj" where
  "Token_to_json r = write_fields [
     set_key ''token'' (JString (to_token r)),
     set_key ''refreshToken'' (JString (to_refreshToken r)),
     set_key ''tokenType'' (JString (to_tokenType r)),
     set_key ''userName'' (JString (to_userName r)),
     set_key ''created'' (JInt (uint (to_created r))),
     set_key ''expires'' (JInt (uint (to_expires r))),
     set_key ''idleTimeout'' (JInt (uint (to_idleTimeout r))),
     set_key ''revocationDate'' (JInt (uint (to_revocationDate r))),
     set_key ''lastRefresh'' (JInt (uint (to_lastRefresh r)))]"

definition Token_from_json :: "platform \<Rightarrow> jobj ptr \<Rightarrow> Token \<Rightarrow> Token \<times> bool" where
  "Token_from_json P = parse_object [
     read_string P ''token'' to_token_update,
     read_string P ''refreshToken'' to_refreshToken_update,
     read_string P ''tokenType'' to_tokenType_update,
     read_string P ''userName'' to_userName_update,
     read_uint64 P ''created'' to_created_update,
     read_uint64 P ''expires'' to_expires_update,
     read_uint64 P ''idleTimeout'' to_idleTimeout_update,
     read_uint64 P ''revocationDate'' to_revocationDate_update,
     read_uint64 P ''lastRefresh'' to_lastRefresh_update]"

subsection \<open>\<^verbatim>\<open>LoginRecordInfo\<close>\<close>

record LoginRecordInfo =
  lr_sessionId :: string
  lr_userId :: string
  lr_email :: string
  lr_login :: uint64
  lr_logout :: uint64

definition LoginRecordInfo_fresh :: LoginRecordInfo where
  "LoginRecordInfo_fresh = \<lparr>lr_sessionId = '''', lr_userId = '''', lr_email = '''', lr_login = 0, lr_logout = 0\<rparr>"

definition LoginRecordInfo_to_json :: "LoginRecordInfo \<Rightarrow> jobj \<Rightarrow> jobj" where
  "LoginRecordInfo_to_json r = write_fields [
     set_key ''sessionId'' (JString (lr_sessionId r)),
     set_key ''userId'' (JString (lr_userId r)),
     set_key ''email'' (JString (lr_email r)),
     set_key ''login'' (JInt (uint (lr_login r))),
     set_key ''logout'' (JInt (uint (lr_logout r)))]"

subsection \<open>\<^verbatim>\<open>ApiKeyAccessRight\<close>\<close>

record ApiKeyAccessRight =
  ar_service :: string
  ar_access :: string

definition ApiKeyAccessRight_fresh :: ApiKeyAccessRight where
  "ApiKeyAccessRight_fresh = \<lparr>ar_service = '''', ar_access = ''''\<rparr>"

definition ApiKeyAccessRight_to_json :: "ApiKeyAccessRight \<Rightarrow> jobj \<Rightarrow> jobj" where
  "ApiKeyAccessRight_to_json r = write_fields [
     set_key ''service'' (JString (ar_service r)),
     set_key ''access'' (JString (ar_access r))]"

definition ApiKeyAccessRight_from_json :: "platform \<Rightarrow> jobj ptr \<Rightarrow> ApiKeyAccessRight \<Rightarrow> ApiKeyAccessRight \<times> bool" where
  "ApiKeyAccessRight_from_json P = parse_object [
     read_string P ''service'' ar_service_update,
     read_string P ''access'' ar_access_update]"

subsection \<open>\<^verbatim>\<open>ApiKeyAccessRightList\<close>\<close>

record ApiKeyAccessRightList =
  arl_acls :: "ApiKeyAccessRight list"

definition ApiKeyAccessRightList_fresh :: ApiKeyAccessRightList where
  "ApiKeyAccessRightList_fresh = \<lparr>arl_acls = []\<rparr>"

definition ApiKeyAccessRightList_to_json :: "ApiKeyAccessRightList \<Rightarrow> jobj \<Rightarrow> jobj" where
  "ApiKeyAccessRightList_to_json r = write_fields [
     set_key ''acls'' (objects_to_json ApiKeyAccessRight_to_json (arl_acls r))]"

definition ApiKeyAccessRightList_from_json :: "platform \<Rightarrow> jobj ptr \<Rightarrow> ApiKeyAccessRightList \<Rightarrow> ApiKeyAccessRightList \<times> bool" where
  "ApiKeyAccessRightList_from_json P = parse_object [
     read_objects (ApiKeyAccessRight_from_json P) ApiKeyAccessRight_fresh ''acls'' arl_acls_update]"

subsection \<open>\<^verbatim>\<open>ApiKeyEntry\<close>\<close>

record ApiKeyEntry =
  ake_id :: string
  ake_userUuid :: string
  ake_name :: string
  ake_description :: string
  ake_apiKey :: string
  ake_salt :: string
  ake_created :: uint64
  ake_expiresOn :: uint64
  ake_rights :: ApiKeyAccessRightList
  ake_lastUse :: uint64

definition ApiKeyEntry_fresh :: ApiKeyEntry where
  "ApiKeyEntry_fresh = \<lparr>ake_id = '''', ake_userUuid = '''', ake_name = '''', ake_description = '''', ake_apiKey = '''',
     ake_salt = '''', ake_created = 0, ake_expiresOn = 0, ake_rights = ApiKeyAccessRightList_fresh,
     ake_lastUse = 0\<rparr>"

definition ApiKeyEntry_to_json :: "ApiKeyEntry \<Rightarrow> jobj \<Rightarrow> jobj" where
  "ApiKeyEntry_to_json r = write_fields [
     set_key ''id'' (JString (ake_id r)),
     set_key ''userUuid'' (JString (ake_userUuid r)),
     set_key ''name'' (JString (ake_name r)),
     set_key ''apiKey'' (JString (ake_apiKey r)),
     set_key ''salt'' (JString (ake_salt r)),
     set_key ''description'' (JString (ake_description r)),
     set_key ''expiresOn'' (JInt (uint (ake_expiresOn r))),
     set_key ''rights'' (JObject (ApiKeyAccessRightList_to_json (ake_rights r) [])),
     set_key ''lastUse'' (JInt (uint (ake_lastUse r)))]"

definition ApiKeyEntry_from_json :: "platform \<Rightarrow> jobj ptr \<Rightarrow> ApiKeyEntry \<Rightarrow> ApiKeyEntry \<times> bool" where
  "ApiKeyEntry_from_json P = parse_object [
     read_string P ''id'' ake_id_update,
     read_string P ''userUuid'' ake_userUuid_update,
     read_string P ''name'' ake_name_update,
     read_string P ''apiKey'' ake_apiKey_update,
     read_string P ''salt'' ake_salt_update,
     read_string P ''description'' ake_description_update,
     read_uint64 P ''expiresOn'' ake_expiresOn_update,
     read_object (ApiKeyAccessRightList_from_json P) ''rights'' ake_rights_update,
     read_uint64 P ''lastUse'' ake_lastUse_update]"

subsection \<open>\<^verbatim>\<open>ApiKeyEntryList\<close>\<close>

record ApiKeyEntryList =
  akl_apiKeys :: "ApiKeyEntry list"

definition ApiKeyEntryList_fresh :: ApiKeyEntryList where
  "ApiKeyEntryList_fresh = \<lparr>akl_apiKeys = []\<rparr>"

definition ApiKeyEntryList_to_json :: "ApiKeyEntryList \<Rightarrow> jobj \<Rightarrow> jobj" where
  "ApiKeyEntryList_to_json r = write_fields [
     set_key ''apiKeys'' (objects_to_json ApiKeyEntry_to_json (akl_apiKeys r))]"

definition ApiKeyEntryList_from_json :: "platform \<Rightarrow> jobj ptr \<Rightarrow> ApiKeyEntryList \<Rightarrow> ApiKeyEntryList \<times> bool" where
  "ApiKeyEntryList_from_json P = parse_object [
     read_objects (ApiKeyEntry_from_json P) ApiKeyEntry_fresh ''apiKeys'' akl_apiKeys_update]"

subsection \<open>\<^verbatim>\<open>ExtraSystemConfiguration\<close>\<close>

record ExtraSystemConfiguration =
  esc_parameterName :: string
  esc_parameterValue :: string

definition ExtraSystemConfiguration_fresh :: ExtraSystemConfiguration where
  "ExtraSystemConfiguration_fresh = \<lparr>esc_parameterName = '''', esc_parameterValue = ''''\<rparr>"

definition ExtraSystemConfiguration_to_json :: "ExtraSystemConfiguration \<Rightarrow> jobj \<Rightarrow> jobj" where
  "ExtraSystemConfiguration_to_json r = write_fields [
     set_key ''parameterName'' (JString (esc_parameterName r)),
     set_key ''parameterValue'' (JString (esc_parameterValue r))]"

definition ExtraSystemConfiguration_from_json :: "platform \<Rightarrow> jobj ptr \<Rightarrow> ExtraSystemConfiguration \<Rightarrow> ExtraSystemConfiguration \<times> bool" where
  "ExtraSystemConfiguration_from_json P = parse_object [
     read_string P ''parameterName'' esc_parameterName_update,
     read_string P ''parameterValue'' esc_parameterValue_update]"

section \<open>Reading back what was written\<close>

lemma role_names [simp]: "icompare_doc P \<Longrightarrow> UserTypeFromString P (UserTypeToString u) = u"
  by (cases u) (simp_all add: UserTypeFromString_def to_lower_def is_upper_def)

lemma access_names [simp]:
  "icompare_doc P \<Longrightarrow> ResourceAccessTypeFromString P (ResourceAccessTypeToString t) = t"
  by (cases t) (simp_all add: ResourceAccessTypeFromString_def to_lower_def is_upper_def)

interpretation MobilePhoneNumber: codec MobilePhoneNumber_to_json MobilePhoneNumber_from_json MobilePhoneNumber_fresh
  by unfold_locales (case_tac x, simp add: MobilePhoneNumber_from_json_def MobilePhoneNumber_to_json_def
      MobilePhoneNumber_fresh_def parse_simps)

interpretation InternalServiceInfo: codec InternalServiceInfo_to_json InternalServiceInfo_from_json InternalServiceInfo_fresh
  by unfold_locales (case_tac x, simp add: InternalServiceInfo_from_json_def InternalServiceInfo_to_json_def
      InternalServiceInfo_fresh_def parse_simps)

interpretation SystemEndpoint: codec SystemEndpoint_to_json SystemEndpoint_from_json SystemEndpoint_fresh
  by unfold_locales (case_tac x, simp add: SystemEndpoint_from_json_def SystemEndpoint_to_json_def
      SystemEndpoint_fresh_def parse_simps)

interpretation ApiKeyAccessRight: codec ApiKeyAccessRight_to_json ApiKeyAccessRight_from_json ApiKeyAccessRight_fresh
  by unfold_locales (case_tac x, simp add: ApiKeyAccessRight_from_json_def ApiKeyAccessRight_to_json_def
      ApiKeyAccessRight_fresh_def parse_simps)

text \<open>The lists of services and end points, and the links and preferences with their pairs.\<close>

lemma services_dec_enc:
  "conv_doc P \<Longrightarrow> InternalSystemServices_from_json P (Some (InternalSystemServices_to_json s [])) InternalSystemServices_fresh = (s, True)"
  "conv_doc P \<Longrightarrow> SystemEndpointList_from_json P (Some (SystemEndpointList_to_json e [])) SystemEndpointList_fresh = (e, True)"
  "conv_doc P \<Longrightarrow> ActionLink_from_json P (Some (ActionLink_to_json l [])) (ActionLink_fresh now) = (l, True)"
  "conv_doc P \<Longrightarrow> Preferences_from_json P (Some (Preferences_to_json p [])) Preferences_fresh = (p, True)"
  by (cases s, simp add: InternalSystemServices_from_json_def InternalSystemServices_to_json_def
        InternalSystemServices_fresh_def parse_simps InternalServiceInfo.read_objects_enc)
    (cases e, simp add: SystemEndpointList_from_json_def SystemEndpointList_to_json_def
        SystemEndpointList_fresh_def parse_simps SystemEndpoint.read_objects_enc,
     cases l, simp add: ActionLink_from_json_def ActionLink_to_json_def ActionLink_fresh_def parse_simps,
     cases p, simp add: Preferences_from_json_def Preferences_to_json_def Preferences_fresh_def parse_simps)

lemma UserLoginLoginExtensions_dec_enc:
  "conv_doc P \<Longrightarrow> UserLoginLoginExtensions_from_json P (Some (UserLoginLoginExtensions_to_json r []))
     UserLoginLoginExtensions_fresh = (r, True)"
  by (cases r, rename_tac ms m s, case_tac m) (simp add: UserLoginLoginExtensions_from_json_def
      UserLoginLoginExtensions_to_json_def UserLoginLoginExtensions_fresh_def MfaAuthInfo_from_json_def
      MfaAuthInfo_to_json_def parse_simps MobilePhoneNumber.read_objects_enc)

lemma UserInfo_dec_enc:
  "conv_doc P \<Longrightarrow> icompare_doc P \<Longrightarrow> UserInfo_from_json P (Some (UserInfo_to_json r [])) UserInfo_fresh = (r, True)"
  by (cases r) (simp add: UserInfo_from_json_def UserInfo_to_json_def UserInfo_fresh_def parse_simps
      NoteInfo.read_objects_enc UserLoginLoginExtensions_dec_enc)

lemma AclTemplate_dec_enc:
  "conv_doc P \<Longrightarrow> AclTemplate_from_json P (Some (AclTemplate_to_json r [])) v = (r, True)"
  by (cases r; cases v) (simp add: AclTemplate_from_json_def AclTemplate_to_json_def parse_simps)

lemma WebToken_dec_enc:
  "conv_doc P \<Longrightarrow> WebToken_from_json P (Some (WebToken_to_json r [])) WebToken_fresh
     = (r\<lparr>wt_id_token := [], wt_errorCode := 0\<rparr>, True)"
  by (cases r) (simp add: WebToken_from_json_def WebToken_to_json_def WebToken_fresh_def parse_simps AclTemplate_dec_enc)

text \<open>
  What the security service says of a token is read back as it was written: the user completely,
  and the token except for its identity token and its error code, which the codec never reads.
\<close>

theorem UserInfoAndPolicy_roundtrip:
  assumes "conv_doc P" "icompare_doc P"
  shows "UserInfoAndPolicy_from_json P (Some (UserInfoAndPolicy_to_json r [])) UserInfoAndPolicy_fresh =
    (r\<lparr>up_webtoken := (up_webtoken r)\<lparr>wt_id_token := [], wt_errorCode := 0\<rparr>\<rparr>, True)"
  using assms
  by (cases r) (simp add: UserInfoAndPolicy_from_json_def UserInfoAndPolicy_to_json_def UserInfoAndPolicy_fresh_def
      parse_simps WebToken_dec_enc UserInfo_dec_enc)

theorem UserInfoAndPolicy_roundtrip_witness:
  "UserInfoAndPolicy_from_json ref_platform (Some (UserInfoAndPolicy_to_json UserInfoAndPolicy_fresh []))
     UserInfoAndPolicy_fresh = (UserInfoAndPolicy_fresh, True)"
  using UserInfoAndPolicy_roundtrip [OF ref_platform_docs(6,7), of UserInfoAndPolicy_fresh]
  by (simp add: UserInfoAndPolicy_fresh_def WebToken_fresh_def)

end
