(* ===== verification/AuthClient.thy ===== *)
theory AuthClient
  imports SecObjects Net Utils
begin

text \<open>
  The authentication client, \<^verbatim>\<open>src/framework/AuthClient.h\<close> and \<^verbatim>\<open>.cpp\<close>: tokens and API keys are checked
  by the security service and the answers are cached.  The caches are \<^verbatim>\<open>Poco::ExpireLRUCache\<close>: maps
  that may lose any entry at any time, when it is 20 minutes old or when there are more than 512.
  The step relation \<open>auth_step\<close> has a step for that loss, so nothing is assumed about when it happens.
\<close>

section \<open>State\<close>

record ApiKeyCacheEntry =
  ke_UserInfo :: UserInfoAndPolicy
  ke_ExpiresOn :: uint64

record AuthClient =
  au_Cache :: "string \<Rightarrow> UserInfoAndPolicy option"
  au_ApiKeyCache :: "string \<Rightarrow> ApiKeyCacheEntry option"

text \<open>
  What a check leaves in its reference parameters: the user, and whether the token has expired and
  the security service was reached.
\<close>

record auth_result =
  ar_UInfo :: UserInfoAndPolicy
  ar_Expired :: bool
  ar_Contacted :: bool

section \<open>Operations\<close>

definition RemovedCachedToken :: "string \<Rightarrow> AuthClient \<Rightarrow> AuthClient" where
  "RemovedCachedToken Token A = A\<lparr>au_Cache := (au_Cache A)(Token := None),
     au_ApiKeyCache := (au_ApiKeyCache A)(Token := None)\<rparr>"

definition AuthClient_Stop :: "AuthClient \<Rightarrow> AuthClient" where
  "AuthClient_Stop A = A\<lparr>au_Cache := Map.empty\<rparr>"

text \<open>The sum of the two 64-bit numbers wraps around.\<close>

definition IsTokenExpired :: "WebToken \<Rightarrow> bool io" where
  "IsTokenExpired T = do { now \<leftarrow> Now; ret (wt_expires_in T + wt_created T < now) }"

text \<open>
  An answer without a body throws when it is dereferenced; the result of \<^verbatim>\<open>from_json\<close> is ignored.
\<close>

definition RetrieveTokenInformation ::
  "platform \<Rightarrow> string \<Rightarrow> bool \<Rightarrow> auth_result \<Rightarrow> AuthClient \<Rightarrow> (bool \<times> auth_result \<times> AuthClient) io" where
  "RetrieveTokenInformation P SessionToken Sub R A = do {
     (StatusCode, Response) \<leftarrow> OpenAPIRequestGet P uSERVICE_SECURITY
       (if Sub then ''/api/v1/validateSubToken'' else ''/api/v1/validateToken'')
       [(''token'', SessionToken)] 10000 [] None;
     (if StatusCode = HTTP_GATEWAY_TIMEOUT then ret (False, R\<lparr>ar_Contacted := False\<rparr>, A)
      else if StatusCode = HTTP_OK then (case Response of
          None \<Rightarrow> ret (False, R\<lparr>ar_Contacted := True, ar_Expired := False\<rparr>, A)
        | Some ob \<Rightarrow>
            if has ob ''tokenInfo'' \<and> has ob ''userInfo'' then do {
              let UInfo = fst (UserInfoAndPolicy_from_json P (Some ob) (ar_UInfo R));
              expired \<leftarrow> IsTokenExpired (up_webtoken UInfo);
              (if expired then ret (False, \<lparr>ar_UInfo = UInfo, ar_Expired = True, ar_Contacted = True\<rparr>, A)
               else ret (True, \<lparr>ar_UInfo = UInfo, ar_Expired = False, ar_Contacted = True\<rparr>,
                 A\<lparr>au_Cache := (au_Cache A)(SessionToken \<mapsto> UInfo)\<rparr>))
            }
            else ret (False, R\<lparr>ar_Contacted := True\<rparr>, A))
      else ret (False, R\<lparr>ar_Contacted := True, ar_Expired := False\<rparr>, A))
   }"

definition IsAuthorized ::
  "platform \<Rightarrow> string \<Rightarrow> bool \<Rightarrow> auth_result \<Rightarrow> AuthClient \<Rightarrow> (bool \<times> auth_result \<times> AuthClient) io" where
  "IsAuthorized P SessionToken Sub R A = (case au_Cache A SessionToken of
     Some User \<Rightarrow> do {
       expired \<leftarrow> IsTokenExpired (up_webtoken User);
       (if expired then ret (False, R\<lparr>ar_Expired := True\<rparr>, A\<lparr>au_Cache := (au_Cache A)(SessionToken := None)\<rparr>)
        else ret (True, R\<lparr>ar_Expired := False, ar_UInfo := User\<rparr>, A))
     }
   | None \<Rightarrow> RetrieveTokenInformation P SessionToken Sub R A)"

text \<open>The conversion of \<^verbatim>\<open>expiresOn\<close> may throw, after the user has been assigned.\<close>

definition RetrieveApiKeyInformation ::
  "platform \<Rightarrow> string \<Rightarrow> auth_result \<Rightarrow> AuthClient \<Rightarrow> (bool \<times> auth_result \<times> AuthClient) io" where
  "RetrieveApiKeyInformation P SessionToken R A = do {
     (StatusCode, Response) \<leftarrow> OpenAPIRequestGet P uSERVICE_SECURITY ''/api/v1/validateApiKey''
       [(''apikey'', SessionToken)] 10000 [] None;
     ret (if StatusCode = HTTP_GATEWAY_TIMEOUT then (False, R\<lparr>ar_Contacted := False\<rparr>, A)
      else if StatusCode = HTTP_OK then (case Response of
          None \<Rightarrow> (False, R\<lparr>ar_Contacted := True, ar_Expired := False\<rparr>, A)
        | Some ob \<Rightarrow>
            if has ob ''tokenInfo'' \<and> has ob ''userInfo'' \<and> has ob ''expiresOn'' then
              let R' = \<lparr>ar_UInfo = fst (UserInfoAndPolicy_from_json P (Some ob) (ar_UInfo R)),
                        ar_Expired = False, ar_Contacted = True\<rparr>
              in (case po_toUInt64 P (getVar ob ''expiresOn'') of
                   Inl _ \<Rightarrow> (False, R', A)
                 | Inr e \<Rightarrow> (True, R', A\<lparr>au_ApiKeyCache := (au_ApiKeyCache A)(SessionToken \<mapsto>
                     \<lparr>ke_UserInfo = ar_UInfo R', ke_ExpiresOn = word_of_int e\<rparr>)\<rparr>))
            else (False, R\<lparr>ar_Contacted := True\<rparr>, A))
      else (False, R\<lparr>ar_Contacted := True, ar_Expired := False\<rparr>, A))
   }"

definition IsValidApiKey ::
  "platform \<Rightarrow> string \<Rightarrow> auth_result \<Rightarrow> AuthClient \<Rightarrow> (bool \<times> auth_result \<times> AuthClient) io" where
  "IsValidApiKey P SessionToken R A = (case au_ApiKeyCache A SessionToken of
     Some User \<Rightarrow> do {
       now \<leftarrow> Now;
       (if ke_ExpiresOn User < now then ret (True, R\<lparr>ar_Expired := False, ar_UInfo := ke_UserInfo User\<rparr>, A)
        else RetrieveApiKeyInformation P SessionToken R
               (A\<lparr>au_ApiKeyCache := (au_ApiKeyCache A)(SessionToken := None)\<rparr>))
     }
   | None \<Rightarrow> RetrieveApiKeyInformation P SessionToken R A)"

lemmas auth_defs = IsAuthorized_def RetrieveTokenInformation_def IsValidApiKey_def RetrieveApiKeyInformation_def
  IsTokenExpired_def Now_def

definition auth_fresh :: auth_result where
  "auth_fresh = \<lparr>ar_UInfo = UserInfoAndPolicy_fresh, ar_Expired = False, ar_Contacted = False\<rparr>"

section \<open>What a positive answer rests on\<close>

text \<open>
  Among the calls of the world there is one that asked the security service for this token or key
  and was answered with 200 and the user.
\<close>

definition asked :: "string set \<Rightarrow> string \<Rightarrow> string \<Rightarrow> world \<Rightarrow> jobj \<Rightarrow> bool" where
  "asked paths kind tok w ob \<longleftrightarrow> (\<exists>before c after rp. w_calls w = before @ c # after
     \<and> c_verb c = ''GET'' \<and> c_type c = uSERVICE_SECURITY \<and> c_path c \<in> paths \<and> c_query c = [(kind, tok)]
     \<and> w_net w before c = Some rp \<and> rp_status rp = HTTP_OK \<and> reply_object rp = Some ob
     \<and> has ob ''tokenInfo'' \<and> has ob ''userInfo'')"

definition token_answer :: "platform \<Rightarrow> world \<Rightarrow> string \<Rightarrow> UserInfoAndPolicy \<Rightarrow> bool" where
  "token_answer P w tok u \<longleftrightarrow> (\<exists>ob. asked {''/api/v1/validateSubToken'', ''/api/v1/validateToken''} ''token'' tok w ob
     \<and> u = fst (UserInfoAndPolicy_from_json P (Some ob) UserInfoAndPolicy_fresh))"

definition key_answer :: "platform \<Rightarrow> world \<Rightarrow> string \<Rightarrow> UserInfoAndPolicy \<Rightarrow> bool" where
  "key_answer P w key u \<longleftrightarrow> (\<exists>ob. asked {''/api/v1/validateApiKey''} ''apikey'' key w ob
     \<and> u = fst (UserInfoAndPolicy_from_json P (Some ob) UserInfoAndPolicy_fresh))"

lemma asked_extends: "asked ps k tok w ob \<Longrightarrow> extends w w' \<Longrightarrow> asked ps k tok w' ob"
  unfolding asked_def extends_def by force

lemma answer_extends:
  "token_answer P w tok u \<Longrightarrow> extends w w' \<Longrightarrow> token_answer P w' tok u"
  "key_answer P w tok u \<Longrightarrow> extends w w' \<Longrightarrow> key_answer P w' tok u"
  unfolding token_answer_def key_answer_def by (blast intro: asked_extends)+

text \<open>One request to the service: the world afterwards, and what a body in the answer proves.\<close>

lemma security_get:
  assumes "run_state (OpenAPIRequestGet P uSERVICE_SECURITY path [(kind, tok)] t [] None) w = ((status, resp), w')"
  shows "extends w w'" and "w_ticks w' = w_ticks w" and "w_clock w' = w_clock w"
    and "status = HTTP_OK \<Longrightarrow> resp = Some ob \<Longrightarrow> has ob ''tokenInfo'' \<Longrightarrow> has ob ''userInfo'' \<Longrightarrow>
         asked {path} kind tok w' ob"
proof -
  note defs = OpenAPIRequestGet_def transmit_def Let_def
  show "extends w w'" and "w_ticks w' = w_ticks w" and "w_clock w' = w_clock w"
    using assms by (auto simp: defs extends_def split: list.splits option.splits)
  show "asked {path} kind tok w' ob"
    if r: "status = HTTP_OK" "resp = Some ob" "has ob ''tokenInfo''" "has ob ''userInfo''"
  proof -
    obtain c rp where c: "w_calls w' = w_calls w @ [c]" "w_net w' = w_net w" "w_net w (w_calls w) c = Some rp"
      "c_verb c = ''GET''" "c_type c = uSERVICE_SECURITY" "c_path c = path" "c_query c = [(kind, tok)]"
      "rp_status rp = HTTP_OK" "reply_object rp = Some ob"
      using assms r(1,2) by (auto simp: defs split: list.splits option.splits)
    have "w_net w' (w_calls w) c = Some rp" using c(2,3) by simp
    then show ?thesis
      unfolding asked_def c(1) using c(4-) r(3,4) by (intro exI [of _ "w_calls w"] exI [of _ c] exI [of _ "[]"] exI [of _ rp]) simp
  qed
qed

text \<open>Which token is expired at the next reading of the clock.\<close>

definition expired_at :: "world \<Rightarrow> WebToken \<Rightarrow> bool" where
  "expired_at w T \<longleftrightarrow> wt_expires_in T + wt_created T < word_of_int (w_clock w (w_ticks w) div 1000000)"

lemma IsTokenExpired_run: "run_state (IsTokenExpired T) w = (expired_at w T, w\<lparr>w_ticks := Suc (w_ticks w)\<rparr>)"
  by (simp add: IsTokenExpired_def Now_def read_clock_def expired_at_def)

lemma extends_ticks [simp]: "extends w (w'\<lparr>w_ticks := n\<rparr>) \<longleftrightarrow> extends w w'"
  by (simp add: extends_def)

lemma asked_ticks [simp]: "asked ps k tok (w\<lparr>w_ticks := n\<rparr>) ob \<longleftrightarrow> asked ps k tok w ob"
  by (simp add: asked_def)


lemma Retrieve_run:
  assumes "run_state (RetrieveTokenInformation P tok Sub auth_fresh A) w = ((b, R, A'), w')"
  shows "extends w w'" and "\<not> b \<Longrightarrow> A' = A"
    and "b \<Longrightarrow> token_answer P w' tok (ar_UInfo R) \<and> A' = A\<lparr>au_Cache := (au_Cache A)(tok \<mapsto> ar_UInfo R)\<rparr>
      \<and> \<not> expired_at w (up_webtoken (ar_UInfo R))"
proof -
  let ?path = "if Sub then ''/api/v1/validateSubToken'' else ''/api/v1/validateToken''"
  obtain status resp w1 where g: "run_state (OpenAPIRequestGet P uSERVICE_SECURITY ?path [(''token'', tok)] 10000 [] None) w
      = ((status, resp), w1)"
    by (metis prod.exhaust)
  note s = security_get [OF g]
  have e: "expired_at w1 T = expired_at w T" for T
    using s(2,3) by (simp add: expired_at_def)
  have t: "token_answer P w1 tok (fst (UserInfoAndPolicy_from_json P (Some ob) UserInfoAndPolicy_fresh))"
    if "asked {?path} ''token'' tok w1 ob" for ob
    using that unfolding token_answer_def asked_def by (auto split: if_splits)
  show "extends w w'" and "\<not> b \<Longrightarrow> A' = A"
    using assms s(1) by (auto simp: RetrieveTokenInformation_def g IsTokenExpired_run Let_def
        split: if_splits option.splits)
  show "token_answer P w' tok (ar_UInfo R) \<and> A' = A\<lparr>au_Cache := (au_Cache A)(tok \<mapsto> ar_UInfo R)\<rparr>
      \<and> \<not> expired_at w (up_webtoken (ar_UInfo R))" if b
    using assms that s(4) t e
    by (auto simp: RetrieveTokenInformation_def g IsTokenExpired_run Let_def auth_fresh_def token_answer_def
        split: if_splits option.splits)
qed

lemma RetrieveApiKey_run:
  assumes "run_state (RetrieveApiKeyInformation P key auth_fresh A) w = ((b, R, A'), w')"
  shows "extends w w'" and "\<not> b \<Longrightarrow> A' = A"
    and "b \<Longrightarrow> key_answer P w' key (ar_UInfo R) \<and> (\<exists>e. A' = A\<lparr>au_ApiKeyCache := (au_ApiKeyCache A)(key \<mapsto>
      \<lparr>ke_UserInfo = ar_UInfo R, ke_ExpiresOn = e\<rparr>)\<rparr>)"
proof -
  obtain status resp w1 where g: "run_state (OpenAPIRequestGet P uSERVICE_SECURITY ''/api/v1/validateApiKey''
      [(''apikey'', key)] 10000 [] None) w = ((status, resp), w1)"
    by (metis prod.exhaust)
  note s = security_get [OF g]
  show "extends w w'" and "\<not> b \<Longrightarrow> A' = A"
    using assms s(1) by (auto simp: RetrieveApiKeyInformation_def g Let_def split: if_splits option.splits sum.splits)
  show "key_answer P w' key (ar_UInfo R) \<and> (\<exists>e. A' = A\<lparr>au_ApiKeyCache := (au_ApiKeyCache A)(key \<mapsto>
      \<lparr>ke_UserInfo = ar_UInfo R, ke_ExpiresOn = e\<rparr>)\<rparr>)" if b
    using assms that s(4)
    by (auto simp: RetrieveApiKeyInformation_def g Let_def auth_fresh_def key_answer_def
        split: if_splits option.splits sum.splits)
qed

lemma IsAuthorized_run:
  assumes "run_state (IsAuthorized P tok Sub auth_fresh A) w = ((b, R, A'), w')"
  shows "extends w w'" and "au_ApiKeyCache A' = au_ApiKeyCache A"
    and "au_Cache A' t = Some u \<Longrightarrow> au_Cache A t = Some u \<or> token_answer P w' t u"
    and "b \<Longrightarrow> (au_Cache A tok = Some (ar_UInfo R) \<or> token_answer P w' tok (ar_UInfo R))
      \<and> \<not> expired_at w (up_webtoken (ar_UInfo R))"
proof -
  have "extends w w' \<and> au_ApiKeyCache A' = au_ApiKeyCache A
    \<and> (au_Cache A' t = Some u \<longrightarrow> au_Cache A t = Some u \<or> token_answer P w' t u)
    \<and> (b \<longrightarrow> (au_Cache A tok = Some (ar_UInfo R) \<or> token_answer P w' tok (ar_UInfo R))
      \<and> \<not> expired_at w (up_webtoken (ar_UInfo R)))"
  proof (cases "au_Cache A tok")
    case None
    then have r: "run_state (RetrieveTokenInformation P tok Sub auth_fresh A) w = ((b, R, A'), w')"
      using assms by (simp add: IsAuthorized_def)
    show ?thesis using Retrieve_run [OF r] by (cases b) (auto split: if_splits)
  next
    case (Some user)
    then show ?thesis
      using assms by (auto simp: IsAuthorized_def IsTokenExpired_run extends_refl split: if_splits)
  qed
  then show "extends w w'" and "au_ApiKeyCache A' = au_ApiKeyCache A"
    and "au_Cache A' t = Some u \<Longrightarrow> au_Cache A t = Some u \<or> token_answer P w' t u"
    and "b \<Longrightarrow> (au_Cache A tok = Some (ar_UInfo R) \<or> token_answer P w' tok (ar_UInfo R))
      \<and> \<not> expired_at w (up_webtoken (ar_UInfo R))" by blast+
qed

lemma IsValidApiKey_run:
  assumes "run_state (IsValidApiKey P key auth_fresh A) w = ((b, R, A'), w')"
  shows "extends w w'" and "au_Cache A' = au_Cache A"
    and "au_ApiKeyCache A' k = Some e \<Longrightarrow> au_ApiKeyCache A k = Some e \<or> key_answer P w' k (ke_UserInfo e)"
    and "b \<Longrightarrow> (\<exists>e. au_ApiKeyCache A key = Some e \<and> ke_UserInfo e = ar_UInfo R) \<or> key_answer P w' key (ar_UInfo R)"
proof -
  have retr: "extends v w' \<and> au_Cache A' = au_Cache B
    \<and> (au_ApiKeyCache A' k = Some e \<longrightarrow> au_ApiKeyCache B k = Some e \<or> key_answer P w' k (ke_UserInfo e))
    \<and> (b \<longrightarrow> key_answer P w' key (ar_UInfo R))"
    if "run_state (RetrieveApiKeyInformation P key auth_fresh B) v = ((b, R, A'), w')" for B v
    using RetrieveApiKey_run [OF that] by (cases b) (auto split: if_splits)
  have "extends w w' \<and> au_Cache A' = au_Cache A
    \<and> (au_ApiKeyCache A' k = Some e \<longrightarrow> au_ApiKeyCache A k = Some e \<or> key_answer P w' k (ke_UserInfo e))
    \<and> (b \<longrightarrow> (\<exists>e. au_ApiKeyCache A key = Some e \<and> ke_UserInfo e = ar_UInfo R) \<or> key_answer P w' key (ar_UInfo R))"
  proof (cases "au_ApiKeyCache A key")
    case None
    then show ?thesis using retr [of A w] assms by (auto simp: IsValidApiKey_def)
  next
    case (Some user)
    then show ?thesis
      using assms retr [of "A\<lparr>au_ApiKeyCache := (au_ApiKeyCache A)(key := None)\<rparr>" "w\<lparr>w_ticks := Suc (w_ticks w)\<rparr>"]
      by (auto simp: IsValidApiKey_def Now_def read_clock_def extends_def split: if_splits)
  qed
  then show "extends w w'" and "au_Cache A' = au_Cache A"
    and "au_ApiKeyCache A' k = Some e \<Longrightarrow> au_ApiKeyCache A k = Some e \<or> key_answer P w' k (ke_UserInfo e)"
    and "b \<Longrightarrow> (\<exists>e. au_ApiKeyCache A key = Some e \<and> ke_UserInfo e = ar_UInfo R) \<or> key_answer P w' key (ar_UInfo R)"
    by blast+
qed

section \<open>Every reachable state of the caches\<close>

text \<open>
  The portal starts with empty caches.  Then, in any order: a token or a key is checked, the bus
  reports a token as removed, the client is stopped, the caches lose entries, and the rest of the
  portal makes calls of its own.
\<close>

inductive auth_step :: "platform \<Rightarrow> AuthClient \<times> world \<Rightarrow> AuthClient \<times> world \<Rightarrow> bool" for P where
  token: "run_state (IsAuthorized P tok Sub auth_fresh A) w = ((b, R, A'), w') \<Longrightarrow> auth_step P (A, w) (A', w')"
| key: "run_state (IsValidApiKey P k auth_fresh A) w = ((b, R, A'), w') \<Longrightarrow> auth_step P (A, w) (A', w')"
| removed: "auth_step P (A, w) (RemovedCachedToken tok A, w)"
| stopped: "auth_step P (A, w) (AuthClient_Stop A, w)"
| lost: "au_Cache A' \<subseteq>\<^sub>m au_Cache A \<Longrightarrow> au_ApiKeyCache A' \<subseteq>\<^sub>m au_ApiKeyCache A \<Longrightarrow> auth_step P (A, w) (A', w)"
| other: "extends w w' \<Longrightarrow> auth_step P (A, w) (A, w')"

inductive auth_reachable :: "platform \<Rightarrow> AuthClient \<times> world \<Rightarrow> bool" for P where
  initial: "auth_reachable P (\<lparr>au_Cache = Map.empty, au_ApiKeyCache = Map.empty\<rparr>, w)"
| step: "auth_reachable P s \<Longrightarrow> auth_step P s s' \<Longrightarrow> auth_reachable P s'"

fun auth_inv :: "platform \<Rightarrow> AuthClient \<times> world \<Rightarrow> bool" where
  "auth_inv P (A, w) \<longleftrightarrow> (\<forall>tok u. au_Cache A tok = Some u \<longrightarrow> token_answer P w tok u)
     \<and> (\<forall>key e. au_ApiKeyCache A key = Some e \<longrightarrow> key_answer P w key (ke_UserInfo e))"

lemma auth_step_inv: "auth_step P s s' \<Longrightarrow> auth_inv P s \<Longrightarrow> auth_inv P s'"
proof (induction rule: auth_step.induct)
  case (token tok Sub A w b R A' w')
  note r = IsAuthorized_run [OF token.hyps]
  show ?case using token.prems r(2,3) answer_extends [OF _ r(1)] by auto metis
next
  case (key k A w b R A' w')
  note r = IsValidApiKey_run [OF key.hyps]
  show ?case using key.prems r(2,3) answer_extends [OF _ r(1)] by auto metis
next
  case (lost A' A w)
  then show ?case by (auto simp: map_le_def dom_def)
next
  case (other w w' A)
  then show ?case using answer_extends by simp blast
qed (auto simp: RemovedCachedToken_def AuthClient_Stop_def)

lemma auth_reachable_inv: "auth_reachable P s \<Longrightarrow> auth_inv P s"
  by (induction rule: auth_reachable.induct) (auto intro: auth_step_inv)

text \<open>
  (C3) A token is accepted only on the word of the security service.  In every reachable state, when
  the check of a token succeeds, one of the calls made so far asked the security service for exactly
  this token and was answered with 200 and the user the check returns, and the lifetime in that
  answer has not passed at the time of the check.  What the cache holds never comes from anywhere
  else, in whatever order checks, removals and losses of entries happen.
\<close>

theorem authorized_sound:
  assumes "auth_reachable P (A, w)"
    and "run_state (IsAuthorized P tok Sub auth_fresh A) w = ((True, R, A'), w')"
  shows "token_answer P w' tok (ar_UInfo R) \<and> \<not> expired_at w (up_webtoken (ar_UInfo R))"
proof -
  note r = IsAuthorized_run [OF assms(2)]
  have "token_answer P w tok u" if "au_Cache A tok = Some u" for u
    using auth_reachable_inv [OF assms(1)] that by simp
  then show ?thesis using r(1,4) answer_extends(1) by blast
qed

definition token_reply :: jobj where
  "token_reply = UserInfoAndPolicy_to_json (UserInfoAndPolicy_fresh
     \<lparr>up_webtoken := WebToken_fresh\<lparr>wt_expires_in := 1000, wt_created := 1728043200\<rparr>\<rparr>) []"

definition token_net :: "api_call list \<Rightarrow> api_call \<Rightarrow> reply option" where
  "token_net cs c = Some \<lparr>rp_status = HTTP_OK, rp_text = [], rp_json = Some (JObject token_reply)\<rparr>"

lemma sample_security:
  "GetServices ref_platform uSERVICE_SECURITY (w_services (sample_world net)) = [sample_service ''owsec'']"
  by (simp add: GetServices_def service_names sample_service_def ref_platform_docs to_lower_def is_upper_def)

lemma token_sample:
  "\<exists>R A' w'. run_state (IsAuthorized ref_platform ''tok'' True auth_fresh \<lparr>au_Cache = Map.empty, au_ApiKeyCache = Map.empty\<rparr>)
     (sample_world token_net) = ((True, R, A'), w')"
proof -
  have h: "has token_reply ''tokenInfo''" "has token_reply ''userInfo''"
    by (simp_all add: token_reply_def UserInfoAndPolicy_to_json_def write_fields_def has_def)
  have "fst (UserInfoAndPolicy_from_json ref_platform (Some token_reply) UserInfoAndPolicy_fresh) =
    UserInfoAndPolicy_fresh\<lparr>up_webtoken := WebToken_fresh\<lparr>wt_expires_in := 1000, wt_created := 1728043200\<rparr>\<rparr>"
    unfolding token_reply_def
    by (simp add: UserInfoAndPolicy_from_json_def UserInfoAndPolicy_to_json_def UserInfoAndPolicy_fresh_def
      parse_simps WebToken_dec_enc UserInfo_dec_enc ref_platform_docs) (simp add: WebToken_fresh_def)
  then show ?thesis
    using h by (simp add: IsAuthorized_def RetrieveTokenInformation_def OpenAPIRequestGet_def transmit_def Let_def
      token_net_def reply_object_def auth_fresh_def IsTokenExpired_run expired_at_def
      sample_security del: sample_world_sel(1))
qed

theorem authorized_sound_witness:
  "\<exists>u w'. token_answer ref_platform w' ''tok'' u"
proof -
  obtain R A' w' where "run_state (IsAuthorized ref_platform ''tok'' True auth_fresh
      \<lparr>au_Cache = Map.empty, au_ApiKeyCache = Map.empty\<rparr>) (sample_world token_net) = ((True, R, A'), w')"
    using token_sample by blast
  from authorized_sound [OF auth_reachable.initial this] show ?thesis by blast
qed

text \<open>
  An API key in the cache is accepted exactly when it has expired.  The comparison is the wrong way
  round: a key whose time has passed is accepted without asking anyone, and a key that is still
  valid is dropped from the cache and asked for again each time.
\<close>

theorem cached_key_inverted:
  assumes "au_ApiKeyCache A key = Some e" and "now = word_of_int (w_clock w (w_ticks w) div 1000000)"
    and "GetServices P uSERVICE_SECURITY (w_services w) = svc # svcs"
    and "run_state (IsValidApiKey P key R A) w = ((b, R', A'), w')"
  shows "if ke_ExpiresOn e < now
    then b \<and> ar_UInfo R' = ke_UserInfo e \<and> A' = A \<and> w_calls w' = w_calls w
    else \<exists>c. w_calls w' = w_calls w @ [c] \<and> c_path c = ''/api/v1/validateApiKey'' \<and> c_query c = [(''apikey'', key)]"
  using assms
  by (auto simp: IsValidApiKey_def RetrieveApiKeyInformation_def OpenAPIRequestGet_def transmit_def Let_def Now_def
      read_clock_def split: if_splits option.splits sum.splits)

theorem cached_key_inverted_witness:
  "\<exists>R' w'. run_state (IsValidApiKey ref_platform ''k'' auth_fresh
       \<lparr>au_Cache = Map.empty, au_ApiKeyCache = [''k'' \<mapsto> \<lparr>ke_UserInfo = UserInfoAndPolicy_fresh, ke_ExpiresOn = 0\<rparr>]\<rparr>)
     (sample_world token_net)
   = ((True, R', \<lparr>au_Cache = Map.empty, au_ApiKeyCache = [''k'' \<mapsto> \<lparr>ke_UserInfo = UserInfoAndPolicy_fresh, ke_ExpiresOn = 0\<rparr>]\<rparr>), w')"
proof -
  let ?A = "\<lparr>au_Cache = Map.empty, au_ApiKeyCache = [''k'' \<mapsto> \<lparr>ke_UserInfo = UserInfoAndPolicy_fresh, ke_ExpiresOn = 0\<rparr>]\<rparr>"
  obtain b R' A' w' where r: "run_state (IsValidApiKey ref_platform ''k'' auth_fresh ?A) (sample_world token_net) = ((b, R', A'), w')"
    by (metis prod.exhaust)
  from cached_key_inverted [OF _ refl sample_security r, of "\<lparr>ke_UserInfo = UserInfoAndPolicy_fresh, ke_ExpiresOn = 0\<rparr>"] r
  show ?thesis by simp
qed

text \<open>
  A token reported as removed is asked for again: the next check of it makes a call and succeeds
  only on the answer to that call.
\<close>

lemma removed_token_asked_again:
  assumes "GetServices P uSERVICE_SECURITY (w_services w) = svc # svcs"
    and "run_state (IsAuthorized P tok Sub R (RemovedCachedToken tok A)) w = ((b, R', A'), w')"
  shows "\<exists>c. w_calls w' = w_calls w @ [c] \<and> c_type c = uSERVICE_SECURITY \<and> c_query c = [(''token'', tok)]
    \<and> (b \<longrightarrow> (\<exists>rp. w_net w (w_calls w) c = Some rp \<and> rp_status rp = HTTP_OK))"
  using assms
  by (auto simp: IsAuthorized_def RemovedCachedToken_def RetrieveTokenInformation_def OpenAPIRequestGet_def
      transmit_def Let_def IsTokenExpired_run split: if_splits option.splits)

end
