(* ===== verification/RateLimiter.thy ===== *)
theory RateLimiter
  imports Platform
begin

text \<open>
  The rate limiter, \<^verbatim>\<open>src/framework/RESTAPI_RateLimiter.h\<close>: per path and client address, the number of
  calls since the start of a window.  The cache is a \<^verbatim>\<open>Poco::ExpireLRUCache\<close> keyed by a hash of the two
  strings (\<^verbatim>\<open>std::hash\<close>, the first argument); times are in milliseconds.
\<close>

section \<open>State and operations\<close>

record ClientCacheEntry =
  ce_Start :: int
  ce_Count :: int

type_synonym rate_cache = "uint64 \<Rightarrow> ClientCacheEntry option"

text \<open>One call with the key \<open>H\<close> at the time \<open>Now\<close>: whether it is refused, and the cache afterwards.\<close>

definition count_call :: "int \<Rightarrow> int \<Rightarrow> uint64 \<Rightarrow> int \<Rightarrow> rate_cache \<Rightarrow> bool \<times> rate_cache" where
  "count_call Period MaxCalls H Now C = (case C H of
     None \<Rightarrow> (False, C(H \<mapsto> \<lparr>ce_Start = Now, ce_Count = 1\<rparr>))
   | Some E \<Rightarrow>
       if Now - ce_Start E < Period then
         (let E' = E\<lparr>ce_Count := ce_Count E + 1\<rparr> in (MaxCalls < ce_Count E', C(H \<mapsto> E')))
       else (False, C(H \<mapsto> E\<lparr>ce_Start := Now, ce_Count := 1\<rparr>)))"

definition IsRateLimited ::
  "(string \<Rightarrow> uint64) \<Rightarrow> string \<Rightarrow> string \<Rightarrow> int \<Rightarrow> int \<Rightarrow> int \<Rightarrow> rate_cache \<Rightarrow> bool \<times> rate_cache" where
  "IsRateLimited str_hash path host Now Period MaxCalls C =
     count_call Period MaxCalls (str_hash (path @ host)) Now C"

definition RateLimiter_Clear :: "rate_cache \<Rightarrow> rate_cache" where
  "RateLimiter_Clear C = Map.empty"

text \<open>A sequence of calls, each a key and a time, and which of them are refused.\<close>

fun serve :: "int \<Rightarrow> int \<Rightarrow> (uint64 \<times> int) list \<Rightarrow> rate_cache \<Rightarrow> (uint64 \<times> bool) list" where
  "serve Period MaxCalls [] C = []"
| "serve Period MaxCalls ((k, t) # calls) C =
     (let (limited, C') = count_call Period MaxCalls k t C in (k, limited) # serve Period MaxCalls calls C')"

definition accepted :: "uint64 \<Rightarrow> (uint64 \<times> bool) list \<Rightarrow> nat" where
  "accepted h rs = length (filter (\<lambda>(k, limited). k = h \<and> \<not> limited) rs)"

section \<open>How many calls pass\<close>

lemma accepted_simps [simp]:
  "accepted h [] = 0"
  "accepted h ((k, limited) # rs) = (if k = h \<and> \<not> limited then Suc (accepted h rs) else accepted h rs)"
  by (simp_all add: accepted_def)

lemma count_call_other: "k \<noteq> h \<Longrightarrow> snd (count_call Period MaxCalls k t C) h = C h"
  by (simp add: count_call_def Let_def split: option.splits)

text \<open>Inside one window the first calls pass, up to the limit, and all later ones are refused.\<close>

lemma one_window:
  assumes "C h = Some \<lparr>ce_Start = s, ce_Count = c\<rparr>" and "\<And>t. (h, t) \<in> set calls \<Longrightarrow> t - s < Period"
  shows "accepted h (serve Period MaxCalls calls C) \<le> nat (MaxCalls - c)"
  using assms
proof (induction calls arbitrary: C c)
  case (Cons call calls)
  obtain k t where call: "call = (k, t)" by (cases call)
  show ?case
  proof (cases "k = h")
    case True
    then have "t - s < Period" using Cons.prems(2) call by simp
    then have r: "count_call Period MaxCalls k t C = (MaxCalls < c + 1, C(h \<mapsto> \<lparr>ce_Start = s, ce_Count = c + 1\<rparr>))"
      using Cons.prems(1) True by (simp add: count_call_def)
    have "accepted h (serve Period MaxCalls calls (C(h \<mapsto> \<lparr>ce_Start = s, ce_Count = c + 1\<rparr>))) \<le> nat (MaxCalls - (c + 1))"
      using Cons.prems(2) by (intro Cons.IH) auto
    then show ?thesis using call True r by simp arith
  next
    case False
    obtain l C' where r: "count_call Period MaxCalls k t C = (l, C')" by (metis prod.exhaust)
    then have "C' h = Some \<lparr>ce_Start = s, ce_Count = c\<rparr>"
      using count_call_other [OF False, of Period MaxCalls t C] Cons.prems(1) by simp
    then show ?thesis using Cons.IH [of C' c] Cons.prems(2) call False r by simp
  qed
qed simp

lemma fresh_window:
  assumes "0 < MaxCalls" "t0 \<le> t" "\<And>t. (h, t) \<in> set cs \<Longrightarrow> t < t0 + Period"
  shows "accepted h (serve Period MaxCalls cs (D(h \<mapsto> \<lparr>ce_Start = t, ce_Count = 1\<rparr>))) < nat MaxCalls"
  using one_window [of "D(h \<mapsto> \<lparr>ce_Start = t, ce_Count = 1\<rparr>)" h t 1 cs Period MaxCalls] assms by force

lemma two_windows:
  assumes "0 < MaxCalls" and "\<And>E. C h = Some E \<Longrightarrow> 0 \<le> ce_Count E"
    and "\<And>t. (h, t) \<in> set calls \<Longrightarrow> t0 \<le> t \<and> t < t0 + Period"
  shows "accepted h (serve Period MaxCalls calls C)
      \<le> nat MaxCalls + (case C h of None \<Rightarrow> 0 | Some E \<Rightarrow> nat (MaxCalls - ce_Count E))"
  using assms(2,3)
proof (induction calls arbitrary: C)
  case (Cons call calls)
  obtain k t where call: "call = (k, t)" by (cases call)
  obtain l C' where r: "count_call Period MaxCalls k t C = (l, C')" by (metis prod.exhaust)
  have later: "\<And>t. (h, t) \<in> set calls \<Longrightarrow> t0 \<le> t \<and> t < t0 + Period" using Cons.prems(2) by simp
  show ?case
  proof (cases "k = h")
    case False
    then have "C' h = C h" using count_call_other [OF False, of Period MaxCalls t C] r by simp
    then show ?thesis using Cons.IH [of C'] Cons.prems(1) later call False r by simp
  next
    case True
    have t: "t0 \<le> t" using Cons.prems(2) call True by simp
    show ?thesis
    proof (cases "C h")
      case None
      then have "l = False \<and> C' = C(h \<mapsto> \<lparr>ce_Start = t, ce_Count = 1\<rparr>)"
        using r True by (simp add: count_call_def)
      moreover have "accepted h (serve Period MaxCalls calls (C(h \<mapsto> \<lparr>ce_Start = t, ce_Count = 1\<rparr>))) < nat MaxCalls"
        using later by (intro fresh_window [OF assms(1) t]) auto
      ultimately show ?thesis using call True r None by simp
    next
      case (Some E)
      show ?thesis
      proof (cases "t - ce_Start E < Period")
        case True
        then have l: "l \<longleftrightarrow> MaxCalls < ce_Count E + 1" "C' h = Some (E\<lparr>ce_Count := ce_Count E + 1\<rparr>)"
          using r Some \<open>k = h\<close> by (auto simp: count_call_def Let_def)
        have "0 \<le> ce_Count E" using Cons.prems(1) Some by simp
        then have "accepted h (serve Period MaxCalls calls C') \<le> nat MaxCalls + nat (MaxCalls - (ce_Count E + 1))"
          using Cons.IH [of C'] later l(2) by simp
        then show ?thesis using call \<open>k = h\<close> r l(1) Some by simp arith
      next
        case False
        then have "l = False \<and> C' = C(h \<mapsto> \<lparr>ce_Start = t, ce_Count = 1\<rparr>)"
          using r Some \<open>k = h\<close> by (cases E) (simp add: count_call_def)
        moreover have "accepted h (serve Period MaxCalls calls (C(h \<mapsto> \<lparr>ce_Start = t, ce_Count = 1\<rparr>))) < nat MaxCalls"
          using later by (intro fresh_window [OF assms(1) t]) auto
        ultimately show ?thesis using call \<open>k = h\<close> r by simp
      qed
    qed
  qed
qed simp



end
