(* ===== verification/Request.thy ===== *)
theory Request
  imports AuthClient RateLimiter
begin

text \<open>
  What happens to a request before a handler sees it, \<^verbatim>\<open>src/framework/RESTAPI_Handler.h\<close>: the path is
  matched against the patterns of the handlers, the body is parsed, and the request passes the rate
  limiter, the list of allowed methods and the check of its token or key.
\<close>

section \<open>Routing\<close>

text \<open>
  \<^verbatim>\<open>ParseBindings\<close>: items of the path against items of a pattern.  An item in braces matches anything
  and binds its name in lower case; the entry in front is the one in force.  Bindings of a pattern
  that fails later are not removed.
\<close>

definition binding_name :: "platform \<Rightarrow> string \<Rightarrow> string" where
  "binding_name P item = po_toLower P (take (length item - 2) (drop 1 item))"

fun match_items ::
  "platform \<Rightarrow> string list \<Rightarrow> string list \<Rightarrow> (string \<times> string) list \<Rightarrow> bool \<times> (string \<times> string) list" where
  "match_items P (p # ps) (e # es) b =
     (if p = e then match_items P ps es b
      else if take 1 e = ''{'' then match_items P ps es ((binding_name P e, p) # b)
      else (False, b))"
| "match_items P _ _ b = (True, b)"

fun match_endpoints ::
  "platform \<Rightarrow> string list \<Rightarrow> string list \<Rightarrow> (string \<times> string) list \<Rightarrow> bool \<times> (string \<times> string) list" where
  "match_endpoints P items [] b = (False, b)"
| "match_endpoints P items (EndPoint # eps) b = (let params = po_tokens P EndPoint ''/'' in
     if length items \<noteq> length params then match_endpoints P items eps b
     else (case match_items P items params b of
        (True, b') \<Rightarrow> (True, b') | (False, b') \<Rightarrow> match_endpoints P items eps b'))"

definition ParseBindings :: "platform \<Rightarrow> string \<Rightarrow> string list \<Rightarrow> bool \<times> (string \<times> string) list" where
  "ParseBindings P path EndPoints = match_endpoints P (po_tokens P path ''/'') EndPoints []"

text \<open>The process: the hash of its public end point, \<^verbatim>\<open>std::hash\<close>, and the shared caches.\<close>

record server =
  sr_MyHash :: string
  sr_str_hash :: "string \<Rightarrow> uint64"
  sr_auth :: AuthClient
  sr_rates :: rate_cache

text \<open>What the constructor of a handler class passes to \<^verbatim>\<open>RESTAPIHandler\<close>, its paths and its methods.\<close>

record handler_class =
  hc_PathName :: "string list"
  hc_Methods :: "string list"
  hc_AlwaysAuthorize :: bool
  hc_RateLimited :: bool
  hc_Interval :: int
  hc_MaxCalls :: int
  hc_SubOnly :: bool
  hc_DoGet :: "handler \<Rightarrow> server \<Rightarrow> server io"
  hc_DoPost :: "handler \<Rightarrow> server \<Rightarrow> server io"
  hc_DoPut :: "handler \<Rightarrow> server \<Rightarrow> server io"
  hc_DoDelete :: "handler \<Rightarrow> server \<Rightarrow> server io"

text \<open>A method that leaves the process as it is, and a method with an empty body.\<close>

definition stateless :: "(handler \<Rightarrow> unit io) \<Rightarrow> handler \<Rightarrow> server \<Rightarrow> server io" where
  "stateless DoX H S = do { DoX H; ret S }"

definition empty_method :: "handler \<Rightarrow> server \<Rightarrow> server io" where
  "empty_method = stateless (\<lambda>_. ret ())"

text \<open>A path without a handler: no method is allowed.\<close>

definition UnknownRequestHandler :: handler_class where
  "UnknownRequestHandler = \<lparr>hc_PathName = [], hc_Methods = [], hc_AlwaysAuthorize = True, hc_RateLimited = False,
     hc_Interval = 1000, hc_MaxCalls = 100, hc_SubOnly = False, hc_DoGet = empty_method, hc_DoPost = empty_method,
     hc_DoPut = empty_method, hc_DoDelete = empty_method\<rparr>"

fun Router :: "platform \<Rightarrow> handler_class list \<Rightarrow> string \<Rightarrow> handler_class \<times> (string \<times> string) list" where
  "Router P [] path = (UnknownRequestHandler, [])"
| "Router P (T # Ts) path = (case ParseBindings P path (hc_PathName T) of
     (True, b) \<Rightarrow> (T, b) | (False, _) \<Rightarrow> Router P Ts path)"

section \<open>Query parameters\<close>

record QueryBlock =
  qb_StartDate :: uint64
  qb_EndDate :: uint64
  qb_Offset :: uint64
  qb_Limit :: uint64
  qb_LogType :: uint64
  qb_SerialNumber :: string
  qb_Filter :: string
  qb_Select :: "string list"
  qb_Lifetime :: bool
  qb_LastOnly :: bool
  qb_Newest :: bool
  qb_CountOnly :: bool
  qb_AdditionalInfo :: bool

definition is_number :: "string \<Rightarrow> bool" where
  "is_number s \<longleftrightarrow> s \<noteq> [] \<and> list_all is_digit s"

definition is_bool :: "string \<Rightarrow> bool" where
  "is_bool s \<longleftrightarrow> s = ''true'' \<or> s = ''false''"

text \<open>\<^verbatim>\<open>std::stoull\<close> of a string of digits; \<open>None\<close> is the \<^verbatim>\<open>std::out_of_range\<close> it throws.\<close>

definition stoull :: "string \<Rightarrow> uint64 option" where
  "stoull s = (let n = foldl (\<lambda>n c. 10 * n + (chr_code c - 48)) 0 s in if n < 2 ^ 64 then Some (of_nat n) else None)"

definition GetNumParameter :: "(string \<times> string) list \<Rightarrow> string \<Rightarrow> uint64 \<Rightarrow> uint64 option" where
  "GetNumParameter params name dflt = (case map_of params name of None \<Rightarrow> Some dflt
     | Some v \<Rightarrow> if is_number v then stoull v else Some dflt)"

definition GetBoolParameter :: "(string \<times> string) list \<Rightarrow> string \<Rightarrow> bool \<Rightarrow> bool" where
  "GetBoolParameter params name dflt = (case map_of params name of None \<Rightarrow> dflt
     | Some v \<Rightarrow> if is_bool v then v = ''true'' else dflt)"

definition GetStrParameter :: "(string \<times> string) list \<Rightarrow> string \<Rightarrow> string \<Rightarrow> string" where
  "GetStrParameter params name dflt = (case map_of params name of None \<Rightarrow> dflt | Some v \<Rightarrow> v)"

definition InitQueryBlock :: "platform \<Rightarrow> (string \<times> string) list \<Rightarrow> QueryBlock option" where
  "InitQueryBlock P params = do {
     StartDate \<leftarrow> GetNumParameter params ''startDate'' 0;
     EndDate \<leftarrow> GetNumParameter params ''endDate'' 0;
     Offset \<leftarrow> GetNumParameter params ''offset'' 0;
     Limit \<leftarrow> GetNumParameter params ''limit'' 100;
     LogType \<leftarrow> GetNumParameter params ''logType'' 0;
     Some \<lparr>qb_StartDate = StartDate, qb_EndDate = EndDate, qb_Offset = (if Offset < 1 then 0 else Offset),
       qb_Limit = Limit, qb_LogType = LogType, qb_SerialNumber = GetStrParameter params ''serialNumber'' [],
       qb_Filter = GetStrParameter params ''filter'' [],
       qb_Select = po_tokens P (GetStrParameter params ''select'' []) '','',
       qb_Lifetime = GetBoolParameter params ''lifetime'' False,
       qb_LastOnly = GetBoolParameter params ''lastOnly'' False,
       qb_Newest = GetBoolParameter params ''newest'' False,
       qb_CountOnly = GetBoolParameter params ''countOnly'' False,
       qb_AdditionalInfo = GetBoolParameter params ''withExtendedInfo'' False\<rparr>
   }"

section \<open>Handling a request\<close>

text \<open>
  A request as Poco presents it: \<open>rq_json\<close> is what the parser reads from the body (\<open>None\<close> when it
  throws), \<open>rq_oauth\<close> the scheme and token of \<^verbatim>\<open>OAuth20Credentials\<close> (\<open>None\<close> when it throws), and
  \<open>rq_header\<close> the lookup of a header.
\<close>

record http_request =
  rq_method :: string
  rq_path :: string
  rq_host :: string
  rq_params :: "(string \<times> string) list"
  rq_length :: int
  rq_is_json :: bool
  rq_json :: "json option"
  rq_header :: "string \<Rightarrow> string option"
  rq_oauth :: "(string \<times> string) option"

definition parse_body :: "http_request \<Rightarrow> jobj ptr option" where
  "parse_body req = (if rq_length req > 0 \<and> rq_is_json req
     then (case rq_json req of Some (JObject ob) \<Rightarrow> Some (Some ob) | _ \<Rightarrow> None) else Some None)"

definition IsValidAPIKEY :: "server \<Rightarrow> http_request \<Rightarrow> bool" where
  "IsValidAPIKEY S req \<longleftrightarrow> rq_header req ''X-API-KEY'' = Some (sr_MyHash S)"

definition bearer_token :: "http_request \<Rightarrow> string" where
  "bearer_token req = (case rq_oauth req of Some (scheme, token) \<Rightarrow> if scheme = ''Bearer'' then token else []
     | None \<Rightarrow> [])"

definition handler_IsAuthorized ::
  "platform \<Rightarrow> bool \<Rightarrow> bool \<Rightarrow> http_request \<Rightarrow> server \<Rightarrow> (bool \<times> auth_result \<times> AuthClient) io" where
  "handler_IsAuthorized P Internal Sub req S =
     (if Internal \<and> rq_header req ''X-INTERNAL-NAME'' \<noteq> None
      then ret (IsValidAPIKEY S req, auth_fresh\<lparr>ar_Contacted := True\<rparr>, sr_auth S)
      else (case rq_header req ''X-API-KEY'' of
          Some k \<Rightarrow> if \<not> Internal then IsValidApiKey P k auth_fresh (sr_auth S)
             else IsAuthorized P (bearer_token req) Sub auth_fresh (sr_auth S)
        | None \<Rightarrow> IsAuthorized P (bearer_token req) Sub auth_fresh (sr_auth S)))"

text \<open>
  The check of the role that \<^verbatim>\<open>handleRequest\<close> calls is the one of the base class; the handlers of actions
  and clients declare a function of the same name with other parameters, which nothing calls.
\<close>

definition RoleIsAuthorized :: "string \<Rightarrow> string \<Rightarrow> bool" where
  "RoleIsAuthorized path verb = True"

definition action_RoleIsAuthorized :: "UserInfoAndPolicy \<Rightarrow> bool" where
  "action_RoleIsAuthorized u \<longleftrightarrow> ui_userRole (up_userinfo u) = SUBSCRIBER"

definition request_handler :: "http_request \<Rightarrow> (string \<times> string) list \<Rightarrow> jobj ptr \<Rightarrow> UserInfoAndPolicy \<Rightarrow> handler" where
  "request_handler req bindings body u = \<lparr>h_method = rq_method req, h_bindings = bindings, h_params = rq_params req,
     h_body = body, h_id = ui_id (up_userinfo u), h_owner = ui_owner (up_userinfo u),
     h_email = ui_email (up_userinfo u), h_token = wt_access_token (up_webtoken u),
     h_role = ui_userRole (up_userinfo u)\<rparr>"

definition dispatch :: "handler_class \<Rightarrow> handler \<Rightarrow> server \<Rightarrow> server io" where
  "dispatch K H S = (if h_method H = ''GET'' then hc_DoGet K H S
     else if h_method H = ''POST'' then hc_DoPost K H S
     else if h_method H = ''DELETE'' then hc_DoDelete K H S
     else if h_method H = ''PUT'' then hc_DoPut K H S
     else do { BadRequest H Errors_UnsupportedHTTPMethod []; ret S })"

definition rate_limited :: "handler_class \<Rightarrow> http_request \<Rightarrow> server \<Rightarrow> (bool \<times> rate_cache) io" where
  "rate_limited K req S = (if hc_RateLimited K
     then do { us \<leftarrow> read_clock; ret (IsRateLimited (sr_str_hash S) (rq_path req) (rq_host req) (us div 1000)
                 (hc_Interval K) (hc_MaxCalls K) (sr_rates S)) }
     else ret (False, sr_rates S))"

definition refuse :: "handler \<Rightarrow> auth_result \<Rightarrow> unit io" where
  "refuse H R = UnAuthorized H (if ar_Expired R then Errors_EXPIRED_TOKEN
     else if ar_Contacted R then Errors_INVALID_TOKEN else Errors_SECURITY_SERVICE_UNREACHABLE)"

text \<open>A standard exception of \<^verbatim>\<open>stoull\<close> is not caught: the connection ends without a response.\<close>

definition handleRequest ::
  "platform \<Rightarrow> bool \<Rightarrow> handler_class \<Rightarrow> (string \<times> string) list \<Rightarrow> http_request \<Rightarrow> server \<Rightarrow> server io" where
  "handleRequest P Internal K bindings req S0 = (let H0 = request_handler req bindings None UserInfoAndPolicy_fresh in
     case parse_body req of
       None \<Rightarrow> do { BadRequest H0 Errors_InternalError []; ret S0 }
     | Some body \<Rightarrow> do {
         (limited, rates) \<leftarrow> rate_limited K req S0;
         let S = S0\<lparr>sr_rates := rates\<rparr>;
         (if limited then do { UnAuthorized H0 Errors_RATE_LIMIT_EXCEEDED; ret S }
          else if rq_method req = ''OPTIONS'' then do { send HTTP_OK None; ret S }
          else if rq_method req \<notin> set (hc_Methods K) then do { BadRequest H0 Errors_UnsupportedHTTPMethod []; ret S }
          else do {
            (okv, R, A) \<leftarrow> (if hc_AlwaysAuthorize K then handler_IsAuthorized P Internal (hc_SubOnly K) req S
              else ret (True, auth_fresh, sr_auth S));
            let S' = S\<lparr>sr_auth := A\<rparr>;
            (if \<not> okv then do { refuse H0 R; ret S' }
             else if \<not> RoleIsAuthorized (rq_path req) (rq_method req)
             then do { UnAuthorized H0 Errors_ACCESS_DENIED; ret S' }
             else (case InitQueryBlock P (rq_params req) of
                 None \<Rightarrow> ret S'
               | Some _ \<Rightarrow> dispatch K (request_handler req bindings body (ar_UInfo R)) S'))
          })
       })"

section \<open>Who gets through\<close>

text \<open>A question to the security service.\<close>

definition security_call :: "api_call \<Rightarrow> bool" where
  "security_call c \<longleftrightarrow> c_verb c = ''GET'' \<and> c_type c = uSERVICE_SECURITY
     \<and> c_path c \<in> {''/api/v1/validateSubToken'', ''/api/v1/validateToken'', ''/api/v1/validateApiKey''}"

lemma emits_auth:
  "emits security_call (IsAuthorized P tok Sub R A)" "emits security_call (IsValidApiKey P tok R A)"
  unfolding auth_defs OpenAPIRequestGet_def Let_def
  by (intro emits_intros emits_transmit; simp add: security_call_def)+

lemma silent_auth [replies_intros]:
  "silent (IsAuthorized P tok Sub R A)" "silent (IsValidApiKey P tok R A)"
  "silent (handler_IsAuthorized P Internal Sub req S)" "silent (rate_limited K req S)"
  unfolding handler_IsAuthorized_def rate_limited_def auth_defs Let_def by (intro replies_intros)+

text \<open>The security service named the user for the key or the token of the request.\<close>

definition vouched :: "platform \<Rightarrow> world \<Rightarrow> http_request \<Rightarrow> UserInfoAndPolicy \<Rightarrow> bool" where
  "vouched P w req u \<longleftrightarrow> (case rq_header req ''X-API-KEY'' of Some k \<Rightarrow> key_answer P w k u
     | None \<Rightarrow> token_answer P w (bearer_token req) u)"

lemma handler_IsAuthorized_run:
  assumes "auth_reachable P (sr_auth S, w)"
    and "run_state (handler_IsAuthorized P False Sub req S) w = ((b, R, A), w')"
  shows "extends w w'" and "b \<Longrightarrow> vouched P w' req (ar_UInfo R)"
proof -
  note inv = auth_reachable_inv [OF assms(1), unfolded auth_inv.simps]
  have "extends w w' \<and> (b \<longrightarrow> vouched P w' req (ar_UInfo R))"
  proof (cases "rq_header req ''X-API-KEY''")
    case None
    then have r: "run_state (IsAuthorized P (bearer_token req) Sub auth_fresh (sr_auth S)) w = ((b, R, A), w')"
      using assms(2) by (simp add: handler_IsAuthorized_def)
    show ?thesis using IsAuthorized_run(1,4) [OF r] inv answer_extends(1) None unfolding vouched_def by force
  next
    case (Some k)
    then have r: "run_state (IsValidApiKey P k auth_fresh (sr_auth S)) w = ((b, R, A), w')"
      using assms(2) by (simp add: handler_IsAuthorized_def)
    show ?thesis using IsValidApiKey_run(1,4) [OF r] inv answer_extends(2) Some unfolding vouched_def by force
  qed
  then show "extends w w'" and "b \<Longrightarrow> vouched P w' req (ar_UInfo R)" by blast+
qed

lemma rate_limited_run:
  assumes "run_state (rate_limited K req S) w = (r, w')"
  shows "\<exists>n. w' = w\<lparr>w_ticks := n\<rparr>"
  using assms by (cases w) (auto simp: rate_limited_def read_clock_def split: if_splits)

text \<open>
  The end of a request that no handler sees: no further call and at most one response, a 400 or a
  403, or the 200 of a preflight request.
\<close>

definition turned_down :: "http_request \<Rightarrow> world \<Rightarrow> world \<Rightarrow> bool" where
  "turned_down req w w' \<longleftrightarrow> w_calls w' = w_calls w \<and> (\<exists>rs. w_out w' = w_out w @ rs \<and> length rs \<le> 1
     \<and> list_all (\<lambda>r. rs_status r \<in> {HTTP_BAD_REQUEST, HTTP_FORBIDDEN}
         \<or> rs_status r = HTTP_OK \<and> rq_method req = ''OPTIONS'') rs)"

lemma turned_down_simps [simp]:
  "turned_down req w w"
  "turned_down req w (snd (run_state (BadRequest H E x) w))"
  "turned_down req w (snd (run_state (UnAuthorized H E) w))"
  "turned_down req w (snd (run_state (refuse H R) w))"
  "rq_method req = ''OPTIONS'' \<Longrightarrow> turned_down req w (snd (run_state (send HTTP_OK b) w))"
  by (simp_all add: turned_down_def response_defs refuse_def send_def)

lemma turned_down_ticks: "turned_down req (w\<lparr>w_ticks := n\<rparr>) w' \<longleftrightarrow> turned_down req w w'"
  by (simp add: turned_down_def)

text \<open>The request after the rate limiter and the list of methods.\<close>

definition checked_request ::
  "platform \<Rightarrow> bool \<Rightarrow> handler_class \<Rightarrow> (string \<times> string) list \<Rightarrow> http_request \<Rightarrow> jobj ptr \<Rightarrow> server \<Rightarrow> server io" where
  "checked_request P Internal K bindings req body S = do {
     (okv, R, A) \<leftarrow> (if hc_AlwaysAuthorize K then handler_IsAuthorized P Internal (hc_SubOnly K) req S
       else ret (True, auth_fresh, sr_auth S));
     (if \<not> okv then do { refuse (request_handler req bindings None UserInfoAndPolicy_fresh) R; ret (S\<lparr>sr_auth := A\<rparr>) }
      else (case InitQueryBlock P (rq_params req) of None \<Rightarrow> ret (S\<lparr>sr_auth := A\<rparr>)
        | Some _ \<Rightarrow> dispatch K (request_handler req bindings body (ar_UInfo R)) (S\<lparr>sr_auth := A\<rparr>))) }"

lemma handleRequest_split:
  obtains (down) "turned_down req w (snd (run_state (handleRequest P Internal K bindings req S) w))"
  | (checked) n body rates where "rq_method req \<in> set (hc_Methods K)"
      "run_state (handleRequest P Internal K bindings req S) w
         = run_state (checked_request P Internal K bindings req body (S\<lparr>sr_rates := rates\<rparr>)) (w\<lparr>w_ticks := n\<rparr>)"
proof -
  obtain limited rates w1 where r: "run_state (rate_limited K req S) w = ((limited, rates), w1)"
    by (metis prod.exhaust)
  then obtain n where n: "w1 = w\<lparr>w_ticks := n\<rparr>" using rate_limited_run by blast
  have td: "turned_down req w (snd (case run_state m (w\<lparr>w_ticks := n\<rparr>) of (_, v) \<Rightarrow> (x, v)))"
    if "turned_down req (w\<lparr>w_ticks := n\<rparr>) (snd (run_state m (w\<lparr>w_ticks := n\<rparr>)))" for m :: "unit io" and x :: server
    using that by (simp add: turned_down_ticks case_prod_unfold)
  have td0: "turned_down req w (snd (case run_state (BadRequest H E y) w of (_, v) \<Rightarrow> (x, v)))"
    for H E y and x :: server
    by (simp add: case_prod_unfold)
  show thesis
  proof (cases "parse_body req")
    case None
    then show thesis using that(1) td0 by (simp add: handleRequest_def Let_def)
  next
    case (Some body)
    consider "limited \<or> rq_method req = ''OPTIONS'' \<or> rq_method req \<notin> set (hc_Methods K)"
      | "\<not> limited" "rq_method req \<noteq> ''OPTIONS''" "rq_method req \<in> set (hc_Methods K)" by blast
    then show thesis
    proof cases
      case 1
      then have "turned_down req w (snd (run_state (handleRequest P Internal K bindings req S) w))"
        using Some r n td by (auto simp: handleRequest_def Let_def)
      then show thesis by (rule that(1))
    next
      case 2
      have "run_state (handleRequest P Internal K bindings req S) w
          = run_state (checked_request P Internal K bindings req body (S\<lparr>sr_rates := rates\<rparr>)) (w\<lparr>w_ticks := n\<rparr>)"
        unfolding handleRequest_def checked_request_def RoleIsAuthorized_def not_True_eq_False if_False Let_def
        using Some r n 2 by simp
      with 2(3) show thesis by (rule that(2))
    qed
  qed
qed

lemma handleRequest_run:
  assumes "auth_reachable P (sr_auth S, w)" and "hc_AlwaysAuthorize K"
    and "w' = snd (run_state (handleRequest P False K bindings req S) w)"
  shows "\<exists>w1 cs. w_calls w1 = w_calls w @ cs \<and> list_all security_call cs \<and> w_out w1 = w_out w \<and> w_net w1 = w_net w
    \<and> (turned_down req w1 w' \<or> (\<exists>body u S1. rq_method req \<in> set (hc_Methods K) \<and> vouched P w1 req u
         \<and> w' = snd (run_state (dispatch K (request_handler req bindings body u) S1) w1)))"
proof (cases rule: handleRequest_split [of req w P False K bindings S])
  case down
  then show ?thesis using assms(3) by (intro exI [of _ w] exI [of _ "[]"]) simp
next
  case (checked n body rates)
  let ?S = "S\<lparr>sr_rates := rates\<rparr>" and ?v = "w\<lparr>w_ticks := n\<rparr>"
  let ?auth = "handler_IsAuthorized P False (hc_SubOnly K) req ?S"
  obtain b R A w1 where a: "run_state ?auth ?v = ((b, R, A), w1)" by (metis prod.exhaust)
  have "auth_reachable P (sr_auth ?S, ?v)"
    using auth_reachable.step [OF assms(1) auth_step.other [of w ?v]] by (simp add: extends_def)
  note v = handler_IsAuthorized_run [OF this a]
  have e: "emits security_call ?auth"
    unfolding handler_IsAuthorized_def by (intro emits_intros emits_auth)
  obtain cs where cs: "w_calls w1 = w_calls w @ cs" "list_all security_call cs"
    using emitsE [OF e, of ?v] a by auto
  have out: "w_out w1 = w_out w" "w_net w1 = w_net w"
    using silentD [OF silent_auth(3), of P False "hc_SubOnly K" req ?S ?v] a v(1) by (simp_all add: extends_def)
  have "turned_down req w1 w' \<or> (b \<and> w' = snd (run_state (dispatch K (request_handler req bindings body (ar_UInfo R)) (?S\<lparr>sr_auth := A\<rparr>)) w1))"
    using a assms(2,3) checked(2) by (simp add: checked_request_def case_prod_unfold split: option.splits)
  then show ?thesis using cs out v(2) checked(1) by blast
qed


lemma once_then: "answers_once m \<Longrightarrow> answers_once (m \<bind> (\<lambda>_. ret x))" for m :: "unit io"
  by (simp add: answers_defs case_prod_unfold)

lemma once_stateless: "answers_once (DoX H) \<Longrightarrow> answers_once (stateless DoX H S)"
  unfolding stateless_def by (rule once_then)

lemma emits_stateless: "emits C (DoX H) \<Longrightarrow> emits C (stateless DoX H S)"
  unfolding stateless_def by (intro emits_intros)

lemma once_handleRequest:
  assumes "\<And>H S. h_method H \<in> set (hc_Methods K) \<Longrightarrow> h_method H \<noteq> ''OPTIONS'' \<Longrightarrow> answers_once (dispatch K H S)"
    and "InitQueryBlock P (rq_params req) \<noteq> None"
  shows "answers_once (handleRequest P Internal K bindings req S)"
proof -
  obtain qb where q: "InitQueryBlock P (rq_params req) = Some qb" using assms(2) by blast
  have f: "answers_once (refuse H R)" for H R unfolding refuse_def by (intro replies_intros)
  have d: "answers_once (dispatch K (request_handler req bindings body u) S')"
    if "rq_method req \<in> set (hc_Methods K)" "rq_method req \<noteq> ''OPTIONS''" for body u S'
    using that by (intro assms(1)) (simp_all add: request_handler_def)
  show ?thesis
    unfolding handleRequest_def Let_def q option.case by (intro replies_intros once_then d f) simp_all
qed

text \<open>
  Every request gets exactly one response, when the method of the handler class for each verb it
  allows sends one and no numeric query parameter exceeds 64 bits.  With such a parameter, a request
  that needs no authorisation and passes the other checks ends without any response.
\<close>

theorem handleRequest_answers_once:
  assumes "\<And>H S. h_method H \<in> set (hc_Methods K) \<Longrightarrow> h_method H \<noteq> ''OPTIONS'' \<Longrightarrow> answers_once (dispatch K H S)"
  shows "(InitQueryBlock P (rq_params req) \<noteq> None \<longrightarrow> answers_once (handleRequest P Internal K bindings req S))
    \<and> (InitQueryBlock P (rq_params req) = None \<and> \<not> hc_AlwaysAuthorize K \<and> \<not> hc_RateLimited K
       \<and> parse_body req \<noteq> None \<and> rq_method req \<noteq> ''OPTIONS'' \<and> rq_method req \<in> set (hc_Methods K)
      \<longrightarrow> silent (handleRequest P Internal K bindings req S))"
proof (intro conjI impI)
  show "InitQueryBlock P (rq_params req) \<noteq> None \<Longrightarrow> answers_once (handleRequest P Internal K bindings req S)"
    by (rule once_handleRequest) (rule assms)
qed (auto simp: handleRequest_def Let_def rate_limited_def RoleIsAuthorized_def answers_defs)

definition notfound_class :: handler_class where
  "notfound_class = UnknownRequestHandler\<lparr>hc_Methods := [''GET''], hc_AlwaysAuthorize := False, hc_DoGet := stateless NotFound,
     hc_DoPost := stateless NotFound, hc_DoPut := stateless NotFound, hc_DoDelete := stateless NotFound\<rparr>"

definition sample_request :: "(string \<times> string) list \<Rightarrow> http_request" where
  "sample_request params = \<lparr>rq_method = ''GET'', rq_path = ''/api/v1/groups'', rq_host = ''::1'', rq_params = params,
     rq_length = 0, rq_is_json = False, rq_json = None, rq_header = (\<lambda>_. None), rq_oauth = Some (''Bearer'', ''tok'')\<rparr>"

definition sample_server :: server where
  "sample_server = \<lparr>sr_MyHash = ''h'', sr_str_hash = (\<lambda>_. 0),
     sr_auth = \<lparr>au_Cache = Map.empty, au_ApiKeyCache = Map.empty\<rparr>, sr_rates = Map.empty\<rparr>"

theorem handleRequest_answers_once_witness:
  "answers_once (handleRequest ref_platform False notfound_class [] (sample_request []) sample_server)
   \<and> silent (handleRequest ref_platform False notfound_class [] (sample_request [(''limit'', ''99999999999999999999'')]) sample_server)"
proof -
  have m: "answers_once (dispatch notfound_class H S)" if "h_method H \<in> set (hc_Methods notfound_class)" for H S
    using that by (simp add: dispatch_def notfound_class_def once_responses once_stateless)
  have q: "InitQueryBlock ref_platform [] \<noteq> None"
    "InitQueryBlock ref_platform [(''limit'', ''99999999999999999999'')] = None"
    by (simp_all add: InitQueryBlock_def GetNumParameter_def is_number_def stoull_def is_digit_def)
  show ?thesis
    using handleRequest_answers_once [OF m, of ref_platform "sample_request []" False "[]" sample_server]
      handleRequest_answers_once [OF m, of ref_platform "sample_request [(''limit'', ''99999999999999999999'')]" False "[]" sample_server] q
    by (simp add: sample_request_def parse_body_def) (simp add: notfound_class_def UnknownRequestHandler_def)
qed


end
