(* ===== verification/Regex.thy ===== *)
theory Regex
  imports Prelude
begin

text \<open>
  \<^verbatim>\<open>std::regex_match\<close> for the patterns the portal uses, and \<^verbatim>\<open>ValidEMailAddress\<close> of
  \<^verbatim>\<open>src/framework/utils.cpp\<close>.  A pattern is a regular expression over character classes; it is matched
  by derivatives, which agree with the language the pattern denotes.
\<close>

section \<open>Patterns\<close>

datatype rexp = Never | Empty | Class "char \<Rightarrow> bool" | Alt rexp rexp | Seq rexp rexp | Star rexp

definition Lit :: "char \<Rightarrow> rexp" where "Lit c = Class (\<lambda>d. d = c)"
definition Plus :: "rexp \<Rightarrow> rexp" where "Plus r = Seq r (Star r)"
definition Opt :: "rexp \<Rightarrow> rexp" where "Opt r = Alt r Empty"

inductive matches :: "rexp \<Rightarrow> string \<Rightarrow> bool" where
  empty: "matches Empty []"
| cls: "p c \<Longrightarrow> matches (Class p) [c]"
| alt1: "matches r s \<Longrightarrow> matches (Alt r r') s"
| alt2: "matches r' s \<Longrightarrow> matches (Alt r r') s"
| seq: "matches r s \<Longrightarrow> matches r' s' \<Longrightarrow> matches (Seq r r') (s @ s')"
| star0: "matches (Star r) []"
| star1: "matches r s \<Longrightarrow> matches (Star r) s' \<Longrightarrow> matches (Star r) (s @ s')"

inductive_cases matches_NeverE: "matches Never s"
inductive_cases matches_SeqE: "matches (Seq r r') s"
inductive_cases matches_AltE: "matches (Alt r r') s"
inductive_simps matches_simps: "matches Never s" "matches Empty s" "matches (Class p) s" "matches (Alt r r') s"
  "matches (Seq r r') s"

fun nullable :: "rexp \<Rightarrow> bool" where
  "nullable Never = False"
| "nullable Empty = True"
| "nullable (Class p) = False"
| "nullable (Alt r r') = (nullable r \<or> nullable r')"
| "nullable (Seq r r') = (nullable r \<and> nullable r')"
| "nullable (Star r) = True"

fun deriv :: "char \<Rightarrow> rexp \<Rightarrow> rexp" where
  "deriv c Never = Never"
| "deriv c Empty = Never"
| "deriv c (Class p) = (if p c then Empty else Never)"
| "deriv c (Alt r r') = Alt (deriv c r) (deriv c r')"
| "deriv c (Seq r r') = (if nullable r then Alt (Seq (deriv c r) r') (deriv c r') else Seq (deriv c r) r')"
| "deriv c (Star r) = Seq (deriv c r) (Star r)"

definition regex_match :: "string \<Rightarrow> rexp \<Rightarrow> bool" where
  "regex_match s r = nullable (fold deriv s r)"

section \<open>Derivatives match the language\<close>

lemma nullable_iff: "nullable r \<longleftrightarrow> matches r []"
  by (induction r) (auto simp: matches_simps intro: star0)

lemma star_Cons:
  assumes "matches (Star r) (c # s)"
  shows "\<exists>s1 s2. s = s1 @ s2 \<and> matches r (c # s1) \<and> matches (Star r) s2"
proof -
  have "matches q t \<Longrightarrow> q = Star r \<Longrightarrow> t = c # s \<Longrightarrow>
      \<exists>s1 s2. s = s1 @ s2 \<and> matches r (c # s1) \<and> matches (Star r) s2" for q t
  proof (induction q t rule: matches.induct)
    case (star1 q u u')
    then show ?case by (cases u) auto
  qed auto
  then show ?thesis using assms by blast
qed

lemma deriv_iff: "matches (deriv c r) s \<longleftrightarrow> matches r (c # s)"
proof (induction r arbitrary: s)
  case (Seq r r')
  have "matches (Seq r r') (c # s) \<longleftrightarrow>
      (\<exists>s1 s2. s = s1 @ s2 \<and> matches r (c # s1) \<and> matches r' s2) \<or> nullable r \<and> matches r' (c # s)"
    unfolding matches_simps nullable_iff by (auto simp: Cons_eq_append_conv)
  then show ?case using Seq by (auto simp: matches_simps)
next
  case (Star r)
  show ?case
    using Star star_Cons [of r c s] by (auto simp: matches_simps) (metis append_Cons matches.star1)+
qed (auto simp: matches_simps)

lemma fold_deriv_iff: "matches (fold deriv s r) t \<longleftrightarrow> matches r (s @ t)"
  by (induction s arbitrary: r) (simp_all add: deriv_iff)

lemma regex_match_iff: "regex_match s r \<longleftrightarrow> matches r s"
  by (simp add: regex_match_def nullable_iff fold_deriv_iff)

section \<open>E-mail addresses\<close>

text \<open>\<^verbatim>\<open>[a-z0-9-]\<close> and \<^verbatim>\<open>[_a-z0-9-]\<close>.\<close>

definition domain_char :: "char \<Rightarrow> bool" where
  "domain_char c \<longleftrightarrow> is_lower c \<or> is_digit c \<or> c = CHR ''-''"

definition local_char :: "char \<Rightarrow> bool" where
  "local_char c \<longleftrightarrow> c = CHR ''_'' \<or> domain_char c"

definition email_pattern :: rexp where
  "email_pattern = Seq (Plus (Class local_char)) (Seq (Star (Seq (Lit (CHR ''.'')) (Plus (Class local_char))))
     (Seq (Opt (Seq (Lit (CHR ''+'')) (Plus (Class domain_char)))) (Seq (Lit (CHR ''@''))
     (Seq (Plus (Class domain_char)) (Star (Seq (Lit (CHR ''.'')) (Plus (Class domain_char))))))))"

definition ValidEMailAddress :: "string \<Rightarrow> bool" where
  "ValidEMailAddress email = regex_match email email_pattern"

text \<open>Labels separated by dots, each of them non-empty.\<close>

definition label_of :: "(char \<Rightarrow> bool) \<Rightarrow> string \<Rightarrow> bool" where
  "label_of p l \<longleftrightarrow> l \<noteq> [] \<and> list_all p l"

definition dotted :: "string list \<Rightarrow> string" where
  "dotted ls = concat (map (\<lambda>l. CHR ''.'' # l) ls)"

lemma matches_Lit [simp]: "matches (Lit c) s \<longleftrightarrow> s = [c]"
  by (auto simp: Lit_def matches_simps)

lemma matches_Opt [simp]: "matches (Opt r) s \<longleftrightarrow> s = [] \<or> matches r s"
  by (auto simp: Opt_def matches_simps)

lemma star_iff: "matches (Star r) s \<longleftrightarrow> (\<exists>ss. s = concat ss \<and> (\<forall>u \<in> set ss. matches r u))"
proof
  have "matches q s \<Longrightarrow> q = Star r \<Longrightarrow> \<exists>ss. s = concat ss \<and> (\<forall>u \<in> set ss. matches r u)" for q
  proof (induction q s rule: matches.induct)
    case (star0 q)
    show ?case by (rule exI [of _ "[]"]) simp
  next
    case (star1 q u u')
    then obtain ss where "u' = concat ss" "\<forall>u \<in> set ss. matches r u" by auto
    with star1 show ?case by (intro exI [of _ "u # ss"]) simp
  qed auto
  then show "matches (Star r) s \<Longrightarrow> \<exists>ss. s = concat ss \<and> (\<forall>u \<in> set ss. matches r u)" by blast
next
  assume "\<exists>ss. s = concat ss \<and> (\<forall>u \<in> set ss. matches r u)"
  then obtain ss where s: "s = concat ss" and ss: "\<forall>u \<in> set ss. matches r u" by blast
  show "matches (Star r) s"
    unfolding s using ss by (induction ss) (auto intro: star0 star1)
qed

lemma matches_Seq: "matches (Seq r r') s \<longleftrightarrow> (\<exists>u v. s = u @ v \<and> matches r u \<and> matches r' v)"
  by (rule matches_simps)

lemma Seq_Lit [simp]: "matches (Seq (Lit c) r) s \<longleftrightarrow> (\<exists>v. s = c # v \<and> matches r v)"
  unfolding matches_Seq by simp

lemma star_Class: "matches (Star (Class p)) s \<longleftrightarrow> list_all p s"
proof (induction s)
  case (Cons c s)
  have "matches (Star (Class p)) (c # s) \<longleftrightarrow> matches (Seq (if p c then Empty else Never) (Star (Class p))) s"
    unfolding deriv_iff [symmetric] by simp
  also have "\<dots> \<longleftrightarrow> p c \<and> matches (Star (Class p)) s"
    unfolding matches_Seq by (simp add: matches_simps)
  finally show ?case using Cons by simp
qed (simp add: star0)

lemma matches_Plus [simp]: "matches (Plus (Class p)) s \<longleftrightarrow> label_of p s"
proof
  assume "label_of p s"
  then obtain c t where s: "s = [c] @ t" "p c" "list_all p t" by (cases s) (auto simp: label_of_def)
  then show "matches (Plus (Class p)) s"
    unfolding Plus_def s(1) by (intro seq cls) (simp_all add: star_Class)
next
  assume "matches (Plus (Class p)) s"
  then obtain u v where "s = u @ v" "matches (Class p) u" "list_all p v"
    unfolding Plus_def matches_Seq star_Class by blast
  then show "label_of p s" by (auto simp: matches_simps(3) label_of_def)
qed

lemma dotted_map: "\<forall>u \<in> set ss. \<exists>l. u = CHR ''.'' # l \<and> label_of p l \<Longrightarrow>
    concat ss = dotted (map tl ss) \<and> list_all (label_of p) (map tl ss)"
  by (induction ss) (auto simp: dotted_def)

lemma matches_dotted [simp]:
  "matches (Star (Seq (Lit (CHR ''.'')) (Plus (Class p)))) s \<longleftrightarrow> (\<exists>ls. s = dotted ls \<and> list_all (label_of p) ls)"
  unfolding star_iff Seq_Lit matches_Plus
proof
  assume "\<exists>ss. s = concat ss \<and> (\<forall>u \<in> set ss. \<exists>v. u = CHR ''.'' # v \<and> label_of p v)"
  then show "\<exists>ls. s = dotted ls \<and> list_all (label_of p) ls" using dotted_map by blast
next
  assume "\<exists>ls. s = dotted ls \<and> list_all (label_of p) ls"
  then obtain ls where ls: "s = dotted ls" "list_all (label_of p) ls" by blast
  then show "\<exists>ss. s = concat ss \<and> (\<forall>u \<in> set ss. \<exists>v. u = CHR ''.'' # v \<and> label_of p v)"
    by (intro exI [of _ "map (\<lambda>l. CHR ''.'' # l) ls"]) (auto simp: dotted_def list_all_iff)
qed

lemma matches_labels:
  "matches (Seq (Plus (Class p)) (Seq (Star (Seq (Lit (CHR ''.'')) (Plus (Class p)))) r)) s \<longleftrightarrow>
   (\<exists>l ls v. s = l @ dotted ls @ v \<and> list_all (label_of p) (l # ls) \<and> matches r v)"
  unfolding matches_Seq [of "Plus (Class p)"] matches_Seq [of "Star r'" for r'] matches_Plus matches_dotted
    list.pred_inject by fast

lemma matches_tag:
  "matches (Seq (Opt (Seq (Lit c) (Plus (Class p)))) r) s \<longleftrightarrow>
   (\<exists>tag v. s = tag @ v \<and> (tag = [] \<or> (\<exists>t. tag = c # t \<and> label_of p t)) \<and> matches r v)"
  unfolding matches_Seq [of "Opt r'" for r'] by simp

lemma matches_domain:
  "matches (Seq (Plus (Class p)) (Star (Seq (Lit (CHR ''.'')) (Plus (Class p))))) s \<longleftrightarrow>
   (\<exists>d ds. s = d @ dotted ds \<and> list_all (label_of p) (d # ds))"
  unfolding matches_Seq [of "Plus (Class p)"] matches_Plus matches_dotted list.pred_inject by fast

text \<open>
  (C36) The e-mail addresses accepted at sign-up are exactly those of the form
  \<^verbatim>\<open>a.b.c+tag@d.e.f\<close>: a non-empty list of labels of lower-case letters, digits, hyphens and underscores,
  an optional tag, one at sign and a non-empty list of labels of lower-case letters, digits and
  hyphens, no label empty.
\<close>

theorem ValidEMailAddress_iff:
  "ValidEMailAddress email \<longleftrightarrow> (\<exists>l ls tag d ds. email = l @ dotted ls @ tag @ CHR ''@'' # d @ dotted ds
     \<and> list_all (label_of local_char) (l # ls) \<and> (tag = [] \<or> (\<exists>t. tag = CHR ''+'' # t \<and> label_of domain_char t))
     \<and> list_all (label_of domain_char) (d # ds))"
  unfolding ValidEMailAddress_def regex_match_iff email_pattern_def matches_labels matches_tag Seq_Lit matches_domain
  by fast

end
