(* ===== verification/Proxy.thy ===== *)
theory Proxy
  imports Request Regex
begin

text \<open>
  The handlers that pass a request on to another service, \<^verbatim>\<open>src/framework/API_Proxy.h\<close> and the OAuth2, MFA
  and subscriber handlers of \<^verbatim>\<open>src/RESTAPI\<close>, and the handler of the system configuration,
  \<^verbatim>\<open>src/framework/RESTAPI_SystemConfiguration.h\<close>.  A handler object holds the request it was created for,
  which is an argument here.  Two arguments stand for the libraries: \<open>stream\<close> is what \<^verbatim>\<open>Poco::JSON::Parser\<close> reads
  from the body of the request when the proxy parses it (\<open>None\<close> when it throws; \<^verbatim>\<open>handleRequest\<close> may have
  read the stream before), and \<open>late c\<close> says whether a session that fails on the call \<open>c\<close> fails in
  \<^verbatim>\<open>receiveResponse\<close> and not before.
\<close>

section \<open>The proxy\<close>

definition proxy_headers :: "http_request \<Rightarrow> MicroServiceMeta \<Rightarrow> string \<Rightarrow> (string \<times> string) list" where
  "proxy_headers req Svc public = (case rq_header req ''Authorization'' of
     Some a \<Rightarrow> [(''Authorization'', a)]
   | None \<Rightarrow> [(''X-API-KEY'', ms_AccessKey Svc), (''X-INTERNAL-NAME'', public)])"

definition proxy_body :: "http_request \<Rightarrow> json option \<Rightarrow> jobj option" where
  "proxy_body req stream = (if rq_method req = ''DELETE'' then None
     else (case stream of Some (JObject ob) \<Rightarrow> Some ob | _ \<Rightarrow> None))"

text \<open>The call to the first registered service; \<open>None\<close> when there is none.\<close>

definition proxy_transmit ::
  "platform \<Rightarrow> json option \<Rightarrow> http_request \<Rightarrow> string \<Rightarrow> string \<Rightarrow> nat \<Rightarrow> (api_call \<times> reply option) option io" where
  "proxy_transmit P stream req ServiceType PathRewrite timeout = State (\<lambda>w.
     (case GetServices P ServiceType (w_services w) of
        [] \<Rightarrow> (None, w)
      | Svc # _ \<Rightarrow>
          let c = \<lparr>c_verb = rq_method req, c_type = ServiceType, c_base = ms_PrivateEndPoint Svc, c_path = PathRewrite,
                   c_query = rq_params req, c_body = proxy_body req stream,
                   c_headers = proxy_headers req Svc (w_public w), c_timeout = timeout\<rparr>
          in (Some (c, w_net w (w_calls w) c), w\<lparr>w_calls := w_calls w @ [c]\<rparr>)))"

text \<open>
  An exception of the session ends the proxy without a response, except one of \<^verbatim>\<open>receiveResponse\<close> for
  another method than \<^verbatim>\<open>DELETE\<close>: then the status of the untouched \<^verbatim>\<open>HTTPResponse\<close>, 200, is sent.
\<close>

definition API_Proxy ::
  "platform \<Rightarrow> (api_call \<Rightarrow> bool) \<Rightarrow> json option \<Rightarrow> http_request \<Rightarrow> string \<Rightarrow> string \<Rightarrow> nat \<Rightarrow> unit io" where
  "API_Proxy P late stream req ServiceType PathRewrite timeout = do {
     r \<leftarrow> proxy_transmit P stream req ServiceType PathRewrite timeout;
     (case r of None \<Rightarrow> ret ()
      | Some (c, None) \<Rightarrow> if rq_method req \<noteq> ''DELETE'' \<and> late c then send HTTP_OK None else ret ()
      | Some (c, Some rp) \<Rightarrow>
          if rq_method req = ''DELETE'' then send (rp_status rp) None
          else (case reply_object rp of Some ob \<Rightarrow> send (rp_status rp) (Some (JObject ob))
             | None \<Rightarrow> send (rp_status rp) None))
   }"

section \<open>The handlers\<close>

definition oauth2_Do :: "platform \<Rightarrow> (api_call \<Rightarrow> bool) \<Rightarrow> json option \<Rightarrow> http_request \<Rightarrow> handler \<Rightarrow> unit io" where
  "oauth2_Do P late stream req H = API_Proxy P late stream req uSERVICE_SECURITY ''/api/v1/suboauth2'' 10000"

definition mfa_Do :: "platform \<Rightarrow> (api_call \<Rightarrow> bool) \<Rightarrow> json option \<Rightarrow> http_request \<Rightarrow> handler \<Rightarrow> unit io" where
  "mfa_Do P late stream req H = API_Proxy P late stream req uSERVICE_SECURITY ''/api/v1/submfa'' 10000"

definition subscriber_DoPost :: "platform \<Rightarrow> (api_call \<Rightarrow> bool) \<Rightarrow> json option \<Rightarrow> http_request \<Rightarrow> handler \<Rightarrow> unit io" where
  "subscriber_DoPost P late stream req H =
     (let userName = po_trim P (po_toLower P (GetParameter H ''email'' []));
          registrationId = po_trim P (po_toLower P (GetParameter H ''registrationId'' []))
      in if \<not> ValidEMailAddress userName then BadRequest H Errors_InvalidEmailAddress []
         else if registrationId = [] then BadRequest H Errors_InvalidRegistrationOperatorName []
         else API_Proxy P late stream req uSERVICE_PROVISIONING ''/api/v1/subscriber'' 60000)"

definition subscriber_DoDelete ::
  "platform \<Rightarrow> (api_call \<Rightarrow> bool) \<Rightarrow> json option \<Rightarrow> bool \<Rightarrow> http_request \<Rightarrow> handler \<Rightarrow> server \<Rightarrow> server io" where
  "subscriber_DoDelete P late stream Internal req H S = do {
     (okv, R, A) \<leftarrow> handler_IsAuthorized P Internal True req S;
     (if \<not> okv then refuse H R
      else if ui_id (up_userinfo (ar_UInfo R)) = [] then NotFound H
      else API_Proxy P late stream req uSERVICE_PROVISIONING
        (''/api/v1/subscriber/'' @ ui_id (up_userinfo (ar_UInfo R))) 60000);
     ret (S\<lparr>sr_auth := A\<rparr>)
   }"

text \<open>\<open>config\<close> is the configuration of the process, with the empty string for a key it does not have.\<close>

definition system_configuration_DoGet :: "platform \<Rightarrow> (string \<Rightarrow> string) \<Rightarrow> handler \<Rightarrow> unit io" where
  "system_configuration_DoGet P config H = (let entries = GetParameter H ''entries'' [] in
     if entries = [] then BadRequest H Errors_MissingOrInvalidParameters []
     else ReturnRawJSON (JArray (map (\<lambda>entry. JObject (ExtraSystemConfiguration_to_json
         \<lparr>esc_parameterName = entry, esc_parameterValue = config entry\<rparr> []))
       (map (po_trim P) (po_tokens P entries '','')))))"

definition system_configuration_DoPut :: "handler \<Rightarrow> unit io" where
  "system_configuration_DoPut H = (if h_role H \<noteq> ROOT then UnAuthorized H Errors_ACCESS_DENIED
     else BadRequest H Errors_NotImplemented [])"

definition system_configuration_DoDelete :: "handler \<Rightarrow> unit io" where
  "system_configuration_DoDelete H = (if h_role H \<noteq> ROOT then UnAuthorized H Errors_ACCESS_DENIED
     else BadRequest H Errors_NotImplemented [])"

section \<open>What the proxy sends\<close>

text \<open>The one call of the proxy: the request under the new path, with the credentials of the client if it sent any.\<close>

definition forwarded :: "http_request \<Rightarrow> string \<Rightarrow> string \<Rightarrow> api_call \<Rightarrow> bool" where
  "forwarded req Type path c \<longleftrightarrow> c_verb c = rq_method req \<and> c_type c = Type \<and> c_path c = path
     \<and> c_query c = rq_params req \<and> (\<forall>a. rq_header req ''Authorization'' = Some a \<longrightarrow> c_headers c = [(''Authorization'', a)])"

lemma emits_proxy: "(\<And>c. forwarded req Type path c \<Longrightarrow> C c) \<Longrightarrow> emits C (API_Proxy P late stream req Type path t)"
  unfolding API_Proxy_def
proof (intro emits_intros)
  assume c: "\<And>c. forwarded req Type path c \<Longrightarrow> C c"
  show "emits C (proxy_transmit P stream req Type path t)"
    by (rule emitsI) (auto simp: proxy_transmit_def forwarded_def proxy_headers_def Let_def split: list.splits intro!: c)
qed

lemma silent_proxy_transmit: "silent (proxy_transmit P stream req Type path t)"
  by (rule silentI) (auto simp: proxy_transmit_def Let_def split: list.splits)

definition proxy_response :: "(api_call \<Rightarrow> bool) \<Rightarrow> http_request \<Rightarrow> api_call \<Rightarrow> reply option \<Rightarrow> response list" where
  "proxy_response late req c r = (case r of
     None \<Rightarrow> if rq_method req \<noteq> ''DELETE'' \<and> late c then [\<lparr>rs_status = HTTP_OK, rs_body = None\<rparr>] else []
   | Some rp \<Rightarrow> [\<lparr>rs_status = rp_status rp, rs_body = (if rq_method req = ''DELETE'' then None
        else map_option JObject (reply_object rp))\<rparr>])"

lemma proxy_run:
  assumes "GetServices P Type (w_services w) = Svc # svcs"
  obtains c where "forwarded req Type path c" "c_headers c = proxy_headers req Svc (w_public w)"
    "w_calls (snd (run_state (API_Proxy P late stream req Type path t) w)) = w_calls w @ [c]"
    "w_out (snd (run_state (API_Proxy P late stream req Type path t) w)) =
       w_out w @ proxy_response late req c (w_net w (w_calls w) c)"
proof (rule that)
  let ?c = "\<lparr>c_verb = rq_method req, c_type = Type, c_base = ms_PrivateEndPoint Svc, c_path = path,
    c_query = rq_params req, c_body = proxy_body req stream, c_headers = proxy_headers req Svc (w_public w), c_timeout = t\<rparr>"
  show "forwarded req Type path ?c" by (simp add: forwarded_def proxy_headers_def)
  have t: "run_state (proxy_transmit P stream req Type path t) w
      = (Some (?c, w_net w (w_calls w) ?c), w\<lparr>w_calls := w_calls w @ [?c]\<rparr>)"
    by (simp add: proxy_transmit_def assms Let_def)
  show "w_calls (snd (run_state (API_Proxy P late stream req Type path t) w)) = w_calls w @ [?c]"
    "w_out (snd (run_state (API_Proxy P late stream req Type path t) w)) =
       w_out w @ proxy_response late req ?c (w_net w (w_calls w) ?c)"
    using t by (auto simp: API_Proxy_def proxy_response_def send_def split: option.splits)
qed simp

lemma proxy_nowhere:
  "GetServices P Type (w_services w) = [] \<Longrightarrow> snd (run_state (API_Proxy P late stream req Type path t) w) = w"
  by (simp add: API_Proxy_def proxy_transmit_def)

text \<open>
  What the proxy does with a request.  With no service of the type registered the client gets
  no response and nothing is called.  Otherwise exactly one call is made, to the first such service:
  the method and the query of the client under the new path, with the client's own credentials, or
  with the key of the portal when it sent none.  An answer of the service is passed on with its
  status; if the session fails, the client gets no response, or, when it fails while the answer of
  a request other than a deletion is awaited, a 200 without a body.
\<close>

theorem API_Proxy_behaviour:
  assumes "w' = snd (run_state (API_Proxy P late stream req Type path t) w)"
  shows "(GetServices P Type (w_services w) = [] \<longrightarrow> w' = w)
    \<and> (\<forall>Svc svcs. GetServices P Type (w_services w) = Svc # svcs \<longrightarrow>
      (\<exists>c. forwarded req Type path c \<and> w_calls w' = w_calls w @ [c]
        \<and> c_headers c = (case rq_header req ''Authorization'' of Some a \<Rightarrow> [(''Authorization'', a)]
            | None \<Rightarrow> [(''X-API-KEY'', ms_AccessKey Svc), (''X-INTERNAL-NAME'', w_public w)])
        \<and> w_out w' = w_out w @ proxy_response late req c (w_net w (w_calls w) c)))"
proof (intro conjI allI impI)
  show "GetServices P Type (w_services w) = [] \<Longrightarrow> w' = w" unfolding assms by (rule proxy_nowhere)
  fix Svc svcs assume "GetServices P Type (w_services w) = Svc # svcs"
  from proxy_run [OF this, of req path late stream t]
  show "\<exists>c. forwarded req Type path c \<and> w_calls w' = w_calls w @ [c]
    \<and> c_headers c = (case rq_header req ''Authorization'' of Some a \<Rightarrow> [(''Authorization'', a)]
        | None \<Rightarrow> [(''X-API-KEY'', ms_AccessKey Svc), (''X-INTERNAL-NAME'', w_public w)])
    \<and> w_out w' = w_out w @ proxy_response late req c (w_net w (w_calls w) c)"
    unfolding assms proxy_headers_def by metis
qed

theorem API_Proxy_behaviour_witness:
  "w_out (snd (run_state (API_Proxy ref_platform (\<lambda>_. True) None (sample_request []) uSERVICE_SECURITY
      ''/api/v1/suboauth2'' 10000) (sample_world (\<lambda>_ _. None)))) = [\<lparr>rs_status = 200, rs_body = None\<rparr>]
   \<and> (let w = (sample_world (\<lambda>_ _. None))\<lparr>w_services := []\<rparr> in
      snd (run_state (API_Proxy ref_platform (\<lambda>_. True) None (sample_request []) uSERVICE_SECURITY
        ''/api/v1/suboauth2'' 10000) w) = w)"
proof -
  have g: "GetServices ref_platform uSERVICE_SECURITY (w_services (sample_world (\<lambda>_ _. None))) = [sample_service ''owsec'']"
    by (simp add: GetServices_def service_names ref_platform_def to_lower_def is_upper_def sample_service_def)
  have n: "GetServices ref_platform uSERVICE_SECURITY (w_services ((sample_world (\<lambda>_ _. None))\<lparr>w_services := []\<rparr>)) = []"
    by (simp add: GetServices_def)
  note b = API_Proxy_behaviour [OF refl, of ref_platform uSERVICE_SECURITY _ "\<lambda>_. True" None "sample_request []" "''/api/v1/suboauth2''" 10000]
  from b [of "sample_world (\<lambda>_ _. None)"] g b [of "(sample_world (\<lambda>_ _. None))\<lparr>w_services := []\<rparr>"] n
  show ?thesis by (auto simp: proxy_response_def sample_request_def Let_def)
qed

section \<open>Sign-up and deletion of an account\<close>

text \<open>What a sign-up must have: a well-formed e-mail address and a registration.\<close>

definition signup_ok :: "platform \<Rightarrow> handler \<Rightarrow> bool" where
  "signup_ok P H \<longleftrightarrow> ValidEMailAddress (po_trim P (po_toLower P (GetParameter H ''email'' [])))
     \<and> po_trim P (po_toLower P (GetParameter H ''registrationId'' [])) \<noteq> []"

text \<open>
  A sign-up reaches the provisioning service only with a well-formed e-mail address and a
  registration, and then as one request under \<^verbatim>\<open>/api/v1/subscriber\<close>; any other is answered once, with a
  400, and causes no call.
\<close>

theorem signup_guarded:
  "emits (\<lambda>c. signup_ok P H \<and> forwarded req uSERVICE_PROVISIONING ''/api/v1/subscriber'' c)
     (subscriber_DoPost P late stream req H)
   \<and> (\<not> signup_ok P H \<longrightarrow> answers_once (subscriber_DoPost P late stream req H)
       \<and> responds (\<lambda>r. rs_status r = HTTP_BAD_REQUEST) (subscriber_DoPost P late stream req H))"
proof (intro conjI impI)
  show "emits (\<lambda>c. signup_ok P H \<and> forwarded req uSERVICE_PROVISIONING ''/api/v1/subscriber'' c)
      (subscriber_DoPost P late stream req H)"
    unfolding subscriber_DoPost_def Let_def signup_ok_def by (intro emits_intros emits_proxy) simp_all
  assume "\<not> signup_ok P H"
  then have "\<exists>E. subscriber_DoPost P late stream req H = BadRequest H E []"
    unfolding subscriber_DoPost_def Let_def signup_ok_def by auto
  then show "answers_once (subscriber_DoPost P late stream req H)"
    "responds (\<lambda>r. rs_status r = HTTP_BAD_REQUEST) (subscriber_DoPost P late stream req H)"
    by (auto simp: BadRequest_def once_send intro!: responds_send)
qed

theorem signup_guarded_witness:
  "answers_once (subscriber_DoPost ref_platform (\<lambda>_. False) None (sample_request []) (sample_handler ''POST''))"
proof -
  have "\<not> ValidEMailAddress []" by (simp add: ValidEMailAddress_def regex_match_def email_pattern_def Plus_def)
  then have "\<not> signup_ok ref_platform (sample_handler ''POST'')"
    by (simp add: signup_ok_def GetParameter_def HasParameter_def sample_handler_def ref_platform_def trim_ws_def)
  with signup_guarded [of ref_platform "sample_handler ''POST''" "sample_request []" "\<lambda>_. False" None]
  show ?thesis by simp
qed

text \<open>
  (C20) A subscriber can delete no account but its own.  Whatever the request holds, the calls are
  questions to the security service followed by at most one request to the provisioning service,
  for the account of the user whom the security service named, in an answer with 200, for the key
  or the token of this request.
\<close>

theorem delete_own_account:
  assumes "auth_reachable P (sr_auth S, w)"
    and "w' = snd (run_state (subscriber_DoDelete P late stream False req H S) w)"
  shows "\<exists>w1 cs ds u. w_calls w1 = w_calls w @ cs \<and> list_all security_call cs \<and> w_calls w' = w_calls w1 @ ds
    \<and> length ds \<le> 1 \<and> (ds \<noteq> [] \<longrightarrow> vouched P w1 req u \<and> ui_id (up_userinfo u) \<noteq> []
      \<and> forwarded req uSERVICE_PROVISIONING (''/api/v1/subscriber/'' @ ui_id (up_userinfo u)) (hd ds))"
proof -
  obtain b R A w1 where a: "run_state (handler_IsAuthorized P False True req S) w = ((b, R, A), w1)"
    by (metis prod.exhaust)
  let ?u = "ar_UInfo R"
  have e: "emits security_call (handler_IsAuthorized P False True req S)"
    unfolding handler_IsAuthorized_def by (intro emits_intros emits_auth)
  obtain cs where cs: "w_calls w1 = w_calls w @ cs" "list_all security_call cs"
    using emitsE [OF e, of w] a by auto
  note v = handler_IsAuthorized_run(2) [OF assms(1) a]
  have ok: "\<exists>ds. w_calls w' = w_calls w1 @ ds \<and> length ds \<le> 1 \<and> (ds \<noteq> [] \<longrightarrow> b \<and> ui_id (up_userinfo ?u) \<noteq> []
      \<and> forwarded req uSERVICE_PROVISIONING (''/api/v1/subscriber/'' @ ui_id (up_userinfo ?u)) (hd ds))"
  proof (cases "b \<and> ui_id (up_userinfo ?u) \<noteq> []")
    case True
    let ?px = "API_Proxy P late stream req uSERVICE_PROVISIONING (''/api/v1/subscriber/'' @ ui_id (up_userinfo ?u)) 60000"
    have w': "w' = snd (run_state ?px w1)"
      using assms(2) a True by (simp add: subscriber_DoDelete_def case_prod_unfold)
    show ?thesis
    proof (cases "GetServices P uSERVICE_PROVISIONING (w_services w1)")
      case Nil
      then show ?thesis using w' by (simp add: proxy_nowhere)
    next
      case (Cons Svc svcs)
      from proxy_run [OF Cons, of req "''/api/v1/subscriber/'' @ ui_id (up_userinfo ?u)" late stream 60000]
      obtain c where "forwarded req uSERVICE_PROVISIONING (''/api/v1/subscriber/'' @ ui_id (up_userinfo ?u)) c"
        "w_calls w' = w_calls w1 @ [c]" unfolding w' by metis
      then show ?thesis using True by (intro exI [of _ "[c]"]) simp
    qed
  next
    case False
    then have "w_calls w' = w_calls w1"
      using assms(2) a by (auto simp: subscriber_DoDelete_def case_prod_unfold refuse_def response_defs send_def)
    then show ?thesis by simp
  qed
  then show ?thesis using cs v by blast
qed

theorem delete_own_account_witness:
  "\<exists>(w1 :: world) cs ds. w_calls w1 = w_calls (sample_world token_net) @ cs \<and> list_all security_call cs
    \<and> w_calls (snd (run_state (subscriber_DoDelete ref_platform (\<lambda>_. False) None False
        ((sample_request [])\<lparr>rq_method := ''DELETE''\<rparr>) (sample_handler ''DELETE'') sample_server) (sample_world token_net)))
      = w_calls w1 @ ds \<and> length ds \<le> 1"
proof -
  have r: "auth_reachable ref_platform (sr_auth sample_server, sample_world token_net)"
    unfolding sample_server_def server.select_convs by (rule auth_reachable.initial)
  from delete_own_account [OF r refl, of "\<lambda>_. False" None "(sample_request [])\<lparr>rq_method := ''DELETE''\<rparr>" "sample_handler ''DELETE''"]
  show ?thesis by blast
qed

end
