(* ===== verification/Routes.thy ===== *)
theory Routes
  imports ParentalHandlers Topology Action SubscriberDevices SubscriberLocation Stats Clients Proxy
begin

text \<open>
  The handler classes of the portal and its external router: the headers \<^verbatim>\<open>src/RESTAPI/RESTAPI_*_handler.h\<close>
  and \<^verbatim>\<open>src/RESTAPI/RESTAPI_routers.cpp\<close>.  Composed with \<^verbatim>\<open>handleRequest\<close> they give the whole path of a
  request, from its URI to the calls of the handler and the response.
\<close>

section \<open>Handler classes\<close>

text \<open>
  What the handlers reach besides the request: the rows of the subscriber table, the statistics cache, the
  configuration of the process and the two library arguments of the proxy.  The methods of the classes for log levels and
  reloading (\<^verbatim>\<open>RESTAPI_system_command\<close>, theory \<open>SystemCommand\<close>) and for web sockets, which keep a state of
  their own, are the arguments \<open>ev_command\<close> and \<open>ev_socket\<close>.
\<close>

record env =
  ev_db :: "string \<Rightarrow> SubscriberInfo option"
  ev_stats :: StatsSvr
  ev_config :: "string \<Rightarrow> string"
  ev_late :: "api_call \<Rightarrow> bool"
  ev_stream :: "json option"
  ev_command :: "handler \<Rightarrow> server \<Rightarrow> server io"
  ev_socket :: "handler \<Rightarrow> server \<Rightarrow> server io"

text \<open>
  A class for subscribers only that always authorises and is not rate limited, and a class with the defaults of
  the base constructor.
\<close>

definition subscriber_class :: "string \<Rightarrow> string list \<Rightarrow> int \<Rightarrow> handler_class" where
  "subscriber_class path methods calls = \<lparr>hc_PathName = [path], hc_Methods = methods, hc_AlwaysAuthorize = True,
     hc_RateLimited = False, hc_Interval = 1000, hc_MaxCalls = calls, hc_SubOnly = True, hc_DoGet = empty_method,
     hc_DoPost = empty_method, hc_DoPut = empty_method, hc_DoDelete = empty_method\<rparr>"

definition default_class :: "string \<Rightarrow> string list \<Rightarrow> handler_class" where
  "default_class path methods = (subscriber_class path methods 100)\<lparr>hc_SubOnly := False\<rparr>"

definition RESTAPI_groups_list_handler :: "platform \<Rightarrow> handler_class" where
  "RESTAPI_groups_list_handler P = (subscriber_class ''/api/v1/groups'' [''GET'', ''POST'', ''OPTIONS''] 100)\<lparr>
     hc_DoGet := stateless (groups_list_DoGet P),
     hc_DoPost := stateless (groups_list_DoPost P)\<rparr>"

definition RESTAPI_groups_handler :: "platform \<Rightarrow> handler_class" where
  "RESTAPI_groups_handler P = (subscriber_class ''/api/v1/groups/{group_id}'' [''GET'', ''PUT'', ''DELETE'', ''OPTIONS''] 100)\<lparr>
     hc_DoGet := stateless (groups_DoGet P),
     hc_DoPut := stateless (groups_DoPut P),
     hc_DoDelete := stateless (groups_DoDelete P)\<rparr>"

definition RESTAPI_schedules_list_handler :: "platform \<Rightarrow> handler_class" where
  "RESTAPI_schedules_list_handler P = (subscriber_class ''/api/v1/schedules'' [''GET'', ''POST'', ''OPTIONS''] 100)\<lparr>
     hc_DoGet := stateless (schedules_list_DoGet P),
     hc_DoPost := stateless (schedules_list_DoPost P)\<rparr>"

definition RESTAPI_schedules_handler :: "platform \<Rightarrow> handler_class" where
  "RESTAPI_schedules_handler P = (subscriber_class ''/api/v1/schedules/{schedule_id}'' [''GET'', ''PUT'', ''DELETE'', ''OPTIONS''] 100)\<lparr>
     hc_DoGet := stateless (schedules_DoGet P),
     hc_DoPut := stateless (schedules_DoPut P),
     hc_DoDelete := stateless (schedules_DoDelete P)\<rparr>"

definition RESTAPI_group_devices_list_handler :: "platform \<Rightarrow> handler_class" where
  "RESTAPI_group_devices_list_handler P = (subscriber_class ''/api/v1/groups/{group_id}/devices'' [''GET'', ''POST'', ''OPTIONS''] 100)\<lparr>
     hc_DoGet := stateless (group_devices_list_DoGet P),
     hc_DoPost := stateless (group_devices_list_DoPost P)\<rparr>"

definition RESTAPI_group_devices_list_v2_handler :: "platform \<Rightarrow> handler_class" where
  "RESTAPI_group_devices_list_v2_handler P = (subscriber_class ''/api/v2/groups/{group_id}/devices'' [''POST'', ''OPTIONS''] 100)\<lparr>
     hc_DoPost := stateless (group_devices_list_v2_DoPost P)\<rparr>"

definition RESTAPI_group_devices_handler :: "platform \<Rightarrow> handler_class" where
  "RESTAPI_group_devices_handler P = (subscriber_class ''/api/v1/groups/{group_id}/devices/{client_mac}'' [''GET'', ''DELETE'', ''OPTIONS''] 100)\<lparr>
     hc_DoGet := stateless (group_devices_DoGet P),
     hc_DoDelete := stateless (group_devices_DoDelete P)\<rparr>"

definition RESTAPI_group_schedules_list_handler :: "platform \<Rightarrow> handler_class" where
  "RESTAPI_group_schedules_list_handler P = (subscriber_class ''/api/v1/groups/{group_id}/schedules'' [''GET'', ''POST'', ''PUT'', ''OPTIONS''] 100)\<lparr>
     hc_DoGet := stateless (group_schedules_list_DoGet P),
     hc_DoPost := stateless (group_schedules_list_DoPost P),
     hc_DoPut := stateless (group_schedules_list_DoPut P)\<rparr>"

definition RESTAPI_group_schedules_handler :: "platform \<Rightarrow> handler_class" where
  "RESTAPI_group_schedules_handler P = (subscriber_class ''/api/v1/groups/{group_id}/schedules/{schedule_id}'' [''GET'', ''DELETE'', ''OPTIONS''] 100)\<lparr>
     hc_DoGet := stateless (group_schedules_DoGet P),
     hc_DoDelete := stateless (group_schedules_DoDelete P)\<rparr>"

definition RESTAPI_schedule_groups_list_handler :: "platform \<Rightarrow> handler_class" where
  "RESTAPI_schedule_groups_list_handler P = (subscriber_class ''/api/v1/schedules/{schedule_id}/groups'' [''GET'', ''OPTIONS''] 100)\<lparr>
     hc_DoGet := stateless (schedule_groups_list_DoGet P)\<rparr>"

definition RESTAPI_topology_handler :: "platform \<Rightarrow> handler_class" where
  "RESTAPI_topology_handler P = (subscriber_class ''/api/v1/topology'' [''GET'', ''OPTIONS''] 10)\<lparr>
     hc_DoGet := stateless (topology_DoGet P)\<rparr>"

definition RESTAPI_action_handler :: "platform \<Rightarrow> handler_class" where
  "RESTAPI_action_handler P = (subscriber_class ''/api/v1/action'' [''POST'', ''OPTIONS''] 10)\<lparr>
     hc_DoPost := stateless (action_DoPost P)\<rparr>"

definition RESTAPI_subscriber_devices_handler :: "platform \<Rightarrow> handler_class" where
  "RESTAPI_subscriber_devices_handler P = (subscriber_class ''/api/v1/subscriber/devices/{mac}'' [''DELETE'', ''POST'', ''OPTIONS''] 10)\<lparr>
     hc_DoPost := stateless (subscriber_devices_DoPost P),
     hc_DoDelete := stateless (subscriber_devices_DoDelete P)\<rparr>"

definition RESTAPI_subscriber_location_handler :: "platform \<Rightarrow> handler_class" where
  "RESTAPI_subscriber_location_handler P = (subscriber_class ''/api/v1/subscriber/location'' [''GET'', ''POST'', ''PUT'', ''DELETE'', ''OPTIONS''] 10)\<lparr>
     hc_DoGet := stateless (location_DoGet P),
     hc_DoPost := stateless (location_DoPost P),
     hc_DoPut := stateless (location_DoPut P),
     hc_DoDelete := stateless (location_DoDelete P)\<rparr>"

definition RESTAPI_stats_handler :: "platform \<Rightarrow> env \<Rightarrow> handler_class" where
  "RESTAPI_stats_handler P E = (subscriber_class ''/api/v1/stats/{mac}'' [''GET'', ''OPTIONS''] 10)\<lparr>
     hc_DoGet := stateless (stats_DoGet P (ev_db E) (ev_stats E))\<rparr>"

definition RESTAPI_wifiClients_handler :: "platform \<Rightarrow> env \<Rightarrow> handler_class" where
  "RESTAPI_wifiClients_handler P E = (subscriber_class ''/api/v1/wificlients'' [''GET'', ''OPTIONS''] 10)\<lparr>
     hc_DoGet := stateless (wifiClients_DoGet P (ev_db E))\<rparr>"

definition RESTAPI_wiredClients_handler :: "platform \<Rightarrow> env \<Rightarrow> handler_class" where
  "RESTAPI_wiredClients_handler P E = (subscriber_class ''/api/v1/wiredclients'' [''GET'', ''OPTIONS''] 10)\<lparr>
     hc_DoGet := stateless (wiredClients_DoGet P (ev_db E))\<rparr>"

definition RESTAPI_mfa_handler :: "platform \<Rightarrow> env \<Rightarrow> http_request \<Rightarrow> handler_class" where
  "RESTAPI_mfa_handler P E req = (subscriber_class ''/api/v1/submfa'' [''GET'', ''PUT'', ''OPTIONS''] 10)\<lparr>
     hc_DoGet := stateless (mfa_Do P (ev_late E) (ev_stream E) req),
     hc_DoPut := stateless (mfa_Do P (ev_late E) (ev_stream E) req)\<rparr>"

definition RESTAPI_subscriber_handler :: "platform \<Rightarrow> env \<Rightarrow> bool \<Rightarrow> http_request \<Rightarrow> handler_class" where
  "RESTAPI_subscriber_handler P E Internal req = (subscriber_class ''/api/v1/subscriber'' [''POST'', ''DELETE'', ''OPTIONS''] 10)\<lparr>
     hc_AlwaysAuthorize := False,
     hc_DoPost := stateless (subscriber_DoPost P (ev_late E) (ev_stream E) req),
     hc_DoDelete := subscriber_DoDelete P (ev_late E) (ev_stream E) Internal req\<rparr>"

definition RESTAPI_oauth2_handler :: "platform \<Rightarrow> env \<Rightarrow> http_request \<Rightarrow> handler_class" where
  "RESTAPI_oauth2_handler P E req = (default_class [] [''POST'', ''DELETE'', ''GET'', ''OPTIONS''])\<lparr>
     hc_PathName := [''/api/v1/oauth2/{token}'', ''/api/v1/oauth2''],
     hc_AlwaysAuthorize := False, hc_RateLimited := True, hc_MaxCalls := 10,
     hc_DoGet := stateless (oauth2_Do P (ev_late E) (ev_stream E) req),
     hc_DoPost := stateless (oauth2_Do P (ev_late E) (ev_stream E) req),
     hc_DoDelete := stateless (oauth2_Do P (ev_late E) (ev_stream E) req)\<rparr>"

definition RESTAPI_claim_handler :: "platform \<Rightarrow> handler_class" where
  "RESTAPI_claim_handler P = (default_class ''/api/v1/claim'' [''GET'', ''PUT'', ''OPTIONS''])\<lparr>
     hc_DoPut := stateless (claim_DoPut P)\<rparr>"

definition RESTAPI_system_configuration :: "platform \<Rightarrow> env \<Rightarrow> handler_class" where
  "RESTAPI_system_configuration P E = (default_class ''/api/v1/systemConfiguration'' [''PUT'', ''GET'', ''DELETE'', ''OPTIONS''])\<lparr>
     hc_DoGet := stateless (system_configuration_DoGet P (ev_config E)),
     hc_DoPut := stateless system_configuration_DoPut,
     hc_DoDelete := stateless system_configuration_DoDelete\<rparr>"

definition RESTAPI_system_command :: "env \<Rightarrow> handler_class" where
  "RESTAPI_system_command E = (default_class ''/api/v1/system'' [''POST'', ''GET'', ''OPTIONS''])\<lparr>
     hc_DoGet := ev_command E, hc_DoPost := ev_command E\<rparr>"

definition RESTAPI_webSocketServer :: "env \<Rightarrow> handler_class" where
  "RESTAPI_webSocketServer E = (default_class ''/api/v1/ws'' [''GET'', ''OPTIONS''])\<lparr>
     hc_AlwaysAuthorize := False, hc_DoGet := ev_socket E\<rparr>"

section \<open>Routers\<close>

definition ExtRouter :: "platform \<Rightarrow> env \<Rightarrow> http_request \<Rightarrow> handler_class list" where
  "ExtRouter P E req = [RESTAPI_wifiClients_handler P E, RESTAPI_wiredClients_handler P E,
     RESTAPI_subscriber_handler P E False req, RESTAPI_subscriber_devices_handler P, RESTAPI_oauth2_handler P E req,
     RESTAPI_action_handler P, RESTAPI_mfa_handler P E req, RESTAPI_claim_handler P,
     RESTAPI_system_command E, RESTAPI_system_configuration P E,
     RESTAPI_stats_handler P E, RESTAPI_topology_handler P,
     RESTAPI_webSocketServer E, RESTAPI_groups_list_handler P, RESTAPI_groups_handler P,
     RESTAPI_schedules_list_handler P, RESTAPI_schedules_handler P,
     RESTAPI_group_devices_list_handler P, RESTAPI_group_devices_list_v2_handler P, RESTAPI_group_devices_handler P,
     RESTAPI_group_schedules_list_handler P, RESTAPI_group_schedules_handler P,
     RESTAPI_schedule_groups_list_handler P, RESTAPI_subscriber_location_handler P]"

definition IntRouter :: "platform \<Rightarrow> env \<Rightarrow> http_request \<Rightarrow> handler_class list" where
  "IntRouter P E req = [RESTAPI_wifiClients_handler P E, RESTAPI_wiredClients_handler P E,
     RESTAPI_subscriber_handler P E True req, RESTAPI_subscriber_devices_handler P, RESTAPI_oauth2_handler P E req,
     RESTAPI_action_handler P, RESTAPI_mfa_handler P E req, RESTAPI_claim_handler P,
     RESTAPI_system_command E, RESTAPI_system_configuration P E,
     RESTAPI_topology_handler P, RESTAPI_stats_handler P E, RESTAPI_groups_list_handler P, RESTAPI_groups_handler P,
     RESTAPI_schedules_list_handler P, RESTAPI_schedules_handler P,
     RESTAPI_group_devices_list_handler P, RESTAPI_group_devices_list_v2_handler P, RESTAPI_group_devices_handler P,
     RESTAPI_group_schedules_list_handler P, RESTAPI_group_schedules_handler P,
     RESTAPI_schedule_groups_list_handler P, RESTAPI_subscriber_location_handler P]"

text \<open>A request on the external interface: the router picks a class, whose new object handles it.\<close>

definition CallServer :: "platform \<Rightarrow> env \<Rightarrow> http_request \<Rightarrow> server \<Rightarrow> server io" where
  "CallServer P E req S = (case Router P (ExtRouter P E req) (rq_path req) of
     (K, bindings) \<Rightarrow> handleRequest P False K bindings req S)"

lemmas class_defs = subscriber_class_def default_class_def RESTAPI_wifiClients_handler_def
  RESTAPI_wiredClients_handler_def RESTAPI_subscriber_handler_def RESTAPI_subscriber_devices_handler_def
  RESTAPI_oauth2_handler_def RESTAPI_action_handler_def RESTAPI_mfa_handler_def RESTAPI_claim_handler_def
  RESTAPI_system_command_def RESTAPI_system_configuration_def RESTAPI_stats_handler_def
  RESTAPI_topology_handler_def RESTAPI_webSocketServer_def RESTAPI_groups_list_handler_def
  RESTAPI_groups_handler_def RESTAPI_schedules_list_handler_def RESTAPI_schedules_handler_def
  RESTAPI_group_devices_list_handler_def RESTAPI_group_devices_list_v2_handler_def
  RESTAPI_group_devices_handler_def RESTAPI_group_schedules_list_handler_def RESTAPI_group_schedules_handler_def
  RESTAPI_schedule_groups_list_handler_def RESTAPI_subscriber_location_handler_def

section \<open>Routing is unambiguous\<close>

text \<open>A path, as a list of items, against the items of a pattern.\<close>

definition fits :: "string list \<Rightarrow> string list \<Rightarrow> bool" where
  "fits items pattern \<longleftrightarrow> list_all2 (\<lambda>p e. p = e \<or> take 1 e = ''{'') items pattern"

lemma match_items_fits: "length items = length pattern \<Longrightarrow> fst (match_items P items pattern b) \<longleftrightarrow> fits items pattern"
  unfolding fits_def
  by (induction P items pattern b rule: match_items.induct) simp_all

lemma match_endpoints_fits:
  "fst (match_endpoints P items eps b) \<longleftrightarrow> (\<exists>ep \<in> set eps. fits items (po_tokens P ep ''/''))"
proof (induction eps arbitrary: b)
  case (Cons ep eps)
  show ?case
  proof (cases "length items = length (po_tokens P ep ''/'')")
    case True
    obtain ok b' where m: "match_items P items (po_tokens P ep ''/'') b = (ok, b')" by (metis prod.exhaust)
    have ok: "fits items (po_tokens P ep ''/'') \<longleftrightarrow> ok" using match_items_fits [OF True, of P b] m by simp
    show ?thesis using Cons [of b'] m True by (cases ok) (simp_all add: Let_def ok)
  next
    case False
    then have "\<not> fits items (po_tokens P ep ''/'')" unfolding fits_def by (auto dest: list_all2_lengthD)
    then show ?thesis using Cons False by (simp add: Let_def)
  qed
qed simp

text \<open>Two patterns that no path fits both: of different lengths, or with different words at some place.\<close>

fun apart :: "string list \<Rightarrow> string list \<Rightarrow> bool" where
  "apart (p # ps) (q # qs) \<longleftrightarrow> p \<noteq> q \<and> take 1 p \<noteq> ''{'' \<and> take 1 q \<noteq> ''{'' \<or> apart ps qs"
| "apart [] [] \<longleftrightarrow> False"
| "apart _ _ \<longleftrightarrow> True"

lemma apart_fits: "apart p q \<Longrightarrow> fits items p \<Longrightarrow> \<not> fits items q"
  unfolding fits_def by (induction p q arbitrary: items rule: apart.induct) (auto simp: list_all2_Cons2)

lemma apart_sym: "apart p q \<longleftrightarrow> apart q p"
  by (induction p q rule: apart.induct) auto

text \<open>The patterns of the portal, item by item.\<close>

definition route_table :: "string list list list" where
  "route_table = map (map (\<lambda>p. [] # p)) [[[''api'', ''v1'', ''wificlients'']], [[''api'', ''v1'', ''wiredclients'']],
     [[''api'', ''v1'', ''subscriber'']], [[''api'', ''v1'', ''subscriber'', ''devices'', ''{mac}'']],
     [[''api'', ''v1'', ''oauth2'', ''{token}''], [''api'', ''v1'', ''oauth2'']],
     [[''api'', ''v1'', ''action'']], [[''api'', ''v1'', ''submfa'']], [[''api'', ''v1'', ''claim'']],
     [[''api'', ''v1'', ''system'']], [[''api'', ''v1'', ''systemConfiguration'']],
     [[''api'', ''v1'', ''stats'', ''{mac}'']], [[''api'', ''v1'', ''topology'']], [[''api'', ''v1'', ''ws'']],
     [[''api'', ''v1'', ''groups'']], [[''api'', ''v1'', ''groups'', ''{group_id}'']],
     [[''api'', ''v1'', ''schedules'']], [[''api'', ''v1'', ''schedules'', ''{schedule_id}'']],
     [[''api'', ''v1'', ''groups'', ''{group_id}'', ''devices'']],
     [[''api'', ''v2'', ''groups'', ''{group_id}'', ''devices'']],
     [[''api'', ''v1'', ''groups'', ''{group_id}'', ''devices'', ''{client_mac}'']],
     [[''api'', ''v1'', ''groups'', ''{group_id}'', ''schedules'']],
     [[''api'', ''v1'', ''groups'', ''{group_id}'', ''schedules'', ''{schedule_id}'']],
     [[''api'', ''v1'', ''schedules'', ''{schedule_id}'', ''groups'']],
     [[''api'', ''v1'', ''subscriber'', ''location'']]]"

lemma path_tokens: "tokens_doc P \<Longrightarrow> ps \<noteq> [] \<Longrightarrow> last ps \<noteq> [] \<Longrightarrow> \<forall>p \<in> set ps. CHR ''/'' \<notin> set p \<Longrightarrow>
    po_tokens P (join_with (CHR ''/'') ps) ''/'' = ps"
  unfolding tokens_doc_def by blast

lemma ext_patterns:
  assumes "tokens_doc P"
  shows "map (\<lambda>K. map (\<lambda>ep. po_tokens P ep ''/'') (hc_PathName K)) (ExtRouter P E req) = route_table"
proof -
  have names: "map hc_PathName (ExtRouter P E req) = map (map (join_with (CHR ''/''))) route_table"
    by (simp add: ExtRouter_def class_defs route_table_def)
  have "po_tokens P (join_with (CHR ''/'') p) ''/'' = p" if "p \<in> set (concat route_table)" for p
    using that by (intro path_tokens [OF assms]) (auto simp: route_table_def)
  then have "map (\<lambda>eps. map (\<lambda>ep. po_tokens P ep ''/'') eps) (map (map (join_with (CHR ''/''))) route_table) = route_table"
    by (fastforce intro!: map_idI)
  then show ?thesis using names by (metis (no_types, lifting) map_map comp_apply map_cong)
qed

lemma table_apart: "sorted_wrt (\<lambda>ps qs. \<forall>p \<in> set ps. \<forall>q \<in> set qs. apart p q) route_table"
  by (simp add: route_table_def)

lemma Router_unique:
  "sorted_wrt (\<lambda>T U. \<not> (fst (ParseBindings P path (hc_PathName T)) \<and> fst (ParseBindings P path (hc_PathName U)))) Ts \<Longrightarrow>
   K \<in> set Ts \<Longrightarrow> ParseBindings P path (hc_PathName K) = (True, b) \<Longrightarrow> Router P Ts path = (K, b)"
proof (induction Ts)
  case (Cons T Ts)
  show ?case
  proof (cases "K = T")
    case True
    then show ?thesis using Cons.prems by simp
  next
    case False
    then have "K \<in> set Ts" "\<not> fst (ParseBindings P path (hc_PathName T))" using Cons.prems by auto
    moreover obtain ok b' where "ParseBindings P path (hc_PathName T) = (ok, b')" by (metis prod.exhaust)
    ultimately show ?thesis using Cons by simp
  qed
qed simp

lemma ext_unambiguous:
  assumes "tokens_doc P"
  shows "sorted_wrt (\<lambda>T U. \<not> (fst (ParseBindings P path (hc_PathName T)) \<and> fst (ParseBindings P path (hc_PathName U))))
    (ExtRouter P E req)"
proof -
  let ?pats = "\<lambda>K. map (\<lambda>ep. po_tokens P ep ''/'') (hc_PathName K)"
  have "sorted_wrt (\<lambda>T U. \<forall>p \<in> set (?pats T). \<forall>q \<in> set (?pats U). apart p q) (ExtRouter P E req)"
    using table_apart unfolding ext_patterns [OF assms, of E req, symmetric] sorted_wrt_map .
  then show ?thesis
    by (rule sorted_wrt_mono_rel [rotated]) (auto simp: ParseBindings_def match_endpoints_fits dest: apart_fits)
qed

text \<open>Names the pattern binds, and what a match leaves under them.\<close>

definition bound_names :: "platform \<Rightarrow> string list \<Rightarrow> string list" where
  "bound_names P pattern = map (binding_name P) (filter (\<lambda>e. take 1 e = ''{'') pattern)"

lemma match_keeps: "n \<notin> set (bound_names P es) \<Longrightarrow> map_of (snd (match_items P ps es b)) n = map_of b n"
  by (induction P ps es b rule: match_items.induct) (auto simp: bound_names_def)

lemma match_binds:
  "fst (match_items P ps es b) \<Longrightarrow> distinct (bound_names P es) \<Longrightarrow> (p, e) \<in> set (zip ps es) \<Longrightarrow> take 1 e = ''{'' \<Longrightarrow>
   p \<noteq> e \<Longrightarrow> map_of (snd (match_items P ps es b)) (binding_name P e) = Some p"
proof (induction P ps es b rule: match_items.induct)
  case (1 P q qs f fs b)
  show ?case
  proof (cases "(p, e) = (q, f)")
    case True
    then have "binding_name P e \<notin> set (bound_names P fs)" using 1(4,6) by (auto simp: bound_names_def)
    then show ?thesis using True 1(6,7) by (simp add: match_keeps)
  next
    case False
    then show ?thesis using 1 by (auto simp: bound_names_def split: if_splits)
  qed
qed auto



section \<open>Whole requests\<close>

definition parental_classes :: "platform \<Rightarrow> handler_class list" where
  "parental_classes P = [RESTAPI_groups_list_handler P, RESTAPI_groups_handler P, RESTAPI_schedules_list_handler P,
     RESTAPI_schedules_handler P, RESTAPI_group_devices_list_handler P, RESTAPI_group_devices_list_v2_handler P,
     RESTAPI_group_devices_handler P, RESTAPI_group_schedules_list_handler P, RESTAPI_group_schedules_handler P,
     RESTAPI_schedule_groups_list_handler P]"

lemma parental_dispatch:
  assumes "K \<in> set (parental_classes P)" and "h_method H \<in> set (hc_Methods K)" and "h_method H \<noteq> ''OPTIONS''"
  shows "\<exists>DoX \<in> set parental_handlers. dispatch K H S = stateless (DoX P) H S"
  using assms unfolding parental_classes_def parental_handlers_def
  by (auto simp: class_defs dispatch_def)

lemma parental_classes_scope:
  "K \<in> set (parental_classes P) \<Longrightarrow> h_method H \<in> set (hc_Methods K) \<Longrightarrow> h_method H \<noteq> ''OPTIONS'' \<Longrightarrow>
   emits (own_call H) (dispatch K H S)"
  using parental_dispatch [of K P H S] by (auto simp: emits_stateless parental_emits)

lemma parental_authorizes: "K \<in> set (parental_classes P) \<Longrightarrow> hc_AlwaysAuthorize K \<and> ''OPTIONS'' \<in> set (hc_Methods K)"
  by (auto simp: parental_classes_def class_defs)

text \<open>
  What a group of handler classes promises: they authorise every request, and the calls of an allowed
  method stay within \<open>C\<close> for the user it runs as.  Then the calls of a whole request are questions to the
  security service followed by calls within \<open>C\<close> for the user the security service named.
\<close>

locale guarded_classes =
  fixes classes :: "platform \<Rightarrow> handler_class list" and C :: "handler \<Rightarrow> api_call \<Rightarrow> bool"
  assumes authorizes: "K \<in> set (classes P) \<Longrightarrow> hc_AlwaysAuthorize K"
    and scope: "K \<in> set (classes P) \<Longrightarrow> h_method H \<in> set (hc_Methods K) \<Longrightarrow> h_method H \<noteq> ''OPTIONS'' \<Longrightarrow>
      emits (C H) (dispatch K H S)"
begin

lemma request_calls:
  assumes "auth_reachable P (sr_auth S, w)" and "Router P (ExtRouter P E req) (rq_path req) = (K, b)"
    and K: "K \<in> set (classes P)" and "rq_method req \<noteq> ''OPTIONS''"
    and "w' = snd (run_state (CallServer P E req S) w)"
  shows "\<exists>cs ds. w_calls w' = w_calls w @ cs @ ds \<and> list_all security_call cs \<and>
    (ds = [] \<or> (\<exists>w1 body u. w_calls w1 = w_calls w @ cs \<and> w_net w1 = w_net w \<and> vouched P w1 req u
       \<and> list_all (C (request_handler req b body u)) ds))"
proof -
  have w': "w' = snd (run_state (handleRequest P False K b req S) w)" using assms(2,5) by (simp add: CallServer_def)
  obtain w1 cs where w1: "w_calls w1 = w_calls w @ cs" "list_all security_call cs" "w_net w1 = w_net w"
    and nx: "turned_down req w1 w' \<or> (\<exists>body u S1. rq_method req \<in> set (hc_Methods K) \<and> vouched P w1 req u
         \<and> w' = snd (run_state (dispatch K (request_handler req b body u) S1) w1))"
    using handleRequest_run [OF assms(1) authorizes [OF K] w'] by blast
  from nx show ?thesis
  proof
    assume "turned_down req w1 w'"
    then show ?thesis using w1 by (intro exI [of _ cs] exI [of _ "[]"]) (simp add: turned_down_def)
  next
    assume "\<exists>body u S1. rq_method req \<in> set (hc_Methods K) \<and> vouched P w1 req u
         \<and> w' = snd (run_state (dispatch K (request_handler req b body u) S1) w1)"
    then obtain body u S1 where d: "rq_method req \<in> set (hc_Methods K)" "vouched P w1 req u"
      "w' = snd (run_state (dispatch K (request_handler req b body u) S1) w1)" by blast
    have "emits (C (request_handler req b body u)) (dispatch K (request_handler req b body u) S1)"
      using d(1) assms(4) by (intro scope [OF K]) (simp_all add: request_handler_def)
    then obtain ds where "w_calls w' = w_calls w1 @ ds" "list_all (C (request_handler req b body u)) ds"
      using emitsE d(3) by blast
    then show ?thesis using w1 d(2) by (intro exI [of _ cs] exI [of _ ds]) auto
  qed
qed

end

interpretation parental: guarded_classes parental_classes own_call
  by unfold_locales (simp_all add: parental_authorizes parental_classes_scope)

interpretation topology: guarded_classes "\<lambda>P. [RESTAPI_topology_handler P]" topology_call
  by unfold_locales (auto simp: class_defs dispatch_def emits_stateless emits_topology)


text \<open>
  A request for the topology changes nothing: after the questions to the security service every call is
  a reading, without a body, of the provisioning, topology or gateway service, and devices are listed for the
  user whom the security service named only.
\<close>

theorem topology_request_reads:
  assumes "auth_reachable P (sr_auth S, w)" and "Router P (ExtRouter P E req) (rq_path req) = (RESTAPI_topology_handler P, b)"
    and "rq_method req \<noteq> ''OPTIONS''" and "w' = snd (run_state (CallServer P E req S) w)"
  shows "\<exists>cs ds. w_calls w' = w_calls w @ cs @ ds \<and> list_all security_call cs \<and>
    (ds = [] \<or> (\<exists>w1 body u. w_calls w1 = w_calls w @ cs \<and> w_net w1 = w_net w \<and> vouched P w1 req u
       \<and> list_all (topology_call (request_handler req b body u)) ds))"
  by (rule topology.request_calls [OF assms(1,2) _ assms(3,4)]) simp

lemma once_system_configuration:
  "answers_once (system_configuration_DoGet P config H)" "answers_once (system_configuration_DoPut H)"
  "answers_once (system_configuration_DoDelete H)"
  unfolding system_configuration_DoGet_def system_configuration_DoPut_def system_configuration_DoDelete_def Let_def
  by (intro replies_intros)+

text \<open>The classes whose allowed methods always answer, and the one for unknown paths.\<close>

definition answering_classes :: "platform \<Rightarrow> env \<Rightarrow> handler_class list" where
  "answering_classes P E = parental_classes P @ [RESTAPI_wifiClients_handler P E, RESTAPI_wiredClients_handler P E,
     RESTAPI_subscriber_devices_handler P, RESTAPI_action_handler P, RESTAPI_topology_handler P,
     RESTAPI_subscriber_location_handler P, RESTAPI_system_configuration P E, UnknownRequestHandler]"

lemma answering_dispatch:
  assumes "K \<in> set (answering_classes P E)" and "h_method H \<in> set (hc_Methods K)" and "h_method H \<noteq> ''OPTIONS''"
  shows "answers_once (dispatch K H S)"
proof (cases "K \<in> set (parental_classes P)")
  case True
  from parental_dispatch [OF this assms(2,3), of S] show ?thesis by (auto simp: once_stateless parental_once)
next
  case False
  then have "K \<in> set [RESTAPI_wifiClients_handler P E, RESTAPI_wiredClients_handler P E,
     RESTAPI_subscriber_devices_handler P, RESTAPI_action_handler P, RESTAPI_topology_handler P,
     RESTAPI_subscriber_location_handler P, RESTAPI_system_configuration P E, UnknownRequestHandler]"
    using assms(1) by (simp add: answering_classes_def)
  then show ?thesis using assms(2,3)
    by (auto simp: class_defs dispatch_def UnknownRequestHandler_def intro!: once_stateless once_clients once_subscriber_devices
        once_action once_topology once_location once_system_configuration)
qed


lemma sample_route:
  "Router ref_platform (ExtRouter ref_platform E req) ''/api/v1/groups'' = (RESTAPI_groups_list_handler ref_platform, [])"
  by (rule Router_unique [OF ext_unambiguous [OF ref_platform_docs(10)]])
    (simp_all add: ExtRouter_def ParseBindings_def class_defs ref_platform_def)



theorem topology_request_reads_witness:
  "\<forall>E. \<exists>cs ds. w_calls (snd (run_state (CallServer ref_platform E ((sample_request [])\<lparr>rq_path := ''/api/v1/topology''\<rparr>) sample_server)
       (sample_world token_net))) = w_calls (sample_world token_net) @ cs @ ds \<and> list_all security_call cs
     \<and> list_all (\<lambda>c. c_verb c = ''GET'') ds"
proof
  fix E
  let ?req = "(sample_request [])\<lparr>rq_path := ''/api/v1/topology''\<rparr>"
  have r: "auth_reachable ref_platform (sr_auth sample_server, sample_world token_net)"
    unfolding sample_server_def server.select_convs by (rule auth_reachable.initial)
  have p: "Router ref_platform (ExtRouter ref_platform E ?req) (rq_path ?req) = (RESTAPI_topology_handler ref_platform, [])"
    by (rule Router_unique [OF ext_unambiguous [OF ref_platform_docs(10)]])
      (simp_all add: ExtRouter_def ParseBindings_def class_defs ref_platform_def)
  have m: "rq_method ?req \<noteq> ''OPTIONS''" by (simp add: sample_request_def)
  from topology_request_reads [OF r p m refl] obtain cs ds where
    d: "w_calls (snd (run_state (CallServer ref_platform E ?req sample_server) (sample_world token_net)))
      = w_calls (sample_world token_net) @ cs @ ds" "list_all security_call cs"
    "ds = [] \<or> (\<exists>body u. list_all (topology_call (request_handler ?req [] body u)) ds)" by blast
  then have "list_all (\<lambda>c. c_verb c = ''GET'') ds" by (auto simp: list_all_iff topology_call_def)
  with d(1,2) show "\<exists>cs ds. w_calls (snd (run_state (CallServer ref_platform E ?req sample_server) (sample_world token_net)))
      = w_calls (sample_world token_net) @ cs @ ds \<and> list_all security_call cs \<and> list_all (\<lambda>c. c_verb c = ''GET'') ds"
    by blast
qed

end
