(* ===== verification/Services.thy ===== *)
theory Services
  imports Request
begin

text \<open>
  The registry of running services, \<^verbatim>\<open>BusMessageReceived\<close>, \<^verbatim>\<open>GetServices\<close> and \<^verbatim>\<open>MakeSystemEventMessage\<close> of
  \<^verbatim>\<open>src/framework/MicroService.cpp\<close>.  \<^verbatim>\<open>Services_\<close> is a map from private end points to services; it is the
  list \<open>w_services\<close> of the world, in key order.  A message of the bus is the parsed payload, \<open>None\<close> when
  the parser throws.  Messages also take tokens out of the cache of the authentication client.
\<close>

section \<open>The map of services\<close>

fun put_service :: "MicroServiceMeta \<Rightarrow> MicroServiceMeta list \<Rightarrow> MicroServiceMeta list" where
  "put_service svc [] = [svc]"
| "put_service svc (s # ss) =
     (if ms_PrivateEndPoint s = ms_PrivateEndPoint svc then svc # ss
      else if ms_PrivateEndPoint svc < ms_PrivateEndPoint s then svc # s # ss
      else s # put_service svc ss)"

definition erase_service :: "string \<Rightarrow> MicroServiceMeta list \<Rightarrow> MicroServiceMeta list" where
  "erase_service k ss = filter (\<lambda>s. ms_PrivateEndPoint s \<noteq> k) ss"

text \<open>The difference of two 64-bit numbers: a service updated in the future of the clock is removed.\<close>

definition remove_zombies :: "uint64 \<Rightarrow> MicroServiceMeta list \<Rightarrow> MicroServiceMeta list" where
  "remove_zombies now ss = filter (\<lambda>s. \<not> now - ms_LastUpdate s > 120) ss"

fun service_list_string :: "MicroServiceMeta list \<Rightarrow> string \<Rightarrow> string" where
  "service_list_string [] SvcList = SvcList"
| "service_list_string (s # ss) SvcList =
     service_list_string ss (if SvcList = [] then ms_Type s else SvcList @ '', '' @ ms_Type s)"

definition MakeServiceListString :: "MicroServiceMeta list \<Rightarrow> string" where
  "MakeServiceListString ss = service_list_string ss []"

definition GetServices_all :: "MicroServiceMeta list \<Rightarrow> MicroServiceMeta list" where
  "GetServices_all ss = ss"

section \<open>Messages\<close>

definition EVENT_JOIN :: string where "EVENT_JOIN = ''join''"
definition EVENT_LEAVE :: string where "EVENT_LEAVE = ''leave''"
definition EVENT_KEEP_ALIVE :: string where "EVENT_KEEP_ALIVE = ''keep-alive''"
definition EVENT_REMOVE_TOKEN :: string where "EVENT_REMOVE_TOKEN = ''remove-token''"

lemmas event_defs = EVENT_JOIN_def EVENT_LEAVE_def EVENT_KEEP_ALIVE_def EVENT_REMOVE_TOKEN_def

text \<open>\<^verbatim>\<open>Object->get(k).toString()\<close>; \<open>None\<close> is an exception.\<close>

definition text_of :: "platform \<Rightarrow> jobj \<Rightarrow> string \<Rightarrow> string option" where
  "text_of P ob k = (case po_toString P (getVar ob k) of Inl _ \<Rightarrow> None | Inr s \<Rightarrow> Some s)"

definition service_fields :: "jobj \<Rightarrow> bool" where
  "service_fields ob \<longleftrightarrow> has ob ''type'' \<and> has ob ''publicEndPoint'' \<and> has ob ''privateEndPoint'' \<and>
     has ob ''version'' \<and> has ob ''key''"

text \<open>The entry of a joining service but for the time, which is read last.\<close>

definition service_info :: "platform \<Rightarrow> uint64 \<Rightarrow> jobj \<Rightarrow> (uint64 \<Rightarrow> MicroServiceMeta) option" where
  "service_info P ID ob = do {
     type \<leftarrow> text_of P ob ''type'';
     private \<leftarrow> text_of P ob ''privateEndPoint'';
     public \<leftarrow> text_of P ob ''publicEndPoint'';
     key \<leftarrow> text_of P ob ''key'';
     version \<leftarrow> text_of P ob ''version'';
     Some (\<lambda>now. \<lparr>ms_Id = ID, ms_Type = po_toLower P type, ms_PrivateEndPoint = private, ms_PublicEndPoint = public,
       ms_AccessKey = key, ms_Version = version, ms_LastUpdate = now\<rparr>)
   }"

text \<open>What a message of another process does to the services and to the cache; \<open>None\<close> is an exception.\<close>

definition foreign_event ::
  "platform \<Rightarrow> uint64 \<Rightarrow> string \<Rightarrow> jobj \<Rightarrow> MicroServiceMeta list \<Rightarrow> AuthClient \<Rightarrow> (MicroServiceMeta list \<times> AuthClient) option io" where
  "foreign_event P ID Event ob ss A =
     (if Event = EVENT_JOIN \<or> Event = EVENT_KEEP_ALIVE \<or> Event = EVENT_LEAVE then
        (if \<not> service_fields ob then ret (Some (ss, A))
         else (case text_of P ob ''privateEndPoint'' of None \<Rightarrow> ret None
           | Some PrivateEndPoint \<Rightarrow>
               if Event = EVENT_LEAVE then ret (Some (erase_service PrivateEndPoint ss, A))
               else (case service_info P ID ob of None \<Rightarrow> ret None
                 | Some info \<Rightarrow> do { now \<leftarrow> Now; ret (Some (put_service (info now) ss, A)) })))
      else if Event = EVENT_REMOVE_TOKEN then
        (if \<not> has ob ''token'' then ret (Some (ss, A))
         else (case text_of P ob ''token'' of None \<Rightarrow> ret None | Some t \<Rightarrow> ret (Some (ss, RemovedCachedToken t A))))
      else ret (Some (ss, A)))"

definition bus_event ::
  "platform \<Rightarrow> uint64 \<Rightarrow> jobj \<Rightarrow> MicroServiceMeta list \<Rightarrow> AuthClient \<Rightarrow> (MicroServiceMeta list \<times> AuthClient) option io" where
  "bus_event P MyID ob ss A =
     (if has ob ''id'' \<and> has ob ''event'' then
        (case po_toUInt64 P (getVar ob ''id'') of Inl _ \<Rightarrow> ret None
         | Inr i \<Rightarrow> (case text_of P ob ''event'' of None \<Rightarrow> ret None
             | Some Event \<Rightarrow> if word_of_int i = MyID then ret (Some (ss, A))
                 else foreign_event P (word_of_int i) Event ob ss A))
      else ret (Some (ss, A)))"

definition get_services :: "MicroServiceMeta list io" where
  "get_services = State (\<lambda>w. (w_services w, w))"

definition put_services :: "MicroServiceMeta list \<Rightarrow> unit io" where
  "put_services ss = State (\<lambda>w. ((), w\<lparr>w_services := ss\<rparr>))"

text \<open>An exception leaves the services as they are and skips the removal of zombies.\<close>

definition BusMessageReceived :: "platform \<Rightarrow> uint64 \<Rightarrow> json option \<Rightarrow> AuthClient \<Rightarrow> AuthClient io" where
  "BusMessageReceived P MyID Payload A = (case Payload of
     Some (JObject ob) \<Rightarrow> do {
       ss \<leftarrow> get_services;
       r \<leftarrow> bus_event P MyID ob ss A;
       (case r of None \<Rightarrow> ret A
        | Some (ss', A') \<Rightarrow> do { now \<leftarrow> Now; put_services (remove_zombies now ss'); ret A' })
     }
   | _ \<Rightarrow> ret A)"

text \<open>What this process tells the others: \<open>me\<close> holds its identity, its end points, its key and its version.\<close>

definition MakeSystemEventMessage :: "platform \<Rightarrow> MicroServiceMeta \<Rightarrow> string \<Rightarrow> jobj" where
  "MakeSystemEventMessage P me Type =
     set_key ''version'' (JString (ms_Version me))
    (set_key ''key'' (JString (ms_AccessKey me))
    (set_key ''privateEndPoint'' (JString (ms_PrivateEndPoint me))
    (set_key ''publicEndPoint'' (JString (ms_PublicEndPoint me))
    (set_key ''type'' (JString (po_toLower P (ms_Type me)))
    (set_key ''id'' (JInt (uint (ms_Id me)))
    (set_key ''event'' (JString Type) []))))))"

section \<open>The map is well-formed\<close>

definition wf_services :: "platform \<Rightarrow> uint64 \<Rightarrow> MicroServiceMeta list \<Rightarrow> bool" where
  "wf_services P MyID ss \<longleftrightarrow> sorted_wrt (<) (map ms_PrivateEndPoint ss)
     \<and> (\<forall>s \<in> set ss. ms_Id s \<noteq> MyID \<and> (\<exists>t. ms_Type s = po_toLower P t))"

lemma set_put_service:
  "sorted_wrt (<) (map ms_PrivateEndPoint ss) \<Longrightarrow>
   set (put_service svc ss) = insert svc {s \<in> set ss. ms_PrivateEndPoint s \<noteq> ms_PrivateEndPoint svc}"
  by (induction svc ss rule: put_service.induct) (auto dest: order.strict_trans)

lemma sorted_put_service:
  "sorted_wrt (<) (map ms_PrivateEndPoint ss) \<Longrightarrow> sorted_wrt (<) (map ms_PrivateEndPoint (put_service svc ss))"
proof (induction svc ss rule: put_service.induct)
  case (2 svc s ss)
  then show ?case by (auto simp: set_put_service dest: order.strict_trans intro: le_neq_trans)
qed simp

lemma sorted_filter_services:
  "sorted_wrt (<) (map ms_PrivateEndPoint ss) \<Longrightarrow> sorted_wrt (<) (map ms_PrivateEndPoint (filter Q ss))"
  by (induction ss) auto

lemma wf_put: "wf_services P MyID ss \<Longrightarrow> ms_Id svc \<noteq> MyID \<Longrightarrow> ms_Type svc = po_toLower P t \<Longrightarrow>
    wf_services P MyID (put_service svc ss)"
  unfolding wf_services_def by (auto simp: sorted_put_service set_put_service)

lemma wf_filter: "wf_services P MyID ss \<Longrightarrow> wf_services P MyID (filter Q ss)"
  unfolding wf_services_def by (auto simp: sorted_filter_services)

lemma wf_removals: "wf_services P MyID ss \<Longrightarrow> wf_services P MyID (erase_service k ss)"
  "wf_services P MyID ss \<Longrightarrow> wf_services P MyID (remove_zombies now ss)"
  by (simp_all add: erase_service_def remove_zombies_def wf_filter)

text \<open>What one event can do to the map.\<close>

inductive service_change :: "platform \<Rightarrow> uint64 \<Rightarrow> jobj \<Rightarrow> MicroServiceMeta list \<Rightarrow> MicroServiceMeta list \<Rightarrow> bool"
  for P MyID ob ss where
  same: "service_change P MyID ob ss ss"
| erased: "text_of P ob ''privateEndPoint'' = Some k \<Longrightarrow> service_change P MyID ob ss (erase_service k ss)"
| put: "text_of P ob ''privateEndPoint'' = Some (ms_PrivateEndPoint svc) \<Longrightarrow> ms_Id svc \<noteq> MyID \<Longrightarrow>
    ms_Type svc = po_toLower P t \<Longrightarrow> service_change P MyID ob ss (put_service svc ss)"

lemma service_info_Some:
  "service_info P ID ob = Some info \<Longrightarrow> ms_Id (info now) = ID \<and> (\<exists>t. ms_Type (info now) = po_toLower P t)
     \<and> text_of P ob ''privateEndPoint'' = Some (ms_PrivateEndPoint (info now)) \<and> ms_LastUpdate (info now) = now"
  by (auto simp: service_info_def split: bind_splits)

lemma put_info:
  assumes "service_info P ID ob = Some info" and "ID \<noteq> MyID"
  shows "service_change P MyID ob ss (put_service (info now) ss)"
  using service_info_Some [OF assms(1), of now] assms(2) by (auto intro: service_change.put)

lemma bus_event_run:
  assumes "run_state (bus_event P MyID ob ss A) w = (r, w')"
  shows "w_services w' = w_services w \<and> w_clock w' = w_clock w \<and> (r = None \<or> (\<exists>ss' A'. r = Some (ss', A') \<and> service_change P MyID ob ss ss'))"
  using assms
  by (auto simp: bus_event_def foreign_event_def Now_def read_clock_def
      split: if_splits sum.splits option.splits intro: service_change.same service_change.erased put_info)

lemma service_change_wf: "service_change P MyID ob ss ss' \<Longrightarrow> wf_services P MyID ss \<Longrightarrow> wf_services P MyID ss'"
  by (induction rule: service_change.induct) (auto intro: wf_put wf_removals)

lemma BusMessage_run:
  assumes "run_state (BusMessageReceived P MyID Payload A) w = (A', w')"
  obtains (same) "w_services w' = w_services w" "w_clock w' = w_clock w"
  | (changed) ob ss' now where "Payload = Some (JObject ob)" "service_change P MyID ob (w_services w) ss'"
      "w_services w' = remove_zombies now ss'" "\<exists>n. now = word_of_int (w_clock w n div 1000000)" "w_clock w' = w_clock w"
proof (cases "\<exists>ob. Payload = Some (JObject ob)")
  case False
  then have "w' = w" using assms by (auto simp: BusMessageReceived_def split: option.splits json.splits)
  then show thesis using same by simp
next
  case True
  then obtain ob where ob: "Payload = Some (JObject ob)" by blast
  obtain r w1 where b: "run_state (bus_event P MyID ob (w_services w) A) w = (r, w1)" by (metis prod.exhaust)
  note c = bus_event_run [OF b]
  show thesis
  proof (cases r)
    case None
    then show thesis using assms b c ob same by (simp add: BusMessageReceived_def get_services_def)
  next
    case (Some p)
    then obtain ss' A1 where p: "r = Some (ss', A1)" "service_change P MyID ob (w_services w) ss'" using c by auto
    then show thesis using assms b c ob
      by (intro changed [of ob ss']) (auto simp: BusMessageReceived_def get_services_def put_services_def Now_def read_clock_def)
  qed
qed

section \<open>The registry over time\<close>

inductive registry :: "platform \<Rightarrow> uint64 \<Rightarrow> world \<Rightarrow> bool" for P MyID where
  start: "w_services w = [] \<Longrightarrow> registry P MyID w"
| message: "registry P MyID w \<Longrightarrow> run_state (BusMessageReceived P MyID m A) w = (A', w') \<Longrightarrow> registry P MyID w'"
| other: "registry P MyID w \<Longrightarrow> w_services w' = w_services w \<Longrightarrow> registry P MyID w'"

lemma registry_inv: "registry P MyID w \<Longrightarrow> wf_services P MyID (w_services w)"
proof (induction rule: registry.induct)
  case (message w m A A' w')
  from message(2) show ?case
    by (cases rule: BusMessage_run) (auto simp: message(3) wf_removals service_change_wf [OF _ message(3)])
qed (auto simp: wf_services_def)

fun bus_run :: "platform \<Rightarrow> uint64 \<Rightarrow> json option list \<Rightarrow> AuthClient \<Rightarrow> AuthClient io" where
  "bus_run P MyID [] A = ret A"
| "bus_run P MyID (m # ms) A = do { A' \<leftarrow> BusMessageReceived P MyID m A; bus_run P MyID ms A' }"

text \<open>A message that names the end point \<open>k\<close>.\<close>

definition names_endpoint :: "platform \<Rightarrow> string \<Rightarrow> json option \<Rightarrow> bool" where
  "names_endpoint P k m \<longleftrightarrow> (\<exists>ob. m = Some (JObject ob) \<and> text_of P ob ''privateEndPoint'' = Some k)"

definition secs :: "world \<Rightarrow> nat \<Rightarrow> uint64" where
  "secs w n = word_of_int (w_clock w n div 1000000)"

lemma service_change_keeps:
  "service_change P MyID ob ss ss' \<Longrightarrow> wf_services P MyID ss \<Longrightarrow> svc \<in> set ss \<Longrightarrow>
   text_of P ob ''privateEndPoint'' \<noteq> Some (ms_PrivateEndPoint svc) \<Longrightarrow> svc \<in> set ss'"
  by (induction rule: service_change.induct) (auto simp: erase_service_def set_put_service wf_services_def)

lemma message_keeps:
  assumes r: "run_state (BusMessageReceived P MyID m A) w = (A', w')"
    and wf: "registry P MyID w" and svc: "svc \<in> set (w_services w)"
    and time: "\<And>n. secs w n - ms_LastUpdate svc \<le> 120" and "\<not> names_endpoint P (ms_PrivateEndPoint svc) m"
  shows "svc \<in> set (w_services w') \<and> w_clock w' = w_clock w"
  using r
proof (cases rule: BusMessage_run)
  case same
  then show ?thesis using svc by simp
next
  case (changed ob ss' now)
  have "svc \<in> set ss'"
    using service_change_keeps [OF changed(2) registry_inv [OF wf] svc] assms(5) changed(1) by (auto simp: names_endpoint_def)
  moreover have "\<not> now - ms_LastUpdate svc > 120" using time changed(4) unfolding secs_def by (metis linorder_not_less)
  ultimately show ?thesis using changed(3,5) by (simp add: remove_zombies_def)
qed

lemma run_keeps:
  "registry P MyID w \<Longrightarrow> svc \<in> set (w_services w) \<Longrightarrow> (\<And>n. secs w n - ms_LastUpdate svc \<le> 120) \<Longrightarrow>
   \<forall>m \<in> set ms. \<not> names_endpoint P (ms_PrivateEndPoint svc) m \<Longrightarrow>
   svc \<in> set (w_services (snd (run_state (bus_run P MyID ms A) w)))"
proof (induction ms arbitrary: A w)
  case (Cons m ms)
  obtain A' w' where r: "run_state (BusMessageReceived P MyID m A) w = (A', w')" by (metis prod.exhaust)
  have k: "svc \<in> set (w_services w') \<and> w_clock w' = w_clock w"
    using Cons.prems by (intro message_keeps [OF r]) auto
  have "svc \<in> set (w_services (snd (run_state (bus_run P MyID ms A') w')))"
    using Cons.prems k registry.message [OF Cons.prems(1) r] by (intro Cons.IH) (auto simp: secs_def)
  then show ?case using r by simp
qed simp

text \<open>
  (C40) In every state the messages of the bus can lead to, the services are one per private end point, in
  the order of these; none carries the identity of this process, and every type is in lower case, as
  \<^verbatim>\<open>GetServices\<close> expects it.
\<close>

theorem registry_wf: "registry P MyID w \<Longrightarrow> wf_services P MyID (w_services w)"
  by (rule registry_inv)

section \<open>Joining and leaving\<close>

lemma event_fields:
  assumes "conv_doc P"
  shows "has (MakeSystemEventMessage P me ev) ''id''" "has (MakeSystemEventMessage P me ev) ''event''"
    "service_fields (MakeSystemEventMessage P me ev)"
    "text_of P (MakeSystemEventMessage P me ev) ''event'' = Some ev"
    "po_toUInt64 P (getVar (MakeSystemEventMessage P me ev) ''id'') = Inr (uint (ms_Id me))"
    "text_of P (MakeSystemEventMessage P me ev) ''privateEndPoint'' = Some (ms_PrivateEndPoint me)"
    "service_info P ID (MakeSystemEventMessage P me ev) =
       Some (\<lambda>now. me\<lparr>ms_Id := ID, ms_Type := po_toLower P (po_toLower P (ms_Type me)), ms_LastUpdate := now\<rparr>)"
  using assms
  by (cases me; simp add: MakeSystemEventMessage_def has_def getVar_def map_of_set_key service_fields_def text_of_def
      service_info_def conv_docD conv_uint64)+

text \<open>The entry a service gets by its message, at the time it is read.\<close>

definition joined :: "MicroServiceMeta \<Rightarrow> uint64 \<Rightarrow> MicroServiceMeta" where
  "joined me now = me\<lparr>ms_Type := map to_lower (ms_Type me), ms_LastUpdate := now\<rparr>"

lemma joined_sel [simp]: "ms_LastUpdate (joined me now) = now" "ms_PrivateEndPoint (joined me now) = ms_PrivateEndPoint me"
  by (simp_all add: joined_def)

lemma join_run:
  assumes "conv_doc P" "lower_doc P" and "ev = EVENT_JOIN \<or> ev = EVENT_KEEP_ALIVE" and "ms_Id me \<noteq> MyID"
    and wf: "wf_services P MyID (w_services w)" and time: "secs w (Suc (w_ticks w)) - secs w (w_ticks w) \<le> 120"
    and r: "run_state (BusMessageReceived P MyID (Some (JObject (MakeSystemEventMessage P me ev))) A) w = (A', w')"
  shows "joined me (secs w (w_ticks w)) \<in> set (w_services w') \<and> w_clock w' = w_clock w"
proof -
  have l: "po_toLower P (po_toLower P (ms_Type me)) = map to_lower (ms_Type me)"
    using assms(2) by simp
  have ev: "ev \<noteq> EVENT_LEAVE" using assms(3) by (auto simp: event_defs)
  have b: "run_state (bus_event P MyID (MakeSystemEventMessage P me ev) (w_services w) A) w =
      (Some (put_service (joined me (secs w (w_ticks w))) (w_services w), A), w\<lparr>w_ticks := Suc (w_ticks w)\<rparr>)"
    using assms(3,4) ev
    by (auto simp: bus_event_def event_fields [OF assms(1)] foreign_event_def Now_def read_clock_def secs_def joined_def l)
  have "joined me (secs w (w_ticks w)) \<in> set (put_service (joined me (secs w (w_ticks w))) (w_services w))"
    using wf by (simp add: set_put_service wf_services_def)
  then show ?thesis
    using r b time
    by (auto simp: BusMessageReceived_def get_services_def put_services_def Now_def read_clock_def remove_zombies_def secs_def)
qed


definition sample_peer :: MicroServiceMeta where
  "sample_peer = \<lparr>ms_Id = 7, ms_Type = ''OWSEC'', ms_PrivateEndPoint = ''https://sec:17001'',
     ms_PublicEndPoint = ''https://sec:16001'', ms_AccessKey = ''k'', ms_Version = ''2'', ms_LastUpdate = 0\<rparr>"

definition empty_auth :: AuthClient where
  "empty_auth = \<lparr>au_Cache = Map.empty, au_ApiKeyCache = Map.empty\<rparr>"

lemma secs_sample: "secs ((sample_world net)\<lparr>w_services := ss\<rparr>) n = 1728043200"
  by (simp add: secs_def)


theorem registry_wf_witness:
  "wf_services ref_platform 1 (w_services (snd (run_state (BusMessageReceived ref_platform 1
     (Some (JObject (MakeSystemEventMessage ref_platform sample_peer EVENT_JOIN))) empty_auth)
     ((sample_world (\<lambda>_ _. None))\<lparr>w_services := []\<rparr>))))"
proof -
  let ?w = "(sample_world (\<lambda>_ _. None))\<lparr>w_services := []\<rparr>"
  have "registry ref_platform 1 ?w" by (rule registry.start) simp
  from registry.message [OF this surjective_pairing]
  show ?thesis by (rule registry_wf)
qed

text \<open>
  (C7) A revoked token is checked again.  After the message of the security service that takes a
  token back, the next check of that token asks the security service, and succeeds only if that
  answers with 200.
\<close>

theorem revoked_token_asked_again:
  assumes "has ob ''id''" "has ob ''event''" "po_toUInt64 P (getVar ob ''id'') = Inr i" "word_of_int i \<noteq> MyID"
    and "text_of P ob ''event'' = Some EVENT_REMOVE_TOKEN" and "has ob ''token''" "text_of P ob ''token'' = Some tok"
    and "run_state (BusMessageReceived P MyID (Some (JObject ob)) A) w = (A1, w1)"
    and "GetServices P uSERVICE_SECURITY (w_services w1) = svc # svcs"
    and "run_state (IsAuthorized P tok Sub R A1) w1 = ((b, R', A2), w2)"
  shows "\<exists>c. w_calls w2 = w_calls w1 @ [c] \<and> c_type c = uSERVICE_SECURITY \<and> c_query c = [(''token'', tok)]
    \<and> (b \<longrightarrow> (\<exists>rp. w_net w1 (w_calls w1) c = Some rp \<and> rp_status rp = HTTP_OK))"
proof -
  have e: "EVENT_REMOVE_TOKEN \<noteq> EVENT_JOIN" "EVENT_REMOVE_TOKEN \<noteq> EVENT_KEEP_ALIVE" "EVENT_REMOVE_TOKEN \<noteq> EVENT_LEAVE"
    by (simp_all add: event_defs)
  have "A1 = RemovedCachedToken tok A"
    using assms(1-8) e
    by (auto simp: BusMessageReceived_def get_services_def put_services_def bus_event_def foreign_event_def Now_def read_clock_def)
  with assms(9,10) show ?thesis by (intro removed_token_asked_again) simp_all
qed

definition sample_revocation :: jobj where
  "sample_revocation = [(''event'', JString ''remove-token''), (''id'', JInt 7), (''token'', JString ''tok'')]"

theorem revoked_token_asked_again_witness:
  "let (A1, w1) = run_state (BusMessageReceived ref_platform 1 (Some (JObject sample_revocation)) empty_auth)
         ((sample_world token_net)\<lparr>w_services := [(sample_service ''owsec'')\<lparr>ms_LastUpdate := 1728043200\<rparr>]\<rparr>);
       ((b, R', A2), w2) = run_state (IsAuthorized ref_platform ''tok'' True auth_fresh A1) w1
   in \<exists>c. w_calls w2 = w_calls w1 @ [c] \<and> c_type c = uSERVICE_SECURITY \<and> c_query c = [(''token'', ''tok'')]"
proof -
  let ?w = "(sample_world token_net)\<lparr>w_services := [(sample_service ''owsec'')\<lparr>ms_LastUpdate := 1728043200\<rparr>]\<rparr>"
  obtain A1 w1 where m: "run_state (BusMessageReceived ref_platform 1 (Some (JObject sample_revocation)) empty_auth) ?w = (A1, w1)"
    by (metis prod.exhaust)
  obtain b R' A2 w2 where a: "run_state (IsAuthorized ref_platform ''tok'' True auth_fresh A1) w1 = ((b, R', A2), w2)"
    by (metis prod.exhaust)
  have f: "has sample_revocation ''id''" "has sample_revocation ''event''" "has sample_revocation ''token''"
    "po_toUInt64 ref_platform (getVar sample_revocation ''id'') = Inr 7"
    "text_of ref_platform sample_revocation ''event'' = Some EVENT_REMOVE_TOKEN"
    "text_of ref_platform sample_revocation ''token'' = Some ''tok''"
    by (simp_all add: sample_revocation_def has_def getVar_def text_of_def event_defs conv_docD [OF ref_platform_docs(6)])
  have "w_services w1 = [(sample_service ''owsec'')\<lparr>ms_LastUpdate := 1728043200\<rparr>]"
    using m f
    by (simp add: BusMessageReceived_def get_services_def put_services_def bus_event_def foreign_event_def Now_def
        read_clock_def remove_zombies_def event_defs split: prod.splits) auto
  then have g: "GetServices ref_platform uSERVICE_SECURITY (w_services w1) = (sample_service ''owsec'')\<lparr>ms_LastUpdate := 1728043200\<rparr> # []"
    by (simp add: GetServices_def sample_service_def service_names ref_platform_def to_lower_def is_upper_def)
  from revoked_token_asked_again [OF f(1,2,4) _ f(5,3,6) m g a] show ?thesis using m a by auto
qed

end
