(* ===== verification/WebSocket.thy ===== *)
theory WebSocket
  imports AuthClient
begin

text \<open>
  The server of web-socket clients, \<^verbatim>\<open>src/framework/UI_WebSocketClientServer.h\<close> and \<^verbatim>\<open>.cpp\<close>, and the logger that
  sends the messages of the log to them, \<^verbatim>\<open>WebSocketLogger.h\<close>.  Clients are the entries of \<^verbatim>\<open>Clients_\<close>, by
  descriptor and in that order; the frames sent are recorded in the order they leave.  The reactor calls
  the handlers of a socket while it is registered.  Two arguments stand for code outside the
  repository: \<open>proc\<close> is the application's \<^verbatim>\<open>Processor\<close> (\<open>None\<close> for a null pointer) and \<open>sends\<close> says whether a
  \<^verbatim>\<open>sendFrame\<close> to a descriptor succeeds; when it throws, the connection is ended.
\<close>

section \<open>State\<close>

record UI_WebSocketClientInfo =
  wc_Id :: string
  wc_UserName :: string
  wc_Authenticated :: bool
  wc_SocketRegistered :: bool
  wc_Filter :: "uint64 list"
  wc_UserInfo :: UserInfoAndPolicy

record NotificationEntry =
  ne_id :: uint64
  ne_helper :: string

text \<open>What a frame holds: a document, the text of the application, or nothing (a pong).\<close>

datatype frame = JsonFrame jobj | TextFrame string | PongFrame

record UI_WebSocketClientServer =
  ws_Clients :: "(int \<times> UI_WebSocketClientInfo) list"
  ws_UsersConnected :: nat
  ws_NotificationTypes :: "NotificationEntry list"
  ws_NotificationTypesJSON :: jobj
  ws_ToBeRemoved :: "int list"
  ws_sent :: "(int \<times> frame) list"

type_synonym processor = "(jobj \<Rightarrow> UserInfo \<Rightarrow> string \<times> bool) option"

section \<open>Operations\<close>

fun put_client :: "int \<Rightarrow> 'c \<Rightarrow> (int \<times> 'c) list \<Rightarrow> (int \<times> 'c) list" where
  "put_client fd c [] = [(fd, c)]"
| "put_client fd c (p # ps) =
     (if fst p = fd then (fd, c) # ps else if fd < fst p then (fd, c) # p # ps else p # put_client fd c ps)"

definition change_client ::
  "int \<Rightarrow> (UI_WebSocketClientInfo \<Rightarrow> UI_WebSocketClientInfo) \<Rightarrow> UI_WebSocketClientServer \<Rightarrow> UI_WebSocketClientServer" where
  "change_client fd f V = V\<lparr>ws_Clients := map (\<lambda>(d, c). (d, if d = fd then f c else c)) (ws_Clients V)\<rparr>"

definition send_frame :: "int \<Rightarrow> frame \<Rightarrow> UI_WebSocketClientServer \<Rightarrow> UI_WebSocketClientServer" where
  "send_frame fd m V = V\<lparr>ws_sent := ws_sent V @ [(fd, m)]\<rparr>"

definition NewClient :: "int \<Rightarrow> string \<Rightarrow> string \<Rightarrow> UI_WebSocketClientServer \<Rightarrow> UI_WebSocketClientServer" where
  "NewClient fd Ident UserName V = (let Clients = put_client fd \<lparr>wc_Id = Ident, wc_UserName = UserName, wc_Authenticated = False,
       wc_SocketRegistered = True, wc_Filter = [], wc_UserInfo = UserInfoAndPolicy_fresh\<rparr> (ws_Clients V)
     in V\<lparr>ws_Clients := Clients, ws_UsersConnected := length Clients\<rparr>)"

text \<open>One round of the cleaner: the descriptors to be removed are erased, an unknown one is skipped.\<close>

definition clean_once :: "UI_WebSocketClientServer \<Rightarrow> UI_WebSocketClientServer" where
  "clean_once V = (let Clients = filter (\<lambda>(d, _). d \<notin> set (ws_ToBeRemoved V)) (ws_Clients V)
     in V\<lparr>ws_Clients := Clients, ws_ToBeRemoved := [], ws_UsersConnected := length Clients\<rparr>)"

definition EndConnection :: "int \<Rightarrow> UI_WebSocketClientServer \<Rightarrow> UI_WebSocketClientServer" where
  "EndConnection fd V = (let V' = change_client fd (\<lambda>c. c\<lparr>wc_SocketRegistered := False\<rparr>) V
     in V'\<lparr>ws_ToBeRemoved := ws_ToBeRemoved V' @ [fd]\<rparr>)"

definition WsServer_Stop :: "UI_WebSocketClientServer \<Rightarrow> UI_WebSocketClientServer" where
  "WsServer_Stop V = V\<lparr>ws_Clients := []\<rparr>"

definition IsFiltered :: "uint64 \<Rightarrow> UI_WebSocketClientInfo \<Rightarrow> bool" where
  "IsFiltered i c \<longleftrightarrow> i \<in> set (wc_Filter c)"

text \<open>The first connection of the user decides; an exception of the socket counts as not sent.\<close>

definition SendToUser ::
  "(int \<Rightarrow> bool) \<Rightarrow> string \<Rightarrow> uint64 \<Rightarrow> frame \<Rightarrow> UI_WebSocketClientServer \<Rightarrow> bool \<times> UI_WebSocketClientServer" where
  "SendToUser sends UserName i Payload V =
     (case find (\<lambda>(_, c). wc_UserName c = UserName) (ws_Clients V) of
        None \<Rightarrow> (False, V)
      | Some (fd, c) \<Rightarrow> if \<not> IsFiltered i c \<and> wc_Authenticated c \<and> sends fd
          then (True, send_frame fd Payload V) else (False, V))"

definition SendToAll ::
  "(int \<Rightarrow> bool) \<Rightarrow> uint64 \<Rightarrow> frame \<Rightarrow> UI_WebSocketClientServer \<Rightarrow> UI_WebSocketClientServer" where
  "SendToAll sends i Payload V = fold (\<lambda>(fd, c) V'. if \<not> IsFiltered i c \<and> wc_Authenticated c \<and> sends fd
     then send_frame fd Payload V' else V') (ws_Clients V) V"

definition SortNotifications :: "UI_WebSocketClientServer \<Rightarrow> UI_WebSocketClientServer" where
  "SortNotifications V = (let ns = sort_key ne_id (ws_NotificationTypes V) in V\<lparr>ws_NotificationTypes := ns,
     ws_NotificationTypesJSON := set_key ''notificationTypes'' (JArray (map (\<lambda>n. JObject
       (set_key ''helper'' (JString (ne_helper n)) (set_key ''id'' (JInt (uint (ne_id n))) []))) ns)) []\<rparr>)"

definition RegisterNotifications :: "NotificationEntry list \<Rightarrow> UI_WebSocketClientServer \<Rightarrow> UI_WebSocketClientServer" where
  "RegisterNotifications ns V = SortNotifications (V\<lparr>ws_NotificationTypes := ws_NotificationTypes V @ ns\<rparr>)"

text \<open>\<^verbatim>\<open>OnSocketError\<close> and \<^verbatim>\<open>OnSocketShutdown\<close>.\<close>

definition OnSocketGone :: "int \<Rightarrow> UI_WebSocketClientServer \<Rightarrow> UI_WebSocketClientServer" where
  "OnSocketGone fd V = (case map_of (ws_Clients V) fd of None \<Rightarrow> V | Some _ \<Rightarrow> EndConnection fd V)"

text \<open>
  What \<^verbatim>\<open>receiveFrame\<close> gives: an exception, an empty frame, a ping, a close, a text with what the JSON parser
  reads from it (\<open>None\<close> when it throws), or any other frame.
\<close>

datatype incoming = Throws | NoBytes | Ping | CloseFrame | Incoming string "json option" | OtherFrame

definition drop_filters :: "platform \<Rightarrow> json list \<Rightarrow> uint64 list option" where
  "drop_filters P xs = map_option (map word_of_int)
     (those (map (\<lambda>x. case po_toUInt64 P x of Inl _ \<Rightarrow> None | Inr i \<Rightarrow> Some i) xs))"

text \<open>A text of a client that has not shown a token yet: \<^verbatim>\<open>word:token\<close>, up to the first zero byte.\<close>

definition authenticate ::
  "platform \<Rightarrow> (int \<Rightarrow> bool) \<Rightarrow> int \<Rightarrow> string \<Rightarrow> UI_WebSocketClientInfo \<Rightarrow> UI_WebSocketClientServer \<Rightarrow> AuthClient \<Rightarrow>
   (UI_WebSocketClientServer \<times> AuthClient) io" where
  "authenticate P sends fd txt c V A = (case Split (takeWhile (\<lambda>ch. ch \<noteq> CHR 0x00) txt) (CHR '':'') of
     [_, token] \<Rightarrow> do {
       (okv, R, A') \<leftarrow> IsAuthorized P token False
         \<lparr>ar_UInfo = wc_UserInfo c, ar_Expired = False, ar_Contacted = False\<rparr> A;
       let V1 = change_client fd (\<lambda>c. c\<lparr>wc_UserInfo := ar_UInfo R\<rparr>) V;
       (if okv then
          let V2 = change_client fd (\<lambda>c. c\<lparr>wc_Authenticated := True, wc_UserName := ui_email (up_userinfo (ar_UInfo R))\<rparr>) V1
          in ret (if sends fd then send_frame fd (JsonFrame (set_key ''success''
                 (JString ''Welcome! Bienvenue! Bienvenidos!'') (ws_NotificationTypesJSON V2))) V2
               else EndConnection fd V2, A')
        else ret (EndConnection fd (if sends fd then send_frame fd (JsonFrame (set_key ''error''
               (JString ''Invalid token. Closing connection.'') [])) V1 else V1), A'))
     }
   | _ \<Rightarrow> ret (EndConnection fd (if sends fd then send_frame fd (JsonFrame (set_key ''error''
       (JString ''Invalid token. Closing connection.'') [])) V else V), A))"

text \<open>A message of an authenticated client; a filter that does not convert leaves the earlier ones cleared.\<close>

definition handle_text ::
  "platform \<Rightarrow> processor \<Rightarrow> (int \<Rightarrow> bool) \<Rightarrow> int \<Rightarrow> json option \<Rightarrow> UI_WebSocketClientInfo \<Rightarrow> UI_WebSocketClientServer \<Rightarrow>
   UI_WebSocketClientServer" where
  "handle_text P proc sends fd parsed c V = (case parsed of
     Some (JObject ob) \<Rightarrow>
       (case getArray ob ''drop-notifications'' of
          Some xs \<Rightarrow> (case drop_filters P xs of
              Some fs \<Rightarrow> change_client fd (\<lambda>c. c\<lparr>wc_Filter := sort fs\<rparr>) V
            | None \<Rightarrow> EndConnection fd (change_client fd (\<lambda>c. c\<lparr>wc_Filter := map (\<lambda>x. case po_toUInt64 P x of
                  Inl _ \<Rightarrow> 0 | Inr i \<Rightarrow> word_of_int i) (takeWhile (\<lambda>x. \<not> isl (po_toUInt64 P x)) xs)\<rparr>) V))
        | None \<Rightarrow>
            let (Answer, CloseConnection) = (case proc of None \<Rightarrow> ([], False) | Some f \<Rightarrow> f ob (up_userinfo (wc_UserInfo c)));
                V1 = (if sends fd then send_frame fd (if Answer \<noteq> [] then TextFrame Answer else JsonFrame []) V else V)
            in if CloseConnection \<or> \<not> sends fd then EndConnection fd V1 else V1)
   | _ \<Rightarrow> EndConnection fd V)"

definition OnSocketReadable ::
  "platform \<Rightarrow> processor \<Rightarrow> (int \<Rightarrow> bool) \<Rightarrow> int \<Rightarrow> incoming \<Rightarrow> UI_WebSocketClientServer \<Rightarrow> AuthClient \<Rightarrow>
   (UI_WebSocketClientServer \<times> AuthClient) io" where
  "OnSocketReadable P proc sends fd m V A = (case map_of (ws_Clients V) fd of
     None \<Rightarrow> ret (V, A)
   | Some c \<Rightarrow> (case m of
       Throws \<Rightarrow> ret (EndConnection fd V, A)
     | NoBytes \<Rightarrow> ret (EndConnection fd V, A)
     | Ping \<Rightarrow> ret (if sends fd then send_frame fd PongFrame V else EndConnection fd V, A)
     | CloseFrame \<Rightarrow> ret (EndConnection fd V, A)
     | OtherFrame \<Rightarrow> ret (V, A)
     | Incoming txt parsed \<Rightarrow>
         if \<not> wc_Authenticated c then authenticate P sends fd txt c V A
         else ret (handle_text P proc sends fd parsed c V, A)))"

section \<open>The logger\<close>

definition NotificationLogMessage_to_json :: "string \<Rightarrow> string \<Rightarrow> uint64 \<Rightarrow> string \<Rightarrow> string \<Rightarrow> uint64 \<Rightarrow> jobj" where
  "NotificationLogMessage_to_json m level timestamp source thread_name thread_id =
     set_key ''thread_id'' (JInt (uint thread_id)) (set_key ''thread_name'' (JString thread_name)
    (set_key ''source'' (JString source) (set_key ''timestamp'' (JInt (uint timestamp))
    (set_key ''level'' (JString level) (set_key ''msg'' (JString m) [])))))"

definition WebSocketNotification_to_json :: "uint64 \<Rightarrow> uint64 \<Rightarrow> jobj \<Rightarrow> jobj" where
  "WebSocketNotification_to_json notification_id type_id content =
     set_key ''content'' (JObject content) (set_key ''type_id'' (JInt (uint type_id))
    (set_key ''notification_id'' (JInt (uint notification_id)) []))"

definition SendNotification ::
  "(int \<Rightarrow> bool) \<Rightarrow> uint64 \<Rightarrow> uint64 \<Rightarrow> jobj \<Rightarrow> UI_WebSocketClientServer \<Rightarrow> UI_WebSocketClientServer" where
  "SendNotification sends notification_id type_id content V =
     SendToAll sends type_id (JsonFrame (set_key ''notification'' (JObject (WebSocketNotification_to_json notification_id type_id content)) [])) V"

definition SendUserNotification ::
  "(int \<Rightarrow> bool) \<Rightarrow> string \<Rightarrow> uint64 \<Rightarrow> uint64 \<Rightarrow> jobj \<Rightarrow> UI_WebSocketClientServer \<Rightarrow> bool \<times> UI_WebSocketClientServer" where
  "SendUserNotification sends userName notification_id type_id content V =
     SendToUser sends userName type_id (JsonFrame (set_key ''notification'' (JObject (WebSocketNotification_to_json notification_id type_id content)) [])) V"

definition WebSocketLogger_log ::
  "(int \<Rightarrow> bool) \<Rightarrow> uint64 \<Rightarrow> string \<Rightarrow> string \<Rightarrow> uint64 \<Rightarrow> string \<Rightarrow> string \<Rightarrow> uint64 \<Rightarrow> UI_WebSocketClientServer \<Rightarrow>
   UI_WebSocketClientServer" where
  "WebSocketLogger_log sends xid m level timestamp source thread_name thread_id V =
     (if ws_UsersConnected V > 0
      then SendNotification sends xid 1 (NotificationLogMessage_to_json m level timestamp source thread_name thread_id) V
      else V)"

section \<open>The server over time\<close>

text \<open>
  A new connection has a descriptor no client in the map holds, since a socket stays open as long as its
  client is in the map.  The handlers of a socket run while it is registered.  The authentication
  client and the rest of the portal go on in between.
\<close>

inductive ws_step :: "platform \<Rightarrow> processor \<Rightarrow> UI_WebSocketClientServer \<times> AuthClient \<times> world \<Rightarrow>
    UI_WebSocketClientServer \<times> AuthClient \<times> world \<Rightarrow> bool" for P proc where
  new: "map_of (ws_Clients V) fd = None \<Longrightarrow> ws_step P proc (V, A, w) (NewClient fd Ident UserName V, A, w)"
| readable: "map_of (ws_Clients V) fd = Some c \<Longrightarrow> wc_SocketRegistered c \<Longrightarrow>
    run_state (OnSocketReadable P proc sends fd m V A) w = ((V', A'), w') \<Longrightarrow> ws_step P proc (V, A, w) (V', A', w')"
| gone: "map_of (ws_Clients V) fd = Some c \<Longrightarrow> wc_SocketRegistered c \<Longrightarrow> ws_step P proc (V, A, w) (OnSocketGone fd V, A, w)"
| clean: "ws_step P proc (V, A, w) (clean_once V, A, w)"
| send_all: "ws_step P proc (V, A, w) (SendToAll sends i m V, A, w)"
| send_user: "ws_step P proc (V, A, w) (snd (SendToUser sends u i m V), A, w)"
| types: "ws_step P proc (V, A, w) (RegisterNotifications ns V, A, w)"
| auth: "auth_step P (A, w) (A', w') \<Longrightarrow> ws_step P proc (V, A, w) (V, A', w')"

definition ws_fresh :: UI_WebSocketClientServer where
  "ws_fresh = \<lparr>ws_Clients = [], ws_UsersConnected = 0, ws_NotificationTypes = [], ws_NotificationTypesJSON = [],
     ws_ToBeRemoved = [], ws_sent = []\<rparr>"

inductive ws_reachable :: "platform \<Rightarrow> processor \<Rightarrow> UI_WebSocketClientServer \<times> AuthClient \<times> world \<Rightarrow> bool" for P proc where
  initial: "ws_reachable P proc (ws_fresh, \<lparr>au_Cache = Map.empty, au_ApiKeyCache = Map.empty\<rparr>, w)"
| step: "ws_reachable P proc s \<Longrightarrow> ws_step P proc s s' \<Longrightarrow> ws_reachable P proc s'"

text \<open>A client is entitled when the security service named its user for a token.\<close>

definition entitled :: "platform \<Rightarrow> world \<Rightarrow> UI_WebSocketClientInfo \<Rightarrow> bool" where
  "entitled P w c \<longleftrightarrow> (\<exists>tok. token_answer P w tok (wc_UserInfo c)) \<and> wc_UserName c = ui_email (up_userinfo (wc_UserInfo c))"

definition client_ok :: "platform \<Rightarrow> world \<Rightarrow> UI_WebSocketClientInfo \<Rightarrow> bool" where
  "client_ok P w c \<longleftrightarrow> (wc_Authenticated c \<longrightarrow> entitled P w c)
     \<and> (\<not> wc_Authenticated c \<and> wc_SocketRegistered c \<longrightarrow> wc_UserInfo c = UserInfoAndPolicy_fresh)"

fun ws_inv :: "platform \<Rightarrow> UI_WebSocketClientServer \<times> AuthClient \<times> world \<Rightarrow> bool" where
  "ws_inv P (V, A, w) \<longleftrightarrow> auth_inv P (A, w) \<and> distinct (map fst (ws_Clients V))
     \<and> (\<forall>(fd, c) \<in> set (ws_Clients V). client_ok P w c) \<and> distinct (ws_ToBeRemoved V)
     \<and> (\<forall>fd \<in> set (ws_ToBeRemoved V). \<exists>c. map_of (ws_Clients V) fd = Some c \<and> \<not> wc_SocketRegistered c)"

lemma set_put_client: "fd \<notin> fst ` set ps \<Longrightarrow> set (put_client fd c ps) = insert (fd, c) (set ps)"
  by (induction fd c ps rule: put_client.induct) auto

lemma distinct_put_client: "fd \<notin> fst ` set ps \<Longrightarrow> distinct (map fst ps) \<Longrightarrow> distinct (map fst (put_client fd c ps))"
  by (induction fd c ps rule: put_client.induct) (auto simp: set_put_client)

lemma map_of_put_client: "map_of (put_client fd c ps) d = (if d = fd then Some c else map_of ps d)"
  by (induction fd c ps rule: put_client.induct) auto

lemma fst_change [simp]: "map fst (ws_Clients (change_client fd f V)) = map fst (ws_Clients V)"
  by (induction "ws_Clients V") (auto simp: change_client_def case_prod_unfold)

lemma map_of_change [simp]:
  "map_of (ws_Clients (change_client fd f V)) d = map_option (\<lambda>c. if d = fd then f c else c) (map_of (ws_Clients V) d)"
proof -
  have "map_of (map (\<lambda>(d, c). (d, if d = fd then f c else c)) ps) d = map_option (\<lambda>c. if d = fd then f c else c) (map_of ps d)" for ps
    by (induction ps) auto
  then show ?thesis by (simp add: change_client_def)
qed

lemma change_other [simp]:
  "ws_ToBeRemoved (change_client fd f V) = ws_ToBeRemoved V" "ws_sent (change_client fd f V) = ws_sent V"
  "ws_ToBeRemoved (send_frame fd m V) = ws_ToBeRemoved V" "ws_Clients (send_frame fd m V) = ws_Clients V"
  "ws_NotificationTypesJSON (change_client fd f V) = ws_NotificationTypesJSON V"
  by (simp_all add: change_client_def send_frame_def)

lemma clients_as_map: "distinct (map fst ps) \<Longrightarrow> (\<forall>(fd, c) \<in> set ps. Q c) \<longleftrightarrow> (\<forall>fd c. map_of ps fd = Some c \<longrightarrow> Q c)"
  by (auto dest: map_of_SomeD)

text \<open>The invariant on the map of clients, so that changes of one client are changes of the map.\<close>

definition table_ok :: "platform \<Rightarrow> world \<Rightarrow> UI_WebSocketClientServer \<Rightarrow> bool" where
  "table_ok P w V \<longleftrightarrow> distinct (map fst (ws_Clients V)) \<and> (\<forall>fd c. map_of (ws_Clients V) fd = Some c \<longrightarrow> client_ok P w c)
     \<and> distinct (ws_ToBeRemoved V)
     \<and> (\<forall>fd \<in> set (ws_ToBeRemoved V). \<exists>c. map_of (ws_Clients V) fd = Some c \<and> \<not> wc_SocketRegistered c)"

lemma ws_inv_table: "ws_inv P (V, A, w) \<longleftrightarrow> auth_inv P (A, w) \<and> table_ok P w V"
  unfolding ws_inv.simps table_ok_def using clients_as_map [of "ws_Clients V"] by blast

lemma client_ok_extends: "client_ok P w c \<Longrightarrow> extends w w' \<Longrightarrow> client_ok P w' c"
  unfolding client_ok_def entitled_def using answer_extends(1) by blast

lemma table_ok_extends: "table_ok P w V \<Longrightarrow> extends w w' \<Longrightarrow> table_ok P w' V"
  unfolding table_ok_def using client_ok_extends by blast

lemma table_ok_send [simp]: "table_ok P w (send_frame fd m V) \<longleftrightarrow> table_ok P w V"
  by (simp add: table_ok_def)

lemma table_ok_change:
  assumes "table_ok P w V" and "\<And>c. map_of (ws_Clients V) fd = Some c \<Longrightarrow> client_ok P w c \<Longrightarrow>
    client_ok P w (f c) \<and> (\<not> wc_SocketRegistered c \<longrightarrow> \<not> wc_SocketRegistered (f c))"
  shows "table_ok P w (change_client fd f V)"
  using assms unfolding table_ok_def by (auto split: if_splits) (metis (full_types))+

lemma table_ok_cong:
  "ws_Clients V = ws_Clients V' \<Longrightarrow> ws_ToBeRemoved V = ws_ToBeRemoved V' \<Longrightarrow> table_ok P w V \<longleftrightarrow> table_ok P w V'"
  by (simp add: table_ok_def)

lemma table_ok_End_changed:
  assumes "table_ok P w V" and c: "map_of (ws_Clients V) fd = Some c" "wc_SocketRegistered c"
    and "client_ok P w ((f c)\<lparr>wc_SocketRegistered := False\<rparr>)"
    and V1: "ws_Clients V1 = ws_Clients (change_client fd f V)" "ws_ToBeRemoved V1 = ws_ToBeRemoved V"
  shows "table_ok P w (EndConnection fd V1)"
proof -
  let ?V2 = "change_client fd (\<lambda>c. (f c)\<lparr>wc_SocketRegistered := False\<rparr>) V"
  have "table_ok P w ?V2" by (rule table_ok_change [OF assms(1)]) (use assms(4) c in auto)
  moreover have "fd \<notin> set (ws_ToBeRemoved V)" using assms(1) c unfolding table_ok_def by (metis option.inject)
  ultimately have "table_ok P w (?V2\<lparr>ws_ToBeRemoved := ws_ToBeRemoved V @ [fd]\<rparr>)"
    using c unfolding table_ok_def by (auto simp del: map_of_eq_Some_iff)
  moreover have "ws_Clients (EndConnection fd V1) = ws_Clients ?V2"
    using V1(1) by (auto simp: EndConnection_def Let_def change_client_def)
  moreover have "ws_ToBeRemoved (EndConnection fd V1) = ws_ToBeRemoved V @ [fd]"
    using V1(2) by (simp add: EndConnection_def Let_def)
  ultimately show ?thesis
    using table_ok_cong [of "EndConnection fd V1" "?V2\<lparr>ws_ToBeRemoved := ws_ToBeRemoved V @ [fd]\<rparr>" P w] by simp
qed

lemma change_change: "change_client fd g (change_client fd f V) = change_client fd (\<lambda>c. g (f c)) V"
proof -
  have "map (\<lambda>(d, c). (d, if d = fd then g c else c)) (map (\<lambda>(d, c). (d, if d = fd then f c else c)) ps) =
      map (\<lambda>(d, c). (d, if d = fd then g (f c) else c)) ps" for ps
    by (induction ps) auto
  then show ?thesis by (simp add: change_client_def)
qed

lemma change_same [simp]: "change_client fd (\<lambda>c. c) V = V"
  by (simp add: change_client_def)

lemma table_ok_End:
  assumes "table_ok P w V" and "map_of (ws_Clients V) fd = Some c" and "wc_SocketRegistered c"
  shows "table_ok P w (EndConnection fd V)"
  by (rule table_ok_End_changed [OF assms, where f = "\<lambda>c. c"])
    (use assms in \<open>auto simp: table_ok_def client_ok_def entitled_def\<close>)

lemma authenticate_run:
  assumes inv: "table_ok P w V" "auth_inv P (A, w)" and c: "map_of (ws_Clients V) fd = Some c" "wc_SocketRegistered c" "\<not> wc_Authenticated c"
    and r: "run_state (authenticate P sends fd txt c V A) w = ((V', A'), w')"
  shows "table_ok P w' V' \<and> auth_inv P (A', w')"
proof -
  let ?bad = "\<lambda>V. EndConnection fd (if sends fd then send_frame fd (JsonFrame (set_key ''error''
       (JString ''Invalid token. Closing connection.'') [])) V else V)"
  have bad: "table_ok P v (?bad V1)"
    if "table_ok P v V1" "map_of (ws_Clients V1) fd = Some c1" "wc_SocketRegistered c1" for v V1 c1
    using that table_ok_End [of P v "send_frame fd m V1" fd c1 for m] table_ok_End [of P v V1 fd c1] by simp
  have no: "authenticate P sends fd txt c V A = ret (?bad V, A)"
    if "\<nexists>x token. Split (takeWhile (\<lambda>ch. ch \<noteq> CHR 0x00) txt) (CHR '':'') = [x, token]"
    using that unfolding authenticate_def by (auto split: list.splits)
  consider token where "\<exists>x. Split (takeWhile (\<lambda>ch. ch \<noteq> CHR 0x00) txt) (CHR '':'') = [x, token]"
    | "authenticate P sends fd txt c V A = ret (?bad V, A)" using no by blast
  then show ?thesis
  proof cases
    case 2
    then show ?thesis using r bad [OF inv(1) c(1,2)] inv(2) by simp
  next
    case (1 token)
    have fresh: "\<lparr>ar_UInfo = wc_UserInfo c, ar_Expired = False, ar_Contacted = False\<rparr> = auth_fresh"
      using inv(1) c unfolding table_ok_def client_ok_def auth_fresh_def by auto
    obtain b R A1 w1 where a: "run_state (IsAuthorized P token False auth_fresh A) w = ((b, R, A1), w1)"
      by (metis prod.exhaust)
    note ia = IsAuthorized_run [OF a]
    let ?V1 = "change_client fd (\<lambda>c. c\<lparr>wc_UserInfo := ar_UInfo R\<rparr>) V"
    let ?V2 = "change_client fd (\<lambda>c. c\<lparr>wc_Authenticated := True, wc_UserName := ui_email (up_userinfo (ar_UInfo R))\<rparr>) ?V1"
    have ainv: "auth_inv P (A1, w1)" by (rule auth_step_inv [OF auth_step.token [OF a] inv(2)])
    have t1: "table_ok P w1 V" by (rule table_ok_extends [OF inv(1) ia(1)])
    show ?thesis
    proof (cases b)
      case True
      have "token_answer P w1 token (ar_UInfo R)"
        using ia(4) [OF True] inv(2) answer_extends(1) [OF _ ia(1)] by auto
      then have ok: "client_ok P w1 (c\<lparr>wc_UserInfo := ar_UInfo R, wc_Authenticated := True,
          wc_UserName := ui_email (up_userinfo (ar_UInfo R))\<rparr>)"
        unfolding client_ok_def entitled_def by auto
      have e: "?V2 = change_client fd (\<lambda>c. c\<lparr>wc_UserInfo := ar_UInfo R, wc_Authenticated := True,
          wc_UserName := ui_email (up_userinfo (ar_UInfo R))\<rparr>) V"
        by (simp add: change_change)
      have t2: "table_ok P w1 ?V2"
        unfolding e by (rule table_ok_change [OF t1]) (use ok c in auto)
      have V': "V' = (if sends fd then send_frame fd (JsonFrame (set_key ''success''
          (JString ''Welcome! Bienvenue! Bienvenidos!'') (ws_NotificationTypesJSON ?V2))) ?V2 else EndConnection fd ?V2)"
        "A' = A1" "w' = w1"
        using r 1 a True by (auto simp: authenticate_def fresh Let_def)
      have "table_ok P w1 (EndConnection fd ?V2)"
        by (rule table_ok_End [OF t2, of _ "c\<lparr>wc_UserInfo := ar_UInfo R, wc_Authenticated := True,
          wc_UserName := ui_email (up_userinfo (ar_UInfo R))\<rparr>"]) (use c in simp_all)
      then show ?thesis using V' t2 ainv by simp
    next
      case False
      have V': "V' = ?bad ?V1" "A' = A1" "w' = w1"
        using r 1 a False by (auto simp: authenticate_def fresh Let_def)
      have "table_ok P w1 (?bad ?V1)"
        by (rule table_ok_End_changed [OF t1 c(1,2), where f = "\<lambda>c. c\<lparr>wc_UserInfo := ar_UInfo R\<rparr>"])
          (use c(3) in \<open>auto simp: client_ok_def\<close>)
      then show ?thesis using V' ainv by simp
    qed
  qed
qed

lemma filter_ok:
  assumes "table_ok P w V" and c: "map_of (ws_Clients V) fd = Some c" "wc_SocketRegistered c"
  shows "table_ok P w (change_client fd (\<lambda>c. c\<lparr>wc_Filter := fs\<rparr>) V)"
    and "table_ok P w (EndConnection fd (change_client fd (\<lambda>c. c\<lparr>wc_Filter := fs\<rparr>) V))"
proof -
  have ok: "client_ok P w (c\<lparr>wc_Filter := fs\<rparr>) \<longleftrightarrow> client_ok P w c" for c
    by (simp add: client_ok_def entitled_def)
  show t: "table_ok P w (change_client fd (\<lambda>c. c\<lparr>wc_Filter := fs\<rparr>) V)"
    by (rule table_ok_change [OF assms(1)]) (simp add: ok)
  show "table_ok P w (EndConnection fd (change_client fd (\<lambda>c. c\<lparr>wc_Filter := fs\<rparr>) V))"
    by (rule table_ok_End [OF t, of _ "c\<lparr>wc_Filter := fs\<rparr>"]) (use c in simp_all)
qed

lemma handle_text_ok:
  assumes "table_ok P w V" and c: "map_of (ws_Clients V) fd = Some c" "wc_SocketRegistered c"
  shows "table_ok P w (handle_text P proc sends fd parsed d V)"
  using filter_ok [OF assms] table_ok_End [OF assms] table_ok_End [of P w "send_frame fd m V" fd c for m] assms
  unfolding handle_text_def Let_def by (auto split: option.splits json.splits prod.splits)

lemma readable_ok:
  assumes "table_ok P w V" "auth_inv P (A, w)" and c: "map_of (ws_Clients V) fd = Some c" "wc_SocketRegistered c"
    and r: "run_state (OnSocketReadable P proc sends fd m V A) w = ((V', A'), w')"
  shows "table_ok P w' V' \<and> auth_inv P (A', w')"
proof (cases m)
  case (Incoming bytes parsed)
  show ?thesis
  proof (cases "wc_Authenticated c")
    case True
    then show ?thesis using r c Incoming handle_text_ok [OF assms(1) c] assms(2) by (auto simp: OnSocketReadable_def)
  next
    case False
    then show ?thesis
      using r c Incoming by (intro authenticate_run [OF assms(1,2) c]) (auto simp: OnSocketReadable_def)
  qed
qed (use r c assms(1,2) table_ok_End [OF assms(1) c] in \<open>auto simp: OnSocketReadable_def\<close>)

lemma Sends_keep:
  "ws_Clients (SendToAll sends i m V) = ws_Clients V \<and> ws_ToBeRemoved (SendToAll sends i m V) = ws_ToBeRemoved V"
  "ws_Clients (snd (SendToUser sends u i m V)) = ws_Clients V \<and> ws_ToBeRemoved (snd (SendToUser sends u i m V)) = ws_ToBeRemoved V"
proof -
  have "ws_Clients (fold (\<lambda>(fd, c) V'. if \<not> IsFiltered i c \<and> wc_Authenticated c \<and> sends fd then send_frame fd m V' else V') cs V)
      = ws_Clients V \<and> ws_ToBeRemoved (fold (\<lambda>(fd, c) V'. if \<not> IsFiltered i c \<and> wc_Authenticated c \<and> sends fd
        then send_frame fd m V' else V') cs V) = ws_ToBeRemoved V" for cs
    by (induction cs arbitrary: V) auto
  then show "ws_Clients (SendToAll sends i m V) = ws_Clients V \<and> ws_ToBeRemoved (SendToAll sends i m V) = ws_ToBeRemoved V"
    by (simp add: SendToAll_def)
  show "ws_Clients (snd (SendToUser sends u i m V)) = ws_Clients V \<and> ws_ToBeRemoved (snd (SendToUser sends u i m V)) = ws_ToBeRemoved V"
    by (auto simp: SendToUser_def split: option.splits)
qed

lemma new_ok: "map_of (ws_Clients V) fd = None \<Longrightarrow> table_ok P w V \<Longrightarrow> table_ok P w (NewClient fd Ident UserName V)"
proof -
  assume a: "map_of (ws_Clients V) fd = None" "table_ok P w V"
  then have "fd \<notin> set (ws_ToBeRemoved V)" unfolding table_ok_def by (metis option.distinct(1))
  with a show "table_ok P w (NewClient fd Ident UserName V)"
    unfolding table_ok_def NewClient_def Let_def
    by (auto simp: distinct_put_client map_of_put_client map_of_eq_None_iff client_ok_def simp del: map_of_eq_Some_iff split: if_splits)
qed

lemma clean_ok: "table_ok P w V \<Longrightarrow> table_ok P w (clean_once V)"
  unfolding table_ok_def clean_once_def Let_def
  by (auto simp: distinct_map_filter case_prod_unfold)

lemma ws_step_inv: "ws_step P proc s s' \<Longrightarrow> ws_inv P s \<Longrightarrow> ws_inv P s'"
proof (induction rule: ws_step.induct)
  case (readable V fd c sends m A w V' A' w')
  then show ?case using readable_ok unfolding ws_inv_table by blast
next
  case (gone V fd c A w)
  then show ?case unfolding ws_inv_table OnSocketGone_def by (simp add: table_ok_End)
next
  case (auth A w A' w' V)
  have "extends w w'" using auth(1)
    by (cases rule: auth_step.cases) (auto simp: extends_refl dest: IsAuthorized_run(1) IsValidApiKey_run(1))
  then show ?case using auth auth_step_inv table_ok_extends unfolding ws_inv_table by blast
next
  case (send_all V A w sends i m)
  then show ?case unfolding ws_inv_table using Sends_keep(1) table_ok_cong by metis
next
  case (send_user V A w sends u i m)
  then show ?case unfolding ws_inv_table using Sends_keep(2) table_ok_cong by metis
next
  case (types V A w ns)
  then show ?case unfolding ws_inv_table
    using table_ok_cong [of "RegisterNotifications ns V" V P w] by (simp add: RegisterNotifications_def SortNotifications_def Let_def)
qed (auto simp only: ws_inv_table new_ok clean_ok)

lemma ws_reachable_inv: "ws_reachable P proc s \<Longrightarrow> ws_inv P s"
  by (induction rule: ws_reachable.induct) (auto simp: ws_step_inv ws_fresh_def)

section \<open>Who gets notifications\<close>

lemma SendToAll_sent:
  "ws_sent (SendToAll sends i m V) = ws_sent V @
     map (\<lambda>(fd, _). (fd, m)) (filter (\<lambda>(fd, c). \<not> IsFiltered i c \<and> wc_Authenticated c \<and> sends fd) (ws_Clients V))"
proof -
  have "ws_sent (fold (\<lambda>(fd, c) V'. if \<not> IsFiltered i c \<and> wc_Authenticated c \<and> sends fd then send_frame fd m V' else V') cs V)
      = ws_sent V @ map (\<lambda>(fd, _). (fd, m)) (filter (\<lambda>(fd, c). \<not> IsFiltered i c \<and> wc_Authenticated c \<and> sends fd) cs)" for cs
    by (induction cs arbitrary: V) (simp_all add: case_prod_unfold send_frame_def)
  then show ?thesis by (simp add: SendToAll_def)
qed

lemma reachable_entitled:
  assumes "ws_reachable P proc (V, A, w)" and "(fd, c) \<in> set (ws_Clients V)" and "wc_Authenticated c"
  shows "entitled P w c"
  using ws_reachable_inv [OF assms(1)] assms(2,3) by (auto simp: client_ok_def)


text \<open>
  The cleaner erases only connections that are in the map, each once, in every state reached while the
  server runs: no event ends a connection a second time.  Stopping the server breaks this: it empties the map and
  leaves the list of connections to erase.
\<close>

theorem cleaner_erases_valid:
  assumes "ws_reachable P proc (V, A, w)"
  shows "distinct (ws_ToBeRemoved V) \<and> set (ws_ToBeRemoved V) \<subseteq> fst ` set (ws_Clients V)
    \<and> fst ` set (ws_Clients (clean_once V)) = fst ` set (ws_Clients V) - set (ws_ToBeRemoved V)
    \<and> (ws_ToBeRemoved V \<noteq> [] \<longrightarrow>
        \<not> set (ws_ToBeRemoved (WsServer_Stop V)) \<subseteq> fst ` set (ws_Clients (WsServer_Stop V)))"
proof -
  have t: "table_ok P w V" using ws_reachable_inv [OF assms] unfolding ws_inv_table by blast
  have d: "distinct (ws_ToBeRemoved V)" using t unfolding table_ok_def by blast
  have s: "set (ws_ToBeRemoved V) \<subseteq> fst ` set (ws_Clients V)"
  proof
    fix fd assume "fd \<in> set (ws_ToBeRemoved V)"
    then obtain c where "map_of (ws_Clients V) fd = Some c" using t unfolding table_ok_def by blast
    from map_of_SomeD [OF this] show "fd \<in> fst ` set (ws_Clients V)" by force
  qed
  have "fst ` set (ws_Clients (clean_once V)) = fst ` set (ws_Clients V) - set (ws_ToBeRemoved V)"
    by (force simp: clean_once_def Let_def)
  with d s show ?thesis by (simp add: WsServer_Stop_def)
qed

lemma one_client_reachable:
  "ws_reachable P proc (NewClient 5 ''id'' '''' ws_fresh, \<lparr>au_Cache = Map.empty, au_ApiKeyCache = Map.empty\<rparr>, w)"
  by (rule ws_reachable.step [OF ws_reachable.initial]) (rule ws_step.new, simp add: ws_fresh_def)


theorem cleaner_erases_valid_witness:
  "let V = OnSocketGone 5 (NewClient 5 ''id'' '''' ws_fresh) in
     ws_ToBeRemoved V = [5] \<and> ws_Clients (clean_once V) = []
     \<and> \<not> set (ws_ToBeRemoved (WsServer_Stop V)) \<subseteq> fst ` set (ws_Clients (WsServer_Stop V))"
proof -
  let ?V = "OnSocketGone 5 (NewClient 5 ''id'' '''' ws_fresh)"
  have r: "ws_reachable ref_platform None (?V, \<lparr>au_Cache = Map.empty, au_ApiKeyCache = Map.empty\<rparr>, sample_world token_net)"
    by (rule ws_reachable.step [OF one_client_reachable]) (rule ws_step.gone, auto simp: NewClient_def ws_fresh_def)
  have "ws_ToBeRemoved ?V = [5]" "ws_Clients (clean_once ?V) = []"
    by (simp_all add: OnSocketGone_def NewClient_def ws_fresh_def EndConnection_def change_client_def clean_once_def)
  then show ?thesis using cleaner_erases_valid [OF r] by simp
qed

end
