(* ===== verification/Orm.thy ===== *)
theory Orm
  imports Platform Errors
begin

text \<open>
  The object-relational layer, \<^verbatim>\<open>src/framework/orm.h\<close>: the texts of the SQL statements the class template
  \<^verbatim>\<open>ORM::DB\<close> builds from the fields of a table, its operations on one record, and its loop over all of
  them.  The database engine is a parameter: a driver runs the requests of a session on its own state and
  answers with rows, or throws a \<^verbatim>\<open>Poco::Exception\<close>.  An \<^verbatim>\<open>assert\<close> that fails is the outcome \<open>Abort\<close>.
\<close>

section \<open>Fields, indexes and the texts of values\<close>

datatype DBType = sqlite | pgsql | mysql

datatype FieldType = FT_INT | FT_BIGINT | FT_TEXT | FT_VARCHAR | FT_BLOB | FT_BOOLEAN | FT_REAL

datatype Indextype = ASC | DESC

record Field =
  fd_Name :: string
  fd_Type :: FieldType
  fd_Size :: int
  fd_Index :: bool

text \<open>The constructors of \<^verbatim>\<open>Field\<close>: with a type, and with a size from which the type follows.\<close>

definition Field_typed :: "string \<Rightarrow> FieldType \<Rightarrow> Field" where
  "Field_typed N T = \<lparr>fd_Name = N, fd_Type = T, fd_Size = 0, fd_Index = False\<rparr>"

definition Field_sized :: "string \<Rightarrow> int \<Rightarrow> bool \<Rightarrow> Field" where
  "Field_sized N S I = \<lparr>fd_Name = N, fd_Type = (if S > 0 \<and> S < 255 then FT_VARCHAR else FT_TEXT),
     fd_Size = S, fd_Index = I\<rparr>"

record IndexEntry =
  ie_FieldName :: string
  ie_Type :: Indextype

record Index =
  ix_Name :: string
  ix_Entries :: "IndexEntry list"

text \<open>\<^verbatim>\<open>std::to_string\<close> of an integer.\<close>

definition show_int :: "int \<Rightarrow> string" where
  "show_int i = (if i < 0 then CHR ''-'' # show_nat (nat (- i)) else show_nat (nat i))"

fun FieldTypeToChar :: "DBType \<Rightarrow> FieldType \<Rightarrow> int \<Rightarrow> string" where
  "FieldTypeToChar Ty FT_INT Size = ''INT''"
| "FieldTypeToChar Ty FT_BIGINT Size = ''BIGINT''"
| "FieldTypeToChar Ty FT_TEXT Size = ''TEXT''"
| "FieldTypeToChar Ty FT_BOOLEAN Size = ''BOOLEAN''"
| "FieldTypeToChar Ty FT_VARCHAR Size =
     (if Size \<noteq> 0 then ''VARCHAR('' @ show_int Size @ '')'' else ''TEXT'')"
| "FieldTypeToChar Ty FT_BLOB Size =
     (case Ty of mysql \<Rightarrow> ''LONGBLOB'' | pgsql \<Rightarrow> ''BYTEA'' | sqlite \<Rightarrow> ''BLOB'')"
| "FieldTypeToChar Ty FT_REAL Size = ''REAL''"

text \<open>The quote character of SQL literals.\<close>

abbreviation quote :: char where
  "quote \<equiv> CHR 0x27"

definition Escape :: "string \<Rightarrow> string" where
  "Escape S = concat (map (\<lambda>i. if i = quote then [quote, quote] else [i]) S)"

text \<open>
  The arguments of \<^verbatim>\<open>WHERE_AND\<close>: pairs of a field name and a string (\<^verbatim>\<open>std::string\<close> or
  \<^verbatim>\<open>const char *\<close>), a Boolean or an integer.
\<close>

datatype sql_arg = ArgString string | ArgBool bool | ArgInt int

definition and_then :: "string \<Rightarrow> string" where
  "and_then Result = Result @ (if Result = [] then [] else '' and '')"

fun WHERE_AND_loop :: "string \<Rightarrow> (string \<times> sql_arg) list \<Rightarrow> string" where
  "WHERE_AND_loop Result [] = Result"
| "WHERE_AND_loop Result ((fieldName, ArgString Value) # args) =
     WHERE_AND_loop (if Value = [] then Result
        else and_then Result @ fieldName @ ''='' @ [quote] @ Escape Value @ [quote]) args"
| "WHERE_AND_loop Result ((fieldName, ArgBool Value) # args) =
     WHERE_AND_loop (and_then Result @ fieldName @ ''='' @ (if Value then ''true'' else ''false'')) args"
| "WHERE_AND_loop Result ((fieldName, ArgInt Value) # args) =
     WHERE_AND_loop (and_then Result @ fieldName @ ''='' @ show_int Value) args"

definition WHERE_AND :: "(string \<times> sql_arg) list \<Rightarrow> string" where
  "WHERE_AND args = WHERE_AND_loop [] args"

datatype SqlComparison = EQ | NEQ | LT | LTE | GT | GTE

datatype SqlBinaryOp = SqlAnd | SqlOr

fun BOPS :: "SqlBinaryOp \<Rightarrow> string" where
  "BOPS SqlAnd = '' and ''"
| "BOPS SqlOr = '' or ''"

fun SQLCOMPS :: "SqlComparison \<Rightarrow> string" where
  "SQLCOMPS EQ = ''=''"
| "SQLCOMPS NEQ = ''!=''"
| "SQLCOMPS LT = ''<''"
| "SQLCOMPS LTE = ''<=''"
| "SQLCOMPS GT = ''>''"
| "SQLCOMPS GTE = ''>=''"

section \<open>Sessions\<close>

datatype sqlval = SText string | SInt uint64

type_synonym row = "sqlval list"

text \<open>A column of a tuple, read as a string or as an integer.\<close>

fun sql_text :: "sqlval \<Rightarrow> string" where
  "sql_text (SText s) = s"
| "sql_text (SInt _) = []"

fun sql_int :: "sqlval \<Rightarrow> uint64" where
  "sql_int (SInt i) = i"
| "sql_int (SText _) = 0"

text \<open>
  What a session is asked: a connection of the pool, the start and the end of a transaction, the
  execution of a text with the values bound to its parameters.
\<close>

datatype sql_request = SqlSession | SqlBegin | SqlCommit | SqlExecute string "sqlval list"

type_synonym 'd driver = "sql_request \<Rightarrow> 'd \<Rightarrow> row list option \<times> 'd"

datatype 'a outcome = Ret 'a | Throw | Abort

type_synonym ('s, 'a) act = "'s \<Rightarrow> 'a outcome \<times> 's"

definition give :: "'a \<Rightarrow> ('s, 'a) act" where
  "give x = (\<lambda>s. (Ret x, s))"

definition also_do :: "('s, 'a) act \<Rightarrow> ('a \<Rightarrow> ('s, 'b) act) \<Rightarrow> ('s, 'b) act" where
  "also_do m k = (\<lambda>s. case m s of (Ret x, s') \<Rightarrow> k x s' | (Throw, s') \<Rightarrow> (Throw, s') | (Abort, s') \<Rightarrow> (Abort, s'))"

text \<open>\<^verbatim>\<open>try { m } catch (const Poco::Exception &E) { log }\<close> with the value returned after it.\<close>

definition caught :: "'a \<Rightarrow> ('s, 'a) act \<Rightarrow> ('s, 'a) act" where
  "caught x m = (\<lambda>s. case m s of (Throw, s') \<Rightarrow> (Ret x, s') | out \<Rightarrow> out)"

definition asserting :: "bool \<Rightarrow> ('s, 'a) act \<Rightarrow> ('s, 'a) act" where
  "asserting b m = (if b then m else (\<lambda>s. (Abort, s)))"

lemmas act_defs = give_def also_do_def caught_def asserting_def

section \<open>The class template \<^verbatim>\<open>DB\<close>\<close>

text \<open>A \<^verbatim>\<open>DBCache\<close>: the virtual operations, on the state of the cache.\<close>

record ('r, 'c) DBCache =
  ch_Create :: "'r \<Rightarrow> 'c \<Rightarrow> 'c"
  ch_GetFromCache :: "string \<Rightarrow> string \<Rightarrow> 'r \<Rightarrow> 'c \<Rightarrow> bool \<times> 'r \<times> 'c"
  ch_UpdateCache :: "'r \<Rightarrow> 'c \<Rightarrow> 'c"
  ch_Delete :: "string \<Rightarrow> string \<Rightarrow> 'c \<Rightarrow> 'c"

text \<open>
  The members of \<^verbatim>\<open>DB\<close>.  \<open>db_In row R\<close> is \<^verbatim>\<open>Convert\<close> from a tuple of the table into the object \<open>R\<close>: the
  object with what was assigned, and whether no exception was thrown; \<open>db_Out\<close> is the other direction and
  \<open>db_Fresh\<close> a default-constructed object.
\<close>

record ('r, 'd, 'c) DB =
  db_TableName :: string
  db_Type :: DBType
  db_Pool :: "'d driver"
  db_Prefix :: string
  db_Cache :: "('r, 'c) DBCache option"
  db_In :: "row \<Rightarrow> 'r \<Rightarrow> 'r \<times> bool"
  db_Out :: "'r \<Rightarrow> row"
  db_Fresh :: 'r
  db_CreateFields :: string
  db_SelectFields :: string
  db_SelectList :: string
  db_UpdateFields :: string
  db_IndexCreation :: "string list"
  db_FieldNames :: "(string \<times> nat) list"

text \<open>\<^verbatim>\<open>m[k] = v\<close> on a \<^verbatim>\<open>std::map\<close>, whose entries are in key order.\<close>

fun map_set :: "string \<Rightarrow> nat \<Rightarrow> (string \<times> nat) list \<Rightarrow> (string \<times> nat) list" where
  "map_set k v [] = [(k, v)]"
| "map_set k v (m # ms) =
     (if fst m = k then (k, v) # ms else if k < fst m then (k, v) # m # ms else m # map_set k v ms)"

text \<open>One field of the constructor's loop; \<open>Place\<close> is 0 exactly for the first one.\<close>

definition add_field :: "platform \<Rightarrow> Field \<Rightarrow> nat \<Rightarrow> ('r, 'd, 'c) DB \<Rightarrow> ('r, 'd, 'c) DB" where
  "add_field P i Place db = (let FieldName = po_toLower P (fd_Name i); sep = (if Place = 0 then '''' else '', '') in
     db\<lparr>db_FieldNames := map_set FieldName Place (db_FieldNames db),
        db_CreateFields := db_CreateFields db @ sep @ FieldName @ '' '' @ FieldTypeToChar (db_Type db) (fd_Type i) (fd_Size i)
          @ (if fd_Index i then '' unique primary key'' else ''''),
        db_SelectFields := db_SelectFields db @ sep @ FieldName,
        db_UpdateFields := db_UpdateFields db @ sep @ FieldName @ ''=?'',
        db_SelectList := db_SelectList db @ (if Place = 0 then ''('' else '', '') @ ''?''\<rparr>)"

fun fields_loop :: "platform \<Rightarrow> Field list \<Rightarrow> nat \<Rightarrow> ('r, 'd, 'c) DB \<Rightarrow> ('r, 'd, 'c) DB" where
  "fields_loop P [] Place db = db\<lparr>db_SelectList := db_SelectList db @ '')''\<rparr>"
| "fields_loop P (i # Fields) Place db = fields_loop P Fields (Place + 1) (add_field P i Place db)"

definition ValidFieldName :: "platform \<Rightarrow> ('r, 'd, 'c) DB \<Rightarrow> string \<Rightarrow> bool" where
  "ValidFieldName P db F \<longleftrightarrow> po_toLower P F \<in> set (map fst (db_FieldNames db))"

text \<open>The entries of an index, \<open>None\<close> when the assertion on a field name fails.\<close>

fun index_entries :: "platform \<Rightarrow> ('r, 'd, 'c) DB \<Rightarrow> string \<Rightarrow> string \<Rightarrow> IndexEntry list \<Rightarrow> bool \<Rightarrow> string option" where
  "index_entries P db sep gap [] first = Some []"
| "index_entries P db sep gap (k # ks) first =
     (if ValidFieldName P db (po_toLower P (ie_FieldName k))
      then map_option (\<lambda>rest. (if first then [] else sep) @ po_toLower P (ie_FieldName k) @ gap
             @ (if ie_Type k = ASC then ''ASC'' else ''DESC'') @ rest) (index_entries P db sep gap ks False)
      else None)"

definition create_index :: "platform \<Rightarrow> ('r, 'd, 'c) DB \<Rightarrow> Index \<Rightarrow> string option" where
  "create_index P db j = map_option (\<lambda>es. ''CREATE INDEX IF NOT EXISTS '' @ ix_Name j @ '' ON ''
     @ db_TableName db @ '' ('' @ es @ '' )'') (index_entries P db '' , '' '' '' (ix_Entries j) True)"

fun all_some :: "'a option list \<Rightarrow> 'a list option" where
  "all_some [] = Some []"
| "all_some (x # xs) = Option.bind x (\<lambda>a. map_option (\<lambda>as. a # as) (all_some xs))"

text \<open>The one line of MySQL, inside the statement that creates the table.\<close>

fun mysql_indexes :: "platform \<Rightarrow> ('r, 'd, 'c) DB \<Rightarrow> Index list \<Rightarrow> bool \<Rightarrow> string option" where
  "mysql_indexes P db [] first = Some []"
| "mysql_indexes P db (j # js) first =
     Option.bind (index_entries P db '' ,'' '' '' (ix_Entries j) True) (\<lambda>es.
       map_option (\<lambda>rest. (if first then [] else '', '') @ '' INDEX '' @ ix_Name j @ '' ( '' @ es @ '' ) '' @ rest)
         (mysql_indexes P db js False))"

text \<open>The constructor; \<open>n\<close> is the length of the tuple type, \<open>None\<close> an assertion that fails.\<close>

definition DB_new :: "platform \<Rightarrow> nat \<Rightarrow> DBType \<Rightarrow> string \<Rightarrow> Field list \<Rightarrow> Index list \<Rightarrow> 'd driver \<Rightarrow> string \<Rightarrow>
    ('r, 'c) DBCache option \<Rightarrow> (row \<Rightarrow> 'r \<Rightarrow> 'r \<times> bool) \<Rightarrow> ('r \<Rightarrow> row) \<Rightarrow> 'r \<Rightarrow> ('r, 'd, 'c) DB option" where
  "DB_new P n dbtype TableName Fields Indexes Pool Prefix Cache into out fresh =
     (if n \<noteq> length Fields then None
      else let db = fields_loop P Fields 0 \<lparr>db_TableName = TableName, db_Type = dbtype, db_Pool = Pool,
             db_Prefix = Prefix, db_Cache = Cache, db_In = into, db_Out = out, db_Fresh = fresh, db_CreateFields = [],
             db_SelectFields = [], db_SelectList = [], db_UpdateFields = [], db_IndexCreation = [],
             db_FieldNames = []\<rparr> in
        if Indexes = [] then Some db
        else if dbtype = mysql
          then map_option (\<lambda>line. db\<lparr>db_IndexCreation := [line]\<rparr>) (mysql_indexes P db Indexes True)
          else map_option (\<lambda>lines. db\<lparr>db_IndexCreation := lines\<rparr>) (all_some (map (create_index P db) Indexes)))"

subsection \<open>Conditions\<close>

fun OP_text :: "sql_arg \<Rightarrow> string" where
  "OP_text (ArgBool V) = (if V then ''true'' else ''false'')"
| "OP_text (ArgInt V) = show_int V"
| "OP_text (ArgString V) = [quote] @ Escape V @ [quote]"

definition OP :: "platform \<Rightarrow> ('r, 'd, 'c) DB \<Rightarrow> string \<Rightarrow> SqlComparison \<Rightarrow> sql_arg \<Rightarrow> string option" where
  "OP P db F Cmp V = (if ValidFieldName P db F then Some (''('' @ F @ SQLCOMPS Cmp @ OP_text V @ '')'') else None)"

text \<open>
  The combinations of conditions.  \<open>OP_more\<close> are the overloads whose first argument says that a
  parenthesis is open, \<open>OP_join\<close> the ones a caller uses.
\<close>

fun OP_more :: "string \<Rightarrow> SqlBinaryOp \<Rightarrow> string \<Rightarrow> (SqlBinaryOp \<times> string) list \<Rightarrow> string" where
  "OP_more P1 BOP P2 [] = P1 @ BOPS BOP @ P2 @ '')''"
| "OP_more P1 BOP P2 ((BOP', P3) # More) = P1 @ BOPS BOP @ OP_more P2 BOP' P3 More @ '')''"

fun OP_join :: "string \<Rightarrow> SqlBinaryOp \<Rightarrow> string \<Rightarrow> (SqlBinaryOp \<times> string) list \<Rightarrow> string" where
  "OP_join P1 BOP P2 [] = ''('' @ P1 @ BOPS BOP @ P2 @ '')''"
| "OP_join P1 BOP P2 ((BOP', P3) # More) = ''('' @ P1 @ BOPS BOP @ OP_more P2 BOP' P3 More"

subsection \<open>Statements\<close>

fun params_loop :: "nat \<Rightarrow> string \<Rightarrow> string" where
  "params_loop Idx [] = []"
| "params_loop Idx (i # S) = (if i = CHR ''?'' then CHR ''$'' # show_nat Idx @ params_loop (Idx + 1) S
     else i # params_loop Idx S)"

definition ConvertParams :: "('r, 'd, 'c) DB \<Rightarrow> string \<Rightarrow> string" where
  "ConvertParams db S = (if db_Type db \<noteq> pgsql then S else params_loop 1 S)"

definition ComputeRange :: "('r, 'd, 'c) DB \<Rightarrow> uint64 \<Rightarrow> uint64 \<Rightarrow> string" where
  "ComputeRange db From HowMany = (case db_Type db of
     sqlite \<Rightarrow> '' LIMIT '' @ show_nat (unat From) @ '', '' @ show_nat (unat HowMany) @ '' ''
   | _ \<Rightarrow> '' LIMIT '' @ show_nat (unat HowMany) @ '' OFFSET '' @ show_nat (unat From) @ '' '')"

definition insert_stmt :: "('r, 'd, 'c) DB \<Rightarrow> string" where
  "insert_stmt db = ''insert into  '' @ db_TableName db @ '' ( '' @ db_SelectFields db @ '' ) values '' @ db_SelectList db"

definition select_head :: "('r, 'd, 'c) DB \<Rightarrow> string" where
  "select_head db = ''select '' @ db_SelectFields db @ '' from '' @ db_TableName db"

definition select_by_stmt :: "('r, 'd, 'c) DB \<Rightarrow> string \<Rightarrow> string" where
  "select_by_stmt db F = select_head db @ '' where '' @ F @ ''=?'' @ '' limit 1''"

definition select_where_stmt :: "('r, 'd, 'c) DB \<Rightarrow> string \<Rightarrow> string" where
  "select_where_stmt db W = select_head db @ '' where '' @ W @ '' limit 1''"

definition select_range_stmt :: "('r, 'd, 'c) DB \<Rightarrow> uint64 \<Rightarrow> uint64 \<Rightarrow> string \<Rightarrow> string \<Rightarrow> string" where
  "select_range_stmt db Offset HowMany Where OrderBy = select_head db @
     (if Where = [] then [] else '' where '' @ Where) @ OrderBy @ ComputeRange db Offset HowMany"

definition update_stmt :: "('r, 'd, 'c) DB \<Rightarrow> string \<Rightarrow> string" where
  "update_stmt db F = ''update '' @ db_TableName db @ '' set '' @ db_UpdateFields db @ '' where '' @ F @ ''=?''"

definition delete_stmt :: "('r, 'd, 'c) DB \<Rightarrow> string \<Rightarrow> string" where
  "delete_stmt db F = ''delete from '' @ db_TableName db @ '' where '' @ F @ ''=?''"

text \<open>The order of a list request: items \<^verbatim>\<open>field:a\<close> or \<^verbatim>\<open>field:d\<close>, separated by commas.\<close>

fun order_loop :: "platform \<Rightarrow> ('r, 'd, 'c) DB \<Rightarrow> string list \<Rightarrow> string \<Rightarrow> string option" where
  "order_loop P db [] ItemList = Some ItemList"
| "order_loop P db (i # items) ItemList = (case po_tokens P i '':'' of
     [f, d] \<Rightarrow>
       if d \<noteq> ''a'' \<and> d \<noteq> ''d'' then None
       else if po_toLower P f \<notin> set (map fst (db_FieldNames db)) then None
       else order_loop P db items (ItemList @ (if ItemList = [] then [] else '' , '') @ f
              @ (if d = ''a'' then '' ASC'' else '' DESC''))
   | _ \<Rightarrow> None)"

text \<open>The result and the new \<^verbatim>\<open>OrderByString\<close>, which keeps its old text for an empty list.\<close>

definition PrepareOrderBy :: "platform \<Rightarrow> ('r, 'd, 'c) DB \<Rightarrow> string \<Rightarrow> string \<Rightarrow> bool \<times> string" where
  "PrepareOrderBy P db OrderByList OrderByString = (case order_loop P db (po_tokens P OrderByList '','') [] of
     None \<Rightarrow> (False, OrderByString)
   | Some ItemList \<Rightarrow> (True, if ItemList = [] then OrderByString else '' ORDER BY '' @ ItemList))"

definition GetFieldNames :: "('r, 'd, 'c) DB \<Rightarrow> string list \<Rightarrow> string list" where
  "GetFieldNames db F = F @ map fst (db_FieldNames db)"

section \<open>Operations\<close>

definition session :: "('r, 'd, 'c) DB \<Rightarrow> sql_request \<Rightarrow> ('d \<times> 'c, row list) act" where
  "session db q = (\<lambda>(d, c). case db_Pool db q d of
     (None, d') \<Rightarrow> (Throw, (d', c)) | (Some rs, d') \<Rightarrow> (Ret rs, (d', c)))"

text \<open>\<^verbatim>\<open>if (Cache_) Cache_->...\<close>\<close>

definition on_cache :: "('r, 'd, 'c) DB \<Rightarrow> (('r, 'c) DBCache \<Rightarrow> 'c \<Rightarrow> 'c) \<Rightarrow> ('d \<times> 'c, unit) act" where
  "on_cache db f = (\<lambda>(d, c). (Ret (), (d, case db_Cache db of None \<Rightarrow> c | Some C \<Rightarrow> f C c)))"

definition execute :: "('r, 'd, 'c) DB \<Rightarrow> string \<Rightarrow> sqlval list \<Rightarrow> ('d \<times> 'c, row list) act" where
  "execute db St values = also_do (session db SqlSession) (\<lambda>_. session db (SqlExecute St values))"

text \<open>\<^verbatim>\<open>Create\<close> returns what \<^verbatim>\<open>Upgrade\<close> does, \<^verbatim>\<open>true\<close>, also when a statement throws.\<close>

fun run_now :: "('r, 'd, 'c) DB \<Rightarrow> string list \<Rightarrow> ('d \<times> 'c, unit) act" where
  "run_now db [] = give ()"
| "run_now db (i # is) = also_do (session db (SqlExecute i [])) (\<lambda>_. run_now db is)"

definition create_statements :: "('r, 'd, 'c) DB \<Rightarrow> string list" where
  "create_statements db = (let table = ''create table if not exists '' @ db_TableName db @ '' ( '' @ db_CreateFields db in
     if db_Type db = mysql
     then [if db_IndexCreation db = [] then table @ '' )''
           else table @ '' ), '' @ hd (db_IndexCreation db) @ '' )'']
     else (table @ '' )'') # db_IndexCreation db)"

definition DB_Create :: "('r, 'd, 'c) DB \<Rightarrow> ('d \<times> 'c, bool) act" where
  "DB_Create db = also_do (caught () (also_do (session db SqlSession) (\<lambda>_. run_now db (create_statements db))))
     (\<lambda>_. give True)"

definition CreateRecord :: "('r, 'd, 'c) DB \<Rightarrow> 'r \<Rightarrow> ('d \<times> 'c, bool) act" where
  "CreateRecord db R = caught False (
     also_do (execute db (ConvertParams db (insert_stmt db)) (db_Out db R)) (\<lambda>_.
     also_do (on_cache db (\<lambda>C. ch_Create C R)) (\<lambda>_. give True)))"

text \<open>The statement is executed twice; the rows of the second execution count.\<close>

definition query_one :: "('r, 'd, 'c) DB \<Rightarrow> string \<Rightarrow> sqlval list \<Rightarrow> 'r \<Rightarrow> ('d \<times> 'c, bool \<times> 'r) act" where
  "query_one db St values R =
     also_do (execute db St values) (\<lambda>_.
     also_do (session db (SqlExecute St values)) (\<lambda>rows.
       if length rows = 1
       then (case db_In db (hd rows) R of
               (R', True) \<Rightarrow> also_do (on_cache db (\<lambda>C. ch_UpdateCache C R')) (\<lambda>_. give (True, R'))
             | (R', False) \<Rightarrow> give (False, R'))
       else give (False, R)))"

definition from_cache :: "('r, 'd, 'c) DB \<Rightarrow> string \<Rightarrow> string \<Rightarrow> 'r \<Rightarrow> ('d \<times> 'c, bool \<times> 'r) act" where
  "from_cache db F V R = (\<lambda>(d, c). case db_Cache db of None \<Rightarrow> (Ret (False, R), (d, c))
     | Some C \<Rightarrow> (case ch_GetFromCache C F V R c of (hit, R', c') \<Rightarrow> (Ret (hit, R'), (d, c'))))"

definition GetRecord :: "platform \<Rightarrow> ('r, 'd, 'c) DB \<Rightarrow> string \<Rightarrow> string \<Rightarrow> 'r \<Rightarrow> ('d \<times> 'c, bool \<times> 'r) act" where
  "GetRecord P db F V R = asserting (ValidFieldName P db F) (
     also_do (from_cache db F V R) (\<lambda>(hit, R').
       if hit then give (True, R')
       else caught (False, R') (query_one db (ConvertParams db (select_by_stmt db F)) [SText V] R')))"

definition GetRecord_where :: "('r, 'd, 'c) DB \<Rightarrow> 'r \<Rightarrow> string \<Rightarrow> ('d \<times> 'c, bool \<times> 'r) act" where
  "GetRecord_where db R W = caught (False, R) (query_one db (ConvertParams db (select_where_stmt db W)) [] R)"

text \<open>
  \<^verbatim>\<open>GR\<close> makes its condition of the first two characters of one field name (the second of a name of one
  character is the terminating zero), and returns \<^verbatim>\<open>true\<close> without a row, too.
\<close>

definition GR :: "platform \<Rightarrow> ('r, 'd, 'c) DB \<Rightarrow> string \<Rightarrow> 'r \<Rightarrow> sqlval \<Rightarrow> sqlval \<Rightarrow> ('d \<times> 'c, bool \<times> 'r) act" where
  "GR P db F R V0 V1 = asserting (ValidFieldName P db F) (caught (False, R) (
     also_do (execute db (ConvertParams db (select_head db @ '' where '' @ [(F @ [CHR 0x00]) ! 0] @ ''=? and '' @
         [(F @ [CHR 0x00]) ! 1] @ ''=?'')) [V0, V1]) (\<lambda>rows.
       give (if length rows = 1
         then (case db_In db (hd rows) R of (R', ok) \<Rightarrow> (ok, R'))
         else (True, R)))))"

text \<open>\<^verbatim>\<open>Join\<close> of a given statement; the records are the rows themselves.\<close>

definition Join :: "('r, 'd, 'c) DB \<Rightarrow> string \<Rightarrow> row list \<Rightarrow> ('d \<times> 'c, bool \<times> row list) act" where
  "Join db statement records = caught (False, records) (
     also_do (execute db statement []) (\<lambda>rows. give (True, records @ rows)))"

fun convert_all :: "('r, 'd, 'c) DB \<Rightarrow> row list \<Rightarrow> 'r list \<Rightarrow> bool \<times> 'r list" where
  "convert_all db [] Records = (True, Records)"
| "convert_all db (i # RL) Records = (case db_In db i (db_Fresh db) of
     (R, True) \<Rightarrow> convert_all db RL (Records @ [R]) | (_, False) \<Rightarrow> (False, Records))"

definition GetRecords :: "('r, 'd, 'c) DB \<Rightarrow> uint64 \<Rightarrow> uint64 \<Rightarrow> 'r list \<Rightarrow> string \<Rightarrow> string \<Rightarrow>
    ('d \<times> 'c, bool \<times> 'r list) act" where
  "GetRecords db Offset HowMany Records Where OrderBy = caught (False, Records) (
     also_do (execute db (select_range_stmt db Offset HowMany Where OrderBy) []) (\<lambda>RL.
       give (if RL = [] then (False, Records) else convert_all db RL Records)))"

definition UpdateRecord :: "platform \<Rightarrow> ('r, 'd, 'c) DB \<Rightarrow> string \<Rightarrow> string \<Rightarrow> 'r \<Rightarrow> ('d \<times> 'c, bool) act" where
  "UpdateRecord P db F V R = caught False (asserting (ValidFieldName P db F) (
     also_do (session db SqlSession) (\<lambda>_.
     also_do (session db SqlBegin) (\<lambda>_.
     also_do (session db (SqlExecute (ConvertParams db (update_stmt db F)) (db_Out db R @ [SText V]))) (\<lambda>_.
     also_do (on_cache db (\<lambda>C. ch_UpdateCache C R)) (\<lambda>_.
     also_do (session db SqlCommit) (\<lambda>_. give True)))))))"

definition RunStatement :: "('r, 'd, 'c) DB \<Rightarrow> string \<Rightarrow> ('d \<times> 'c, bool) act" where
  "RunStatement db St = caught False (also_do (execute db St []) (\<lambda>_. give True))"

definition Exists :: "platform \<Rightarrow> ('r, 'd, 'c) DB \<Rightarrow> string \<Rightarrow> string \<Rightarrow> ('d \<times> 'c, bool) act" where
  "Exists P db F V = asserting (ValidFieldName P db F) (
     also_do (GetRecord P db F V (db_Fresh db)) (\<lambda>r. give (fst r)))"

definition ReplaceRecord :: "platform \<Rightarrow> ('r, 'd, 'c) DB \<Rightarrow> string \<Rightarrow> string \<Rightarrow> 'r \<Rightarrow> ('d \<times> 'c, bool) act" where
  "ReplaceRecord P db F V R = also_do (Exists P db F V) (\<lambda>found.
     if found then UpdateRecord P db F V R else CreateRecord db R)"

text \<open>
  \<open>name\<close> and \<open>desc\<close> read the members of the object; the results are the two strings, set when exactly
  one row was found.
\<close>

definition GetNameAndDescription :: "platform \<Rightarrow> ('r, 'd, 'c) DB \<Rightarrow> ('r \<Rightarrow> string) \<Rightarrow> ('r \<Rightarrow> string) \<Rightarrow>
    string \<Rightarrow> string \<Rightarrow> string \<times> string \<Rightarrow> ('d \<times> 'c, bool \<times> string \<times> string) act" where
  "GetNameAndDescription P db name desc F V old = caught (False, old) (asserting (ValidFieldName P db F) (
     also_do (execute db (ConvertParams db (select_head db @ '' where '' @ F @ ''=?'')) [SText V]) (\<lambda>rows.
       give (if length rows = 1
         then (case db_In db (hd rows) (db_Fresh db) of
            (R, True) \<Rightarrow> (True, name R, desc R) | (R, False) \<Rightarrow> (False, old))
         else (False, old)))))"

definition DeleteRecord :: "platform \<Rightarrow> ('r, 'd, 'c) DB \<Rightarrow> string \<Rightarrow> string \<Rightarrow> ('d \<times> 'c, bool) act" where
  "DeleteRecord P db F V = caught False (asserting (ValidFieldName P db F) (
     also_do (session db SqlSession) (\<lambda>_.
     also_do (session db SqlBegin) (\<lambda>_.
     also_do (session db (SqlExecute (ConvertParams db (delete_stmt db F)) [SText V])) (\<lambda>_.
     also_do (on_cache db (\<lambda>C. ch_Delete C F V)) (\<lambda>_.
     also_do (session db SqlCommit) (\<lambda>_. give True)))))))"

definition DeleteRecords :: "('r, 'd, 'c) DB \<Rightarrow> string \<Rightarrow> ('d \<times> 'c, bool) act" where
  "DeleteRecords db W = caught False (asserting (W \<noteq> []) (
     also_do (session db SqlSession) (\<lambda>_.
     also_do (session db SqlBegin) (\<lambda>_.
     also_do (session db (SqlExecute (''delete from '' @ db_TableName db @ '' where '' @ W) [])) (\<lambda>_.
     also_do (session db SqlCommit) (\<lambda>_. give True))))))"

definition Count :: "('r, 'd, 'c) DB \<Rightarrow> string \<Rightarrow> ('d \<times> 'c, uint64) act" where
  "Count db Where = caught 0 (also_do (execute db (''SELECT COUNT(*) FROM '' @ db_TableName db @ '' '' @
       (if Where = [] then [] else '' where '' @ Where)) []) (\<lambda>rows.
     give (case rows of [SInt Cnt] # _ \<Rightarrow> Cnt | _ \<Rightarrow> 0)))"

text \<open>The list member of a record is \<open>get\<close>, replaced with \<open>set\<close>; \<^verbatim>\<open>std::sort\<close> compares strings bytewise.\<close>

definition ManipulateVectorMember :: "platform \<Rightarrow> ('r, 'd, 'c) DB \<Rightarrow> ('r \<Rightarrow> string list) \<Rightarrow>
    (string list \<Rightarrow> 'r \<Rightarrow> 'r) \<Rightarrow> string \<Rightarrow> string \<Rightarrow> string \<Rightarrow> bool \<Rightarrow> ('d \<times> 'c, bool) act" where
  "ManipulateVectorMember P db get put F ParentUUID ChildUUID Add = asserting (ValidFieldName P db F) (
     also_do (GetRecord P db F ParentUUID (db_Fresh db)) (\<lambda>(found, R).
       if \<not> found then give False
       else if Add
         then (if ChildUUID \<in> set (get R) then give False
               else also_do (UpdateRecord P db F ParentUUID (put (sort (get R @ [ChildUUID])) R)) (\<lambda>_. give True))
         else (if ChildUUID \<in> set (get R)
               then also_do (UpdateRecord P db F ParentUUID (put (remove1 ChildUUID (get R)) R)) (\<lambda>_. give True)
               else give False)))"

definition AddInUse :: "platform \<Rightarrow> ('r, 'd, 'c) DB \<Rightarrow> ('r \<Rightarrow> string list) \<Rightarrow> (string list \<Rightarrow> 'r \<Rightarrow> 'r) \<Rightarrow>
    string \<Rightarrow> string \<Rightarrow> string \<Rightarrow> string \<Rightarrow> ('d \<times> 'c, bool) act" where
  "AddInUse P db get put F ParentUUID Prefix ChildUUID =
     ManipulateVectorMember P db get put F ParentUUID (Prefix @ '':'' @ ChildUUID) True"

definition DeleteInUse :: "platform \<Rightarrow> ('r, 'd, 'c) DB \<Rightarrow> ('r \<Rightarrow> string list) \<Rightarrow> (string list \<Rightarrow> 'r \<Rightarrow> 'r) \<Rightarrow>
    string \<Rightarrow> string \<Rightarrow> string \<Rightarrow> string \<Rightarrow> ('d \<times> 'c, bool) act" where
  "DeleteInUse P db get put F ParentUUID Prefix ChildUUID =
     ManipulateVectorMember P db get put F ParentUUID (Prefix @ '':'' @ ChildUUID) False"

definition GetInUse :: "platform \<Rightarrow> ('r, 'd, 'c) DB \<Rightarrow> ('r \<Rightarrow> string list) \<Rightarrow> string \<Rightarrow> string \<Rightarrow> string list \<Rightarrow>
    ('d \<times> 'c, bool \<times> string list) act" where
  "GetInUse P db get F UUID UUIDs = also_do (GetRecord P db F UUID (db_Fresh db)) (\<lambda>(found, R).
     give (if found then (True, get R) else (False, UUIDs)))"

fun script_loop :: "('r, 'd, 'c) DB \<Rightarrow> bool \<Rightarrow> string list \<Rightarrow> ('d \<times> 'c, bool) act" where
  "script_loop db IgnoreExceptions [] = give True"
| "script_loop db IgnoreExceptions (i # is) = also_do (caught False (also_do (session db (SqlExecute i [])) (\<lambda>_. give True)))
     (\<lambda>ok. if \<not> ok \<and> \<not> IgnoreExceptions then give False else script_loop db IgnoreExceptions is)"

definition RunScript :: "('r, 'd, 'c) DB \<Rightarrow> string list \<Rightarrow> bool \<Rightarrow> ('d \<times> 'c, bool) act" where
  "RunScript db Statements IgnoreExceptions = caught False (
     also_do (session db SqlSession) (\<lambda>_. script_loop db IgnoreExceptions Statements))"

definition DeleteRecordsFromCache :: "('r, 'd, 'c) DB \<Rightarrow> string \<Rightarrow> string \<Rightarrow> ('d \<times> 'c, bool) act" where
  "DeleteRecordsFromCache db F V = also_do (on_cache db (\<lambda>C. ch_Delete C F V)) (\<lambda>_. give True)"

text \<open>
  \<^verbatim>\<open>Iterate\<close>: the function is called on every record, in batches of 50, until it returns \<^verbatim>\<open>false\<close>.  It may
  carry a state of type \<open>'u\<close>; \<open>None\<close> is a loop that never ends.
\<close>

fun visit :: "('r \<Rightarrow> 'u \<Rightarrow> bool \<times> 'u) \<Rightarrow> 'r list \<Rightarrow> 'u \<Rightarrow> bool \<times> 'u" where
  "visit F [] u = (True, u)"
| "visit F (i # Records) u = (case F i u of (True, u') \<Rightarrow> visit F Records u' | (False, u') \<Rightarrow> (False, u'))"

text \<open>One turn of the loop: what is returned, or the state it goes on with.\<close>

definition Iterate_batch :: "('r, 'd, 'c) DB \<Rightarrow> ('r \<Rightarrow> 'u \<Rightarrow> bool \<times> 'u) \<Rightarrow> string \<Rightarrow> uint64 \<Rightarrow> 'u \<Rightarrow>
    'd \<times> 'c \<Rightarrow> (bool \<times> 'u \<times> 'd \<times> 'c) + ('u \<times> 'd \<times> 'c)" where
  "Iterate_batch db F W Offset u s = (case GetRecords db Offset 50 [] W [] s of
     (Ret (True, Records), s') \<Rightarrow> (case visit F Records u of
        (False, u') \<Rightarrow> Inl (True, u', s')
      | (True, u') \<Rightarrow> if length Records < 50 then Inl (True, u', s') else Inr (u', s'))
   | (Ret (False, _), s') \<Rightarrow> Inl (True, u, s')
   | (_, s') \<Rightarrow> Inl (False, u, s'))"

partial_function (option) Iterate_loop :: "('r, 'd, 'c) DB \<Rightarrow> ('r \<Rightarrow> 'u \<Rightarrow> bool \<times> 'u) \<Rightarrow> string \<Rightarrow> uint64 \<Rightarrow> 'u \<Rightarrow>
    'd \<times> 'c \<Rightarrow> (bool \<times> 'u \<times> 'd \<times> 'c) option" where
  "Iterate_loop db F W Offset u s = (case Iterate_batch db F W Offset u s of
     Inl out \<Rightarrow> Some out
   | Inr go \<Rightarrow> Iterate_loop db F W (Offset + 50) (fst go) (snd go))"

definition Iterate :: "('r, 'd, 'c) DB \<Rightarrow> ('r \<Rightarrow> 'u \<Rightarrow> bool \<times> 'u) \<Rightarrow> string \<Rightarrow> 'u \<Rightarrow>
    'd \<times> 'c \<Rightarrow> (bool \<times> 'u \<times> 'd \<times> 'c) option" where
  "Iterate db F W u s = Iterate_loop db F W 0 u s"

end
