(* ===== verification/Sql.thy ===== *)
theory Sql
  imports Orm "HOL-Library.Multiset"
begin

text \<open>
  The database engine.  The part of SQL the service uses has a syntax (tokens, conditions, statements), a
  reader from the text of a statement to its syntax for each of the three databases, and a meaning on the
  multiset of the rows of a table.  \<open>sql_doc\<close> says that an engine does with every text it is given what
  the statement the text reads as means; it does not mention the texts the object-relational layer makes.
  \<open>ref_sql\<close> is an engine that satisfies it.
\<close>

section \<open>Tokens\<close>

datatype sql_token = Word string | Number int | Lit string | Hole nat | Sym char

definition is_word :: "char \<Rightarrow> bool" where
  "is_word c \<longleftrightarrow> is_alnum c \<or> c = CHR ''_''"

definition read_nat :: "string \<Rightarrow> nat" where
  "read_nat s = foldl (\<lambda>n c. 10 * n + (chr_code c - 48)) 0 s"

abbreviation backslash :: char where
  "backslash \<equiv> CHR 0x5C"

text \<open>
  The rest of a string literal after its opening quote: its value and the text after it.  A doubled quote
  stands for a quote in all three databases.  MySQL also reads escapes that start with a backslash;
  PostgreSQL with \<^verbatim>\<open>standard_conforming_strings\<close>, its default, and SQLite do not.
\<close>

definition mysql_escape :: "char \<Rightarrow> string" where
  "mysql_escape e = (if e = CHR ''0'' then [CHR 0x00] else if e = CHR ''b'' then [CHR 0x08]
     else if e = CHR ''n'' then [CHR 0x0A] else if e = CHR ''r'' then [CHR 0x0D]
     else if e = CHR ''t'' then [CHR 0x09] else if e = CHR ''Z'' then [CHR 0x1A]
     else if e = CHR ''%'' \<or> e = CHR ''_'' then [backslash, e] else [e])"

definition prepend :: "'a list \<Rightarrow> ('a list \<times> 'b) option \<Rightarrow> ('a list \<times> 'b) option" where
  "prepend xs r = map_option (\<lambda>(ys, rest). (xs @ ys, rest)) r"

fun read_literal :: "DBType \<Rightarrow> string \<Rightarrow> (string \<times> string) option" where
  "read_literal T [] = None"
| "read_literal T [c] = (if c = quote then Some ([], []) else None)"
| "read_literal T (c # e # cs) =
     (if c = quote then if e = quote then prepend [quote] (read_literal T cs) else Some ([], e # cs)
      else if T = mysql \<and> c = backslash then prepend (mysql_escape e) (read_literal T cs)
      else prepend [c] (read_literal T (e # cs)))"

lemma prepend_simps [simp]:
  "prepend xs (Some (ys, rest)) = Some (xs @ ys, rest)" "prepend xs None = None"
  "prepend xs r = Some (zs, rest) \<longleftrightarrow> (\<exists>ys. r = Some (ys, rest) \<and> zs = xs @ ys)"
  by (auto simp: prepend_def)

lemma read_literal_shorter: "read_literal T s = Some (v, rest) \<Longrightarrow> length rest < length s"
  by (induction T s arbitrary: v rest rule: read_literal.induct) (fastforce split: if_splits)+

text \<open>
  The tokens of a text; \<open>k\<close> parameters came before it.  Names are read in lower case, as all three databases
  compare the names of columns without case.  A parameter is \<^verbatim>\<open>?\<close> in SQLite and MySQL, numbered in order, and
  \<^verbatim>\<open>$1\<close>, \<^verbatim>\<open>$2\<close>, and so on in PostgreSQL.
\<close>

function sql_tokens :: "DBType \<Rightarrow> nat \<Rightarrow> string \<Rightarrow> sql_token list option" where
  "sql_tokens T k [] = Some []"
| "sql_tokens T k (c # cs) = (
     if is_space c then sql_tokens T k cs
     else if is_word c then
       (let w = c # takeWhile is_word cs in
        map_option (\<lambda>ts. (if list_all is_digit w then Number (int (read_nat w)) else Word (map to_lower w)) # ts)
          (sql_tokens T k (dropWhile is_word cs)))
     else if c = quote then
       (case read_literal T cs of None \<Rightarrow> None
        | Some (v, rest) \<Rightarrow> map_option (\<lambda>ts. Lit v # ts) (sql_tokens T k rest))
     else if c = CHR ''-'' then
       (let w = takeWhile is_word cs in
        if w \<noteq> [] \<and> list_all is_digit w
        then map_option (\<lambda>ts. Number (- int (read_nat w)) # ts) (sql_tokens T k (dropWhile is_word cs)) else None)
     else if c = CHR ''?'' \<and> T \<noteq> pgsql then map_option (\<lambda>ts. Hole k # ts) (sql_tokens T (Suc k) cs)
     else if c = CHR ''$'' \<and> T = pgsql then
       (let w = takeWhile is_digit cs in
        if 0 < read_nat w
        then map_option (\<lambda>ts. Hole (read_nat w - 1) # ts) (sql_tokens T k (dropWhile is_digit cs)) else None)
     else map_option (\<lambda>ts. Sym c # ts) (sql_tokens T k cs))"
  by pat_completeness auto

termination
  by (relation "measure (\<lambda>(T, k, s). length s)")
    (auto simp: less_Suc_eq_le length_dropWhile_le dest: read_literal_shorter)

section \<open>Statements\<close>

datatype sql_operand = Param nat | TextValue string | NumValue int | TruthValue bool

text \<open>
  A condition is a conjunction of equations of columns with operands.  A selection has the columns, the
  table, the condition, and how many rows are skipped and how many returned.
\<close>

type_synonym sql_equations = "(string \<times> sql_operand) list"

datatype sql_statement =
    Insert string "string list" "sql_operand list"
  | Update string sql_equations sql_equations
  | Delete string sql_equations
  | Select "string list" string sql_equations "(nat \<times> nat) option"

definition reserved :: "string list" where
  "reserved = [''select'', ''from'', ''where'', ''and'', ''or'', ''limit'', ''offset'', ''insert'', ''into'',
     ''values'', ''update'', ''set'', ''delete'', ''true'', ''false'', ''order'', ''by'']"

fun read_name :: "sql_token \<Rightarrow> string option" where
  "read_name (Word w) = (if w \<in> set reserved then None else Some w)"
| "read_name _ = None"

fun read_operand :: "sql_token \<Rightarrow> sql_operand option" where
  "read_operand (Hole n) = Some (Param n)"
| "read_operand (Lit s) = Some (TextValue s)"
| "read_operand (Number i) = Some (NumValue i)"
| "read_operand (Word w) = (if w = ''true'' then Some (TruthValue True)
     else if w = ''false'' then Some (TruthValue False) else None)"
| "read_operand (Sym _) = None"

text \<open>Items between commas, and equations between a separator; both return the tokens after them.\<close>

fun read_items :: "(sql_token \<Rightarrow> 'a option) \<Rightarrow> sql_token list \<Rightarrow> ('a list \<times> sql_token list) option" where
  "read_items f [] = None"
| "read_items f [t] = map_option (\<lambda>x. ([x], [])) (f t)"
| "read_items f (t # s # ts) = Option.bind (f t) (\<lambda>x.
     if s = Sym (CHR '','') then prepend [x] (read_items f ts) else Some ([x], s # ts))"

fun read_equations :: "sql_token \<Rightarrow> sql_token list \<Rightarrow> (sql_equations \<times> sql_token list) option" where
  "read_equations sep (t # e # v # ts) = (if e \<noteq> Sym (CHR ''='') then None else
     Option.bind (read_name t) (\<lambda>f. Option.bind (read_operand v) (\<lambda>x. case ts of
       [] \<Rightarrow> Some ([(f, x)], [])
     | s # ts' \<Rightarrow> if s = sep then prepend [(f, x)] (read_equations sep ts') else Some ([(f, x)], ts))))"
| "read_equations sep _ = None"

definition expect :: "sql_token \<Rightarrow> sql_token list \<Rightarrow> sql_token list option" where
  "expect t ts = (case ts of [] \<Rightarrow> None | s # ts' \<Rightarrow> if s = t then Some ts' else None)"

fun read_where :: "sql_token list \<Rightarrow> (sql_equations \<times> sql_token list) option" where
  "read_where [] = Some ([], [])"
| "read_where (t # ts) = (if t = Word ''where'' then read_equations (Word ''and'') ts else Some ([], t # ts))"

text \<open>The comma form of a limit, skip before count, is not known to PostgreSQL.\<close>

fun read_limit :: "DBType \<Rightarrow> sql_token list \<Rightarrow> (nat \<times> nat) option option" where
  "read_limit T [] = Some None"
| "read_limit T [l, Number n] = (if l = Word ''limit'' \<and> 0 \<le> n then Some (Some (0, nat n)) else None)"
| "read_limit T [l, Number n, s, Number m] = (if l = Word ''limit'' \<and> 0 \<le> n \<and> 0 \<le> m then
     if s = Word ''offset'' then Some (Some (nat m, nat n))
     else if s = Sym (CHR '','') \<and> T \<noteq> pgsql then Some (Some (nat n, nat m)) else None
   else None)"
| "read_limit T _ = None"

definition read_table :: "sql_token list \<Rightarrow> (string \<times> sql_token list) option" where
  "read_table ts = (case ts of [] \<Rightarrow> None | t # ts' \<Rightarrow> map_option (\<lambda>w. (w, ts')) (read_name t))"

definition read_insert :: "sql_token list \<Rightarrow> sql_statement option" where
  "read_insert ts =
     Option.bind (expect (Word ''into'') ts) (\<lambda>ts. Option.bind (read_table ts) (\<lambda>(table, ts).
     Option.bind (expect (Sym (CHR ''('')) ts) (\<lambda>ts. Option.bind (read_items read_name ts) (\<lambda>(columns, ts).
     Option.bind (expect (Sym (CHR '')'')) ts) (\<lambda>ts. Option.bind (expect (Word ''values'') ts) (\<lambda>ts.
     Option.bind (expect (Sym (CHR ''('')) ts) (\<lambda>ts. Option.bind (read_items read_operand ts) (\<lambda>(values, ts).
       if ts = [Sym (CHR '')'')] then Some (Insert table columns values) else None))))))))"

definition read_update :: "sql_token list \<Rightarrow> sql_statement option" where
  "read_update ts =
     Option.bind (read_table ts) (\<lambda>(table, ts). Option.bind (expect (Word ''set'') ts) (\<lambda>ts.
     Option.bind (read_equations (Sym (CHR '','')) ts) (\<lambda>(sets, ts). Option.bind (read_where ts) (\<lambda>(ws, ts).
       if ts = [] then Some (Update table sets ws) else None))))"

definition read_delete :: "sql_token list \<Rightarrow> sql_statement option" where
  "read_delete ts =
     Option.bind (expect (Word ''from'') ts) (\<lambda>ts. Option.bind (read_table ts) (\<lambda>(table, ts).
     Option.bind (read_where ts) (\<lambda>(ws, ts). if ts = [] then Some (Delete table ws) else None)))"

definition read_select :: "DBType \<Rightarrow> sql_token list \<Rightarrow> sql_statement option" where
  "read_select T ts =
     Option.bind (read_items read_name ts) (\<lambda>(columns, ts). Option.bind (expect (Word ''from'') ts) (\<lambda>ts.
     Option.bind (read_table ts) (\<lambda>(table, ts). Option.bind (read_where ts) (\<lambda>(ws, ts).
     Option.bind (read_limit T ts) (\<lambda>lim. Some (Select columns table ws lim))))))"

definition read_statement :: "DBType \<Rightarrow> sql_token list \<Rightarrow> sql_statement option" where
  "read_statement T ts = (case ts of [] \<Rightarrow> None | t # ts' \<Rightarrow>
     if t = Word ''insert'' then read_insert ts' else if t = Word ''update'' then read_update ts'
     else if t = Word ''delete'' then read_delete ts' else if t = Word ''select'' then read_select T ts' else None)"

definition read_sql :: "DBType \<Rightarrow> string \<Rightarrow> sql_statement option" where
  "read_sql T st = Option.bind (sql_tokens T 0 st) (read_statement T)"

section \<open>Meaning\<close>

text \<open>A table: its columns, which of them hold text (the others integers), and which are unique.\<close>

record sql_table =
  tb_name :: string
  tb_columns :: "string list"
  tb_text :: "bool list"
  tb_keys :: "nat list"

fun is_text :: "sqlval \<Rightarrow> bool" where
  "is_text (SText _) = True"
| "is_text (SInt _) = False"

definition typed_row :: "sql_table \<Rightarrow> row \<Rightarrow> bool" where
  "typed_row tb r \<longleftrightarrow> map is_text r = tb_text tb"

definition unique :: "nat list \<Rightarrow> row multiset \<Rightarrow> bool" where
  "unique keys M \<longleftrightarrow> (\<forall>k \<in> set keys. \<forall>q \<in># M. count (image_mset (\<lambda>q. q ! k) M) (q ! k) = 1)"

definition column_of :: "sql_table \<Rightarrow> string \<Rightarrow> nat option" where
  "column_of tb f = map_of (zip (tb_columns tb) [0..<length (tb_columns tb)]) f"

fun value_of :: "sqlval list \<Rightarrow> sql_operand \<Rightarrow> sqlval option" where
  "value_of vs (Param n) = (if n < length vs then Some (vs ! n) else None)"
| "value_of vs (TextValue s) = Some (SText s)"
| "value_of vs (NumValue i) = (if 0 \<le> i \<and> i < 2 ^ 63 then Some (SInt (word_of_int i)) else None)"
| "value_of vs (TruthValue b) = None"

text \<open>Equations with the columns found and the operands evaluated; a value has the type of its column.\<close>

definition resolve :: "sql_table \<Rightarrow> sqlval list \<Rightarrow> string \<times> sql_operand \<Rightarrow> (nat \<times> sqlval) option" where
  "resolve tb vs q = Option.bind (column_of tb (fst q)) (\<lambda>c. Option.bind (value_of vs (snd q)) (\<lambda>v.
     if is_text v = tb_text tb ! c then Some (c, v) else None))"

type_synonym cells = "(nat \<times> sqlval) list"

definition satisfies :: "cells \<Rightarrow> row \<Rightarrow> bool" where
  "satisfies ws q \<longleftrightarrow> list_all (\<lambda>(c, v). q ! c = v) ws"

definition assign :: "cells \<Rightarrow> row \<Rightarrow> row" where
  "assign cs q = foldl (\<lambda>q (c, v). q[c := v]) q cs"

datatype sql_effect =
    AddRow row
  | Assign cells cells
  | Remove cells
  | Pick "nat list" cells "(nat \<times> nat) option"

text \<open>What a statement means on the table with the given values of its parameters, if it has a meaning.\<close>

fun meaning :: "sql_table \<Rightarrow> sqlval list \<Rightarrow> sql_statement \<Rightarrow> sql_effect option" where
  "meaning tb vs (Insert t fs xs) = (if t \<noteq> tb_name tb \<or> length fs \<noteq> length xs then None
     else Option.bind (all_some (map (resolve tb vs) (zip fs xs))) (\<lambda>cs.
       if length cs = length (tb_columns tb) \<and> distinct (map fst cs)
       then Some (AddRow (map (\<lambda>c. the (map_of cs c)) [0..<length (tb_columns tb)])) else None))"
| "meaning tb vs (Update t sets ws) = (if t \<noteq> tb_name tb then None
     else Option.bind (all_some (map (resolve tb vs) sets)) (\<lambda>cs.
       map_option (Assign cs) (all_some (map (resolve tb vs) ws))))"
| "meaning tb vs (Delete t ws) = (if t \<noteq> tb_name tb then None
     else map_option Remove (all_some (map (resolve tb vs) ws)))"
| "meaning tb vs (Select fs t ws lim) = (if t \<noteq> tb_name tb then None
     else Option.bind (all_some (map (column_of tb) fs)) (\<lambda>cs.
       map_option (\<lambda>ws. Pick cs ws lim) (all_some (map (resolve tb vs) ws))))"

definition window :: "(nat \<times> nat) option \<Rightarrow> 'a list \<Rightarrow> 'a list" where
  "window lim xs = (case lim of None \<Rightarrow> xs | Some (skip, n) \<Rightarrow> take n (drop skip xs))"

text \<open>
  The outcomes SQL allows.  A change that would repeat a unique value is refused and changes nothing.  A
  selection without an order may take the rows in any order \<open>xs\<close>, another one each time.
\<close>

fun allowed :: "nat list \<Rightarrow> sql_effect \<Rightarrow> row multiset \<Rightarrow> row list option \<Rightarrow> row multiset \<Rightarrow> bool" where
  "allowed keys (AddRow r) M a new =
     (if unique keys (add_mset r M) then a = Some [] \<and> new = add_mset r M else a = None \<and> new = M)"
| "allowed keys (Assign cs ws) M a new = (let N = image_mset (\<lambda>q. if satisfies ws q then assign cs q else q) M in
     if unique keys N then a = Some [] \<and> new = N else a = None \<and> new = M)"
| "allowed keys (Remove ws) M a new = (a = Some [] \<and> new = filter_mset (\<lambda>q. \<not> satisfies ws q) M)"
| "allowed keys (Pick cs ws lim) M a new = (new = M \<and>
     (\<exists>xs. mset xs = filter_mset (satisfies ws) M \<and> a = Some (map (\<lambda>q. map (nth q) cs) (window lim xs))))"

text \<open>
  The law of an engine of type \<open>T\<close> that holds the table, with the rows \<open>rows d\<close> in the state \<open>d\<close>.  Its rows have
  the types of the columns and unique keys; sessions and transactions can be had; every text that reads as
  a statement with a meaning is executed with that meaning.  Texts are stored and compared exactly.
\<close>

definition sql_doc :: "DBType \<Rightarrow> sql_table \<Rightarrow> 'd driver \<Rightarrow> ('d \<Rightarrow> row multiset) \<Rightarrow> bool" where
  "sql_doc T tb D rows \<longleftrightarrow>
     (\<forall>d. unique (tb_keys tb) (rows d) \<and> (\<forall>q \<in># rows d. typed_row tb q)) \<and>
     (\<forall>d. \<forall>q \<in> {SqlSession, SqlBegin, SqlCommit}. fst (D q d) = Some [] \<and> rows (snd (D q d)) = rows d) \<and>
     (\<forall>d st vs. case Option.bind (read_sql T st) (meaning tb vs) of None \<Rightarrow> True
        | Some e \<Rightarrow> allowed (tb_keys tb) e (rows d) (fst (D (SqlExecute st vs) d)) (rows (snd (D (SqlExecute st vs) d))))"

section \<open>Reading printed text\<close>

text \<open>Names of tables and columns, and text after which a word is complete.\<close>

definition name_ok :: "string \<Rightarrow> bool" where
  "name_ok w \<longleftrightarrow> w \<noteq> [] \<and> list_all is_word w \<and> \<not> list_all is_digit w \<and> map to_lower w \<notin> set reserved"

definition stops :: "string \<Rightarrow> bool" where
  "stops s \<longleftrightarrow> (case s of [] \<Rightarrow> True | c # _ \<Rightarrow> \<not> is_word c)"

lemma stops_simps [simp]: "stops []" "stops (c # s) = (\<not> is_word c)"
  by (simp_all add: stops_def)

lemma is_word_chars [simp]:
  "\<not> is_word (CHR '' '')" "\<not> is_word (CHR '','')" "\<not> is_word (CHR ''('')" "\<not> is_word (CHR '')'')"
  "\<not> is_word (CHR ''='')" "\<not> is_word (CHR ''?'')" "\<not> is_word (CHR ''$'')" "\<not> is_word (CHR ''-'')" "\<not> is_word quote"
  by (simp_all add: is_word_def ctype_defs)

lemma is_space_chars [simp]:
  "is_space (CHR '' '')" "\<not> is_space (CHR '','')" "\<not> is_space (CHR ''('')" "\<not> is_space (CHR '')'')"
  "\<not> is_space (CHR ''='')" "\<not> is_space (CHR ''?'')" "\<not> is_space (CHR ''$'')" "\<not> is_space (CHR ''-'')" "\<not> is_space quote"
  by (simp_all add: ctype_defs)

lemma is_word_not_space: "is_word c \<Longrightarrow> \<not> is_space c"
  by (auto simp: is_word_def ctype_defs)

lemma is_digit_word: "is_digit c \<Longrightarrow> is_word c"
  by (simp add: is_word_def is_alnum_def)

lemma map_option_Cons [simp]: "map_option (\<lambda>ts. x # ts) (map_option ((@) xs) m) = map_option ((@) (x # xs)) m"
  by (cases m) auto

lemma append_single [simp]: "(@) [x] = (#) x"
  by (rule ext) simp

lemma append_fun: "(@) (x # xs) = (\<lambda>ts. x # xs @ ts)"
  by (rule ext) simp

lemma append_triple: "(@) [x, y, z] = (\<lambda>ts. x # y # z # ts)"
  by (rule ext) simp

lemma takeWhile_stops: "list_all p w \<Longrightarrow> stops s \<Longrightarrow> (\<And>c. p c \<Longrightarrow> is_word c) \<Longrightarrow> takeWhile p (w @ s) = w \<and> dropWhile p (w @ s) = s"
  by (induction w) (auto simp: stops_def split: list.splits)

lemma tokens_word:
  assumes "w \<noteq> []" "list_all is_word w" "stops s"
  shows "sql_tokens T k (w @ s) = map_option (\<lambda>ts. (if list_all is_digit w then Number (int (read_nat w))
    else Word (map to_lower w)) # ts) (sql_tokens T k s)"
proof -
  obtain c cs where w: "w = c # cs" using assms(1) by (cases w) auto
  then have "takeWhile is_word (cs @ s) = cs \<and> dropWhile is_word (cs @ s) = s"
    using assms by (intro takeWhile_stops) auto
  then show ?thesis using assms w by (simp add: is_word_not_space Let_def)
qed

lemma tokens_name:
  "name_ok w \<Longrightarrow> stops s \<Longrightarrow> sql_tokens T k (w @ s) = map_option (\<lambda>ts. Word (map to_lower w) # ts) (sql_tokens T k s)"
  using tokens_word [of w s T k] by (simp add: name_ok_def)

lemma tokens_chars [simp]:
  "sql_tokens T k (CHR '' '' # s) = sql_tokens T k s"
  "sql_tokens T k (CHR '','' # s) = map_option (\<lambda>ts. Sym (CHR '','') # ts) (sql_tokens T k s)"
  "sql_tokens T k (CHR ''('' # s) = map_option (\<lambda>ts. Sym (CHR ''('') # ts) (sql_tokens T k s)"
  "sql_tokens T k (CHR '')'' # s) = map_option (\<lambda>ts. Sym (CHR '')'') # ts) (sql_tokens T k s)"
  "sql_tokens T k (CHR ''='' # s) = map_option (\<lambda>ts. Sym (CHR ''='') # ts) (sql_tokens T k s)"
  "T \<noteq> pgsql \<Longrightarrow> sql_tokens T k (CHR ''?'' # s) = map_option (\<lambda>ts. Hole k # ts) (sql_tokens T (Suc k) s)"
  by simp_all

declare sql_tokens.simps(2) [simp del]

text \<open>The words of the statements.\<close>

lemma tokens_keyword:
  assumes "list_all is_word w" "\<not> list_all is_digit w" "map to_lower w = v" "\<not> is_word c"
  shows "sql_tokens T k (w @ c # s) = map_option (\<lambda>ts. Word v # ts) (sql_tokens T k (c # s))"
  using assms tokens_word [of w "c # s" T k] by (cases w) auto

fun sep_by :: "'a list \<Rightarrow> 'a list list \<Rightarrow> 'a list" where
  "sep_by sep [] = []"
| "sep_by sep [x] = x"
| "sep_by sep (x # y # zs) = x @ sep @ sep_by sep (y # zs)"

lemma sep_by_Cons: "sep_by sep (x # xs) = x @ (if xs = [] then [] else sep @ sep_by sep xs)"
  by (cases xs) auto

text \<open>
  A list of printed pieces reads as the list of their tokens, when each piece does before every text that ends
  a word; \<open>n\<close> is the number of parameters of a piece.
\<close>

lemma tokens_sep_by:
  assumes "\<And>x k s. x \<in> set xs \<Longrightarrow> stops s \<Longrightarrow>
      sql_tokens T k (f x @ s) = map_option ((@) (g k x)) (sql_tokens T (k + n) s)"
  shows "xs \<noteq> [] \<Longrightarrow> stops s \<Longrightarrow> sql_tokens T k (sep_by '', '' (map f xs) @ s) =
    map_option ((@) (sep_by [Sym (CHR '','')] (map (\<lambda>i. g (k + i * n) (xs ! i)) [0..<length xs])))
      (sql_tokens T (k + length xs * n) s)"
  using assms
proof (induction xs arbitrary: k)
  case (Cons x xs)
  show ?case
  proof (cases "xs = []")
    case False
    have IH: "sql_tokens T (k + n) (sep_by '', '' (map f xs) @ s) =
      map_option ((@) (sep_by [Sym (CHR '','')] (map (\<lambda>i. g (k + n + i * n) (xs ! i)) [0..<length xs])))
        (sql_tokens T (k + n + length xs * n) s)"
      using Cons False by simp
    have upt: "map (\<lambda>i. g (k + i * n) ((x # xs) ! i)) [0..<length (x # xs)] =
        g k x # map (\<lambda>i. g (k + n + i * n) (xs ! i)) [0..<length xs]"
      unfolding list.size add_0 plus_1_eq_Suc add_Suc_right add_0_right
      by (subst upt_conv_Cons) (simp_all add: map_Suc_upt [symmetric] add.assoc del: upt_Suc)
    have "sql_tokens T k (sep_by '', '' (map f (x # xs)) @ s) = sql_tokens T k (f x @ CHR '','' # CHR '' '' # sep_by '', '' (map f xs) @ s)"
      using False by (simp add: sep_by_Cons)
    also have "\<dots> = map_option ((@) (g k x)) (sql_tokens T (k + n) (CHR '','' # CHR '' '' # sep_by '', '' (map f xs) @ s))"
      by (rule Cons.prems(3)) simp_all
    finally show ?thesis unfolding upt using False
      by (simp add: IH sep_by_Cons option.map_comp o_def add_ac)
  qed (use Cons in simp)
qed simp

lemma tokens_names:
  assumes "list_all name_ok ws" "ws \<noteq> []" "stops s"
  shows "sql_tokens T k (sep_by '', '' ws @ s) =
    map_option ((@) (sep_by [Sym (CHR '','')] (map (\<lambda>w. [Word (map to_lower w)]) ws))) (sql_tokens T k s)"
proof -
  have "map (\<lambda>i. [Word (map to_lower (ws ! i))]) [0..<length ws] = map (\<lambda>w. [Word (map to_lower w)]) ws"
    by (rule nth_equalityI) simp_all
  then show ?thesis
    using tokens_sep_by [of ws T "\<lambda>w. w" "\<lambda>k w. [Word (map to_lower w)]" 0 s k] assms
    by (simp add: tokens_name list_all_iff)
qed

lemma tokens_holes:
  assumes "T \<noteq> pgsql" "0 < n" "stops s"
  shows "sql_tokens T k (sep_by '', '' (replicate n ''?'') @ s) =
    map_option ((@) (sep_by [Sym (CHR '','')] (map (\<lambda>i. [Hole (k + i)]) [0..<n]))) (sql_tokens T (k + n) s)"
  using tokens_sep_by [of "replicate n ()" T "\<lambda>_. ''?''" "\<lambda>k _. [Hole k]" 1 s k] assms by simp

lemma tokens_sets:
  assumes "T \<noteq> pgsql" "list_all name_ok ws" "ws \<noteq> []" "stops s"
  shows "sql_tokens T k (sep_by '', '' (map (\<lambda>w. w @ ''=?'') ws) @ s) =
    map_option ((@) (sep_by [Sym (CHR '','')] (map (\<lambda>i. [Word (map to_lower (ws ! i)), Sym (CHR ''=''), Hole (k + i)])
      [0..<length ws]))) (sql_tokens T (k + length ws) s)"
  using tokens_sep_by [of ws T "\<lambda>w. w @ ''=?''" "\<lambda>k w. [Word (map to_lower w), Sym (CHR ''=''), Hole k]" 1 s k] assms
  by (simp add: tokens_name list_all_iff option.map_comp o_def append_triple)

text \<open>Digits read back as the number they were printed from.\<close>

lemma show_nat_digits: "list_all is_digit (show_nat n)"
proof (induction n rule: show_nat.induct)
  case (1 n)
  have "chr_code (char_of (48 + n mod 10)) = 48 + n mod 10" by simp
  then have d: "is_digit (char_of (48 + n mod 10))" unfolding is_digit_def by simp
  show ?case using 1 d by (subst show_nat.simps) (auto simp: mod_less)
qed

lemma show_nat_nonempty: "show_nat n \<noteq> []"
  by (subst show_nat.simps) simp

lemma read_show_nat [simp]: "read_nat (show_nat n) = n"
proof (induction n rule: show_nat.induct)
  case (1 n)
  have "chr_code (char_of (48 + n mod 10)) = 48 + n mod 10" by simp
  then show ?case using 1 by (subst show_nat.simps) (auto simp: read_nat_def mod_less simp del: of_char_of)
qed

lemma tokens_number:
  assumes "stops s"
  shows "sql_tokens T k (show_nat n @ s) = map_option (\<lambda>ts. Number (int n) # ts) (sql_tokens T k s)"
proof -
  have "list_all is_word (show_nat n)" using show_nat_digits [of n] by (auto simp: list_all_iff is_digit_word)
  then show ?thesis using tokens_word [OF show_nat_nonempty _ assms, of n T k] show_nat_digits [of n] by simp
qed

lemma tokens_integer:
  assumes "stops s"
  shows "sql_tokens T k (show_int i @ s) = map_option (\<lambda>ts. Number i # ts) (sql_tokens T k s)"
proof (cases "i < 0")
  case True
  have "list_all is_word (show_nat (nat (- i)))" using show_nat_digits by (auto simp: list_all_iff is_digit_word)
  then have w: "takeWhile is_word (show_nat (nat (- i)) @ s) = show_nat (nat (- i)) \<and> dropWhile is_word (show_nat (nat (- i)) @ s) = s"
    using assms by (intro takeWhile_stops)
  have "CHR ''-'' \<noteq> quote" by simp
  then show ?thesis using True w show_nat_digits [of "nat (- i)"] show_nat_nonempty [of "nat (- i)"]
    by (simp add: show_int_def sql_tokens.simps(2))
next
  case False
  then show ?thesis using tokens_number [OF assms, of T k "nat i"] by (simp add: show_int_def)
qed

section \<open>Parameters of PostgreSQL\<close>

text \<open>Text without literals, in which no digit follows a question mark.\<close>

fun plain :: "string \<Rightarrow> bool" where
  "plain [] = True"
| "plain (c # s) = (c \<noteq> quote \<and> c \<noteq> CHR ''$'' \<and> (c = CHR ''?'' \<longrightarrow> (case s of [] \<Rightarrow> True | d # _ \<Rightarrow> \<not> is_digit d)) \<and> plain s)"

lemma plain_dropWhile: "plain s \<Longrightarrow> plain (dropWhile p s)"
  by (induction s) auto

lemma params_takeWhile:
  "takeWhile is_word (params_loop n s) = takeWhile is_word s \<and> dropWhile is_word (params_loop n s) = params_loop n (dropWhile is_word s)"
  by (induction s) auto

lemma params_digits:
  "(case s of [] \<Rightarrow> True | d # _ \<Rightarrow> \<not> is_digit d) \<Longrightarrow>
   takeWhile is_digit (show_nat m @ params_loop n s) = show_nat m \<and> dropWhile is_digit (show_nat m @ params_loop n s) = params_loop n s"
proof -
  assume s: "case s of [] \<Rightarrow> True | d # _ \<Rightarrow> \<not> is_digit d"
  have d: "\<not> is_digit (CHR ''$'')" by (simp add: is_digit_def)
  have "takeWhile is_digit (params_loop n s) = [] \<and> dropWhile is_digit (params_loop n s) = params_loop n s"
    using s d by (cases s) auto
  then show ?thesis using show_nat_digits [of m] by (auto simp: list_all_iff)
qed

lemma tokens_params:
  assumes "T \<noteq> pgsql"
  shows "plain s \<Longrightarrow> sql_tokens pgsql j (params_loop (Suc k) s) = sql_tokens T k s"
proof (induction "length s" arbitrary: s k rule: less_induct)
  case less
  show ?case
  proof (cases s)
    case (Cons c cs)
    have IH: "sql_tokens pgsql j (params_loop (Suc k') t) = sql_tokens T k' t"
      if "length t \<le> length cs" "plain t" for t k'
      using less.hyps [of t k'] that Cons by simp
    have cs: "plain cs" using less.prems Cons by simp
    have drop: "length (dropWhile is_word cs) \<le> length cs" by (rule length_dropWhile_le)
    consider (space) "is_space c" | (word) "is_word c" | (hole) "c = CHR ''?''" | (minus) "c = CHR ''-''"
      | (other) "\<not> is_space c" "\<not> is_word c" "c \<noteq> CHR ''?''" "c \<noteq> CHR ''-''" by blast
    then show ?thesis
    proof cases
      case space
      then show ?thesis using Cons IH [OF _ cs] by (cases "c = CHR ''?''") (simp_all add: sql_tokens.simps(2))
    next
      case word
      then have "c \<noteq> CHR ''?''" by auto
      then show ?thesis using Cons word IH [OF drop plain_dropWhile [OF cs], of k]
        by (simp add: sql_tokens.simps(2) is_word_not_space params_takeWhile)
    next
      case hole
      then have "case cs of [] \<Rightarrow> True | d # _ \<Rightarrow> \<not> is_digit d" using less.prems Cons by simp
      from params_digits [OF this] have d: "takeWhile is_digit (show_nat (Suc k) @ params_loop (Suc (Suc k)) cs) = show_nat (Suc k)"
        "dropWhile is_digit (show_nat (Suc k) @ params_loop (Suc (Suc k)) cs) = params_loop (Suc (Suc k)) cs" by auto
      show ?thesis using assms hole Cons d IH [OF _ cs, of "Suc k"]
        by (simp add: sql_tokens.simps(2) [of pgsql])
    next
      case minus
      then show ?thesis using Cons IH [OF drop plain_dropWhile [OF cs], of k]
        by (simp add: sql_tokens.simps(2) params_takeWhile Let_def)
    next
      case other
      then have "c \<noteq> quote" "c \<noteq> CHR ''$''" using less.prems Cons by auto
      then show ?thesis using other Cons IH [OF _ cs, of k] by (simp add: sql_tokens.simps(2))
    qed
  qed simp
qed

lemma plain_word: "list_all is_word w \<Longrightarrow> plain (w @ s) = plain s"
  by (induction w) auto

lemma plain_append: "plain a \<Longrightarrow> stops b \<Longrightarrow> plain b \<Longrightarrow> plain (a @ b)"
proof (induction a)
  case (Cons c a)
  have "case b of [] \<Rightarrow> True | d # _ \<Rightarrow> \<not> is_digit d"
    using Cons.prems(2) is_digit_word by (cases b) auto
  then show ?case using Cons by (cases a) simp_all
qed simp

section \<open>The statements of the layer\<close>

lemma read_items_sep:
  assumes "\<And>x. x \<in> set xs \<Longrightarrow> r (f x) = Some (g x)" "case rest of [] \<Rightarrow> True | t # _ \<Rightarrow> t \<noteq> Sym (CHR '','')"
  shows "xs \<noteq> [] \<Longrightarrow> read_items r (sep_by [Sym (CHR '','')] (map (\<lambda>x. [f x]) xs) @ rest) = Some (map g xs, rest)"
  using assms(1)
proof (induction xs)
  case (Cons x xs)
  then show ?case using assms(2) by (cases "xs = []"; cases rest) (auto simp: sep_by_Cons)
qed simp

lemma read_equations_sep:
  assumes "\<And>x. x \<in> set xs \<Longrightarrow> read_name (f x) = Some (g x) \<and> read_operand (v x) = Some (y x)"
    and "case rest of [] \<Rightarrow> True | t # _ \<Rightarrow> t \<noteq> sep"
  shows "xs \<noteq> [] \<Longrightarrow> read_equations sep (sep_by [sep] (map (\<lambda>x. [f x, Sym (CHR ''=''), v x]) xs) @ rest) =
    Some (map (\<lambda>x. (g x, y x)) xs, rest)"
  using assms(1)
proof (induction xs)
  case (Cons x xs)
  then show ?case using assms(2) by (cases "xs = []"; cases rest) (auto simp: sep_by_Cons)
qed simp

text \<open>
  \<open>layer_for db tb\<close>: the texts the constructor of \<^verbatim>\<open>DB\<close> has prepared are those of the table \<open>tb\<close>, and what
  the layer writes has its types.
\<close>

definition layer_for :: "('r, 'd, 'c) DB \<Rightarrow> sql_table \<Rightarrow> bool" where
  "layer_for db tb \<longleftrightarrow> name_ok (db_TableName db) \<and> tb_name tb = map to_lower (db_TableName db)
     \<and> tb_columns tb \<noteq> [] \<and> distinct (tb_columns tb) \<and> list_all name_ok (tb_columns tb)
     \<and> map (map to_lower) (tb_columns tb) = tb_columns tb \<and> length (tb_text tb) = length (tb_columns tb)
     \<and> db_SelectFields db = sep_by '', '' (tb_columns tb)
     \<and> db_SelectList db = ''('' @ sep_by '', '' (replicate (length (tb_columns tb)) ''?'') @ '')''
     \<and> db_UpdateFields db = sep_by '', '' (map (\<lambda>w. w @ ''=?'') (tb_columns tb))
     \<and> (\<forall>f. map_of (db_FieldNames db) f = column_of tb f)
     \<and> (\<forall>R. typed_row tb (db_Out db R))"

lemma column_of_nth: "distinct (tb_columns tb) \<Longrightarrow> i < length (tb_columns tb) \<Longrightarrow> column_of tb (tb_columns tb ! i) = Some i"
  unfolding column_of_def by (rule map_of_is_SomeI) (auto simp: in_set_zip intro: exI [of _ i])

lemma column_of_Some: "column_of tb f = Some i \<Longrightarrow> i < length (tb_columns tb) \<and> f = tb_columns tb ! i"
  unfolding column_of_def by (auto dest!: map_of_SomeD simp: in_set_zip)

lemma is_word_to_lower: "is_word (to_lower c) = is_word c"
  by (auto simp: is_word_def ctype_defs)

lemma is_digit_to_lower: "is_digit (to_lower c) = is_digit c"
  by (auto simp: ctype_defs)

lemma map_lower_idem [simp]: "map to_lower (map to_lower w) = map to_lower w"
  by simp

lemma name_ok_lower: "name_ok (map to_lower w) = name_ok w"
  by (simp add: name_ok_def list_all_iff is_word_to_lower is_digit_to_lower o_def)

text \<open>A field name given by a caller, in any case.\<close>

lemma layer_field:
  assumes "layer_for db tb" "map_of (db_FieldNames db) (map to_lower F) = Some c"
  shows "name_ok F" "column_of tb (map to_lower F) = Some c" "c < length (tb_columns tb)"
proof -
  show c: "column_of tb (map to_lower F) = Some c" using assms by (simp add: layer_for_def)
  from column_of_Some [OF this] show "c < length (tb_columns tb)" "name_ok F"
    using assms(1) name_ok_lower [of F] by (auto simp: layer_for_def list_all_length)
qed

lemma read_name_lower: "name_ok w \<Longrightarrow> read_name (Word (map to_lower w)) = Some (map to_lower w)"
  by (simp add: name_ok_def)

lemma is_word_letters [simp]:
  "is_word (CHR ''a'')" "is_word (CHR ''c'')" "is_word (CHR ''d'')" "is_word (CHR ''e'')" "is_word (CHR ''f'')"
  "is_word (CHR ''h'')" "is_word (CHR ''i'')" "is_word (CHR ''l'')" "is_word (CHR ''m'')" "is_word (CHR ''n'')"
  "is_word (CHR ''o'')" "is_word (CHR ''p'')" "is_word (CHR ''r'')" "is_word (CHR ''s'')" "is_word (CHR ''t'')"
  "is_word (CHR ''u'')" "is_word (CHR ''v'')" "is_word (CHR ''w'')" "is_word (CHR ''L'')" "is_word (CHR ''I'')"
  "is_word (CHR ''M'')" "is_word (CHR ''T'')" "is_word (CHR ''O'')" "is_word (CHR ''F'')" "is_word (CHR ''S'')"
  "is_word (CHR ''E'')"
  by (simp_all add: is_word_def ctype_defs)

lemmas keyword = tokens_keyword [where c = "CHR '' ''"]

lemma tokens_keywords:
  "sql_tokens T k (CHR ''i'' # CHR ''n'' # CHR ''s'' # CHR ''e'' # CHR ''r'' # CHR ''t'' # CHR '' '' # s) =
     map_option (\<lambda>ts. Word ''insert'' # ts) (sql_tokens T k s)"
  "sql_tokens T k (CHR ''i'' # CHR ''n'' # CHR ''t'' # CHR ''o'' # CHR '' '' # s) =
     map_option (\<lambda>ts. Word ''into'' # ts) (sql_tokens T k s)"
  "sql_tokens T k (CHR ''v'' # CHR ''a'' # CHR ''l'' # CHR ''u'' # CHR ''e'' # CHR ''s'' # CHR '' '' # s) =
     map_option (\<lambda>ts. Word ''values'' # ts) (sql_tokens T k s)"
  "sql_tokens T k (CHR ''u'' # CHR ''p'' # CHR ''d'' # CHR ''a'' # CHR ''t'' # CHR ''e'' # CHR '' '' # s) =
     map_option (\<lambda>ts. Word ''update'' # ts) (sql_tokens T k s)"
  "sql_tokens T k (CHR ''s'' # CHR ''e'' # CHR ''t'' # CHR '' '' # s) =
     map_option (\<lambda>ts. Word ''set'' # ts) (sql_tokens T k s)"
  "sql_tokens T k (CHR ''w'' # CHR ''h'' # CHR ''e'' # CHR ''r'' # CHR ''e'' # CHR '' '' # s) =
     map_option (\<lambda>ts. Word ''where'' # ts) (sql_tokens T k s)"
  "sql_tokens T k (CHR ''d'' # CHR ''e'' # CHR ''l'' # CHR ''e'' # CHR ''t'' # CHR ''e'' # CHR '' '' # s) =
     map_option (\<lambda>ts. Word ''delete'' # ts) (sql_tokens T k s)"
  "sql_tokens T k (CHR ''f'' # CHR ''r'' # CHR ''o'' # CHR ''m'' # CHR '' '' # s) =
     map_option (\<lambda>ts. Word ''from'' # ts) (sql_tokens T k s)"
  "sql_tokens T k (CHR ''s'' # CHR ''e'' # CHR ''l'' # CHR ''e'' # CHR ''c'' # CHR ''t'' # CHR '' '' # s) =
     map_option (\<lambda>ts. Word ''select'' # ts) (sql_tokens T k s)"
  "sql_tokens T k (CHR ''l'' # CHR ''i'' # CHR ''m'' # CHR ''i'' # CHR ''t'' # CHR '' '' # s) =
     map_option (\<lambda>ts. Word ''limit'' # ts) (sql_tokens T k s)"
  "sql_tokens T k (CHR ''L'' # CHR ''I'' # CHR ''M'' # CHR ''I'' # CHR ''T'' # CHR '' '' # s) =
     map_option (\<lambda>ts. Word ''limit'' # ts) (sql_tokens T k s)"
  "sql_tokens T k (CHR ''O'' # CHR ''F'' # CHR ''F'' # CHR ''S'' # CHR ''E'' # CHR ''T'' # CHR '' '' # s) =
     map_option (\<lambda>ts. Word ''offset'' # ts) (sql_tokens T k s)"
  "sql_tokens T k (CHR ''a'' # CHR ''n'' # CHR ''d'' # CHR '' '' # s) =
     map_option (\<lambda>ts. Word ''and'' # ts) (sql_tokens T k s)"
  using keyword [of "''insert''" "''insert''"] keyword [of "''into''" "''into''"] keyword [of "''values''" "''values''"]
    keyword [of "''update''" "''update''"] keyword [of "''set''" "''set''"] keyword [of "''where''" "''where''"]
    keyword [of "''delete''" "''delete''"] keyword [of "''from''" "''from''"] keyword [of "''select''" "''select''"]
    keyword [of "''limit''" "''limit''"] keyword [of "''LIMIT''" "''limit''"] keyword [of "''OFFSET''" "''offset''"]
    keyword [of "''and''" "''and''"]
  by (simp_all add: to_lower_def is_upper_def is_digit_def char_of_def bit_Suc_0_iff)

lemmas layer_tokens = tokens_keywords tokens_name tokens_names tokens_holes tokens_sets tokens_number option.map_comp o_def

lemma layer_facts:
  assumes layer: "layer_for db tb"
  shows "name_ok (db_TableName db)" "tb_columns tb \<noteq> []" "list_all name_ok (tb_columns tb)"
  "tb_name tb = map to_lower (db_TableName db)" "map (map to_lower) (tb_columns tb) = tb_columns tb"
  "db_SelectFields db = sep_by '', '' (tb_columns tb)"
  "db_SelectList db = ''('' @ sep_by '', '' (replicate (length (tb_columns tb)) ''?'') @ '')''"
  "db_UpdateFields db = sep_by '', '' (map (\<lambda>w. w @ ''=?'') (tb_columns tb))"
  using layer by (simp_all add: layer_for_def)

lemma column_words:
  assumes layer: "layer_for db tb"
  shows "map (\<lambda>w. [Word (map to_lower w)]) (tb_columns tb) = map (\<lambda>w. [Word w]) (tb_columns tb)"
  using arg_cong [OF layer_facts(5) [OF layer], of "map (\<lambda>w. [Word w])"] by (simp add: o_def)

lemma column_lower:
  assumes layer: "layer_for db tb" and i: "i < length (tb_columns tb)"
  shows "map to_lower (tb_columns tb ! i) = tb_columns tb ! i"
  using arg_cong [OF layer_facts(5) [OF layer], of "\<lambda>l. l ! i"] i by simp

lemma read_columns:
  assumes layer: "layer_for db tb" and A: "case rest of [] \<Rightarrow> True | t # _ \<Rightarrow> t \<noteq> Sym (CHR '','')"
  shows "read_items read_name (sep_by [Sym (CHR '','')] (map (\<lambda>w. [Word w]) (tb_columns tb)) @ rest) = Some (tb_columns tb, rest)"
proof -
  have "read_name (Word w) = Some w" if "w \<in> set (tb_columns tb)" for w
  proof -
    obtain i where i: "i < length (tb_columns tb)" "w = tb_columns tb ! i" using \<open>w \<in> _\<close> by (auto simp: in_set_conv_nth)
    then have "name_ok w" using layer_facts(3) [OF layer] by (simp add: list_all_length)
    then show ?thesis using read_name_lower [of w] column_lower [OF layer i(1)] i(2) by simp
  qed
  then show ?thesis using read_items_sep [of "tb_columns tb" read_name Word "\<lambda>w. w" rest] A layer_facts(2) [OF layer] by simp
qed

text \<open>
  The text of a statement has the tokens of SQLite or MySQL before its parameters are converted, and
  after it those of PostgreSQL; \<open>T'\<close> is the database that reads them.
\<close>

definition read_as :: "DBType \<Rightarrow> DBType \<Rightarrow> string \<Rightarrow> sql_statement option" where
  "read_as T T' st = Option.bind (sql_tokens T 0 st) (read_statement T')"

lemma read_as_same: "read_as T T st = read_sql T st"
  by (simp add: read_as_def read_sql_def)

lemma read_converted:
  assumes "\<And>T T'. T \<noteq> pgsql \<Longrightarrow> read_as T T' S = Some st" "plain S"
  shows "read_sql (db_Type db) (ConvertParams db S) = Some st"
proof (cases "db_Type db = pgsql")
  case True
  have "sql_tokens pgsql 0 (params_loop 1 S) = sql_tokens sqlite 0 S"
    using tokens_params [of sqlite S 0 0] assms(2) by simp
  then show ?thesis using True assms(1) [of sqlite pgsql] by (simp add: ConvertParams_def read_sql_def read_as_def)
next
  case False
  then show ?thesis using assms(1) [of "db_Type db" "db_Type db"] by (simp add: ConvertParams_def read_as_same)
qed

lemma read_insert_stmt:
  assumes layer: "layer_for db tb" and A: "T \<noteq> pgsql"
  shows "read_as T T' (insert_stmt db) = Some (Insert (tb_name tb) (tb_columns tb) (map Param [0..<length (tb_columns tb)]))"
proof -
  have n: "0 < length (tb_columns tb)" using layer_facts(2) [OF layer] by simp
  have t: "sql_tokens T 0 (insert_stmt db) = Some (Word ''insert'' # Word ''into'' # Word (tb_name tb) # Sym (CHR ''('') #
     sep_by [Sym (CHR '','')] (map (\<lambda>w. [Word w]) (tb_columns tb)) @ Sym (CHR '')'') # Word ''values'' # Sym (CHR ''('') #
     sep_by [Sym (CHR '','')] (map (\<lambda>i. [Hole i]) [0..<length (tb_columns tb)]) @ [Sym (CHR '')'')])"
    using A n layer_facts [OF layer] by (simp add: insert_stmt_def layer_tokens column_words [OF layer])
  have h: "read_items read_operand (sep_by [Sym (CHR '','')] (map (\<lambda>i. [Hole i]) [0..<length (tb_columns tb)]) @ [Sym (CHR '')'')])
      = Some (map Param [0..<length (tb_columns tb)], [Sym (CHR '')'')])"
    using n by (intro read_items_sep) simp_all
  have "read_name (Word (tb_name tb)) = Some (tb_name tb)"
    using read_name_lower [OF layer_facts(1) [OF layer]] layer_facts(4) [OF layer] by simp
  then show ?thesis
    by (simp add: read_as_def t read_statement_def read_insert_def expect_def read_table_def read_columns [OF layer] h)
qed

lemma read_set_columns:
  assumes layer: "layer_for db tb" and A: "case rest of [] \<Rightarrow> True | t # _ \<Rightarrow> t \<noteq> Sym (CHR '','')"
  shows "read_equations (Sym (CHR '','')) (sep_by [Sym (CHR '','')] (map (\<lambda>i. [Word (map to_lower (tb_columns tb ! i)),
      Sym (CHR ''=''), Hole i]) [0..<length (tb_columns tb)]) @ rest) =
    Some (map (\<lambda>i. (tb_columns tb ! i, Param i)) [0..<length (tb_columns tb)], rest)"
proof -
  have "read_name (Word (map to_lower (tb_columns tb ! i))) = Some (tb_columns tb ! i)" if "i < length (tb_columns tb)" for i
    using layer_facts(3) [OF layer] read_name_lower [of "tb_columns tb ! i"] column_lower [OF layer that] that
    by (simp add: list_all_length del: read_name.simps)
  then show ?thesis
    using A layer_facts(2) [OF layer]
    by (intro read_equations_sep [where g = "\<lambda>i. tb_columns tb ! i" and y = Param]) auto
qed

lemma read_where_one:
  assumes A: "name_ok F" "case rest of [] \<Rightarrow> True | t # _ \<Rightarrow> t \<noteq> Word ''and''"
  shows "read_where (Word ''where'' # Word (map to_lower F) # Sym (CHR ''='') # Hole n # rest) =
    Some ([(map to_lower F, Param n)], rest)"
  using A read_name_lower [OF A(1)] by (cases rest) auto

lemma read_update_stmt:
  assumes layer: "layer_for db tb" and A: "T \<noteq> pgsql" "name_ok F"
  shows "read_as T T' (update_stmt db F) = Some (Update (tb_name tb)
    (map (\<lambda>i. (tb_columns tb ! i, Param i)) [0..<length (tb_columns tb)]) [(map to_lower F, Param (length (tb_columns tb)))])"
proof -
  have t: "sql_tokens T 0 (update_stmt db F) = Some (Word ''update'' # Word (tb_name tb) # Word ''set'' #
     sep_by [Sym (CHR '','')] (map (\<lambda>i. [Word (map to_lower (tb_columns tb ! i)), Sym (CHR ''=''), Hole i])
       [0..<length (tb_columns tb)]) @
     [Word ''where'', Word (map to_lower F), Sym (CHR ''=''), Hole (length (tb_columns tb))])"
    using A layer_facts [OF layer] by (simp add: update_stmt_def layer_tokens)
  have "read_name (Word (tb_name tb)) = Some (tb_name tb)"
    using read_name_lower [OF layer_facts(1) [OF layer]] layer_facts(4) [OF layer] by simp
  then show ?thesis
    using read_where_one [OF A(2), of "[]" "length (tb_columns tb)"]
    by (simp add: read_as_def t read_statement_def read_update_def expect_def read_table_def read_set_columns [OF layer] del: read_where.simps)
qed

lemma read_delete_stmt:
  assumes layer: "layer_for db tb" and A: "T \<noteq> pgsql" "name_ok F"
  shows "read_as T T' (delete_stmt db F) = Some (Delete (tb_name tb) [(map to_lower F, Param 0)])"
proof -
  have t: "sql_tokens T 0 (delete_stmt db F) = Some [Word ''delete'', Word ''from'', Word (tb_name tb),
     Word ''where'', Word (map to_lower F), Sym (CHR ''=''), Hole 0]"
    using A layer_facts [OF layer] by (simp add: delete_stmt_def layer_tokens)
  have "read_name (Word (tb_name tb)) = Some (tb_name tb)"
    using read_name_lower [OF layer_facts(1) [OF layer]] layer_facts(4) [OF layer] by simp
  then show ?thesis
    using read_where_one [OF A(2), of "[]" 0]
    by (simp add: read_as_def t read_statement_def read_delete_def expect_def read_table_def del: read_where.simps)
qed

lemma select_head_tokens:
  assumes layer: "layer_for db tb" and A: "stops s"
  shows "sql_tokens T k (select_head db @ s) = map_option ((@) (Word ''select'' #
     sep_by [Sym (CHR '','')] (map (\<lambda>w. [Word w]) (tb_columns tb)) @ [Word ''from'', Word (tb_name tb)])) (sql_tokens T k s)"
  using A layer_facts [OF layer] by (simp add: select_head_def layer_tokens column_words [OF layer] append_fun)

lemma read_select_from:
  assumes layer: "layer_for db tb" and A: "sql_tokens T 0 s = Some ts" "stops s" "read_where ts = Some (ws, ts')" "read_limit T' ts' = Some lim"
  shows "read_as T T' (select_head db @ s) = Some (Select (tb_columns tb) (tb_name tb) ws lim)"
proof -
  have "read_name (Word (tb_name tb)) = Some (tb_name tb)"
    using read_name_lower [OF layer_facts(1) [OF layer]] layer_facts(4) [OF layer] by simp
  then show ?thesis using A
    by (simp add: read_as_def select_head_tokens [OF layer] read_statement_def read_select_def expect_def read_table_def read_columns [OF layer])
qed

lemma read_select_by_stmt:
  assumes layer: "layer_for db tb" and A: "T \<noteq> pgsql" "name_ok F"
  shows "read_as T T' (select_by_stmt db F) = Some (Select (tb_columns tb) (tb_name tb) [(map to_lower F, Param 0)] (Some (0, 1)))"
proof -
  have "show_nat 1 = ''1''" by code_simp
  then have n: "sql_tokens T k (CHR ''1'' # []) = Some [Number 1]" for k
    using tokens_number [of "[]" T k 1] by simp
  have t: "sql_tokens T 0 ('' where '' @ F @ ''=? limit 1'') = Some [Word ''where'', Word (map to_lower F), Sym (CHR ''=''), Hole 0,
     Word ''limit'', Number 1]"
    using A by (simp add: layer_tokens n)
  show ?thesis using read_select_from [OF layer t] read_where_one [OF A(2), of "[Word ''limit'', Number 1]" 0]
    by (simp add: select_by_stmt_def del: read_where.simps)
qed

text \<open>A condition is read the same when more text follows it.\<close>

lemma read_literal_append:
  "read_literal T cs = Some (v, rest) \<Longrightarrow> read_literal T (cs @ CHR '' '' # s) = Some (v, rest @ CHR '' '' # s)"
proof (induction T cs arbitrary: v rest rule: read_literal.induct)
  case (2 T c)
  then show ?case by (auto split: if_splits)
next
  case (3 T c e cs)
  then show ?case by (auto split: if_splits)
qed simp

lemma while_append:
  "takeWhile is_word (cs @ CHR '' '' # s) = takeWhile is_word cs"
  "dropWhile is_word (cs @ CHR '' '' # s) = dropWhile is_word cs @ CHR '' '' # s"
  by (induction cs) simp_all

fun is_hole :: "sql_token \<Rightarrow> bool" where
  "is_hole (Hole _) = True"
| "is_hole _ = False"

lemma tokens_append:
  "sql_tokens T k a = Some ts \<Longrightarrow> \<not> list_ex is_hole ts \<Longrightarrow>
   sql_tokens T k (a @ CHR '' '' # s) = map_option ((@) ts) (sql_tokens T k s)"
proof (induction "length a" arbitrary: a ts rule: less_induct)
  case less
  show ?case
  proof (cases a)
    case Nil
    then show ?thesis using less.prems by (cases "sql_tokens T k s") auto
  next
    case (Cons c cs)
    have IH: "sql_tokens T k (t @ CHR '' '' # s) = map_option ((@) us) (sql_tokens T k s)"
      if "length t \<le> length cs" "sql_tokens T k t = Some us" "\<not> list_ex is_hole us" for t us
      using less.hyps [of t us] that Cons by simp
    have drop: "length (dropWhile is_word cs) \<le> length cs" by (rule length_dropWhile_le)
    note read = less.prems(1) [unfolded Cons sql_tokens.simps(2)]
    note simps = Cons sql_tokens.simps(2) while_append append_fun
    consider (space) "is_space c" | (word) "\<not> is_space c" "is_word c" | (quot) "c = quote"
      | (other) "\<not> is_space c" "\<not> is_word c" "c \<noteq> quote" by blast
    then show ?thesis
    proof cases
      case space
      then show ?thesis using read IH [of cs ts] less.prems(2) by (simp add: simps)
    next
      case word
      then show ?thesis using read IH [OF drop] less.prems(2)
        by (auto simp: simps Let_def option.map_comp o_def)
    next
      case quot
      then obtain v rest us where v: "read_literal T cs = Some (v, rest)" "sql_tokens T k rest = Some us" "ts = Lit v # us"
        using read by (auto split: option.splits)
      have "length rest \<le> length cs" using read_literal_shorter [OF v(1)] by simp
      from IH [OF this v(2)] show ?thesis using quot less.prems(2) v read_literal_append [OF v(1), of s]
        by (auto simp: simps option.map_comp o_def)
    next
      case other
      show ?thesis
      proof (cases "c = CHR ''-''")
        case True
        then show ?thesis using other read IH [OF drop] less.prems(2)
          by (auto simp: simps Let_def option.map_comp o_def split: if_splits)
      next
        case False
        have "\<not> (c = CHR ''?'' \<and> T \<noteq> pgsql)" "\<not> (c = CHR ''$'' \<and> T = pgsql)"
          using other read False less.prems(2) by (auto simp: Let_def split: if_splits)
        then show ?thesis using other False read IH [of cs] less.prems(2)
          by (auto simp: simps option.map_comp o_def)
      qed
    qed
  qed
qed

text \<open>A condition in the text of a query: none, or conjuncts without parameters.\<close>

definition read_condition :: "DBType \<Rightarrow> string \<Rightarrow> sql_equations option" where
  "read_condition T W = (if W = [] then Some [] else Option.bind (sql_tokens T 0 W) (\<lambda>ts.
     if list_ex is_hole ts then None
     else (case read_equations (Word ''and'') ts of Some (ws, []) \<Rightarrow> Some ws | _ \<Rightarrow> None)))"

lemma read_equations_rest:
  "read_equations sep ts = Some (ws, []) \<Longrightarrow> l \<noteq> sep \<Longrightarrow> read_equations sep (ts @ l # rest) = Some (ws, l # rest)"
proof (induction sep ts arbitrary: ws rule: read_equations.induct)
  case (1 sep t e v ts)
  then show ?case
    by (cases ts) (auto simp: bind_eq_Some_conv split: if_splits)
qed simp_all

definition range_tokens :: "DBType \<Rightarrow> nat \<Rightarrow> nat \<Rightarrow> sql_token list" where
  "range_tokens T skip n = Word ''limit'' # (if T = sqlite then [Number (int skip), Sym (CHR '',''), Number (int n)]
     else [Number (int n), Word ''offset'', Number (int skip)])"

lemma tokens_range:
  "sql_tokens T j (ComputeRange db k n) = Some (range_tokens (db_Type db) (unat k) (unat n))"
  by (cases "db_Type db") (simp_all add: ComputeRange_def range_tokens_def layer_tokens)

lemma read_limit_range: "read_limit T (range_tokens T skip n) = Some (Some (skip, n))"
  by (cases T) (simp_all add: range_tokens_def)

lemma ComputeRange_space: "\<exists>s. ComputeRange db k n = CHR '' '' # s"
  by (cases "db_Type db") (simp_all add: ComputeRange_def)

lemma read_select_range_stmt:
  assumes layer: "layer_for db tb" and W: "read_condition (db_Type db) W = Some ws"
  shows "read_sql (db_Type db) (select_range_stmt db k n W []) =
    Some (Select (tb_columns tb) (tb_name tb) ws (Some (unat k, unat n)))"
proof -
  let ?T = "db_Type db"
  let ?r = "range_tokens ?T (unat k) (unat n)"
  obtain s where s: "ComputeRange db k n = CHR '' '' # s" using ComputeRange_space by blast
  have ne: "?r = Word ''limit'' # tl ?r" by (simp add: range_tokens_def)
  show ?thesis
  proof (cases "W = []")
    case True
    have "read_where ?r = Some ([], ?r)" by (simp add: range_tokens_def)
    then show ?thesis
      using True W s read_select_from [OF layer tokens_range [of ?T 0 db k n], where T' = ?T] read_limit_range
      by (simp add: select_range_stmt_def read_condition_def read_as_same)
  next
    case False
    then obtain ts where ts: "sql_tokens ?T 0 W = Some ts" "\<not> list_ex is_hole ts" "read_equations (Word ''and'') ts = Some (ws, [])"
      using W by (auto simp: read_condition_def bind_eq_Some_conv split: if_splits option.splits prod.splits list.splits)
    have rng: "sql_tokens ?T 0 s = Some ?r" using tokens_range [of ?T 0 db k n] s by simp
    have t: "sql_tokens ?T 0 ('' where '' @ W @ CHR '' '' # s) = Some (Word ''where'' # ts @ ?r)"
      by (simp add: tokens_keywords tokens_append [OF ts(1,2)] rng)
    have "read_equations (Word ''and'') (ts @ ?r) = Some (ws, ?r)"
      by (subst (1 2) ne) (rule read_equations_rest [OF ts(3)], simp)
    then show ?thesis
      using False s read_select_from [OF layer t _ _ read_limit_range [of ?T "unat k" "unat n"]] by (simp add: select_range_stmt_def read_as_same)
  qed
qed

section \<open>What the statements mean\<close>

lemma plain_names: "list_all name_ok ws \<Longrightarrow> plain s \<Longrightarrow> stops s \<Longrightarrow> plain (sep_by '', '' ws @ s)"
  by (induction ws) (auto simp: sep_by_Cons name_ok_def plain_word is_digit_def)

lemma plain_holes: "plain s \<Longrightarrow> stops s \<Longrightarrow> plain (sep_by '', '' (replicate n ''?'') @ s)"
proof (induction n)
  case (Suc n)
  then show ?case using is_digit_word by (cases n; cases s) (auto simp: sep_by_Cons is_digit_def)
qed simp

lemma plain_sets: "list_all name_ok ws \<Longrightarrow> plain s \<Longrightarrow> stops s \<Longrightarrow> plain (sep_by '', '' (map (\<lambda>w. w @ ''=?'') ws) @ s)"
proof (induction ws)
  case (Cons w ws)
  then have "plain (CHR ''='' # CHR ''?'' # s)" using is_digit_word by (cases s) auto
  then show ?case using Cons by (cases "ws = []") (auto simp: sep_by_Cons name_ok_def plain_word is_digit_def)
qed simp

lemma plain_letters [simp]: "is_word c \<Longrightarrow> plain (c # s) = plain s"
  by auto

lemma plain_stmts:
  assumes "layer_for db tb" "name_ok F"
  shows "plain (insert_stmt db)" "plain (update_stmt db F)" "plain (delete_stmt db F)" "plain (select_by_stmt db F)"
  using layer_facts [OF assms(1)] assms(2)
  by (simp_all add: insert_stmt_def update_stmt_def delete_stmt_def select_by_stmt_def select_head_def plain_names
      plain_holes plain_sets plain_word name_ok_def is_digit_def)

lemma read_layer_stmts:
  assumes "layer_for db tb" "name_ok F"
  shows "read_sql (db_Type db) (ConvertParams db (insert_stmt db)) =
      Some (Insert (tb_name tb) (tb_columns tb) (map Param [0..<length (tb_columns tb)]))"
    and "read_sql (db_Type db) (ConvertParams db (update_stmt db F)) = Some (Update (tb_name tb)
      (map (\<lambda>i. (tb_columns tb ! i, Param i)) [0..<length (tb_columns tb)]) [(map to_lower F, Param (length (tb_columns tb)))])"
    and "read_sql (db_Type db) (ConvertParams db (delete_stmt db F)) = Some (Delete (tb_name tb) [(map to_lower F, Param 0)])"
    and "read_sql (db_Type db) (ConvertParams db (select_by_stmt db F)) =
      Some (Select (tb_columns tb) (tb_name tb) [(map to_lower F, Param 0)] (Some (0, 1)))"
  by (rule read_converted [OF read_insert_stmt [OF assms(1)] plain_stmts(1) [OF assms]], assumption)
    (rule read_converted [OF read_update_stmt [OF assms(1) _ assms(2)] plain_stmts(2) [OF assms]]
      read_converted [OF read_delete_stmt [OF assms(1) _ assms(2)] plain_stmts(3) [OF assms]]
      read_converted [OF read_select_by_stmt [OF assms(1) _ assms(2)] plain_stmts(4) [OF assms]]; assumption)+

lemma all_some_map: "(\<And>x. x \<in> set xs \<Longrightarrow> f x = Some (g x)) \<Longrightarrow> all_some (map f xs) = Some (map g xs)"
  by (induction xs) auto

lemma typed_row_length: "typed_row tb r \<Longrightarrow> length r = length (tb_text tb)"
  unfolding typed_row_def by (metis length_map)

lemma resolve_columns:
  assumes "layer_for db tb" "typed_row tb r"
  shows "all_some (map (\<lambda>i. resolve tb (r @ vs) (tb_columns tb ! i, Param i)) [0..<length (tb_columns tb)]) =
    Some (map (\<lambda>i. (i, r ! i)) [0..<length (tb_columns tb)])"
proof (rule all_some_map)
  fix i assume "i \<in> set [0..<length (tb_columns tb)]"
  then have i: "i < length (tb_columns tb)" by simp
  have len: "length r = length (tb_columns tb)" using typed_row_length [OF assms(2)] assms(1) by (simp add: layer_for_def)
  moreover have "is_text (r ! i) = tb_text tb ! i"
    using assms(2) i len unfolding typed_row_def by (metis nth_map)
  ultimately show "resolve tb (r @ vs) (tb_columns tb ! i, Param i) = Some (i, r ! i)"
    using i assms(1) by (simp add: resolve_def column_of_nth layer_for_def nth_append)
qed

lemma resolve_field:
  assumes "column_of tb f = Some c" "tb_text tb ! c" "n < length vs" "vs ! n = SText V"
  shows "all_some (map (resolve tb vs) [(f, Param n)]) = Some [(c, SText V)]"
  using assms by (simp add: resolve_def)

lemma map_of_upt: "i < n \<Longrightarrow> map_of (map (\<lambda>i. (i, f i)) [0..<n]) i = Some (f i)"
  by (rule map_of_is_SomeI) (auto simp: o_def)

lemma assign_prefix:
  "length q = length r \<Longrightarrow> n \<le> length r \<Longrightarrow> assign (map (\<lambda>i. (i, r ! i)) [0..<n]) q = take n r @ drop n q"
proof (induction n)
  case (Suc n)
  then show ?case
    by (intro nth_equalityI) (auto simp: assign_def nth_append nth_list_update min_def less_Suc_eq)
qed (simp add: assign_def)

lemma assign_all: "length q = length r \<Longrightarrow> assign (map (\<lambda>i. (i, r ! i)) [0..<length r]) q = r"
  using assign_prefix [of q r "length r"] by simp

text \<open>The effects of the statements of the layer.\<close>

lemma meaning_insert:
  assumes "layer_for db tb" "typed_row tb r"
  shows "meaning tb r (Insert (tb_name tb) (tb_columns tb) (map Param [0..<length (tb_columns tb)])) = Some (AddRow r)"
proof -
  let ?n = "length (tb_columns tb)"
  have len: "length r = ?n" using typed_row_length [OF assms(2)] assms(1) by (simp add: layer_for_def)
  have z: "map (resolve tb r) (zip (tb_columns tb) (map Param [0..<?n])) =
      map (\<lambda>i. resolve tb (r @ []) (tb_columns tb ! i, Param i)) [0..<?n]"
    by (rule nth_equalityI) simp_all
  have "map (\<lambda>c. the (map_of (map (\<lambda>i. (i, r ! i)) [0..<?n]) c)) [0..<?n] = r"
    using len by (intro nth_equalityI) (simp_all add: map_of_upt)
  then show ?thesis using resolve_columns [OF assms, of "[]"]
    by (simp add: z o_def)
qed

lemma meaning_update:
  assumes "layer_for db tb" "typed_row tb r" "column_of tb f = Some c" "tb_text tb ! c"
  shows "meaning tb (r @ [SText V]) (Update (tb_name tb) (map (\<lambda>i. (tb_columns tb ! i, Param i)) [0..<length (tb_columns tb)])
      [(f, Param (length (tb_columns tb)))]) = Some (Assign (map (\<lambda>i. (i, r ! i)) [0..<length r]) [(c, SText V)])"
proof -
  have len: "length r = length (tb_columns tb)" using typed_row_length [OF assms(2)] assms(1) by (simp add: layer_for_def)
  have "all_some (map (resolve tb (r @ [SText V])) [(f, Param (length (tb_columns tb)))]) = Some [(c, SText V)]"
    by (rule resolve_field [OF assms(3,4)]) (simp_all add: len nth_append)
  then show ?thesis using resolve_columns [OF assms(1,2), of "[SText V]"] len by (simp add: o_def)
qed

lemma meaning_delete:
  assumes "column_of tb f = Some c" "tb_text tb ! c"
  shows "meaning tb [SText V] (Delete (tb_name tb) [(f, Param 0)]) = Some (Remove [(c, SText V)])"
  using resolve_field [OF assms, of 0 "[SText V]" V] by simp

lemma meaning_select:
  assumes "layer_for db tb" "all_some (map (resolve tb vs) ws) = Some cs"
  shows "meaning tb vs (Select (tb_columns tb) (tb_name tb) ws lim) = Some (Pick [0..<length (tb_columns tb)] cs lim)"
proof -
  have "all_some (map (column_of tb) (tb_columns tb)) = all_some (map (\<lambda>i. column_of tb (tb_columns tb ! i)) [0..<length (tb_columns tb)])"
    by (rule arg_cong [where f = all_some], rule nth_equalityI) simp_all
  also have "\<dots> = Some (map (\<lambda>i. i) [0..<length (tb_columns tb)])"
    using assms(1) by (intro all_some_map) (simp add: column_of_nth layer_for_def)
  finally show ?thesis using assms(2) by simp
qed

lemma pick_all: "length q = n \<Longrightarrow> map (nth q) [0..<n] = q"
  by (metis map_nth)

section \<open>The table of a class\<close>

text \<open>The table the constructor of \<^verbatim>\<open>DB\<close> is given: every column unique that is declared \<^verbatim>\<open>unique primary key\<close>.\<close>

definition table_of :: "string \<Rightarrow> Field list \<Rightarrow> sql_table" where
  "table_of name Fields = \<lparr>tb_name = map to_lower name, tb_columns = map (\<lambda>f. map to_lower (fd_Name f)) Fields,
     tb_text = map (\<lambda>f. fd_Type f \<in> {FT_TEXT, FT_VARCHAR}) Fields,
     tb_keys = filter (\<lambda>i. fd_Index (Fields ! i)) [0..<length Fields]\<rparr>"

definition fields_ok :: "string \<Rightarrow> Field list \<Rightarrow> bool" where
  "fields_ok name Fields \<longleftrightarrow> name_ok name \<and> Fields \<noteq> [] \<and> distinct (map (\<lambda>f. map to_lower (fd_Name f)) Fields)
     \<and> list_all (\<lambda>f. name_ok (fd_Name f)) Fields"

lemma sep_by_concat: "sep_by sep (x # xs) = x @ concat (map (\<lambda>y. sep @ y) xs)"
  by (induction xs arbitrary: x) auto

lemma fields_loop_frame:
  "db_TableName (fields_loop P Fs n db) = db_TableName db" "db_Type (fields_loop P Fs n db) = db_Type db"
  "db_Pool (fields_loop P Fs n db) = db_Pool db" "db_Cache (fields_loop P Fs n db) = db_Cache db"
  "db_In (fields_loop P Fs n db) = db_In db" "db_Out (fields_loop P Fs n db) = db_Out db"
  "db_Fresh (fields_loop P Fs n db) = db_Fresh db"
  by (induction Fs arbitrary: n db) (simp_all add: add_field_def Let_def)

lemma fields_loop_texts:
  assumes "lower_doc P" "0 < n"
  shows "db_SelectFields (fields_loop P Fs n db) = db_SelectFields db @ concat (map (\<lambda>i. '', '' @ map to_lower (fd_Name i)) Fs)
    \<and> db_UpdateFields (fields_loop P Fs n db) = db_UpdateFields db @ concat (map (\<lambda>i. '', '' @ map to_lower (fd_Name i) @ ''=?'') Fs)
    \<and> db_SelectList (fields_loop P Fs n db) = db_SelectList db @ concat (map (\<lambda>i. '', ?'') Fs) @ '')''"
  using assms(2)
proof (induction Fs arbitrary: n db)
  case (Cons i Fs)
  show ?case using Cons.IH [of "n + 1" "add_field P i n db"] Cons.prems assms(1)
    by (simp add: add_field_def Let_def lower_doc_def)
qed simp

lemma map_of_map_set: "map_of (map_set k v ms) f = (if f = k then Some v else map_of ms f)"
  by (induction k v ms rule: map_set.induct) auto

lemma fields_loop_names:
  assumes "lower_doc P"
  shows "distinct (map (\<lambda>f. map to_lower (fd_Name f)) Fs) \<Longrightarrow> map_of (db_FieldNames (fields_loop P Fs n db)) f =
    (case map_of (zip (map (\<lambda>f. map to_lower (fd_Name f)) Fs) [n..<n + length Fs]) f of Some i \<Rightarrow> Some i
     | None \<Rightarrow> map_of (db_FieldNames db) f)"
proof (induction Fs arbitrary: n db)
  case (Cons i Fs)
  have u: "[n..<n + length (i # Fs)] = n # [n + 1..<n + 1 + length Fs]"
    by (simp add: upt_conv_Cons del: upt_Suc)
  have m: "map_of (zip (map (\<lambda>f. map to_lower (fd_Name f)) Fs) [n + 1..<n + 1 + length Fs]) (map to_lower (fd_Name i)) = None"
    using Cons.prems by (auto simp: map_of_eq_None_iff dest!: set_zip_leftD)
  show ?case unfolding u using Cons.IH [of "n + 1" "add_field P i n db"] Cons.prems assms m
    by (auto simp: add_field_def Let_def lower_doc_def map_of_map_set split: option.splits)
qed simp

lemma option_self: "(case m of None \<Rightarrow> None | Some i \<Rightarrow> Some i) = m"
  by (cases m) simp_all

lemma DB_new_layer:
  assumes "DB_new P n T name Fields Indexes Pool Prefix Cache into out fresh = Some db"
    and "lower_doc P" "fields_ok name Fields" "\<And>R. typed_row (table_of name Fields) (out R)"
  shows "layer_for db (table_of name Fields)" "db_Type db = T" "db_Pool db = Pool" "db_Cache db = Cache"
    "db_In db = into" "db_Out db = out" "db_Fresh db = fresh"
proof -
  let ?b = "\<lparr>db_TableName = name, db_Type = T, db_Pool = Pool,
             db_Prefix = Prefix, db_Cache = Cache, db_In = into, db_Out = out, db_Fresh = fresh, db_CreateFields = [],
             db_SelectFields = [], db_SelectList = [], db_UpdateFields = [], db_IndexCreation = [],
             db_FieldNames = []\<rparr>"
  let ?names = "map (\<lambda>f. map to_lower (fd_Name f)) Fields"
  obtain lines where db: "db = (fields_loop P Fields 0 ?b)\<lparr>db_IndexCreation := lines\<rparr>"
    using assms(1) unfolding DB_new_def Let_def
    by (auto simp del: fields_loop.simps split: if_splits) (metis DB.surjective DB.update_convs(13))
  obtain F Fs where Fs: "Fields = F # Fs" using assms(3) by (cases Fields) (auto simp: fields_ok_def)
  have texts: "db_SelectFields db = sep_by '', '' ?names" "db_UpdateFields db = sep_by '', '' (map (\<lambda>w. w @ ''=?'') ?names)"
    "db_SelectList db = ''('' @ sep_by '', '' (replicate (length ?names) ''?'') @ '')''"
  proof -
    have "concat (map (\<lambda>i. '', ?'') Fs) = concat (map (\<lambda>y. '', '' @ y) (replicate (length Fs) ''?''))" for Fs :: "Field list"
      by (induction Fs) simp_all
    then show "db_SelectFields db = sep_by '', '' ?names" "db_UpdateFields db = sep_by '', '' (map (\<lambda>w. w @ ''=?'') ?names)"
      "db_SelectList db = ''('' @ sep_by '', '' (replicate (length ?names) ''?'') @ '')''"
      using fields_loop_texts [OF assms(2), of 1 Fs "add_field P F 0 ?b"] assms(2) unfolding db Fs
      by (simp_all add: sep_by_concat add_field_def Let_def lower_doc_def o_def)
  qed
  have names: "map_of (db_FieldNames db) f = column_of (table_of name Fields) f" for f
    using fields_loop_names [OF assms(2), of Fields 0 ?b f] assms(3) unfolding db
    by (simp add: fields_ok_def column_of_def table_of_def option_self cong: option.case_cong)
  have "list_all name_ok ?names" using assms(3) by (simp add: fields_ok_def list_all_iff name_ok_lower)
  then show "layer_for db (table_of name Fields)"
    using assms(3,4) texts names unfolding layer_for_def
    by (simp add: db fields_loop_frame table_of_def fields_ok_def o_def)
  show "db_Type db = T" "db_Pool db = Pool" "db_Cache db = Cache"
    "db_In db = into" "db_Out db = out" "db_Fresh db = fresh"
    by (simp_all add: db fields_loop_frame)
qed

section \<open>An engine that satisfies the law\<close>

text \<open>
  It keeps the rows in a list, in the order of their insertion; a list that is not a table stands for the
  empty one.
\<close>

definition unique_list :: "nat list \<Rightarrow> row list \<Rightarrow> bool" where
  "unique_list keys rs \<longleftrightarrow> list_all (\<lambda>k. distinct (map (\<lambda>q. q ! k) rs)) keys"

definition table_rows :: "sql_table \<Rightarrow> row list \<Rightarrow> row list" where
  "table_rows tb rs = (if unique_list (tb_keys tb) rs \<and> list_all (typed_row tb) rs then rs else [])"

fun changed :: "sql_effect \<Rightarrow> row list \<Rightarrow> row list" where
  "changed (AddRow r) rs = rs @ [r]"
| "changed (Assign cs ws) rs = map (\<lambda>q. if satisfies ws q then assign cs q else q) rs"
| "changed (Remove ws) rs = filter (\<lambda>q. \<not> satisfies ws q) rs"
| "changed (Pick cs ws lim) rs = rs"

fun answer_of :: "sql_effect \<Rightarrow> row list \<Rightarrow> row list" where
  "answer_of (Pick cs ws lim) rs = map (\<lambda>q. map (nth q) cs) (window lim (filter (satisfies ws) rs))"
| "answer_of _ rs = []"

definition ref_sql :: "DBType \<Rightarrow> sql_table \<Rightarrow> (row list) driver" where
  "ref_sql T tb q d = (let rs = table_rows tb d in case q of
     SqlExecute st vs \<Rightarrow> (case Option.bind (read_sql T st) (meaning tb vs) of
         None \<Rightarrow> (None, rs)
       | Some e \<Rightarrow> if unique_list (tb_keys tb) (changed e rs) then (Some (answer_of e rs), changed e rs) else (None, rs))
   | _ \<Rightarrow> (Some [], rs))"

lemma unique_mset: "unique keys (mset rs) = unique_list keys rs"
proof -
  have D: "distinct xs \<longleftrightarrow> (\<forall>x \<in> set xs. count (mset xs) x = 1)" for xs :: "'x list"
  proof
    assume "\<forall>x \<in> set xs. count (mset xs) x = 1"
    then have "count (mset xs) a = (if a \<in> set xs then 1 else 0)" for a by simp
    then show "distinct xs" unfolding distinct_count_atmost_1 by blast
  qed (simp add: distinct_count_atmost_1)
  then have "distinct (map (\<lambda>q. q ! k) rs) \<longleftrightarrow> (\<forall>q \<in> set rs. count (image_mset (\<lambda>q. q ! k) (mset rs)) (q ! k) = 1)" for k
    unfolding D by simp
  then show ?thesis by (simp add: unique_def unique_list_def list_all_iff)
qed

definition ref_rows :: "sql_table \<Rightarrow> row list \<Rightarrow> row multiset" where
  "ref_rows tb rs = mset (table_rows tb rs)"

definition effect_ok :: "sql_table \<Rightarrow> sql_effect \<Rightarrow> bool" where
  "effect_ok tb e \<longleftrightarrow> (case e of AddRow r \<Rightarrow> typed_row tb r
     | Assign cs ws \<Rightarrow> list_all (\<lambda>(c, v). c < length (tb_text tb) \<and> is_text v = tb_text tb ! c) cs | _ \<Rightarrow> True)"

lemma resolved_types:
  "all_some (map (resolve tb vs) xs) = Some cs \<Longrightarrow> length (tb_text tb) = length (tb_columns tb) \<Longrightarrow>
   list_all (\<lambda>(c, v). c < length (tb_text tb) \<and> is_text v = tb_text tb ! c) cs"
proof (induction xs arbitrary: cs)
  case (Cons x xs)
  then show ?case
    by (auto simp: bind_eq_Some_conv resolve_def split: if_splits dest: column_of_Some)
qed simp

lemma meaning_ok:
  assumes "meaning tb vs st = Some e" "length (tb_text tb) = length (tb_columns tb)"
  shows "effect_ok tb e"
proof (cases st)
  case (Insert t fs xs)
  let ?n = "length (tb_columns tb)"
  obtain cs where cs: "all_some (map (resolve tb vs) (zip fs xs)) = Some cs" "length cs = ?n" "distinct (map fst cs)"
    and e: "e = AddRow (map (\<lambda>c. the (map_of cs c)) [0..<?n])"
    using assms(1) Insert by (auto simp: bind_eq_Some_conv split: if_splits)
  note ty = resolved_types [OF cs(1) assms(2)]
  have "set (map fst cs) \<subseteq> {..<?n}" using ty assms(2) by (auto simp: list_all_iff)
  moreover have "card (set (map fst cs)) = ?n" using distinct_card [OF cs(3)] cs(2) by simp
  ultimately have all: "set (map fst cs) = {..<?n}" by (simp add: card_subset_eq)
  have "is_text (the (map_of cs c)) = tb_text tb ! c" if "c < ?n" for c
  proof -
    have "c \<in> set (map fst cs)" using all that by blast
    then obtain v where "map_of cs c = Some v" by (cases "map_of cs c") (auto simp: map_of_eq_None_iff)
    moreover from this have "(c, v) \<in> set cs" by (rule map_of_SomeD)
    ultimately show ?thesis using ty by (auto simp: list_all_iff)
  qed
  then have "map is_text (map (\<lambda>c. the (map_of cs c)) [0..<?n]) = tb_text tb"
    using assms(2) by (intro nth_equalityI) simp_all
  then show ?thesis by (simp add: e effect_ok_def typed_row_def)
next
  case (Update t sets ws)
  then show ?thesis using assms resolved_types [OF _ assms(2)]
    by (auto simp: bind_eq_Some_conv effect_ok_def split: if_splits)
qed (use assms in \<open>auto simp: bind_eq_Some_conv effect_ok_def split: if_splits\<close>)

lemma assign_typed:
  "typed_row tb q \<Longrightarrow> list_all (\<lambda>(c, v). c < length (tb_text tb) \<and> is_text v = tb_text tb ! c) cs \<Longrightarrow> typed_row tb (assign cs q)"
proof (induction cs arbitrary: q)
  case (Cons x cs)
  obtain c v where x: "x = (c, v)" by (cases x)
  have "typed_row tb (q[c := v])"
    using Cons.prems x by (simp add: typed_row_def map_update)
  then show ?case using Cons x by (simp add: assign_def)
qed (simp add: assign_def)

lemma changed_typed: "list_all (typed_row tb) rs \<Longrightarrow> effect_ok tb e \<Longrightarrow> list_all (typed_row tb) (changed e rs)"
  by (cases e) (auto simp: list_all_iff effect_ok_def assign_typed)

lemma table_rows_idem: "table_rows tb (table_rows tb rs) = table_rows tb rs"
  by (simp add: table_rows_def unique_list_def list_all_iff)

lemma table_rows_ok: "unique_list (tb_keys tb) (table_rows tb rs)" "list_all (typed_row tb) (table_rows tb rs)"
  by (simp_all add: table_rows_def unique_list_def list_all_iff)

lemma changed_allowed:
  assumes "unique_list keys rs"
  shows "allowed keys e (mset rs) (if unique_list keys (changed e rs) then Some (answer_of e rs) else None)
    (if unique_list keys (changed e rs) then mset (changed e rs) else mset rs)"
proof (cases e)
  case (AddRow r)
  then show ?thesis using unique_mset [of keys "rs @ [r]"] by simp
next
  case (Assign cs ws)
  then show ?thesis using unique_mset [of keys "changed e rs"] by (simp add: Let_def)
next
  case (Remove ws)
  have "unique_list keys (filter (\<lambda>q. \<not> satisfies ws q) rs)"
    using assms by (auto simp: unique_list_def list_all_iff distinct_map_filter)
  then show ?thesis using Remove by simp
next
  case (Pick cs ws lim)
  then show ?thesis using assms by (simp, intro exI [of _ "filter (satisfies ws) rs"]) simp
qed

theorem ref_sql_doc:
  assumes "length (tb_text tb) = length (tb_columns tb)"
  shows "sql_doc T tb (ref_sql T tb) (ref_rows tb)"
proof -
  have "allowed (tb_keys tb) e (ref_rows tb d) (fst (ref_sql T tb (SqlExecute st vs) d))
      (ref_rows tb (snd (ref_sql T tb (SqlExecute st vs) d)))"
    if m: "Option.bind (read_sql T st) (meaning tb vs) = Some e" for d st vs e
  proof -
    let ?rs = "table_rows tb d"
    obtain s where "meaning tb vs s = Some e" using m by (cases "read_sql T st") simp_all
    then have "list_all (typed_row tb) (changed e ?rs)"
      using changed_typed table_rows_ok(2) meaning_ok assms by blast
    then have "unique_list (tb_keys tb) (changed e ?rs) \<Longrightarrow> table_rows tb (changed e ?rs) = changed e ?rs"
      by (simp add: table_rows_def)
    then show ?thesis using changed_allowed [OF table_rows_ok(1) [of tb d], of e] m
      by (cases "unique_list (tb_keys tb) (changed e ?rs)") (simp_all add: ref_sql_def ref_rows_def table_rows_idem Let_def)
  qed
  then show ?thesis
    by (auto simp: sql_doc_def ref_rows_def unique_mset table_rows_ok ref_sql_def table_rows_idem Let_def
        list_all_iff [symmetric] split: option.splits)
qed

end
