(* ===== verification/OrmSpec.thy ===== *)
theory OrmSpec
  imports Sql "HOL-Library.List_Lexorder" "HOL-Library.Char_ord"
begin

text \<open>
  What the object-relational layer promises.  The conditions it builds are read by the database as
  the fields and values they were built from; a table behaves as a multiset of rows with unique keys; the loop
  over a table ends after as many records as the condition selects.  What is needed of the database is that it
  executes the text of a statement according to its meaning, \<open>sql_doc\<close> of theory \<open>Sql\<close>.
\<close>

section \<open>Conditions\<close>

lemma Escape_Cons: "Escape (c # S) = (if c = quote then [quote, quote] else [c]) @ Escape S"
  by (simp add: Escape_def)

lemma Escape_Nil [simp]: "Escape [] = []"
  by (simp add: Escape_def)

lemma read_literal_other:
  "c \<noteq> quote \<Longrightarrow> \<not> (T = mysql \<and> c = backslash) \<Longrightarrow> cs \<noteq> [] \<Longrightarrow> read_literal T (c # cs) = prepend [c] (read_literal T cs)"
  by (cases cs) auto

text \<open>The values that are escaped well enough for a database.\<close>

definition escapable :: "DBType \<Rightarrow> string \<Rightarrow> bool" where
  "escapable T V \<longleftrightarrow> T = mysql \<longrightarrow> backslash \<notin> set V"

lemma read_literal_Escape:
  assumes "rest = [] \<or> hd rest \<noteq> quote"
  shows "escapable T V \<Longrightarrow> read_literal T (Escape V @ quote # rest) = Some (V, rest)"
proof (induction V)
  case Nil
  show ?case using assms by (cases rest) auto
next
  case (Cons c V)
  then have IH: "read_literal T (Escape V @ quote # rest) = Some (V, rest)" by (auto simp: escapable_def)
  have "\<not> (T = mysql \<and> c = backslash)" using Cons.prems by (auto simp: escapable_def)
  then show ?case using IH by (cases "c = quote") (simp_all add: Escape_Cons read_literal_other)
qed

text \<open>What an argument of \<^verbatim>\<open>WHERE_AND\<close> means; an empty string is no condition.\<close>

fun equation :: "string \<times> sql_arg \<Rightarrow> sql_equations" where
  "equation (f, ArgString v) = (if v = [] then [] else [(map to_lower f, TextValue v)])"
| "equation (f, ArgBool b) = [(map to_lower f, TruthValue b)]"
| "equation (f, ArgInt i) = [(map to_lower f, NumValue i)]"

text \<open>Its text and tokens.\<close>

fun condition :: "string \<times> sql_arg \<Rightarrow> string" where
  "condition (f, ArgString v) = f @ ''='' @ [quote] @ Escape v @ [quote]"
| "condition (f, ArgBool b) = f @ ''='' @ (if b then ''true'' else ''false'')"
| "condition (f, ArgInt i) = f @ ''='' @ show_int i"

fun value_token :: "sql_arg \<Rightarrow> sql_token" where
  "value_token (ArgString v) = Lit v"
| "value_token (ArgBool b) = Word (if b then ''true'' else ''false'')"
| "value_token (ArgInt i) = Number i"

definition counts :: "string \<times> sql_arg \<Rightarrow> bool" where
  "counts a \<longleftrightarrow> snd a \<noteq> ArgString []"

lemma counts_simps [simp]: "counts (f, ArgString v) = (v \<noteq> [])" "counts (f, ArgBool b)" "counts (f, ArgInt i)"
  by (simp_all add: counts_def)

lemma condition_nonempty: "condition a \<noteq> []"
  by (cases a rule: condition.cases) simp_all

lemma WHERE_AND_loop_text:
  "WHERE_AND_loop Result args = (if filter counts args = [] then Result
     else and_then Result @ sep_by '' and '' (map condition (filter counts args)))"
proof (induction Result args rule: WHERE_AND_loop.induct)
  case (2 Result f v args)
  then show ?case by (cases "v = []") (simp_all add: and_then_def sep_by_Cons)
qed (simp_all add: and_then_def sep_by_Cons)

lemma tokens_condition:
  assumes "name_ok (fst a)" "case snd a of ArgString v \<Rightarrow> escapable T v | _ \<Rightarrow> True" "s = [] \<or> hd s = CHR '' ''"
  shows "sql_tokens T k (condition a @ s) = map_option (\<lambda>ts. Word (map to_lower (fst a)) # Sym (CHR ''='') # value_token (snd a) # ts)
    (sql_tokens T k s)"
proof -
  obtain f x where a: "a = (f, x)" by (cases a)
  have stops: "stops s" using assms(3) by (cases s) auto
  have val: "sql_tokens T k (CHR ''='' # v @ s) = map_option (\<lambda>ts. Sym (CHR ''='') # value_token x # ts) (sql_tokens T k s)"
    if "condition a = f @ CHR ''='' # v" for v
  proof (cases x)
    case (ArgString u)
    then have "read_literal T (Escape u @ quote # s) = Some (u, s)"
      using assms a by (intro read_literal_Escape) (cases s, auto)
    moreover have "v @ s = quote # Escape u @ quote # s" using that a ArgString by auto
    ultimately show ?thesis using ArgString by (simp add: sql_tokens.simps(2) option.map_comp o_def)
  next
    case (ArgBool b)
    have "sql_tokens T k (''true'' @ s) = map_option (\<lambda>ts. Word ''true'' # ts) (sql_tokens T k s)"
      "sql_tokens T k (''false'' @ s) = map_option (\<lambda>ts. Word ''false'' # ts) (sql_tokens T k s)"
      using tokens_word [of "''true''" s T k] tokens_word [of "''false''" s T k] stops
      by (simp_all add: to_lower_def is_upper_def is_digit_def)
    moreover have "v = (if b then ''true'' else ''false'')" using that a ArgBool by simp
    ultimately show ?thesis using ArgBool by (cases b) (simp_all add: option.map_comp o_def)
  next
    case (ArgInt i)
    then show ?thesis using that a tokens_integer [OF stops, of T k i] by (simp add: option.map_comp o_def)
  qed
  obtain v where v: "condition a = f @ CHR ''='' # v" using a by (cases x) simp_all
  then show ?thesis using val [OF v] assms(1) a by (simp add: tokens_name option.map_comp o_def)
qed

lemma tokens_conditions:
  assumes "\<forall>a \<in> set args. name_ok (fst a) \<and> (case snd a of ArgString v \<Rightarrow> escapable T v | _ \<Rightarrow> True)"
  shows "args \<noteq> [] \<Longrightarrow> sql_tokens T k (sep_by '' and '' (map condition args)) =
    Some (sep_by [Word ''and''] (map (\<lambda>a. [Word (map to_lower (fst a)), Sym (CHR ''=''), value_token (snd a)]) args))"
  using assms
proof (induction args)
  case (Cons a args)
  show ?case
  proof (cases "args = []")
    case True
    then show ?thesis using Cons.prems tokens_condition [of a T "[]" k] by simp
  next
    case False
    then show ?thesis using Cons tokens_condition [of a T "'' and '' @ sep_by '' and '' (map condition args)" k]
      by (simp add: sep_by_Cons tokens_keywords)
  qed
qed simp

lemma no_holes: "\<not> list_ex is_hole (sep_by [Word ''and''] (map (\<lambda>a. [Word (f a), Sym (CHR ''=''), value_token (snd a)]) args))"
proof (induction args)
  case (Cons a args)
  then show ?case by (cases "snd a") (auto simp: sep_by_Cons)
qed simp

lemma concat_equations:
  "concat (map equation args) = map (\<lambda>a. (map to_lower (fst a), the (read_operand (value_token (snd a))))) (filter counts args)"
proof (induction args)
  case (Cons a args)
  then show ?case by (cases a rule: equation.cases) simp_all
qed simp



text \<open>
  On MySQL a value that ends in a backslash takes the quote after it into its literal: the condition goes on
  as text of the literal up to the next quote, and what follows, the value of the next field, is read as SQL.
\<close>

lemma mysql_backslash_escapes:
  "read_literal mysql (Escape [backslash] @ quote # '' and id='' @ quote # v) = Some (quote # '' and id='', v)"
  if "v \<noteq> []" "hd v \<noteq> quote"
  using that by (cases v) (simp_all add: Escape_def mysql_escape_def)

section \<open>Orders\<close>

definition order_item :: "string \<times> bool \<Rightarrow> string" where
  "order_item i = fst i @ (if snd i then '' ASC'' else '' DESC'')"

fun order_text :: "(string \<times> bool) list \<Rightarrow> string" where
  "order_text [] = []"
| "order_text [i] = order_item i"
| "order_text (i # ks) = order_item i @ '' , '' @ order_text ks"

lemma order_item_nonempty: "order_item i \<noteq> []"
  by (simp add: order_item_def)

lemma order_text_Cons: "order_text (i # ks) = order_item i @ (if ks = [] then [] else '' , '' @ order_text ks)"
  by (cases "ks") auto

lemma order_loop_items:
  "order_loop P db items L = Some L' \<Longrightarrow> \<exists>ks. (\<forall>i \<in> set ks. ValidFieldName P db (fst i)) \<and> length ks = length items \<and>
     L' = L @ (if L = [] \<or> ks = [] then [] else '' , '') @ order_text ks"
proof (induction items arbitrary: L)
  case (Cons t items)
  from Cons.prems obtain f d where t: "po_tokens P t '':'' = [f, d]" "d = ''a'' \<or> d = ''d''" "ValidFieldName P db f"
    and rest: "order_loop P db items (L @ (if L = [] then [] else '' , '') @ order_item (f, d = ''a'')) = Some L'"
    by (fastforce simp: ValidFieldName_def order_item_def split: list.splits if_splits)
  from Cons.IH [OF rest] obtain ks where "\<forall>i \<in> set ks. ValidFieldName P db (fst i)" "length ks = length items"
    "L' = L @ (if L = [] then [] else '' , '') @ order_item (f, d = ''a'') @ (if ks = [] then [] else '' , '') @ order_text ks"
    by (auto simp: order_item_nonempty)
  then show ?case using t(3) by (intro exI [of _ "(f, d = ''a'') # ks"]) (simp add: order_text_Cons)
qed simp

text \<open>
  An accepted order is made of names of fields of the table and the words \<^verbatim>\<open>ASC\<close> and \<^verbatim>\<open>DESC\<close> only, one
  for each item of the request; nothing else of the request reaches the SQL text.
\<close>

theorem PrepareOrderBy_fields_only:
  assumes "PrepareOrderBy P db OrderByList old = (True, order)"
  shows "\<exists>ks. (\<forall>i \<in> set ks. ValidFieldName P db (fst i)) \<and> length ks = length (po_tokens P OrderByList '','')
    \<and> order = (if ks = [] then old else '' ORDER BY '' @ order_text ks)"
proof -
  obtain L where L: "order_loop P db (po_tokens P OrderByList '','') [] = Some L"
    and order: "order = (if L = [] then old else '' ORDER BY '' @ L)"
    using assms by (auto simp: PrepareOrderBy_def split: option.splits)
  from order_loop_items [OF L] obtain ks where "\<forall>i \<in> set ks. ValidFieldName P db (fst i)"
    "length ks = length (po_tokens P OrderByList '','')" "L = order_text ks"
    by auto
  then show ?thesis using order by (intro exI [of _ "ks"]) (cases "ks"; auto simp: order_text_Cons order_item_nonempty)
qed

section \<open>A table as a multiset of rows\<close>

text \<open>The column of a field, and the operations of the abstract table.\<close>

definition column :: "platform \<Rightarrow> ('r, 'd, 'c) DB \<Rightarrow> string \<Rightarrow> nat option" where
  "column P db F = map_of (db_FieldNames db) (po_toLower P F)"

definition commit_if :: "nat list \<Rightarrow> row multiset \<Rightarrow> row multiset \<Rightarrow> bool \<times> row multiset" where
  "commit_if keys new old = (if unique keys new then (True, new) else (False, old))"

definition tab_insert :: "nat list \<Rightarrow> row \<Rightarrow> row multiset \<Rightarrow> bool \<times> row multiset" where
  "tab_insert keys r M = commit_if keys (add_mset r M) M"

definition tab_update :: "nat list \<Rightarrow> nat \<Rightarrow> string \<Rightarrow> row \<Rightarrow> row multiset \<Rightarrow> bool \<times> row multiset" where
  "tab_update keys c V r M = commit_if keys (image_mset (\<lambda>q. if q ! c = SText V then r else q) M) M"

definition tab_delete :: "nat \<Rightarrow> string \<Rightarrow> row multiset \<Rightarrow> row multiset" where
  "tab_delete c V M = filter_mset (\<lambda>q. q ! c \<noteq> SText V) M"

definition tab_has :: "nat \<Rightarrow> string \<Rightarrow> row multiset \<Rightarrow> bool" where
  "tab_has c V M \<longleftrightarrow> (\<exists>q \<in># M. q ! c = SText V)"

text \<open>The operations that change a table, and what they do to its rows.\<close>

datatype 'r table_op = OpCreate 'r | OpUpdate string string 'r | OpDelete string string | OpReplace string string 'r

fun run_op :: "platform \<Rightarrow> ('r, 'd, 'c) DB \<Rightarrow> 'r table_op \<Rightarrow> ('d \<times> 'c, bool) act" where
  "run_op P db (OpCreate R) = CreateRecord db R"
| "run_op P db (OpUpdate F V R) = UpdateRecord P db F V R"
| "run_op P db (OpDelete F V) = DeleteRecord P db F V"
| "run_op P db (OpReplace F V R) = ReplaceRecord P db F V R"

fun run_ops :: "platform \<Rightarrow> ('r, 'd, 'c) DB \<Rightarrow> 'r table_op list \<Rightarrow> ('d \<times> 'c, bool list) act" where
  "run_ops P db [] = give []"
| "run_ops P db (p # ps) = also_do (run_op P db p) (\<lambda>b. also_do (run_ops P db ps) (\<lambda>bs. give (b # bs)))"

text \<open>An operation that names a field names one of the text columns of the table.\<close>

definition text_column :: "sql_table \<Rightarrow> nat option \<Rightarrow> bool" where
  "text_column tb k = (case k of None \<Rightarrow> False | Some c \<Rightarrow> c < length (tb_text tb) \<and> tb_text tb ! c)"

fun op_ok :: "platform \<Rightarrow> ('r, 'd, 'c) DB \<Rightarrow> sql_table \<Rightarrow> 'r table_op \<Rightarrow> bool" where
  "op_ok P db tb (OpCreate R) = True"
| "op_ok P db tb (OpUpdate F V R) = text_column tb (column P db F)"
| "op_ok P db tb (OpDelete F V) = text_column tb (column P db F)"
| "op_ok P db tb (OpReplace F V R) = text_column tb (column P db F)"

fun spec_op :: "platform \<Rightarrow> ('r, 'd, 'c) DB \<Rightarrow> nat list \<Rightarrow> 'r table_op \<Rightarrow> row multiset \<Rightarrow> bool \<times> row multiset" where
  "spec_op P db keys (OpCreate R) M = tab_insert keys (db_Out db R) M"
| "spec_op P db keys (OpUpdate F V R) M = tab_update keys (the (column P db F)) V (db_Out db R) M"
| "spec_op P db keys (OpDelete F V) M = (True, tab_delete (the (column P db F)) V M)"
| "spec_op P db keys (OpReplace F V R) M =
     (if tab_has (the (column P db F)) V M then tab_update keys (the (column P db F)) V (db_Out db R) M
      else tab_insert keys (db_Out db R) M)"

fun spec_ops :: "platform \<Rightarrow> ('r, 'd, 'c) DB \<Rightarrow> nat list \<Rightarrow> 'r table_op list \<Rightarrow> row multiset \<Rightarrow> bool list \<times> row multiset" where
  "spec_ops P db keys [] M = ([], M)"
| "spec_ops P db keys (p # ps) M = (let (b, M') = spec_op P db keys p M; (bs, M'') = spec_ops P db keys ps M' in
     (b # bs, M''))"

text \<open>Every record is read back without an exception.\<close>

definition readable :: "('r, 'd, 'c) DB \<Rightarrow> row multiset \<Rightarrow> bool" where
  "readable db M \<longleftrightarrow> (\<forall>q \<in># M. \<forall>R. snd (db_In db q R))"

definition writes_readable :: "('r, 'd, 'c) DB \<Rightarrow> bool" where
  "writes_readable db \<longleftrightarrow> (\<forall>R. readable db {#db_Out db R#})"

text \<open>What a lookup may find: one of the rows that have the value, or nothing when there is none.\<close>

definition tab_get :: "('r, 'd, 'c) DB \<Rightarrow> nat \<Rightarrow> string \<Rightarrow> 'r \<Rightarrow> row multiset \<Rightarrow> bool \<times> 'r \<Rightarrow> bool" where
  "tab_get db k V R M found \<longleftrightarrow> (if tab_has k V M then (\<exists>q \<in># M. q ! k = SText V \<and> found = (True, fst (db_In db q R)))
     else found = (False, R))"

text \<open>
  A computation that, from every state of the engine with the rows \<open>M\<close>, has an outcome of \<open>Q\<close> and leaves
  the rows \<open>new\<close>; the cache is not used.
\<close>

definition does :: "('d \<Rightarrow> row multiset) \<Rightarrow> ('d \<times> 'c, 'a) act \<Rightarrow> row multiset \<Rightarrow> ('a outcome \<Rightarrow> bool) \<Rightarrow> row multiset \<Rightarrow> bool" where
  "does rows m M Q new \<longleftrightarrow>
     (\<forall>d c. rows d = M \<longrightarrow> (\<exists>out d'. m (d, c) = (out, (d', c)) \<and> Q out \<and> rows d' = new))"

definition returns :: "('a \<Rightarrow> bool) \<Rightarrow> 'a outcome \<Rightarrow> bool" where
  "returns X out \<longleftrightarrow> (\<exists>x. out = Ret x \<and> X x)"

lemma doesE:
  assumes "does rows m M Q new" "rows d = M"
  obtains out d' where "m (d, c) = (out, (d', c))" "Q out" "rows d' = new"
  using assms unfolding does_def by blast

lemma does_returnsE:
  assumes "does rows m M (returns X) new" "rows d = M"
  obtains x d' where "m (d, c) = (Ret x, (d', c))" "X x" "rows d' = new"
  using assms unfolding does_def returns_def by blast

lemma does_mono:
  assumes "does rows m M (returns X) new" "\<And>x. X x \<Longrightarrow> Y x"
  shows "does rows m M (returns Y) new"
  unfolding does_def
proof (intro allI impI)
  fix d c assume "rows d = M"
  with assms(1) obtain x d' where "m (d, c) = (Ret x, (d', c))" "X x" "rows d' = new" by (rule does_returnsE)
  with assms(2) show "\<exists>out d'. m (d, c) = (out, (d', c)) \<and> returns Y out \<and> rows d' = new" by (auto simp: returns_def)
qed

lemma does_give: "X x \<Longrightarrow> does rows (give x) M (returns X) M"
  by (simp add: does_def give_def returns_def)

lemma does_bind:
  assumes m: "does rows m M (returns X) mid" and k: "\<And>x. X x \<Longrightarrow> does rows (k x) mid Q new"
  shows "does rows (also_do m k) M Q new"
  unfolding does_def
proof (intro allI impI)
  fix d c assume "rows d = M"
  with m obtain x d1 where 1: "m (d, c) = (Ret x, (d1, c))" "X x" "rows d1 = mid" by (rule does_returnsE)
  from k [OF 1(2)] 1(3) obtain out d' where "k x (d1, c) = (out, (d', c))" "Q out" "rows d' = new" by (rule doesE)
  with 1(1) show "\<exists>out d'. also_do m k (d, c) = (out, (d', c)) \<and> Q out \<and> rows d' = new"
    by (simp add: also_do_def)
qed

lemma does_caught:
  assumes "does rows m M (returns X) new"
  shows "does rows (caught y m) M (returns X) new"
  unfolding does_def
proof (intro allI impI)
  fix d c assume "rows d = M"
  with assms obtain x d' where "m (d, c) = (Ret x, (d', c))" "X x" "rows d' = new" by (rule does_returnsE)
  then show "\<exists>out d'. caught y m (d, c) = (out, (d', c)) \<and> returns X out \<and> rows d' = new"
    by (simp add: caught_def returns_def)
qed

lemma does_caught_bind:
  assumes m: "does rows m M (returns X) mid" and k: "\<And>x. X x \<Longrightarrow> does rows (caught y (k x)) mid Q new"
  shows "does rows (caught y (also_do m k)) M Q new"
  unfolding does_def
proof (intro allI impI)
  fix d c assume "rows d = M"
  with m obtain x d1 where 1: "m (d, c) = (Ret x, (d1, c))" "X x" "rows d1 = mid" by (rule does_returnsE)
  from k [OF 1(2)] 1(3) obtain out d' where "caught y (k x) (d1, c) = (out, (d', c))" "Q out" "rows d' = new" by (rule doesE)
  with 1(1) show "\<exists>out d'. caught y (also_do m k) (d, c) = (out, (d', c)) \<and> Q out \<and> rows d' = new"
    by (simp add: also_do_def caught_def)
qed

lemma does_caught_throw:
  assumes "does rows m M ((=) Throw) new"
  shows "does rows (caught y (also_do m k)) M (returns ((=) y)) new"
  unfolding does_def
proof (intro allI impI)
  fix d c assume "rows d = M"
  with assms obtain d' where "m (d, c) = (Throw, (d', c))" "rows d' = new" by (auto elim: doesE)
  then show "\<exists>out d'. caught y (also_do m k) (d, c) = (out, (d', c)) \<and> returns ((=) y) out \<and> rows d' = new"
    by (simp add: also_do_def caught_def returns_def)
qed

text \<open>A write, which succeeds or throws, and what follows it.\<close>

lemma does_write:
  assumes "does rows m M (if fst res then returns ((=) []) else (=) Throw) (snd res)"
    and "does rows (k []) (snd res) (returns ((=) True)) (snd res)"
  shows "does rows (caught False (also_do m k)) M (returns ((=) (fst res))) (snd res)"
proof (cases "fst res")
  case True
  then have "does rows (also_do m k) M (returns ((=) True)) (snd res)"
    using assms by (intro does_bind [where X = "(=) []"]) auto
  then show ?thesis using True by (simp add: does_caught)
next
  case False
  then show ?thesis using assms(1) does_caught_throw [of rows m M "snd res" False k] by simp
qed

lemma does_on_cache: "db_Cache db = None \<Longrightarrow> does rows (on_cache db f) M (returns ((=) ())) M"
  by (simp add: does_def on_cache_def returns_def)

lemma does_from_cache: "db_Cache db = None \<Longrightarrow> does rows (from_cache db F V R) M (returns ((=) (False, R))) M"
  by (auto simp: does_def from_cache_def returns_def)

lemma does_session:
  assumes "\<And>d. rows d = M \<Longrightarrow> \<exists>a. fst (db_Pool db q d) = Some a \<and> X a \<and> rows (snd (db_Pool db q d)) = new"
  shows "does rows (session db q) M (returns X) new"
  unfolding does_def
proof (intro allI impI)
  fix d c assume "rows d = M"
  from assms [OF this] obtain a where "fst (db_Pool db q d) = Some a" "X a" "rows (snd (db_Pool db q d)) = new" by blast
  then show "\<exists>out d'. session db q (d, c) = (out, (d', c)) \<and> returns X out \<and> rows d' = new"
    by (cases "db_Pool db q d") (simp add: session_def returns_def)
qed

lemma does_session_throw:
  assumes "\<And>d. rows d = M \<Longrightarrow> fst (db_Pool db q d) = None \<and> rows (snd (db_Pool db q d)) = new"
  shows "does rows (session db q) M ((=) Throw) new"
  unfolding does_def
proof (intro allI impI)
  fix d c assume "rows d = M"
  from assms [OF this] show "\<exists>out d'. session db q (d, c) = (out, (d', c)) \<and> Throw = out \<and> rows d' = new"
    by (cases "db_Pool db q d") (simp add: session_def)
qed

section \<open>What the law gives for the requests of the layer\<close>

text \<open>A layer over an engine that obeys the law, without a cache.\<close>

definition layer_on :: "platform \<Rightarrow> ('r, 'd, 'c) DB \<Rightarrow> sql_table \<Rightarrow> ('d \<Rightarrow> row multiset) \<Rightarrow> bool" where
  "layer_on P db tb rows \<longleftrightarrow> lower_doc P \<and> layer_for db tb \<and> sql_doc (db_Type db) tb (db_Pool db) rows \<and> db_Cache db = None"

lemma sql_runs:
  assumes "sql_doc T tb D rows" "read_sql T st = Some s" "meaning tb vs s = Some e"
  shows "allowed (tb_keys tb) e (rows d) (fst (D (SqlExecute st vs) d)) (rows (snd (D (SqlExecute st vs) d)))"
  using assms unfolding sql_doc_def by (auto dest!: spec [of _ d] spec [of _ st] spec [of _ vs])

lemma sql_table_ok:
  assumes "sql_doc T tb D rows"
  shows "unique (tb_keys tb) (rows d)" "q \<in># rows d \<Longrightarrow> typed_row tb q"
  using assms by (auto simp: sql_doc_def)

lemma does_connection:
  assumes "layer_on P db tb rows" "q \<in> {SqlSession, SqlBegin, SqlCommit}"
  shows "does rows (session db q) M (returns ((=) [])) M"
proof (rule does_session)
  fix d assume "rows d = M"
  moreover have "fst (db_Pool db q d) = Some []" "rows (snd (db_Pool db q d)) = rows d"
    using assms unfolding layer_on_def sql_doc_def by blast+
  ultimately show "\<exists>a. fst (db_Pool db q d) = Some a \<and> [] = a \<and> rows (snd (db_Pool db q d)) = M" by simp
qed

text \<open>The field of an operation.\<close>

lemma layer_column:
  assumes "layer_on P db tb rows" "column P db F = Some k"
  shows "name_ok F" "column_of tb (map to_lower F) = Some k" "ValidFieldName P db F"
proof -
  have "map_of (db_FieldNames db) (map to_lower F) = Some k" "layer_for db tb"
    using assms by (simp_all add: layer_on_def column_def lower_doc_def)
  then show "name_ok F" "column_of tb (map to_lower F) = Some k" using layer_field by blast+
  show "ValidFieldName P db F"
    using assms(2) by (auto simp: column_def ValidFieldName_def dest: map_of_SomeD intro: rev_image_eqI)
qed

lemma layer_out: "layer_on P db tb rows \<Longrightarrow> typed_row tb (db_Out db R)"
  by (simp add: layer_on_def layer_for_def)

lemma text_columnD: "text_column tb (Some k) \<Longrightarrow> tb_text tb ! k"
  by (simp add: text_column_def)

lemma name_ok_a: "name_ok ''a''"
  by (simp add: name_ok_def reserved_def is_digit_def to_lower_def is_upper_def)

lemma does_insert:
  assumes "layer_on P db tb rows"
  shows "does rows (session db (SqlExecute (ConvertParams db (insert_stmt db)) (db_Out db R))) M
     (if fst (tab_insert (tb_keys tb) (db_Out db R) M) then returns ((=) []) else (=) Throw)
     (snd (tab_insert (tb_keys tb) (db_Out db R) M))"
proof -
  have l: "layer_for db tb" "sql_doc (db_Type db) tb (db_Pool db) rows" using assms by (simp_all add: layer_on_def)
  note run = sql_runs [OF l(2) read_layer_stmts(1) [OF l(1) name_ok_a] meaning_insert [OF l(1) layer_out [OF assms]]]
  show ?thesis
    using run [of R] by (cases "unique (tb_keys tb) (add_mset (db_Out db R) M)")
      (auto simp: tab_insert_def commit_if_def intro!: does_session does_session_throw)
qed

lemma does_update:
  assumes "layer_on P db tb rows" "column P db F = Some k" "text_column tb (Some k)"
  shows "does rows (session db (SqlExecute (ConvertParams db (update_stmt db F)) (db_Out db R @ [SText V]))) M
     (if fst (tab_update (tb_keys tb) k V (db_Out db R) M) then returns ((=) []) else (=) Throw)
     (snd (tab_update (tb_keys tb) k V (db_Out db R) M))"
proof -
  have l: "layer_for db tb" "sql_doc (db_Type db) tb (db_Pool db) rows" using assms by (simp_all add: layer_on_def)
  note F = layer_column [OF assms(1,2)]
  let ?e = "Assign (map (\<lambda>i. (i, db_Out db R ! i)) [0..<length (db_Out db R)]) [(k, SText V)]"
  have run: "allowed (tb_keys tb) ?e (rows d) (fst (db_Pool db (SqlExecute (ConvertParams db (update_stmt db F)) (db_Out db R @ [SText V])) d))
      (rows (snd (db_Pool db (SqlExecute (ConvertParams db (update_stmt db F)) (db_Out db R @ [SText V])) d)))" for d
    by (rule sql_runs [OF l(2) read_layer_stmts(2) [OF l(1) F(1)] meaning_update [OF l(1) layer_out [OF assms(1)] F(2) text_columnD [OF assms(3)]]])
  have same: "image_mset (\<lambda>q. if satisfies [(k, SText V)] q then assign (map (\<lambda>i. (i, db_Out db R ! i)) [0..<length (db_Out db R)]) q else q) (rows d) =
      image_mset (\<lambda>q. if q ! k = SText V then db_Out db R else q) (rows d)" for d
  proof (rule image_mset_cong)
    fix q assume "q \<in># rows d"
    then have "length q = length (db_Out db R)"
      using typed_row_length [OF sql_table_ok(2) [OF l(2)]] typed_row_length [OF layer_out [OF assms(1), of R]] by simp
    then show "(if satisfies [(k, SText V)] q then assign (map (\<lambda>i. (i, db_Out db R ! i)) [0..<length (db_Out db R)]) q else q) =
        (if q ! k = SText V then db_Out db R else q)"
      using assign_all [of q "db_Out db R"] by (simp add: satisfies_def)
  qed
  show ?thesis
    using run unfolding allowed.simps Let_def same
    by (cases "unique (tb_keys tb) (image_mset (\<lambda>q. if q ! k = SText V then db_Out db R else q) M)")
      (auto simp: tab_update_def commit_if_def intro!: does_session does_session_throw)
qed

lemma does_delete:
  assumes "layer_on P db tb rows" "column P db F = Some k" "text_column tb (Some k)"
  shows "does rows (session db (SqlExecute (ConvertParams db (delete_stmt db F)) [SText V])) M (returns ((=) [])) (tab_delete k V M)"
proof -
  have l: "layer_for db tb" "sql_doc (db_Type db) tb (db_Pool db) rows" using assms by (simp_all add: layer_on_def)
  note F = layer_column [OF assms(1,2)]
  note run = sql_runs [OF l(2) read_layer_stmts(3) [OF l(1) F(1)] meaning_delete [OF F(2) text_columnD [OF assms(3)]]]
  show ?thesis
    using run [of V] by (intro does_session) (simp add: tab_delete_def satisfies_def)
qed

lemma rows_length: "layer_on P db tb rows \<Longrightarrow> q \<in># rows d \<Longrightarrow> length q = length (tb_columns tb)"
  using typed_row_length sql_table_ok(2) by (metis layer_for_def layer_on_def)

text \<open>A selection of all columns answers with rows of the table.\<close>

lemma pick_rows:
  assumes "layer_on P db tb rows" "mset xs = filter_mset sel (rows d)"
  shows "map (\<lambda>q. map (nth q) [0..<length (tb_columns tb)]) (window lim xs) = window lim xs"
proof (rule map_idI)
  fix q assume "q \<in> set (window lim xs)"
  then have "q \<in> set xs" by (auto simp: window_def split: option.splits dest: in_set_takeD in_set_dropD)
  then have "q \<in># rows d" using assms(2) by (metis filter_mset_eq_conv mset_subset_eqD set_mset_mset multiset_filter_subset)
  then show "map (nth q) [0..<length (tb_columns tb)] = q" using rows_length [OF assms(1)] pick_all by blast
qed

lemma does_select:
  assumes "layer_on P db tb rows" "column P db F = Some k" "text_column tb (Some k)"
  shows "does rows (session db (SqlExecute (ConvertParams db (select_by_stmt db F)) [SText V])) M
     (returns (\<lambda>a. if tab_has k V M then (\<exists>q \<in># M. q ! k = SText V \<and> a = [q]) else a = [])) M"
proof (rule does_session)
  fix d assume M: "rows d = M"
  have l: "layer_for db tb" "sql_doc (db_Type db) tb (db_Pool db) rows" using assms by (simp_all add: layer_on_def)
  note F = layer_column [OF assms(1,2)]
  let ?q = "SqlExecute (ConvertParams db (select_by_stmt db F)) [SText V]"
  have "all_some (map (resolve tb [SText V]) [(map to_lower F, Param 0)]) = Some [(k, SText V)]"
    by (rule resolve_field [OF F(2) text_columnD [OF assms(3)]]) simp_all
  from sql_runs [OF l(2) read_layer_stmts(4) [OF l(1) F(1)] meaning_select [OF l(1) this], of d]
  obtain xs where new: "rows (snd (db_Pool db ?q d)) = M" and xs: "mset xs = filter_mset (\<lambda>q. q ! k = SText V) (rows d)"
    and a: "fst (db_Pool db ?q d) = Some (map (\<lambda>q. map (nth q) [0..<length (tb_columns tb)]) (window (Some (0, 1)) xs))"
    using M by (auto simp: satisfies_def [abs_def])
  have "fst (db_Pool db ?q d) = Some (take 1 xs)"
    using a pick_rows [OF assms(1) xs, of "Some (0, 1)"] by (simp add: window_def)
  moreover have "if tab_has k V M then \<exists>q \<in># M. q ! k = SText V \<and> take 1 xs = [q] else take 1 xs = []"
  proof (cases xs)
    case Nil
    then have none: "filter_mset (\<lambda>q. q ! k = SText V) M = {#}" using xs M by simp
    have "\<not> tab_has k V M"
    proof
      assume "tab_has k V M"
      then obtain q where "q \<in># filter_mset (\<lambda>q. q ! k = SText V) M" by (auto simp: tab_has_def)
      then show False unfolding none by simp
    qed
    then show ?thesis using Nil by simp
  next
    case (Cons q ys)
    then have "q \<in># filter_mset (\<lambda>q. q ! k = SText V) M" using xs M by (metis list.set_intros(1) set_mset_mset)
    then show ?thesis using Cons by (auto simp: tab_has_def)
  qed
  ultimately show "\<exists>a. fst (db_Pool db ?q d) = Some a
      \<and> (if tab_has k V M then \<exists>q \<in># M. q ! k = SText V \<and> a = [q] else a = []) \<and> rows (snd (db_Pool db ?q d)) = M"
    using new by blast
qed

section \<open>The operations on one record\<close>

lemma also_do_assoc: "also_do (also_do m k) l = also_do m (\<lambda>x. also_do (k x) l)"
  by (rule ext) (simp add: also_do_def split: prod.splits outcome.splits)

lemma does_after_session:
  assumes "layer_on P db tb rows" "q \<in> {SqlSession, SqlBegin, SqlCommit}" "does rows (k []) M Q new"
  shows "does rows (also_do (session db q) k) M Q new"
  by (rule does_bind [OF does_connection [OF assms(1,2)]]) (use assms(3) in simp)

lemma does_caught_after_session:
  assumes "layer_on P db tb rows" "q \<in> {SqlSession, SqlBegin, SqlCommit}" "does rows (caught y (k [])) M Q new"
  shows "does rows (caught y (also_do (session db q) k)) M Q new"
  by (rule does_caught_bind [OF does_connection [OF assms(1,2)]]) (use assms(3) in simp)

lemma does_after_cache:
  assumes "db_Cache db = None" "does rows (k ()) M Q new"
  shows "does rows (also_do (on_cache db f) k) M Q new"
  by (rule does_bind [OF does_on_cache [OF assms(1)]]) (use assms(2) in simp)

lemma layer_cache: "layer_on P db tb rows \<Longrightarrow> db_Cache db = None"
  by (simp add: layer_on_def)

lemma does_CreateRecord:
  assumes "layer_on P db tb rows"
  shows "does rows (CreateRecord db R) M (returns ((=) (fst (tab_insert (tb_keys tb) (db_Out db R) M))))
    (snd (tab_insert (tb_keys tb) (db_Out db R) M))"
  unfolding CreateRecord_def execute_def also_do_assoc
  by (rule does_caught_after_session [OF assms], simp, rule does_write [OF does_insert [OF assms]],
      rule does_after_cache [OF layer_cache [OF assms]], rule does_give) simp

lemma does_UpdateRecord:
  assumes "layer_on P db tb rows" "column P db F = Some k" "text_column tb (Some k)"
  shows "does rows (UpdateRecord P db F V R) M (returns ((=) (fst (tab_update (tb_keys tb) k V (db_Out db R) M))))
    (snd (tab_update (tb_keys tb) k V (db_Out db R) M))"
  unfolding UpdateRecord_def asserting_def if_P [OF layer_column(3) [OF assms(1,2)]]
  by (rule does_caught_after_session [OF assms(1)], simp, rule does_caught_after_session [OF assms(1)], simp,
      rule does_write [OF does_update [OF assms]], rule does_after_cache [OF layer_cache [OF assms(1)]],
      rule does_after_session [OF assms(1)], simp, rule does_give) simp

lemma does_DeleteRecord:
  assumes "layer_on P db tb rows" "column P db F = Some k" "text_column tb (Some k)"
  shows "does rows (DeleteRecord P db F V) M (returns ((=) True)) (tab_delete k V M)"
  unfolding DeleteRecord_def asserting_def if_P [OF layer_column(3) [OF assms(1,2)]]
  by (rule does_caught, rule does_after_session [OF assms(1)], simp, rule does_after_session [OF assms(1)], simp,
      rule does_bind [OF does_delete [OF assms]], rule does_after_cache [OF layer_cache [OF assms(1)]],
      rule does_after_session [OF assms(1)], simp, rule does_give) simp

lemma does_query_found:
  assumes "layer_on P db tb rows" "column P db F = Some k" "text_column tb (Some k)" "readable db M"
  shows "does rows (query_one db (ConvertParams db (select_by_stmt db F)) [SText V] R) M (returns (tab_get db k V R M)) M"
  unfolding query_one_def execute_def also_do_assoc
proof (rule does_after_session [OF assms(1)], simp, rule does_bind [OF does_select [OF assms(1-3)]],
    rule does_bind [OF does_select [OF assms(1-3)]])
  fix a :: "row list"
  assume a: "if tab_has k V M then \<exists>q \<in># M. q ! k = SText V \<and> a = [q] else a = []"
  show "does rows (if length a = 1 then case db_In db (hd a) R of
         (R', True) \<Rightarrow> also_do (on_cache db (\<lambda>C. ch_UpdateCache C R')) (\<lambda>_. give (True, R'))
       | (R', False) \<Rightarrow> give (False, R') else give (False, R)) M (returns (tab_get db k V R M)) M"
  proof (cases "tab_has k V M")
    case True
    with a obtain q where q: "q \<in># M" "q ! k = SText V" "a = [q]" by auto
    then have "snd (db_In db q R)" using assms(4) by (simp add: readable_def)
    then obtain R' where R': "db_In db q R = (R', True)" by (cases "db_In db q R") simp
    then have "tab_get db k V R M (True, R')" using True q by (auto simp: tab_get_def intro!: bexI [of _ q])
    then show ?thesis using q(3) R'
      by (auto intro!: does_after_cache [OF layer_cache [OF assms(1)]] does_give)
  next
    case False
    then show ?thesis using a by (auto simp: tab_get_def intro!: does_give)
  qed
qed

lemma does_GetRecord:
  assumes "layer_on P db tb rows" "column P db F = Some k" "text_column tb (Some k)" "readable db M"
  shows "does rows (GetRecord P db F V R) M (returns (tab_get db k V R M)) M"
  unfolding GetRecord_def asserting_def if_P [OF layer_column(3) [OF assms(1,2)]]
  using does_query_found [OF assms]
  by (auto intro!: does_bind [OF does_from_cache [OF layer_cache [OF assms(1)]]] does_caught)

lemma does_ReplaceRecord:
  assumes "layer_on P db tb rows" "column P db F = Some k" "text_column tb (Some k)" "readable db M"
  shows "does rows (ReplaceRecord P db F V R) M (returns ((=) (fst (spec_op P db (tb_keys tb) (OpReplace F V R) M))))
    (snd (spec_op P db (tb_keys tb) (OpReplace F V R) M))"
proof -
  have "does rows (Exists P db F V) M (returns ((=) (tab_has k V M))) M"
    unfolding Exists_def asserting_def if_P [OF layer_column(3) [OF assms(1,2)]]
    by (rule does_bind [OF does_GetRecord [OF assms]]) (auto simp: tab_get_def split: if_splits intro!: does_give)
  then show ?thesis unfolding ReplaceRecord_def using assms(2) does_CreateRecord [OF assms(1)] does_UpdateRecord [OF assms(1-3)]
    by (auto intro!: does_bind)
qed

lemma spec_op_readable:
  assumes "readable db M" "writes_readable db"
  shows "readable db (snd (spec_op P db keys p M))"
  using assms by (cases p) (auto simp: readable_def writes_readable_def tab_insert_def tab_update_def tab_delete_def commit_if_def)

lemma does_run_op:
  assumes "layer_on P db tb rows" "readable db M" "op_ok P db tb p"
  shows "does rows (run_op P db p) M (returns ((=) (fst (spec_op P db (tb_keys tb) p M)))) (snd (spec_op P db (tb_keys tb) p M))"
  using assms does_CreateRecord [OF assms(1)] does_UpdateRecord [OF assms(1)] does_DeleteRecord [OF assms(1)]
    does_ReplaceRecord [OF assms(1) _ _ assms(2)]
  by (cases p) (auto simp: text_column_def split: option.splits simp del: spec_op.simps(4))

lemma does_run_ops:
  assumes "layer_on P db tb rows" "writes_readable db" "\<forall>p \<in> set ps. op_ok P db tb p"
  shows "readable db M \<Longrightarrow> does rows (run_ops P db ps) M (returns ((=) (fst (spec_ops P db (tb_keys tb) ps M))))
      (snd (spec_ops P db (tb_keys tb) ps M))
    \<and> readable db (snd (spec_ops P db (tb_keys tb) ps M))"
  using assms(3)
proof (induction ps arbitrary: M)
  case (Cons p ps)
  let ?M = "snd (spec_op P db (tb_keys tb) p M)"
  have rd: "readable db ?M" using Cons.prems(1) assms(2) by (rule spec_op_readable)
  have ops: "does rows (run_ops P db ps) ?M (returns ((=) (fst (spec_ops P db (tb_keys tb) ps ?M)))) (snd (spec_ops P db (tb_keys tb) ps ?M))"
    "readable db (snd (spec_ops P db (tb_keys tb) ps ?M))"
    using Cons.IH [OF rd] Cons.prems(2) by auto
  have "does rows (run_op P db p) M (returns ((=) (fst (spec_op P db (tb_keys tb) p M)))) ?M"
    using Cons.prems by (intro does_run_op [OF assms(1)]) auto
  then have "does rows (run_ops P db (p # ps)) M (returns ((=) (fst (spec_op P db (tb_keys tb) p M) # fst (spec_ops P db (tb_keys tb) ps ?M))))
      (snd (spec_ops P db (tb_keys tb) ps ?M))"
    unfolding run_ops.simps by (rule does_bind) (rule does_bind [OF ops(1)], rule does_give, simp)
  then show ?case using ops(2) by (simp add: Let_def split_beta)
qed (simp add: does_give)

text \<open>The table of a class, from the arguments of its constructor.\<close>

lemma DB_new_layer_on:
  assumes "DB_new P n T name Fields Indexes D Prefix None into out fresh = Some db" "lower_doc P" "fields_ok name Fields"
    "\<And>R. typed_row (table_of name Fields) (out R)" "sql_doc T (table_of name Fields) D rows"
  shows "layer_on P db (table_of name Fields) rows"
  using DB_new_layer [OF assms(1-4)] assms(2,5) by (simp add: layer_on_def)


section \<open>The loop over a table\<close>

definition read_row :: "('r, 'd, 'c) DB \<Rightarrow> row \<Rightarrow> 'r" where
  "read_row db q = fst (db_In db q (db_Fresh db))"

lemma convert_all_readable:
  "\<forall>q \<in> set RL. \<forall>R. snd (db_In db q R) \<Longrightarrow> convert_all db RL Records = (True, Records @ map (read_row db) RL)"
proof (induction RL arbitrary: Records)
  case (Cons q RL)
  then obtain R where "db_In db q (db_Fresh db) = (R, True)" by (cases "db_In db q (db_Fresh db)") (auto dest: spec [of _ "db_Fresh db"])
  then show ?case using Cons by (simp add: read_row_def)
qed simp

text \<open>
  The condition of the loop: a text that reads as a conjunction, with its meaning on a row.
\<close>

definition selects :: "DBType \<Rightarrow> sql_table \<Rightarrow> string \<Rightarrow> cells \<Rightarrow> bool" where
  "selects T tb W cs \<longleftrightarrow> Option.bind (read_condition T W) (\<lambda>ws. all_some (map (resolve tb []) ws)) = Some cs"

text \<open>
  An engine that answers all selections from one order of the rows, which depends on the rows only.
  SQL does not promise this: a query without \<^verbatim>\<open>ORDER BY\<close> may return its rows in another order each time.
\<close>

definition keeps_order :: "DBType \<Rightarrow> sql_table \<Rightarrow> 'd driver \<Rightarrow> ('d \<Rightarrow> row multiset) \<Rightarrow> (row multiset \<Rightarrow> row list) \<Rightarrow> bool" where
  "keeps_order T tb D rows order \<longleftrightarrow> (\<forall>M. mset (order M) = M) \<and> (\<forall>d st vs.
     case Option.bind (read_sql T st) (meaning tb vs) of
       Some (Pick cs ws lim) \<Rightarrow> fst (D (SqlExecute st vs) d) =
         Some (map (\<lambda>q. map (nth q) cs) (window lim (filter (satisfies ws) (order (rows d)))))
     | _ \<Rightarrow> True)"

lemma keeps_orderD:
  assumes "keeps_order T tb D rows order" "read_sql T st = Some s" "meaning tb vs s = Some (Pick cs ws lim)"
  shows "fst (D (SqlExecute st vs) d) = Some (map (\<lambda>q. map (nth q) cs) (window lim (filter (satisfies ws) (order (rows d)))))"
proof -
  from assms(1) have "case Option.bind (read_sql T st) (meaning tb vs) of
       Some (Pick cs ws lim) \<Rightarrow> fst (D (SqlExecute st vs) d) =
         Some (map (\<lambda>q. map (nth q) cs) (window lim (filter (satisfies ws) (order (rows d)))))
     | _ \<Rightarrow> True"
    unfolding keeps_order_def by blast
  then show ?thesis using assms(2,3) by simp
qed

text \<open>One query of the loop: a page of some order of the selected rows.\<close>

definition page_of :: "cells \<Rightarrow> row multiset \<Rightarrow> uint64 \<Rightarrow> uint64 \<Rightarrow> row list option \<Rightarrow> row list \<Rightarrow> bool" where
  "page_of cs M k n fixed xs \<longleftrightarrow> mset xs = filter_mset (satisfies cs) M
     \<and> (case fixed of None \<Rightarrow> True | Some ys \<Rightarrow> take (unat n) (drop (unat k) xs) = take (unat n) (drop (unat k) (filter (satisfies cs) ys)))"

lemma does_range:
  assumes "layer_on P db tb rows" "selects (db_Type db) tb W cs"
    and "case order of None \<Rightarrow> True | Some f \<Rightarrow> keeps_order (db_Type db) tb (db_Pool db) rows f"
  shows "does rows (session db (SqlExecute (select_range_stmt db k n W []) [])) M
    (returns (\<lambda>a. \<exists>xs. page_of cs M k n (map_option (\<lambda>f. f M) order) xs \<and> a = take (unat n) (drop (unat k) xs))) M"
proof (rule does_session)
  fix d assume M: "rows d = M"
  have l: "layer_for db tb" "sql_doc (db_Type db) tb (db_Pool db) rows" using assms by (simp_all add: layer_on_def)
  obtain ws where ws: "read_condition (db_Type db) W = Some ws" "all_some (map (resolve tb []) ws) = Some cs"
    using assms(2) by (auto simp: selects_def bind_eq_Some_conv)
  let ?q = "SqlExecute (select_range_stmt db k n W []) []"
  let ?lim = "Some (unat k, unat n)"
  note st = read_select_range_stmt [OF l(1) ws(1), of k n] and mg = meaning_select [OF l(1) ws(2), of ?lim]
  from sql_runs [OF l(2) st mg, of d]
  obtain xs where new: "rows (snd (db_Pool db ?q d)) = M" and xs: "mset xs = filter_mset (satisfies cs) (rows d)"
    and a: "fst (db_Pool db ?q d) = Some (map (\<lambda>q. map (nth q) [0..<length (tb_columns tb)]) (window ?lim xs))"
    using M by auto
  have page: "fst (db_Pool db ?q d) = Some (take (unat n) (drop (unat k) xs))"
    using a pick_rows [OF assms(1) xs, of ?lim] by (simp add: window_def)
  have "page_of cs M k n (map_option (\<lambda>f. f M) order) xs"
  proof (cases order)
    case (Some f)
    then have f: "mset (f M) = M" "fst (db_Pool db ?q d) = Some (map (\<lambda>q. map (nth q) [0..<length (tb_columns tb)])
        (window ?lim (filter (satisfies cs) (f M))))"
      using assms(3) keeps_orderD [OF _ st mg, of "db_Pool db" rows f d] M by (auto simp: keeps_order_def)
    have "mset (filter (satisfies cs) (f M)) = filter_mset (satisfies cs) (rows d)" using f(1) M by simp
    from f(2) pick_rows [OF assms(1) this, of ?lim] page show ?thesis using xs M Some by (simp add: page_of_def window_def)
  qed (use xs M in \<open>simp add: page_of_def\<close>)
  with page new show "\<exists>a. fst (db_Pool db ?q d) = Some a
      \<and> (\<exists>xs. page_of cs M k n (map_option (\<lambda>f. f M) order) xs \<and> a = take (unat n) (drop (unat k) xs)) \<and> rows (snd (db_Pool db ?q d)) = M"
    by blast
qed

definition records_of :: "('r, 'd, 'c) DB \<Rightarrow> row list \<Rightarrow> bool \<times> 'r list" where
  "records_of db rs = (rs \<noteq> [], map (read_row db) rs)"

lemma page_in: "page_of cs M k n f xs \<Longrightarrow> set xs \<subseteq> set_mset (filter_mset (satisfies cs) M)"
  unfolding page_of_def by (metis order_refl set_mset_mset)

lemma does_GetRecords:
  assumes "layer_on P db tb rows" "selects (db_Type db) tb W cs" "readable db (filter_mset (satisfies cs) M)"
    and "case order of None \<Rightarrow> True | Some f \<Rightarrow> keeps_order (db_Type db) tb (db_Pool db) rows f"
  shows "does rows (GetRecords db k n [] W []) M (returns (\<lambda>r. \<exists>xs. page_of cs M k n (map_option (\<lambda>f. f M) order) xs
    \<and> r = records_of db (take (unat n) (drop (unat k) xs)))) M"
  unfolding GetRecords_def execute_def also_do_assoc
proof (rule does_caught, rule does_after_session [OF assms(1)], simp, rule does_bind [OF does_range [OF assms(1,2,4)]])
  fix a assume "\<exists>xs. page_of cs M k n (map_option (\<lambda>f. f M) order) xs \<and> a = take (unat n) (drop (unat k) xs)"
  then obtain xs where xs: "page_of cs M k n (map_option (\<lambda>f. f M) order) xs" "a = take (unat n) (drop (unat k) xs)" by blast
  have "set a \<subseteq> set xs" using xs(2) by (meson order_trans set_drop_subset set_take_subset)
  then have "\<forall>q \<in> set a. \<forall>R. snd (db_In db q R)" using page_in [OF xs(1)] assms(3) by (auto simp: readable_def)
  then have "(if a = [] then (False, []) else convert_all db a []) = records_of db a"
    by (simp add: convert_all_readable records_of_def)
  then have "does rows (give (if a = [] then (False, []) else convert_all db a [])) M (returns (\<lambda>r. r = records_of db a)) M"
    by (simp add: does_give)
  then show "does rows (give (if a = [] then (False, []) else convert_all db a [])) M
      (returns (\<lambda>r. \<exists>xs. page_of cs M k n (map_option (\<lambda>f. f M) order) xs \<and> r = records_of db (take (unat n) (drop (unat k) xs)))) M"
    by (rule does_mono) (use xs in auto)
qed

lemma visit_append:
  "visit F (xs @ ys) u = (if fst (visit F xs u) then visit F ys (snd (visit F xs u)) else visit F xs u)"
  by (induction xs arbitrary: u) (auto split: prod.splits bool.splits)

text \<open>What the loop has before it at an offset: rows of the selection, as many as are left, in the fixed order if there is one.\<close>

definition remaining :: "cells \<Rightarrow> row multiset \<Rightarrow> row list option \<Rightarrow> nat \<Rightarrow> row list \<Rightarrow> bool" where
  "remaining cs M fixed k rs \<longleftrightarrow> length rs = size (filter_mset (satisfies cs) M) - k
     \<and> set rs \<subseteq> set_mset (filter_mset (satisfies cs) M)
     \<and> (case fixed of None \<Rightarrow> True | Some ys \<Rightarrow> rs = drop k (filter (satisfies cs) ys))"

lemma remaining_last:
  assumes "page_of cs M k 50 fixed xs" "case fixed of None \<Rightarrow> True | Some ys \<Rightarrow> mset ys = M"
  obtains rs where "remaining cs M fixed (unat k) (take 50 (drop (unat k) xs) @ rs)" "rs = drop (unat k + 50) (case fixed of None \<Rightarrow> xs | Some ys \<Rightarrow> filter (satisfies cs) ys)"
proof -
  let ?ys = "case fixed of None \<Rightarrow> xs | Some ys \<Rightarrow> filter (satisfies cs) ys"
  have m: "mset ?ys = filter_mset (satisfies cs) M" using assms by (cases fixed) (auto simp: page_of_def)
  have "take 50 (drop (unat k) xs) = take 50 (drop (unat k) ?ys)" using assms(1) by (cases fixed) (simp_all add: page_of_def)
  then have e: "take 50 (drop (unat k) xs) @ drop (unat k + 50) ?ys = drop (unat k) ?ys"
    by (metis append_take_drop_id drop_drop add.commute)
  have "remaining cs M fixed (unat k) (drop (unat k) ?ys)"
    unfolding remaining_def
  proof (intro conjI)
    show "length (drop (unat k) ?ys) = size (filter_mset (satisfies cs) M) - unat k" using m by (metis length_drop size_mset)
    show "set (drop (unat k) ?ys) \<subseteq> set_mset (filter_mset (satisfies cs) M)" using m by (metis set_drop_subset set_mset_mset)
  qed (cases fixed; simp)
  then show thesis using that e by simp
qed

lemma remaining_step:
  assumes "page_of cs M k 50 fixed xs" "remaining cs M fixed (unat k + 50) rs" "case fixed of None \<Rightarrow> True | Some ys \<Rightarrow> mset ys = M"
    and "unat k + 50 \<le> size (filter_mset (satisfies cs) M)"
  shows "remaining cs M fixed (unat k) (take 50 (drop (unat k) xs) @ rs)"
proof -
  have order: "take 50 (drop (unat k) xs) @ rs = drop (unat k) (filter (satisfies cs) ys)" if "fixed = Some ys" for ys
  proof -
    have "take 50 (drop (unat k) xs) = take 50 (drop (unat k) (filter (satisfies cs) ys))" "rs = drop (unat k + 50) (filter (satisfies cs) ys)"
      using assms(1,2) that by (simp_all add: page_of_def remaining_def)
    then show ?thesis by (metis append_take_drop_id drop_drop add.commute)
  qed
  have "length xs = size (filter_mset (satisfies cs) M)" using assms(1) unfolding page_of_def by (metis size_mset)
  moreover have "set (take 50 (drop (unat k) xs)) \<subseteq> set_mset (filter_mset (satisfies cs) M)"
    using page_in [OF assms(1)] by (meson order_trans set_drop_subset set_take_subset)
  moreover have "length rs = size (filter_mset (satisfies cs) M) - (unat k + 50)" "set rs \<subseteq> set_mset (filter_mset (satisfies cs) M)"
    using assms(2) unfolding remaining_def by blast+
  ultimately have a: "length (take 50 (drop (unat k) xs) @ rs) = size (filter_mset (satisfies cs) M) - unat k"
    "set (take 50 (drop (unat k) xs) @ rs) \<subseteq> set_mset (filter_mset (satisfies cs) M)"
    using assms(4) unfolding length_append length_take length_drop set_append Un_subset_iff by (linarith, blast)
  show ?thesis unfolding remaining_def using a order by (intro conjI; cases fixed; simp only: option.case)
qed

lemma Iterate_loop_visits:
  fixes Offset :: uint64
  assumes l: "layer_on P db tb rows" "selects (db_Type db) tb W cs" "readable db (filter_mset (satisfies cs) M)"
    and o: "case order of None \<Rightarrow> True | Some f \<Rightarrow> keeps_order (db_Type db) tb (db_Pool db) rows f"
    and bound: "size (filter_mset (satisfies cs) M) + 50 < 2 ^ 64"
  shows "rows d = M \<Longrightarrow> unat Offset \<le> size (filter_mset (satisfies cs) M) \<Longrightarrow>
    \<exists>rs d'. Iterate_loop db F W Offset u (d, c) = Some (True, snd (visit F (map (read_row db) rs) u), (d', c))
      \<and> rows d' = M \<and> remaining cs M (map_option (\<lambda>f. f M) order) (unat Offset) rs"
proof (induction "size (filter_mset (satisfies cs) M) - unat Offset" arbitrary: Offset u d rule: less_induct)
  case less
  let ?N = "size (filter_mset (satisfies cs) M)"
  let ?fix = "map_option (\<lambda>f. f M) order"
  have fixd: "case ?fix of None \<Rightarrow> True | Some ys \<Rightarrow> mset ys = M" using o by (cases order) (auto simp: keeps_order_def)
  obtain r d1 where r: "GetRecords db Offset 50 [] W [] (d, c) = (Ret r, (d1, c))" "rows d1 = M"
    and "\<exists>xs. page_of cs M Offset 50 ?fix xs \<and> r = records_of db (take (unat (50 :: uint64)) (drop (unat Offset) xs))"
    using does_GetRecords [OF l o, of Offset 50] less.prems(1) by (rule does_returnsE)
  then obtain xs where xs: "page_of cs M Offset 50 ?fix xs" "r = records_of db (take 50 (drop (unat Offset) xs))" by auto
  let ?page = "take 50 (drop (unat Offset) xs)"
  let ?recs = "map (read_row db) ?page"
  have get: "GetRecords db Offset 50 [] W [] (d, c) = (Ret (?page \<noteq> [], ?recs), (d1, c))"
    using r(1) xs(2) by (simp add: records_of_def)
  have N: "length xs = ?N" using xs(1) unfolding page_of_def by (metis size_mset)
  obtain ok u1 where v: "visit F ?recs u = (ok, u1)" by (cases "visit F ?recs u")
  show ?case
  proof (cases "length ?page < 50 \<or> \<not> ok")
    case True
    obtain rs where rs: "remaining cs M ?fix (unat Offset) (?page @ rs)" "rs = drop (unat Offset + 50)
        (case ?fix of None \<Rightarrow> xs | Some ys \<Rightarrow> filter (satisfies cs) ys)"
      using remaining_last [OF xs(1) fixd] by blast
    have "rs = [] \<or> \<not> ok"
    proof (cases "length ?page < 50")
      case True
      then have "?N < unat Offset + 50" using N by auto
      moreover have "length (?page @ rs) = ?N - unat Offset" using rs(1) by (simp add: remaining_def)
      moreover have "length ?page = ?N - unat Offset" using True N by simp
      ultimately show ?thesis by simp
    qed (use \<open>length ?page < 50 \<or> \<not> ok\<close> in simp)
    then have "snd (visit F (map (read_row db) (?page @ rs)) u) = u1"
      unfolding map_append visit_append v by auto
    moreover have "Iterate_batch db F W Offset u (d, c) = Inl (True, u1, (d1, c))"
      unfolding Iterate_batch_def get using True v by (cases "?page = []"; cases ok) auto
    ultimately show ?thesis using r(2) rs(1) by (subst Iterate_loop.simps) (auto intro!: exI [of _ "?page @ rs"])
  next
    case False
    then have long: "unat Offset + 50 \<le> ?N" using N by auto
    then have off: "unat (Offset + 50) = unat Offset + 50" using bound by (simp add: unat_add_lem [THEN iffD1])
    have step: "Iterate_batch db F W Offset u (d, c) = Inr (u1, (d1, c))"
      unfolding Iterate_batch_def get using False v by (cases "?page = []") auto
    have "?N - unat (Offset + 50) < ?N - unat Offset" "unat (Offset + 50) \<le> ?N" using long off by simp_all
    from less.hyps [OF this(1) r(2) this(2), of u1]
    obtain rs d' where rs: "Iterate_loop db F W (Offset + 50) u1 (d1, c) = Some (True, snd (visit F (map (read_row db) rs) u1), (d', c))"
      "rows d' = M" "remaining cs M ?fix (unat Offset + 50) rs"
      unfolding off by blast
    have "visit F (map (read_row db) (?page @ rs)) u = visit F (map (read_row db) rs) u1"
      unfolding map_append visit_append v using False by simp
    then show ?thesis using step rs(1,2) remaining_step [OF xs(1) rs(3) fixd long]
      by (subst Iterate_loop.simps) (auto intro!: exI [of _ "?page @ rs"])
  qed
qed


section \<open>Concrete tables\<close>

text \<open>
  An engine that keeps its rows in the order of their values, so that it answers all selections from one
  order.  Values are ordered with the integers before the texts.
\<close>

instantiation sqlval :: linorder
begin

definition less_eq_sqlval :: "sqlval \<Rightarrow> sqlval \<Rightarrow> bool" where
  "less_eq_sqlval a b = (case a of SInt i \<Rightarrow> (case b of SInt j \<Rightarrow> i \<le> j | SText _ \<Rightarrow> True)
     | SText s \<Rightarrow> (case b of SInt _ \<Rightarrow> False | SText t \<Rightarrow> s \<le> t))"

definition less_sqlval :: "sqlval \<Rightarrow> sqlval \<Rightarrow> bool" where
  "less_sqlval a b \<longleftrightarrow> a \<le> b \<and> \<not> b \<le> (a :: sqlval)"

instance
  by standard (auto simp: less_eq_sqlval_def less_sqlval_def split: sqlval.splits)

end

definition sorted_sql :: "DBType \<Rightarrow> sql_table \<Rightarrow> (row list) driver" where
  "sorted_sql T tb q d = ref_sql T tb q (sort d)"

lemma unique_list_mset: "mset xs = mset ys \<Longrightarrow> unique_list keys xs = unique_list keys ys"
  by (metis unique_mset)

lemma table_rows_sort: "table_rows tb (sort d) = sort (table_rows tb d)"
  using unique_list_mset [of "sort d" d] by (simp add: table_rows_def list_all_iff)

lemma ref_rows_sort: "ref_rows tb (sort d) = ref_rows tb d"
  by (simp add: ref_rows_def table_rows_sort)

lemma sorted_sql_doc:
  assumes "length (tb_text tb) = length (tb_columns tb)"
  shows "sql_doc T tb (sorted_sql T tb) (ref_rows tb)"
proof -
  note D = ref_sql_doc [OF assms, of T, unfolded sql_doc_def]
  from D [THEN conjunct1] D [THEN conjunct2, THEN conjunct1, THEN spec, of "sort d" for d]
    D [THEN conjunct2, THEN conjunct2, THEN spec, of "sort d" for d]
  show ?thesis
    unfolding sql_doc_def sorted_sql_def ref_rows_sort by simp
qed

lemma sorted_sql_keeps_order: "keeps_order T tb (sorted_sql T tb) (ref_rows tb) sorted_list_of_multiset"
proof -
  have "sorted_list_of_multiset (ref_rows tb d) = table_rows tb (sort d)" for d
    by (simp add: ref_rows_def table_rows_sort sorted_list_of_multiset_mset)
  then have "case Option.bind (read_sql T st) (meaning tb vs) of
       Some (Pick cs ws lim) \<Rightarrow> fst (sorted_sql T tb (SqlExecute st vs) d) =
         Some (map (\<lambda>q. map (nth q) cs) (window lim (filter (satisfies ws) (sorted_list_of_multiset (ref_rows tb d)))))
     | _ \<Rightarrow> True" for d st vs
    by (cases "Option.bind (read_sql T st) (meaning tb vs)")
      (simp_all add: sorted_sql_def ref_sql_def Let_def table_rows_ok split: sql_effect.split)
  then show ?thesis unfolding keeps_order_def by simp
qed

text \<open>A table of pairs of strings, the first one the key, in this engine.\<close>

definition pair_in :: "row \<Rightarrow> string \<times> string \<Rightarrow> (string \<times> string) \<times> bool" where
  "pair_in q R = ((sql_text (q ! 0), sql_text (q ! 1)), True)"

definition pair_out :: "string \<times> string \<Rightarrow> row" where
  "pair_out R = [SText (fst R), SText (snd R)]"

definition pair_fields :: "Field list" where
  "pair_fields = [Field_sized ''id'' 64 True, Field_typed ''name'' FT_TEXT]"

definition pair_table :: sql_table where
  "pair_table = table_of ''t'' pair_fields"

definition pair_db :: "(string \<times> string, row list, unit) DB" where
  "pair_db = the (DB_new ref_platform 2 sqlite ''t'' pair_fields [] (sorted_sql sqlite pair_table) ''p'' None pair_in pair_out ([], []))"

lemma pair_db_new:
  "DB_new ref_platform 2 sqlite ''t'' pair_fields [] (sorted_sql sqlite pair_table) ''p'' None pair_in pair_out ([], []) = Some pair_db"
  by (simp add: pair_db_def DB_new_def add_field_def Let_def Field_sized_def Field_typed_def pair_fields_def ref_platform_def)

lemma ref_lower_doc: "lower_doc ref_platform"
  by (simp add: lower_doc_def ref_platform_def)

lemma pair_table_ok:
  "fields_ok ''t'' pair_fields" "\<forall>R. typed_row pair_table (pair_out R)" "tb_keys pair_table = [0]"
  "tb_text pair_table = [True, True]" "length (tb_text pair_table) = length (tb_columns pair_table)"
  by (simp_all add: fields_ok_def pair_fields_def Field_sized_def Field_typed_def name_ok_def typed_row_def pair_table_def
      table_of_def pair_out_def is_word_def is_alnum_def is_digit_def reserved_def to_lower_def is_upper_def is_lower_def)

lemma pair_db_parts:
  "column ref_platform pair_db ''id'' = Some 0" "db_Type pair_db = sqlite" "db_In pair_db = pair_in"
  "db_Out pair_db = pair_out" "db_Fresh pair_db = ([], [])"
proof -
  note new = DB_new_layer [OF pair_db_new ref_lower_doc pair_table_ok(1)] 
  have o: "typed_row (table_of ''t'' pair_fields) (pair_out R)" for R 
    using pair_table_ok(2) [rule_format] unfolding pair_table_def .
  show "db_Type pair_db = sqlite" "db_In pair_db = pair_in" "db_Out pair_db = pair_out" "db_Fresh pair_db = ([], [])"
    using new(2,5-7) o by simp_all
  have "map_of (db_FieldNames pair_db) ''id'' = column_of (table_of ''t'' pair_fields) ''id''"
    using new(1) o by (simp add: layer_for_def)
  then show "column ref_platform pair_db ''id'' = Some 0"
    by (simp add: column_def column_of_def table_of_def pair_fields_def Field_sized_def Field_typed_def
        ref_lower_doc [unfolded lower_doc_def] to_lower_def is_upper_def)
qed

lemma pair_readable: "writes_readable pair_db" "readable pair_db M"
  by (simp_all add: writes_readable_def readable_def pair_db_parts pair_in_def)


text \<open>Three rows, of which the condition selects the two named x.\<close>

definition pair_rows :: "row list" where
  "pair_rows = [[SText ''b'', SText ''x''], [SText ''a'', SText ''y''], [SText ''c'', SText ''x'']]"

definition pair_condition :: string where
  "pair_condition = ''name='' @ [quote] @ ''x'' @ [quote]"

lemma pair_selects: "selects sqlite pair_table pair_condition [(1, SText ''x'')]"
proof -
  have "read_condition sqlite pair_condition = Some [(''name'', TextValue ''x'')]" by code_simp
  moreover have "resolve pair_table [] (''name'', TextValue ''x'') = Some (1, SText ''x'')" by code_simp
  ultimately show ?thesis by (simp add: selects_def)
qed

lemma visit_keys: "visit (\<lambda>r seen. (True, seen @ [fst r])) rs seen = (True, seen @ map fst rs)"
  by (induction rs arbitrary: seen) simp_all


theorem PrepareOrderBy_fields_only_witness:
  "\<exists>ks. (\<forall>i \<in> set ks. ValidFieldName ref_platform pair_db (fst i)) \<and> length ks = 2
    \<and> '' ORDER BY name ASC , id DESC'' = (if ks = [] then [] else '' ORDER BY '' @ order_text ks)"
proof -
  have t: "po_tokens ref_platform ''name:a,id:d'' '','' = [''name:a'', ''id:d'']"
    by (simp add: ref_platform_def)
  have "PrepareOrderBy ref_platform pair_db ''name:a,id:d'' [] = (True, '' ORDER BY name ASC , id DESC'')"
    unfolding PrepareOrderBy_def t
    by (simp add: pair_db_def DB_new_def add_field_def Let_def Field_sized_def Field_typed_def pair_fields_def
        ref_platform_def to_lower_def is_upper_def)
  from PrepareOrderBy_fields_only [OF this] show ?thesis unfolding t by (simp only: list.size numeral_2_eq_2 add_0 plus_1_eq_Suc add_Suc)
qed

lemma show_nat_1: "show_nat (Suc 0) = ''1''"
  by code_simp

text \<open>
  With PostgreSQL a question mark inside a value of a condition is taken for a parameter: the record is looked
  up under another value.
\<close>

lemma condition_params_converted:
  "db_Type db = pgsql \<Longrightarrow>
   ConvertParams db (condition (''name'', ArgString ''why?'')) = condition (''name'', ArgString ''why$1'')"
  by (simp add: ConvertParams_def Escape_def show_nat_1)

end
