(* ===== verification/Storage.thy ===== *)
theory Storage
  imports OrmSpec SubObjects SecObjects
begin

text \<open>
  The storage of subscribers: the choice of the database (\<^verbatim>\<open>src/framework/StorageClass.h\<close>,
  \<^verbatim>\<open>src/StorageService.cpp\<close>), the table of \<^verbatim>\<open>src/storage/storage_subscriber_info.cpp\<close> with its conversions,
  the record made for a new subscriber, and the cache of \<^verbatim>\<open>src/SubscriberCache.cpp\<close>.
\<close>

section \<open>The database of the service\<close>

text \<open>The arguments of the \<^verbatim>\<open>SessionPool\<close>: connector, connection string, minimum, maximum, idle time.\<close>

record session_pool =
  sp_connector :: DBType
  sp_connection :: string
  sp_min :: int
  sp_max :: int
  sp_idle :: int

record StorageClass =
  sc_dbType :: DBType
  sc_Pool :: "session_pool option"

text \<open>
  The configuration is a parameter: \<open>str key default\<close> and \<open>num key default\<close> are
  \<^verbatim>\<open>MicroServiceConfigGetString\<close> and \<^verbatim>\<open>MicroServiceConfigGetInt\<close>, \<open>dir\<close> is the data directory.
\<close>

record storage_config =
  cf_str :: "string \<Rightarrow> string \<Rightarrow> string"
  cf_num :: "string \<Rightarrow> int \<Rightarrow> int"
  cf_dir :: string

definition Setup_SQLite :: "storage_config \<Rightarrow> StorageClass \<Rightarrow> StorageClass" where
  "Setup_SQLite C S = S\<lparr>sc_dbType := sqlite, sc_Pool := Some \<lparr>sp_connector = sqlite,
     sp_connection = cf_dir C @ ''/'' @ cf_str C ''storage.type.sqlite.db'' '''', sp_min = 8,
     sp_max = cf_num C ''storage.type.sqlite.maxsessions'' 64, sp_idle = cf_num C ''storage.type.sqlite.idletime'' 60\<rparr>\<rparr>"

definition Setup_MySQL :: "storage_config \<Rightarrow> StorageClass \<Rightarrow> StorageClass" where
  "Setup_MySQL C S = S\<lparr>sc_dbType := mysql, sc_Pool := Some \<lparr>sp_connector = mysql,
     sp_connection = ''host='' @ cf_str C ''storage.type.mysql.host'' '''' @ '';user='' @ cf_str C ''storage.type.mysql.username'' ''''
       @ '';password='' @ cf_str C ''storage.type.mysql.password'' '''' @ '';db='' @ cf_str C ''storage.type.mysql.database'' ''''
       @ '';port='' @ cf_str C ''storage.type.mysql.port'' '''' @ '';compress=true;auto-reconnect=true'', sp_min = 8,
     sp_max = cf_num C ''storage.type.mysql.maxsessions'' 64, sp_idle = cf_num C ''storage.type.mysql.idletime'' 60\<rparr>\<rparr>"

definition Setup_PostgreSQL :: "storage_config \<Rightarrow> StorageClass \<Rightarrow> StorageClass" where
  "Setup_PostgreSQL C S = S\<lparr>sc_dbType := pgsql, sc_Pool := Some \<lparr>sp_connector = pgsql,
     sp_connection = ''host='' @ cf_str C ''storage.type.postgresql.host'' '''' @ '' user='' @ cf_str C ''storage.type.postgresql.username'' ''''
       @ '' password='' @ cf_str C ''storage.type.postgresql.password'' '''' @ '' dbname='' @ cf_str C ''storage.type.postgresql.database'' ''''
       @ '' port='' @ cf_str C ''storage.type.postgresql.port'' '''' @ '' connect_timeout='' @ cf_str C ''storage.type.postgresql.connectiontimeout'' '''',
     sp_min = 8, sp_max = cf_num C ''storage.type.postgresql.maxsessions'' 64,
     sp_idle = cf_num C ''storage.type.postgresql.idletime'' 60\<rparr>\<rparr>"

definition StorageClass_new :: StorageClass where
  "StorageClass_new = \<lparr>sc_dbType = sqlite, sc_Pool = None\<rparr>"

definition StorageClass_Start :: "storage_config \<Rightarrow> StorageClass \<Rightarrow> StorageClass" where
  "StorageClass_Start C S = (let DBType = cf_str C ''storage.type'' '''' in
     if DBType = ''sqlite'' then Setup_SQLite C S
     else if DBType = ''postgresql'' then Setup_PostgreSQL C S
     else if DBType = ''mysql'' then Setup_MySQL C S
     else S)"

section \<open>The table of subscribers\<close>

definition SubInfoDB_Fields :: "Field list" where
  "SubInfoDB_Fields = [Field_sized ''id'' 64 True, Field_typed ''userId'' FT_TEXT, Field_typed ''firstName'' FT_TEXT,
     Field_typed ''initials'' FT_TEXT, Field_typed ''lastName'' FT_TEXT, Field_typed ''phoneNumber'' FT_TEXT,
     Field_typed ''secondaryEmail'' FT_TEXT, Field_typed ''accessPoints'' FT_TEXT, Field_typed ''serviceAddress'' FT_TEXT,
     Field_typed ''billingAddress'' FT_TEXT, Field_typed ''created'' FT_BIGINT, Field_typed ''modified'' FT_BIGINT]"

definition SubInfoDB_Fields_Indexes :: "Index list" where
  "SubInfoDB_Fields_Indexes =
     [\<lparr>ix_Name = ''subinfo_userid_index'', ix_Entries = [\<lparr>ie_FieldName = ''userId'', ie_Type = ASC\<rparr>]\<rparr>,
      \<lparr>ix_Name = ''subinfo_phone_index'', ix_Entries = [\<lparr>ie_FieldName = ''phoneNumber'', ie_Type = ASC\<rparr>]\<rparr>]"

text \<open>
  \<^verbatim>\<open>RESTAPI_utils::to_string\<close> of an object and \<^verbatim>\<open>to_object\<close>.  \<open>parse\<close> is \<^verbatim>\<open>Poco::JSON::Parser\<close> on a text and
  \<open>None\<close> an exception of it, or of the \<^verbatim>\<open>extract\<close> of an object.
\<close>

definition object_to_string :: "platform \<Rightarrow> ('e \<Rightarrow> jobj \<Rightarrow> jobj) \<Rightarrow> 'e \<Rightarrow> string" where
  "object_to_string P enc x = po_condense P (JObject (enc x []))"

definition to_object :: "(string \<Rightarrow> json option) \<Rightarrow> (jobj ptr \<Rightarrow> 'e \<Rightarrow> 'e \<times> bool) \<Rightarrow> 'e \<Rightarrow> string \<Rightarrow> 'e option" where
  "to_object parse dec fresh ObjectString = (if ObjectString = [] then Some fresh
     else case Option.bind (parse ObjectString) asObject of None \<Rightarrow> None | Some ob \<Rightarrow> Some (fst (dec (Some ob) fresh)))"

text \<open>\<^verbatim>\<open>Convert\<close> in both directions; the first one stops where \<^verbatim>\<open>to_object\<close> throws.\<close>

definition SubInfo_in :: "platform \<Rightarrow> (string \<Rightarrow> json option) \<Rightarrow> row \<Rightarrow> SubscriberInfo \<Rightarrow> SubscriberInfo \<times> bool" where
  "SubInfo_in P parse In Out =
     (let Out = Out\<lparr>si_id := sql_text (In ! 0), si_userId := sql_text (In ! 1), si_firstName := sql_text (In ! 2),
            si_initials := sql_text (In ! 3), si_lastName := sql_text (In ! 4), si_phoneNumber := sql_text (In ! 5),
            si_secondaryEmail := sql_text (In ! 6)\<rparr> in
      case to_object parse (AccessPointList_from_json P) AccessPointList_fresh (sql_text (In ! 7)) of
        None \<Rightarrow> (Out, False)
      | Some aps \<Rightarrow> (let Out = Out\<lparr>si_accessPoints := aps\<rparr> in
          case to_object parse (Sub_Location_from_json P) Sub_Location_fresh (sql_text (In ! 8)) of
            None \<Rightarrow> (Out, False)
          | Some addr \<Rightarrow> (let Out = Out\<lparr>si_serviceAddress := addr\<rparr> in
              case to_object parse (Sub_Location_from_json P) Sub_Location_fresh (sql_text (In ! 9)) of
                None \<Rightarrow> (Out, False)
              | Some bill \<Rightarrow> (Out\<lparr>si_billingAddress := bill, si_created := sql_int (In ! 10),
                  si_modified := sql_int (In ! 11)\<rparr>, True))))"

definition SubInfo_out :: "platform \<Rightarrow> SubscriberInfo \<Rightarrow> row" where
  "SubInfo_out P In = [SText (si_id In), SText (si_userId In), SText (si_firstName In), SText (si_initials In),
     SText (si_lastName In), SText (si_phoneNumber In), SText (si_secondaryEmail In),
     SText (object_to_string P AccessPointList_to_json (si_accessPoints In)),
     SText (object_to_string P Sub_Location_to_json (si_serviceAddress In)),
     SText (object_to_string P Sub_Location_to_json (si_billingAddress In)),
     SInt (si_created In), SInt (si_modified In)]"

definition SubscriberInfoDB :: "platform \<Rightarrow> (string \<Rightarrow> json option) \<Rightarrow> DBType \<Rightarrow> 'd driver \<Rightarrow>
    (SubscriberInfo, 'd, unit) DB option" where
  "SubscriberInfoDB P parse T Pool = DB_new P 12 T ''subscriberinfo'' SubInfoDB_Fields SubInfoDB_Fields_Indexes Pool
     ''sui'' None (SubInfo_in P parse) (SubInfo_out P) SubscriberInfo_fresh"

text \<open>
  \<^verbatim>\<open>StorageService::Start\<close>: \<open>open\<close> gives the driver of a pool and its state.  \<open>None\<close> is the dereference of the
  null pool when no database is configured, or an assertion that fails.
\<close>

definition StorageService_Start :: "platform \<Rightarrow> (string \<Rightarrow> json option) \<Rightarrow> (session_pool \<Rightarrow> 'd driver) \<Rightarrow> storage_config \<Rightarrow>
    'd \<Rightarrow> ((SubscriberInfo, 'd, unit) DB \<times> 'd) option" where
  "StorageService_Start P parse opn C d = (let S = StorageClass_Start C StorageClass_new in
     Option.bind (sc_Pool S) (\<lambda>pool.
     Option.bind (SubscriberInfoDB P parse (sc_dbType S) (opn pool)) (\<lambda>db.
       Some (db, fst (snd (DB_Create db (d, ())))))))"

section \<open>The record of a new subscriber\<close>

definition AddAccessPoint :: "SubscriberInfo \<Rightarrow> string \<Rightarrow> string \<Rightarrow> SubscriberDevice \<Rightarrow> SubscriberInfo" where
  "AddAccessPoint SI macAddress deviceType ProvisionedDevice =
     (if macAddress \<in> set (map ap_macAddress (apl_list (si_accessPoints SI))) then SI
      else SI\<lparr>si_accessPoints := \<lparr>apl_list = apl_list (si_accessPoints SI) @ [AccessPoint_fresh\<lparr>
         ap_name := ''Access Point #'' @ show_nat (length (apl_list (si_accessPoints SI)) + 1),
         ap_macAddress := macAddress, ap_serialNumber := macAddress,
         ap_id := oi_id (sd_info ProvisionedDevice), ap_deviceType := deviceType\<rparr>]\<rparr>\<rparr>)"

fun names_loop :: "nat \<Rightarrow> string list \<Rightarrow> SubscriberInfo \<Rightarrow> SubscriberInfo" where
  "names_loop i [] SI = SI"
| "names_loop i (t # ts) SI = names_loop (i + 1) ts
     (if i = 0 then SI\<lparr>si_firstName := t\<rparr> else SI\<lparr>si_lastName := t @ '' ''\<rparr>)"

definition BuildDefaultSubscriberInfo :: "platform \<Rightarrow> uint64 \<Rightarrow> UserInfoAndPolicy \<Rightarrow> SubscriberInfo \<Rightarrow>
    SubscriberDeviceList \<Rightarrow> SubscriberInfo" where
  "BuildDefaultSubscriberInfo P now UI SI Devices = (let user = up_userinfo UI;
     SI = SI\<lparr>si_id := ui_id user, si_created := now, si_modified := now, si_userId := ui_email user\<rparr>;
     NameParts = po_tokens P (if ui_name user = [] then si_userId SI else ui_name user) '' @._-'';
     SI = (if NameParts \<noteq> [] then (let SI = names_loop 0 NameParts SI in
              SI\<lparr>si_firstName := po_trim P (si_firstName SI), si_lastName := po_trim P (si_lastName SI)\<rparr>)
           else SI\<lparr>si_firstName := ui_name user\<rparr>);
     SI = (case ul_mobiles (ui_userTypeProprietaryInfo user) of [] \<Rightarrow> SI | m # _ \<Rightarrow> SI\<lparr>si_phoneNumber := mp_number m\<rparr>) in
     foldl (\<lambda>SI Device. AddAccessPoint SI (sd_serialNumber Device) (sd_deviceType Device) Device) SI
       (sdl_subscriberDevices Devices))"

section \<open>The cache of subscribers\<close>

text \<open>
  A \<^verbatim>\<open>Poco::ExpireLRUCache\<close> of 2048 records: a map that may lose entries between calls.
\<close>

type_synonym sub_cache = "string \<Rightarrow> SubscriberInfo option"

definition GetSubInfo :: "platform \<Rightarrow> (SubscriberInfo, 'd, unit) DB \<Rightarrow> string \<Rightarrow> sub_cache \<Rightarrow>
    ('d \<times> unit, SubscriberInfo option \<times> sub_cache) act" where
  "GetSubInfo P db k SubsCache = (case SubsCache k of
     Some SubInfo \<Rightarrow> give (Some SubInfo, SubsCache)
   | None \<Rightarrow> also_do (GetRecord P db ''id'' k SubscriberInfo_fresh) (\<lambda>(found, Sub).
       give (if found then (Some Sub, SubsCache(k \<mapsto> Sub)) else (None, SubsCache))))"

definition UpdateSubInfo :: "string \<Rightarrow> SubscriberInfo \<Rightarrow> sub_cache \<Rightarrow> sub_cache" where
  "UpdateSubInfo k SubInfo SubsCache = SubsCache(k \<mapsto> SubInfo)"

section \<open>Properties\<close>

text \<open>The table: its columns, and that none of the assertions of its construction fails.\<close>

abbreviation subscriber_table :: sql_table where
  "subscriber_table \<equiv> table_of ''subscriberinfo'' SubInfoDB_Fields"

lemma subscriber_table_ok:
  "fields_ok ''subscriberinfo'' SubInfoDB_Fields" "typed_row subscriber_table (SubInfo_out P R)"
  "tb_keys subscriber_table = [0]" "text_column subscriber_table (Some 0)"
  "length (tb_text subscriber_table) = length (tb_columns subscriber_table)"
  by (simp_all add: fields_ok_def SubInfoDB_Fields_def Field_sized_def Field_typed_def name_ok_def typed_row_def text_column_def
      table_of_def SubInfo_out_def is_word_def is_alnum_def is_digit_def reserved_def to_lower_def is_upper_def is_lower_def)

lemma SubscriberInfoDB_fields:
  assumes "lower_doc P" "SubscriberInfoDB P parse T Pool = Some db"
  shows "column P db ''id'' = Some 0" "db_Cache db = None" "db_In db = SubInfo_in P parse" "db_Out db = SubInfo_out P"
    "db_Pool db = Pool" "db_Type db = T"
  using assms by (auto simp: SubscriberInfoDB_def DB_new_def SubInfoDB_Fields_def Let_def add_field_def Field_sized_def
      Field_typed_def lower_doc_def column_def to_lower_def is_upper_def split: if_splits)

lemma SubscriberInfoDB_layer:
  assumes "lower_doc P" "SubscriberInfoDB P parse T Pool = Some db" "sql_doc T subscriber_table Pool rows"
  shows "layer_on P db subscriber_table rows"
  by (rule DB_new_layer_on [OF assms(2) [unfolded SubscriberInfoDB_def] assms(1) subscriber_table_ok(1,2) assms(3)])

theorem SubscriberInfoDB_built:
  assumes "lower_doc P"
  shows "\<exists>db. SubscriberInfoDB P parse T Pool = Some db"
  using assms by (cases T) (simp_all add: SubscriberInfoDB_def DB_new_def SubInfoDB_Fields_def SubInfoDB_Fields_Indexes_def Let_def
      add_field_def Field_sized_def Field_typed_def lower_doc_def to_lower_def is_upper_def create_index_def ValidFieldName_def)

text \<open>What is stored of a subscriber, and the three documents its row holds.\<close>

definition saved_subscriber :: "SubscriberInfo \<Rightarrow> SubscriberInfo" where
  "saved_subscriber r = r\<lparr>si_accessPoints := \<lparr>apl_list = map saved_access_point (apl_list (si_accessPoints r))\<rparr>\<rparr>"

definition row_documents :: "SubscriberInfo \<Rightarrow> json list" where
  "row_documents r = [JObject (AccessPointList_to_json (si_accessPoints r) []),
     JObject (Sub_Location_to_json (si_serviceAddress r) []), JObject (Sub_Location_to_json (si_billingAddress r) [])]"

text \<open>The parser reads back what the stringifier wrote, which is never the empty text.\<close>

definition text_doc :: "platform \<Rightarrow> (string \<Rightarrow> json option) \<Rightarrow> json list \<Rightarrow> bool" where
  "text_doc P parse js \<longleftrightarrow> (\<forall>j \<in> set js. po_condense P j \<noteq> [] \<and> parse (po_condense P j) = Some j)"

lemma SubInfo_in_out:
  assumes "conv_doc P" "text_doc P parse (row_documents r)"
  shows "SubInfo_in P parse (SubInfo_out P r) v = (saved_subscriber r, True)"
  using assms by (cases r) (simp add: SubInfo_in_def SubInfo_out_def row_documents_def text_doc_def to_object_def object_to_string_def
      saved_subscriber_def AccessPointList_dec_enc Sub_Location_dec_enc eval_nat_numeral)

lemma unique_fresh:
  assumes "unique [k] M" "\<forall>q \<in># M. q ! k \<noteq> r ! k"
  shows "unique [k] (add_mset r M)"
proof -
  have "count (image_mset (\<lambda>q. q ! k) M) (r ! k) = 0" using assms(2) by (auto simp: count_eq_zero_iff)
  then show ?thesis using assms by (auto simp: unique_def)
qed

text \<open>
  (C31) A new subscriber that is inserted is found again under its id, with all its data except for what is
  not stored of its access points.
\<close>

theorem stored_subscriber_found:
  assumes "lower_doc P" "conv_doc P" "SubscriberInfoDB P parse T Pool = Some db"
    and "sql_doc T (table_of ''subscriberinfo'' SubInfoDB_Fields) Pool rows" "text_doc P parse (row_documents r)"
    and "\<forall>q \<in># rows d. q ! 0 \<noteq> SText (si_id r)" "readable db (rows d)"
  shows "\<exists>d' d''. CreateRecord db r (d, ()) = (Ret True, (d', ()))
    \<and> GetRecord P db ''id'' (si_id r) v (d', ()) = (Ret (True, saved_subscriber r), (d'', ()))"
proof -
  note db = SubscriberInfoDB_fields [OF assms(1,3)] and l = SubscriberInfoDB_layer [OF assms(1,3,4)]
  let ?M = "add_mset (SubInfo_out P r) (rows d)"
  have id0: "SubInfo_out P r ! 0 = SText (si_id r)" by (simp add: SubInfo_out_def)
  have "unique [0] (rows d)" using sql_table_ok(1) [OF assms(4), of d] by (simp add: subscriber_table_ok)
  then have "unique [0] ?M" using assms(6) by (intro unique_fresh) (simp_all add: id0)
  then have ins: "tab_insert (tb_keys subscriber_table) (db_Out db r) (rows d) = (True, ?M)"
    by (simp add: tab_insert_def commit_if_def subscriber_table_ok db)
  from does_CreateRecord [OF l, of r "rows d"]
  obtain d' where d': "CreateRecord db r (d, ()) = (Ret True, (d', ()))" "rows d' = ?M"
    unfolding ins by (auto elim: does_returnsE)
  have rd: "db_In db (SubInfo_out P r) w = (saved_subscriber r, True)" for w
    using SubInfo_in_out [OF assms(2,5)] db(3) by simp
  have "readable db ?M" using assms(7) rd by (auto simp: readable_def)
  from does_GetRecord [OF l db(1) subscriber_table_ok(4) this] d'(2)
  obtain found d'' where g: "GetRecord P db ''id'' (si_id r) v (d', ()) = (Ret found, (d'', ()))"
    and f: "tab_get db 0 (si_id r) v ?M found"
    by (blast elim: does_returnsE)
  have "tab_has 0 (si_id r) ?M" by (simp add: tab_has_def id0)
  with f obtain q where "q \<in># ?M" "q ! 0 = SText (si_id r)" "found = (True, fst (db_In db q v))"
    by (auto simp: tab_get_def)
  then have "found = (True, saved_subscriber r)" using assms(6) rd by auto
  with d'(1) g show ?thesis by blast
qed

text \<open>What is said of the access points: their numbers, and the device each stands for.\<close>

definition numbered :: "AccessPoint list \<Rightarrow> bool" where
  "numbered aps \<longleftrightarrow> (\<forall>i < length aps. ap_name (aps ! i) = ''Access Point #'' @ show_nat (i + 1))"

definition points_at :: "AccessPoint \<Rightarrow> SubscriberDevice \<Rightarrow> bool" where
  "points_at a dev \<longleftrightarrow> ap_macAddress a = sd_serialNumber dev \<and> ap_serialNumber a = sd_serialNumber dev
     \<and> ap_deviceType a = sd_deviceType dev \<and> ap_id a = oi_id (sd_info dev)"

abbreviation access_points :: "SubscriberInfo \<Rightarrow> AccessPoint list" where
  "access_points SI \<equiv> apl_list (si_accessPoints SI)"

abbreviation add_devices :: "SubscriberInfo \<Rightarrow> SubscriberDevice list \<Rightarrow> SubscriberInfo" where
  "add_devices SI devs \<equiv> foldl (\<lambda>SI Device. AddAccessPoint SI (sd_serialNumber Device) (sd_deviceType Device) Device) SI devs"

lemma AddAccessPoint_keeps:
  assumes "distinct (map ap_macAddress (access_points SI))" "numbered (access_points SI)"
  shows "distinct (map ap_macAddress (access_points (AddAccessPoint SI m t dev)))"
    and "numbered (access_points (AddAccessPoint SI m t dev))"
    and "set (map ap_macAddress (access_points (AddAccessPoint SI m t dev))) = insert m (set (map ap_macAddress (access_points SI)))"
  using assms by (auto simp: AddAccessPoint_def numbered_def nth_append less_Suc_eq AccessPoint_fresh_def)

lemma add_devices_keep:
  "distinct (map ap_macAddress (access_points SI)) \<Longrightarrow> numbered (access_points SI) \<Longrightarrow>
   distinct (map ap_macAddress (access_points (add_devices SI devs))) \<and> numbered (access_points (add_devices SI devs)) \<and>
   set (map ap_macAddress (access_points (add_devices SI devs))) =
     set (map ap_macAddress (access_points SI)) \<union> set (map sd_serialNumber devs)"
proof (induction devs arbitrary: SI)
  case (Cons x devs)
  show ?case using Cons.IH [OF AddAccessPoint_keeps(1,2) [OF Cons.prems]] AddAccessPoint_keeps(3) [OF Cons.prems]
    by auto
qed simp

lemma add_devices_point:
  "\<forall>a \<in> set (access_points SI). \<exists>dev \<in> D. points_at a dev \<Longrightarrow> set devs \<subseteq> D \<Longrightarrow>
   \<forall>a \<in> set (access_points (add_devices SI devs)). \<exists>dev \<in> D. points_at a dev"
proof (induction devs arbitrary: SI)
  case (Cons x devs)
  have "\<forall>a \<in> set (access_points (AddAccessPoint SI (sd_serialNumber x) (sd_deviceType x) x)). \<exists>dev \<in> D. points_at a dev"
    using Cons.prems by (auto simp: AddAccessPoint_def points_at_def AccessPoint_fresh_def)
  then show ?case using Cons by simp
qed simp

lemma names_loop_points: "si_accessPoints (names_loop i ts SI) = si_accessPoints SI"
  by (induction ts arbitrary: i SI) auto

lemma BuildDefault_split:
  "\<exists>SI'. BuildDefaultSubscriberInfo P now UI SI Devices = add_devices SI' (sdl_subscriberDevices Devices)
     \<and> si_accessPoints SI' = si_accessPoints SI"
  by (rule exI, rule conjI, unfold BuildDefaultSubscriberInfo_def Let_def, rule refl)
    (auto simp: names_loop_points split: list.split)

text \<open>
  The access points of a new subscriber: one for each of its provisioned devices, no two of the same
  address, numbered in the order they were added, each with the type and identifier of its device.
\<close>

theorem BuildDefault_access_points:
  "let aps = access_points (BuildDefaultSubscriberInfo P now UI SubscriberInfo_fresh Devices) in
    distinct (map ap_macAddress aps) \<and> set (map ap_macAddress aps) = set (map sd_serialNumber (sdl_subscriberDevices Devices))
    \<and> numbered aps \<and> list_all (\<lambda>a. list_ex (points_at a) (sdl_subscriberDevices Devices)) aps"
proof -
  obtain SI' where b: "access_points (BuildDefaultSubscriberInfo P now UI SubscriberInfo_fresh Devices) = access_points (add_devices SI' (sdl_subscriberDevices Devices))"
    and e: "access_points SI' = []"
    using BuildDefault_split [of P now UI SubscriberInfo_fresh Devices]
    by (auto simp: SubscriberInfo_fresh_def AccessPointList_fresh_def)
  show ?thesis unfolding b Let_def
    using add_devices_keep [of SI' "sdl_subscriberDevices Devices"]
      add_devices_point [of SI' "set (sdl_subscriberDevices Devices)" "sdl_subscriberDevices Devices"] e
    by (auto simp: numbered_def list_all_iff list_ex_iff)
qed

section \<open>A subscriber in the reference engine\<close>

text \<open>A parser of the documents of one record.\<close>

definition parse_one_of :: "json list \<Rightarrow> string \<Rightarrow> json option" where
  "parse_one_of js s = find (\<lambda>j. po_condense ref_platform j = s) js"

definition sample_subscriber :: SubscriberInfo where
  "sample_subscriber = SubscriberInfo_fresh\<lparr>si_id := ''s1'', si_userId := ''a@b.c''\<rparr>"

lemma sample_text: "text_doc ref_platform (parse_one_of (row_documents sample_subscriber)) (row_documents sample_subscriber)"
  by (simp add: text_doc_def row_documents_def parse_one_of_def sample_subscriber_def SubscriberInfo_fresh_def
      AccessPointList_fresh_def AccessPointList_to_json_def Sub_Location_fresh_def Sub_Location_to_json_def write_fields_def
      objects_to_json_def ref_platform_def)

theorem stored_subscriber_found_witness:
  "\<exists>db d' d''. SubscriberInfoDB ref_platform (parse_one_of (row_documents sample_subscriber)) sqlite
       (ref_sql sqlite subscriber_table) = Some db
    \<and> CreateRecord db sample_subscriber ([], ()) = (Ret True, (d', ()))
    \<and> GetRecord ref_platform db ''id'' ''s1'' SubscriberInfo_fresh (d', ()) = (Ret (True, saved_subscriber sample_subscriber), (d'', ()))"
proof -
  let ?parse = "parse_one_of (row_documents sample_subscriber)"
  obtain db where db: "SubscriberInfoDB ref_platform ?parse sqlite (ref_sql sqlite subscriber_table) = Some db"
    using SubscriberInfoDB_built [OF ref_platform_docs(1)] by blast
  have e: "ref_rows subscriber_table [] = {#}" by (simp add: ref_rows_def table_rows_def)
  from stored_subscriber_found [OF ref_platform_docs(1) ref_platform_docs(6) db ref_sql_doc [OF subscriber_table_ok(5)] sample_text,
      where d = "[]" and v = SubscriberInfo_fresh]
  show ?thesis using db e by (auto simp: readable_def sample_subscriber_def)
qed

section \<open>Limits of the code\<close>

text \<open>Of the words of a name after the first one only the last is kept.\<close>

lemma names_loop_last: "ts \<noteq> [] \<Longrightarrow> si_lastName (names_loop (Suc i) ts SI) = last ts @ '' ''"
proof (induction ts arbitrary: i SI)
  case (Cons t ts)
  then show ?case by (cases "ts = []") auto
qed simp

text \<open>The MySQL statement that creates a table with indexes closes a parenthesis more than it opens.\<close>

lemma mysql_create_statement:
  "db_Type db = mysql \<Longrightarrow> db_IndexCreation db = [line] \<Longrightarrow> create_statements db =
    [''create table if not exists '' @ db_TableName db @ '' ( '' @ db_CreateFields db @ '' ), '' @ line @ '' )'']"
  by (simp add: create_statements_def Let_def)

text \<open>Without a known database type the service has no pool when it opens the table.\<close>

lemma StorageService_Start_unknown:
  "cf_str C ''storage.type'' [] \<notin> {''sqlite'', ''postgresql'', ''mysql''} \<Longrightarrow> StorageService_Start P parse opn C d = None"
  by (simp add: StorageService_Start_def StorageClass_Start_def StorageClass_new_def)

end
