(* ===== verification/Kafka.thy ===== *)
theory Kafka
  imports Services
begin

text \<open>
  The message bus: the producer and the consumer of \<^verbatim>\<open>src/framework/KafkaManager.cpp\<close> and the announcements of
  \<^verbatim>\<open>EventBusManager.cpp\<close>.  The broker is outside: what the producer hands to it is a list, and an exception
  of the client library loses the message it is thrown for.
\<close>

section \<open>Watchers\<close>

text \<open>
  A callback changes the state \<open>'s\<close> of the process; exceptions are caught, so it leaves the state it reached.
  The list of callbacks of a topic holds them with their identifiers, \<^verbatim>\<open>int\<close> values made from 64-bit numbers.
\<close>

type_synonym 's callback = "string \<Rightarrow> string \<Rightarrow> 's \<Rightarrow> 's"

record 's KafkaConsumer =
  kc_Notifiers :: "string \<Rightarrow> ('s callback \<times> 32 word) list option"
  kc_FunctionId :: uint64
  kc_Topics :: "string set"
  kc_Running :: bool
  kc_Subscribed :: "string set"

definition KafkaConsumer_fresh :: "'s KafkaConsumer" where
  "KafkaConsumer_fresh = \<lparr>kc_Notifiers = Map.empty, kc_FunctionId = 1, kc_Topics = {}, kc_Running = False, kc_Subscribed = {}\<rparr>"

text \<open>
  \<^verbatim>\<open>run\<close> subscribes once, to the topics that have been watched until then, and unsubscribes when the dispatcher
  returns; \<^verbatim>\<open>Stop\<close> makes it return.
\<close>

definition KafkaConsumer_run :: "'s KafkaConsumer \<Rightarrow> 's KafkaConsumer" where
  "KafkaConsumer_run C = C\<lparr>kc_Subscribed := kc_Topics C, kc_Running := True\<rparr>"

definition KafkaConsumer_Stop :: "'s KafkaConsumer \<Rightarrow> 's KafkaConsumer" where
  "KafkaConsumer_Stop C = (if kc_Running C then C\<lparr>kc_Running := False, kc_Subscribed := {}\<rparr> else C)"

definition RegisterTopicWatcher :: "string \<Rightarrow> 's callback \<Rightarrow> 's KafkaConsumer \<Rightarrow> uint64 \<times> 's KafkaConsumer" where
  "RegisterTopicWatcher Topic F C = (let entry = (F, ucast (kc_FunctionId C)) in
     (kc_FunctionId C, C\<lparr>kc_Notifiers := (kc_Notifiers C)(Topic \<mapsto> (case kc_Notifiers C Topic of
          None \<Rightarrow> [entry] | Some L \<Rightarrow> L @ [entry])),
        kc_Topics := insert Topic (kc_Topics C), kc_FunctionId := kc_FunctionId C + 1\<rparr>))"

fun erase_watcher :: "32 word \<Rightarrow> ('s callback \<times> 32 word) list \<Rightarrow> ('s callback \<times> 32 word) list" where
  "erase_watcher n [] = []"
| "erase_watcher n (e # L) = (if snd e = n then L else e # erase_watcher n L)"

definition UnregisterTopicWatcher :: "string \<Rightarrow> uint64 \<Rightarrow> 's KafkaConsumer \<Rightarrow> 's KafkaConsumer" where
  "UnregisterTopicWatcher Topic n C = (case kc_Notifiers C Topic of
     None \<Rightarrow> C | Some L \<Rightarrow> C\<lparr>kc_Notifiers := (kc_Notifiers C)(Topic \<mapsto> erase_watcher (ucast n) L)\<rparr>)"

text \<open>The callback of the dispatcher, for one message.\<close>

definition message_consumed :: "'s KafkaConsumer \<Rightarrow> string \<Rightarrow> string \<Rightarrow> string \<Rightarrow> 's \<Rightarrow> 's" where
  "message_consumed C Topic Key Payload s = (case kc_Notifiers C Topic of
     None \<Rightarrow> s | Some FL \<Rightarrow> foldl (\<lambda>s (CallbackFunc, _). CallbackFunc Key Payload s) s FL)"

section \<open>The producer\<close>

record KafkaMessage =
  km_Topic :: string
  km_Key :: string
  km_Payload :: string

text \<open>
  Where the worker is: not started, at the start of \<^verbatim>\<open>run\<close>, at the call of \<^verbatim>\<open>waitDequeueNotification\<close>, waiting inside it, back from it
  with a notification or a null pointer, and at the end of \<^verbatim>\<open>run\<close>.
\<close>

datatype worker = NotStarted | Starting | Fetching | Waiting | Fetched "KafkaMessage option" | Finished

text \<open>\<open>kp_Posted\<close> and \<open>kp_Produced\<close> record what was enqueued and what the broker got.\<close>

record KafkaProducer =
  kp_Running :: bool
  kp_Queue :: "KafkaMessage list"
  kp_Worker :: worker
  kp_Posted :: "KafkaMessage list"
  kp_Produced :: "KafkaMessage list"

definition KafkaProducer_fresh :: KafkaProducer where
  "KafkaProducer_fresh = \<lparr>kp_Running = False, kp_Queue = [], kp_Worker = NotStarted, kp_Posted = [], kp_Produced = []\<rparr>"

text \<open>A thread that is still running is not started again: the library throws.\<close>

definition KafkaProducer_Start :: "KafkaProducer \<Rightarrow> KafkaProducer" where
  "KafkaProducer_Start K = (if \<not> kp_Running K then K\<lparr>kp_Running := True,
     kp_Worker := (if kp_Worker K = NotStarted \<or> kp_Worker K = Finished then Starting else kp_Worker K)\<rparr> else K)"

text \<open>
  The part of \<^verbatim>\<open>Stop\<close> before it joins the thread: \<^verbatim>\<open>wakeUpAll\<close> wakes the threads that are waiting at that moment,
  with a null pointer.
\<close>

definition KafkaProducer_Stop :: "KafkaProducer \<Rightarrow> KafkaProducer" where
  "KafkaProducer_Stop K = (if kp_Running K then K\<lparr>kp_Running := False,
     kp_Worker := (if kp_Worker K = Waiting then Fetched None else kp_Worker K)\<rparr> else K)"

text \<open>A notification that is enqueued while the worker waits is handed to it.\<close>

definition Produce :: "KafkaMessage \<Rightarrow> KafkaProducer \<Rightarrow> KafkaProducer" where
  "Produce m K = (if kp_Worker K = Waiting then K\<lparr>kp_Posted := kp_Posted K @ [m], kp_Worker := Fetched (Some m)\<rparr>
     else K\<lparr>kp_Posted := kp_Posted K @ [m], kp_Queue := kp_Queue K @ [m]\<rparr>)"

text \<open>
  One step of \<^verbatim>\<open>run\<close>; \<open>delivered\<close> is false when the client library throws.  A waiting or finished worker takes
  no step.
\<close>

definition producer_turn :: "bool \<Rightarrow> KafkaProducer \<Rightarrow> KafkaProducer option" where
  "producer_turn delivered K = (case kp_Worker K of
     Starting \<Rightarrow> Some (K\<lparr>kp_Running := True, kp_Worker := Fetching\<rparr>)
   | Fetching \<Rightarrow> (case kp_Queue K of
         [] \<Rightarrow> Some (K\<lparr>kp_Worker := Waiting\<rparr>)
       | m # q \<Rightarrow> Some (K\<lparr>kp_Queue := q, kp_Worker := Fetched (Some m)\<rparr>))
   | Fetched None \<Rightarrow> Some (K\<lparr>kp_Worker := Finished\<rparr>)
   | Fetched (Some m) \<Rightarrow>
       if \<not> kp_Running K then Some (K\<lparr>kp_Worker := Finished\<rparr>)
       else Some (K\<lparr>kp_Produced := kp_Produced K @ (if delivered then [m] else []), kp_Worker := Fetching\<rparr>)
   | _ \<Rightarrow> None)"

section \<open>The manager\<close>

text \<open>
  \<^verbatim>\<open>KafkaManager\<close>: whether the bus is enabled, and the two threads.  \<open>me\<close> holds the identity and the private end
  point of this process.
\<close>

record 's KafkaManager =
  ka_Enabled :: bool
  ka_Consumer :: "'s KafkaConsumer"
  ka_Producer :: KafkaProducer

definition WrapSystemId :: "MicroServiceMeta \<Rightarrow> string \<Rightarrow> string" where
  "WrapSystemId me PayLoad = ''{ \"system\" : { \"id\" : '' @ show_nat (unat (ms_Id me)) @ '', \"host\" : \"'' @
     ms_PrivateEndPoint me @ ''\" }, \"payload\" : '' @ PayLoad @ '' }''"

definition PostMessage :: "MicroServiceMeta \<Rightarrow> string \<Rightarrow> string \<Rightarrow> string \<Rightarrow> bool \<Rightarrow> 's KafkaManager \<Rightarrow> 's KafkaManager" where
  "PostMessage me topic key PayLoad WrapMessage M = (if ka_Enabled M
     then M\<lparr>ka_Producer := Produce \<lparr>km_Topic = topic, km_Key = key,
        km_Payload = (if WrapMessage then WrapSystemId me PayLoad else PayLoad)\<rparr> (ka_Producer M)\<rparr> else M)"

definition PostMessage_object :: "platform \<Rightarrow> MicroServiceMeta \<Rightarrow> string \<Rightarrow> string \<Rightarrow> jobj \<Rightarrow> bool \<Rightarrow>
    's KafkaManager \<Rightarrow> 's KafkaManager" where
  "PostMessage_object P me topic key Obj WrapMessage M = PostMessage me topic key (po_stringify P (JObject Obj)) WrapMessage M"

text \<open>The consumer's thread, once started, runs before anything else asks for it.\<close>

definition KafkaManager_Start :: "'s KafkaManager \<Rightarrow> 's KafkaManager" where
  "KafkaManager_Start M = (if ka_Enabled M
     then M\<lparr>ka_Consumer := (if kc_Running (ka_Consumer M) then ka_Consumer M else KafkaConsumer_run (ka_Consumer M)),
            ka_Producer := KafkaProducer_Start (ka_Producer M)\<rparr> else M)"

definition KafkaManager_Stop :: "'s KafkaManager \<Rightarrow> 's KafkaManager" where
  "KafkaManager_Stop M = (if ka_Enabled M
     then M\<lparr>ka_Producer := KafkaProducer_Stop (ka_Producer M), ka_Consumer := KafkaConsumer_Stop (ka_Consumer M)\<rparr>
     else M)"

section \<open>Announcements\<close>

text \<open>
  \<^verbatim>\<open>EventBusManager::run\<close>: the list has, for each turn of the loop, what \<^verbatim>\<open>Running_\<close> was and whether the sleep
  was not interrupted.  The result is the messages, and whether the loop was left.
\<close>

fun keep_alive_loop :: "(bool \<times> bool) list \<Rightarrow> string list \<times> bool" where
  "keep_alive_loop [] = ([], False)"
| "keep_alive_loop ((Running, slept) # turns) = (if \<not> Running \<or> \<not> slept then ([], True)
     else (case keep_alive_loop turns of (es, left) \<Rightarrow> (EVENT_KEEP_ALIVE # es, left)))"

definition EventBusManager_run :: "(bool \<times> bool) list \<Rightarrow> string list" where
  "EventBusManager_run turns = (case keep_alive_loop turns of (es, left) \<Rightarrow>
     EVENT_JOIN # es @ (if left then [EVENT_LEAVE] else []))"

definition SERVICE_EVENTS :: string where "SERVICE_EVENTS = ''service_events''"

text \<open>Each event is posted under the private end point, not wrapped.\<close>

definition post_event :: "platform \<Rightarrow> MicroServiceMeta \<Rightarrow> string \<Rightarrow> 's KafkaManager \<Rightarrow> 's KafkaManager" where
  "post_event P me Type M = PostMessage me SERVICE_EVENTS (ms_PrivateEndPoint me)
     (po_stringify P (JObject (MakeSystemEventMessage P me Type))) False M"

section \<open>Messages are handed over in order\<close>

inductive producer_step :: "KafkaProducer \<Rightarrow> KafkaProducer \<Rightarrow> bool" where
  posted: "producer_step K (Produce m K)"
| started: "producer_step K (KafkaProducer_Start K)"
| stopped: "producer_step K (KafkaProducer_Stop K)"
| turned: "producer_turn delivered K = Some K' \<Longrightarrow> producer_step K K'"

inductive producer_reachable :: "KafkaProducer \<Rightarrow> bool" where
  fresh: "producer_reachable KafkaProducer_fresh"
| step: "producer_reachable K \<Longrightarrow> producer_step K K' \<Longrightarrow> producer_reachable K'"

inductive_cases producer_stepE: "producer_step K K'"

definition held :: "KafkaProducer \<Rightarrow> KafkaMessage list" where
  "held K = (case kp_Worker K of Fetched (Some m) \<Rightarrow> [m] | _ \<Rightarrow> [])"

definition in_order :: "KafkaProducer \<Rightarrow> bool" where
  "in_order K \<longleftrightarrow> subseq (kp_Produced K @ held K @ kp_Queue K) (kp_Posted K) \<and>
     (kp_Worker K = Waiting \<longrightarrow> kp_Queue K = [])"

lemma subseq_post: "subseq xs ys \<Longrightarrow> subseq (xs @ [m]) (ys @ [m])"
  by (simp add: list_emb_append_mono)

lemma subseq_drop_held: "subseq (xs @ h @ ys) zs \<Longrightarrow> subseq (xs @ ys) zs"
  by (meson list_emb_append2 subseq_append' subseq_order.order_refl subseq_order.order_trans)

lemma in_order_Produce: "in_order K \<Longrightarrow> in_order (Produce m K)"
  using subseq_post [of "kp_Produced K @ held K @ kp_Queue K" "kp_Posted K" m]
  by (cases "kp_Worker K = Waiting") (auto simp: in_order_def Produce_def held_def)

lemma in_order_turn:
  assumes "in_order K" "producer_turn delivered K = Some K'"
  shows "in_order K'"
proof (cases "kp_Worker K")
  case (Fetched n)
  then show ?thesis using assms subseq_drop_held [of "kp_Produced K" "held K" "kp_Queue K" "kp_Posted K"]
    by (cases n) (auto simp: in_order_def producer_turn_def held_def split: if_splits)
qed (use assms in \<open>auto simp: in_order_def producer_turn_def held_def split: list.splits\<close>)

lemma in_order_Start: "in_order K \<Longrightarrow> in_order (KafkaProducer_Start K)"
  by (auto simp: in_order_def KafkaProducer_Start_def held_def)

lemma in_order_Stop: "in_order K \<Longrightarrow> in_order (KafkaProducer_Stop K)"
  by (auto simp: in_order_def KafkaProducer_Stop_def held_def)

lemma in_order_step: "in_order K \<Longrightarrow> producer_step K K' \<Longrightarrow> in_order K'"
  by (erule producer_stepE)
    (simp_all add: in_order_Produce in_order_turn in_order_Start in_order_Stop)

text \<open>
  (C27) Whatever the threads do and whichever deliveries fail, the messages the broker got, then the one in
  hand, then the queue are a subsequence of the messages posted: none is duplicated, invented or overtaken.
\<close>

theorem produced_in_order:
  assumes "producer_reachable K"
  shows "subseq (kp_Produced K @ held K @ kp_Queue K) (kp_Posted K)"
proof -
  from assms have "in_order K"
    by induction (simp_all add: in_order_step, simp add: in_order_def KafkaProducer_fresh_def held_def)
  then show ?thesis by (simp add: in_order_def)
qed

text \<open>A running worker empties the queue in two turns for each message, if no delivery fails.\<close>

fun turns :: "nat \<Rightarrow> KafkaProducer \<Rightarrow> KafkaProducer option" where
  "turns 0 K = Some K"
| "turns (Suc n) K = Option.bind (producer_turn True K) (turns n)"


section \<open>Stopping the producer\<close>

abbreviation message_m :: KafkaMessage where
  "message_m \<equiv> \<lparr>km_Topic = ''t'', km_Key = ''k'', km_Payload = ''p''\<rparr>"

text \<open>
  A worker that is handing over a message when \<^verbatim>\<open>Stop\<close> wakes the waiting threads is not woken: it goes back to the
  empty queue and waits there, while \<^verbatim>\<open>Stop\<close> waits for it.
\<close>

theorem stop_can_hang:
  "\<exists>K. producer_reachable K \<and> \<not> kp_Running K \<and> kp_Worker K = Waiting \<and> KafkaProducer_Stop K = K
     \<and> producer_turn True K = None \<and> producer_turn False K = None"
proof -
  let ?K1 = "KafkaProducer_Start KafkaProducer_fresh"
  let ?K2 = "?K1\<lparr>kp_Worker := Fetching\<rparr>"
  let ?K3 = "KafkaProducer_Stop ?K2"
  let ?K4 = "?K3\<lparr>kp_Worker := Waiting\<rparr>"
  have "producer_turn True ?K1 = Some ?K2" "producer_turn True ?K3 = Some ?K4"
    by (simp_all add: producer_turn_def KafkaProducer_Start_def KafkaProducer_fresh_def KafkaProducer_Stop_def)
  then have "producer_reachable ?K4"
    by (meson producer_reachable.intros producer_step.intros)
  moreover have "\<not> kp_Running ?K4 \<and> KafkaProducer_Stop ?K4 = ?K4 \<and> producer_turn True ?K4 = None \<and> producer_turn False ?K4 = None"
    by (simp add: producer_turn_def KafkaProducer_Start_def KafkaProducer_fresh_def KafkaProducer_Stop_def)
  ultimately show ?thesis by (intro exI [of _ ?K4]) simp
qed

text \<open>
  A message posted before \<^verbatim>\<open>Stop\<close>, such as the announcement that the process leaves, may never be handed over,
  although no delivery fails.
\<close>

theorem stop_can_lose_message:
  "\<exists>K. producer_reachable K \<and> kp_Worker K = Finished \<and> kp_Posted K = [message_m] \<and> kp_Produced K = [] \<and> kp_Queue K = []"
proof -
  let ?K1 = "KafkaProducer_Start KafkaProducer_fresh"
  let ?K2 = "?K1\<lparr>kp_Worker := Fetching\<rparr>"
  let ?K3 = "KafkaProducer_Stop (Produce message_m ?K2)"
  let ?K4 = "?K3\<lparr>kp_Queue := [], kp_Worker := Fetched (Some message_m)\<rparr>"
  let ?K5 = "?K4\<lparr>kp_Worker := Finished\<rparr>"
  have "producer_turn True ?K1 = Some ?K2" "producer_turn True ?K3 = Some ?K4" "producer_turn True ?K4 = Some ?K5"
    by (simp_all add: producer_turn_def KafkaProducer_Start_def KafkaProducer_fresh_def KafkaProducer_Stop_def Produce_def)
  then have "producer_reachable ?K5"
    by (meson producer_reachable.intros producer_step.intros)
  then show ?thesis
    by (intro exI [of _ ?K5]) (simp add: KafkaProducer_Start_def KafkaProducer_fresh_def KafkaProducer_Stop_def Produce_def)
qed

section \<open>Which watchers are called\<close>

datatype 's watch_op = Watch string "'s callback" | Unwatch string uint64

fun watch_run :: "'s watch_op list \<Rightarrow> 's KafkaConsumer \<Rightarrow> 's KafkaConsumer" where
  "watch_run [] C = C"
| "watch_run (Watch t F # ops) C = watch_run ops (snd (RegisterTopicWatcher t F C))"
| "watch_run (Unwatch t n # ops) C = watch_run ops (UnregisterTopicWatcher t n C)"

definition watchers :: "'s KafkaConsumer \<Rightarrow> string \<Rightarrow> ('s callback \<times> 32 word) list" where
  "watchers C t = (case kc_Notifiers C t of None \<Rightarrow> [] | Some L \<Rightarrow> L)"

text \<open>The identifiers that are taken from a topic by later operations.\<close>

fun unwatched :: "string \<Rightarrow> 's watch_op list \<Rightarrow> 32 word set" where
  "unwatched t [] = {}"
| "unwatched t (Watch t' F # ops) = unwatched t ops"
| "unwatched t (Unwatch t' n # ops) = (if t' = t then insert (ucast n) (unwatched t ops) else unwatched t ops)"

text \<open>
  The reference: the callbacks of the topic in the order of registration, the \<open>n\<close>-th registration having the
  identifier \<open>n\<close>, without those a later operation on the same topic takes back.
\<close>

fun active :: "string \<Rightarrow> nat \<Rightarrow> 's watch_op list \<Rightarrow> 's callback list" where
  "active t n [] = []"
| "active t n (Watch t' F # ops) = (if t' = t \<and> of_nat n \<notin> unwatched t ops then [F] else []) @ active t (n + 1) ops"
| "active t n (Unwatch t' k # ops) = active t n ops"

fun registrations :: "'s watch_op list \<Rightarrow> nat" where
  "registrations [] = 0"
| "registrations (Watch t F # ops) = Suc (registrations ops)"
| "registrations (Unwatch t n # ops) = registrations ops"

lemma watchers_register:
  "watchers (snd (RegisterTopicWatcher t' F C)) t =
     watchers C t @ (if t' = t then [(F, ucast (kc_FunctionId C))] else [])"
  by (simp add: watchers_def RegisterTopicWatcher_def Let_def split: option.splits)

lemma watchers_unregister:
  "watchers (UnregisterTopicWatcher t' n C) t = (if t' = t then erase_watcher (ucast n) (watchers C t) else watchers C t)"
  by (auto simp: watchers_def UnregisterTopicWatcher_def split: option.splits)

lemma function_id:
  "kc_FunctionId (snd (RegisterTopicWatcher t F C)) = kc_FunctionId C + 1"
  "kc_FunctionId (UnregisterTopicWatcher t n C) = kc_FunctionId C"
  by (simp_all add: RegisterTopicWatcher_def UnregisterTopicWatcher_def Let_def split: option.splits)

lemma erase_watcher_distinct:
  "distinct (map snd L) \<Longrightarrow> erase_watcher n L = filter (\<lambda>e. snd e \<noteq> n) L"
  by (induction L) (auto simp: image_iff intro!: filter_True [symmetric])

definition ids_below :: "nat \<Rightarrow> 's KafkaConsumer \<Rightarrow> bool" where
  "ids_below n C \<longleftrightarrow> kc_FunctionId C = of_nat n \<and>
     (\<forall>t. distinct (map snd (watchers C t)) \<and> (\<forall>e \<in> set (watchers C t). unat (snd e) < n))"

lemma id_word: "n < 2 ^ 32 \<Longrightarrow> ucast (of_nat n :: uint64) = (of_nat n :: 32 word)"
  by (rule word_unat_eq_iff [THEN iffD2]) (simp add: unat_of_nat unsigned_ucast_eq take_bit_nat_eq_self_iff)

lemma ids_below_register:
  assumes "ids_below n C" "ucast (kc_FunctionId C) = (of_nat n :: 32 word)" "unat (of_nat n :: 32 word) = n"
  shows "ids_below (n + 1) (snd (RegisterTopicWatcher t' F C))"
proof -
  have old: "distinct (map snd (watchers C t))" "\<And>e. e \<in> set (watchers C t) \<Longrightarrow> unat (snd e) < n" for t
    using assms(1) by (auto simp: ids_below_def)
  have "of_nat n \<notin> snd ` set (watchers C t)" for t using old(2) [of _ t] assms(3) by fastforce
  moreover have "kc_FunctionId C + 1 = of_nat (n + 1)" using assms(1) by (simp add: ids_below_def)
  ultimately show ?thesis using old assms(2,3)
    by (auto simp: ids_below_def watchers_register function_id less_Suc_eq)
qed

lemma watch_run_active:
  "ids_below n C \<Longrightarrow> n + registrations ops \<le> 2 ^ 32 \<Longrightarrow>
   map fst (watchers (watch_run ops C) t) =
     map fst (filter (\<lambda>e. snd e \<notin> unwatched t ops) (watchers C t)) @ active t n ops"
proof (induction ops arbitrary: n C)
  case Nil
  then show ?case by simp
next
  case (Cons p ops)
  show ?case
  proof (cases p)
    case (Watch t' F)
    then have n: "n < 2 ^ 32" using Cons.prems(2) by simp
    have id: "ucast (kc_FunctionId C) = (of_nat n :: 32 word)"
      using Cons.prems(1) id_word [OF n] by (simp add: ids_below_def)
    have un: "unat (of_nat n :: 32 word) = n" using n by (simp add: unat_of_nat)
    have "ids_below (n + 1) (snd (RegisterTopicWatcher t' F C))"
      using ids_below_register [OF Cons.prems(1) id un] .
    from Cons.IH [OF this] Cons.prems(2) Watch show ?thesis by (simp add: watchers_register id)
  next
    case (Unwatch t' k)
    have d: "distinct (map snd (watchers C t))" for t using Cons.prems(1) by (simp add: ids_below_def)
    have "ids_below n (UnregisterTopicWatcher t' k C)"
      using Cons.prems(1) by (fastforce simp: ids_below_def watchers_unregister function_id erase_watcher_distinct [OF d] distinct_map_filter)
    from Cons.IH [OF this] Cons.prems(2) Unwatch show ?thesis
      by (auto simp: watchers_unregister erase_watcher_distinct [OF d] intro!: arg_cong [where f = "map fst"] filter_cong)
  qed
qed

text \<open>
  (C26) After any history of fewer than \<open>2 ^ 32\<close> registrations a message calls, once each and in the order of
  their registration, exactly the watchers of its topic that were not taken back under the same topic with
  the identifier they were given.
\<close>

theorem message_calls_active_watchers:
  assumes "registrations ops < 2 ^ 32"
  shows "message_consumed (watch_run ops KafkaConsumer_fresh) Topic Key Payload s =
    foldl (\<lambda>s F. F Key Payload s) s (active Topic 1 ops)"
proof -
  have "ids_below 1 (KafkaConsumer_fresh :: 'a KafkaConsumer)"
    by (simp add: ids_below_def KafkaConsumer_fresh_def watchers_def)
  from watch_run_active [OF this, of ops Topic] assms
  have "map fst (watchers (watch_run ops KafkaConsumer_fresh) Topic) = active Topic 1 ops"
    by (simp add: KafkaConsumer_fresh_def watchers_def)
  moreover have "message_consumed C Topic Key Payload s = foldl (\<lambda>s F. F Key Payload s) s (map fst (watchers C Topic))" for C
    by (cases "kc_Notifiers C Topic") (simp_all add: message_consumed_def watchers_def foldl_map case_prod_unfold)
  ultimately show ?thesis by simp
qed

text \<open>The watcher of the statistics, taken back under another topic than its own, is still called.\<close>

theorem message_calls_active_watchers_witness:
  "message_consumed (watch_run [Watch ''state'' (\<lambda>k p s. s @ [p]), Unwatch ''connection'' 1] KafkaConsumer_fresh)
     ''state'' ''k'' ''p'' [] = [''p'']"
  using message_calls_active_watchers [of "[Watch ''state'' (\<lambda>k p s. s @ [p]), Unwatch ''connection'' 1]" "''state''" "''k''" "''p''" "[]"]
  by simp

theorem produced_in_order_witness:
  "producer_reachable (Produce message_m KafkaProducer_fresh) \<and>
   subseq ([] @ [] @ [message_m]) (kp_Posted (Produce message_m KafkaProducer_fresh))"
proof -
  have r: "producer_reachable (Produce message_m KafkaProducer_fresh)"
    by (rule producer_reachable.step [OF producer_reachable.fresh producer_step.posted])
  from r produced_in_order [OF r] show ?thesis by (simp add: Produce_def KafkaProducer_fresh_def held_def)
qed


section \<open>What the process announces\<close>

text \<open>
  The announcements are that it joins, any number of signs of life and, once the loop is left, that it leaves.
\<close>

lemma keep_alive_loop_shape: "\<exists>n. fst (keep_alive_loop obs) = replicate n EVENT_KEEP_ALIVE"
proof (induction obs rule: keep_alive_loop.induct)
  case 1
  show ?case by (intro exI [of _ 0]) simp
next
  case (2 Running slept obs)
  show ?case
  proof (cases "\<not> Running \<or> \<not> slept")
    case True
    then show ?thesis by (intro exI [of _ 0]) simp
  next
    case False
    with 2 obtain n where "fst (keep_alive_loop obs) = replicate n EVENT_KEEP_ALIVE" by blast
    then show ?thesis using False
      by (intro exI [of _ "Suc n"]) (cases "keep_alive_loop obs"; simp)
  qed
qed

theorem announcements:
  "\<exists>n. EventBusManager_run obs = EVENT_JOIN # replicate n EVENT_KEEP_ALIVE @
     (if snd (keep_alive_loop obs) then [EVENT_LEAVE] else [])"
  using keep_alive_loop_shape [of obs] by (auto simp: EventBusManager_run_def split: prod.splits)

end
