(* ===== verification/SystemCommand.thy ===== *)
theory SystemCommand
  imports Action Request
begin

text \<open>
  The handler of \<^verbatim>\<open>/api/v1/system\<close>, \<^verbatim>\<open>src/framework/RESTAPI_SystemCommand.h\<close>, with the operations of
  \<^verbatim>\<open>MicroService\<close> it calls: the log levels of the sub-systems, their names, and reloading.  What the operating
  system answers (versions, times, memory, certificates) is an argument.
\<close>

section \<open>Sub-systems\<close>

text \<open>A sub-system: its name, the level of its logger, and the certificate files of its hosts.\<close>

record subsystem =
  su_Name :: string
  su_Level :: int
  su_CertFiles :: "string list"

text \<open>\<open>mi_Reloads\<close> are the lists of names that detached threads will reload after ten seconds.\<close>

record microservice =
  mi_SubSystems :: "subsystem list"
  mi_Reloads :: "string list list"

text \<open>The priorities of \<^verbatim>\<open>Poco::Message\<close>, from fatal to trace, are 1 to 8.\<close>

definition LogLevelToString :: "int \<Rightarrow> string" where
  "LogLevelToString Level = (if Level = 7 then ''debug'' else if Level = 6 then ''information''
     else if Level = 1 then ''fatal'' else if Level = 4 then ''warning'' else if Level = 5 then ''notice''
     else if Level = 2 then ''critical'' else if Level = 3 then ''error'' else if Level = 8 then ''trace'' else ''none'')"

definition GetLogLevelNames :: "string list" where
  "GetLogLevelNames = [''none'', ''fatal'', ''critical'', ''error'', ''warning'', ''notice'', ''information'', ''debug'', ''trace'']"

fun set_first :: "platform \<Rightarrow> string \<Rightarrow> int \<Rightarrow> subsystem list \<Rightarrow> bool \<times> subsystem list" where
  "set_first P Sub level [] = (False, [])"
| "set_first P Sub level (i # SubSystems) =
     (if Sub = po_toLower P (su_Name i) then (True, i\<lparr>su_Level := level\<rparr> # SubSystems)
      else (case set_first P Sub level SubSystems of (found, rest) \<Rightarrow> (found, i # rest)))"

text \<open>\<open>parseLevel\<close> is \<^verbatim>\<open>Poco::Logger::parseLevel\<close>, \<open>None\<close> when it throws.\<close>

definition SetSubsystemLogLevel :: "platform \<Rightarrow> (string \<Rightarrow> int option) \<Rightarrow> string \<Rightarrow> string \<Rightarrow>
    subsystem list \<Rightarrow> bool \<times> subsystem list" where
  "SetSubsystemLogLevel P parseLevel SubSystem Level SubSystems = (case parseLevel Level of
     None \<Rightarrow> (False, SubSystems)
   | Some p \<Rightarrow> (let Sub = po_toLower P SubSystem in
       if Sub = ''all'' then (True, map (\<lambda>i. i\<lparr>su_Level := p\<rparr>) SubSystems) else set_first P Sub p SubSystems))"

definition GetSubSystems :: "platform \<Rightarrow> subsystem list \<Rightarrow> string list" where
  "GetSubSystems P SubSystems = map (\<lambda>i. po_toLower P (su_Name i)) SubSystems"

definition GetLogLevels :: "subsystem list \<Rightarrow> (string \<times> string) list" where
  "GetLogLevels SubSystems = map (\<lambda>i. (su_Name i, LogLevelToString (su_Level i))) SubSystems"

text \<open>The sub-system \<^verbatim>\<open>Reload\<close> of a name reinitialises.\<close>

definition Reload :: "platform \<Rightarrow> string \<Rightarrow> subsystem list \<Rightarrow> subsystem option" where
  "Reload P Sub SubSystems = find (\<lambda>i. po_toLower P Sub = po_toLower P (su_Name i)) SubSystems"

section \<open>Identifiers\<close>

definition hex_digit :: "nat \<Rightarrow> char" where
  "hex_digit n = (if n < 10 then char_of (48 + n) else char_of (87 + n))"

text \<open>\<open>r n\<close> is the \<open>n\<close>-th draw of \<^verbatim>\<open>dis\<close>, of 0 to 15, and \<open>v\<close> the draw of \<^verbatim>\<open>dis2\<close>, of 8 to 11.\<close>

definition uuid_digits :: "(nat \<Rightarrow> nat) \<Rightarrow> nat \<Rightarrow> nat \<Rightarrow> string" where
  "uuid_digits r from to = map (\<lambda>i. hex_digit (r i)) [from..<to]"

definition CreateUUID :: "(nat \<Rightarrow> nat) \<Rightarrow> nat \<Rightarrow> string" where
  "CreateUUID r v = uuid_digits r 0 8 @ ''-'' @ uuid_digits r 8 12 @ ''-4'' @ uuid_digits r 12 15 @ ''-'' @
     [hex_digit v] @ uuid_digits r 15 18 @ ''-'' @ uuid_digits r 18 30"

section \<open>The handler\<close>

text \<open>
  What the process and the system answer.  \<open>mc_expires f\<close> is \<open>None\<close> when the file does not exist and an exception
  when it is not a certificate; \<open>mc_filename\<close> is the last part of a path.
\<close>

record machine =
  mc_version :: string
  mc_uptime :: uint64
  mc_start :: uint64
  mc_os :: string
  mc_processors :: nat
  mc_hostname :: string
  mc_ui :: string
  mc_expires :: "string \<Rightarrow> int exn option"
  mc_filename :: "string \<Rightarrow> string"
  mc_extra :: jobj
  mc_fds :: int
  mc_realMem :: uint64
  mc_peakRealMem :: uint64
  mc_virtMem :: uint64
  mc_peakVirtMem :: uint64

fun certificates_loop :: "machine \<Rightarrow> string list \<Rightarrow> string set \<Rightarrow> json list \<Rightarrow> json list option" where
  "certificates_loop M [] CertNames Certificates = Some Certificates"
| "certificates_loop M (f # files) CertNames Certificates =
     (if f = [] then certificates_loop M files CertNames Certificates
      else (case mc_expires M f of
          None \<Rightarrow> certificates_loop M files CertNames Certificates
        | Some e \<Rightarrow> if f \<in> CertNames then certificates_loop M files CertNames Certificates
            else (case e of Inl _ \<Rightarrow> None
              | Inr t \<Rightarrow> certificates_loop M files (insert f CertNames) (Certificates @ [JObject
                  (set_key ''expiresOn'' (JInt t) (set_key ''filename'' (JString (mc_filename M f)) []))]))))"

definition system_info :: "machine \<Rightarrow> json list \<Rightarrow> jobj" where
  "system_info M Certificates =
     set_key ''certificates'' (JArray Certificates)
    (set_key ''UI'' (JString (mc_ui M))
    (set_key ''hostname'' (JString (mc_hostname M))
    (set_key ''processors'' (JInt (int (mc_processors M)))
    (set_key ''os'' (JString (mc_os M))
    (set_key ''start'' (JInt (uint (mc_start M)))
    (set_key ''uptime'' (JInt (uint (mc_uptime M)))
    (set_key ''version'' (JString (mc_version M)) [])))))))"

definition system_resources :: "machine \<Rightarrow> jobj" where
  "system_resources M =
     set_key ''peakVirtMem'' (JInt (uint (mc_peakVirtMem M)))
    (set_key ''currVirtMem'' (JInt (uint (mc_virtMem M)))
    (set_key ''peakRealMem'' (JInt (uint (mc_peakRealMem M)))
    (set_key ''currRealMem'' (JInt (uint (mc_realMem M)))
    (set_key ''numberOfFileDescriptors'' (JInt (mc_fds M)) []))))"

definition system_DoGet :: "machine \<Rightarrow> microservice \<Rightarrow> handler \<Rightarrow> unit io" where
  "system_DoGet M S H = (case HasParameter H ''command'' of
     None \<Rightarrow> BadRequest H Errors_InvalidCommand []
   | Some Arg \<Rightarrow>
       if Arg = ''info'' then (case certificates_loop M (concat (map su_CertFiles (mi_SubSystems S))) {} [] of
           None \<Rightarrow> uncaught H | Some Certificates \<Rightarrow> ReturnObject (system_info M Certificates))
       else if Arg = ''extraConfiguration'' then ReturnObject (mc_extra M)
       else if Arg = ''resources'' then ReturnObject (system_resources M)
       else BadRequest H Errors_InvalidCommand [])"

text \<open>
  The entries of \<^verbatim>\<open>setloglevel\<close>; \<open>parse\<close> is \<^verbatim>\<open>Poco::JSON::Parser\<close> on a text.  The second result is false when an
  exception ends the loop.
\<close>

definition level_entry :: "platform \<Rightarrow> (string \<Rightarrow> json option) \<Rightarrow> json \<Rightarrow> (string \<times> string) option option" where
  "level_entry P parse i = (case po_toString P i of Inl _ \<Rightarrow> None
     | Inr s \<Rightarrow> (case Option.bind (parse s) asObject of None \<Rightarrow> None
       | Some ob \<Rightarrow> if has ob ''tag'' \<and> has ob ''value''
           then (case (po_toString P (getVar ob ''tag''), po_toString P (getVar ob ''value'')) of
               (Inr Name, Inr Value) \<Rightarrow> Some (Some (Name, Value)) | _ \<Rightarrow> None)
           else Some None))"

fun set_levels :: "platform \<Rightarrow> (string \<Rightarrow> json option) \<Rightarrow> (string \<Rightarrow> int option) \<Rightarrow> json list \<Rightarrow> subsystem list \<Rightarrow>
    subsystem list \<times> bool" where
  "set_levels P parse parseLevel [] subs = (subs, True)"
| "set_levels P parse parseLevel (i # block) subs = (case level_entry P parse i of
     None \<Rightarrow> (subs, False)
   | Some None \<Rightarrow> set_levels P parse parseLevel block subs
   | Some (Some (Name, Value)) \<Rightarrow>
       set_levels P parse parseLevel block (snd (SetSubsystemLogLevel P parseLevel Name Value subs)))"

definition strings_of :: "platform \<Rightarrow> json list \<Rightarrow> string list option" where
  "strings_of P js = (if list_all (\<lambda>j. \<not> is_thrown (po_toString P j)) js
     then Some (map (\<lambda>j. case po_toString P j of Inr s \<Rightarrow> s | Inl _ \<Rightarrow> []) js) else None)"

definition system_DoPost :: "platform \<Rightarrow> (string \<Rightarrow> json option) \<Rightarrow> (string \<Rightarrow> int option) \<Rightarrow> handler \<Rightarrow>
    microservice \<Rightarrow> microservice io" where
  "system_DoPost P parse parseLevel H S = (case h_body H of
     None \<Rightarrow> do { null_pointer H; ret S }
   | Some Obj \<Rightarrow>
       if \<not> has Obj ''command'' then do { BadRequest H Errors_InvalidCommand []; ret S }
       else (case po_toString P (getVar Obj ''command'') of
         Inl _ \<Rightarrow> do { uncaught H; ret S }
       | Inr text \<Rightarrow> (let Command = po_toLower P text in
           if Command = ''setloglevel'' then
             (case getArray Obj ''subsystems'' of
                None \<Rightarrow> do { BadRequest H Errors_MissingOrInvalidParameters []; ret S }
              | Some block \<Rightarrow> (case set_levels P parse parseLevel block (mi_SubSystems S) of (subs, ok) \<Rightarrow>
                  do { (if ok then OK H else uncaught H); ret (S\<lparr>mi_SubSystems := subs\<rparr>) }))
           else if Command = ''getloglevels'' then do {
             ReturnObject (set_key ''tagList'' (JArray (map (\<lambda>(Name, Level). JObject (set_key ''value'' (JString Level)
               (set_key ''tag'' (JString Name) []))) (GetLogLevels (mi_SubSystems S)))) []); ret S }
           else if Command = ''getloglevelnames'' then do {
             ReturnObject (set_key ''list'' (JArray (map JString GetLogLevelNames)) []); ret S }
           else if Command = ''getsubsystemnames'' then do {
             ReturnObject (set_key ''list'' (JArray (map JString (GetSubSystems P (mi_SubSystems S)))) []); ret S }
           else if Command = ''reload'' then
             (case getArray Obj ''subsystems'' of
                None \<Rightarrow> do { OK H; ret S }
              | Some names \<Rightarrow> (case strings_of P names of
                  None \<Rightarrow> do { uncaught H; ret S }
                | Some Names \<Rightarrow> do { OK H; ret (S\<lparr>mi_Reloads := mi_Reloads S @ [Names]\<rparr>) }))
           else do { BadRequest H Errors_MissingOrInvalidParameters []; ret S })))"

section \<open>Properties\<close>

text \<open>Each request is answered once, and no other service is called.\<close>

lemma once_system_DoGet: "answers_once (system_DoGet M S H)"
  unfolding system_DoGet_def uncaught_def by (auto intro!: replies_intros split: option.split)

lemma once_system_DoPost: "answers_once (system_DoPost P parse parseLevel H S)"
  unfolding system_DoPost_def uncaught_def null_pointer_def Let_def
  by (simp split: option.split sum.split prod.split) (intro conjI impI allI; intro once_then replies_intros)

lemma emits_system_DoPost: "emits (\<lambda>_. False) (system_DoPost P parse parseLevel H S)"
  unfolding system_DoPost_def uncaught_def null_pointer_def Let_def
  by (auto intro!: emits_intros split: option.split sum.split prod.split)

text \<open>What setting a level does: all sub-systems, or the first one of that name, and nothing when the level is unknown.\<close>

lemma set_first_split:
  assumes "\<forall>i \<in> set pre. po_toLower P (su_Name i) \<noteq> Sub" "po_toLower P (su_Name i) = Sub"
  shows "set_first P Sub p (pre @ i # post) = (True, pre @ i\<lparr>su_Level := p\<rparr> # post)"
  using assms by (induction pre) auto

lemma set_first_none: "\<forall>i \<in> set subs. po_toLower P (su_Name i) \<noteq> Sub \<Longrightarrow> set_first P Sub p subs = (False, subs)"
  by (induction subs) auto

lemma set_first_names: "map su_Name (snd (set_first P Sub p subs)) = map su_Name subs"
  by (induction subs) (auto split: prod.splits)

lemma set_levels_names: "map su_Name (fst (set_levels P parse parseLevel block subs)) = map su_Name subs"
proof (induction P parse parseLevel block subs rule: set_levels.induct)
  case (2 P parse parseLevel i block subs)
  have "map su_Name (snd (SetSubsystemLogLevel P parseLevel n v ss)) = map su_Name ss" for n v ss
    by (simp add: SetSubsystemLogLevel_def Let_def set_first_names split: option.split)
  then show ?case using 2 by (auto split: option.splits)
qed simp

text \<open>
  A level that was set for all is the one the names of the levels show, for every level the library knows.
\<close>

theorem levels_shown:
  assumes "parseLevel Level = Some p" "po_toLower P SubSystem = ''all''"
  shows "GetLogLevels (snd (SetSubsystemLogLevel P parseLevel SubSystem Level subs)) =
    map (\<lambda>i. (su_Name i, LogLevelToString p)) subs"
  using assms by (simp add: SetSubsystemLogLevel_def GetLogLevels_def)

lemma LogLevelToString_named: "LogLevelToString p \<in> set GetLogLevelNames"
  by (simp add: LogLevelToString_def GetLogLevelNames_def)

text \<open>The identifiers the process makes are ones its handlers accept.\<close>

lemma hex_digit_xdigit: "n < 16 \<Longrightarrow> is_xdigit (hex_digit n)"
  using chr_code_char_of [of "48 + n"] chr_code_char_of [of "87 + n"]
  by (auto simp: hex_digit_def is_xdigit_def is_digit_def)

theorem CreateUUID_valid:
  assumes "\<And>n. r n < 16" "v < 16"
  shows "ValidUUID (CreateUUID r v)"
proof -
  have d: "list_all (\<lambda>i. i = CHR ''-'' \<or> is_xdigit i) (uuid_digits r a b)" for a b
    using hex_digit_xdigit assms(1) by (simp add: uuid_digits_def list_all_iff)
  have l: "length (uuid_digits r a b) = b - a" for a b by (simp add: uuid_digits_def)
  have "is_xdigit (CHR ''4'')" by (simp add: is_xdigit_def is_digit_def)
  then have "list_all (\<lambda>i. i = CHR ''-'' \<or> is_xdigit i) (CreateUUID r v)"
    using d hex_digit_xdigit [OF assms(2)] by (simp add: CreateUUID_def)
  moreover have "length (CreateUUID r v) = 36" by (simp add: CreateUUID_def l)
  moreover have "CHR ''-'' \<in> set (CreateUUID r v)" by (simp add: CreateUUID_def)
  ultimately show ?thesis by (auto simp: ValidUUID_def filter_empty_conv)
qed

end
